(* ===== verification/Prelude.thy ===== *)
theory Prelude
  imports Main "HOL-Library.Word" "HOL-Library.Sublist"
begin

text \<open>
  Shared vocabulary of the development: nullable C strings, the C library routines the
  sources use on strings and numbers (\<open>strtok\<close>, \<open>atol\<close>, \<open>sprintf\<close> with
  \<open>%ld\<close> and \<open>%s\<close>, \<open>strstr\<close>), status values, and the named collections that the
  component theories extend.

  A C \<open>long\<close> is modelled by \<open>int\<close>; where a claim depends on the width of the type
  the bound is written out (\<open>long_range\<close>).  A null pointer is \<open>None\<close>.
\<close>

named_theorems cstr_simps "facts about the C string routines"
named_theorems store_simps "lookup-after-operation laws of the bean stores"
named_theorems frame_simps "tables an operation leaves alone"

type_synonym cstr = "string option"

datatype status = AXIS2_SUCCESS | AXIS2_FAILURE

definition long_range :: "int \<Rightarrow> bool" where
  "long_range n \<longleftrightarrow> - (2 ^ 63) \<le> n \<and> n < 2 ^ 63"

definition int_range :: "int \<Rightarrow> bool" where
  "int_range n \<longleftrightarrow> - (2 ^ 31) \<le> n \<and> n < 2 ^ 31"

section \<open>Numbers to strings and back\<close>

definition digit_char :: "nat \<Rightarrow> char" where
  "digit_char d = char_of (48 + d)"

definition is_digit :: "char \<Rightarrow> bool" where
  "is_digit c \<longleftrightarrow> 48 \<le> (of_char c :: nat) \<and> (of_char c :: nat) \<le> 57"

definition digit_val :: "char \<Rightarrow> nat" where
  "digit_val c = of_char c - 48"

fun show_nat :: "nat \<Rightarrow> string" where
  "show_nat n = (if n < 10 then [digit_char n]
                 else show_nat (n div 10) @ [digit_char (n mod 10)])"

declare show_nat.simps [simp del]

text \<open>\<open>sprintf(buf, "%ld", n)\<close>\<close>

definition sprintf_ld :: "int \<Rightarrow> string" where
  "sprintf_ld n = (if n < 0 then CHR ''-'' # show_nat (nat (- n)) else show_nat (nat n))"

definition read_nat :: "string \<Rightarrow> nat" where
  "read_nat s = foldl (\<lambda>a c. 10 * a + digit_val c) 0 (takeWhile is_digit s)"

definition is_space :: "char \<Rightarrow> bool" where
  "is_space c \<longleftrightarrow> c = CHR '' '' \<or> (9 \<le> (of_char c :: nat) \<and> (of_char c :: nat) \<le> 13)"

text \<open>
  \<open>atol\<close>: leading white space, an optional sign, then digits up to the first other
  character; 0 where there is no digit.
\<close>

definition atol :: "string \<Rightarrow> int" where
  "atol s = (case dropWhile is_space s of
               [] \<Rightarrow> 0
             | c # r \<Rightarrow> if c = CHR ''-'' then - int (read_nat r)
                        else if c = CHR ''+'' then int (read_nat r)
                        else int (read_nat (c # r)))"

lemma of_char_digit_char: "d < 10 \<Longrightarrow> (of_char (digit_char d) :: nat) = 48 + d"
  by (simp add: digit_char_def)

lemma is_digit_digit_char: "d < 10 \<Longrightarrow> is_digit (digit_char d)"
  by (simp add: is_digit_def of_char_digit_char)

lemma digit_val_digit_char: "d < 10 \<Longrightarrow> digit_val (digit_char d) = d"
  by (simp add: digit_val_def of_char_digit_char)

lemma show_nat_digits: "c \<in> set (show_nat n) \<Longrightarrow> is_digit c"
proof (induction n rule: show_nat.induct)
  case (1 n)
  then show ?case
    by (cases "n < 10") (auto simp: show_nat.simps[of n] is_digit_digit_char)
qed

lemma show_nat_nonempty: "show_nat n \<noteq> []"
  by (subst show_nat.simps) simp

lemma takeWhile_show_nat: "takeWhile is_digit (show_nat n) = show_nat n"
  using show_nat_digits by (simp add: takeWhile_eq_all_conv)

lemma foldl_show_nat: "foldl (\<lambda>a c. 10 * a + digit_val c) 0 (show_nat n) = n"
proof (induction n rule: show_nat.induct)
  case (1 n)
  show ?case
  proof (cases "n < 10")
    case True
    then show ?thesis by (simp add: show_nat.simps[of n] digit_val_digit_char)
  next
    case False
    then show ?thesis using 1
      by (simp add: show_nat.simps[of n] digit_val_digit_char)
  qed
qed

lemma read_show_nat [cstr_simps]: "read_nat (show_nat n) = n"
  by (simp add: read_nat_def takeWhile_show_nat foldl_show_nat)

lemma digit_not_special:
  "is_digit c \<Longrightarrow> \<not> is_space c \<and> c \<noteq> CHR ''-'' \<and> c \<noteq> CHR ''+'' \<and> c \<noteq> CHR '',''
     \<and> c \<noteq> CHR '':''"
  by (auto simp: is_digit_def is_space_def)

lemma atol_show_nat: "atol (show_nat n) = int n"
proof -
  obtain c r where cr: "show_nat n = c # r"
    using show_nat_nonempty[of n] by (cases "show_nat n") auto
  then have "is_digit c" using show_nat_digits[of c n] by simp
  then have "\<not> is_space c" "c \<noteq> CHR ''-''" "c \<noteq> CHR ''+''"
    using digit_not_special by auto
  then show ?thesis
    using read_show_nat[of n] by (simp add: atol_def cr)
qed

lemma atol_sprintf_ld [cstr_simps]: "atol (sprintf_ld n) = n"
proof (cases "n < 0")
  case True
  then have "sprintf_ld n = CHR ''-'' # show_nat (nat (- n))" by (simp add: sprintf_ld_def)
  then show ?thesis using True
    by (simp add: atol_def is_space_def read_show_nat)
next
  case False
  then show ?thesis by (simp add: sprintf_ld_def atol_show_nat)
qed

lemma sprintf_ld_inject [cstr_simps]: "sprintf_ld m = sprintf_ld n \<longleftrightarrow> m = n"
  by (metis atol_sprintf_ld)

lemma sprintf_ld_nonempty [simp]: "sprintf_ld n \<noteq> []"
  by (simp add: sprintf_ld_def show_nat_nonempty)

lemma sprintf_ld_no_comma [simp]: "CHR '','' \<notin> set (sprintf_ld n)"
proof -
  have "CHR '','' \<notin> set (show_nat k)" for k
    using show_nat_digits digit_not_special by blast
  then show ?thesis by (simp add: sprintf_ld_def)
qed

lemma length_show_nat: "n < 10 ^ Suc k \<Longrightarrow> length (show_nat n) \<le> Suc k"
proof (induction k arbitrary: n)
  case 0
  then show ?case by (simp add: show_nat.simps[of n])
next
  case (Suc k)
  show ?case
  proof (cases "n < 10")
    case True
    then show ?thesis by (simp add: show_nat.simps[of n])
  next
    case False
    have "n div 10 < 10 ^ Suc k" using Suc.prems by (simp add: less_mult_imp_div_less)
    then have "length (show_nat (n div 10)) \<le> Suc k" by (rule Suc.IH)
    with False show ?thesis by (simp add: show_nat.simps[of n])
  qed
qed

text \<open>A \<open>long\<close> prints in at most 20 characters: it fits the 32 byte buffers of the code.\<close>

lemma length_sprintf_ld:
  assumes "long_range n"
  shows "length (sprintf_ld n) \<le> 20"
proof -
  have "nat n < 10 ^ Suc 18" and "nat (- n) < 10 ^ Suc 18"
    using assms by (auto simp: long_range_def)
  then have "length (show_nat (nat n)) \<le> Suc 18" "length (show_nat (nat (- n))) \<le> Suc 18"
    by (blast intro: length_show_nat)+
  then show ?thesis by (simp add: sprintf_ld_def)
qed

section \<open>Tokens, prefixes and substrings\<close>

fun split_at :: "char \<Rightarrow> string \<Rightarrow> string list" where
  "split_at d [] = [[]]"
| "split_at d (c # cs) =
     (if c = d then [] # split_at d cs
      else (case split_at d cs of [] \<Rightarrow> [[c]] | t # ts \<Rightarrow> (c # t) # ts))"

text \<open>
  The sequence of tokens that \<open>strtok(s, d), strtok(NULL, d), \<dots>\<close> returns for a one
  character delimiter: empty tokens are skipped.
\<close>

definition strtok_all :: "char \<Rightarrow> string \<Rightarrow> string list" where
  "strtok_all d s = filter (\<lambda>t. t \<noteq> []) (split_at d s)"

fun join_with :: "string \<Rightarrow> string list \<Rightarrow> string" where
  "join_with sep [] = []"
| "join_with sep [t] = t"
| "join_with sep (t # u # ts) = t @ sep @ join_with sep (u # ts)"

lemma split_at_nonempty [simp]: "split_at d s \<noteq> []"
  by (induction s) (auto split: list.splits)

lemma split_at_no_delim: "d \<notin> set s \<Longrightarrow> split_at d s = [s]"
  by (induction s) auto

lemma split_at_append: "d \<notin> set s \<Longrightarrow> split_at d (s @ d # r) = s # split_at d r"
  by (induction s) auto

lemma split_at_tokens_no_delim: "t \<in> set (split_at d s) \<Longrightarrow> d \<notin> set t"
proof (induction s arbitrary: t)
  case (Cons c s)
  then show ?case
    by (cases "split_at d s") (auto split: if_splits)
qed simp

lemma strtok_no_delim: "d \<notin> set s \<Longrightarrow> s \<noteq> [] \<Longrightarrow> strtok_all d s = [s]"
  by (simp add: strtok_all_def split_at_no_delim)

lemma strtok_Nil [simp]: "strtok_all d [] = []"
  by (simp add: strtok_all_def)

lemma strtok_append:
  "d \<notin> set s \<Longrightarrow> s \<noteq> [] \<Longrightarrow> strtok_all d (s @ d # r) = s # strtok_all d r"
  by (simp add: strtok_all_def split_at_append)

lemma split_at_snoc:
  "d \<notin> set t \<Longrightarrow> split_at d (s @ d # t) = split_at d s @ [t]"
proof (induction s)
  case Nil
  then show ?case by (simp add: split_at_no_delim)
next
  case (Cons c s)
  then show ?case by (cases "split_at d s") auto
qed

text \<open>Appending \<open>,t\<close> to a list string appends the token.\<close>

lemma strtok_snoc [cstr_simps]:
  "d \<notin> set t \<Longrightarrow> t \<noteq> [] \<Longrightarrow> strtok_all d (s @ d # t) = strtok_all d s @ [t]"
  by (simp add: strtok_all_def split_at_snoc)

lemma strtok_tokens:
  "t \<in> set (strtok_all d s) \<Longrightarrow> t \<noteq> [] \<and> d \<notin> set t"
  by (auto simp: strtok_all_def dest: split_at_tokens_no_delim)

lemma strtok_join [cstr_simps]:
  "\<forall>t \<in> set ts. t \<noteq> [] \<and> d \<notin> set t \<Longrightarrow> strtok_all d (join_with [d] ts) = ts"
  by (induction "[d]" ts rule: join_with.induct)
     (auto simp: strtok_no_delim strtok_append)

text \<open>The position \<open>strstr\<close> finds, as the text before the match and the text from it.\<close>

fun strstr :: "string \<Rightarrow> string \<Rightarrow> (string \<times> string) option" where
  "strstr [] p = (if p = [] then Some ([], []) else None)"
| "strstr (c # cs) p =
     (if prefix p (c # cs) then Some ([], c # cs)
      else (case strstr cs p of None \<Rightarrow> None | Some (b, r) \<Rightarrow> Some (c # b, r)))"

lemma strstr_Some: "strstr s p = Some (b, r) \<Longrightarrow> s = b @ r \<and> prefix p r"
  by (induction s arbitrary: b r) (auto split: if_splits option.splits)

lemma strstr_None_iff: "strstr s p = None \<longleftrightarrow> \<not> sublist p s"
proof (induction s)
  case (Cons c s)
  then show ?case by (auto simp: sublist_Cons_right split: option.splits)
qed simp

text \<open>
  \<open>sprintf\<close> with \<open>%s\<close>: the C library the code is built with prints a null pointer
  as \<open>(null)\<close>, and the retrieve callbacks of the code compare with that text.
\<close>

definition null_text :: string where
  "null_text = ''(null)''"

definition sprintf_s :: "cstr \<Rightarrow> string" where
  "sprintf_s s = (case s of None \<Rightarrow> null_text | Some t \<Rightarrow> t)"

lemma sprintf_s_simps [simp]:
  "sprintf_s None = null_text" "sprintf_s (Some t) = t"
  by (simp_all add: sprintf_s_def)

section \<open>Lists as the code's array lists\<close>

text \<open>
  An \<open>axutil_array_list_t *\<close> is a list, or \<open>None\<close> for a null list.  A null list has
  size 0 and every access to it yields null; reading past the end yields null.
\<close>

definition list_size :: "'a list option \<Rightarrow> nat" where
  "list_size l = (case l of None \<Rightarrow> 0 | Some xs \<Rightarrow> length xs)"

definition list_get :: "'a list option \<Rightarrow> nat \<Rightarrow> 'a option" where
  "list_get l i = (case l of None \<Rightarrow> None | Some xs \<Rightarrow> if i < length xs then Some (xs ! i) else None)"

definition list_elems :: "'a list option \<Rightarrow> 'a list" where
  "list_elems l = (case l of None \<Rightarrow> [] | Some xs \<Rightarrow> xs)"

lemma list_elems_simps [simp]: "list_elems None = []" "list_elems (Some xs) = xs"
  by (simp_all add: list_elems_def)

lemma list_size_elems: "list_size l = length (list_elems l)"
  by (simp add: list_size_def list_elems_def split: option.splits)

lemma list_get_elems: "list_get l i = (if i < length (list_elems l) then Some (list_elems l ! i) else None)"
  by (simp add: list_get_def list_elems_def split: option.splits)

text \<open>Null-terminated-list equality, \<open>axutil_strcmp(a, b) == 0\<close> on non-null strings.\<close>

definition is_null :: "'a option \<Rightarrow> bool" where
  "is_null x \<longleftrightarrow> x = None"

lemma find_SomeD: "find P xs = Some x \<Longrightarrow> x \<in> set xs \<and> P x"
  by (induction xs) (auto split: if_splits)

end
