(* ===== verification/Sandesha_Constants.thy ===== *)
theory Sandesha_Constants
  imports Prelude
begin

text \<open>
  The constants of \<open>include/sandesha2_constants.h\<close> that the modelled components use:
  specification versions and namespaces, actions, the message type enumeration and the
  names under which sequence properties are stored.
\<close>

section \<open>Specification versions, namespaces and actions\<close>

definition SPEC_VERSION_1_0 :: string where
  "SPEC_VERSION_1_0 = ''Spec_2005_02''"

definition SPEC_VERSION_1_1 :: string where
  "SPEC_VERSION_1_1 = ''Spec_2007_02''"

definition SPEC_2005_02_NS_URI :: string where
  "SPEC_2005_02_NS_URI = ''http://schemas.xmlsoap.org/ws/2005/02/rm''"

definition SPEC_2007_02_NS_URI :: string where
  "SPEC_2007_02_NS_URI = ''http://docs.oasis-open.org/ws-rx/wsrm/200702''"

definition MAKE_CONNECTION_SPEC_2007_02_NS_URI :: string where
  "MAKE_CONNECTION_SPEC_2007_02_NS_URI = ''http://docs.oasis-open.org/ws-rx/wsmc/200702''"

text \<open>Every action URI of a specification is its namespace followed by the part name.\<close>

definition action_2005_02 :: "string \<Rightarrow> string" where
  "action_2005_02 part = SPEC_2005_02_NS_URI @ ''/'' @ part"

definition action_2007_02 :: "string \<Rightarrow> string" where
  "action_2007_02 part = SPEC_2007_02_NS_URI @ ''/'' @ part"

definition SPEC_2007_02_ACTION_MAKE_CONNECTION :: string where
  "SPEC_2007_02_ACTION_MAKE_CONNECTION =
     MAKE_CONNECTION_SPEC_2007_02_NS_URI @ ''/MakeConnection''"

lemmas spec_defs = SPEC_VERSION_1_0_def SPEC_VERSION_1_1_def SPEC_2005_02_NS_URI_def
  SPEC_2007_02_NS_URI_def

lemma spec_versions_differ [simp]:
  "SPEC_VERSION_1_0 \<noteq> SPEC_VERSION_1_1" "SPEC_VERSION_1_1 \<noteq> SPEC_VERSION_1_0"
  by (simp_all add: spec_defs)

lemma ns_uris_differ [simp]:
  "SPEC_2005_02_NS_URI \<noteq> SPEC_2007_02_NS_URI" "SPEC_2007_02_NS_URI \<noteq> SPEC_2005_02_NS_URI"
  by (simp_all add: spec_defs)

section \<open>Message types\<close>

datatype message_type =
    MSG_TYPE_UNKNOWN
  | MSG_TYPE_CREATE_SEQ
  | MSG_TYPE_CREATE_SEQ_RESPONSE
  | MSG_TYPE_APPLICATION
  | MSG_TYPE_ACK
  | MSG_TYPE_CLOSE_SEQ
  | MSG_TYPE_CLOSE_SEQ_RESPONSE
  | MSG_TYPE_TERMINATE_SEQ
  | MSG_TYPE_ACK_REQUEST
  | MSG_TYPE_TERMINATE_SEQ_RESPONSE
  | MSG_TYPE_FAULT_MSG
  | MSG_TYPE_MAX_MESSAGE_TYPE
  | MSG_TYPE_MAKE_CONNECTION_MSG

text \<open>The value the enumeration gives each type, which is what the database stores.\<close>

fun msg_type_code :: "message_type \<Rightarrow> int" where
  "msg_type_code MSG_TYPE_UNKNOWN = 0"
| "msg_type_code MSG_TYPE_CREATE_SEQ = 1"
| "msg_type_code MSG_TYPE_CREATE_SEQ_RESPONSE = 2"
| "msg_type_code MSG_TYPE_APPLICATION = 3"
| "msg_type_code MSG_TYPE_ACK = 4"
| "msg_type_code MSG_TYPE_CLOSE_SEQ = 5"
| "msg_type_code MSG_TYPE_CLOSE_SEQ_RESPONSE = 6"
| "msg_type_code MSG_TYPE_TERMINATE_SEQ = 7"
| "msg_type_code MSG_TYPE_ACK_REQUEST = 8"
| "msg_type_code MSG_TYPE_TERMINATE_SEQ_RESPONSE = 9"
| "msg_type_code MSG_TYPE_FAULT_MSG = 10"
| "msg_type_code MSG_TYPE_MAX_MESSAGE_TYPE = 11"
| "msg_type_code MSG_TYPE_MAKE_CONNECTION_MSG = 12"

lemma msg_type_code_inject [simp]: "msg_type_code a = msg_type_code b \<longleftrightarrow> a = b"
  by (cases a; cases b) simp_all

text \<open>The type a stored number stands for; the readers cast the number to the enumeration.\<close>

definition msg_types :: "message_type list" where
  "msg_types = [MSG_TYPE_UNKNOWN, MSG_TYPE_CREATE_SEQ, MSG_TYPE_CREATE_SEQ_RESPONSE,
     MSG_TYPE_APPLICATION, MSG_TYPE_ACK, MSG_TYPE_CLOSE_SEQ, MSG_TYPE_CLOSE_SEQ_RESPONSE,
     MSG_TYPE_TERMINATE_SEQ, MSG_TYPE_ACK_REQUEST, MSG_TYPE_TERMINATE_SEQ_RESPONSE,
     MSG_TYPE_FAULT_MSG, MSG_TYPE_MAX_MESSAGE_TYPE, MSG_TYPE_MAKE_CONNECTION_MSG]"

definition msg_type_of_code :: "int \<Rightarrow> message_type" where
  "msg_type_of_code n = (if 0 \<le> n \<and> nat n < length msg_types then msg_types ! nat n
                         else MSG_TYPE_UNKNOWN)"

lemma msg_type_of_code_code [simp]: "msg_type_of_code (msg_type_code t) = t"
  by (cases t) (simp_all add: msg_type_of_code_def msg_types_def)

text \<open>The enumeration order.\<close>

instantiation message_type :: linorder
begin

definition less_eq_message_type :: "message_type \<Rightarrow> message_type \<Rightarrow> bool" where
  "less_eq_message_type a b \<longleftrightarrow> msg_type_code a \<le> msg_type_code b"

definition less_message_type :: "message_type \<Rightarrow> message_type \<Rightarrow> bool" where
  "less_message_type a b \<longleftrightarrow> msg_type_code a < msg_type_code b"

instance
  by standard (auto simp: less_eq_message_type_def less_message_type_def)

end

section \<open>Sequence property names\<close>

definition SEQ_PROP_ALL_SEQS :: string where
  "SEQ_PROP_ALL_SEQS = ''AllSequences''"
definition SEQ_PROP_ADDRESSING_NAMESPACE_VALUE :: string where
  "SEQ_PROP_ADDRESSING_NAMESPACE_VALUE = ''AddressingNamespaceValue''"
definition SEQ_PROP_CLIENT_COMPLETED_MESSAGES :: string where
  "SEQ_PROP_CLIENT_COMPLETED_MESSAGES = ''ClientCompletedMessages''"
definition SEQ_PROP_SERVER_COMPLETED_MESSAGES :: string where
  "SEQ_PROP_SERVER_COMPLETED_MESSAGES = ''ServerCompletedMessages''"
definition SEQ_PROP_TO_EPR :: string where
  "SEQ_PROP_TO_EPR = ''ToEPR''"
definition SEQ_PROP_ACKS_TO_EPR :: string where
  "SEQ_PROP_ACKS_TO_EPR = ''acksToEPR''"
definition SEQ_PROP_OUTGOING_SEQUENCE_ID :: string where
  "SEQ_PROP_OUTGOING_SEQUENCE_ID = ''OutgoingSequenceId''"
definition SEQ_PROP_OUTGOING_INTERNAL_SEQUENCE_ID :: string where
  "SEQ_PROP_OUTGOING_INTERNAL_SEQUENCE_ID = ''OutgoingInternalSequenceId''"
definition SEQ_PROP_REPLY_TO_EPR :: string where
  "SEQ_PROP_REPLY_TO_EPR = ''ReplyToEPR''"
definition SEQ_PROP_NEXT_MESSAGE_NUMBER :: string where
  "SEQ_PROP_NEXT_MESSAGE_NUMBER = ''NextMsgNo''"
definition SEQ_PROP_INCOMING_SEQ_LIST :: string where
  "SEQ_PROP_INCOMING_SEQ_LIST = ''IncomingSequenceList''"
definition SEQ_PROP_TERMINATE_ADDED :: string where
  "SEQ_PROP_TERMINATE_ADDED = ''TerminateAdded''"
definition SEQ_PROP_LAST_ACTIVATED_TIME :: string where
  "SEQ_PROP_LAST_ACTIVATED_TIME = ''LastActivatedTime''"
definition SEQ_PROP_NO_OF_OUTGOING_MSGS_ACKED :: string where
  "SEQ_PROP_NO_OF_OUTGOING_MSGS_ACKED = ''NoOfOutGoingMessagesAcked''"
definition SEQ_PROP_TRANSPORT_TO :: string where
  "SEQ_PROP_TRANSPORT_TO = ''TransportTo''"
definition SEQ_PROP_SEQ_CLOSED :: string where
  "SEQ_PROP_SEQ_CLOSED = ''SequenceClosed''"
definition SEQ_PROP_SEQ_TERMINATED :: string where
  "SEQ_PROP_SEQ_TERMINATED = ''SequenceTerminated''"
definition SEQ_PROP_SEQ_TIMED_OUT :: string where
  "SEQ_PROP_SEQ_TIMED_OUT = ''SequenceTimedOut''"
definition SEQ_PROP_HIGHEST_IN_MSG_NUMBER :: string where
  "SEQ_PROP_HIGHEST_IN_MSG_NUMBER = ''HighestInMsgNumber''"
definition SEQ_PROP_HIGHEST_IN_MSG_KEY :: string where
  "SEQ_PROP_HIGHEST_IN_MSG_KEY = ''HighestInMsgKey''"
definition SEQ_PROP_HIGHEST_IN_MSG_ID :: string where
  "SEQ_PROP_HIGHEST_IN_MSG_ID = ''HighestInMsgId''"
definition SEQ_PROP_LAST_OUT_MESSAGE_NO :: string where
  "SEQ_PROP_LAST_OUT_MESSAGE_NO = ''LastOutMessage''"
definition SEQ_PROP_LAST_IN_MESSAGE_ID :: string where
  "SEQ_PROP_LAST_IN_MESSAGE_ID = ''LastInMessageId''"
definition SEQ_PROP_ACKS_TO_REF_PARAM :: string where
  "SEQ_PROP_ACKS_TO_REF_PARAM = ''acksToRefParam''"
definition SEQ_PROP_LAST_OUT_MESSAGE_NUMBER :: string where
  "SEQ_PROP_LAST_OUT_MESSAGE_NUMBER = ''LastOutMsgNo''"
definition SEQ_PROP_REPLAY :: string where
  "SEQ_PROP_REPLAY = ''Replay''"
definition SEQ_PROP_RELATED_MSG_ID :: string where
  "SEQ_PROP_RELATED_MSG_ID = ''related_msg_id''"
definition SEQ_PROP_OUT_CREATE_SEQ_SENT :: string where
  "SEQ_PROP_OUT_CREATE_SEQ_SENT = ''OutCreateSeqSent''"
definition SEQ_PROP_OFFERED_SEQ :: string where
  "SEQ_PROP_OFFERED_SEQ = ''OfferedSequence''"
definition SEQ_PROP_HIGHEST_OUT_MSG_NUMBER :: string where
  "SEQ_PROP_HIGHEST_OUT_MSG_NUMBER = ''HighestOutMsgNumber''"
definition SEQ_PROP_HIGHEST_OUT_RELATES_TO :: string where
  "SEQ_PROP_HIGHEST_OUT_RELATES_TO = ''HighestOutRelatesTo''"

lemmas prop_names = SEQ_PROP_ALL_SEQS_def SEQ_PROP_ADDRESSING_NAMESPACE_VALUE_def
  SEQ_PROP_CLIENT_COMPLETED_MESSAGES_def SEQ_PROP_SERVER_COMPLETED_MESSAGES_def
  SEQ_PROP_TO_EPR_def SEQ_PROP_ACKS_TO_EPR_def SEQ_PROP_OUTGOING_SEQUENCE_ID_def
  SEQ_PROP_OUTGOING_INTERNAL_SEQUENCE_ID_def SEQ_PROP_REPLY_TO_EPR_def
  SEQ_PROP_NEXT_MESSAGE_NUMBER_def SEQ_PROP_INCOMING_SEQ_LIST_def SEQ_PROP_TERMINATE_ADDED_def
  SEQ_PROP_LAST_ACTIVATED_TIME_def SEQ_PROP_NO_OF_OUTGOING_MSGS_ACKED_def
  SEQ_PROP_TRANSPORT_TO_def SEQ_PROP_SEQ_CLOSED_def SEQ_PROP_SEQ_TERMINATED_def
  SEQ_PROP_SEQ_TIMED_OUT_def SEQ_PROP_HIGHEST_IN_MSG_NUMBER_def SEQ_PROP_HIGHEST_IN_MSG_KEY_def
  SEQ_PROP_HIGHEST_IN_MSG_ID_def SEQ_PROP_LAST_OUT_MESSAGE_NO_def SEQ_PROP_LAST_IN_MESSAGE_ID_def
  SEQ_PROP_ACKS_TO_REF_PARAM_def SEQ_PROP_REPLAY_def SEQ_PROP_RELATED_MSG_ID_def
  SEQ_PROP_LAST_OUT_MESSAGE_NUMBER_def SEQ_PROP_OUT_CREATE_SEQ_SENT_def SEQ_PROP_OFFERED_SEQ_def
  SEQ_PROP_HIGHEST_OUT_MSG_NUMBER_def SEQ_PROP_HIGHEST_OUT_RELATES_TO_def

text \<open>No property name contains the colon that separates it from the sequence id in a key.\<close>

definition colon_free :: "string \<Rightarrow> bool" where
  "colon_free s \<longleftrightarrow> CHR '':'' \<notin> set s"

lemma prop_names_colon_free [simp]:
  "colon_free SEQ_PROP_ALL_SEQS" "colon_free SEQ_PROP_ADDRESSING_NAMESPACE_VALUE"
  "colon_free SEQ_PROP_CLIENT_COMPLETED_MESSAGES" "colon_free SEQ_PROP_SERVER_COMPLETED_MESSAGES"
  "colon_free SEQ_PROP_TO_EPR" "colon_free SEQ_PROP_ACKS_TO_EPR"
  "colon_free SEQ_PROP_OUTGOING_SEQUENCE_ID" "colon_free SEQ_PROP_OUTGOING_INTERNAL_SEQUENCE_ID"
  "colon_free SEQ_PROP_REPLY_TO_EPR" "colon_free SEQ_PROP_NEXT_MESSAGE_NUMBER"
  "colon_free SEQ_PROP_INCOMING_SEQ_LIST" "colon_free SEQ_PROP_TERMINATE_ADDED"
  "colon_free SEQ_PROP_LAST_ACTIVATED_TIME" "colon_free SEQ_PROP_NO_OF_OUTGOING_MSGS_ACKED"
  "colon_free SEQ_PROP_TRANSPORT_TO" "colon_free SEQ_PROP_SEQ_CLOSED"
  "colon_free SEQ_PROP_SEQ_TERMINATED" "colon_free SEQ_PROP_SEQ_TIMED_OUT"
  "colon_free SEQ_PROP_HIGHEST_IN_MSG_NUMBER" "colon_free SEQ_PROP_HIGHEST_IN_MSG_KEY"
  "colon_free SEQ_PROP_HIGHEST_IN_MSG_ID" "colon_free SEQ_PROP_LAST_OUT_MESSAGE_NO"
  "colon_free SEQ_PROP_LAST_IN_MESSAGE_ID" "colon_free SEQ_PROP_ACKS_TO_REF_PARAM"
  "colon_free SEQ_PROP_REPLAY" "colon_free SEQ_PROP_RELATED_MSG_ID"
  "colon_free SEQ_PROP_LAST_OUT_MESSAGE_NUMBER" "colon_free SEQ_PROP_OUT_CREATE_SEQ_SENT"
  "colon_free SEQ_PROP_OFFERED_SEQ" "colon_free SEQ_PROP_HIGHEST_OUT_MSG_NUMBER"
  "colon_free SEQ_PROP_HIGHEST_OUT_RELATES_TO"
  by (simp_all add: colon_free_def prop_names)

section \<open>Other constants\<close>

definition INTERNAL_SEQ_PREFIX :: string where
  "INTERNAL_SEQ_PREFIX = ''Sandesha2InternalSequence''"

definition AXIS2_VALUE_TRUE :: string where
  "AXIS2_VALUE_TRUE = ''true''"

definition WS_RM_ANONYMOUS_URL :: string where
  "WS_RM_ANONYMOUS_URL = ''http://docs.oasis-open.org/ws-rx/wsmc/200702/anonymous?id=''"

definition PERSISTANT_PROPERTY_SEPERATOR :: string where
  "PERSISTANT_PROPERTY_SEPERATOR = '',,,''"

definition QOS_EXACTLY_ONCE :: string where
  "QOS_EXACTLY_ONCE = ''ExactlyOnce''"

definition QOS_DEFAULT_INVOCATION_TYPE :: string where
  "QOS_DEFAULT_INVOCATION_TYPE = ''ExactlyOnce''"

text \<open>The error codes the modelled functions set.\<close>

datatype sandesha2_error =
    AXIS2_ERROR_INVALID_NULL_PARAM
  | ERROR_SQL_ERROR
  | ERROR_CANNOT_OPEN_DATABASE
  | ERROR_INVALID_NS_URI
  | ERROR_INVALID_SPEC_VERSION
  | ERROR_UNKNOWN_SPEC_ERROR_MESSAGE
  | ERROR_RM_SPEC_VERSION_DOES_NOT_DEFINE_A_SEQ_CLOSE_ACTION
  | ERROR_SPEC_VERSION_DOES_NOT_DEFINE_A_ACK_REQUEST_ACTION
  | ERROR_SPEC_VERSION_DOES_NOT_DEFINE_A_ACK_REQUEST_SOAP_ACTION
  | ERROR_MAKE_CONNECTION_IS_NOT_SUPPORTED_IN_THIS_RM_VERSION
  | ERROR_COMPLETED_MSGS_BEAN_IS_NULL
  | ERROR_TO_IS_NULL
  | ERROR_CREATE_SEQ_PART_IS_NULL
  | ERROR_ACKS_TO_IS_NULL
  | ERROR_CREATE_SEQ_MSG_DOES_NOT_HAVE_WSA_ACTION_VALUE
  | ERROR_CREATE_SEQ_MSG_DOES_NOT_HAVE_VALID_RM_NS_VALUE
  | ERROR_NULL_SEQ
  | ERROR_REQD_MSG_PART_MISSING
  | ERROR_INVALID_MSG_NUM
  | ERROR_SEQ_NOT_EXIST
  | ERROR_SENDING_FAULT
  | ERROR_SENDING_ACK
  | ERROR_NULL_MSG_CTX
  | ERROR_INVALID_EPR
  | ERROR_INVALID_RELATES_TO
  | ERROR_CANNOT_FIND_SEQ_ID
  | ERROR_CANNOT_INFER_TRANSPORT
  | ERROR_CANNOT_PROCESS_MSG
  | ERROR_SVC_NULL
  | ERROR_CONF_CTX_NULL
  | ERROR_UNSUPPORTED_NS
  | ERROR_NULL_OM_ELEMENT
  | ERROR_EMPTY_OM_ELEMENT
  | ERROR_NULL_OM_ATTRIBUTE
  | ERROR_TO_OM_NULL_ELEMENT
  | ERROR_TO_OM_INVALID_NUMBER
  | ERROR_ACK_NONE_NOT_ALLOWED
  | ERROR_ACK_FINAL_NOT_ALLOWED
  | ERROR_MAKE_CONNECTION_ELEMENT_SHOULD_HAVE_AT_LEAST_ADDRESS_OR_IDENTIFIER
  | ERROR_INVALID_MAKE_CONNECTION_BOTH_IDENTIFER_AND_ADDRESS_NULL
  | ERROR_PENDING_HEADER_MUST_HAVE_ATTRIBUTE_PENDING
  | ERROR_ATTRIBUTE_PENDING_MUST_HAVE_VALUE_TRUE_OR_FALSE
  | ERROR_INVALID_MAKE_CONNECTION_MSG
  | ERROR_RM_NS_VALUE_IS_DIFFERENT_FROM_REGISTERED_NS_FOR_SEQ
  | AXIS2_ERROR_NO_MEMORY
  | ERROR_OPTIONS_OBJECT_NOT_SET
  | ERROR_TO_EPR_NOT_SET
  | ERROR_SVC_CTX_NULL
  | ERROR_CANNOT_FIND_SEQ_REPORT_FOR_GIVEN_DATA
  | ERROR_CANNOT_FIND_SEQ_REPORT_FOR_GIVEN_SEQ_ID
  | ERROR_CANNOT_GENERATE_SEQ_REPORT_FOR_GIVEN_INTERNAL_SEQ_ID
  | ERROR_INCOMING_SEQ_REPORT_NOT_PRESENT_FOR_GIVEN_SEQ_ID
  | ERROR_SEQ_NOT_IN_ACTIVE_STATE
  | ERROR_SEQ_ID_BEAN_NOT_SET
  | ERROR_EMPTY_ACK_REQUEST_MESSAGE
  | ERROR_CANNOT_SEND_ACK_REQUEST_MESSAGE_SINCE_IS_NOT_ACTIVE
  | ERROR_RM_VERSION_DOES_NOT_ALLOW_SEQ_CLOSING
  | ERROR_COULD_NOT_SEND_TERMINATE_MESSAGE
  | ERROR_COULD_NOT_SEND_THE_CLOSE_SEQ_MESSAGE
  | ERROR_UNRECORDED_SEQ_ID
  | ERROR_NOT_A_VALID_TERMINATED_SEQ

end
