(* ===== verification/Spec_Specific_Consts.thy ===== *)
theory Spec_Specific_Consts
  imports Sandesha_Constants
begin

text \<open>
  \<open>src/util/spec_specific_consts.c\<close>: what each of the two supported versions of the
  WS-ReliableMessaging specification fixes.  A result \<open>Inl e\<close> is a null (or false)
  return with the error code \<open>e\<close> set; \<open>Inr\<close> is the returned constant.  Where the
  source calls \<open>axutil_strcmp\<close> without a null check its argument is a string that the
  caller provides.
\<close>

definition get_spec_ver_str :: "cstr \<Rightarrow> sandesha2_error + string" where
  "get_spec_ver_str ns_val =
     (case ns_val of
        None \<Rightarrow> Inl AXIS2_ERROR_INVALID_NULL_PARAM
      | Some ns \<Rightarrow>
          if ns = SPEC_2005_02_NS_URI then Inr SPEC_VERSION_1_0
          else if ns = SPEC_2007_02_NS_URI then Inr SPEC_VERSION_1_1
          else Inl ERROR_INVALID_NS_URI)"

text \<open>The namespace of a version; \<open>None\<close> is the null the function falls through to.\<close>

definition get_rm_ns_val :: "cstr \<Rightarrow> cstr" where
  "get_rm_ns_val spec_ver =
     (case spec_ver of
        None \<Rightarrow> None
      | Some v \<Rightarrow>
          if v = SPEC_VERSION_1_0 then Some SPEC_2005_02_NS_URI
          else if v = SPEC_VERSION_1_1 then Some SPEC_2007_02_NS_URI
          else None)"

definition is_ack_final_allowed :: "cstr \<Rightarrow> sandesha2_error + bool" where
  "is_ack_final_allowed rm_spec_ver =
     (case rm_spec_ver of
        None \<Rightarrow> Inl AXIS2_ERROR_INVALID_NULL_PARAM
      | Some v \<Rightarrow>
          if v = SPEC_VERSION_1_0 then Inr False
          else if v = SPEC_VERSION_1_1 then Inr True
          else Inl ERROR_INVALID_SPEC_VERSION)"

definition is_ack_none_allowed :: "cstr \<Rightarrow> sandesha2_error + bool" where
  "is_ack_none_allowed rm_spec_ver =
     (case rm_spec_ver of
        None \<Rightarrow> Inl AXIS2_ERROR_INVALID_NULL_PARAM
      | Some v \<Rightarrow>
          if v = SPEC_VERSION_1_0 then Inr False
          else if v = SPEC_VERSION_1_1 then Inr True
          else Inl ERROR_INVALID_SPEC_VERSION)"

definition get_default_spec_version :: string where
  "get_default_spec_version = SPEC_VERSION_1_0"

definition get_terminate_seq_action :: "string \<Rightarrow> sandesha2_error + string" where
  "get_terminate_seq_action v =
     (if v = SPEC_VERSION_1_0 then Inr (action_2005_02 ''TerminateSequence'')
      else if v = SPEC_VERSION_1_1 then Inr (action_2007_02 ''TerminateSequence'')
      else Inl ERROR_UNKNOWN_SPEC_ERROR_MESSAGE)"

definition get_create_seq_action :: "string \<Rightarrow> sandesha2_error + string" where
  "get_create_seq_action v =
     (if v = SPEC_VERSION_1_0 then Inr (action_2005_02 ''CreateSequence'')
      else if v = SPEC_VERSION_1_1 then Inr (action_2007_02 ''CreateSequence'')
      else Inl ERROR_UNKNOWN_SPEC_ERROR_MESSAGE)"

definition get_create_seq_res_action :: "string \<Rightarrow> sandesha2_error + string" where
  "get_create_seq_res_action v =
     (if v = SPEC_VERSION_1_0 then Inr (action_2005_02 ''CreateSequenceResponse'')
      else if v = SPEC_VERSION_1_1 then Inr (action_2007_02 ''CreateSequenceResponse'')
      else Inl ERROR_UNKNOWN_SPEC_ERROR_MESSAGE)"

definition get_close_seq_action :: "string \<Rightarrow> sandesha2_error + string" where
  "get_close_seq_action v =
     (if v = SPEC_VERSION_1_0
      then Inl ERROR_RM_SPEC_VERSION_DOES_NOT_DEFINE_A_SEQ_CLOSE_ACTION
      else if v = SPEC_VERSION_1_1 then Inr (action_2007_02 ''CloseSequence'')
      else Inl ERROR_UNKNOWN_SPEC_ERROR_MESSAGE)"

definition get_close_seq_res_action :: "string \<Rightarrow> sandesha2_error + string" where
  "get_close_seq_res_action v =
     (if v = SPEC_VERSION_1_0
      then Inl ERROR_RM_SPEC_VERSION_DOES_NOT_DEFINE_A_SEQ_CLOSE_ACTION
      else if v = SPEC_VERSION_1_1 then Inr (action_2007_02 ''CloseSequenceResponse'')
      else Inl ERROR_UNKNOWN_SPEC_ERROR_MESSAGE)"

definition get_ack_req_action :: "string \<Rightarrow> sandesha2_error + string" where
  "get_ack_req_action v =
     (if v = SPEC_VERSION_1_0
      then Inl ERROR_SPEC_VERSION_DOES_NOT_DEFINE_A_ACK_REQUEST_ACTION
      else if v = SPEC_VERSION_1_1 then Inr (action_2007_02 ''AckRequested'')
      else Inl ERROR_UNKNOWN_SPEC_ERROR_MESSAGE)"

text \<open>
  The WS-Addressing namespaces and anonymous URLs are constants of Axis2/C: an argument.
\<close>

record wsa_consts =
  WSA_NAMESPACE_SUBMISSION :: string
  WSA_NAMESPACE :: string
  WSA_ANONYMOUS_URL_SUBMISSION :: string
  WSA_ANONYMOUS_URL :: string

definition get_anon_uri :: "wsa_consts \<Rightarrow> cstr \<Rightarrow> cstr" where
  "get_anon_uri w addr_ns_val =
     (case addr_ns_val of
        None \<Rightarrow> None
      | Some ns \<Rightarrow>
          if ns = WSA_NAMESPACE_SUBMISSION w then Some (WSA_ANONYMOUS_URL_SUBMISSION w)
          else if ns = WSA_NAMESPACE w then Some (WSA_ANONYMOUS_URL w)
          else None)"

definition is_seq_closing_allowed :: "string \<Rightarrow> sandesha2_error + bool" where
  "is_seq_closing_allowed v =
     (if v = SPEC_VERSION_1_0 then Inr False
      else if v = SPEC_VERSION_1_1 then Inr True
      else Inl ERROR_UNKNOWN_SPEC_ERROR_MESSAGE)"

definition get_terminate_seq_soap_action :: "cstr \<Rightarrow> sandesha2_error + string" where
  "get_terminate_seq_soap_action spec_version =
     (case spec_version of
        None \<Rightarrow> Inl AXIS2_ERROR_INVALID_NULL_PARAM
      | Some v \<Rightarrow>
          if v = SPEC_VERSION_1_0 then Inr (action_2005_02 ''TerminateSequence'')
          else if v = SPEC_VERSION_1_1 then Inr (action_2007_02 ''TerminateSequence'')
          else Inl ERROR_UNKNOWN_SPEC_ERROR_MESSAGE)"

definition get_ack_req_soap_action :: "string \<Rightarrow> sandesha2_error + string" where
  "get_ack_req_soap_action v =
     (if v = SPEC_VERSION_1_0
      then Inl ERROR_SPEC_VERSION_DOES_NOT_DEFINE_A_ACK_REQUEST_SOAP_ACTION
      else if v = SPEC_VERSION_1_1 then Inr (action_2007_02 ''AckRequested'')
      else Inl ERROR_UNKNOWN_SPEC_ERROR_MESSAGE)"

definition is_term_seq_res_reqd :: "cstr \<Rightarrow> sandesha2_error + bool" where
  "is_term_seq_res_reqd spec_version =
     (case spec_version of
        None \<Rightarrow> Inl AXIS2_ERROR_INVALID_NULL_PARAM
      | Some v \<Rightarrow>
          if v = SPEC_VERSION_1_0 then Inr False
          else if v = SPEC_VERSION_1_1 then Inr True
          else Inl ERROR_UNKNOWN_SPEC_ERROR_MESSAGE)"

definition get_teminate_seq_res_action :: "cstr \<Rightarrow> sandesha2_error + string" where
  "get_teminate_seq_res_action spec_version =
     (case spec_version of
        None \<Rightarrow> Inl AXIS2_ERROR_INVALID_NULL_PARAM
      | Some v \<Rightarrow>
          if v = SPEC_VERSION_1_1 then Inr (action_2007_02 ''TerminateSequenceResponse'')
          else Inl ERROR_UNKNOWN_SPEC_ERROR_MESSAGE)"

definition get_seq_ack_action :: "string \<Rightarrow> sandesha2_error + string" where
  "get_seq_ack_action v =
     (if v = SPEC_VERSION_1_0 then Inr (action_2005_02 ''SequenceAcknowledgement'')
      else if v = SPEC_VERSION_1_1 then Inr (action_2007_02 ''SequenceAcknowledgement'')
      else Inl ERROR_UNKNOWN_SPEC_ERROR_MESSAGE)"

definition get_seq_ack_soap_action :: "string \<Rightarrow> sandesha2_error + string" where
  "get_seq_ack_soap_action v =
     (if v = SPEC_VERSION_1_0 then Inr (action_2005_02 ''SequenceAcknowledgement'')
      else if v = SPEC_VERSION_1_1 then Inr (action_2007_02 ''SequenceAcknowledgement'')
      else Inl ERROR_UNKNOWN_SPEC_ERROR_MESSAGE)"

definition get_make_connection_action :: "string \<Rightarrow> sandesha2_error + string" where
  "get_make_connection_action v =
     (if v = SPEC_VERSION_1_0
      then Inl ERROR_MAKE_CONNECTION_IS_NOT_SUPPORTED_IN_THIS_RM_VERSION
      else if v = SPEC_VERSION_1_1 then Inr SPEC_2007_02_ACTION_MAKE_CONNECTION
      else Inl ERROR_UNKNOWN_SPEC_ERROR_MESSAGE)"

definition is_last_msg_indicator_reqd :: "string \<Rightarrow> sandesha2_error + bool" where
  "is_last_msg_indicator_reqd v =
     (if v = SPEC_VERSION_1_0 then Inr True
      else if v = SPEC_VERSION_1_1 then Inr False
      else Inl ERROR_UNKNOWN_SPEC_ERROR_MESSAGE)"

section \<open>The tables agree with each other\<close>

lemmas spec_table_defs = get_spec_ver_str_def get_rm_ns_val_def is_ack_final_allowed_def
  is_ack_none_allowed_def get_terminate_seq_action_def get_create_seq_action_def
  get_create_seq_res_action_def get_close_seq_action_def get_close_seq_res_action_def
  get_ack_req_action_def is_seq_closing_allowed_def get_terminate_seq_soap_action_def
  get_ack_req_soap_action_def is_term_seq_res_reqd_def get_teminate_seq_res_action_def
  get_seq_ack_action_def get_seq_ack_soap_action_def get_make_connection_action_def
  is_last_msg_indicator_reqd_def

text \<open>Version and namespace determine each other on the two supported versions.\<close>

lemma spec_ver_ns_roundtrip:
  "get_rm_ns_val (Some v) = Some ns \<longleftrightarrow> get_spec_ver_str (Some ns) = Inr v"
  by (auto simp: spec_table_defs split: if_splits)

text \<open>The SOAP actions are the addressing actions.\<close>

lemma soap_actions_agree:
  "get_terminate_seq_soap_action (Some v) = get_terminate_seq_action v"
  "get_seq_ack_soap_action v = get_seq_ack_action v"
  by (simp_all add: spec_table_defs)

end
