(* ===== verification/Utils.thy ===== *)
theory Utils
  imports Spec_Specific_Consts
begin

text \<open>
  The parts of \<open>src/util/sandesha2_utils.c\<close> that compute on strings and lists: the
  comma separated message number lists in which the code keeps the received and the
  acknowledged messages, the acknowledgement ranges made from them, sequence identifiers,
  anonymous addresses and the reference parameter strings.
\<close>

section \<open>Comma separated lists\<close>

definition array_list_contains :: "string list option \<Rightarrow> cstr \<Rightarrow> bool" where
  "array_list_contains l str =
     (case l of None \<Rightarrow> False
      | Some xs \<Rightarrow> (case str of None \<Rightarrow> False | Some s \<Rightarrow> list_ex (\<lambda>e. e = s) xs))"

definition get_array_list_from_string :: "cstr \<Rightarrow> string list option" where
  "get_array_list_from_string str =
     (case str of
        None \<Rightarrow> None
      | Some s \<Rightarrow>
          if s = [] then None
          else Some (foldl (\<lambda>ret t. if array_list_contains (Some ret) (Some t) then ret
                                    else ret @ [t])
                      [] (strtok_all CHR '','' s)))"

text \<open>
  The conversion writes element after element behind what is already in the buffer; the
  result of an empty list is null.
\<close>

fun array_list_to_string_from :: "('a \<Rightarrow> string) \<Rightarrow> string \<Rightarrow> 'a list \<Rightarrow> string" where
  "array_list_to_string_from fmt acc [] = acc"
| "array_list_to_string_from fmt acc (x # xs) =
     array_list_to_string_from fmt (acc @ '','' @ fmt x) xs"

definition array_list_to_string :: "('a \<Rightarrow> string) \<Rightarrow> 'a list option \<Rightarrow> cstr" where
  "array_list_to_string fmt l =
     (case l of
        None \<Rightarrow> None
      | Some [] \<Rightarrow> None
      | Some (x # xs) \<Rightarrow> Some (array_list_to_string_from fmt (fmt x) xs))"

definition ARRAY_LIST_STRING :: "string \<Rightarrow> string" where
  "ARRAY_LIST_STRING s = s"

definition ARRAY_LIST_LONG :: "int \<Rightarrow> string" where
  "ARRAY_LIST_LONG n = sprintf_ld n"

text \<open>The message numbers a list string denotes.\<close>

definition msg_nos_of :: "string \<Rightarrow> int list" where
  "msg_nos_of s = map atol (strtok_all CHR '','' s)"

lemma array_list_contains_iff [simp]:
  "array_list_contains (Some xs) (Some s) \<longleftrightarrow> s \<in> set xs"
  "\<not> array_list_contains None q" "\<not> array_list_contains l None"
  by (auto simp: array_list_contains_def list_ex_iff split: option.splits)

lemma foldl_add_new:
  "set (foldl (\<lambda>ret t. if t \<in> set ret then ret else ret @ [t]) acc ts) = set acc \<union> set ts"
  "distinct acc \<Longrightarrow>
   distinct (foldl (\<lambda>ret t. if t \<in> set ret then ret else ret @ [t]) acc ts)"
  by (induction ts arbitrary: acc) auto

lemma foldl_add_new_distinct:
  "distinct (acc @ ts) \<Longrightarrow>
   foldl (\<lambda>ret t. if t \<in> set ret then ret else ret @ [t]) acc ts = acc @ ts"
  by (induction ts arbitrary: acc) auto

lemma get_array_list_from_string_set:
  "s \<noteq> [] \<Longrightarrow> \<exists>l. get_array_list_from_string (Some s) = Some l \<and> distinct l
     \<and> set l = set (strtok_all CHR '','' s)"
  by (simp add: get_array_list_from_string_def foldl_add_new)

lemma set_get_array_list_from_string [cstr_simps]:
  "set (list_elems (get_array_list_from_string (Some s))) = set (strtok_all CHR '','' s)"
  by (simp add: get_array_list_from_string_def foldl_add_new)

lemma array_list_to_string_from_join:
  "array_list_to_string_from fmt (fmt x) xs = join_with '','' (map fmt (x # xs))"
proof -
  have "array_list_to_string_from fmt acc xs
          = acc @ concat (map (\<lambda>y. '','' @ fmt y) xs)" for acc
    by (induction xs arbitrary: acc) auto
  moreover have "join_with '','' (map fmt (x # xs)) = fmt x @ concat (map (\<lambda>y. '','' @ fmt y) xs)"
    by (induction xs arbitrary: x) auto
  ultimately show ?thesis by simp
qed

lemma array_list_to_string_join [cstr_simps]:
  "xs \<noteq> [] \<Longrightarrow> array_list_to_string fmt (Some xs) = Some (join_with '','' (map fmt xs))"
  by (cases xs) (simp_all add: array_list_to_string_def array_list_to_string_from_join
      del: join_with.simps array_list_to_string_from.simps)

lemma join_with_Nil_iff: "\<forall>t \<in> set ts. t \<noteq> [] \<Longrightarrow> join_with sep ts = [] \<longleftrightarrow> ts = []"
  by (induction sep ts rule: join_with.induct) auto

text \<open>Printing a list of message numbers and reading it back.\<close>

lemma msg_nos_of_array_list_to_string [cstr_simps]:
  "map atol (strtok_all CHR '','' (join_with '','' (map ARRAY_LIST_LONG ns))) = ns"
  by (subst strtok_join) (auto simp: ARRAY_LIST_LONG_def atol_sprintf_ld comp_def)

lemma length_join_with:
  "\<forall>t \<in> set ts. length t \<le> k \<Longrightarrow> length (join_with '','' ts) \<le> Suc k * length ts"
  by (induction "'',''" ts rule: join_with.induct) auto

section \<open>Sorting message numbers and building acknowledgement ranges\<close>

record ack_range =
  ar_lower :: int
  ar_upper :: int
  ar_ns :: cstr

definition utils_sort :: "int list \<Rightarrow> int list" where
  "utils_sort xs =
     (let mx = foldl (\<lambda>m v. if v > m then v else m) 0 xs
      in filter (\<lambda>j. list_ex (\<lambda>v. v = j) xs) [1..mx])"

definition get_sorted_msg_no_list :: "string \<Rightarrow> char \<Rightarrow> int list" where
  "get_sorted_msg_no_list msg_no_str delim = utils_sort (map atol (strtok_all delim msg_no_str))"

text \<open>One turn of the grouping loop on \<open>(ack_ranges, lower, upper, completed)\<close>.\<close>

fun ack_range_step ::
  "cstr \<Rightarrow> ack_range list \<times> int \<times> int \<times> bool \<Rightarrow> int \<Rightarrow> ack_range list \<times> int \<times> int \<times> bool" where
  "ack_range_step ns (ranges, lower, upper, completed) t =
     (if lower = 0 then (ranges, t, t, False)
      else if t = upper + 1 then (ranges, lower, t, False)
      else (ranges @ [\<lparr>ar_lower = lower, ar_upper = upper, ar_ns = ns\<rparr>], t, t, False))"

definition get_ack_range_list :: "string \<Rightarrow> cstr \<Rightarrow> ack_range list" where
  "get_ack_range_list msg_no_str rm_ns_value =
     (case foldl (ack_range_step rm_ns_value) ([], 0, 0, True)
             (get_sorted_msg_no_list msg_no_str CHR '','') of
        (ranges, lower, upper, completed) \<Rightarrow>
          if completed then ranges
          else ranges @ [\<lparr>ar_lower = lower, ar_upper = upper, ar_ns = rm_ns_value\<rparr>])"

lemma foldl_max_bound:
  "m \<le> foldl (\<lambda>m v. if v > m then v else m) m xs \<and>
   (\<forall>v \<in> set xs. v \<le> foldl (\<lambda>m v. if v > m then v else m) (m::int) xs)"
proof (induction xs arbitrary: m)
  case (Cons x xs)
  show ?case using Cons.IH[of "if x > m then x else m"] by (auto split: if_splits)
qed simp

lemma set_utils_sort [simp]: "set (utils_sort xs) = {x \<in> set xs. 1 \<le> x}"
  using foldl_max_bound[of 0 xs] by (auto simp: utils_sort_def Let_def list_ex_iff)

lemma sorted_upto_strict: "sorted_wrt (<) [i..j :: int]"
  by (induction i j rule: upto.induct) (subst upto.simps, auto)

lemma sorted_utils_sort: "sorted_wrt (<) (utils_sort xs)"
  by (simp add: utils_sort_def Let_def sorted_upto_strict sorted_wrt_filter)

text \<open>What the grouping loop leaves: maximal runs of consecutive numbers.\<close>

fun runs :: "int \<Rightarrow> int \<Rightarrow> int list \<Rightarrow> (int \<times> int) list" where
  "runs lo up [] = [(lo, up)]"
| "runs lo up (t # ts) = (if t = up + 1 then runs lo t ts else (lo, up) # runs t t ts)"

definition mk_range :: "cstr \<Rightarrow> int \<times> int \<Rightarrow> ack_range" where
  "mk_range ns r = \<lparr>ar_lower = fst r, ar_upper = snd r, ar_ns = ns\<rparr>"

lemma foldl_ack_range_step:
  "\<forall>t \<in> set ts. 1 \<le> t \<Longrightarrow> 1 \<le> lo \<Longrightarrow>
   \<exists>rs l u. foldl (ack_range_step ns) (ranges, lo, up, False) ts = (rs, l, u, False) \<and>
     rs @ [mk_range ns (l, u)] = ranges @ map (mk_range ns) (runs lo up ts)"
proof (induction ts arbitrary: ranges lo up)
  case Nil
  then show ?case by simp
next
  case (Cons t ts)
  have pre: "\<forall>t \<in> set ts. 1 \<le> t" "1 \<le> t" using Cons.prems by auto
  show ?case
  proof (cases "t = up + 1")
    case True
    have "ack_range_step ns (ranges, lo, up, False) t = (ranges, lo, t, False)"
      using True Cons.prems by simp
    moreover have "runs lo up (t # ts) = runs lo t ts" using True by simp
    ultimately show ?thesis using Cons.IH[OF pre(1) Cons.prems(2), of ranges t]
      by (simp only: foldl_Cons)
  next
    case False
    have "ack_range_step ns (ranges, lo, up, False) t = (ranges @ [mk_range ns (lo, up)], t, t, False)"
      using False Cons.prems by (simp add: mk_range_def)
    moreover have "runs lo up (t # ts) = (lo, up) # runs t t ts" using False by simp
    ultimately show ?thesis using Cons.IH[OF pre, of "ranges @ [mk_range ns (lo, up)]" t]
      by (simp only: foldl_Cons list.map append_assoc append.simps)
  qed
qed

lemma get_ack_range_list_runs:
  "get_ack_range_list s ns =
     (case get_sorted_msg_no_list s CHR '','' of
        [] \<Rightarrow> [] | t # ts \<Rightarrow> map (mk_range ns) (runs t t ts))"
proof (cases "get_sorted_msg_no_list s CHR '',''")
  case Nil
  then show ?thesis by (simp add: get_ack_range_list_def)
next
  case (Cons t ts)
  have "\<forall>x \<in> set (t # ts). 1 \<le> x"
    unfolding Cons[symmetric] by (simp add: get_sorted_msg_no_list_def)
  then have "\<forall>x \<in> set ts. 1 \<le> x" "1 \<le> t" by auto
  then obtain rs l u where
    "foldl (ack_range_step ns) ([], t, t, False) ts = (rs, l, u, False)"
    "rs @ [mk_range ns (l, u)] = [] @ map (mk_range ns) (runs t t ts)"
    using foldl_ack_range_step by blast
  then show ?thesis using Cons by (simp add: get_ack_range_list_def mk_range_def)
qed

text \<open>The message numbers a list of ranges acknowledges.\<close>

definition range_set :: "ack_range \<Rightarrow> int set" where
  "range_set r = {ar_lower r .. ar_upper r}"

definition acked_set :: "ack_range list \<Rightarrow> int set" where
  "acked_set rs = (\<Union>r \<in> set rs. range_set r)"

text \<open>Ranges that increase and leave a gap between one another.\<close>

definition separated :: "ack_range list \<Rightarrow> bool" where
  "separated rs \<longleftrightarrow> sorted_wrt (\<lambda>a b. ar_upper a + 1 < ar_lower b) rs
                   \<and> (\<forall>r \<in> set rs. ar_lower r \<le> ar_upper r)"

lemma runs_hd: "\<exists>u rest. runs lo up ts = (lo, u) # rest"
  by (induction lo up ts rule: runs.induct) auto

lemma runs_set:
  "sorted_wrt (<) (up # ts) \<Longrightarrow> lo \<le> up \<Longrightarrow>
   (\<Union>r \<in> set (runs lo up ts). {fst r .. snd r}) = {lo..up} \<union> set ts"
proof (induction lo up ts rule: runs.induct)
  case (2 lo up t ts)
  then show ?case
  proof (cases "t = up + 1")
    case True
    with 2 have "(\<Union>r \<in> set (runs lo t ts). {fst r .. snd r}) = {lo..t} \<union> set ts" by auto
    then show ?thesis using True 2(4) by auto
  qed auto
qed auto

lemma runs_bounds:
  "sorted_wrt (<) (up # ts) \<Longrightarrow> lo \<le> up \<Longrightarrow>
   \<forall>r \<in> set (runs lo up ts). lo \<le> fst r \<and> fst r \<le> snd r"
proof (induction lo up ts rule: runs.induct)
  case (2 lo up t ts)
  then show ?case by (cases "t = up + 1") force+
qed auto

lemma runs_separated:
  "sorted_wrt (<) (up # ts) \<Longrightarrow> lo \<le> up \<Longrightarrow>
   sorted_wrt (\<lambda>a b. snd a + 1 < fst b) (runs lo up ts)"
proof (induction lo up ts rule: runs.induct)
  case (2 lo up t ts)
  show ?case
  proof (cases "t = up + 1")
    case True
    with 2 show ?thesis by auto
  next
    case False
    with 2 have "up + 1 < t" by auto
    moreover have "\<forall>r \<in> set (runs t t ts). t \<le> fst r"
      using runs_bounds[of t ts t] 2(3) by auto
    ultimately show ?thesis using False 2 by force
  qed
qed auto

lemma get_ack_range_list_acked:
  "acked_set (get_ack_range_list s ns) = {n \<in> set (msg_nos_of s). 1 \<le> n}"
proof -
  have st: "set (get_sorted_msg_no_list s CHR '','') = {n \<in> set (msg_nos_of s). 1 \<le> n}"
    by (simp add: get_sorted_msg_no_list_def msg_nos_of_def)
  show ?thesis
  proof (cases "get_sorted_msg_no_list s CHR '',''")
    case Nil
    then show ?thesis using st by (simp add: get_ack_range_list_runs acked_set_def)
  next
    case (Cons t ts)
    have "sorted_wrt (<) (t # ts)"
      using sorted_utils_sort Cons by (metis get_sorted_msg_no_list_def)
    then have "(\<Union>r \<in> set (runs t t ts). {fst r .. snd r}) = set (t # ts)"
      using runs_set[of t ts t] by auto
    then show ?thesis using st Cons
      by (simp add: get_ack_range_list_runs acked_set_def range_set_def mk_range_def)
  qed
qed

lemma get_ack_range_list_separated: "separated (get_ack_range_list s ns)"
proof (cases "get_sorted_msg_no_list s CHR '',''")
  case Nil
  then show ?thesis by (simp add: get_ack_range_list_runs separated_def)
next
  case (Cons t ts)
  have srt: "sorted_wrt (<) (t # ts)"
    using sorted_utils_sort Cons by (metis get_sorted_msg_no_list_def)
  then have "sorted_wrt (\<lambda>a b. snd a + 1 < fst b) (runs t t ts)"
    "\<forall>r \<in> set (runs t t ts). t \<le> fst r \<and> fst r \<le> snd r"
    using runs_separated runs_bounds by blast+
  then show ?thesis using Cons
    by (simp add: get_ack_range_list_runs separated_def sorted_wrt_map mk_range_def)
qed

section \<open>Sequence identifiers\<close>

text \<open>
  \<open>sandesha2_utils_get_internal_sequence_id\<close> and its inverse: the internal sequence id of
  a response side is the prefix, a colon and the id the other side uses.
\<close>

definition get_internal_sequence_id :: "cstr \<Rightarrow> cstr" where
  "get_internal_sequence_id rmd_sequence_id =
     (case rmd_sequence_id of
        None \<Rightarrow> None
      | Some s \<Rightarrow> Some (INTERNAL_SEQ_PREFIX @ '':'' @ s))"

definition get_rmd_seq_id :: "cstr \<Rightarrow> cstr" where
  "get_rmd_seq_id internal_sequence_id =
     (case internal_sequence_id of
        None \<Rightarrow> None
      | Some s \<Rightarrow>
          (let start_str = INTERNAL_SEQ_PREFIX @ '':'' in
           if \<not> prefix start_str s then None
           else Some (drop (length start_str) s)))"

definition get_client_internal_sequence_id :: "cstr \<Rightarrow> cstr \<Rightarrow> cstr" where
  "get_client_internal_sequence_id to seq_key =
     (case (to, seq_key) of
        (None, None) \<Rightarrow> None
      | (None, Some k) \<Rightarrow> Some k
      | (Some t, None) \<Rightarrow> Some t
      | (Some t, Some k) \<Rightarrow> Some (INTERNAL_SEQ_PREFIX @ '':'' @ t @ '':'' @ k))"

lemma rmd_of_internal [cstr_simps]: "get_rmd_seq_id (get_internal_sequence_id s) = s"
  by (cases s) (simp_all add: get_rmd_seq_id_def get_internal_sequence_id_def)

lemma internal_of_rmd:
  "get_rmd_seq_id i = Some r \<Longrightarrow> get_internal_sequence_id (Some r) = i"
  by (auto simp: get_rmd_seq_id_def get_internal_sequence_id_def Let_def prefix_def
      split: option.splits if_splits)

lemma get_rmd_seq_id_None_iff:
  "get_rmd_seq_id i = None \<longleftrightarrow> (\<forall>r. i \<noteq> get_internal_sequence_id (Some r))"
proof
  assume "\<forall>r. i \<noteq> get_internal_sequence_id (Some r)"
  then show "get_rmd_seq_id i = None" using internal_of_rmd[of i] by (cases "get_rmd_seq_id i") auto
qed (auto simp: rmd_of_internal)

text \<open>Two keys of one target are told apart by the client's internal id.\<close>

lemma client_internal_key_inject:
  "get_client_internal_sequence_id (Some t) (Some k) = get_client_internal_sequence_id (Some t) (Some k')
     \<longleftrightarrow> k = k'"
  by (simp add: get_client_internal_sequence_id_def)

section \<open>Strings of the policy and of addresses\<close>

text \<open>
  \<open>sandesha2_utils_trim_string\<close>.  The second loop starts on the terminating zero, which
  is no blank, so the end of the text stays as it is.  \<open>None\<close> as the outer result is the
  write through the null pointer that happens when nothing remains.
\<close>

definition trim_string :: "cstr \<Rightarrow> cstr option" where
  "trim_string orig_str =
     (case orig_str of
        None \<Rightarrow> Some None
      | Some s \<Rightarrow>
          (let tmp = dropWhile (\<lambda>c. c = CHR '' '') s in
           if length tmp > 0 then Some (Some tmp) else None))"

lemma trim_string_keeps_end:
  "s \<noteq> [] \<Longrightarrow> hd s \<noteq> CHR '' '' \<Longrightarrow> trim_string (Some s) = Some (Some s)"
  by (cases s) (simp_all add: trim_string_def)

lemma trim_string_idem:
  "trim_string (Some s) = Some (Some t) \<Longrightarrow> trim_string (Some t) = Some (Some t)"
proof -
  assume "trim_string (Some s) = Some (Some t)"
  then have "t = dropWhile (\<lambda>c. c = CHR '' '') s" "t \<noteq> []"
    by (auto simp: trim_string_def Let_def split: if_splits)
  then have "hd t \<noteq> CHR '' ''" using hd_dropWhile[of "\<lambda>c. c = CHR '' ''" s] by simp
  then show ?thesis using \<open>t \<noteq> []\<close> by (simp add: trim_string_keeps_end)
qed

definition is_wsrm_anon_reply_to :: "cstr \<Rightarrow> bool" where
  "is_wsrm_anon_reply_to reply_to =
     (case reply_to of
        None \<Rightarrow> False
      | Some r \<Rightarrow> if strstr r ''anonymous'' \<noteq> None then True
                  else if strstr r WS_RM_ANONYMOUS_URL \<noteq> None then True
                  else False)"

text \<open>\<open>axutil_strtrim\<close> is Axis2's: the argument \<open>trim\<close>.\<close>

definition is_anon_uri :: "wsa_consts \<Rightarrow> (string \<Rightarrow> string) \<Rightarrow> cstr \<Rightarrow> bool" where
  "is_anon_uri w trim address =
     (case address of
        None \<Rightarrow> True
      | Some a \<Rightarrow>
          (let address_l = trim a;
               ret = (WSA_ANONYMOUS_URL w = address_l)
           in if WSA_ANONYMOUS_URL_SUBMISSION w = address_l then True
              else if is_wsrm_anon_reply_to (Some a) then True
              else ret))"

definition is_rm_1_0_anonymous_acks_to ::
  "wsa_consts \<Rightarrow> (string \<Rightarrow> string) \<Rightarrow> cstr \<Rightarrow> cstr \<Rightarrow> bool" where
  "is_rm_1_0_anonymous_acks_to w trim rm_version acks_to_addr =
     (if is_anon_uri w trim acks_to_addr \<and> rm_version = Some SPEC_VERSION_1_0 then True else False)"

text \<open>The second test never decides: the URL it looks for contains the word of the first.\<close>

lemma is_wsrm_anon_reply_to_iff:
  "is_wsrm_anon_reply_to (Some r) \<longleftrightarrow> sublist ''anonymous'' r"
proof -
  have "strstr WS_RM_ANONYMOUS_URL ''anonymous'' \<noteq> None"
    by (simp add: WS_RM_ANONYMOUS_URL_def)
  then have "sublist ''anonymous'' WS_RM_ANONYMOUS_URL" by (simp add: strstr_None_iff)
  then have "sublist WS_RM_ANONYMOUS_URL r \<Longrightarrow> sublist ''anonymous'' r"
    using sublist_order.order_trans by blast
  then show ?thesis by (auto simp: is_wsrm_anon_reply_to_def strstr_None_iff)
qed

section \<open>Reference parameters as one stored text\<close>

text \<open>
  \<open>sandesha2_util_get_string_from_node_list\<close> on the texts \<open>axiom_node_to_string\<close> yields.
  The loop runs with \<open>i\<close> and \<open>size\<close>, and the test for the last node decrements
  \<open>size\<close> each time it is made.
\<close>

function node_list_loop :: "string list \<Rightarrow> nat \<Rightarrow> nat \<Rightarrow> cstr \<Rightarrow> cstr" where
  "node_list_loop nodes i sz node_list_str =
     (if i < sz then
        (let node_str = nodes ! i; tmp = sprintf_s node_list_str in
         if i = 0 then
           node_list_loop nodes (Suc i) sz (Some (node_str @ PERSISTANT_PROPERTY_SEPERATOR))
         else if i = sz - 1 then
           node_list_loop nodes (Suc i) (sz - 1) (Some (tmp @ node_str))
         else
           node_list_loop nodes (Suc i) (sz - 1)
             (Some (tmp @ node_str @ PERSISTANT_PROPERTY_SEPERATOR)))
      else node_list_str)"
  by pat_completeness auto
termination by (relation "measure (\<lambda>(nodes, i, sz, acc). sz - i)") auto

declare node_list_loop.simps [simp del]

definition get_string_from_node_list :: "string list \<Rightarrow> cstr" where
  "get_string_from_node_list nodes = node_list_loop nodes 0 (length nodes) None"

text \<open>
  \<open>sandesha2_utils_split\<close> with the one pattern it is called with; the pattern has three
  characters, which is what \<open>ptr + 3\<close> skips.  Empty pieces are left out.
\<close>

function utils_split :: "string \<Rightarrow> string list" where
  "utils_split str =
     (case strstr str PERSISTANT_PROPERTY_SEPERATOR of
        None \<Rightarrow> if str \<noteq> [] then [str] else []
      | Some (v, r) \<Rightarrow>
          (if v \<noteq> [] then [v] else []) @ utils_split (drop 3 r))"
  by pat_completeness auto
termination
proof (relation "measure length")
  fix str v r x2
  assume a: "strstr str PERSISTANT_PROPERTY_SEPERATOR = Some x2" and "(v, r) = x2"
  then have "str = v @ r" "prefix PERSISTANT_PROPERTY_SEPERATOR r"
    using strstr_Some by blast+
  then show "(drop 3 r, str) \<in> measure length"
    by (auto simp: prefix_def PERSISTANT_PROPERTY_SEPERATOR_def)
qed simp

declare utils_split.simps [simp del]

text \<open>\<open>sandesha2_util_get_node_list_from_string\<close>; building a node from its text is Axiom's.\<close>

definition get_node_list_from_string :: "(string \<Rightarrow> 'node) \<Rightarrow> string \<Rightarrow> 'node list" where
  "get_node_list_from_string build_root node_list_str = map build_root (utils_split node_list_str)"

text \<open>A text without the separator that does not end in the separator's character.\<close>

definition sep_free :: "string \<Rightarrow> bool" where
  "sep_free s \<longleftrightarrow> s \<noteq> [] \<and> CHR '','' \<notin> set s"

lemma strstr_sep:
  "CHR '','' \<notin> set s \<Longrightarrow>
   strstr (s @ PERSISTANT_PROPERTY_SEPERATOR @ r) PERSISTANT_PROPERTY_SEPERATOR
     = Some (s, PERSISTANT_PROPERTY_SEPERATOR @ r)"
  by (induction s) (auto simp: PERSISTANT_PROPERTY_SEPERATOR_def)

lemma strstr_no_sep:
  "CHR '','' \<notin> set s \<Longrightarrow> strstr s PERSISTANT_PROPERTY_SEPERATOR = None"
  by (induction s) (auto simp: PERSISTANT_PROPERTY_SEPERATOR_def)

lemma utils_split_sep:
  "sep_free s \<Longrightarrow> utils_split (s @ PERSISTANT_PROPERTY_SEPERATOR @ r) = s # utils_split r"
  by (subst utils_split.simps)
     (simp add: strstr_sep sep_free_def, simp add: PERSISTANT_PROPERTY_SEPERATOR_def)

lemma utils_split_Nil [simp]: "utils_split [] = []"
  by (subst utils_split.simps) (simp add: PERSISTANT_PROPERTY_SEPERATOR_def)

lemma utils_split_last: "sep_free s \<Longrightarrow> utils_split s = [s]"
  by (subst utils_split.simps) (simp add: strstr_no_sep sep_free_def)

lemma utils_split_concat:
  "\<forall>s \<in> set ts. sep_free s \<Longrightarrow>
   utils_split (concat (map (\<lambda>s. s @ PERSISTANT_PROPERTY_SEPERATOR) ts) @ r) = ts @ utils_split r"
  by (induction ts) (simp_all add: utils_split_sep)

lemma node_list_loop_split:
  assumes "\<forall>s \<in> set nodes. sep_free s" "0 < i" "i \<le> length nodes" "sz \<le> length nodes"
    and "acc = concat (map (\<lambda>s. s @ PERSISTANT_PROPERTY_SEPERATOR) (take i nodes))"
  shows "\<exists>t. node_list_loop nodes i sz (Some acc) = Some t
           \<and> utils_split t = take (i + (Suc sz - i) div 2) nodes"
  using assms(2-)
proof (induction "sz - i" arbitrary: i sz acc rule: less_induct)
  case less
  have sf: "\<forall>s \<in> set (take i nodes). sep_free s" using assms(1) by (auto dest: in_set_takeD)
  show ?case
  proof (cases "i < sz")
    case False
    then show ?thesis using less.prems utils_split_concat[OF sf, of "[]"]
      by (simp add: node_list_loop.simps[of _ i])
  next
    case True
    then have ni: "take (Suc i) nodes = take i nodes @ [nodes ! i]" "sep_free (nodes ! i)"
      using less.prems assms(1) by (simp_all add: take_Suc_conv_app_nth)
    show ?thesis
    proof (cases "i = sz - 1")
      case True
      have "\<not> sz < sz - Suc 0" by arith
      then have "node_list_loop nodes i sz (Some acc) = Some (acc @ nodes ! i)"
        using True \<open>i < sz\<close> less.prems
        by (subst node_list_loop.simps)
           (simp add: Let_def node_list_loop.simps[of nodes sz])
      moreover have "utils_split (acc @ nodes ! i) = take (Suc i) nodes"
        using utils_split_concat[OF sf] less.prems ni by (simp add: utils_split_last)
      moreover have "i + (Suc sz - i) div 2 = Suc i" using True \<open>i < sz\<close> by linarith
      ultimately show ?thesis by simp
    next
      case False
      have step: "node_list_loop nodes i sz (Some acc)
          = node_list_loop nodes (Suc i) (sz - 1)
              (Some (acc @ nodes ! i @ PERSISTANT_PROPERTY_SEPERATOR))"
        using False \<open>i < sz\<close> less.prems by (subst node_list_loop.simps) (simp add: Let_def)
      have idx: "Suc i + (Suc (sz - 1) - Suc i) div 2 = i + (Suc sz - i) div 2"
        using False \<open>i < sz\<close> by linarith
      have "\<exists>t. node_list_loop nodes (Suc i) (sz - 1)
                (Some (acc @ nodes ! i @ PERSISTANT_PROPERTY_SEPERATOR)) = Some t
              \<and> utils_split t = take (Suc i + (Suc (sz - 1) - Suc i) div 2) nodes"
        by (rule less.hyps) (use False \<open>i < sz\<close> less.prems ni in auto)
      then show ?thesis unfolding step idx .
    qed
  qed
qed

text \<open>What reading back a stored node list yields: only the first half and one more.\<close>

lemma split_string_from_node_list:
  assumes "\<forall>s \<in> set nodes. sep_free s" "nodes \<noteq> []"
  shows "\<exists>t. get_string_from_node_list nodes = Some t
           \<and> utils_split t = take (length nodes div 2 + 1) nodes"
proof -
  obtain n ns where n: "nodes = n # ns" using assms(2) by (cases nodes) auto
  have "get_string_from_node_list nodes
      = node_list_loop nodes 1 (length nodes) (Some (n @ PERSISTANT_PROPERTY_SEPERATOR))"
    unfolding get_string_from_node_list_def by (subst node_list_loop.simps) (simp add: n)
  moreover have "n @ PERSISTANT_PROPERTY_SEPERATOR
      = concat (map (\<lambda>s. s @ PERSISTANT_PROPERTY_SEPERATOR) (take 1 nodes))" by (simp add: n)
  moreover have "1 + (Suc (length nodes) - 1) div 2 = length nodes div 2 + 1" "1 \<le> length nodes"
    by (simp_all add: n Suc_leI)
  ultimately show ?thesis
    using node_list_loop_split[OF assms(1), of 1 "length nodes" "n @ PERSISTANT_PROPERTY_SEPERATOR"]
    by (metis le_refl zero_less_one)
qed

section \<open>Message classification\<close>

definition is_piggybackable_msg_type :: "message_type \<Rightarrow> bool" where
  "is_piggybackable_msg_type msg_type = (if msg_type = MSG_TYPE_ACK then False else True)"

text \<open>On the \<open>wsa:Action\<close> of the message context; a null context gives false.\<close>

definition is_retrievable_on_faults :: "cstr option \<Rightarrow> bool" where
  "is_retrievable_on_faults msg_ctx_action =
     (case msg_ctx_action of
        Some (Some action) \<Rightarrow>
          action = action_2005_02 ''CreateSequence'' \<or> action = action_2007_02 ''CreateSequence''
      | _ \<Rightarrow> False)"

text \<open>
  The secure conversation actions are constants of Rampart/Axis2: the argument \<open>seccon\<close>,
  in the order the code compares them.
\<close>

definition is_rstr_msg :: "string list \<Rightarrow> cstr option \<Rightarrow> bool" where
  "is_rstr_msg seccon msg_ctx_action =
     (case msg_ctx_action of
        Some (Some action) \<Rightarrow> list_ex (\<lambda>a. a = action) seccon
      | _ \<Rightarrow> False)"

text \<open>
  \<open>sandesha2_utils_is_rm_global_msg\<close>.  \<open>env_headers\<close> is null for a message without an
  envelope, and otherwise the qualified names of the children of the header (null where the
  envelope has no header).  The comparisons with a null action are false: \<open>axutil_strcmp\<close>
  of a null pointer and a string is not 0.
\<close>

definition is_rm_global_msg ::
  "cstr \<Rightarrow> (string \<times> string) list option option \<Rightarrow> bool" where
  "is_rm_global_msg action env_headers =
     (case env_headers of
        None \<Rightarrow> False
      | Some header \<Rightarrow>
          (let has_child = (\<lambda>qn. list_ex (\<lambda>c. c = qn) (list_elems header));
               seq_element = (if has_child (''Sequence'', SPEC_2005_02_NS_URI) then True
                              else has_child (''Sequence'', SPEC_2007_02_NS_URI));
               is_act = (\<lambda>a. action = Some a)
           in seq_element
              \<or> is_act (action_2005_02 ''SequenceAcknowledgement'')
              \<or> is_act (action_2005_02 ''CreateSequenceResponse'')
              \<or> is_act (action_2005_02 ''TerminateSequence'')
              \<or> is_act (action_2007_02 ''SequenceAcknowledgement'')
              \<or> is_act (action_2007_02 ''CreateSequenceResponse'')
              \<or> is_act (action_2007_02 ''TerminateSequence'')))"

end
