(* ===== verification/Beans.thy ===== *)
theory Beans
  imports Utils
begin

text \<open>
  The persistent records of \<open>src/storage/beans\<close>: one record per bean struct, with the
  source's fields, and the constructors.  The getters and setters of the sources are the
  selections and updates of these records.  The constructor of a sender bean from data
  leaves \<open>to_address\<close> uninitialised: it is an argument here.
\<close>

section \<open>Sender beans\<close>

record sender_bean =
  sb_msg_ctx_ref_key :: cstr
  sb_msg_id :: cstr
  sb_internal_seq_id :: cstr
  sb_sent_count :: int
  sb_msg_no :: int
  sb_send :: bool
  sb_resend :: bool
  sb_time_to_send :: int
  sb_msg_type :: message_type
  sb_seq_id :: cstr
  sb_wsrm_anon_uri :: cstr
  sb_to_address :: cstr

definition sender_bean_create :: sender_bean where
  "sender_bean_create =
     \<lparr>sb_msg_ctx_ref_key = None, sb_msg_id = None, sb_internal_seq_id = None,
      sb_sent_count = -1, sb_msg_no = -1, sb_send = False, sb_resend = True,
      sb_time_to_send = -1, sb_msg_type = MSG_TYPE_UNKNOWN, sb_seq_id = None,
      sb_wsrm_anon_uri = None, sb_to_address = None\<rparr>"

definition sender_bean_create_with_data ::
  "cstr \<Rightarrow> cstr \<Rightarrow> cstr \<Rightarrow> bool \<Rightarrow> int \<Rightarrow> cstr \<Rightarrow> int \<Rightarrow> sender_bean" where
  "sender_bean_create_with_data garbage_to_address msg_id key send time_to_send int_seq_id msg_no =
     \<lparr>sb_msg_ctx_ref_key = key, sb_msg_id = msg_id, sb_internal_seq_id = int_seq_id,
      sb_sent_count = -1, sb_msg_no = msg_no, sb_send = send, sb_resend = True,
      sb_time_to_send = time_to_send, sb_msg_type = MSG_TYPE_UNKNOWN, sb_seq_id = None,
      sb_wsrm_anon_uri = None, sb_to_address = garbage_to_address\<rparr>"

section \<open>Sequence property beans\<close>

record seq_property_bean =
  sp_seq_id :: cstr
  sp_name :: cstr
  sp_value :: cstr

definition seq_property_bean_create :: seq_property_bean where
  "seq_property_bean_create = \<lparr>sp_seq_id = None, sp_name = None, sp_value = None\<rparr>"

definition seq_property_bean_create_with_data ::
  "cstr \<Rightarrow> cstr \<Rightarrow> cstr \<Rightarrow> seq_property_bean" where
  "seq_property_bean_create_with_data seq_id prop_name v =
     \<lparr>sp_seq_id = seq_id, sp_name = prop_name, sp_value = v\<rparr>"

section \<open>Next message beans\<close>

record next_msg_bean =
  nm_seq_id :: cstr
  nm_internal_seq_id :: cstr
  nm_ref_msg_key :: cstr
  nm_polling_mode :: bool
  nm_msg_no :: int

definition next_msg_bean_create :: next_msg_bean where
  "next_msg_bean_create =
     \<lparr>nm_seq_id = None, nm_internal_seq_id = None, nm_ref_msg_key = None,
      nm_polling_mode = False, nm_msg_no = -1\<rparr>"

definition next_msg_bean_create_with_data :: "cstr \<Rightarrow> int \<Rightarrow> next_msg_bean" where
  "next_msg_bean_create_with_data seq_id msg_no =
     \<lparr>nm_seq_id = seq_id, nm_internal_seq_id = None, nm_ref_msg_key = None,
      nm_polling_mode = False, nm_msg_no = msg_no\<rparr>"

section \<open>Create sequence beans\<close>

record create_seq_bean =
  cs_internal_seq_id :: cstr
  cs_create_seq_msg_id :: cstr
  cs_seq_id :: cstr
  cs_create_seq_msg_store_key :: cstr
  cs_ref_msg_store_key :: cstr

definition create_seq_bean_create :: create_seq_bean where
  "create_seq_bean_create =
     \<lparr>cs_internal_seq_id = None, cs_create_seq_msg_id = None, cs_seq_id = None,
      cs_create_seq_msg_store_key = None, cs_ref_msg_store_key = None\<rparr>"

definition create_seq_bean_create_with_data :: "cstr \<Rightarrow> cstr \<Rightarrow> cstr \<Rightarrow> create_seq_bean" where
  "create_seq_bean_create_with_data internal_seq_id create_seq_msg_id seq_id =
     \<lparr>cs_internal_seq_id = internal_seq_id, cs_create_seq_msg_id = create_seq_msg_id,
      cs_seq_id = seq_id, cs_create_seq_msg_store_key = None, cs_ref_msg_store_key = None\<rparr>"

section \<open>Invoker beans\<close>

record invoker_bean =
  ib_msg_ctx_ref_key :: cstr
  ib_msg_no :: int
  ib_seq_id :: cstr
  ib_invoked :: bool

definition invoker_bean_create :: invoker_bean where
  "invoker_bean_create =
     \<lparr>ib_msg_ctx_ref_key = None, ib_msg_no = -1, ib_seq_id = None, ib_invoked = False\<rparr>"

definition invoker_bean_create_with_data ::
  "cstr \<Rightarrow> int \<Rightarrow> cstr \<Rightarrow> bool \<Rightarrow> invoker_bean" where
  "invoker_bean_create_with_data ref_key msg_no seq_id invoked =
     \<lparr>ib_msg_ctx_ref_key = ref_key, ib_msg_no = msg_no, ib_seq_id = seq_id,
      ib_invoked = invoked\<rparr>"

lemmas bean_create_defs = sender_bean_create_def sender_bean_create_with_data_def
  seq_property_bean_create_def seq_property_bean_create_with_data_def
  next_msg_bean_create_def next_msg_bean_create_with_data_def
  create_seq_bean_create_def create_seq_bean_create_with_data_def
  invoker_bean_create_def invoker_bean_create_with_data_def

end
