(* ===== verification/Bean_Mgr.thy ===== *)
theory Bean_Mgr
  imports Beans
begin

text \<open>
  \<open>src/storage/sqlite/permanent_bean_mgr.c\<close>: the layer through which the bean managers run
  their SQL statements, with the retries on a busy database, and the interfaces that its
  clients rely on.

  A table is the list of its rows in insertion order, which is the order in which a
  \<open>select\<close> without \<open>order by\<close> visits them.  A statement maps the state it works on to the
  new state, or to \<open>None\<close> when SQLite refuses it (a violated primary key, malformed text).
  A write works on the table; a query works on the data its callback collects.  A text
  column holds what \<open>sprintf\<close> with \<open>%s\<close> wrote into the statement, so the statements are
  modelled for texts without quotes that fit the fixed statement buffers.
\<close>

section \<open>Connections and execution\<close>

text \<open>
  What the database answers during one operation: whether it opens, and for each of the
  up to eleven executions of the statement whether it is busy.
\<close>

record db_env =
  de_open :: bool
  de_busy :: "nat \<Rightarrow> bool"

datatype rc = SQLITE_OK | SQLITE_BUSY | SQLITE_ERROR

definition get_dbconn :: "db_env \<Rightarrow> bool" where
  "get_dbconn e = de_open e"

definition sqlite3_exec :: "db_env \<Rightarrow> nat \<Rightarrow> ('s \<Rightarrow> 's option) \<Rightarrow> 's \<Rightarrow> rc \<times> 's" where
  "sqlite3_exec e attempt stmt s =
     (if de_busy e attempt then (SQLITE_BUSY, s)
      else (case stmt s of None \<Rightarrow> (SQLITE_ERROR, s) | Some s' \<Rightarrow> (SQLITE_OK, s')))"

function busy_handler ::
  "db_env \<Rightarrow> ('s \<Rightarrow> 's option) \<Rightarrow> nat \<Rightarrow> rc \<times> 's \<Rightarrow> rc \<times> 's" where
  "busy_handler e stmt counter (rc, s) =
     (if rc = SQLITE_BUSY \<and> counter < 10
      then busy_handler e stmt (Suc counter) (sqlite3_exec e (Suc counter) stmt s)
      else (rc, s))"
  by pat_completeness auto
termination by (relation "measure (\<lambda>(e, stmt, counter, x). 10 - counter)") auto

declare busy_handler.simps [simp del]

definition bean_mgr_insert :: "db_env \<Rightarrow> ('t \<Rightarrow> 't option) \<Rightarrow> 't \<Rightarrow> 't \<times> bool" where
  "bean_mgr_insert e stmt t =
     (if \<not> get_dbconn e then (t, False)
      else (let r0 = sqlite3_exec e 0 stmt t;
                (rc, t') = (if fst r0 = SQLITE_BUSY then busy_handler e stmt 0 r0 else r0)
            in if rc \<noteq> SQLITE_OK then (t', False) else (t', True)))"

definition bean_mgr_remove :: "db_env \<Rightarrow> ('t \<Rightarrow> 't option) \<Rightarrow> 't \<Rightarrow> 't \<times> bool" where
  "bean_mgr_remove e stmt t =
     (if \<not> get_dbconn e then (t, False)
      else (let r0 = sqlite3_exec e 0 stmt t;
                (rc, t') = (if fst r0 = SQLITE_BUSY then busy_handler e stmt 0 r0 else r0)
            in if rc \<noteq> SQLITE_OK then (t', False) else (t', True)))"

definition bean_mgr_update :: "db_env \<Rightarrow> ('t \<Rightarrow> 't option) \<Rightarrow> 't \<Rightarrow> 't \<times> bool" where
  "bean_mgr_update e stmt t =
     (if \<not> get_dbconn e then (t, False)
      else (let r0 = sqlite3_exec e 0 stmt t;
                (rc, t') = (if fst r0 = SQLITE_BUSY then busy_handler e stmt 0 r0 else r0)
            in if rc \<noteq> SQLITE_OK then (t', False) else (t', True)))"

text \<open>
  A query: \<open>rows\<close> are the rows the statement selects (\<open>None\<close>: refused), \<open>cb\<close> is the
  callback, which takes the data collected so far.
\<close>

definition bean_mgr_retrieve ::
  "db_env \<Rightarrow> ('b option \<Rightarrow> 'r \<Rightarrow> 'b option) \<Rightarrow> 'r list option \<Rightarrow> 'b option" where
  "bean_mgr_retrieve e cb rows =
     (if \<not> get_dbconn e then None
      else (let stmt = (\<lambda>data. map_option (foldl cb data) rows);
                r0 = sqlite3_exec e 0 stmt None;
                (rc, data) = (if fst r0 = SQLITE_BUSY then busy_handler e stmt 0 r0 else r0)
            in if rc \<noteq> SQLITE_OK then None else data))"

definition bean_mgr_find ::
  "db_env \<Rightarrow> ('b list option \<Rightarrow> 'r \<Rightarrow> 'b list option) \<Rightarrow> 'r list option \<Rightarrow> 'b list option" where
  "bean_mgr_find e cb rows =
     (if \<not> get_dbconn e then None
      else (let stmt = (\<lambda>data. map_option (foldl cb data) rows);
                r0 = sqlite3_exec e 0 stmt None;
                (rc, data) = (if fst r0 = SQLITE_BUSY then busy_handler e stmt 0 r0 else r0)
            in if rc \<noteq> SQLITE_OK then None else data))"

text \<open>The statements the managers build.\<close>

definition sql_insert_pk :: "('r \<Rightarrow> 'k) \<Rightarrow> 'r \<Rightarrow> 'r list \<Rightarrow> 'r list option" where
  "sql_insert_pk pk r t = (if list_ex (\<lambda>x. pk x = pk r) t then None else Some (t @ [r]))"

definition sql_insert :: "'r \<Rightarrow> 'r list \<Rightarrow> 'r list option" where
  "sql_insert r t = Some (t @ [r])"

definition sql_delete :: "('r \<Rightarrow> bool) \<Rightarrow> 'r list \<Rightarrow> 'r list option" where
  "sql_delete p t = Some (filter (\<lambda>r. \<not> p r) t)"

definition sql_update :: "('r \<Rightarrow> bool) \<Rightarrow> ('r \<Rightarrow> 'r) \<Rightarrow> 'r list \<Rightarrow> 'r list option" where
  "sql_update p f t = Some (map (\<lambda>r. if p r then f r else r) t)"

definition sql_select :: "('r \<Rightarrow> bool) \<Rightarrow> 'r list \<Rightarrow> 'r list option" where
  "sql_select p t = Some (filter p t)"

lemmas sql_defs = sql_insert_pk_def sql_insert_def sql_delete_def sql_update_def sql_select_def

section \<open>What the retries come to\<close>

text \<open>The database is up for an operation when it opens and one of the tries gets through.\<close>

definition db_up :: "db_env \<Rightarrow> bool" where
  "db_up e \<longleftrightarrow> de_open e \<and> list_ex (\<lambda>k. \<not> de_busy e k) [0..<11]"

lemma db_up_iff: "db_up e \<longleftrightarrow> de_open e \<and> (\<exists>k \<le> 10. \<not> de_busy e k)"
proof -
  have "{0..<11} = {..10::nat}" by auto
  then show ?thesis by (auto simp: db_up_def list_ex_iff)
qed

lemma busy_handler_not_busy: "rc \<noteq> SQLITE_BUSY \<Longrightarrow> busy_handler e stmt c (rc, s) = (rc, s)"
  by (simp add: busy_handler.simps)

lemma busy_handler_reaches:
  "k \<le> 10 \<Longrightarrow> c < k \<Longrightarrow> \<not> de_busy e k \<Longrightarrow>
   busy_handler e stmt c (SQLITE_BUSY, s)
     = (case stmt s of None \<Rightarrow> (SQLITE_ERROR, s) | Some s' \<Rightarrow> (SQLITE_OK, s'))"
proof (induction "k - c" arbitrary: c)
  case (Suc d)
  show ?case
  proof (cases "de_busy e (Suc c)")
    case False
    then show ?thesis using Suc.prems
      by (subst busy_handler.simps)
         (simp add: sqlite3_exec_def busy_handler_not_busy split: option.splits)
  next
    case True
    then have "c + 1 < k" using Suc.prems by (metis Suc_eq_plus1 Suc_lessI)
    then show ?thesis using True Suc.prems Suc.hyps(1)[of "Suc c"] Suc.hyps(2)
      by (subst busy_handler.simps) (simp add: sqlite3_exec_def)
  qed
qed simp

lemma busy_handler_gives_up:
  "\<forall>k \<le> 10. de_busy e k \<Longrightarrow> busy_handler e stmt c (SQLITE_BUSY, s) = (SQLITE_BUSY, s)"
proof (induction "10 - c" arbitrary: c)
  case 0
  then show ?case by (simp add: busy_handler.simps)
next
  case (Suc d)
  then have "Suc c \<le> 10" by simp
  then show ?case using Suc.prems Suc.hyps(1)[of "Suc c"] Suc.hyps(2)
    by (subst busy_handler.simps) (simp add: sqlite3_exec_def)
qed

lemma exec_with_retries:
  "(let r0 = sqlite3_exec e 0 stmt s
    in if fst r0 = SQLITE_BUSY then busy_handler e stmt 0 r0 else r0)
   = (if \<exists>k \<le> 10. \<not> de_busy e k
      then (case stmt s of None \<Rightarrow> (SQLITE_ERROR, s) | Some s' \<Rightarrow> (SQLITE_OK, s'))
      else (SQLITE_BUSY, s))"
proof (cases "de_busy e 0")
  case True
  show ?thesis
  proof (cases "\<exists>k \<le> 10. \<not> de_busy e k")
    case up: True
    then obtain k where "k \<le> 10" "\<not> de_busy e k" "0 < k" using True by (metis gr0I)
    then show ?thesis using True up busy_handler_reaches by (simp add: sqlite3_exec_def)
  next
    case False
    then have "busy_handler e stmt 0 (SQLITE_BUSY, s) = (SQLITE_BUSY, s)"
      by (intro busy_handler_gives_up) auto
    then show ?thesis using True by (subst if_not_P[OF False]) (simp add: sqlite3_exec_def)
  qed
next
  case False
  then have "\<exists>k \<le> 10. \<not> de_busy e k" by auto
  then show ?thesis using False
    by (simp add: sqlite3_exec_def split: option.splits)
qed

definition db_write :: "db_env \<Rightarrow> ('t \<Rightarrow> 't option) \<Rightarrow> 't \<Rightarrow> 't \<times> bool" where
  "db_write e stmt t =
     (if db_up e then (case stmt t of None \<Rightarrow> (t, False) | Some t' \<Rightarrow> (t', True)) else (t, False))"

definition db_query :: "db_env \<Rightarrow> ('d option \<Rightarrow> 'r \<Rightarrow> 'd option) \<Rightarrow> 'r list option \<Rightarrow> 'd option" where
  "db_query e cb rows =
     (if db_up e then (case rows of None \<Rightarrow> None | Some rs \<Rightarrow> foldl cb None rs) else None)"

lemma bean_mgr_insert_eq: "bean_mgr_insert e stmt t = db_write e stmt t"
  using exec_with_retries[of e stmt t]
  by (auto simp: bean_mgr_insert_def db_write_def db_up_iff get_dbconn_def Let_def
      split: option.splits prod.splits)

lemma bean_mgr_remove_eq: "bean_mgr_remove e stmt t = db_write e stmt t"
  using bean_mgr_insert_eq[of e stmt t] by (simp add: bean_mgr_insert_def bean_mgr_remove_def)

lemma bean_mgr_update_eq: "bean_mgr_update e stmt t = db_write e stmt t"
  using bean_mgr_insert_eq[of e stmt t] by (simp add: bean_mgr_insert_def bean_mgr_update_def)

lemma bean_mgr_find_eq: "bean_mgr_find e cb rows = db_query e cb rows"
  using exec_with_retries[of e "\<lambda>data. map_option (foldl cb data) rows" None]
  by (auto simp: bean_mgr_find_def db_query_def db_up_iff get_dbconn_def Let_def
      split: option.splits prod.splits)

lemma bean_mgr_retrieve_eq: "bean_mgr_retrieve e cb rows = db_query e cb rows"
  using exec_with_retries[of e "\<lambda>data. map_option (foldl cb data) rows" None]
  by (auto simp: bean_mgr_retrieve_def db_query_def db_up_iff get_dbconn_def Let_def
      split: option.splits prod.splits)

lemmas bean_mgr_eqs = bean_mgr_insert_eq bean_mgr_remove_eq bean_mgr_update_eq bean_mgr_find_eq
  bean_mgr_retrieve_eq

text \<open>Collecting callbacks: a list is made at the first row, so no row gives a null list.\<close>

definition collect_with :: "('r \<Rightarrow> 'b) \<Rightarrow> 'b list option \<Rightarrow> 'r \<Rightarrow> 'b list option" where
  "collect_with dec data r = Some (list_elems data @ [dec r])"

lemma foldl_collect_with:
  "foldl (collect_with dec) data rs
     = (if rs = [] then data else Some (list_elems data @ map dec rs))"
  by (induction rs arbitrary: data) (simp_all add: collect_with_def)

lemma db_query_collect:
  "db_query e (collect_with dec) (Some rs)
     = (if db_up e \<and> rs \<noteq> [] then Some (map dec rs) else None)"
  by (simp add: db_query_def foldl_collect_with)

lemma list_elems_query_collect [store_simps]:
  "db_up e \<Longrightarrow> list_elems (db_query e (collect_with dec) (Some rs)) = map dec rs"
  by (simp add: db_query_collect)

section \<open>Interfaces of the bean stores\<close>

text \<open>
  What the clients rely on: under an environment in which the database is up every
  operation acts on the lookup function \<open>look\<close> as an update of a map, and in any other
  environment it does nothing and says so.
\<close>

locale bean_store =
  fixes insert :: "db_env \<Rightarrow> 't \<Rightarrow> 'b \<Rightarrow> 't \<times> bool"
    and update :: "db_env \<Rightarrow> 't \<Rightarrow> 'b \<Rightarrow> 't \<times> bool"
    and remove :: "db_env \<Rightarrow> 't \<Rightarrow> 'k \<Rightarrow> 't \<times> bool"
    and retrieve :: "db_env \<Rightarrow> 't \<Rightarrow> 'k \<Rightarrow> 'b option"
    and look :: "'t \<Rightarrow> 'k \<Rightarrow> 'b option"
    and key :: "'b \<Rightarrow> 'k"
    and img :: "'b \<Rightarrow> 'b"
    and invar :: "'t \<Rightarrow> bool"
  assumes retrieve_up: "db_up e \<Longrightarrow> invar t \<Longrightarrow> retrieve e t k = look t k"
    and retrieve_down: "\<not> db_up e \<Longrightarrow> retrieve e t k = None"
    and insert_fresh: "db_up e \<Longrightarrow> invar t \<Longrightarrow> look t (key b) = None \<Longrightarrow>
        snd (insert e t b) \<and> invar (fst (insert e t b))
        \<and> look (fst (insert e t b)) = (look t)(key b \<mapsto> img b)"
    and update_up: "db_up e \<Longrightarrow> invar t \<Longrightarrow> look t (key b) \<noteq> None \<Longrightarrow>
        snd (update e t b) \<and> invar (fst (update e t b))
        \<and> look (fst (update e t b)) = (look t)(key b \<mapsto> img b)"
    and update_absent: "db_up e \<Longrightarrow> invar t \<Longrightarrow> look t (key b) = None \<Longrightarrow>
        update e t b = (t, True)"
    and remove_up: "db_up e \<Longrightarrow> invar t \<Longrightarrow>
        snd (remove e t k) \<and> invar (fst (remove e t k))
        \<and> look (fst (remove e t k)) = (look t)(k := None)"
    and insert_down: "\<not> db_up e \<Longrightarrow> insert e t b = (t, False)"
    and update_down: "\<not> db_up e \<Longrightarrow> update e t b = (t, False)"
    and remove_down: "\<not> db_up e \<Longrightarrow> remove e t k = (t, False)"
begin

text \<open>The idiom of the callers: look the bean up, insert it where it is absent, else update.\<close>

definition put :: "db_env \<Rightarrow> db_env \<Rightarrow> 't \<Rightarrow> 'b \<Rightarrow> 't \<times> bool" where
  "put e e' t b = (if retrieve e t (key b) = None then insert e' t b else update e' t b)"

lemma retrieve_after_insert:
  "db_up e \<Longrightarrow> db_up e' \<Longrightarrow> invar t \<Longrightarrow> look t (key b) = None \<Longrightarrow>
   retrieve e' (fst (insert e t b)) k = (if k = key b then Some (img b) else retrieve e' t k)"
  using insert_fresh[of e t b] by (simp add: retrieve_up)

lemma retrieve_after_update:
  "db_up e \<Longrightarrow> db_up e' \<Longrightarrow> invar t \<Longrightarrow>
   retrieve e' (fst (update e t b)) k
     = (if k = key b \<and> look t k \<noteq> None then Some (img b) else retrieve e' t k)"
  using update_up[of e t b] update_absent[of e t b]
  by (cases "look t (key b)") (auto simp: retrieve_up)

lemma retrieve_after_remove:
  "db_up e \<Longrightarrow> db_up e' \<Longrightarrow> invar t \<Longrightarrow>
   retrieve e' (fst (remove e t k)) k' = (if k' = k then None else retrieve e' t k')"
  using remove_up[of e t k] by (simp add: retrieve_up)

lemma put_up:
  assumes "db_up e" "db_up e'" "invar t"
  shows "snd (put e e' t b) \<and> invar (fst (put e e' t b))
       \<and> look (fst (put e e' t b)) = (look t)(key b \<mapsto> img b)"
proof (cases "look t (key b)")
  case None
  then show ?thesis using insert_fresh assms by (simp add: put_def retrieve_up)
next
  case (Some b')
  then show ?thesis using update_up assms by (simp add: put_def retrieve_up)
qed

lemma put_put:
  assumes "db_up e1" "db_up e1'" "db_up e2" "db_up e2'" "invar t" "key a = key b"
  shows "look (fst (put e2 e2' (fst (put e1 e1' t a)) b)) = (look t)(key b \<mapsto> img b)"
  using put_up assms by simp

lemma put_commutes:
  assumes "db_up e1" "db_up e1'" "db_up e2" "db_up e2'" "invar t" "key a \<noteq> key b"
  shows "look (fst (put e2 e2' (fst (put e1 e1' t a)) b))
       = look (fst (put e1 e1' (fst (put e2 e2' t b)) a))"
  using put_up assms by (simp add: fun_upd_twist)

lemma remove_put:
  assumes "db_up e" "db_up e'" "db_up e2" "invar t" "look t (key b) = None"
  shows "look (fst (remove e2 (fst (put e e' t b)) (key b))) = look t"
  using put_up[OF assms(1,2,4)] remove_up[OF assms(3)] assms(5) by (simp add: fun_upd_idem_iff)

text \<open>Whatever the database does, an operation leaves the other keys alone.\<close>

lemma writes_frame:
  assumes "invar t"
  shows "k \<noteq> key b \<Longrightarrow> look t (key b) = None \<Longrightarrow> look (fst (insert e t b)) k = look t k"
    and "k \<noteq> key b \<Longrightarrow> look (fst (update e t b)) k = look t k"
    and "k \<noteq> k' \<Longrightarrow> look (fst (remove e t k')) k = look t k"
proof -
  show "k \<noteq> key b \<Longrightarrow> look t (key b) = None \<Longrightarrow> look (fst (insert e t b)) k = look t k"
    by (cases "db_up e") (simp_all add: insert_fresh insert_down assms)
  show "k \<noteq> key b \<Longrightarrow> look (fst (update e t b)) k = look t k"
    by (cases "db_up e"; cases "look t (key b) = None")
       (simp_all add: update_up update_absent update_down assms)
  show "k \<noteq> k' \<Longrightarrow> look (fst (remove e t k')) k = look t k"
    by (cases "db_up e") (simp_all add: remove_up remove_down assms)
qed

end

text \<open>A store whose key is the primary key of its table: a second insertion is refused.\<close>

locale pk_store = bean_store +
  assumes insert_dup: "db_up e \<Longrightarrow> invar t \<Longrightarrow> look t (key b) \<noteq> None \<Longrightarrow> insert e t b = (t, False)"
begin

lemma insert_ok_iff:
  "invar t \<Longrightarrow> snd (insert e t b) \<longleftrightarrow> db_up e \<and> look t (key b) = None"
  by (cases "db_up e"; cases "look t (key b) = None")
     (simp_all add: insert_fresh insert_dup insert_down)

lemma failed_insert_unchanged:
  assumes "invar t" "\<not> snd (insert e t b)"
  shows "fst (insert e t b) = t"
proof (cases "db_up e")
  case True
  then have "look t (key b) \<noteq> None" using insert_fresh[of e t b] assms by metis
  then show ?thesis using insert_dup True assms by simp
qed (simp add: insert_down)

lemma insert_invar: "invar t \<Longrightarrow> invar (fst (insert e t b))"
  by (cases "db_up e"; cases "look t (key b) = None")
     (simp_all add: insert_fresh insert_dup insert_down)

end

text \<open>A store without a primary key: a later row of the same key shadows the earlier ones.\<close>

locale log_store = bean_store +
  assumes insert_shadow: "db_up e \<Longrightarrow> invar t \<Longrightarrow>
      snd (insert e t b) \<and> invar (fst (insert e t b))
      \<and> look (fst (insert e t b)) = (look t)(key b \<mapsto> img b)"
begin

lemma insert_is_put:
  assumes "db_up e" "db_up e'" "db_up e2" "invar t"
  shows "look (fst (insert e2 t b)) = look (fst (put e e' t b))"
  using put_up[OF assms(1,2,4)] insert_shadow[OF assms(3,4)] by simp

end

section \<open>Tables with a key column\<close>

text \<open>The rows of one key, and the laws of the statements for a table with one key column.\<close>

definition pk_ok :: "('r \<Rightarrow> 'k) \<Rightarrow> 'r list \<Rightarrow> bool" where
  "pk_ok pk t \<longleftrightarrow> distinct (map pk t)"

definition find_row :: "('r \<Rightarrow> 'k) \<Rightarrow> 'r list \<Rightarrow> 'k \<Rightarrow> 'r option" where
  "find_row pk t k = find (\<lambda>r. pk r = k) t"

lemma find_row_simps [simp]:
  "find_row pk [] k = None"
  "find_row pk (r # t) k = (if pk r = k then Some r else find_row pk t k)"
  by (simp_all add: find_row_def)

lemma find_row_append:
  "find_row pk (t @ u) k = (case find_row pk t k of None \<Rightarrow> find_row pk u k | Some r \<Rightarrow> Some r)"
  by (induction t) auto

lemma find_row_None: "find_row pk t k = None \<longleftrightarrow> k \<notin> pk ` set t"
  by (induction t) auto

lemma find_row_Some: "find_row pk t k = Some r \<Longrightarrow> r \<in> set t \<and> pk r = k"
  by (induction t) (auto split: if_splits)

lemma filter_pk: "pk_ok pk t \<Longrightarrow> filter (\<lambda>r. pk r = k) t = (case find_row pk t k of None \<Rightarrow> [] | Some r \<Rightarrow> [r])"
proof (induction t)
  case (Cons a t)
  then have "pk a = k \<Longrightarrow> find_row pk t k = None"
    by (auto simp: pk_ok_def find_row_None)
  then show ?case using Cons by (auto simp: pk_ok_def)
qed simp

lemma find_row_mem:
  "pk_ok pk t \<Longrightarrow> r \<in> set t \<Longrightarrow> find_row pk t (pk r) = Some r"
proof (induction t)
  case (Cons a t)
  then show ?case by (auto simp: pk_ok_def)
qed simp

lemma list_ex_pk: "list_ex (\<lambda>x. pk x = k) t \<longleftrightarrow> find_row pk t k \<noteq> None"
  by (induction t) auto

lemma pk_ok_Nil [simp]: "pk_ok pk []"
  by (simp add: pk_ok_def)

lemma pk_insert_fresh:
  "pk_ok pk t \<Longrightarrow> find_row pk t (pk r) = None \<Longrightarrow>
   sql_insert_pk pk r t = Some (t @ [r]) \<and> pk_ok pk (t @ [r])
   \<and> find_row pk (t @ [r]) = (find_row pk t)(pk r \<mapsto> r)"
  by (auto simp: sql_insert_pk_def list_ex_pk find_row_append fun_eq_iff split: option.splits)
     (auto simp: pk_ok_def find_row_None)

lemma pk_insert_dup: "find_row pk t (pk r) \<noteq> None \<Longrightarrow> sql_insert_pk pk r t = None"
  by (simp add: sql_insert_pk_def list_ex_pk)

lemma pk_delete:
  "pk_ok pk t \<Longrightarrow> pk_ok pk (filter (\<lambda>r. pk r \<noteq> k) t)
   \<and> find_row pk (filter (\<lambda>r. pk r \<noteq> k) t) = (find_row pk t)(k := None)"
proof
  show "pk_ok pk t \<Longrightarrow> pk_ok pk (filter (\<lambda>r. pk r \<noteq> k) t)"
    by (simp add: pk_ok_def distinct_map_filter)
  show "find_row pk (filter (\<lambda>r. pk r \<noteq> k) t) = (find_row pk t)(k := None)"
    by (induction t) (auto simp: fun_eq_iff)
qed

lemma pk_update:
  assumes "\<And>r. pk (f r) = pk r"
  shows "pk_ok pk (map (\<lambda>r. if pk r = k then f r else r) t) = pk_ok pk t"
    and "find_row pk (map (\<lambda>r. if pk r = k then f r else r) t)
         = (find_row pk t)(k := map_option f (find_row pk t k))"
proof -
  have "map pk (map (\<lambda>r. if pk r = k then f r else r) t) = map pk t"
    unfolding map_map by (rule map_cong) (simp_all add: assms)
  then show "pk_ok pk (map (\<lambda>r. if pk r = k then f r else r) t) = pk_ok pk t"
    by (simp only: pk_ok_def)
  show "find_row pk (map (\<lambda>r. if pk r = k then f r else r) t)
      = (find_row pk t)(k := map_option f (find_row pk t k))"
    by (induction t) (auto simp: assms fun_eq_iff)
qed

text \<open>The beans of a table by key, decoded.\<close>

definition table_look :: "('r \<Rightarrow> 'k) \<Rightarrow> ('r \<Rightarrow> 'b) \<Rightarrow> 'r list \<Rightarrow> 'k \<Rightarrow> 'b option" where
  "table_look pk dec t k = map_option dec (find_row pk t k)"

lemma table_look_fun_upd:
  "find_row pk t' = (find_row pk t)(k := x) \<Longrightarrow>
   table_look pk dec t' = (table_look pk dec t)(k := map_option dec x)"
  by (simp add: table_look_def fun_eq_iff)

lemma table_look_None: "table_look pk dec t k = None \<longleftrightarrow> find_row pk t k = None"
  by (simp add: table_look_def)

text \<open>
  A manager whose table has a primary key: what its operations come to in terms of the
  statements, from which all laws of a primary key store follow.
\<close>

locale pk_table =
  fixes insert :: "db_env \<Rightarrow> 'r list \<Rightarrow> 'b \<Rightarrow> 'r list \<times> bool"
    and update :: "db_env \<Rightarrow> 'r list \<Rightarrow> 'b \<Rightarrow> 'r list \<times> bool"
    and remove :: "db_env \<Rightarrow> 'r list \<Rightarrow> 'k \<Rightarrow> 'r list \<times> bool"
    and retrieve :: "db_env \<Rightarrow> 'r list \<Rightarrow> 'k \<Rightarrow> 'b option"
    and enc :: "'b \<Rightarrow> 'r"
    and dec :: "'r \<Rightarrow> 'b"
    and pk :: "'r \<Rightarrow> 'k"
    and cb :: "'b option \<Rightarrow> 'r \<Rightarrow> 'b option"
  assumes insert_sql: "insert e t b = db_write e (sql_insert_pk pk (enc b)) t"
    and update_sql: "update e t b = db_write e (sql_update (\<lambda>r. pk r = pk (enc b)) (\<lambda>_. enc b)) t"
    and remove_sql: "remove e t k = db_write e (sql_delete (\<lambda>r. pk r = k)) t"
    and retrieve_sql: "retrieve e t k = db_query e cb (sql_select (\<lambda>r. pk r = k) t)"
    and cb_first: "cb None r = Some (dec r)"
begin

lemma update_look:
  "pk_ok pk t \<Longrightarrow> pk_ok pk (map (\<lambda>r. if pk r = pk (enc b) then enc b else r) t)
   \<and> find_row pk (map (\<lambda>r. if pk r = pk (enc b) then enc b else r) t)
       = (find_row pk t)(pk (enc b) := map_option (\<lambda>_. enc b) (find_row pk t (pk (enc b))))"
proof -
  let ?f = "\<lambda>r. if pk r = pk (enc b) then enc b else r"
  have f: "pk (?f r) = pk r" for r by simp
  have m: "map (\<lambda>r. if pk r = pk (enc b) then ?f r else r) t = map ?f t" by simp
  have "map_option ?f (find_row pk t (pk (enc b)))
      = map_option (\<lambda>_. enc b) (find_row pk t (pk (enc b)))"
    by (cases "find_row pk t (pk (enc b))") (auto dest: find_row_Some)
  then show "pk_ok pk t \<Longrightarrow> ?thesis"
    using pk_update[of pk ?f "pk (enc b)" t, OF f] unfolding m by simp
qed

lemma update_absent_rows:
  "find_row pk t (pk (enc b)) = None \<Longrightarrow>
   map (\<lambda>r. if pk r = pk (enc b) then enc b else r) t = t"
  by (rule map_idI) (auto simp: find_row_None intro: rev_image_eqI)

end

sublocale pk_table \<subseteq> pk_store insert update remove retrieve "table_look pk dec"
  "\<lambda>b. pk (enc b)" "\<lambda>b. dec (enc b)" "pk_ok pk"
proof (unfold_locales, goal_cases)
  case (1 e t k) then show ?case
    by (simp add: retrieve_sql db_query_def sql_select_def filter_pk table_look_def cb_first
        split: option.splits)
next
  case (2 e t k) then show ?case by (simp add: retrieve_sql db_query_def)
next
  case (3 e t b)
  then have "find_row pk t (pk (enc b)) = None" by (simp add: table_look_None)
  note ins = pk_insert_fresh[OF 3(2) this]
  then have "table_look pk dec (t @ [enc b]) = (table_look pk dec t)(pk (enc b) := Some (dec (enc b)))"
    by (subst table_look_fun_upd[of pk "t @ [enc b]" t "pk (enc b)" "Some (enc b)"]) simp_all
  then show ?case using 3(1) ins by (simp add: insert_sql db_write_def)
next
  case (4 e t b)
  then obtain r where r: "find_row pk t (pk (enc b)) = Some r"
    by (auto simp: table_look_def)
  note up = update_look[OF 4(2), of b]
  have "table_look pk dec (map (\<lambda>r. if pk r = pk (enc b) then enc b else r) t)
      = (table_look pk dec t)(pk (enc b) := Some (dec (enc b)))"
    using table_look_fun_upd[OF conjunct2[OF up], of dec] r by simp
  then show ?case using 4(1) up by (simp add: update_sql db_write_def sql_update_def)
next
  case (5 e t b)
  then have "find_row pk t (pk (enc b)) = None" by (simp add: table_look_None)
  from update_absent_rows[OF this] show ?case using 5(1)
    by (simp add: update_sql db_write_def sql_update_def)
next
  case (6 e t k)
  note del = pk_delete[OF 6(2), of k]
  have "table_look pk dec (filter (\<lambda>r. pk r \<noteq> k) t) = (table_look pk dec t)(k := None)"
    using table_look_fun_upd[OF conjunct2[OF del], of dec] by simp
  then show ?case using 6(1) del by (simp add: remove_sql db_write_def sql_delete_def)
next
  case (7 e t b) then show ?case by (simp add: insert_sql db_write_def)
next
  case (8 e t b) then show ?case by (simp add: update_sql db_write_def)
next
  case (9 e t k) then show ?case by (simp add: remove_sql db_write_def)
next
  case (10 e t b)
  then have "find_row pk t (pk (enc b)) \<noteq> None" by (simp add: table_look_None)
  from pk_insert_dup[OF this] show ?case using 10(1) by (simp add: insert_sql db_write_def)
qed

end
