(* ===== verification/Sender_Mgr.thy ===== *)
theory Sender_Mgr
  imports Bean_Mgr
begin

text \<open>
  \<open>src/storage/sqlite/permanent_sender_mgr.c\<close>: the table of the messages waiting to be
  sent, its operations and the two selections the sender works with.
\<close>

section \<open>Rows and callbacks\<close>

record sender_row =
  sr_msg_id :: string
  sr_msg_ctx_ref_key :: string
  sr_internal_seq_id :: string
  sr_sent_count :: int
  sr_msg_no :: int
  sr_send :: bool
  sr_resend :: bool
  sr_time_to_send :: int
  sr_msg_type :: int
  sr_seq_id :: string
  sr_wsrm_anon_uri :: string
  sr_to_address :: string

type_synonym sender_table = "sender_row list"

text \<open>The values the insert statement prints.\<close>

definition sender_row_of :: "sender_bean \<Rightarrow> sender_row" where
  "sender_row_of b =
     \<lparr>sr_msg_id = sprintf_s (sb_msg_id b),
      sr_msg_ctx_ref_key = sprintf_s (sb_msg_ctx_ref_key b),
      sr_internal_seq_id = sprintf_s (sb_internal_seq_id b),
      sr_sent_count = sb_sent_count b, sr_msg_no = sb_msg_no b,
      sr_send = sb_send b, sr_resend = sb_resend b, sr_time_to_send = sb_time_to_send b,
      sr_msg_type = msg_type_code (sb_msg_type b),
      sr_seq_id = sprintf_s (sb_seq_id b),
      sr_wsrm_anon_uri = sprintf_s (sb_wsrm_anon_uri b),
      sr_to_address = sprintf_s (sb_to_address b)\<rparr>"

text \<open>The columns a callback copies into a bean; the id column is always text.\<close>

definition sender_fill :: "sender_bean \<Rightarrow> sender_row \<Rightarrow> sender_bean" where
  "sender_fill bean r = bean
     \<lparr>sb_msg_id := Some (sr_msg_id r),
      sb_msg_ctx_ref_key := Some (sr_msg_ctx_ref_key r),
      sb_internal_seq_id := Some (sr_internal_seq_id r),
      sb_sent_count := sr_sent_count r,
      sb_msg_no := sr_msg_no r,
      sb_send := sr_send r,
      sb_resend := sr_resend r,
      sb_time_to_send := sr_time_to_send r,
      sb_msg_type := msg_type_of_code (sr_msg_type r),
      sb_seq_id := Some (sr_seq_id r),
      sb_wsrm_anon_uri := Some (sr_wsrm_anon_uri r),
      sb_to_address := Some (sr_to_address r)\<rparr>"

definition sender_find_callback ::
  "sender_bean list option \<Rightarrow> sender_row \<Rightarrow> sender_bean list option" where
  "sender_find_callback data_list r =
     collect_with (sender_fill sender_bean_create) data_list r"

definition sender_retrieve_callback :: "sender_bean option \<Rightarrow> sender_row \<Rightarrow> sender_bean option" where
  "sender_retrieve_callback data r =
     (let bean = (case data of None \<Rightarrow> sender_bean_create | Some b \<Rightarrow> b)
      in Some (sender_fill bean r))"

section \<open>Operations\<close>

definition sender_mgr_insert ::
  "db_env \<Rightarrow> sender_table \<Rightarrow> sender_bean option \<Rightarrow> sender_table \<times> bool" where
  "sender_mgr_insert e t bean =
     (case bean of
        None \<Rightarrow> (t, False)
      | Some b \<Rightarrow> bean_mgr_insert e (sql_insert_pk sr_msg_id (sender_row_of b)) t)"

definition sender_mgr_remove :: "db_env \<Rightarrow> sender_table \<Rightarrow> cstr \<Rightarrow> sender_table \<times> bool" where
  "sender_mgr_remove e t msg_id =
     (case msg_id of
        None \<Rightarrow> (t, False)
      | Some m \<Rightarrow> bean_mgr_remove e (sql_delete (\<lambda>r. sr_msg_id r = m)) t)"

definition sender_mgr_retrieve :: "db_env \<Rightarrow> sender_table \<Rightarrow> cstr \<Rightarrow> sender_bean option" where
  "sender_mgr_retrieve e t msg_id =
     (case msg_id of
        None \<Rightarrow> None
      | Some m \<Rightarrow>
          bean_mgr_retrieve e sender_retrieve_callback (sql_select (\<lambda>r. sr_msg_id r = m) t))"

definition sender_mgr_update ::
  "db_env \<Rightarrow> sender_table \<Rightarrow> sender_bean option \<Rightarrow> sender_table \<times> bool" where
  "sender_mgr_update e t bean =
     (case bean of
        None \<Rightarrow> (t, False)
      | Some b \<Rightarrow>
          (let v = sender_row_of b in
           bean_mgr_update e
             (sql_update (\<lambda>r. sr_msg_id r = sr_msg_id v)
                (\<lambda>r. r\<lparr>sr_msg_ctx_ref_key := sr_msg_ctx_ref_key v,
                        sr_internal_seq_id := sr_internal_seq_id v,
                        sr_sent_count := sr_sent_count v, sr_msg_no := sr_msg_no v,
                        sr_send := sr_send v, sr_resend := sr_resend v,
                        sr_time_to_send := sr_time_to_send v, sr_msg_type := sr_msg_type v,
                        sr_seq_id := sr_seq_id v, sr_wsrm_anon_uri := sr_wsrm_anon_uri v,
                        sr_to_address := sr_to_address v\<rparr>)) t))"

definition sender_mgr_find_by_internal_seq_id ::
  "db_env \<Rightarrow> sender_table \<Rightarrow> cstr \<Rightarrow> sender_bean list option" where
  "sender_mgr_find_by_internal_seq_id e t internal_seq_id =
     bean_mgr_find e sender_find_callback
       (sql_select (\<lambda>r. sr_internal_seq_id r = sprintf_s internal_seq_id) t)"

text \<open>
  The conditions of the \<open>where\<close> clause that a bean given to \<open>find\<close> contributes; the
  condition on \<open>send\<close> is always there, with the value of a null bean being false.
\<close>

definition opt_text_cond :: "cstr \<Rightarrow> string \<Rightarrow> bool" where
  "opt_text_cond wanted col = (case wanted of None \<Rightarrow> True | Some w \<Rightarrow> col = w)"

definition sender_find_cond :: "sender_bean option \<Rightarrow> sender_row \<Rightarrow> bool" where
  "sender_find_cond bean r =
     (case bean of
        None \<Rightarrow> \<not> sr_send r
      | Some b \<Rightarrow>
          opt_text_cond (sb_msg_ctx_ref_key b) (sr_msg_ctx_ref_key r)
          \<and> (sb_time_to_send b > 0 \<longrightarrow> sr_time_to_send r \<le> sb_time_to_send b)
          \<and> opt_text_cond (sb_msg_id b) (sr_msg_id r)
          \<and> opt_text_cond (sb_internal_seq_id b) (sr_internal_seq_id r)
          \<and> opt_text_cond (sb_seq_id b) (sr_seq_id r)
          \<and> (sb_msg_no b > 0 \<longrightarrow> sr_msg_no r = sb_msg_no b)
          \<and> (sb_msg_type b \<noteq> MSG_TYPE_UNKNOWN \<longrightarrow> sr_msg_type r = msg_type_code (sb_msg_type b))
          \<and> sr_send r = sb_send b)"

definition sender_mgr_find_by_sender_bean ::
  "db_env \<Rightarrow> sender_table \<Rightarrow> sender_bean option \<Rightarrow> sender_bean list option" where
  "sender_mgr_find_by_sender_bean e t bean =
     bean_mgr_find e sender_find_callback (sql_select (sender_find_cond bean) t)"

definition sender_mgr_find_unique ::
  "db_env \<Rightarrow> sender_table \<Rightarrow> sender_bean option \<Rightarrow> sender_bean option" where
  "sender_mgr_find_unique e t bean =
     (case bean of
        None \<Rightarrow> None
      | Some b \<Rightarrow>
          (let find_list = sender_mgr_find_by_sender_bean e t (Some b) in
           if list_size find_list = 1 then list_get find_list 0 else None))"

text \<open>One turn of the loop that looks for the smallest message number.\<close>

definition app_msg_step :: "sender_bean option \<Rightarrow> sender_bean \<Rightarrow> sender_bean option" where
  "app_msg_step result bean =
     (case result of
        None \<Rightarrow> Some bean
      | Some rb \<Rightarrow> if sb_msg_no rb > sb_msg_no bean then Some bean else Some rb)"

definition sender_mgr_get_application_msg_to_send ::
  "db_env \<Rightarrow> sender_table \<Rightarrow> cstr \<Rightarrow> cstr \<Rightarrow> sender_bean option" where
  "sender_mgr_get_application_msg_to_send e t seq_id msg_id =
     foldl app_msg_step None
       (list_elems (bean_mgr_find e sender_find_callback
          (sql_select
             (\<lambda>r. sr_msg_type r = msg_type_code MSG_TYPE_APPLICATION
                \<and> opt_text_cond seq_id (sr_internal_seq_id r)
                \<and> opt_text_cond msg_id (sr_msg_id r)
                \<and> sr_send r) t)))"

text \<open>
  One turn of the loop of \<open>get_next_msg_to_send\<close> on \<open>(result, index, send_make_connection)\<close>;
  only \<open>index\<close> decides which bean is taken out of the list in the end.
\<close>

definition next_msg_step ::
  "sender_bean option \<times> nat \<times> bool \<Rightarrow> nat \<times> sender_bean \<Rightarrow> sender_bean option \<times> nat \<times> bool" where
  "next_msg_step st ib =
     (case (st, ib) of ((result, index, send_make_connection), (i, bean)) \<Rightarrow>
        if sb_msg_type bean = MSG_TYPE_ACK then (result, index, send_make_connection)
        else if sb_msg_type bean = MSG_TYPE_MAKE_CONNECTION_MSG then
          (if send_make_connection then (Some bean, i, True) else (result, index, send_make_connection))
        else if result = None \<or> send_make_connection then (Some bean, i, False)
        else (result, index, send_make_connection))"

definition sender_mgr_get_next_msg_to_send ::
  "db_env \<Rightarrow> sender_table \<Rightarrow> int \<Rightarrow> cstr \<Rightarrow> sender_bean option" where
  "sender_mgr_get_next_msg_to_send e t time_now seq_id =
     (let match_list = bean_mgr_find e sender_find_callback
            (if time_now > 0
             then sql_select
                    (\<lambda>r. sr_time_to_send r \<le> time_now
                       \<and> opt_text_cond seq_id (sr_internal_seq_id r)
                       \<and> sr_send r) t
             else None);
          (result, index, smc) =
            foldl next_msg_step (None, 0, True) (enumerate 0 (list_elems match_list))
      in list_get match_list index)"

lemmas sender_mgr_defs = sender_mgr_insert_def sender_mgr_remove_def sender_mgr_retrieve_def
  sender_mgr_update_def sender_mgr_find_by_internal_seq_id_def sender_mgr_find_by_sender_bean_def
  sender_mgr_find_unique_def sender_mgr_get_application_msg_to_send_def
  sender_mgr_get_next_msg_to_send_def

section \<open>The store as a map\<close>

text \<open>What comes back of a bean: null texts have become the text \<open>(null)\<close>.\<close>

definition sender_dec :: "sender_row \<Rightarrow> sender_bean" where
  "sender_dec r = sender_fill sender_bean_create r"

definition sender_img :: "sender_bean \<Rightarrow> sender_bean" where
  "sender_img b = sender_dec (sender_row_of b)"

abbreviation sender_look :: "sender_table \<Rightarrow> string \<Rightarrow> sender_bean option" where
  "sender_look \<equiv> table_look sr_msg_id sender_dec"

abbreviation sender_ok :: "sender_table \<Rightarrow> bool" where
  "sender_ok \<equiv> pk_ok sr_msg_id"

text \<open>A bean all of whose texts are set is stored without loss.\<close>

definition sender_full :: "sender_bean \<Rightarrow> bool" where
  "sender_full b \<longleftrightarrow> sb_msg_ctx_ref_key b \<noteq> None \<and> sb_msg_id b \<noteq> None
     \<and> sb_internal_seq_id b \<noteq> None \<and> sb_seq_id b \<noteq> None \<and> sb_wsrm_anon_uri b \<noteq> None
     \<and> sb_to_address b \<noteq> None"

lemma sender_fill_any: "sender_fill b r = sender_fill b' r"
  by (simp add: sender_fill_def)

lemma sender_img_full: "sender_full b \<Longrightarrow> sender_img b = b"
  by (cases b) (auto simp: sender_full_def sender_img_def sender_dec_def sender_fill_def
      sender_row_of_def sender_bean_create_def)

lemma sender_dec_full: "sender_full (sender_dec r)"
  by (simp add: sender_full_def sender_dec_def sender_fill_def)

lemma sender_img_idem [simp]: "sender_img (sender_img b) = sender_img b"
  by (rule sender_img_full) (simp add: sender_img_def sender_dec_full)

lemma sender_row_dec: "sr_msg_type r = msg_type_code ty \<Longrightarrow> sender_row_of (sender_dec r) = r"
  by (cases r) (simp add: sender_row_of_def sender_dec_def sender_fill_def)

lemma sender_row_key [simp]: "sr_msg_id (sender_row_of b) = sprintf_s (sb_msg_id b)"
  by (simp add: sender_row_of_def)

lemma sender_callback_eq: "sender_find_callback = collect_with sender_dec"
  by (simp add: sender_find_callback_def sender_dec_def fun_eq_iff collect_with_def)

text \<open>All columns but the key are rewritten, and the key is the one looked for.\<close>

lemma sender_update_sql:
  "sender_mgr_update e t (Some b)
     = db_write e (sql_update (\<lambda>r. sr_msg_id r = sr_msg_id (sender_row_of b)) (\<lambda>_. sender_row_of b)) t"
proof -
  have "sql_update (\<lambda>r. sr_msg_id r = sr_msg_id v)
          (\<lambda>r. r\<lparr>sr_msg_ctx_ref_key := sr_msg_ctx_ref_key v,
                        sr_internal_seq_id := sr_internal_seq_id v,
                        sr_sent_count := sr_sent_count v, sr_msg_no := sr_msg_no v,
                        sr_send := sr_send v, sr_resend := sr_resend v,
                        sr_time_to_send := sr_time_to_send v, sr_msg_type := sr_msg_type v,
                        sr_seq_id := sr_seq_id v, sr_wsrm_anon_uri := sr_wsrm_anon_uri v,
                        sr_to_address := sr_to_address v\<rparr>)
      = sql_update (\<lambda>r. sr_msg_id r = sr_msg_id v) (\<lambda>_. v)" for v :: sender_row
    by (auto simp: sql_update_def fun_eq_iff)
  then show ?thesis by (simp add: sender_mgr_update_def bean_mgr_eqs Let_def)
qed

interpretation sender_store: pk_table
  "\<lambda>e t b. sender_mgr_insert e t (Some b)" "\<lambda>e t b. sender_mgr_update e t (Some b)"
  "\<lambda>e t k. sender_mgr_remove e t (Some k)" "\<lambda>e t k. sender_mgr_retrieve e t (Some k)"
  sender_row_of sender_dec sr_msg_id sender_retrieve_callback
  by unfold_locales
     (simp_all add: sender_mgr_insert_def sender_mgr_remove_def sender_mgr_retrieve_def
        sender_update_sql bean_mgr_eqs sender_retrieve_callback_def sender_dec_def)

section \<open>What is selected for sending\<close>

text \<open>The beans of the rows a query selects, under a database that answers.\<close>

definition sender_beans :: "(sender_row \<Rightarrow> bool) \<Rightarrow> sender_table \<Rightarrow> sender_bean list" where
  "sender_beans p t = map sender_dec (filter p t)"

lemma sender_query_elems:
  "db_up e \<Longrightarrow> list_elems (bean_mgr_find e sender_find_callback (sql_select p t)) = sender_beans p t"
  by (simp add: bean_mgr_eqs sender_callback_eq sql_select_def sender_beans_def
      list_elems_query_collect)

lemma foldl_app_msg_step_Some:
  "\<exists>b. foldl app_msg_step (Some r) bs = Some b \<and> b \<in> set (r # bs)
     \<and> (\<forall>c \<in> set (r # bs). sb_msg_no b \<le> sb_msg_no c)"
proof (induction bs arbitrary: r)
  case (Cons c bs)
  show ?case using Cons.IH[of "if sb_msg_no r > sb_msg_no c then c else r"]
    by (auto simp: app_msg_step_def split: if_splits)
qed simp

lemma foldl_app_msg_step:
  "(foldl app_msg_step None bs = None \<longleftrightarrow> bs = []) \<and>
   (\<forall>b. foldl app_msg_step None bs = Some b \<longrightarrow>
      b \<in> set bs \<and> (\<forall>c \<in> set bs. sb_msg_no b \<le> sb_msg_no c))"
proof (cases bs)
  case (Cons b bs')
  then show ?thesis using foldl_app_msg_step_Some[of b bs'] by (auto simp: app_msg_step_def)
qed simp

text \<open>
  The choice of \<open>get_next_msg_to_send\<close> on the due messages: the first one that is neither an
  acknowledgement nor a MakeConnection, else the last MakeConnection, else the first of all.
\<close>

definition next_choice :: "sender_bean list \<Rightarrow> sender_bean option" where
  "next_choice bs =
     (case find (\<lambda>b. sb_msg_type b \<notin> {MSG_TYPE_ACK, MSG_TYPE_MAKE_CONNECTION_MSG}) bs of
        Some b \<Rightarrow> Some b
      | None \<Rightarrow>
         (case find (\<lambda>b. sb_msg_type b = MSG_TYPE_MAKE_CONNECTION_MSG) (rev bs) of
            Some b \<Rightarrow> Some b
          | None \<Rightarrow> (case bs of [] \<Rightarrow> None | b # _ \<Rightarrow> Some b)))"

abbreviation plain_msg :: "sender_bean \<Rightarrow> bool" where
  "plain_msg b \<equiv> sb_msg_type b \<notin> {MSG_TYPE_ACK, MSG_TYPE_MAKE_CONNECTION_MSG}"

lemma next_msg_fold:
  "foldl next_msg_step (None, 0, True) (enumerate 0 bs) = (result, index, smc) \<Longrightarrow>
   (bs = [] \<longrightarrow> index = 0) \<and> (bs \<noteq> [] \<longrightarrow> index < length bs) \<and>
   (smc \<longleftrightarrow> find plain_msg bs = None) \<and>
   (result = None \<longrightarrow> index = 0 \<and> smc \<and> (\<forall>b \<in> set bs. sb_msg_type b = MSG_TYPE_ACK)) \<and>
   (result \<noteq> None \<longrightarrow> bs \<noteq> [] \<and> result = Some (bs ! index) \<and>
      (if smc then find (\<lambda>b. sb_msg_type b = MSG_TYPE_MAKE_CONNECTION_MSG) (rev bs) = result
       else find plain_msg bs = result))"
proof (induction bs arbitrary: result index smc rule: rev_induct)
  case Nil
  then show ?case by simp
next
  case (snoc b bs)
  obtain r i s where f: "foldl next_msg_step (None, 0, True) (enumerate 0 bs) = (r, i, s)"
    by (metis prod_cases3)
  note IH = snoc.IH[OF f]
  have e: "enumerate 0 (bs @ [b]) = enumerate 0 bs @ [(length bs, b)]"
    by (simp add: enumerate_append_eq)
  have st: "next_msg_step (r, i, s) (length bs, b) = (result, index, smc)"
    using snoc.prems f by (simp add: e)
  have fa: "find P (bs @ [b]) = (case find P bs of None \<Rightarrow> if P b then Some b else None | Some x \<Rightarrow> Some x)"
    for P by (induction bs) auto
  have nth: "i < length bs \<Longrightarrow> (bs @ [b]) ! i = bs ! i" by (simp add: nth_append)
  consider (ack) "sb_msg_type b = MSG_TYPE_ACK" | (mc) "sb_msg_type b = MSG_TYPE_MAKE_CONNECTION_MSG"
    | (plain) "sb_msg_type b \<noteq> MSG_TYPE_ACK" "sb_msg_type b \<noteq> MSG_TYPE_MAKE_CONNECTION_MSG" by blast
  then show ?case
  proof cases
    case ack
    then have "result = r" "index = i" "smc = s" using st by (simp_all add: next_msg_step_def)
    then show ?thesis using IH ack nth by (cases "bs = []") (auto simp: fa split: option.splits)
  next
    case mc
    then show ?thesis using st IH nth
      by (cases s) (auto simp: next_msg_step_def fa split: option.splits if_splits)
  next
    case plain
    then show ?thesis using st IH nth
      by (cases s; cases r) (auto simp: next_msg_step_def fa split: option.splits if_splits)
  qed
qed

lemma next_msg_choice:
  assumes "foldl next_msg_step (None, 0, True) (enumerate 0 bs) = (result, index, smc)"
  shows "(if index < length bs then Some (bs ! index) else None) = next_choice bs"
proof (cases "bs = []")
  case True
  then show ?thesis by (simp add: next_choice_def)
next
  case False
  note F = next_msg_fold[OF assms]
  show ?thesis
  proof (cases result)
    case None
    then have z: "index = 0" "\<forall>b \<in> set bs. sb_msg_type b = MSG_TYPE_ACK" "find plain_msg bs = None"
      using F by auto
    then have "find (\<lambda>b. sb_msg_type b = MSG_TYPE_MAKE_CONNECTION_MSG) (rev bs) = None"
      by (auto simp: find_None_iff)
    then show ?thesis using z False by (cases bs) (simp_all add: next_choice_def)
  next
    case (Some b)
    then show ?thesis using F False by (cases smc) (auto simp: next_choice_def)
  qed
qed

end
