(* ===== verification/Msg_Store.thy ===== *)
theory Msg_Store
  imports Sender_Mgr
begin

text \<open>
  The store of serialised message contexts and of responses:
  \<open>src/storage/sqlite/msg_store_bean.c\<close> and the second half of
  \<open>permanent_bean_mgr.c\<close>.  The query that reads a message back does not select the
  \<open>reply_to\<close> column.
\<close>

section \<open>Message store beans\<close>

record msg_store_bean =
  mb_stored_key :: cstr
  mb_msg_id :: cstr
  mb_soap_env_str :: cstr
  mb_op :: cstr
  mb_svc :: cstr
  mb_svc_grp :: cstr
  mb_op_mep :: cstr
  mb_to_url :: cstr
  mb_reply_to :: cstr
  mb_transport_to :: cstr
  mb_execution_chain_str :: cstr
  mb_msg_recv_str :: cstr
  mb_in_msg_store_key :: cstr
  mb_persistent_property_str :: cstr
  mb_action :: cstr
  mb_soap_version :: int
  mb_transport_out :: int
  mb_flow :: int
  mb_svr_side :: int

definition msg_store_bean_create :: msg_store_bean where
  "msg_store_bean_create =
     \<lparr>mb_stored_key = None, mb_msg_id = None, mb_soap_env_str = None, mb_op = None,
      mb_svc = None, mb_svc_grp = None, mb_op_mep = None, mb_to_url = None,
      mb_reply_to = None, mb_transport_to = None, mb_execution_chain_str = None,
      mb_msg_recv_str = None, mb_in_msg_store_key = None, mb_persistent_property_str = None,
      mb_action = None, mb_soap_version = -1, mb_transport_out = -1, mb_flow = -1,
      mb_svr_side = -1\<rparr>"

record msg_row =
  mr_stored_key :: string
  mr_msg_id :: string
  mr_soap_env_str :: string
  mr_soap_version :: int
  mr_transport_out :: int
  mr_op :: string
  mr_svc :: string
  mr_svc_grp :: string
  mr_op_mep :: string
  mr_to_url :: string
  mr_reply_to :: string
  mr_transport_to :: string
  mr_execution_chain_str :: string
  mr_flow :: int
  mr_msg_recv_str :: string
  mr_svr_side :: int
  mr_in_msg_store_key :: string
  mr_prop_str :: string
  mr_action :: string

type_synonym msg_table = "msg_row list"

definition msg_row_of :: "msg_store_bean \<Rightarrow> msg_row" where
  "msg_row_of b =
     \<lparr>mr_stored_key = sprintf_s (mb_stored_key b), mr_msg_id = sprintf_s (mb_msg_id b),
      mr_soap_env_str = sprintf_s (mb_soap_env_str b), mr_soap_version = mb_soap_version b,
      mr_transport_out = mb_transport_out b, mr_op = sprintf_s (mb_op b),
      mr_svc = sprintf_s (mb_svc b), mr_svc_grp = sprintf_s (mb_svc_grp b),
      mr_op_mep = sprintf_s (mb_op_mep b), mr_to_url = sprintf_s (mb_to_url b),
      mr_reply_to = sprintf_s (mb_reply_to b), mr_transport_to = sprintf_s (mb_transport_to b),
      mr_execution_chain_str = sprintf_s (mb_execution_chain_str b), mr_flow = mb_flow b,
      mr_msg_recv_str = sprintf_s (mb_msg_recv_str b), mr_svr_side = mb_svr_side b,
      mr_in_msg_store_key = sprintf_s (mb_in_msg_store_key b),
      mr_prop_str = sprintf_s (mb_persistent_property_str b),
      mr_action = sprintf_s (mb_action b)\<rparr>"

text \<open>Three columns are kept out of the bean where they hold the text of a null pointer.\<close>

definition unless_null_text :: "string \<Rightarrow> cstr \<Rightarrow> cstr" where
  "unless_null_text col old = (if col \<noteq> null_text then Some col else old)"

definition msg_store_fill :: "msg_store_bean \<Rightarrow> msg_row \<Rightarrow> msg_store_bean" where
  "msg_store_fill bean r = bean
     \<lparr>mb_stored_key := Some (mr_stored_key r),
      mb_msg_id := Some (mr_msg_id r),
      mb_soap_env_str := unless_null_text (mr_soap_env_str r) (mb_soap_env_str bean),
      mb_soap_version := mr_soap_version r,
      mb_transport_out := mr_transport_out r,
      mb_op := Some (mr_op r),
      mb_svc := Some (mr_svc r),
      mb_svc_grp := Some (mr_svc_grp r),
      mb_op_mep := Some (mr_op_mep r),
      mb_to_url := unless_null_text (mr_to_url r) (mb_to_url bean),
      mb_transport_to := unless_null_text (mr_transport_to r) (mb_transport_to bean),
      mb_execution_chain_str := Some (mr_execution_chain_str r),
      mb_flow := mr_flow r,
      mb_msg_recv_str := Some (mr_msg_recv_str r),
      mb_svr_side := mr_svr_side r,
      mb_in_msg_store_key := Some (mr_in_msg_store_key r),
      mb_persistent_property_str := Some (mr_prop_str r),
      mb_action := Some (mr_action r)\<rparr>"

definition msg_store_bean_retrieve_callback ::
  "msg_store_bean option \<Rightarrow> msg_row \<Rightarrow> msg_store_bean option" where
  "msg_store_bean_retrieve_callback data r =
     (let bean = (case data of None \<Rightarrow> msg_store_bean_create | Some b \<Rightarrow> b)
      in Some (msg_store_fill bean r))"

definition retrieve_msg_store_bean :: "db_env \<Rightarrow> msg_table \<Rightarrow> cstr \<Rightarrow> msg_store_bean option" where
  "retrieve_msg_store_bean e t key =
     bean_mgr_retrieve e msg_store_bean_retrieve_callback
       (sql_select (\<lambda>r. mr_stored_key r = sprintf_s key) t)"

definition update_msg_store_bean :: "db_env \<Rightarrow> msg_table \<Rightarrow> msg_store_bean \<Rightarrow> msg_table \<times> bool" where
  "update_msg_store_bean e t bean =
     (let v = msg_row_of bean in
      bean_mgr_update e
        (sql_update (\<lambda>r. mr_stored_key r = mr_stored_key v)
           (\<lambda>r. r\<lparr>mr_msg_id := mr_msg_id v, mr_soap_env_str := mr_soap_env_str v,
                   mr_soap_version := mr_soap_version v, mr_transport_out := mr_transport_out v,
                   mr_op := mr_op v, mr_svc := mr_svc v, mr_svc_grp := mr_svc_grp v,
                   mr_op_mep := mr_op_mep v, mr_to_url := mr_to_url v,
                   mr_transport_to := mr_transport_to v, mr_reply_to := mr_reply_to v,
                   mr_execution_chain_str := mr_execution_chain_str v, mr_flow := mr_flow v,
                   mr_msg_recv_str := mr_msg_recv_str v, mr_svr_side := mr_svr_side v,
                   mr_in_msg_store_key := mr_in_msg_store_key v, mr_prop_str := mr_prop_str v,
                   mr_action := mr_action v\<rparr>)) t)"

definition insert_msg_store_bean :: "db_env \<Rightarrow> msg_table \<Rightarrow> msg_store_bean \<Rightarrow> msg_table \<times> bool" where
  "insert_msg_store_bean e t bean = bean_mgr_insert e (sql_insert_pk mr_stored_key (msg_row_of bean)) t"

definition remove_msg_store_bean :: "db_env \<Rightarrow> msg_table \<Rightarrow> cstr \<Rightarrow> msg_table \<times> bool" where
  "remove_msg_store_bean e t key =
     bean_mgr_remove e (sql_delete (\<lambda>r. mr_stored_key r = sprintf_s key)) t"

definition msg_store_dec :: "msg_row \<Rightarrow> msg_store_bean" where
  "msg_store_dec r = msg_store_fill msg_store_bean_create r"

abbreviation msg_store_look :: "msg_table \<Rightarrow> string \<Rightarrow> msg_store_bean option" where
  "msg_store_look \<equiv> table_look mr_stored_key msg_store_dec"

abbreviation msg_store_ok :: "msg_table \<Rightarrow> bool" where
  "msg_store_ok \<equiv> pk_ok mr_stored_key"

lemma msg_row_key [simp]: "mr_stored_key (msg_row_of b) = sprintf_s (mb_stored_key b)"
  by (simp add: msg_row_of_def)

lemma msg_store_update_sql:
  "update_msg_store_bean e t b
     = db_write e (sql_update (\<lambda>r. mr_stored_key r = mr_stored_key (msg_row_of b))
                     (\<lambda>_. msg_row_of b)) t"
proof -
  have "sql_update (\<lambda>r. mr_stored_key r = mr_stored_key v)
           (\<lambda>r. r\<lparr>mr_msg_id := mr_msg_id v, mr_soap_env_str := mr_soap_env_str v,
                   mr_soap_version := mr_soap_version v, mr_transport_out := mr_transport_out v,
                   mr_op := mr_op v, mr_svc := mr_svc v, mr_svc_grp := mr_svc_grp v,
                   mr_op_mep := mr_op_mep v, mr_to_url := mr_to_url v,
                   mr_transport_to := mr_transport_to v, mr_reply_to := mr_reply_to v,
                   mr_execution_chain_str := mr_execution_chain_str v, mr_flow := mr_flow v,
                   mr_msg_recv_str := mr_msg_recv_str v, mr_svr_side := mr_svr_side v,
                   mr_in_msg_store_key := mr_in_msg_store_key v, mr_prop_str := mr_prop_str v,
                   mr_action := mr_action v\<rparr>)
      = sql_update (\<lambda>r. mr_stored_key r = mr_stored_key v) (\<lambda>_. v)" for v :: msg_row
    by (auto simp: sql_update_def fun_eq_iff)
  then show ?thesis by (simp add: update_msg_store_bean_def bean_mgr_eqs Let_def)
qed

interpretation msg_store: pk_table
  insert_msg_store_bean update_msg_store_bean
  "\<lambda>e t k. remove_msg_store_bean e t (Some k)" "\<lambda>e t k. retrieve_msg_store_bean e t (Some k)"
  msg_row_of msg_store_dec mr_stored_key msg_store_bean_retrieve_callback
  by unfold_locales
     (simp_all add: insert_msg_store_bean_def remove_msg_store_bean_def retrieve_msg_store_bean_def
        msg_store_update_sql bean_mgr_eqs msg_store_bean_retrieve_callback_def msg_store_dec_def)

text \<open>The reply address of a stored message does not come back.\<close>

lemma msg_store_reply_to_lost: "mb_reply_to (msg_store_dec (msg_row_of b)) = None"
  by (simp add: msg_store_dec_def msg_store_fill_def msg_store_bean_create_def)

section \<open>Stored responses\<close>

record response =
  re_response_str :: cstr
  re_soap_version :: int

record response_row =
  rr_seq_id :: string
  rr_response_str :: string
  rr_msg_no :: int
  rr_soap_version :: int

type_synonym response_table = "response_row list"

text \<open>The callback overwrites both fields at every row, so the last row remains.\<close>

definition response_retrieve_callback :: "response option \<Rightarrow> response_row \<Rightarrow> response option" where
  "response_retrieve_callback data r =
     Some \<lparr>re_response_str = Some (rr_response_str r), re_soap_version = rr_soap_version r\<rparr>"

definition store_response ::
  "db_env \<Rightarrow> response_table \<Rightarrow> cstr \<Rightarrow> cstr \<Rightarrow> int \<Rightarrow> int \<Rightarrow> response_table \<times> bool" where
  "store_response e t seq_id resp msg_no soap_version =
     bean_mgr_insert e
       (sql_insert \<lparr>rr_seq_id = sprintf_s seq_id, rr_response_str = sprintf_s resp,
                    rr_msg_no = msg_no, rr_soap_version = soap_version\<rparr>) t"

definition remove_response ::
  "db_env \<Rightarrow> response_table \<Rightarrow> cstr \<Rightarrow> int \<Rightarrow> response_table \<times> bool" where
  "remove_response e t seq_id msg_no =
     bean_mgr_remove e (sql_delete (\<lambda>r. rr_seq_id r = sprintf_s seq_id \<and> rr_msg_no r = msg_no)) t"

definition retrieve_response ::
  "db_env \<Rightarrow> response_table \<Rightarrow> cstr \<Rightarrow> int \<Rightarrow> response option" where
  "retrieve_response e t seq_id msg_no =
     bean_mgr_retrieve e response_retrieve_callback
       (sql_select (\<lambda>r. rr_seq_id r = sprintf_s seq_id \<and> rr_msg_no r = msg_no) t)"

lemma foldl_response_callback:
  "foldl response_retrieve_callback d rs
     = (if rs = [] then d
        else Some \<lparr>re_response_str = Some (rr_response_str (last rs)),
                   re_soap_version = rr_soap_version (last rs)\<rparr>)"
  by (induction rs arbitrary: d) (simp_all add: response_retrieve_callback_def)

text \<open>A response is found again by its sequence and number, the latest one stored.\<close>

lemma retrieve_store_response:
  assumes "db_up e" "db_up e'"
  shows "retrieve_response e' (fst (store_response e t (Some s) (Some x) n v)) (Some s') n'
       = (if s' = s \<and> n' = n then Some \<lparr>re_response_str = Some x, re_soap_version = v\<rparr>
          else retrieve_response e' t (Some s') n')"
  using assms
  by (auto simp: retrieve_response_def store_response_def bean_mgr_eqs db_write_def db_query_def
      sql_insert_def sql_select_def foldl_response_callback)

lemma retrieve_remove_response:
  assumes "db_up e" "db_up e'"
  shows "retrieve_response e' (fst (remove_response e t (Some s) n)) (Some s') n'
       = (if s' = s \<and> n' = n then None else retrieve_response e' t (Some s') n')"
proof -
  let ?P = "\<lambda>r. rr_seq_id r = s \<and> rr_msg_no r = n"
  let ?Q = "\<lambda>r. rr_seq_id r = s' \<and> rr_msg_no r = n'"
  have "filter ?Q (filter (\<lambda>r. \<not> ?P r) t) = (if s' = s \<and> n' = n then [] else filter ?Q t)"
    by (auto simp: filter_empty_conv intro!: filter_cong)
  then show ?thesis using assms
    by (auto simp: retrieve_response_def remove_response_def bean_mgr_eqs db_write_def
        db_query_def sql_delete_def sql_select_def)
qed

end
