(* ===== verification/Storage_Mgr.thy ===== *)
theory Storage_Mgr
  imports Msg_Store
begin

text \<open>
  \<open>src/storage/sqlite/permanent_storage_mgr.c\<close>: how a message context becomes a row of the
  message store and is rebuilt from one, and the text its properties are stored as.

  What Axis2 and Axiom do is in the arguments: a message context holds the text its envelope
  serialises to and its property map in the order \<open>axutil_hash\<close> visits it; rebuilding takes
  whether Axiom parses an envelope and which services and transports the configuration has.
\<close>

section \<open>Message contexts\<close>

record msg_ctx =
  mc_envelope :: cstr
  mc_soap11 :: bool
  mc_transport_out :: "int option"
  mc_svc_grp :: "cstr option"
  mc_svc :: "cstr option"
  mc_op_mep :: "cstr option"
  mc_flow :: int
  mc_svr_side :: bool
  mc_msg_id :: cstr
  mc_to :: "cstr option"
  mc_reply_to :: "cstr option"
  mc_transport_url :: cstr
  mc_action :: cstr
  mc_wsa_version :: cstr
  mc_properties :: "(string \<times> cstr) list"
  mc_has_request :: bool
  mc_in_store_key :: cstr

definition SANDESHA2_SOAP_VERSION_1_1 :: int where
  "SANDESHA2_SOAP_VERSION_1_1 = 1"
definition SANDESHA2_SOAP_VERSION_1_2 :: int where
  "SANDESHA2_SOAP_VERSION_1_2 = 2"
definition SANDESHA2_ORIGINAL_TRANSPORT_OUT_DESC :: string where
  "SANDESHA2_ORIGINAL_TRANSPORT_OUT_DESC = ''Sandesha2OriginalTransportSender''"

text \<open>The names of Axis2 properties, which Axis2's headers define.\<close>

record axis2_keys =
  ax_wsa_version :: string
  ax_http_out_transport_info :: string
  ax_transport_out :: string
  ax_transport_in :: string
  ax_transport_headers :: string
  ax_http_client :: string
  ax_http_header_content_length :: string

section \<open>Properties as a text\<close>

text \<open>The loop leaves out the properties that only matter to the transport.\<close>

definition skipped_property :: "axis2_keys \<Rightarrow> string \<Rightarrow> bool" where
  "skipped_property ax key \<longleftrightarrow>
     key = ax_http_out_transport_info ax \<or> key = ax_transport_out ax \<or> key = ax_transport_in ax
     \<or> key = ax_transport_headers ax \<or> key = SANDESHA2_ORIGINAL_TRANSPORT_OUT_DESC
     \<or> key = ax_http_client ax \<or> key = ax_http_header_content_length ax"

fun property_string_loop :: "axis2_keys \<Rightarrow> string \<Rightarrow> (string \<times> cstr) list \<Rightarrow> string" where
  "property_string_loop ax prop_str [] = prop_str"
| "property_string_loop ax prop_str ((key, v) # rest) =
     (if skipped_property ax key then property_string_loop ax prop_str rest
      else (case v of
              None \<Rightarrow> property_string_loop ax prop_str rest
            | Some value \<Rightarrow> property_string_loop ax
                (prop_str @ PERSISTANT_PROPERTY_SEPERATOR @ key @ PERSISTANT_PROPERTY_SEPERATOR @ value)
                rest))"

definition get_property_string :: "axis2_keys \<Rightarrow> cstr \<Rightarrow> (string \<times> cstr) list \<Rightarrow> string" where
  "get_property_string ax wsa_version properties =
     (let prop_str = ''temp_key'' @ PERSISTANT_PROPERTY_SEPERATOR @ ''temp_value'';
          prop_str = (case wsa_version of
             None \<Rightarrow> prop_str
           | Some value \<Rightarrow> prop_str @ PERSISTANT_PROPERTY_SEPERATOR @ ax_wsa_version ax
               @ PERSISTANT_PROPERTY_SEPERATOR @ value)
      in property_string_loop ax prop_str properties)"

text \<open>The pairs of the split text, each set in the map under construction.\<close>

fun property_pairs :: "(string \<rightharpoonup> string) \<Rightarrow> string list \<Rightarrow> (string \<rightharpoonup> string)" where
  "property_pairs m (key # value # rest) = property_pairs (m(key \<mapsto> value)) rest"
| "property_pairs m _ = m"

definition get_property_map_from_string :: "string \<Rightarrow> (string \<rightharpoonup> string) option" where
  "get_property_map_from_string str =
     (let values = utils_split str; n = length values in
      if n mod 2 \<noteq> 0 \<or> (n = 1 \<and> values ! 0 = '''') then None
      else Some (property_pairs Map.empty values))"

section \<open>Storing and rebuilding a message context\<close>

text \<open>A field that is set only where there is an object to read it from; it is null before.\<close>

definition opt_address :: "cstr option \<Rightarrow> cstr" where
  "opt_address obj = (case obj of None \<Rightarrow> None | Some a \<Rightarrow> a)"

text \<open>\<open>uuid\<close> is the id that is generated where a request message has no storage key yet.\<close>

definition get_msg_store_bean :: "axis2_keys \<Rightarrow> string \<Rightarrow> msg_ctx \<Rightarrow> msg_store_bean option" where
  "get_msg_store_bean ax uuid ctx =
     (case mc_envelope ctx of
        None \<Rightarrow> None
      | Some soap_str \<Rightarrow>
          Some (msg_store_bean_create
            \<lparr>mb_transport_out := (case mc_transport_out ctx of None \<Rightarrow> -1 | Some t \<Rightarrow> t),
             mb_svc_grp := opt_address (mc_svc_grp ctx),
             mb_svc := opt_address (mc_svc ctx),
             mb_op_mep := opt_address (mc_op_mep ctx),
             mb_flow := mc_flow ctx,
             mb_svr_side := of_bool (mc_svr_side ctx),
             mb_soap_env_str := Some soap_str,
             mb_soap_version := (if mc_soap11 ctx then SANDESHA2_SOAP_VERSION_1_1
                                 else SANDESHA2_SOAP_VERSION_1_2),
             mb_msg_id := mc_msg_id ctx,
             mb_to_url := opt_address (mc_to ctx),
             mb_reply_to := opt_address (mc_reply_to ctx),
             mb_transport_to := mc_transport_url ctx,
             mb_action := mc_action ctx,
             mb_persistent_property_str :=
               Some (get_property_string ax (mc_wsa_version ctx) (mc_properties ctx)),
             mb_in_msg_store_key :=
               (if mc_has_request ctx
                then (case mc_in_store_key ctx of None \<Rightarrow> Some uuid | Some k \<Rightarrow> Some k)
                else None)\<rparr>))"

record axis2_conf =
  ac_parses :: "int \<Rightarrow> string \<Rightarrow> bool"
  ac_has_svc :: "string \<Rightarrow> bool"
  ac_has_transport :: "int \<Rightarrow> bool"

text \<open>What is rebuilt: the message context and the map of the properties put into it.\<close>

definition rebuild_msg_ctx ::
  "axis2_conf \<Rightarrow> msg_store_bean \<Rightarrow> (msg_ctx \<times> (string \<rightharpoonup> string)) option" where
  "rebuild_msg_ctx ac bean =
     (if (case mb_soap_env_str bean of None \<Rightarrow> False
          | Some s \<Rightarrow> \<not> ac_parses ac (mb_soap_version bean) s) then None
      else Some
        (\<lparr>mc_envelope = mb_soap_env_str bean,
          mc_soap11 = (mb_soap_version bean = SANDESHA2_SOAP_VERSION_1_1),
          mc_transport_out = (if ac_has_transport ac (mb_transport_out bean)
                              then Some (mb_transport_out bean) else None),
          mc_svc_grp = None,
          mc_svc = (case mb_svc bean of None \<Rightarrow> None
                    | Some s \<Rightarrow> if ac_has_svc ac s then Some (Some s) else None),
          mc_op_mep = None,
          mc_flow = mb_flow bean,
          mc_svr_side = (mb_svr_side bean \<noteq> 0),
          mc_msg_id = mb_msg_id bean,
          mc_to = map_option Some (mb_to_url bean),
          mc_reply_to = map_option Some (mb_reply_to bean),
          mc_transport_url = mb_transport_to bean,
          mc_action = mb_action bean,
          mc_wsa_version = None, mc_properties = [], mc_has_request = False,
          mc_in_store_key = None\<rparr>,
         (case mb_persistent_property_str bean of
            None \<Rightarrow> Map.empty
          | Some s \<Rightarrow> if s = '''' then Map.empty
                     else (case get_property_map_from_string s of
                             None \<Rightarrow> Map.empty | Some m \<Rightarrow> m))))"

definition retrieve_msg_ctx ::
  "axis2_conf \<Rightarrow> db_env \<Rightarrow> msg_table \<Rightarrow> cstr \<Rightarrow> (msg_ctx \<times> (string \<rightharpoonup> string)) option" where
  "retrieve_msg_ctx ac e t key =
     (case retrieve_msg_store_bean e t key of
        None \<Rightarrow> None
      | Some bean \<Rightarrow> rebuild_msg_ctx ac bean)"

section \<open>Properties come back\<close>

text \<open>The pieces of the text, in order.\<close>

definition stored_properties :: "axis2_keys \<Rightarrow> cstr \<Rightarrow> (string \<times> cstr) list \<Rightarrow> (string \<times> string) list" where
  "stored_properties ax wsa_version properties =
     (''temp_key'', ''temp_value'')
     # (case wsa_version of None \<Rightarrow> [] | Some v \<Rightarrow> [(ax_wsa_version ax, v)])
     @ map (\<lambda>(k, v). (k, the v)) (filter (\<lambda>(k, v). \<not> skipped_property ax k \<and> v \<noteq> None) properties)"

definition flat_pairs :: "(string \<times> string) list \<Rightarrow> string list" where
  "flat_pairs kvs = concat (map (\<lambda>(k, v). [k, v]) kvs)"

lemma flat_pairs_simps [simp]:
  "flat_pairs [] = []" "flat_pairs ((k, v) # r) = k # v # flat_pairs r"
  "flat_pairs (a @ b) = flat_pairs a @ flat_pairs b"
  by (simp_all add: flat_pairs_def)

lemma property_pairs_flat: "property_pairs m (flat_pairs kvs) = m ++ map_of (rev kvs)"
  by (induction kvs arbitrary: m) (auto simp: map_add_assoc simp flip: map_add_upd_left)

lemma length_flat_pairs [simp]: "length (flat_pairs kvs) = 2 * length kvs"
  by (induction kvs) auto

lemma utils_split_pieces:
  "\<forall>t \<in> set (s # ts). sep_free t \<Longrightarrow>
   utils_split (s @ concat (map (\<lambda>t. PERSISTANT_PROPERTY_SEPERATOR @ t) ts)) = s # ts"
  by (induction ts arbitrary: s) (simp_all add: utils_split_last utils_split_sep)

lemma property_string_loop_eq:
  "property_string_loop ax acc ps
     = acc @ concat (map (\<lambda>t. PERSISTANT_PROPERTY_SEPERATOR @ t)
         (flat_pairs (map (\<lambda>(k, v). (k, the v))
            (filter (\<lambda>(k, v). \<not> skipped_property ax k \<and> v \<noteq> None) ps))))"
  by (induction ps arbitrary: acc) (auto split: option.splits)

lemma get_property_string_eq:
  "get_property_string ax wsa ps
     = hd (flat_pairs (stored_properties ax wsa ps))
       @ concat (map (\<lambda>t. PERSISTANT_PROPERTY_SEPERATOR @ t)
           (tl (flat_pairs (stored_properties ax wsa ps))))"
  by (simp add: get_property_string_def property_string_loop_eq stored_properties_def Let_def
      split: option.splits)

lemma flat_pairs_stored: "flat_pairs (stored_properties ax wsa ps) \<noteq> []"
  by (simp add: stored_properties_def)

lemma property_map_of_string:
  assumes "\<forall>t \<in> set (flat_pairs (stored_properties ax wsa ps)). sep_free t"
  shows "get_property_map_from_string (get_property_string ax wsa ps)
       = Some (map_of (rev (stored_properties ax wsa ps)))"
proof -
  let ?fs = "flat_pairs (stored_properties ax wsa ps)"
  obtain h r where fs: "?fs = h # r" using flat_pairs_stored by (meson neq_Nil_conv)
  then have "utils_split (get_property_string ax wsa ps) = ?fs"
    using assms utils_split_pieces[of h r] by (simp add: get_property_string_eq)
  moreover have "length ?fs mod 2 = 0" by simp
  ultimately show ?thesis
    by (auto simp: get_property_map_from_string_def Let_def property_pairs_flat simp del: length_flat_pairs)
qed

lemma set_flat_pairs: "set (flat_pairs kvs) = fst ` set kvs \<union> snd ` set kvs"
  unfolding flat_pairs_def by force

text \<open>C32: the properties of a message context survive being stored:
  reading back the text gives every property with a value that is not one of the transport's
  its value, provided no key and no value is empty or has a comma and the keys are distinct
  from each other and from the two names the text starts with.\<close>

theorem property_string_roundtrip:
  assumes "distinct (map fst ps)" "(k, Some v) \<in> set ps" "\<not> skipped_property ax k"
    and "\<forall>(k, v) \<in> set ps. sep_free k \<and> (\<forall>x. v = Some x \<longrightarrow> sep_free x)"
    and "sep_free (ax_wsa_version ax)" "\<forall>x. wsa = Some x \<longrightarrow> sep_free x"
  shows "\<exists>m. get_property_map_from_string (get_property_string ax wsa ps) = Some m \<and> m k = Some v"
proof -
  let ?kept = "map (\<lambda>(k, v). (k, the v)) (filter (\<lambda>(k, v). \<not> skipped_property ax k \<and> v \<noteq> None) ps)"
  have keys: "map fst ?kept = map fst (filter (\<lambda>(k, v). \<not> skipped_property ax k \<and> v \<noteq> None) ps)"
    by (simp add: case_prod_beta comp_def)
  have "distinct (map fst ?kept)"
    unfolding keys using assms(1) by (rule distinct_map_filter)
  moreover have "(k, v) \<in> set ?kept" using assms(2,3) by force
  ultimately have look: "map_of (rev ?kept) k = Some v"
    by (simp add: rev_map map_of_is_SomeI distinct_rev flip: rev_map)
  have kept_free: "\<forall>t \<in> set (flat_pairs ?kept). sep_free t"
    using assms(4) by (fastforce simp: set_flat_pairs)
  then have "\<forall>t \<in> set (flat_pairs (stored_properties ax wsa ps)). sep_free t"
    using assms(5,6) by (auto simp: stored_properties_def sep_free_def split: option.splits)
  then have "get_property_map_from_string (get_property_string ax wsa ps)
      = Some (map_of (rev (stored_properties ax wsa ps)))"
    by (rule property_map_of_string)
  moreover have "map_of (rev (stored_properties ax wsa ps)) k = Some v"
    using look by (simp add: stored_properties_def)
  ultimately show ?thesis by blast
qed

definition sample_keys :: axis2_keys where
  "sample_keys = \<lparr>ax_wsa_version = ''WSAVersion'', ax_http_out_transport_info = ''HTTPOutTransportInfo'',
     ax_transport_out = ''TransportOut'', ax_transport_in = ''TransportIn'',
     ax_transport_headers = ''TransportHeaders'', ax_http_client = ''HTTPClient'',
     ax_http_header_content_length = ''Content-Length''\<rparr>"

theorem property_string_roundtrip_witness:
  "\<exists>m. get_property_map_from_string
        (get_property_string sample_keys (Some ''wsa'') [(''TransportIn'', Some ''x''), (''key'', Some ''val'')])
      = Some m \<and> m ''key'' = Some ''val''"
  by (rule property_string_roundtrip)
     (simp_all add: sample_keys_def skipped_property_def sep_free_def
        SANDESHA2_ORIGINAL_TRANSPORT_OUT_DESC_def)

section \<open>Message contexts come back\<close>

text \<open>The fields a rebuilt context shares with the stored one.\<close>

definition same_delivery :: "msg_ctx \<Rightarrow> msg_ctx \<Rightarrow> bool" where
  "same_delivery a b \<longleftrightarrow> mc_envelope a = mc_envelope b \<and> mc_soap11 a = mc_soap11 b
     \<and> mc_flow a = mc_flow b \<and> mc_svr_side a = mc_svr_side b \<and> mc_msg_id a = mc_msg_id b
     \<and> mc_to a = mc_to b \<and> mc_transport_url a = mc_transport_url b \<and> mc_action a = mc_action b"

text \<open>No text that is there reads like the text of a null pointer, and the addresses are there.\<close>

definition storable :: "msg_ctx \<Rightarrow> bool" where
  "storable c \<longleftrightarrow> mc_envelope c \<noteq> None \<and> mc_msg_id c \<noteq> None \<and> mc_action c \<noteq> None
     \<and> (\<forall>x \<in> {mc_envelope c, mc_transport_url c}. x \<noteq> Some null_text)
     \<and> mc_to c \<noteq> Some None \<and> mc_to c \<noteq> Some (Some null_text)"

lemma store_bean_fields:
  assumes "get_msg_store_bean ax u ctx = Some b"
  shows "mb_soap_env_str b = mc_envelope ctx" "mb_flow b = mc_flow ctx"
    "mb_svr_side b = of_bool (mc_svr_side ctx)" "mb_msg_id b = mc_msg_id ctx"
    "mb_soap_version b = (if mc_soap11 ctx then 1 else 2)"
    "mb_to_url b = opt_address (mc_to ctx)" "mb_reply_to b = opt_address (mc_reply_to ctx)"
    "mb_transport_to b = mc_transport_url ctx" "mb_action b = mc_action ctx"
  using assms
  by (auto simp: get_msg_store_bean_def SANDESHA2_SOAP_VERSION_1_1_def
      SANDESHA2_SOAP_VERSION_1_2_def split: option.splits)

lemma msg_store_dec_fields:
  "mb_soap_env_str (msg_store_dec (msg_row_of b)) = unless_null_text (sprintf_s (mb_soap_env_str b)) None"
  "mb_flow (msg_store_dec (msg_row_of b)) = mb_flow b"
  "mb_svr_side (msg_store_dec (msg_row_of b)) = mb_svr_side b"
  "mb_msg_id (msg_store_dec (msg_row_of b)) = Some (sprintf_s (mb_msg_id b))"
  "mb_soap_version (msg_store_dec (msg_row_of b)) = mb_soap_version b"
  "mb_to_url (msg_store_dec (msg_row_of b)) = unless_null_text (sprintf_s (mb_to_url b)) None"
  "mb_transport_to (msg_store_dec (msg_row_of b)) = unless_null_text (sprintf_s (mb_transport_to b)) None"
  "mb_action (msg_store_dec (msg_row_of b)) = Some (sprintf_s (mb_action b))"
  by (simp_all add: msg_store_dec_def msg_store_fill_def msg_store_bean_create_def msg_row_of_def)

lemma unless_null_text_same:
  "x \<noteq> Some null_text \<Longrightarrow> unless_null_text (sprintf_s x) None = x"
  by (cases x) (simp_all add: unless_null_text_def)

lemma rebuilt_fields:
  assumes "storable ctx" "get_msg_store_bean ax u ctx = Some b" "mc_envelope ctx = Some x"
    and "ac_parses ac (if mc_soap11 ctx then 1 else 2) x"
  shows "\<exists>c m. rebuild_msg_ctx ac (msg_store_dec (msg_row_of (b\<lparr>mb_stored_key := Some k\<rparr>))) = Some (c, m)
     \<and> same_delivery c ctx \<and> mc_reply_to c = None"
proof -
  have to: "map_option Some (opt_address (mc_to ctx)) = mc_to ctx"
    "opt_address (mc_to ctx) \<noteq> Some null_text"
    using assms(1) by (auto simp: opt_address_def storable_def split: option.splits)
  have env: "unless_null_text x None = Some x"
    using assms(1,3) by (simp add: storable_def unless_null_text_def)
  show ?thesis using assms(1,3,4)
    by (auto simp: rebuild_msg_ctx_def same_delivery_def msg_store_dec_fields store_bean_fields[OF assms(2)]
        msg_store_reply_to_lost SANDESHA2_SOAP_VERSION_1_1_def unless_null_text_same to env storable_def
        split: option.splits)
qed

text \<open>C27: a message context that is stored under a fresh key and
  retrieved again, the database answering both times and Axiom parsing the envelope that was stored, has the
  envelope, addresses, ids, action, direction and flow it was stored with - but never its
  reply address.\<close>

theorem stored_msg_ctx_comes_back:
  assumes "db_up e" "db_up e'" "msg_store_ok t" "msg_store_look t k = None"
    and "storable ctx" "get_msg_store_bean ax u ctx = Some b" "mc_envelope ctx = Some x"
    and "ac_parses ac (if mc_soap11 ctx then 1 else 2) x"
  shows "\<exists>c m. retrieve_msg_ctx ac e' (fst (insert_msg_store_bean e t (b\<lparr>mb_stored_key := Some k\<rparr>))) (Some k)
             = Some (c, m)
           \<and> same_delivery c ctx \<and> mc_reply_to c = None"
proof -
  let ?b = "b\<lparr>mb_stored_key := Some k\<rparr>"
  have "retrieve_msg_store_bean e' (fst (insert_msg_store_bean e t ?b)) (Some k)
      = Some (msg_store_dec (msg_row_of ?b))"
    using msg_store.retrieve_after_insert[OF assms(1-3), of ?b k] assms(4) by simp
  then show ?thesis
    using rebuilt_fields[OF assms(5-8)] by (simp add: retrieve_msg_ctx_def)
qed

definition sample_ctx :: msg_ctx where
  "sample_ctx = \<lparr>mc_envelope = Some ''<soap/>'', mc_soap11 = True, mc_transport_out = Some 1,
     mc_svc_grp = None, mc_svc = Some (Some ''svc''), mc_op_mep = None, mc_flow = 2,
     mc_svr_side = True, mc_msg_id = Some ''msg-1'', mc_to = Some (Some ''http://server''),
     mc_reply_to = Some (Some ''http://client''), mc_transport_url = None,
     mc_action = Some ''action'', mc_wsa_version = Some ''wsa'', mc_properties = [],
     mc_has_request = False, mc_in_store_key = None\<rparr>"

definition sample_axis2 :: axis2_conf where
  "sample_axis2 = \<lparr>ac_parses = (\<lambda>_ _. True), ac_has_svc = (\<lambda>_. True), ac_has_transport = (\<lambda>_. True)\<rparr>"

text \<open>A parser that accepts texts of the two versions of SOAP that are enclosed in angle brackets.\<close>

definition bracket_parser :: axis2_conf where
  "bracket_parser = sample_axis2\<lparr>ac_parses := (\<lambda>v s. v \<in> {1, 2} \<and> 2 \<le> length s \<and> hd s = CHR ''<'' \<and> last s = CHR ''>'')\<rparr>"

theorem stored_msg_ctx_comes_back_witness:
  "\<exists>c m. retrieve_msg_ctx bracket_parser \<lparr>de_open = True, de_busy = (\<lambda>_. False)\<rparr>
       (fst (insert_msg_store_bean \<lparr>de_open = True, de_busy = (\<lambda>_. False)\<rparr> []
          ((the (get_msg_store_bean sample_keys ''u'' sample_ctx))\<lparr>mb_stored_key := Some ''k''\<rparr>)))
       (Some ''k'') = Some (c, m)
     \<and> same_delivery c sample_ctx \<and> mc_reply_to c = None"
  by (rule stored_msg_ctx_comes_back[where x = "''<soap/>''"])
     (auto simp: db_up_iff storable_def sample_ctx_def bracket_parser_def null_text_def table_look_def
        get_msg_store_bean_def intro: exI[of _ 0])

end
