(* ===== verification/Invoker_Mgr.thy ===== *)
theory Invoker_Mgr
  imports Sender_Mgr
begin

text \<open>
  \<open>src/storage/sqlite/permanent_invoker_mgr.c\<close>: the messages that wait for in-order
  invocation.  Three operations of this file do not do what the other managers do: the
  retrieval drops the bean it read, the update prints into a null pointer, and the search
  returns its untouched result variable.
\<close>

record invoker_row =
  ir_msg_ctx_ref_key :: string
  ir_msg_no :: int
  ir_seq_id :: string
  ir_is_invoked :: bool

type_synonym invoker_table = "invoker_row list"

definition invoker_row_of :: "invoker_bean \<Rightarrow> invoker_row" where
  "invoker_row_of b =
     \<lparr>ir_msg_ctx_ref_key = sprintf_s (ib_msg_ctx_ref_key b), ir_msg_no = ib_msg_no b,
      ir_seq_id = sprintf_s (ib_seq_id b), ir_is_invoked = ib_invoked b\<rparr>"

definition invoker_fill :: "invoker_bean \<Rightarrow> invoker_row \<Rightarrow> invoker_bean" where
  "invoker_fill bean r = bean
     \<lparr>ib_msg_ctx_ref_key := Some (ir_msg_ctx_ref_key r), ib_msg_no := ir_msg_no r,
      ib_seq_id := Some (ir_seq_id r), ib_invoked := ir_is_invoked r\<rparr>"

definition invoker_find_callback ::
  "invoker_bean list option \<Rightarrow> invoker_row \<Rightarrow> invoker_bean list option" where
  "invoker_find_callback data_list r = collect_with (invoker_fill invoker_bean_create) data_list r"

definition invoker_retrieve_callback :: "invoker_bean option \<Rightarrow> invoker_row \<Rightarrow> invoker_bean option" where
  "invoker_retrieve_callback data r =
     (let bean = (case data of None \<Rightarrow> invoker_bean_create | Some b \<Rightarrow> b)
      in Some (invoker_fill bean r))"

definition invoker_mgr_insert ::
  "db_env \<Rightarrow> invoker_table \<Rightarrow> invoker_bean option \<Rightarrow> invoker_table \<times> bool" where
  "invoker_mgr_insert e t bean =
     (case bean of
        None \<Rightarrow> (t, False)
      | Some b \<Rightarrow> bean_mgr_insert e (sql_insert_pk ir_msg_ctx_ref_key (invoker_row_of b)) t)"

definition invoker_mgr_remove :: "db_env \<Rightarrow> invoker_table \<Rightarrow> cstr \<Rightarrow> invoker_table \<times> bool" where
  "invoker_mgr_remove e t key =
     (case key of
        None \<Rightarrow> (t, False)
      | Some k \<Rightarrow> bean_mgr_remove e (sql_delete (\<lambda>r. ir_msg_ctx_ref_key r = k)) t)"

definition invoker_mgr_retrieve :: "db_env \<Rightarrow> invoker_table \<Rightarrow> cstr \<Rightarrow> invoker_bean option" where
  "invoker_mgr_retrieve e t key =
     (let bean = None in
      case key of
        None \<Rightarrow> None
      | Some k \<Rightarrow>
          (let ignored = bean_mgr_retrieve e invoker_retrieve_callback
                           (sql_select (\<lambda>r. ir_msg_ctx_ref_key r = k) t)
           in bean))"

text \<open>\<open>None\<close>: the write of the statement through the null pointer.\<close>

definition invoker_mgr_update ::
  "db_env \<Rightarrow> invoker_table \<Rightarrow> invoker_bean option \<Rightarrow> (invoker_table \<times> bool) option" where
  "invoker_mgr_update e t bean = (case bean of None \<Rightarrow> Some (t, False) | Some b \<Rightarrow> None)"

definition invoker_mgr_match :: "invoker_bean \<Rightarrow> invoker_bean \<Rightarrow> bool" where
  "invoker_mgr_match bean candidate =
     (\<not> (ib_msg_ctx_ref_key bean \<noteq> None \<and> ib_msg_ctx_ref_key candidate \<noteq> None
         \<and> ib_msg_ctx_ref_key bean \<noteq> ib_msg_ctx_ref_key candidate)
      \<and> \<not> (ib_seq_id bean \<noteq> None \<and> ib_seq_id candidate \<noteq> None
           \<and> ib_seq_id bean \<noteq> ib_seq_id candidate)
      \<and> \<not> (ib_msg_no bean \<noteq> 0 \<and> ib_msg_no bean \<noteq> ib_msg_no candidate)
      \<and> \<not> (ib_invoked bean \<noteq> ib_invoked candidate))"

definition invoker_all :: "db_env \<Rightarrow> invoker_table \<Rightarrow> invoker_bean list option" where
  "invoker_all e t = bean_mgr_find e invoker_find_callback (sql_select (\<lambda>_. True) t)"

definition invoker_mgr_find ::
  "db_env \<Rightarrow> invoker_table \<Rightarrow> invoker_bean option \<Rightarrow> invoker_bean list option" where
  "invoker_mgr_find e t bean =
     (let find_list = invoker_all e t; ret = None in
      case bean of
        None \<Rightarrow> find_list
      | Some b \<Rightarrow>
          (let match_list = filter (invoker_mgr_match b) (list_elems find_list) in ret))"

definition invoker_mgr_find_unique ::
  "db_env \<Rightarrow> invoker_table \<Rightarrow> invoker_bean option \<Rightarrow> invoker_bean option" where
  "invoker_mgr_find_unique e t bean =
     (case bean of
        None \<Rightarrow> None
      | Some b \<Rightarrow>
          (let match_list = filter (invoker_mgr_match b) (list_elems (invoker_all e t)) in
           if length match_list = 1 then Some (match_list ! 0) else None))"

definition invoker_dec :: "invoker_row \<Rightarrow> invoker_bean" where
  "invoker_dec r = invoker_fill invoker_bean_create r"

lemma invoker_callback_eq: "invoker_find_callback = collect_with invoker_dec"
  by (simp add: invoker_find_callback_def invoker_dec_def collect_with_def fun_eq_iff)

lemma invoker_all_elems: "db_up e \<Longrightarrow> list_elems (invoker_all e t) = map invoker_dec t"
  by (simp add: invoker_all_def bean_mgr_eqs sql_select_def list_elems_query_collect
      invoker_callback_eq)

text \<open>A stored message cannot be read back by its key, nor by a search with a pattern.\<close>

lemma invoker_reads_lose:
  "invoker_mgr_retrieve e t key = None" "invoker_mgr_find e t (Some b) = None"
  by (simp_all add: invoker_mgr_retrieve_def invoker_mgr_find_def Let_def split: option.splits)

end
