(* ===== verification/Seq_Property_Mgr.thy ===== *)
theory Seq_Property_Mgr
  imports Sender_Mgr
begin

text \<open>
  \<open>src/storage/sqlite/permanent_seq_property_mgr.c\<close>: the named values of a sequence, which
  hold most of the protocol state.  The table has no primary key; the id column holds
  \<open>seq_id:name\<close>.
\<close>

record seq_property_row =
  pr_id :: string
  pr_seq_id :: string
  pr_name :: string
  pr_value :: string

type_synonym seq_property_table = "seq_property_row list"

text \<open>\<open>axutil_strcat\<close> concatenates its arguments up to the first null one.\<close>

definition axutil_strcat :: "cstr list \<Rightarrow> string" where
  "axutil_strcat args = concat (map the (takeWhile (\<lambda>a. \<not> is_null a) args))"

definition get_id_with_seq_id_and_name :: "cstr \<Rightarrow> cstr \<Rightarrow> string" where
  "get_id_with_seq_id_and_name seq_id name = axutil_strcat [seq_id, Some '':'', name]"

definition get_id_with_bean :: "seq_property_bean \<Rightarrow> string" where
  "get_id_with_bean bean = axutil_strcat [sp_seq_id bean, Some '':'', sp_name bean]"

definition seq_property_row_of :: "seq_property_bean \<Rightarrow> seq_property_row" where
  "seq_property_row_of b =
     \<lparr>pr_id = get_id_with_bean b, pr_seq_id = sprintf_s (sp_seq_id b),
      pr_name = sprintf_s (sp_name b), pr_value = sprintf_s (sp_value b)\<rparr>"

definition seq_property_fill :: "seq_property_bean \<Rightarrow> seq_property_row \<Rightarrow> seq_property_bean" where
  "seq_property_fill bean r = bean
     \<lparr>sp_seq_id := Some (pr_seq_id r), sp_name := Some (pr_name r), sp_value := Some (pr_value r)\<rparr>"

definition seq_property_find_callback ::
  "seq_property_bean list option \<Rightarrow> seq_property_row \<Rightarrow> seq_property_bean list option" where
  "seq_property_find_callback data_list r =
     collect_with (seq_property_fill seq_property_bean_create) data_list r"

text \<open>The retrieve callback forgets what it collected before: the last row remains.\<close>

definition seq_property_retrieve_callback ::
  "seq_property_bean option \<Rightarrow> seq_property_row \<Rightarrow> seq_property_bean option" where
  "seq_property_retrieve_callback data r =
     (let data' = (None :: seq_property_bean option);
          bean = (case data' of None \<Rightarrow> seq_property_bean_create | Some b \<Rightarrow> b)
      in Some (seq_property_fill bean r))"

section \<open>Operations\<close>

definition seq_property_mgr_insert ::
  "db_env \<Rightarrow> seq_property_table \<Rightarrow> seq_property_bean option \<Rightarrow> seq_property_table \<times> bool" where
  "seq_property_mgr_insert e t bean =
     (case bean of
        None \<Rightarrow> (t, False)
      | Some b \<Rightarrow> bean_mgr_insert e (sql_insert (seq_property_row_of b)) t)"

definition seq_property_remove_id ::
  "db_env \<Rightarrow> seq_property_table \<Rightarrow> string \<Rightarrow> seq_property_table \<times> bool" where
  "seq_property_remove_id e t i = bean_mgr_remove e (sql_delete (\<lambda>r. pr_id r = i)) t"

definition seq_property_mgr_remove ::
  "db_env \<Rightarrow> seq_property_table \<Rightarrow> cstr \<Rightarrow> cstr \<Rightarrow> seq_property_table \<times> bool" where
  "seq_property_mgr_remove e t seq_id name =
     (if is_null seq_id then (t, False)
      else if is_null name then (t, False)
      else seq_property_remove_id e t (get_id_with_seq_id_and_name seq_id name))"

definition seq_property_retrieve_id ::
  "db_env \<Rightarrow> seq_property_table \<Rightarrow> string \<Rightarrow> seq_property_bean option" where
  "seq_property_retrieve_id e t i =
     bean_mgr_retrieve e seq_property_retrieve_callback (sql_select (\<lambda>r. pr_id r = i) t)"

definition seq_property_mgr_retrieve ::
  "db_env \<Rightarrow> seq_property_table \<Rightarrow> cstr \<Rightarrow> cstr \<Rightarrow> seq_property_bean option" where
  "seq_property_mgr_retrieve e t seq_id name =
     (if is_null seq_id then None
      else if is_null name then None
      else seq_property_retrieve_id e t (get_id_with_seq_id_and_name seq_id name))"

definition seq_property_mgr_update ::
  "db_env \<Rightarrow> seq_property_table \<Rightarrow> seq_property_bean option \<Rightarrow> seq_property_table \<times> bool" where
  "seq_property_mgr_update e t bean =
     (case bean of
        None \<Rightarrow> (t, False)
      | Some b \<Rightarrow>
          (let i = get_id_with_bean b; v = seq_property_row_of b in
           bean_mgr_update e
             (sql_update (\<lambda>r. pr_id r = i)
                (\<lambda>r. r\<lparr>pr_seq_id := pr_seq_id v, pr_name := pr_name v,
                        pr_value := pr_value v\<rparr>)) t))"

definition seq_property_find_cond :: "seq_property_bean option \<Rightarrow> seq_property_row \<Rightarrow> bool" where
  "seq_property_find_cond bean r =
     (case bean of
        None \<Rightarrow> True
      | Some b \<Rightarrow>
          opt_text_cond (sp_seq_id b) (pr_seq_id r)
          \<and> opt_text_cond (sp_name b) (pr_name r)
          \<and> opt_text_cond (sp_value b) (pr_value r))"

definition seq_property_mgr_find ::
  "db_env \<Rightarrow> seq_property_table \<Rightarrow> seq_property_bean option \<Rightarrow> seq_property_bean list option" where
  "seq_property_mgr_find e t bean =
     bean_mgr_find e seq_property_find_callback (sql_select (seq_property_find_cond bean) t)"

definition seq_property_mgr_find_unique ::
  "db_env \<Rightarrow> seq_property_table \<Rightarrow> seq_property_bean option \<Rightarrow> seq_property_bean option" where
  "seq_property_mgr_find_unique e t bean =
     (case bean of
        None \<Rightarrow> None
      | Some b \<Rightarrow>
          (let find_list = seq_property_mgr_find e t (Some b) in
           if list_size find_list = 1 then list_get find_list 0 else None))"

definition seq_property_mgr_retrieve_all ::
  "db_env \<Rightarrow> seq_property_table \<Rightarrow> seq_property_bean list option" where
  "seq_property_mgr_retrieve_all e t = seq_property_mgr_find e t None"

section \<open>The store as a map\<close>

definition seq_property_dec :: "seq_property_row \<Rightarrow> seq_property_bean" where
  "seq_property_dec r = seq_property_fill seq_property_bean_create r"

definition seq_property_img :: "seq_property_bean \<Rightarrow> seq_property_bean" where
  "seq_property_img b = seq_property_dec (seq_property_row_of b)"

definition seq_property_look :: "seq_property_table \<Rightarrow> string \<Rightarrow> seq_property_bean option" where
  "seq_property_look t i = map_option seq_property_dec (find (\<lambda>r. pr_id r = i) (rev t))"

text \<open>The key of a property, for a sequence id and a name that are there.\<close>

definition prop_id :: "string \<Rightarrow> string \<Rightarrow> string" where
  "prop_id s n = s @ '':'' @ n"

lemma get_id_with_seq_id_and_name_eq [simp]:
  "get_id_with_seq_id_and_name (Some s) (Some n) = prop_id s n"
  by (simp add: get_id_with_seq_id_and_name_def axutil_strcat_def is_null_def prop_id_def)

lemma get_id_with_bean_eq:
  "sp_seq_id b = Some s \<Longrightarrow> sp_name b = Some n \<Longrightarrow> get_id_with_bean b = prop_id s n"
  by (simp add: get_id_with_bean_def axutil_strcat_def is_null_def prop_id_def)

text \<open>
  Two properties share a key only when they are the same: no name contains a colon, so the
  last colon of a key separates the sequence id from the name.
\<close>

lemma prop_id_inject:
  assumes "colon_free n" "colon_free n'"
  shows "prop_id s n = prop_id s' n' \<longleftrightarrow> s = s' \<and> n = n'"
proof
  assume eq: "prop_id s n = prop_id s' n'"
  have tail: "takeWhile (\<lambda>c. c \<noteq> CHR '':'') (rev (prop_id x m)) = rev m" if "colon_free m" for x m
    using that by (auto simp: prop_id_def colon_free_def takeWhile_append2 intro: takeWhile_append2[THEN trans])
  have "rev n = rev n'" using tail[OF assms(1), of s] tail[OF assms(2), of s'] eq by simp
  then have "n = n'" by simp
  then show "s = s' \<and> n = n'" using eq by (simp add: prop_id_def)
qed simp

lemma prop_id_neq [simp]:
  "colon_free n \<Longrightarrow> colon_free n' \<Longrightarrow> n \<noteq> n' \<Longrightarrow> prop_id s n \<noteq> prop_id s' n'"
  by (simp add: prop_id_inject)

lemma seq_property_img_eq:
  "seq_property_img b = \<lparr>sp_seq_id = Some (sprintf_s (sp_seq_id b)),
     sp_name = Some (sprintf_s (sp_name b)), sp_value = Some (sprintf_s (sp_value b))\<rparr>"
  by (simp add: seq_property_img_def seq_property_dec_def seq_property_fill_def
      seq_property_row_of_def seq_property_bean_create_def)

lemma seq_property_callback_eq: "seq_property_find_callback = collect_with seq_property_dec"
  by (simp add: seq_property_find_callback_def seq_property_dec_def collect_with_def fun_eq_iff)

lemma seq_property_row_id [simp]: "pr_id (seq_property_row_of b) = get_id_with_bean b"
  by (simp add: seq_property_row_of_def)

lemma seq_property_callback_last:
  "foldl seq_property_retrieve_callback d rs
     = (if rs = [] then d else Some (seq_property_dec (last rs)))"
  by (induction rs arbitrary: d)
     (simp_all add: seq_property_retrieve_callback_def seq_property_dec_def)

lemma find_rev_filter:
  "find P (rev t) = (if filter P t = [] then None else Some (last (filter P t)))"
proof (induction t rule: rev_induct)
  case (snoc x t)
  then show ?case by simp
qed simp

lemma seq_property_retrieve_up:
  "db_up e \<Longrightarrow> seq_property_retrieve_id e t i = seq_property_look t i"
  by (simp add: seq_property_retrieve_id_def bean_mgr_eqs db_query_def sql_select_def
      seq_property_look_def seq_property_callback_last find_rev_filter)

lemma seq_property_look_update:
  "seq_property_look
     (map (\<lambda>r. if pr_id r = get_id_with_bean b
               then r\<lparr>pr_seq_id := pr_seq_id (seq_property_row_of b),
                      pr_name := pr_name (seq_property_row_of b),
                      pr_value := pr_value (seq_property_row_of b)\<rparr> else r) t)
     = (seq_property_look t)
         (get_id_with_bean b := map_option (\<lambda>_. seq_property_img b)
            (seq_property_look t (get_id_with_bean b)))"
proof -
  let ?u = "\<lambda>r. if pr_id r = get_id_with_bean b
               then r\<lparr>pr_seq_id := pr_seq_id (seq_property_row_of b),
                      pr_name := pr_name (seq_property_row_of b),
                      pr_value := pr_value (seq_property_row_of b)\<rparr> else r"
  have dec: "seq_property_dec (r\<lparr>pr_seq_id := pr_seq_id (seq_property_row_of b),
      pr_name := pr_name (seq_property_row_of b), pr_value := pr_value (seq_property_row_of b)\<rparr>)
      = seq_property_img b" for r
    by (simp add: seq_property_img_def seq_property_dec_def seq_property_fill_def)
  have "map_option seq_property_dec (find (\<lambda>r. pr_id r = i) (map ?u t))
      = (if i = get_id_with_bean b
         then map_option (\<lambda>_. seq_property_img b) (find (\<lambda>r. pr_id r = i) t)
         else map_option seq_property_dec (find (\<lambda>r. pr_id r = i) t))" for i t
    by (induction t) (auto simp: dec)
  from this[of _ "rev t"] show ?thesis
    by (simp add: seq_property_look_def fun_eq_iff rev_map option.map_comp comp_def)
qed

lemma seq_property_look_absent:
  "seq_property_look t i = None \<longleftrightarrow> (\<forall>r \<in> set t. pr_id r \<noteq> i)"
  by (auto simp: seq_property_look_def find_None_iff)

lemma seq_property_look_delete:
  "seq_property_look (filter (\<lambda>r. pr_id r \<noteq> i) t) = (seq_property_look t)(i := None)"
proof -
  have "find (\<lambda>r. pr_id r = j) (filter (\<lambda>r. pr_id r \<noteq> i) t)
      = (if j = i then None else find (\<lambda>r. pr_id r = j) t)" for j t
    by (induction t) auto
  from this[of _ "rev t"] show ?thesis
    by (simp add: seq_property_look_def fun_eq_iff rev_filter)
qed

lemma seq_property_look_snoc:
  "seq_property_look (t @ [seq_property_row_of b])
     = (seq_property_look t)(get_id_with_bean b \<mapsto> seq_property_img b)"
  by (simp add: seq_property_look_def fun_eq_iff seq_property_img_def)

interpretation seq_prop_store: log_store
  "\<lambda>e t b. seq_property_mgr_insert e t (Some b)" "\<lambda>e t b. seq_property_mgr_update e t (Some b)"
  seq_property_remove_id seq_property_retrieve_id
  seq_property_look get_id_with_bean seq_property_img "\<lambda>_. True"
proof (unfold_locales, goal_cases)
  case (1 e t k) then show ?case by (simp add: seq_property_retrieve_up)
next
  case (2 e t k) then show ?case by (simp add: seq_property_retrieve_id_def bean_mgr_eqs db_query_def)
next
  case (3 e t b)
  then show ?case
    by (simp add: seq_property_mgr_insert_def bean_mgr_eqs db_write_def sql_insert_def
        seq_property_look_snoc)
next
  case (4 e t b)
  then show ?case
    by (auto simp: seq_property_mgr_update_def bean_mgr_eqs db_write_def sql_update_def Let_def
        seq_property_look_update)
next
  case (5 e t b)
  then have "map (\<lambda>r. if pr_id r = get_id_with_bean b
               then r\<lparr>pr_seq_id := pr_seq_id (seq_property_row_of b),
                      pr_name := pr_name (seq_property_row_of b),
                      pr_value := pr_value (seq_property_row_of b)\<rparr> else r) t = t"
    by (intro map_idI) (simp add: seq_property_look_absent)
  then show ?case using 5(1)
    by (simp add: seq_property_mgr_update_def bean_mgr_eqs db_write_def sql_update_def Let_def)
next
  case (6 e t k)
  then show ?case
    by (simp add: seq_property_remove_id_def bean_mgr_eqs db_write_def sql_delete_def
        seq_property_look_delete)
next
  case (7 e t b) then show ?case
    by (simp add: seq_property_mgr_insert_def bean_mgr_eqs db_write_def)
next
  case (8 e t b) then show ?case
    by (simp add: seq_property_mgr_update_def bean_mgr_eqs db_write_def Let_def)
next
  case (9 e t k) then show ?case
    by (simp add: seq_property_remove_id_def bean_mgr_eqs db_write_def)
next
  case (10 e t b)
  then show ?case
    by (simp add: seq_property_mgr_insert_def bean_mgr_eqs db_write_def sql_insert_def
        seq_property_look_snoc)
qed

end
