(* ===== verification/Next_Msg_Mgr.thy ===== *)
theory Next_Msg_Mgr
  imports Sender_Mgr
begin

text \<open>
  \<open>src/storage/sqlite/permanent_next_msg_mgr.c\<close>: for every incoming sequence the number of
  the next message to process and the message its replies refer to.  The callbacks leave out
  a reference key that was stored as \<open>(null)\<close>.
\<close>

record next_msg_row =
  nr_seq_id :: string
  nr_internal_seq_id :: string
  nr_ref_msg_key :: string
  nr_polling_mode :: bool
  nr_msg_no :: int

type_synonym next_msg_table = "next_msg_row list"

definition next_msg_row_of :: "next_msg_bean \<Rightarrow> next_msg_row" where
  "next_msg_row_of b =
     \<lparr>nr_seq_id = sprintf_s (nm_seq_id b),
      nr_internal_seq_id = sprintf_s (nm_internal_seq_id b),
      nr_ref_msg_key = sprintf_s (nm_ref_msg_key b),
      nr_polling_mode = nm_polling_mode b, nr_msg_no = nm_msg_no b\<rparr>"

definition next_msg_fill :: "next_msg_bean \<Rightarrow> next_msg_row \<Rightarrow> next_msg_bean" where
  "next_msg_fill bean r = bean
     \<lparr>nm_seq_id := Some (nr_seq_id r),
      nm_internal_seq_id := Some (nr_internal_seq_id r),
      nm_ref_msg_key := (if nr_ref_msg_key r \<noteq> null_text then Some (nr_ref_msg_key r)
                         else nm_ref_msg_key bean),
      nm_polling_mode := nr_polling_mode r,
      nm_msg_no := nr_msg_no r\<rparr>"

definition next_msg_find_callback ::
  "next_msg_bean list option \<Rightarrow> next_msg_row \<Rightarrow> next_msg_bean list option" where
  "next_msg_find_callback data_list r =
     collect_with (next_msg_fill next_msg_bean_create) data_list r"

definition next_msg_retrieve_callback ::
  "next_msg_bean option \<Rightarrow> next_msg_row \<Rightarrow> next_msg_bean option" where
  "next_msg_retrieve_callback data r =
     (let bean = (case data of None \<Rightarrow> next_msg_bean_create | Some b \<Rightarrow> b)
      in Some (next_msg_fill bean r))"

definition next_msg_mgr_insert ::
  "db_env \<Rightarrow> next_msg_table \<Rightarrow> next_msg_bean option \<Rightarrow> next_msg_table \<times> bool" where
  "next_msg_mgr_insert e t bean =
     (case bean of
        None \<Rightarrow> (t, False)
      | Some b \<Rightarrow> bean_mgr_insert e (sql_insert_pk nr_seq_id (next_msg_row_of b)) t)"

definition next_msg_mgr_remove :: "db_env \<Rightarrow> next_msg_table \<Rightarrow> cstr \<Rightarrow> next_msg_table \<times> bool" where
  "next_msg_mgr_remove e t seq_id =
     (case seq_id of
        None \<Rightarrow> (t, False)
      | Some s \<Rightarrow> bean_mgr_remove e (sql_delete (\<lambda>r. nr_seq_id r = s)) t)"

definition next_msg_mgr_retrieve :: "db_env \<Rightarrow> next_msg_table \<Rightarrow> cstr \<Rightarrow> next_msg_bean option" where
  "next_msg_mgr_retrieve e t seq_id =
     (case seq_id of
        None \<Rightarrow> None
      | Some s \<Rightarrow>
          bean_mgr_retrieve e next_msg_retrieve_callback (sql_select (\<lambda>r. nr_seq_id r = s) t))"

definition next_msg_mgr_update ::
  "db_env \<Rightarrow> next_msg_table \<Rightarrow> next_msg_bean option \<Rightarrow> next_msg_table \<times> bool" where
  "next_msg_mgr_update e t bean =
     (case bean of
        None \<Rightarrow> (t, False)
      | Some b \<Rightarrow>
          (let v = next_msg_row_of b in
           bean_mgr_update e
             (sql_update (\<lambda>r. nr_seq_id r = nr_seq_id v)
                (\<lambda>r. r\<lparr>nr_internal_seq_id := nr_internal_seq_id v,
                        nr_ref_msg_key := nr_ref_msg_key v,
                        nr_polling_mode := nr_polling_mode v,
                        nr_msg_no := nr_msg_no v\<rparr>)) t))"

definition next_msg_find_cond :: "next_msg_bean option \<Rightarrow> next_msg_row \<Rightarrow> bool" where
  "next_msg_find_cond bean r =
     (case bean of
        None \<Rightarrow> True
      | Some b \<Rightarrow>
          (nm_msg_no b > 0 \<longrightarrow> nr_msg_no r = nm_msg_no b)
          \<and> opt_text_cond (nm_seq_id b) (nr_seq_id r)
          \<and> opt_text_cond (nm_internal_seq_id b) (nr_internal_seq_id r))"

definition next_msg_mgr_find ::
  "db_env \<Rightarrow> next_msg_table \<Rightarrow> next_msg_bean option \<Rightarrow> next_msg_bean list option" where
  "next_msg_mgr_find e t bean =
     bean_mgr_find e next_msg_find_callback (sql_select (next_msg_find_cond bean) t)"

definition next_msg_mgr_find_unique ::
  "db_env \<Rightarrow> next_msg_table \<Rightarrow> next_msg_bean option \<Rightarrow> next_msg_bean option" where
  "next_msg_mgr_find_unique e t bean =
     (case bean of
        None \<Rightarrow> None
      | Some b \<Rightarrow>
          (let find_list = next_msg_mgr_find e t (Some b) in
           if list_size find_list = 1 then list_get find_list 0 else None))"

definition next_msg_mgr_retrieve_all :: "db_env \<Rightarrow> next_msg_table \<Rightarrow> next_msg_bean list option" where
  "next_msg_mgr_retrieve_all e t = next_msg_mgr_find e t None"

section \<open>The store as a map\<close>

definition next_msg_dec :: "next_msg_row \<Rightarrow> next_msg_bean" where
  "next_msg_dec r = next_msg_fill next_msg_bean_create r"

definition next_msg_img :: "next_msg_bean \<Rightarrow> next_msg_bean" where
  "next_msg_img b = next_msg_dec (next_msg_row_of b)"

abbreviation next_msg_look :: "next_msg_table \<Rightarrow> string \<Rightarrow> next_msg_bean option" where
  "next_msg_look \<equiv> table_look nr_seq_id next_msg_dec"

abbreviation next_msg_ok :: "next_msg_table \<Rightarrow> bool" where
  "next_msg_ok \<equiv> pk_ok nr_seq_id"

lemma next_msg_callback_eq: "next_msg_find_callback = collect_with next_msg_dec"
  by (simp add: next_msg_find_callback_def next_msg_dec_def collect_with_def fun_eq_iff)

lemma next_msg_row_key [simp]: "nr_seq_id (next_msg_row_of b) = sprintf_s (nm_seq_id b)"
  by (simp add: next_msg_row_of_def)

text \<open>
  The reference key survives a round trip even when it is null, unless it is the very text
  \<open>(null)\<close>; the two other texts survive where they are set.
\<close>

lemma next_msg_img_eq:
  "next_msg_img b = b
     \<lparr>nm_seq_id := Some (sprintf_s (nm_seq_id b)),
      nm_internal_seq_id := Some (sprintf_s (nm_internal_seq_id b)),
      nm_ref_msg_key := (if nm_ref_msg_key b = Some null_text then None else nm_ref_msg_key b)\<rparr>"
  by (cases b) (auto simp: next_msg_img_def next_msg_dec_def next_msg_fill_def next_msg_row_of_def
      next_msg_bean_create_def sprintf_s_def split: option.splits)

lemma next_msg_update_sql:
  "next_msg_mgr_update e t (Some b)
     = db_write e (sql_update (\<lambda>r. nr_seq_id r = nr_seq_id (next_msg_row_of b))
                     (\<lambda>_. next_msg_row_of b)) t"
proof -
  have "sql_update (\<lambda>r. nr_seq_id r = nr_seq_id v)
          (\<lambda>r. r\<lparr>nr_internal_seq_id := nr_internal_seq_id v,
                  nr_ref_msg_key := nr_ref_msg_key v,
                  nr_polling_mode := nr_polling_mode v,
                  nr_msg_no := nr_msg_no v\<rparr>)
      = sql_update (\<lambda>r. nr_seq_id r = nr_seq_id v) (\<lambda>_. v)" for v :: next_msg_row
    by (auto simp: sql_update_def fun_eq_iff)
  then show ?thesis by (simp add: next_msg_mgr_update_def bean_mgr_eqs Let_def)
qed

interpretation next_msg_store: pk_table
  "\<lambda>e t b. next_msg_mgr_insert e t (Some b)" "\<lambda>e t b. next_msg_mgr_update e t (Some b)"
  "\<lambda>e t k. next_msg_mgr_remove e t (Some k)" "\<lambda>e t k. next_msg_mgr_retrieve e t (Some k)"
  next_msg_row_of next_msg_dec nr_seq_id next_msg_retrieve_callback
  by unfold_locales
     (simp_all add: next_msg_mgr_insert_def next_msg_mgr_remove_def next_msg_mgr_retrieve_def
        next_msg_update_sql bean_mgr_eqs next_msg_retrieve_callback_def next_msg_dec_def)

end
