(* ===== verification/Create_Seq_Mgr.thy ===== *)
theory Create_Seq_Mgr
  imports Sender_Mgr
begin

text \<open>
  \<open>src/storage/sqlite/permanent_create_seq_mgr.c\<close>: the CreateSequence messages that were
  sent, with the sequence id the other side answered.
\<close>

record create_seq_row =
  cr_create_seq_msg_id :: string
  cr_internal_seq_id :: string
  cr_seq_id :: string
  cr_create_seq_msg_store_key :: string
  cr_ref_msg_store_key :: string

type_synonym create_seq_table = "create_seq_row list"

definition create_seq_row_of :: "create_seq_bean \<Rightarrow> create_seq_row" where
  "create_seq_row_of b =
     \<lparr>cr_create_seq_msg_id = sprintf_s (cs_create_seq_msg_id b),
      cr_internal_seq_id = sprintf_s (cs_internal_seq_id b),
      cr_seq_id = sprintf_s (cs_seq_id b),
      cr_create_seq_msg_store_key = sprintf_s (cs_create_seq_msg_store_key b),
      cr_ref_msg_store_key = sprintf_s (cs_ref_msg_store_key b)\<rparr>"

definition create_seq_fill :: "create_seq_bean \<Rightarrow> create_seq_row \<Rightarrow> create_seq_bean" where
  "create_seq_fill bean r = bean
     \<lparr>cs_create_seq_msg_id := Some (cr_create_seq_msg_id r),
      cs_internal_seq_id := Some (cr_internal_seq_id r),
      cs_seq_id := Some (cr_seq_id r),
      cs_create_seq_msg_store_key := Some (cr_create_seq_msg_store_key r),
      cs_ref_msg_store_key := Some (cr_ref_msg_store_key r)\<rparr>"

definition create_seq_find_callback ::
  "create_seq_bean list option \<Rightarrow> create_seq_row \<Rightarrow> create_seq_bean list option" where
  "create_seq_find_callback data_list r =
     collect_with (create_seq_fill create_seq_bean_create) data_list r"

definition create_seq_retrieve_callback ::
  "create_seq_bean option \<Rightarrow> create_seq_row \<Rightarrow> create_seq_bean option" where
  "create_seq_retrieve_callback data r =
     (let bean = (case data of None \<Rightarrow> create_seq_bean_create | Some b \<Rightarrow> b)
      in Some (create_seq_fill bean r))"

definition create_seq_mgr_insert ::
  "db_env \<Rightarrow> create_seq_table \<Rightarrow> create_seq_bean option \<Rightarrow> create_seq_table \<times> bool" where
  "create_seq_mgr_insert e t bean =
     (case bean of
        None \<Rightarrow> (t, False)
      | Some b \<Rightarrow> bean_mgr_insert e (sql_insert_pk cr_create_seq_msg_id (create_seq_row_of b)) t)"

definition create_seq_mgr_remove ::
  "db_env \<Rightarrow> create_seq_table \<Rightarrow> cstr \<Rightarrow> create_seq_table \<times> bool" where
  "create_seq_mgr_remove e t msg_id =
     (case msg_id of
        None \<Rightarrow> (t, False)
      | Some m \<Rightarrow> bean_mgr_remove e (sql_delete (\<lambda>r. cr_create_seq_msg_id r = m)) t)"

definition create_seq_mgr_retrieve ::
  "db_env \<Rightarrow> create_seq_table \<Rightarrow> cstr \<Rightarrow> create_seq_bean option" where
  "create_seq_mgr_retrieve e t msg_id =
     (case msg_id of
        None \<Rightarrow> None
      | Some m \<Rightarrow>
          bean_mgr_retrieve e create_seq_retrieve_callback
            (sql_select (\<lambda>r. cr_create_seq_msg_id r = m) t))"

definition create_seq_mgr_update ::
  "db_env \<Rightarrow> create_seq_table \<Rightarrow> create_seq_bean option \<Rightarrow> create_seq_table \<times> bool" where
  "create_seq_mgr_update e t bean =
     (case bean of
        None \<Rightarrow> (t, False)
      | Some b \<Rightarrow>
          (let v = create_seq_row_of b in
           bean_mgr_update e
             (sql_update (\<lambda>r. cr_create_seq_msg_id r = cr_create_seq_msg_id v)
                (\<lambda>r. r\<lparr>cr_internal_seq_id := cr_internal_seq_id v,
                        cr_seq_id := cr_seq_id v,
                        cr_create_seq_msg_store_key := cr_create_seq_msg_store_key v,
                        cr_ref_msg_store_key := cr_ref_msg_store_key v\<rparr>)) t))"

definition create_seq_find_cond :: "create_seq_bean option \<Rightarrow> create_seq_row \<Rightarrow> bool" where
  "create_seq_find_cond bean r =
     (case bean of
        None \<Rightarrow> True
      | Some b \<Rightarrow>
          opt_text_cond (cs_create_seq_msg_id b) (cr_create_seq_msg_id r)
          \<and> opt_text_cond (cs_seq_id b) (cr_seq_id r)
          \<and> opt_text_cond (cs_internal_seq_id b) (cr_internal_seq_id r))"

definition create_seq_mgr_find ::
  "db_env \<Rightarrow> create_seq_table \<Rightarrow> create_seq_bean option \<Rightarrow> create_seq_bean list option" where
  "create_seq_mgr_find e t bean =
     bean_mgr_find e create_seq_find_callback (sql_select (create_seq_find_cond bean) t)"

definition create_seq_mgr_find_unique ::
  "db_env \<Rightarrow> create_seq_table \<Rightarrow> create_seq_bean option \<Rightarrow> create_seq_bean option" where
  "create_seq_mgr_find_unique e t bean =
     (case bean of
        None \<Rightarrow> None
      | Some b \<Rightarrow>
          (let find_list = create_seq_mgr_find e t (Some b) in
           if list_size find_list = 1 then list_get find_list 0 else None))"

section \<open>The store as a map\<close>

definition create_seq_dec :: "create_seq_row \<Rightarrow> create_seq_bean" where
  "create_seq_dec r = create_seq_fill create_seq_bean_create r"

definition create_seq_img :: "create_seq_bean \<Rightarrow> create_seq_bean" where
  "create_seq_img b = create_seq_dec (create_seq_row_of b)"

abbreviation create_seq_look :: "create_seq_table \<Rightarrow> string \<Rightarrow> create_seq_bean option" where
  "create_seq_look \<equiv> table_look cr_create_seq_msg_id create_seq_dec"

abbreviation create_seq_ok :: "create_seq_table \<Rightarrow> bool" where
  "create_seq_ok \<equiv> pk_ok cr_create_seq_msg_id"

lemma create_seq_callback_eq: "create_seq_find_callback = collect_with create_seq_dec"
  by (simp add: create_seq_find_callback_def create_seq_dec_def collect_with_def fun_eq_iff)

lemma create_seq_row_key [simp]:
  "cr_create_seq_msg_id (create_seq_row_of b) = sprintf_s (cs_create_seq_msg_id b)"
  by (simp add: create_seq_row_of_def)

lemma create_seq_row_dec [simp]: "create_seq_row_of (create_seq_dec r) = r"
  by (cases r) (simp add: create_seq_row_of_def create_seq_dec_def create_seq_fill_def)

lemma create_seq_update_sql:
  "create_seq_mgr_update e t (Some b)
     = db_write e (sql_update (\<lambda>r. cr_create_seq_msg_id r = cr_create_seq_msg_id (create_seq_row_of b))
                     (\<lambda>_. create_seq_row_of b)) t"
proof -
  have "sql_update (\<lambda>r. cr_create_seq_msg_id r = cr_create_seq_msg_id v)
          (\<lambda>r. r\<lparr>cr_internal_seq_id := cr_internal_seq_id v,
                  cr_seq_id := cr_seq_id v,
                  cr_create_seq_msg_store_key := cr_create_seq_msg_store_key v,
                  cr_ref_msg_store_key := cr_ref_msg_store_key v\<rparr>)
      = sql_update (\<lambda>r. cr_create_seq_msg_id r = cr_create_seq_msg_id v) (\<lambda>_. v)"
    for v :: create_seq_row
    by (auto simp: sql_update_def fun_eq_iff)
  then show ?thesis by (simp add: create_seq_mgr_update_def bean_mgr_eqs Let_def)
qed

interpretation create_seq_store: pk_table
  "\<lambda>e t b. create_seq_mgr_insert e t (Some b)" "\<lambda>e t b. create_seq_mgr_update e t (Some b)"
  "\<lambda>e t k. create_seq_mgr_remove e t (Some k)" "\<lambda>e t k. create_seq_mgr_retrieve e t (Some k)"
  create_seq_row_of create_seq_dec cr_create_seq_msg_id create_seq_retrieve_callback
  by unfold_locales
     (simp_all add: create_seq_mgr_insert_def create_seq_mgr_remove_def create_seq_mgr_retrieve_def
        create_seq_update_sql bean_mgr_eqs create_seq_retrieve_callback_def create_seq_dec_def)

end
