(* ===== verification/World.thy ===== *)
theory World
  imports Seq_Property_Mgr Next_Msg_Mgr Create_Seq_Mgr Invoker_Mgr Storage_Mgr
    "HOL-Library.State_Monad"
begin

text \<open>
  The state the handlers work on and the messages they get: the tables of the database, the
  sources of time, unique ids and database answers, the configuration of the service, and
  the trace of what a handler does to its message context and hands to the Axis2 engine.
  A handler is a computation \<open>'a proc\<close> in the state monad; the managers' operations are
  lifted to it here.  The n-th external step of a run (a database operation, a reading of
  the clock, a unique id, a transmission) is answered by the n-th entry of its source, so a
  database that fails in the middle of a handler is covered.
\<close>

section \<open>Policies\<close>

text \<open>\<open>src/util/property_bean.c\<close>: the options a service's policy sets.\<close>

record property_bean =
  pb_inactive_timeout_interval :: int
  pb_ack_interval :: int
  pb_retrans_interval :: int
  pb_is_exp_backoff :: bool
  pb_storage_mgr :: cstr
  pb_is_in_order :: bool
  pb_msg_types_to_drop :: "int list option"
  pb_max_retrans_count :: int
  pb_terminate_delay :: int
  pb_polling_delay :: int
  pb_db_path :: cstr
  pb_spec_version :: cstr

definition property_bean_create :: property_bean where
  "property_bean_create =
     \<lparr>pb_inactive_timeout_interval = 0, pb_ack_interval = 0, pb_retrans_interval = 0,
      pb_is_exp_backoff = False, pb_storage_mgr = None, pb_is_in_order = False,
      pb_msg_types_to_drop = None, pb_max_retrans_count = 0, pb_terminate_delay = 0,
      pb_polling_delay = 0, pb_db_path = None, pb_spec_version = None\<rparr>"

definition set_inactive_timeout_interval_with_units ::
  "property_bean \<Rightarrow> int \<Rightarrow> cstr \<Rightarrow> property_bean \<times> status" where
  "set_inactive_timeout_interval_with_units bean interval units =
     (let set_to = (\<lambda>multiplier. (bean\<lparr>pb_inactive_timeout_interval := multiplier * interval\<rparr>,
                                  AXIS2_SUCCESS))
      in case units of
           None \<Rightarrow> (bean, AXIS2_FAILURE)
         | Some u \<Rightarrow>
             if u = ''seconds'' then set_to 1
             else if u = ''minutes'' then set_to 60
             else if u = ''hours'' then set_to (60 * 60)
             else if u = ''days'' then set_to (24 * 60 * 60)
             else (bean, AXIS2_FAILURE))"

text \<open>The value is never stored in the element that is added: \<open>garbage\<close> is what malloc left.\<close>

definition add_msg_type_to_drop :: "int \<Rightarrow> property_bean \<Rightarrow> int \<Rightarrow> property_bean \<times> status" where
  "add_msg_type_to_drop garbage bean msg_type =
     (case pb_msg_types_to_drop bean of
        None \<Rightarrow> (bean, AXIS2_FAILURE)
      | Some l \<Rightarrow> (bean\<lparr>pb_msg_types_to_drop := Some (l @ [garbage])\<rparr>, AXIS2_SUCCESS))"

section \<open>Messages\<close>

text \<open>
  The parts of a reliable message that the handlers read.  An endpoint reference is the
  address it holds, \<open>None\<close> where there is no reference; \<open>Some None\<close> has a null address.
\<close>

record seq_part =
  sq_identifier :: cstr
  sq_msg_no :: int
  sq_last_msg :: bool

record seq_ack_part =
  sk_identifier :: cstr
  sk_ranges :: "ack_range list option"
  sk_nacks :: "int list"
  sk_final :: bool

record create_seq_part =
  cp_acks_to :: "cstr option"
  cp_ns_val :: cstr
  cp_offer :: "cstr option"
  cp_ref_params :: "string list option"

record create_seq_res_part =
  cr_identifier :: cstr
  cr_accept :: "cstr option option"

text \<open>What the code asks of the request message in the operation context of a response.\<close>

record req_info =
  rq_wsa_version :: cstr
  rq_to :: "cstr option"
  rq_reply_to :: "cstr option"
  rq_sequence :: "seq_part option"

record rm_msg =
  rm_msg_type :: message_type
  rm_msg_id :: cstr
  rm_to :: "cstr option"
  rm_reply_to :: "cstr option"
  rm_wsa_action :: cstr
  rm_soap_action :: cstr
  rm_addr_ns_val :: cstr
  rm_rm_ns_val :: cstr
  rm_server_side :: bool
  rm_soap11 :: bool
  rm_relates_to :: "cstr option"
  rm_transport_url :: cstr
  rm_wsa_version :: cstr
  rm_client_acks_to :: cstr
  rm_app_processing_done :: cstr
  rm_client_last_message :: cstr
  rm_client_seq_key :: cstr
  rm_target_epr :: "cstr option"
  rm_isolated_last_msg :: cstr
  rm_reinjected :: cstr
  rm_qualified :: cstr
  rm_op_ctx_known :: bool
  rm_has_transport_out :: bool
  rm_request :: "req_info option"
  rm_mep :: int
  rm_body_empty :: bool
  rm_has_svc :: bool
  rm_sequence :: "seq_part option"
  rm_seq_ack :: "seq_ack_part option"
  rm_ack_requested :: "cstr option"
  rm_create_seq :: "create_seq_part option"
  rm_create_seq_res :: "create_seq_res_part option"
  rm_close_seq :: "cstr option"
  rm_close_seq_res :: "cstr option"
  rm_terminate_seq :: "cstr option"
  rm_terminate_seq_res :: "cstr option"
  rm_make_connection :: "cstr option option"
  rm_client_msg_no :: "int option"
  rm_dummy :: cstr
  rm_client_closed :: bool
  rm_mc_out_path :: bool
  rm_module_engaged :: bool
  rm_separate_listener :: cstr
  rm_mep_uri :: cstr
  rm_ack_written :: cstr
  rm_fault :: bool
  rm_related_out_action :: "cstr option"
  rm_ctx :: msg_ctx

text \<open>
  The version that \<open>sandesha2_msg_ctx_set_rm_ns_val\<close> takes from the namespace and
  \<open>sandesha2_msg_ctx_get_rm_spec_ver\<close> returns.
\<close>

definition get_rm_spec_ver :: "rm_msg \<Rightarrow> cstr" where
  "get_rm_spec_ver m =
     (if rm_rm_ns_val m = Some SPEC_2007_02_NS_URI then Some SPEC_VERSION_1_1
      else if rm_rm_ns_val m = Some SPEC_2005_02_NS_URI then Some SPEC_VERSION_1_0
      else None)"

text \<open>
  \<open>sandesha2_utils_get_seq_id_from_rm_msg_ctx\<close>; the outer \<open>None\<close> is the access to a part
  that the message does not have.
\<close>

definition get_seq_id_from_rm_msg_ctx :: "rm_msg option \<Rightarrow> cstr option" where
  "get_seq_id_from_rm_msg_ctx rm_msg_ctx =
     (case rm_msg_ctx of
        None \<Rightarrow> Some None
      | Some m \<Rightarrow>
          if rm_msg_type m = MSG_TYPE_APPLICATION then map_option sq_identifier (rm_sequence m)
          else if rm_msg_type m = MSG_TYPE_ACK then map_option sk_identifier (rm_seq_ack m)
          else if rm_msg_type m = MSG_TYPE_ACK_REQUEST then rm_ack_requested m
          else if rm_msg_type m = MSG_TYPE_CLOSE_SEQ then rm_close_seq m
          else if rm_msg_type m = MSG_TYPE_CLOSE_SEQ_RESPONSE then rm_close_seq_res m
          else Some None)"

text \<open>What a handler builds and hands to the engine, and what it does to its message.\<close>

record out_msg =
  om_type :: message_type
  om_msg_id :: cstr
  om_to :: "cstr option"
  om_ref_params :: "string list"
  om_reply_to :: "cstr option"
  om_relates_to :: "cstr option"
  om_acks_to :: "cstr option"
  om_offer :: "cstr option"
  om_accept :: "cstr option option"
  om_seq_id :: cstr
  om_action :: cstr
  om_soap_action :: cstr
  om_transport_url :: cstr
  om_via_sandesha_transport :: bool
  om_seq_ack :: "seq_ack_part option"
  om_last_msg_number :: "int option"
  om_msg_no :: "int option"
  om_last_msg :: bool
  om_mc_address :: cstr

definition new_out_msg :: "message_type \<Rightarrow> out_msg" where
  "new_out_msg ty =
     \<lparr>om_type = ty, om_msg_id = None, om_to = None, om_ref_params = [], om_reply_to = None,
      om_relates_to = None, om_acks_to = None, om_offer = None, om_accept = None,
      om_seq_id = None, om_action = None, om_soap_action = None, om_transport_url = None,
      om_via_sandesha_transport = False, om_seq_ack = None, om_last_msg_number = None,
      om_msg_no = None, om_last_msg = False, om_mc_address = None\<rparr>"

datatype soap_fault =
    Fault_Last_Message_No_Exceeded
  | Fault_Unknown_Seq
  | Fault_Invalid_Acknowledgement
  | Fault_Sequence_Closed

text \<open>
  \<open>src/util/fault_data.c\<close>, what the checks fill in, and the fault message.  The envelope of
  a fault message is never written (the call that would do it is commented out), so the fault
  data only tells which fault a message stands for.
\<close>

record fault_data =
  fd_fault :: soap_fault
  fd_soap11_code :: bool
  fd_reason :: string
  fd_seq_id :: cstr

record fault_msg =
  fm_data :: fault_data
  fm_to :: "cstr option"

text \<open>The threads that are started, with the arguments that matter: sequence, message, side, interval.\<close>

datatype worker_thread =
    Create_Seq_Worker cstr cstr bool int
  | Application_Msg_Worker cstr cstr bool int seq_part
  | Polling_Worker cstr cstr

datatype effect =
    Engine_Send out_msg
  | Engine_Resume_Send out_msg
  | Transport_Send out_msg
  | Start_Listener
  | Start_Thread worker_thread
  | Mark_Handlers_Visited
  | Exit_Process
  | Engine_Send_Fault fault_msg
  | Engine_Send_Of_Fault fault_msg
  | Engine_Send_Stored msg_ctx "seq_ack_part option"
  | Transport_Invoke msg_ctx bool
  | Set_Paused
  | Set_Response_Written
  | Set_Response_Not_Written
  | Set_Processing_Done
  | Set_Processing_Not_Done

section \<open>The world\<close>

text \<open>
  What Axis2 and Axiom provide, and the policy of the service: \<open>cf_stored\<close> is what the
  envelope of a rebuilt message context says of the message (its type and its
  acknowledgement), \<open>cf_out_ctx\<close> the message context that holds a message built here,
  \<open>cf_mep_in_only\<close> and \<open>cf_mep_out_in\<close> are the constants of a one-way and of a requesting
  operation, \<open>cf_error_status\<close> the status an earlier failure left in the environment's error,
  \<open>cf_db_exists\<close> whether the file of the database is there.
\<close>

record conf =
  cf_wsa :: wsa_consts
  cf_trim :: "string \<Rightarrow> string"
  cf_list_contains :: "string list \<Rightarrow> string \<Rightarrow> bool"
  cf_keys :: axis2_keys
  cf_axis2 :: axis2_conf
  cf_stored :: "msg_ctx \<Rightarrow> message_type \<times> seq_ack_part option"
  cf_out_ctx :: "out_msg \<Rightarrow> msg_ctx"
  cf_property_bean :: "property_bean option"
  cf_mep_in_only :: int
  cf_mep_out_in :: int
  cf_error_status :: status
  cf_db_exists :: bool
  cf_mep_uri_out_only :: string
  cf_mep_uri_robust_out_only :: string
  cf_mep_uri_out_in :: string
  cf_rstr_actions :: "string list"

text \<open>The tables, as the threads and processes that run beside the modelled one change them.\<close>

type_synonym db_tables = "sender_table \<times> next_msg_table \<times> create_seq_table \<times> invoker_table
  \<times> seq_property_table \<times> msg_table \<times> response_table"

record world =
  w_sender :: sender_table
  w_next_msg :: next_msg_table
  w_create_seq :: create_seq_table
  w_invoker :: invoker_table
  w_seq_prop :: seq_property_table
  w_msg :: msg_table
  w_response :: response_table
  w_db :: "nat \<Rightarrow> db_env"
  w_clock :: "nat \<Rightarrow> int"
  w_uuids :: "nat \<Rightarrow> string"
  w_engine :: "nat \<Rightarrow> bool"
  w_replies :: "nat \<Rightarrow> rm_msg option"
  w_others :: "nat \<Rightarrow> db_tables \<Rightarrow> db_tables"
  w_tick :: nat
  w_conf :: conf
  w_trace :: "effect list"
  w_ub :: bool

type_synonym 'a proc = "(world, 'a) state"

abbreviation ret :: "'a \<Rightarrow> 'a proc" where
  "ret \<equiv> State_Monad.return"

definition tick :: "world \<Rightarrow> world" where
  "tick w = w\<lparr>w_tick := Suc (w_tick w)\<rparr>"

definition env_now :: "world \<Rightarrow> db_env" where
  "env_now w = w_db w (w_tick w)"

definition asks :: "(world \<Rightarrow> 'a) \<Rightarrow> 'a proc" where
  "asks f = State (\<lambda>w. (f w, w))"

definition current_time_in_millis :: "int proc" where
  "current_time_in_millis = State (\<lambda>w. (w_clock w (w_tick w), tick w))"

definition uuid_gen :: "string proc" where
  "uuid_gen = State (\<lambda>w. (w_uuids w (w_tick w), tick w))"

definition emit :: "effect \<Rightarrow> unit proc" where
  "emit ev = State (\<lambda>w. ((), w\<lparr>w_trace := w_trace w @ [ev]\<rparr>))"

definition engine_send :: "out_msg \<Rightarrow> bool proc" where
  "engine_send m = State (\<lambda>w. (w_engine w (w_tick w),
     tick (w\<lparr>w_trace := w_trace w @ [Engine_Send m]\<rparr>)))"

text \<open>
  A fault message handed to \<open>axis2_engine_send\<close> in place of \<open>axis2_engine_send_fault\<close>, and a message
  context taken from the store, with what was added to it.
\<close>

definition engine_send_of_fault :: "fault_msg \<Rightarrow> bool proc" where
  "engine_send_of_fault m = State (\<lambda>w. (w_engine w (w_tick w),
     tick (w\<lparr>w_trace := w_trace w @ [Engine_Send_Of_Fault m]\<rparr>)))"

definition engine_send_stored :: "msg_ctx \<Rightarrow> seq_ack_part option \<Rightarrow> bool proc" where
  "engine_send_stored ctx ack = State (\<lambda>w. (w_engine w (w_tick w),
     tick (w\<lparr>w_trace := w_trace w @ [Engine_Send_Stored ctx ack]\<rparr>)))"

definition engine_send_fault :: "fault_msg \<Rightarrow> bool proc" where
  "engine_send_fault m = State (\<lambda>w. (w_engine w (w_tick w),
     tick (w\<lparr>w_trace := w_trace w @ [Engine_Send_Fault m]\<rparr>)))"

definition engine_resume_send :: "out_msg \<Rightarrow> bool proc" where
  "engine_resume_send m = State (\<lambda>w. (w_engine w (w_tick w),
     tick (w\<lparr>w_trace := w_trace w @ [Engine_Resume_Send m]\<rparr>)))"

text \<open>The environment's answer to a call whose result only it knows.\<close>

definition engine_answer :: "bool proc" where
  "engine_answer = State (\<lambda>w. (w_engine w (w_tick w), tick w))"

text \<open>The response that came back on the connection of a message that was sent, if any.\<close>

definition connection_reply :: "rm_msg option proc" where
  "connection_reply = State (\<lambda>w. (w_replies w (w_tick w), tick w))"

text \<open>While a thread sleeps, others change the tables.\<close>

definition tables_of :: "world \<Rightarrow> db_tables" where
  "tables_of w = (w_sender w, w_next_msg w, w_create_seq w, w_invoker w, w_seq_prop w, w_msg w, w_response w)"

definition put_tables :: "db_tables \<Rightarrow> world \<Rightarrow> world" where
  "put_tables ts w = (case ts of (s, n, c, i, p, m, r) \<Rightarrow>
     w\<lparr>w_sender := s, w_next_msg := n, w_create_seq := c, w_invoker := i, w_seq_prop := p,
       w_msg := m, w_response := r\<rparr>)"

definition axis2_sleep :: "int \<Rightarrow> unit proc" where
  "axis2_sleep seconds = State (\<lambda>w. ((), tick (put_tables (w_others w (w_tick w) (tables_of w)) w)))"

text \<open>Reached where the C code uses freed memory or a null pointer.\<close>

definition undefined_behaviour :: "unit proc" where
  "undefined_behaviour = State (\<lambda>w. ((), w\<lparr>w_ub := True\<rparr>))"

section \<open>The managers' operations on the world\<close>

definition seq_prop_insert :: "seq_property_bean \<Rightarrow> bool proc" where
  "seq_prop_insert b = State (\<lambda>w.
     let r = seq_property_mgr_insert (env_now w) (w_seq_prop w) (Some b)
     in (snd r, tick (w\<lparr>w_seq_prop := fst r\<rparr>)))"

definition seq_prop_update :: "seq_property_bean \<Rightarrow> bool proc" where
  "seq_prop_update b = State (\<lambda>w.
     let r = seq_property_mgr_update (env_now w) (w_seq_prop w) (Some b)
     in (snd r, tick (w\<lparr>w_seq_prop := fst r\<rparr>)))"

definition seq_prop_remove :: "cstr \<Rightarrow> cstr \<Rightarrow> bool proc" where
  "seq_prop_remove s n = State (\<lambda>w.
     let r = seq_property_mgr_remove (env_now w) (w_seq_prop w) s n
     in (snd r, tick (w\<lparr>w_seq_prop := fst r\<rparr>)))"

definition seq_prop_retrieve :: "cstr \<Rightarrow> cstr \<Rightarrow> seq_property_bean option proc" where
  "seq_prop_retrieve s n = State (\<lambda>w.
     (seq_property_mgr_retrieve (env_now w) (w_seq_prop w) s n, tick w))"

definition seq_prop_find :: "seq_property_bean option \<Rightarrow> seq_property_bean list option proc" where
  "seq_prop_find b = State (\<lambda>w. (seq_property_mgr_find (env_now w) (w_seq_prop w) b, tick w))"

definition sender_insert :: "sender_bean \<Rightarrow> bool proc" where
  "sender_insert b = State (\<lambda>w.
     let r = sender_mgr_insert (env_now w) (w_sender w) (Some b)
     in (snd r, tick (w\<lparr>w_sender := fst r\<rparr>)))"

definition sender_update :: "sender_bean \<Rightarrow> bool proc" where
  "sender_update b = State (\<lambda>w.
     let r = sender_mgr_update (env_now w) (w_sender w) (Some b)
     in (snd r, tick (w\<lparr>w_sender := fst r\<rparr>)))"

definition sender_remove :: "cstr \<Rightarrow> bool proc" where
  "sender_remove k = State (\<lambda>w.
     let r = sender_mgr_remove (env_now w) (w_sender w) k
     in (snd r, tick (w\<lparr>w_sender := fst r\<rparr>)))"

definition sender_find :: "sender_bean option \<Rightarrow> sender_bean list option proc" where
  "sender_find b = State (\<lambda>w.
     (sender_mgr_find_by_sender_bean (env_now w) (w_sender w) b, tick w))"

definition sender_find_by_internal_seq_id :: "cstr \<Rightarrow> sender_bean list option proc" where
  "sender_find_by_internal_seq_id s = State (\<lambda>w.
     (sender_mgr_find_by_internal_seq_id (env_now w) (w_sender w) s, tick w))"

definition sender_find_unique :: "sender_bean option \<Rightarrow> sender_bean option proc" where
  "sender_find_unique b = State (\<lambda>w.
     (sender_mgr_find_unique (env_now w) (w_sender w) b, tick w))"

definition get_application_msg_to_send :: "cstr \<Rightarrow> cstr \<Rightarrow> sender_bean option proc" where
  "get_application_msg_to_send s k = State (\<lambda>w.
     (sender_mgr_get_application_msg_to_send (env_now w) (w_sender w) s k, tick w))"

definition sender_retrieve :: "cstr \<Rightarrow> sender_bean option proc" where
  "sender_retrieve k = State (\<lambda>w. (sender_mgr_retrieve (env_now w) (w_sender w) k, tick w))"

definition next_msg_insert :: "next_msg_bean \<Rightarrow> bool proc" where
  "next_msg_insert b = State (\<lambda>w.
     let r = next_msg_mgr_insert (env_now w) (w_next_msg w) (Some b)
     in (snd r, tick (w\<lparr>w_next_msg := fst r\<rparr>)))"

definition next_msg_remove :: "cstr \<Rightarrow> bool proc" where
  "next_msg_remove k = State (\<lambda>w.
     let r = next_msg_mgr_remove (env_now w) (w_next_msg w) k
     in (snd r, tick (w\<lparr>w_next_msg := fst r\<rparr>)))"

definition next_msg_retrieve :: "cstr \<Rightarrow> next_msg_bean option proc" where
  "next_msg_retrieve k = State (\<lambda>w. (next_msg_mgr_retrieve (env_now w) (w_next_msg w) k, tick w))"

definition next_msg_find :: "next_msg_bean option \<Rightarrow> next_msg_bean list option proc" where
  "next_msg_find b = State (\<lambda>w. (next_msg_mgr_find (env_now w) (w_next_msg w) b, tick w))"

definition next_msg_retrieve_all :: "next_msg_bean list option proc" where
  "next_msg_retrieve_all = State (\<lambda>w.
     (next_msg_mgr_retrieve_all (env_now w) (w_next_msg w), tick w))"

definition create_seq_insert :: "create_seq_bean \<Rightarrow> bool proc" where
  "create_seq_insert b = State (\<lambda>w.
     let r = create_seq_mgr_insert (env_now w) (w_create_seq w) (Some b)
     in (snd r, tick (w\<lparr>w_create_seq := fst r\<rparr>)))"

definition create_seq_update :: "create_seq_bean \<Rightarrow> bool proc" where
  "create_seq_update b = State (\<lambda>w.
     let r = create_seq_mgr_update (env_now w) (w_create_seq w) (Some b)
     in (snd r, tick (w\<lparr>w_create_seq := fst r\<rparr>)))"

definition create_seq_retrieve :: "cstr \<Rightarrow> create_seq_bean option proc" where
  "create_seq_retrieve k = State (\<lambda>w. (create_seq_mgr_retrieve (env_now w) (w_create_seq w) k, tick w))"

definition create_seq_remove :: "cstr \<Rightarrow> bool proc" where
  "create_seq_remove k = State (\<lambda>w.
     let r = create_seq_mgr_remove (env_now w) (w_create_seq w) k
     in (snd r, tick (w\<lparr>w_create_seq := fst r\<rparr>)))"

definition create_seq_find :: "create_seq_bean option \<Rightarrow> create_seq_bean list option proc" where
  "create_seq_find b = State (\<lambda>w. (create_seq_mgr_find (env_now w) (w_create_seq w) b, tick w))"

definition invoker_insert :: "invoker_bean \<Rightarrow> bool proc" where
  "invoker_insert b = State (\<lambda>w.
     let r = invoker_mgr_insert (env_now w) (w_invoker w) (Some b)
     in (snd r, tick (w\<lparr>w_invoker := fst r\<rparr>)))"

text \<open>
  \<open>permanent_storage_mgr.c\<close>: storing a message context serialises it into a bean; the
  status is success whatever the database did.  The bean of a context without an envelope is
  null, and setting its key writes through the null pointer.
\<close>

definition store_msg_ctx :: "cstr \<Rightarrow> msg_ctx \<Rightarrow> status proc" where
  "store_msg_ctx key ctx = State (\<lambda>w.
     case get_msg_store_bean (cf_keys (w_conf w)) (w_uuids w (w_tick w)) ctx of
       None \<Rightarrow> (AXIS2_SUCCESS, tick (w\<lparr>w_ub := True\<rparr>))
     | Some bean \<Rightarrow>
         (let r = insert_msg_store_bean (env_now w) (w_msg w) (bean\<lparr>mb_stored_key := key\<rparr>)
          in (AXIS2_SUCCESS, tick (w\<lparr>w_msg := fst r\<rparr>))))"

definition update_msg_ctx :: "cstr \<Rightarrow> msg_ctx \<Rightarrow> status proc" where
  "update_msg_ctx key ctx = State (\<lambda>w.
     case get_msg_store_bean (cf_keys (w_conf w)) (w_uuids w (w_tick w)) ctx of
       None \<Rightarrow> (AXIS2_SUCCESS, tick (w\<lparr>w_ub := True\<rparr>))
     | Some bean \<Rightarrow>
         (let r = update_msg_store_bean (env_now w) (w_msg w) (bean\<lparr>mb_stored_key := key\<rparr>)
          in (AXIS2_SUCCESS, tick (w\<lparr>w_msg := fst r\<rparr>))))"

definition remove_msg_ctx :: "cstr \<Rightarrow> status proc" where
  "remove_msg_ctx key = State (\<lambda>w.
     let r = remove_msg_store_bean (env_now w) (w_msg w) key
     in (AXIS2_SUCCESS, tick (w\<lparr>w_msg := fst r\<rparr>)))"

definition retrieve_stored_msg :: "cstr \<Rightarrow> msg_ctx option proc" where
  "retrieve_stored_msg key = State (\<lambda>w.
     (map_option fst (retrieve_msg_ctx (cf_axis2 (w_conf w)) (env_now w) (w_msg w) key), tick w))"

text \<open>
  \<open>sandesha2_permanent_storage_mgr_create_db\<close>: when the file is not there, the database is opened and
  the seven tables are created, without a busy handler.  The tables of a database that is not
  there are empty, and so they are after their creation.
\<close>

definition create_db :: "bool proc" where
  "create_db = State (\<lambda>w.
     if cf_db_exists (w_conf w) then (True, w)
     else (get_dbconn (env_now w) \<and> list_all (\<lambda>k. \<not> de_busy (env_now w) k) [0..<7], tick w))"

text \<open>\<open>sandesha2_utils_get_seq_property\<close> and the option reader of the service.\<close>

definition get_seq_property :: "cstr \<Rightarrow> cstr \<Rightarrow> cstr proc" where
  "get_seq_property incoming_seq_id name =
     (if is_null incoming_seq_id \<or> is_null name then ret None
      else do {
        seq_prop_bean \<leftarrow> seq_prop_retrieve incoming_seq_id name;
        (case seq_prop_bean of
           None \<Rightarrow> ret None
         | Some b \<Rightarrow> ret (sp_value b))
      })"

definition get_property_bean :: "bool \<Rightarrow> property_bean option proc" where
  "get_property_bean has_svc =
     (if \<not> has_svc then ret None else asks (\<lambda>w. cf_property_bean (w_conf w)))"

definition get_rm_version :: "rm_msg \<Rightarrow> cstr proc" where
  "get_rm_version m = do {
     prop_bean \<leftarrow> get_property_bean (rm_has_svc m);
     ret (case prop_bean of None \<Rightarrow> None | Some b \<Rightarrow> pb_spec_version b)
   }"

text \<open>\<open>if(added) insert else update\<close>, the end of every change of a sequence property.\<close>

definition insert_or_update :: "bool \<Rightarrow> seq_property_bean \<Rightarrow> bool proc" where
  "insert_or_update added bean = (if added then seq_prop_insert bean else seq_prop_update bean)"

fun for_each :: "('a \<Rightarrow> unit proc) \<Rightarrow> 'a list \<Rightarrow> unit proc" where
  "for_each f [] = ret ()"
| "for_each f (x # xs) = do { f x; for_each f xs }"

end
