(* ===== verification/World_Exec.thy ===== *)
theory World_Exec
  imports World
begin

text \<open>
  Symbolic execution of handlers: what each lifted operation does under a database that
  answers (\<open>ready\<close>), and what operations leave alone whatever the database answers.
\<close>

named_theorems exec_simps "runs of the primitive steps under a database that answers"
named_theorems look_simps "lookups after writes"

definition ready :: "world \<Rightarrow> bool" where
  "ready w \<longleftrightarrow> (\<forall>k. db_up (w_db w k))"

lemma ready_db [simp]: "ready w \<Longrightarrow> db_up (w_db w k)"
  by (simp add: ready_def)

lemma ready_env [simp]: "ready w \<Longrightarrow> db_up (env_now w)"
  by (simp add: env_now_def)

lemma tick_fields [simp]:
  "w_sender (tick w) = w_sender w" "w_next_msg (tick w) = w_next_msg w"
  "w_create_seq (tick w) = w_create_seq w" "w_invoker (tick w) = w_invoker w"
  "w_seq_prop (tick w) = w_seq_prop w" "w_msg (tick w) = w_msg w"
  "w_response (tick w) = w_response w" "w_db (tick w) = w_db w" "w_clock (tick w) = w_clock w"
  "w_uuids (tick w) = w_uuids w" "w_engine (tick w) = w_engine w"
  "w_replies (tick w) = w_replies w" "w_others (tick w) = w_others w"
  "w_tick (tick w) = Suc (w_tick w)" "w_conf (tick w) = w_conf w" "w_trace (tick w) = w_trace w"
  "w_ub (tick w) = w_ub w"
  by (simp_all add: tick_def)

lemma ready_upd [simp]:
  "ready (tick w) = ready w"
  "ready (w\<lparr>w_sender := s\<rparr>) = ready w" "ready (w\<lparr>w_next_msg := n\<rparr>) = ready w"
  "ready (w\<lparr>w_create_seq := c\<rparr>) = ready w" "ready (w\<lparr>w_invoker := i\<rparr>) = ready w"
  "ready (w\<lparr>w_seq_prop := p\<rparr>) = ready w" "ready (w\<lparr>w_msg := m\<rparr>) = ready w"
  "ready (w\<lparr>w_response := r\<rparr>) = ready w" "ready (w\<lparr>w_trace := tr\<rparr>) = ready w"
  "ready (w\<lparr>w_tick := k\<rparr>) = ready w" "ready (w\<lparr>w_ub := u\<rparr>) = ready w"
  by (simp_all add: ready_def)

section \<open>Runs of the steps\<close>

lemma run_basic [exec_simps]:
  "run_state (asks f) w = (f w, w)"
  "run_state current_time_in_millis w = (w_clock w (w_tick w), tick w)"
  "run_state uuid_gen w = (w_uuids w (w_tick w), tick w)"
  "run_state (emit ev) w = ((), w\<lparr>w_trace := w_trace w @ [ev]\<rparr>)"
  "run_state (engine_send m) w
     = (w_engine w (w_tick w), tick (w\<lparr>w_trace := w_trace w @ [Engine_Send m]\<rparr>))"
  "run_state (engine_send_fault g) w
     = (w_engine w (w_tick w), tick (w\<lparr>w_trace := w_trace w @ [Engine_Send_Fault g]\<rparr>))"
  "run_state (engine_send_stored ctx ack) w
     = (w_engine w (w_tick w), tick (w\<lparr>w_trace := w_trace w @ [Engine_Send_Stored ctx ack]\<rparr>))"
  "run_state (engine_send_of_fault g) w
     = (w_engine w (w_tick w), tick (w\<lparr>w_trace := w_trace w @ [Engine_Send_Of_Fault g]\<rparr>))"
  "run_state (engine_resume_send m) w
     = (w_engine w (w_tick w), tick (w\<lparr>w_trace := w_trace w @ [Engine_Resume_Send m]\<rparr>))"
  "run_state engine_answer w = (w_engine w (w_tick w), tick w)"
  "run_state connection_reply w = (w_replies w (w_tick w), tick w)"
  "run_state undefined_behaviour w = ((), w\<lparr>w_ub := True\<rparr>)"
  by (simp_all add: asks_def current_time_in_millis_def uuid_gen_def emit_def engine_send_def
      engine_send_fault_def engine_send_stored_def engine_send_of_fault_def
      engine_resume_send_def engine_answer_def connection_reply_def undefined_behaviour_def)

text \<open>The tables after writes, as functions of the tables.\<close>

definition prop_upd :: "seq_property_bean \<Rightarrow> seq_property_table \<Rightarrow> seq_property_table" where
  "prop_upd b t = map (\<lambda>r. if pr_id r = get_id_with_bean b
     then r\<lparr>pr_seq_id := pr_seq_id (seq_property_row_of b), pr_name := pr_name (seq_property_row_of b),
            pr_value := pr_value (seq_property_row_of b)\<rparr> else r) t"

definition prop_del :: "string \<Rightarrow> seq_property_table \<Rightarrow> seq_property_table" where
  "prop_del i t = filter (\<lambda>r. pr_id r \<noteq> i) t"

lemma look_after [look_simps]:
  "seq_property_look (t @ [seq_property_row_of b])
     = (seq_property_look t)(get_id_with_bean b \<mapsto> seq_property_img b)"
  "seq_property_look (prop_upd b t)
     = (seq_property_look t)(get_id_with_bean b := map_option (\<lambda>_. seq_property_img b)
          (seq_property_look t (get_id_with_bean b)))"
  "seq_property_look (prop_del i t) = (seq_property_look t)(i := None)"
  by (simp_all add: seq_property_look_snoc seq_property_look_update seq_property_look_delete
      prop_upd_def prop_del_def)

lemma run_seq_prop [exec_simps]:
  assumes "ready w"
  shows "run_state (seq_prop_insert b) w
      = (True, tick (w\<lparr>w_seq_prop := w_seq_prop w @ [seq_property_row_of b]\<rparr>))"
    and "run_state (seq_prop_update b) w = (True, tick (w\<lparr>w_seq_prop := prop_upd b (w_seq_prop w)\<rparr>))"
    and "run_state (seq_prop_remove (Some s) (Some n)) w
      = (True, tick (w\<lparr>w_seq_prop := prop_del (prop_id s n) (w_seq_prop w)\<rparr>))"
    and "run_state (seq_prop_retrieve (Some s) (Some n)) w
      = (seq_property_look (w_seq_prop w) (prop_id s n), tick w)"
  using assms
  by (simp_all add: seq_prop_insert_def seq_prop_update_def seq_prop_remove_def seq_prop_retrieve_def
      seq_property_mgr_insert_def seq_property_mgr_update_def seq_property_mgr_remove_def
      seq_property_mgr_retrieve_def bean_mgr_eqs db_write_def sql_insert_def sql_update_def
      sql_delete_def Let_def prop_upd_def prop_del_def seq_property_remove_id_def is_null_def
      seq_property_retrieve_up)

lemma run_seq_prop_null [exec_simps]:
  "run_state (seq_prop_retrieve None n) w = (None, tick w)"
  "run_state (seq_prop_retrieve s None) w = (None, tick w)"
  by (simp_all add: seq_prop_retrieve_def seq_property_mgr_retrieve_def is_null_def)

lemma run_seq_prop_find [exec_simps]:
  "ready w \<Longrightarrow> run_state (seq_prop_find b) w
     = (let rs = filter (seq_property_find_cond b) (w_seq_prop w)
        in if rs = [] then None else Some (map seq_property_dec rs), tick w)"
  by (simp add: seq_prop_find_def seq_property_mgr_find_def bean_mgr_eqs sql_select_def
      db_query_collect Let_def seq_property_callback_eq)

text \<open>Writes to the tables with a primary key, as functions of the tables.\<close>

definition row_upd :: "('r \<Rightarrow> 'k) \<Rightarrow> 'r \<Rightarrow> 'r list \<Rightarrow> 'r list" where
  "row_upd pk v t = map (\<lambda>r. if pk r = pk v then v else r) t"

definition row_ins :: "('r \<Rightarrow> 'k) \<Rightarrow> 'r \<Rightarrow> 'r list \<Rightarrow> 'r list" where
  "row_ins pk v t = (if find_row pk t (pk v) = None then t @ [v] else t)"

definition row_del :: "('r \<Rightarrow> 'k) \<Rightarrow> 'k \<Rightarrow> 'r list \<Rightarrow> 'r list" where
  "row_del pk k t = filter (\<lambda>r. pk r \<noteq> k) t"

lemma row_ins_write:
  "db_up e \<Longrightarrow> db_write e (sql_insert_pk pk v) t
     = (row_ins pk v t, find_row pk t (pk v) = None)"
  by (simp add: db_write_def sql_insert_pk_def row_ins_def list_ex_pk)

lemma row_upd_write:
  "db_up e \<Longrightarrow> db_write e (sql_update (\<lambda>r. pk r = pk v) (\<lambda>_. v)) t = (row_upd pk v t, True)"
  by (simp add: db_write_def sql_update_def row_upd_def)

lemma row_del_write:
  "db_up e \<Longrightarrow> db_write e (sql_delete (\<lambda>r. pk r = k)) t = (row_del pk k t, True)"
  by (simp add: db_write_def sql_delete_def row_del_def)

lemma pk_ok_row_ops:
  "pk_ok pk t \<Longrightarrow> pk_ok pk (row_ins pk v t)"
  "pk_ok pk t \<Longrightarrow> pk_ok pk (row_del pk k t)"
  "pk_ok pk t \<Longrightarrow> pk_ok pk (row_upd pk v t)"
proof -
  show "pk_ok pk t \<Longrightarrow> pk_ok pk (row_ins pk v t)"
    using pk_insert_fresh[of pk t v] by (simp add: row_ins_def)
  show "pk_ok pk t \<Longrightarrow> pk_ok pk (row_del pk k t)"
    using pk_delete[of pk t k] by (simp add: row_del_def)
  have "map pk (row_upd pk v t) = map pk t"
    unfolding row_upd_def map_map by (rule map_cong) auto
  then show "pk_ok pk t \<Longrightarrow> pk_ok pk (row_upd pk v t)"
    by (simp only: pk_ok_def)
qed

lemma set_row_del [simp]: "set (row_del pk k t) = {r \<in> set t. pk r \<noteq> k}"
  by (auto simp: row_del_def)

lemma row_del_absent: "\<forall>r \<in> set t. pk r \<noteq> k \<Longrightarrow> row_del pk k t = t"
  by (simp add: row_del_def)

lemma row_del_del: "row_del pk k (row_del pk k' t) = filter (\<lambda>r. pk r \<noteq> k \<and> pk r \<noteq> k') t"
  by (auto simp: row_del_def intro: filter_cong)

lemma run_sender [exec_simps]:
  assumes "ready w"
  shows "run_state (sender_insert b) w
      = (find_row sr_msg_id (w_sender w) (sprintf_s (sb_msg_id b)) = None,
         tick (w\<lparr>w_sender := row_ins sr_msg_id (sender_row_of b) (w_sender w)\<rparr>))"
    and "run_state (sender_update b) w
      = (True, tick (w\<lparr>w_sender := row_upd sr_msg_id (sender_row_of b) (w_sender w)\<rparr>))"
    and "run_state (sender_remove (Some k)) w
      = (True, tick (w\<lparr>w_sender := row_del sr_msg_id k (w_sender w)\<rparr>))"
  using assms
  using row_upd_write[of "env_now w" sr_msg_id "sender_row_of b"]
  by (simp_all add: sender_insert_def sender_update_def sender_remove_def Let_def
      sender_mgr_insert_def sender_update_sql sender_mgr_remove_def bean_mgr_eqs
      row_ins_write row_del_write)

lemma sender_dec_fields [simp]:
  "sb_msg_id (sender_dec r) = Some (sr_msg_id r)"
  "sb_msg_ctx_ref_key (sender_dec r) = Some (sr_msg_ctx_ref_key r)"
  "sb_internal_seq_id (sender_dec r) = Some (sr_internal_seq_id r)"
  "sb_seq_id (sender_dec r) = Some (sr_seq_id r)"
  "sb_msg_no (sender_dec r) = sr_msg_no r" "sb_send (sender_dec r) = sr_send r"
  "sb_time_to_send (sender_dec r) = sr_time_to_send r"
  "sb_sent_count (sender_dec r) = sr_sent_count r"
  by (simp_all add: sender_dec_def sender_fill_def)

lemma run_sender_find [exec_simps]:
  assumes "ready w"
  shows "run_state (sender_find b) w
      = (let bs = sender_beans (sender_find_cond b) (w_sender w)
         in if bs = [] then None else Some bs, tick w)"
    and "run_state (sender_find_by_internal_seq_id s) w
      = (let bs = sender_beans (\<lambda>r. sr_internal_seq_id r = sprintf_s s) (w_sender w)
         in if bs = [] then None else Some bs, tick w)"
  using assms
  by (simp_all add: sender_find_def sender_find_by_internal_seq_id_def
      sender_mgr_find_by_sender_bean_def sender_mgr_find_by_internal_seq_id_def bean_mgr_eqs
      sql_select_def sender_callback_eq db_query_collect sender_beans_def Let_def)

lemma run_next_msg [exec_simps]:
  assumes "ready w"
  shows "run_state (next_msg_insert b) w
      = (find_row nr_seq_id (w_next_msg w) (sprintf_s (nm_seq_id b)) = None,
         tick (w\<lparr>w_next_msg := row_ins nr_seq_id (next_msg_row_of b) (w_next_msg w)\<rparr>))"
    and "run_state (next_msg_remove (Some k)) w
      = (True, tick (w\<lparr>w_next_msg := row_del nr_seq_id k (w_next_msg w)\<rparr>))"
    and "next_msg_ok (w_next_msg w) \<Longrightarrow> run_state (next_msg_retrieve (Some k)) w
      = (next_msg_look (w_next_msg w) k, tick w)"
  using assms next_msg_store.retrieve_up[of "env_now w" "w_next_msg w" k]
  by (simp_all add: next_msg_insert_def next_msg_remove_def next_msg_retrieve_def Let_def
      next_msg_mgr_insert_def next_msg_mgr_remove_def bean_mgr_eqs row_ins_write row_del_write)

lemma run_next_msg_find [exec_simps]:
  assumes "ready w"
  shows "run_state (next_msg_find b) w
      = (let rs = filter (next_msg_find_cond b) (w_next_msg w)
         in if rs = [] then None else Some (map next_msg_dec rs), tick w)"
    and "run_state next_msg_retrieve_all w
      = (if w_next_msg w = [] then None else Some (map next_msg_dec (w_next_msg w)), tick w)"
proof -
  have "next_msg_find_cond None = (\<lambda>_. True)"
    by (simp add: next_msg_find_cond_def fun_eq_iff)
  then show "run_state (next_msg_find b) w
      = (let rs = filter (next_msg_find_cond b) (w_next_msg w)
         in if rs = [] then None else Some (map next_msg_dec rs), tick w)"
    and "run_state next_msg_retrieve_all w
      = (if w_next_msg w = [] then None else Some (map next_msg_dec (w_next_msg w)), tick w)"
    using assms
    by (simp_all add: next_msg_find_def next_msg_retrieve_all_def next_msg_mgr_find_def
        next_msg_mgr_retrieve_all_def bean_mgr_eqs sql_select_def db_query_collect Let_def
        next_msg_callback_eq)
qed

lemma run_create_seq [exec_simps]:
  assumes "ready w"
  shows "run_state (create_seq_remove (Some k)) w
      = (True, tick (w\<lparr>w_create_seq := row_del cr_create_seq_msg_id k (w_create_seq w)\<rparr>))"
    and "run_state (create_seq_find b) w
      = (let rs = filter (create_seq_find_cond b) (w_create_seq w)
         in if rs = [] then None else Some (map create_seq_dec rs), tick w)"
  using assms
  by (simp_all add: create_seq_remove_def create_seq_find_def create_seq_mgr_remove_def
      create_seq_mgr_find_def bean_mgr_eqs sql_select_def db_query_collect Let_def row_del_write
      create_seq_callback_eq)

lemma run_msg [exec_simps]:
  assumes "ready w"
  shows "mc_envelope ctx \<noteq> None \<Longrightarrow> run_state (store_msg_ctx key ctx) w
      = (AXIS2_SUCCESS, tick (w\<lparr>w_msg := row_ins mr_stored_key
          (msg_row_of ((the (get_msg_store_bean (cf_keys (w_conf w)) (w_uuids w (w_tick w)) ctx))
                       \<lparr>mb_stored_key := key\<rparr>)) (w_msg w)\<rparr>))"
    and "run_state (remove_msg_ctx key) w
      = (AXIS2_SUCCESS, tick (w\<lparr>w_msg := row_del mr_stored_key (sprintf_s key) (w_msg w)\<rparr>))"
proof -
  assume "mc_envelope ctx \<noteq> None"
  then obtain b where "get_msg_store_bean (cf_keys (w_conf w)) (w_uuids w (w_tick w)) ctx = Some b"
    by (auto simp: get_msg_store_bean_def)
  then show "run_state (store_msg_ctx key ctx) w
      = (AXIS2_SUCCESS, tick (w\<lparr>w_msg := row_ins mr_stored_key
          (msg_row_of ((the (get_msg_store_bean (cf_keys (w_conf w)) (w_uuids w (w_tick w)) ctx))
                       \<lparr>mb_stored_key := key\<rparr>)) (w_msg w)\<rparr>))"
    using assms by (simp add: store_msg_ctx_def insert_msg_store_bean_def bean_mgr_eqs row_ins_write Let_def)
qed (use assms in \<open>simp add: remove_msg_ctx_def remove_msg_store_bean_def bean_mgr_eqs row_del_write Let_def\<close>)

lemma run_invoker [exec_simps]:
  "ready w \<Longrightarrow> run_state (invoker_insert b) w
      = (find_row ir_msg_ctx_ref_key (w_invoker w) (sprintf_s (ib_msg_ctx_ref_key b)) = None,
         tick (w\<lparr>w_invoker := row_ins ir_msg_ctx_ref_key (invoker_row_of b) (w_invoker w)\<rparr>))"
  by (simp add: invoker_insert_def invoker_mgr_insert_def bean_mgr_eqs row_ins_write Let_def
      invoker_row_of_def)

lemma run_get_seq_property [exec_simps]:
  "ready w \<Longrightarrow> run_state (get_seq_property (Some s) (Some n)) w
     = (case seq_property_look (w_seq_prop w) (prop_id s n) of None \<Rightarrow> None | Some b \<Rightarrow> sp_value b,
        tick w)"
  "run_state (get_seq_property None n') w = (None, w)"
  by (auto simp: get_seq_property_def is_null_def exec_simps split: option.splits)

lemma run_policy [exec_simps]:
  "run_state (get_property_bean b) w = (if b then cf_property_bean (w_conf w) else None, w)"
  "run_state (get_rm_version m) w
     = (if rm_has_svc m then (case cf_property_bean (w_conf w) of None \<Rightarrow> None
                              | Some b \<Rightarrow> pb_spec_version b) else None, w)"
  by (simp_all add: get_property_bean_def get_rm_version_def asks_def)

lemma retrieve_stored_msg_state [simp]: "snd (run_state (retrieve_stored_msg k) w) = tick w"
  by (simp add: retrieve_stored_msg_def)

lemma run_retrieve_stored_msg [exec_simps]:
  assumes "ready w" "msg_store_ok (w_msg w)"
  shows "run_state (retrieve_stored_msg (Some k)) w
     = (case msg_store_look (w_msg w) k of None \<Rightarrow> None
        | Some b \<Rightarrow> map_option fst (rebuild_msg_ctx (cf_axis2 (w_conf w)) b), tick w)"
  using assms msg_store.retrieve_up[of "env_now w" "w_msg w" k]
  by (simp add: retrieve_stored_msg_def retrieve_msg_ctx_def split: option.splits)

text \<open>Loops that only depend on the elements.\<close>

lemma run_for_each_Cons:
  "run_state (for_each f (x # xs)) w = run_state (for_each f xs) (snd (run_state (f x) w))"
  by (simp split: prod.splits)

lemma for_each_invariant:
  assumes "\<And>x v. x \<in> set xs \<Longrightarrow> P v \<Longrightarrow> P (snd (run_state (f x) v))" "P w"
  shows "P (snd (run_state (for_each f xs) w))"
  using assms
proof (induction xs arbitrary: w)
  case (Cons x xs)
  then show ?case by (simp only: run_for_each_Cons list.set_intros)
qed simp

section \<open>A world to start from\<close>

text \<open>
  Empty tables, a database that always answers, a clock at 1000 and pairwise different unique ids: the
  concrete input of the examples.
\<close>

definition up_env :: db_env where
  "up_env = \<lparr>de_open = True, de_busy = (\<lambda>_. False)\<rparr>"

definition sample_conf :: conf where
  "sample_conf = \<lparr>cf_wsa = \<lparr>WSA_NAMESPACE_SUBMISSION = ''wsa-submission'', WSA_NAMESPACE = ''wsa'',
      WSA_ANONYMOUS_URL_SUBMISSION = ''wsa-submission/anonymous'',
      WSA_ANONYMOUS_URL = ''wsa/anonymous''\<rparr>,
    cf_trim = (\<lambda>s. s), cf_list_contains = (\<lambda>l s. s \<in> set l),
    cf_keys = sample_keys, cf_axis2 = sample_axis2, cf_stored = (\<lambda>_. (MSG_TYPE_UNKNOWN, None)),
    cf_out_ctx = (\<lambda>m. sample_ctx\<lparr>mc_msg_id := om_msg_id m, mc_to := om_to m\<rparr>),
    cf_property_bean = Some (property_bean_create
      \<lparr>pb_retrans_interval := 20, pb_max_retrans_count := 10, pb_inactive_timeout_interval := 60,
       pb_spec_version := Some SPEC_VERSION_1_0\<rparr>),
    cf_mep_in_only = 10, cf_mep_out_in = 16, cf_error_status = AXIS2_SUCCESS,
    cf_db_exists = True, cf_mep_uri_out_only = ''out-only'',
    cf_mep_uri_robust_out_only = ''robust-out-only'', cf_mep_uri_out_in = ''out-in'',
    cf_rstr_actions = []\<rparr>"

definition idle_world :: world where
  "idle_world = \<lparr>w_sender = [], w_next_msg = [], w_create_seq = [], w_invoker = [],
     w_seq_prop = [], w_msg = [], w_response = [], w_db = (\<lambda>_. up_env), w_clock = (\<lambda>_. 1000),
     w_uuids = (\<lambda>k. ''uuid-'' @ replicate k CHR ''x''), w_engine = (\<lambda>_. True),
     w_replies = (\<lambda>_. None), w_others = (\<lambda>_ ts. ts), w_tick = 0,
     w_conf = sample_conf, w_trace = [], w_ub = False\<rparr>"

definition sample_msg :: rm_msg where
  "sample_msg = \<lparr>rm_msg_type = MSG_TYPE_UNKNOWN, rm_msg_id = Some ''msg-1'',
     rm_to = Some (Some ''http://server''), rm_reply_to = Some (Some ''http://client''),
     rm_wsa_action = Some ''action'', rm_soap_action = None, rm_addr_ns_val = Some ''wsa'',
     rm_rm_ns_val = Some SPEC_2005_02_NS_URI, rm_server_side = True, rm_soap11 = True,
     rm_relates_to = None, rm_transport_url = None, rm_wsa_version = None,
     rm_client_acks_to = None, rm_app_processing_done = None,
     rm_client_last_message = None, rm_client_seq_key = None, rm_target_epr = None,
     rm_isolated_last_msg = None, rm_reinjected = None, rm_qualified = None,
     rm_op_ctx_known = True, rm_has_transport_out = True, rm_request = None, rm_mep = 0,
     rm_body_empty = True, rm_has_svc = True, rm_sequence = None, rm_seq_ack = None,
     rm_ack_requested = None, rm_create_seq = None, rm_create_seq_res = None,
     rm_close_seq = None, rm_close_seq_res = None, rm_terminate_seq = None,
     rm_terminate_seq_res = None, rm_make_connection = None, rm_client_msg_no = None,
     rm_dummy = None, rm_client_closed = False, rm_mc_out_path = False, rm_module_engaged = True,
     rm_separate_listener = None, rm_mep_uri = None, rm_ack_written = None, rm_fault = False,
     rm_related_out_action = None, rm_ctx = sample_ctx\<rparr>"

lemma ready_idle [simp]: "ready idle_world"
  by (auto simp: ready_def idle_world_def up_env_def db_up_iff intro!: exI[of _ 0])

lemma idle_fields [simp]:
  "w_sender idle_world = []" "w_next_msg idle_world = []" "w_create_seq idle_world = []"
  "w_invoker idle_world = []" "w_seq_prop idle_world = []" "w_msg idle_world = []"
  "w_response idle_world = []" "w_db idle_world = (\<lambda>_. up_env)" "w_clock idle_world = (\<lambda>_. 1000)"
  "w_uuids idle_world = (\<lambda>k. ''uuid-'' @ replicate k CHR ''x'')" "w_engine idle_world = (\<lambda>_. True)"
  "w_replies idle_world = (\<lambda>_. None)" "w_others idle_world = (\<lambda>_ ts. ts)"
  "w_tick idle_world = 0" "w_conf idle_world = sample_conf" "w_trace idle_world = []"
  "w_ub idle_world = False"
  by (simp_all add: idle_world_def)

end
