(* ===== verification/Seq_Mgr.thy ===== *)
theory Seq_Mgr
  imports World_Exec
begin

text \<open>
  \<open>src/util/seq_mgr.c\<close>: setting up the properties of an incoming and of an outgoing
  sequence, and the time of its last activity.
\<close>

section \<open>The functions\<close>

abbreviation prop_bean :: "cstr \<Rightarrow> string \<Rightarrow> cstr \<Rightarrow> seq_property_bean" where
  "prop_bean seq_id name v \<equiv> seq_property_bean_create_with_data seq_id (Some name) v"

text \<open>The properties and the bean that a CreateSequence message gives rise to.\<close>

definition store_incoming_properties ::
  "rm_msg \<Rightarrow> string \<Rightarrow> cstr \<Rightarrow> cstr \<Rightarrow> unit proc" where
  "store_incoming_properties m rmd_sequence_id to acks_to = do {
     let addressing_ns_value = rm_addr_ns_val m;
     seq_prop_insert
       (prop_bean (Some rmd_sequence_id) SEQ_PROP_ADDRESSING_NAMESPACE_VALUE addressing_ns_value);
     anonymous_uri \<leftarrow> asks (\<lambda>w. get_anon_uri (cf_wsa (w_conf w)) addressing_ns_value);
     let to_bean =
       (case rm_reply_to m of
          Some reply_to_addr \<Rightarrow> prop_bean (Some rmd_sequence_id) SEQ_PROP_TO_EPR reply_to_addr
        | None \<Rightarrow> prop_bean (Some rmd_sequence_id) SEQ_PROP_TO_EPR anonymous_uri);
     seq_prop_insert to_bean;
     seq_prop_insert (prop_bean (Some rmd_sequence_id) SEQ_PROP_REPLY_TO_EPR to);
     seq_prop_insert (prop_bean (Some rmd_sequence_id) SEQ_PROP_ACKS_TO_EPR acks_to);
     seq_prop_insert (prop_bean (Some rmd_sequence_id) SEQ_PROP_SERVER_COMPLETED_MESSAGES (Some ''''));
     let next_msg_bean = next_msg_bean_create_with_data (Some rmd_sequence_id) 1;
     let internal_sequence_id = get_internal_sequence_id (Some rmd_sequence_id);
     next_msg_insert
       (case internal_sequence_id of
          Some i \<Rightarrow> next_msg_bean\<lparr>nm_internal_seq_id := Some i\<rparr>
        | None \<Rightarrow> next_msg_bean);
     ret ()
   }"

definition setup_new_incoming_sequence :: "rm_msg \<Rightarrow> (sandesha2_error + string) proc" where
  "setup_new_incoming_sequence m = do {
     rmd_sequence_id \<leftarrow> uuid_gen;
     (case rm_to m of
        None \<Rightarrow> ret (Inl ERROR_TO_IS_NULL)
      | Some to \<Rightarrow>
        (case rm_create_seq m of
           None \<Rightarrow> ret (Inl ERROR_CREATE_SEQ_PART_IS_NULL)
         | Some create_seq \<Rightarrow>
           (case cp_acks_to create_seq of
              None \<Rightarrow> ret (Inl ERROR_ACKS_TO_IS_NULL)
            | Some acks_to \<Rightarrow> do {
                store_incoming_properties m rmd_sequence_id to acks_to;
                if is_null (rm_wsa_action m) then
                  ret (Inl ERROR_CREATE_SEQ_MSG_DOES_NOT_HAVE_WSA_ACTION_VALUE)
                else if cp_ns_val create_seq = Some SPEC_2005_02_NS_URI then
                  ret (Inr rmd_sequence_id)
                else if cp_ns_val create_seq = Some SPEC_2007_02_NS_URI then
                  ret (Inr rmd_sequence_id)
                else ret (Inl ERROR_CREATE_SEQ_MSG_DOES_NOT_HAVE_VALID_RM_NS_VALUE)
              })))
   }"

definition update_last_activated_time :: "cstr \<Rightarrow> status proc" where
  "update_last_activated_time property_key = do {
     found \<leftarrow> seq_prop_retrieve property_key (Some SEQ_PROP_LAST_ACTIVATED_TIME);
     let added = is_null found;
     let last_activated_bean =
       (case found of
          None \<Rightarrow> seq_property_bean_create
                    \<lparr>sp_seq_id := property_key, sp_name := Some SEQ_PROP_LAST_ACTIVATED_TIME\<rparr>
        | Some b \<Rightarrow> b);
     current_time \<leftarrow> current_time_in_millis;
     let bean = last_activated_bean\<lparr>sp_value := Some (sprintf_ld current_time)\<rparr>;
     insert_or_update added bean;
     ret AXIS2_SUCCESS
   }"

definition get_last_activated_time :: "cstr \<Rightarrow> int proc" where
  "get_last_activated_time property_key =
     (if is_null property_key then ret (-1)
      else do {
        seq_prop_bean \<leftarrow> seq_prop_retrieve property_key (Some SEQ_PROP_LAST_ACTIVATED_TIME);
        (case seq_prop_bean of
           None \<Rightarrow> ret (-1)
         | Some b \<Rightarrow> (case sp_value b of None \<Rightarrow> ret (-1) | Some v \<Rightarrow> ret (atol v)))
      })"

definition has_seq_timedout :: "cstr \<Rightarrow> bool \<Rightarrow> bool proc" where
  "has_seq_timedout property_key has_svc =
     (if is_null property_key then ret False
      else do {
        property_bean \<leftarrow> get_property_bean has_svc;
        (case property_bean of
           None \<Rightarrow> do { undefined_behaviour; ret False }
         | Some pb \<Rightarrow>
             (let timeout_interval = pb_inactive_timeout_interval pb in
              if timeout_interval \<le> 0 then ret False
              else do {
                last_activated_time \<leftarrow> get_last_activated_time property_key;
                current_time \<leftarrow> current_time_in_millis;
                ret (last_activated_time > 0 \<and> last_activated_time + timeout_interval < current_time)
              }))
      })"

text \<open>The addressing namespace: the message's, its request's, or the default.\<close>

definition outgoing_addr_ns_val :: "rm_msg \<Rightarrow> string proc" where
  "outgoing_addr_ns_val first_app_msg =
     (case rm_wsa_version first_app_msg of
        Some v \<Rightarrow> ret v
      | None \<Rightarrow>
          (case (case rm_request first_app_msg of None \<Rightarrow> None | Some rq \<Rightarrow> rq_wsa_version rq) of
             Some v \<Rightarrow> ret v
           | None \<Rightarrow> asks (\<lambda>w. WSA_NAMESPACE (cf_wsa (w_conf w)))))"

text \<open>
  The reply address of an outgoing sequence and the acknowledgement address it implies, or
  \<open>None\<close> for the failing returns.
\<close>

definition outgoing_reply_to :: "rm_msg \<Rightarrow> string \<Rightarrow> cstr \<Rightarrow> cstr option proc" where
  "outgoing_reply_to first_app_msg internal_sequence_id acks_to_str =
     (if rm_server_side first_app_msg then
        (case rm_request first_app_msg of
           None \<Rightarrow> ret None
         | Some rq \<Rightarrow>
           (case rq_to rq of
              None \<Rightarrow> ret None
            | Some None \<Rightarrow> ret (Some acks_to_str)
            | Some (Some temp_epr_addr) \<Rightarrow> do {
                seq_prop_insert (prop_bean (Some internal_sequence_id) SEQ_PROP_REPLY_TO_EPR
                  (Some temp_epr_addr));
                ret (Some (Some temp_epr_addr))
              }))
      else
        (case rm_reply_to first_app_msg of
           Some (Some temp_epr_addr) \<Rightarrow> do {
             seq_prop_insert (prop_bean (Some internal_sequence_id) SEQ_PROP_REPLY_TO_EPR
               (Some temp_epr_addr));
             ret (Some acks_to_str)
           }
         | _ \<Rightarrow> ret (Some acks_to_str)))"

definition setup_new_outgoing_sequence :: "rm_msg \<Rightarrow> cstr \<Rightarrow> cstr \<Rightarrow> status proc" where
  "setup_new_outgoing_sequence first_app_msg internal_seq_id spec_version =
     (case (internal_seq_id, spec_version) of
        (Some internal_sequence_id, Some sv) \<Rightarrow> do {
          addr_ns_val \<leftarrow> outgoing_addr_ns_val first_app_msg;
          seq_prop_insert (prop_bean (Some internal_sequence_id)
            SEQ_PROP_ADDRESSING_NAMESPACE_VALUE (Some addr_ns_val));
          anon_uri \<leftarrow> asks (\<lambda>w. get_anon_uri (cf_wsa (w_conf w)) (Some addr_ns_val));
          (case rm_to first_app_msg of
             Some to_addr \<Rightarrow> seq_prop_insert (prop_bean (Some internal_sequence_id)
               SEQ_PROP_TO_EPR to_addr)
           | None \<Rightarrow> ret False);
          r \<leftarrow> outgoing_reply_to first_app_msg internal_sequence_id (rm_client_acks_to first_app_msg);
          (case r of
             None \<Rightarrow> ret AXIS2_FAILURE
           | Some acks_to_str \<Rightarrow> do {
               let acks_to = (case acks_to_str of None \<Rightarrow> anon_uri | Some a \<Rightarrow> Some a);
               seq_prop_insert (prop_bean (Some internal_sequence_id)
                 SEQ_PROP_CLIENT_COMPLETED_MESSAGES (Some ''''));
               seq_prop_insert (prop_bean (Some internal_sequence_id) SEQ_PROP_ACKS_TO_EPR acks_to);
               (case rm_transport_url first_app_msg of
                  Some transport_to \<Rightarrow> seq_prop_insert (prop_bean (Some internal_sequence_id)
                    SEQ_PROP_TRANSPORT_TO (Some transport_to))
                | None \<Rightarrow> ret False);
               update_last_activated_time (Some internal_sequence_id);
               ret AXIS2_SUCCESS
             })
        }
      | _ \<Rightarrow> ret AXIS2_FAILURE)"

text \<open>\<open>sandesha2_utils_is_all_msgs_acked_upto\<close>: the loop over the message numbers.\<close>

function acked_upto_loop :: "string list \<Rightarrow> int \<Rightarrow> int \<Rightarrow> bool" where
  "acked_upto_loop acked_msgs_list highest temp_msg_no =
     (if temp_msg_no \<le> highest then
        (if \<not> array_list_contains (Some acked_msgs_list) (Some (sprintf_ld temp_msg_no)) then False
         else acked_upto_loop acked_msgs_list highest (temp_msg_no + 1))
      else True)"
  by pat_completeness auto
termination by (relation "measure (\<lambda>(l, h, t). nat (h + 1 - t))") auto

declare acked_upto_loop.simps [simp del]

definition is_all_msgs_acked_upto :: "int \<Rightarrow> cstr \<Rightarrow> bool proc" where
  "is_all_msgs_acked_upto highest_in_msg_no internal_seq_id = do {
     client_completed_msgs \<leftarrow>
       get_seq_property internal_seq_id (Some SEQ_PROP_CLIENT_COMPLETED_MESSAGES);
     (case client_completed_msgs of
        None \<Rightarrow> ret False
      | Some s \<Rightarrow>
          (case get_array_list_from_string (Some s) of
             None \<Rightarrow> ret False
           | Some acked_msgs_list \<Rightarrow> ret (acked_upto_loop acked_msgs_list highest_in_msg_no 1)))
   }"

section \<open>Properties of a sequence as a map\<close>

text \<open>
  Every row holds the key of its own columns, and no name holds a colon: what the managers'
  callers establish, and what makes a bean that was read write back to its own row.
\<close>

definition props_ok :: "seq_property_table \<Rightarrow> bool" where
  "props_ok t \<longleftrightarrow> (\<forall>r \<in> set t. pr_id r = prop_id (pr_seq_id r) (pr_name r) \<and> colon_free (pr_name r))"

definition prop_value :: "world \<Rightarrow> string \<Rightarrow> string \<Rightarrow> cstr" where
  "prop_value w s n = (case seq_property_look (w_seq_prop w) (prop_id s n) of
                         None \<Rightarrow> None | Some b \<Rightarrow> sp_value b)"

definition mk_prop :: "string \<Rightarrow> string \<Rightarrow> string \<Rightarrow> seq_property_bean" where
  "mk_prop s n v = \<lparr>sp_seq_id = Some s, sp_name = Some n, sp_value = Some v\<rparr>"

lemma mk_prop_id [simp]: "get_id_with_bean (mk_prop s n v) = prop_id s n"
  by (simp add: mk_prop_def get_id_with_bean_eq)

lemma mk_prop_img [simp]: "seq_property_img (mk_prop s n v) = mk_prop s n v"
  by (simp add: mk_prop_def seq_property_img_eq)

lemma prop_bean_mk: "prop_bean (Some s) n v = (mk_prop s n (sprintf_s v))\<lparr>sp_value := v\<rparr>"
  by (simp add: mk_prop_def seq_property_bean_create_with_data_def)

lemma prop_bean_id [simp]: "get_id_with_bean (prop_bean (Some s) n v) = prop_id s n"
  by (simp add: seq_property_bean_create_with_data_def get_id_with_bean_eq)

lemma prop_bean_img [simp]: "seq_property_img (prop_bean (Some s) n v) = mk_prop s n (sprintf_s v)"
  by (simp add: seq_property_bean_create_with_data_def seq_property_img_eq mk_prop_def)

lemma props_ok_ops [simp]:
  "props_ok t \<Longrightarrow> colon_free n \<Longrightarrow> props_ok (t @ [seq_property_row_of (prop_bean (Some s) n v)])"
  "props_ok t \<Longrightarrow> colon_free n \<Longrightarrow> props_ok (t @ [seq_property_row_of (mk_prop s n u)])"
  "props_ok t \<Longrightarrow> colon_free n \<Longrightarrow> props_ok (prop_upd (mk_prop s n u) t)"
  "props_ok t \<Longrightarrow> props_ok (prop_del i t)"
  by (auto simp: props_ok_def seq_property_row_of_def get_id_with_bean_eq prop_upd_def prop_del_def
      seq_property_bean_create_with_data_def mk_prop_def)

lemma props_ok_look:
  assumes "props_ok t" "colon_free n" "seq_property_look t (prop_id s n) = Some b"
  shows "\<exists>v. b = mk_prop s n v"
proof -
  obtain r where r: "find (\<lambda>r. pr_id r = prop_id s n) (rev t) = Some r" "b = seq_property_dec r"
    using assms(3) by (auto simp: seq_property_look_def)
  then have "r \<in> set t" "pr_id r = prop_id s n"
    by (auto dest: find_SomeD)
  then have "pr_seq_id r = s \<and> pr_name r = n"
    using assms(1,2) prop_id_inject unfolding props_ok_def by metis
  then show ?thesis using r(2)
    by (simp add: seq_property_dec_def seq_property_fill_def seq_property_bean_create_def mk_prop_def)
qed

text \<open>The table after a property was put: inserted where it was absent, else updated.\<close>

definition prop_put :: "string \<Rightarrow> string \<Rightarrow> string \<Rightarrow> seq_property_table \<Rightarrow> seq_property_table" where
  "prop_put s n v t =
     (if seq_property_look t (prop_id s n) = None then t @ [seq_property_row_of (mk_prop s n v)]
      else prop_upd (mk_prop s n v) t)"

lemma look_prop_put [look_simps]:
  "seq_property_look (prop_put s n v t) = (seq_property_look t)(prop_id s n \<mapsto> mk_prop s n v)"
  by (cases "seq_property_look t (prop_id s n)") (simp_all add: prop_put_def look_after)

lemma props_ok_put [simp]: "props_ok t \<Longrightarrow> colon_free n \<Longrightarrow> props_ok (prop_put s n v t)"
  by (simp add: prop_put_def)

text \<open>The idiom in the handlers, as one step.\<close>

lemma put_idiom [exec_simps]:
  assumes "ready w" "props_ok (w_seq_prop w)" "colon_free n" "t = w_seq_prop w"
    and "sp_seq_id b0 = Some s" "sp_name b0 = Some n"
  shows "run_state (insert_or_update (is_null (seq_property_look t (prop_id s n)))
           ((case seq_property_look t (prop_id s n) of None \<Rightarrow> b0 | Some b \<Rightarrow> b)\<lparr>sp_value := Some v\<rparr>)) w
       = (True, tick (w\<lparr>w_seq_prop := prop_put s n v (w_seq_prop w)\<rparr>))"
proof (cases "seq_property_look t (prop_id s n)")
  case None
  have "b0\<lparr>sp_value := Some v\<rparr> = mk_prop s n v" using assms(5,6) by (simp add: mk_prop_def)
  then show ?thesis using None assms(1,4)
    by (simp add: insert_or_update_def is_null_def exec_simps prop_put_def)
next
  case (Some b)
  then obtain u where "b = mk_prop s n u" using props_ok_look assms by metis
  then have "b\<lparr>sp_value := Some v\<rparr> = mk_prop s n v" by (simp add: mk_prop_def)
  then show ?thesis using Some assms(1,4)
    by (simp add: insert_or_update_def is_null_def exec_simps prop_put_def)
qed

lemma run_update_last_activated_time [exec_simps]:
  assumes "ready w" "props_ok (w_seq_prop w)"
  shows "run_state (update_last_activated_time (Some s)) w
       = (AXIS2_SUCCESS, tick (tick (tick (w\<lparr>w_seq_prop :=
            prop_put s SEQ_PROP_LAST_ACTIVATED_TIME (sprintf_ld (w_clock w (Suc (w_tick w))))
              (w_seq_prop w)\<rparr>))))"
  using assms
  by (simp add: update_last_activated_time_def exec_simps Let_def seq_property_bean_create_def tick_def)

lemma run_get_last_activated_time [exec_simps]:
  "ready w \<Longrightarrow> run_state (get_last_activated_time (Some s)) w
     = (case prop_value w s SEQ_PROP_LAST_ACTIVATED_TIME of None \<Rightarrow> -1 | Some v \<Rightarrow> atol v, tick w)"
  by (auto simp: get_last_activated_time_def is_null_def exec_simps prop_value_def
      split: option.splits)

lemma run_has_seq_timedout [exec_simps]:
  assumes "ready w" "cf_property_bean (w_conf w) = Some pb"
  shows "fst (run_state (has_seq_timedout (Some s) True) w) \<longleftrightarrow>
     pb_inactive_timeout_interval pb > 0 \<and>
     (\<exists>v. prop_value w s SEQ_PROP_LAST_ACTIVATED_TIME = Some v \<and> atol v > 0
        \<and> atol v + pb_inactive_timeout_interval pb < w_clock w (Suc (w_tick w)))"
  using assms
  by (cases "prop_value w s SEQ_PROP_LAST_ACTIVATED_TIME")
     (auto simp: has_seq_timedout_def is_null_def exec_simps get_property_bean_def Let_def)

section \<open>All messages acknowledged\<close>

lemma acked_upto_loop_iff:
  "acked_upto_loop l h t \<longleftrightarrow> (\<forall>k. t \<le> k \<and> k \<le> h \<longrightarrow> sprintf_ld k \<in> set l)"
proof (induction l h t rule: acked_upto_loop.induct)
  case (1 l h t)
  show ?case
  proof (cases "t \<le> h \<and> sprintf_ld t \<in> set l")
    case True
    then have "acked_upto_loop l h t = acked_upto_loop l h (t + 1)"
      by (subst acked_upto_loop.simps) simp
    also have "\<dots> \<longleftrightarrow> (\<forall>k. t + 1 \<le> k \<and> k \<le> h \<longrightarrow> sprintf_ld k \<in> set l)" using 1 True by simp
    also have "\<dots> \<longleftrightarrow> (\<forall>k. t \<le> k \<and> k \<le> h \<longrightarrow> sprintf_ld k \<in> set l)"
    proof -
      have "t \<le> k \<Longrightarrow> k = t \<or> t + 1 \<le> k" "t + 1 \<le> k \<Longrightarrow> t \<le> k" for k by linarith+
      then show ?thesis using True by blast
    qed
    finally show ?thesis .
  next
    case False
    then show ?thesis by (subst acked_upto_loop.simps) auto
  qed
qed

text \<open>Under a database that answers,
  \<open>sandesha2_utils_is_all_msgs_acked_upto\<close> is true exactly when the stored list of the
  client's completed messages is there, is not empty, and has every number from 1 to the
  given one as an entry.\<close>

theorem is_all_msgs_acked_upto_iff:
  assumes "ready w"
  shows "fst (run_state (is_all_msgs_acked_upto h (Some s)) w) \<longleftrightarrow>
     (\<exists>v. prop_value w s SEQ_PROP_CLIENT_COMPLETED_MESSAGES = Some v \<and> v \<noteq> [] \<and>
        (\<forall>k. 1 \<le> k \<and> k \<le> h \<longrightarrow> sprintf_ld k \<in> set (strtok_all CHR '','' v)))"
proof (cases "prop_value w s SEQ_PROP_CLIENT_COMPLETED_MESSAGES")
  case None
  then show ?thesis using assms
    by (simp add: is_all_msgs_acked_upto_def exec_simps prop_value_def)
next
  case (Some v)
  then have g: "run_state (get_seq_property (Some s) (Some SEQ_PROP_CLIENT_COMPLETED_MESSAGES)) w
      = (Some v, tick w)"
    using assms by (simp add: exec_simps prop_value_def)
  show ?thesis
  proof (cases "v = []")
    case True
    then show ?thesis using g Some
      by (simp add: is_all_msgs_acked_upto_def get_array_list_from_string_def)
  next
    case False
    then obtain l where "get_array_list_from_string (Some v) = Some l"
      "set l = set (strtok_all CHR '','' v)"
      using get_array_list_from_string_set by blast
    then show ?thesis using g Some False
      by (simp add: is_all_msgs_acked_upto_def acked_upto_loop_iff)
  qed
qed

definition two_acked :: world where
  "two_acked = idle_world\<lparr>w_seq_prop :=
     [seq_property_row_of (mk_prop ''s'' SEQ_PROP_CLIENT_COMPLETED_MESSAGES ''2,1'')]\<rparr>"

theorem is_all_msgs_acked_upto_iff_witness:
  "fst (run_state (is_all_msgs_acked_upto 2 (Some ''s'')) two_acked)"
proof -
  have v: "prop_value two_acked ''s'' SEQ_PROP_CLIENT_COMPLETED_MESSAGES = Some ''2,1''"
    using look_after(1)[of "[]" "mk_prop ''s'' SEQ_PROP_CLIENT_COMPLETED_MESSAGES ''2,1''"]
    by (simp add: two_acked_def prop_value_def) (simp add: mk_prop_def)
  have k: "k = 1 \<or> k = 2" if "1 \<le> k" "k \<le> 2" for k :: int using that by linarith
  have "strtok_all CHR '','' ''2,1'' = [sprintf_ld 2, sprintf_ld 1]" by code_simp
  then show ?thesis
    using is_all_msgs_acked_upto_iff[of two_acked 2 "''s''"] v k by (fastforce simp: two_acked_def)
qed

section \<open>Setting up sequences\<close>

definition incoming_rows :: "conf \<Rightarrow> rm_msg \<Rightarrow> string \<Rightarrow> cstr \<Rightarrow> cstr \<Rightarrow> seq_property_row list" where
  "incoming_rows cf m i to acks_to = map seq_property_row_of
     [prop_bean (Some i) SEQ_PROP_ADDRESSING_NAMESPACE_VALUE (rm_addr_ns_val m),
      prop_bean (Some i) SEQ_PROP_TO_EPR
        (case rm_reply_to m of Some r \<Rightarrow> r | None \<Rightarrow> get_anon_uri (cf_wsa cf) (rm_addr_ns_val m)),
      prop_bean (Some i) SEQ_PROP_REPLY_TO_EPR to,
      prop_bean (Some i) SEQ_PROP_ACKS_TO_EPR acks_to,
      prop_bean (Some i) SEQ_PROP_SERVER_COMPLETED_MESSAGES (Some [])]"

definition incoming_next_msg :: "string \<Rightarrow> next_msg_bean" where
  "incoming_next_msg i =
     \<lparr>nm_seq_id = Some i, nm_internal_seq_id = Some (INTERNAL_SEQ_PREFIX @ '':'' @ i),
      nm_ref_msg_key = None, nm_polling_mode = False, nm_msg_no = 1\<rparr>"

lemma run_store_incoming_properties [exec_simps]:
  assumes "ready w"
  shows "run_state (store_incoming_properties m i to acks_to) w
    = ((), w\<lparr>w_seq_prop := w_seq_prop w @ incoming_rows (w_conf w) m i to acks_to,
             w_next_msg := row_ins nr_seq_id (next_msg_row_of (incoming_next_msg i)) (w_next_msg w),
             w_tick := w_tick w + 6\<rparr>)"
  using assms
  by (cases "rm_reply_to m")
     (simp_all add: store_incoming_properties_def exec_simps Let_def get_internal_sequence_id_def
       tick_def next_msg_bean_create_with_data_def incoming_rows_def incoming_next_msg_def)

lemma look_incoming_rows:
  "seq_property_look (t @ incoming_rows cf m i to acks_to) = (seq_property_look t)
     (prop_id i SEQ_PROP_ADDRESSING_NAMESPACE_VALUE
        \<mapsto> mk_prop i SEQ_PROP_ADDRESSING_NAMESPACE_VALUE (sprintf_s (rm_addr_ns_val m)),
      prop_id i SEQ_PROP_TO_EPR \<mapsto> mk_prop i SEQ_PROP_TO_EPR
        (sprintf_s (case rm_reply_to m of Some r \<Rightarrow> r | None \<Rightarrow> get_anon_uri (cf_wsa cf) (rm_addr_ns_val m))),
      prop_id i SEQ_PROP_REPLY_TO_EPR \<mapsto> mk_prop i SEQ_PROP_REPLY_TO_EPR (sprintf_s to),
      prop_id i SEQ_PROP_ACKS_TO_EPR \<mapsto> mk_prop i SEQ_PROP_ACKS_TO_EPR (sprintf_s acks_to),
      prop_id i SEQ_PROP_SERVER_COMPLETED_MESSAGES \<mapsto> mk_prop i SEQ_PROP_SERVER_COMPLETED_MESSAGES [])"
proof -
  have app: "t @ [a, b, c, d, e] = ((((t @ [a]) @ [b]) @ [c]) @ [d]) @ [e]" for a b c d e by simp
  show ?thesis unfolding incoming_rows_def list.map app
    by (simp only: look_after prop_bean_id prop_bean_img sprintf_s_simps)
qed

text \<open>The names of different properties differ.\<close>

lemma prop_names_distinct [simp]:
  "distinct [SEQ_PROP_ADDRESSING_NAMESPACE_VALUE, SEQ_PROP_TO_EPR, SEQ_PROP_REPLY_TO_EPR,
     SEQ_PROP_ACKS_TO_EPR, SEQ_PROP_SERVER_COMPLETED_MESSAGES, SEQ_PROP_CLIENT_COMPLETED_MESSAGES,
     SEQ_PROP_TRANSPORT_TO, SEQ_PROP_LAST_ACTIVATED_TIME]"
  by (simp add: prop_names)

lemma prop_names_neq [simp]:
  "SEQ_PROP_TO_EPR \<noteq> SEQ_PROP_REPLY_TO_EPR" "SEQ_PROP_REPLY_TO_EPR \<noteq> SEQ_PROP_TO_EPR"
  "SEQ_PROP_TO_EPR \<noteq> SEQ_PROP_ACKS_TO_EPR" "SEQ_PROP_ACKS_TO_EPR \<noteq> SEQ_PROP_TO_EPR"
  "SEQ_PROP_TO_EPR \<noteq> SEQ_PROP_SERVER_COMPLETED_MESSAGES" "SEQ_PROP_SERVER_COMPLETED_MESSAGES \<noteq> SEQ_PROP_TO_EPR"
  "SEQ_PROP_REPLY_TO_EPR \<noteq> SEQ_PROP_ACKS_TO_EPR" "SEQ_PROP_ACKS_TO_EPR \<noteq> SEQ_PROP_REPLY_TO_EPR"
  "SEQ_PROP_REPLY_TO_EPR \<noteq> SEQ_PROP_SERVER_COMPLETED_MESSAGES"
  "SEQ_PROP_SERVER_COMPLETED_MESSAGES \<noteq> SEQ_PROP_REPLY_TO_EPR"
  "SEQ_PROP_ACKS_TO_EPR \<noteq> SEQ_PROP_SERVER_COMPLETED_MESSAGES"
  "SEQ_PROP_SERVER_COMPLETED_MESSAGES \<noteq> SEQ_PROP_ACKS_TO_EPR"
  by (simp_all add: prop_names)

text \<open>C24: a CreateSequence message with a target, an acknowledgement
  address, an action and a known reliable-messaging namespace is accepted: the new sequence
  gets the unique id as its name, an empty list of received messages, the addresses of the
  message, and 1 as the next number to process; the properties of every other sequence stay.\<close>

theorem setup_new_incoming_ok:
  assumes "ready w" "rm_to m = Some to" "rm_create_seq m = Some cs" "cp_acks_to cs = Some acks_to"
    and "rm_wsa_action m \<noteq> None"
    and "cp_ns_val cs = Some SPEC_2005_02_NS_URI \<or> cp_ns_val cs = Some SPEC_2007_02_NS_URI"
    and "i = w_uuids w (w_tick w)" "next_msg_look (w_next_msg w) i = None"
    and "next_msg_ok (w_next_msg w)"
  shows "\<exists>w'. run_state (setup_new_incoming_sequence m) w = (Inr i, w')
     \<and> prop_value w' i SEQ_PROP_SERVER_COMPLETED_MESSAGES = Some []
     \<and> prop_value w' i SEQ_PROP_ACKS_TO_EPR = Some (sprintf_s acks_to)
     \<and> prop_value w' i SEQ_PROP_REPLY_TO_EPR = Some (sprintf_s to)
     \<and> next_msg_look (w_next_msg w') i = Some (incoming_next_msg i)
     \<and> (\<forall>s n. s \<noteq> i \<and> colon_free n \<longrightarrow> prop_value w' s n = prop_value w s n)"
proof -
  let ?w' = "w\<lparr>w_tick := w_tick w + 7,
      w_seq_prop := w_seq_prop w @ incoming_rows (w_conf w) m i to acks_to,
      w_next_msg := row_ins nr_seq_id (next_msg_row_of (incoming_next_msg i)) (w_next_msg w)\<rparr>"
  have "run_state (setup_new_incoming_sequence m) w = (Inr i, ?w')"
    using assms by (auto simp: setup_new_incoming_sequence_def exec_simps is_null_def tick_def)
  moreover have "next_msg_look (w_next_msg ?w') i = Some (incoming_next_msg i)"
    using assms(8)
    by (simp add: row_ins_def table_look_def find_row_append incoming_next_msg_def next_msg_dec_def
        next_msg_row_of_def next_msg_fill_def next_msg_bean_create_def)
  moreover have "prop_value ?w' s n = prop_value w s n" if "s \<noteq> i" "colon_free n" for s n
    using that by (simp add: prop_value_def look_incoming_rows prop_id_inject)
  ultimately show ?thesis
    by (intro exI[of _ ?w']) (simp add: prop_value_def look_incoming_rows prop_id_inject mk_prop_def)
qed

definition sample_create_seq :: rm_msg where
  "sample_create_seq = sample_msg\<lparr>rm_msg_type := MSG_TYPE_CREATE_SEQ,
     rm_create_seq := Some \<lparr>cp_acks_to = Some (Some ''http://acks''),
                            cp_ns_val = Some SPEC_2005_02_NS_URI,
       cp_offer = None, cp_ref_params = None\<rparr>\<rparr>"

theorem setup_new_incoming_ok_witness:
  "\<exists>w'. run_state (setup_new_incoming_sequence sample_create_seq) idle_world = (Inr ''uuid-'', w')
     \<and> prop_value w' ''uuid-'' SEQ_PROP_ACKS_TO_EPR = Some ''http://acks''
     \<and> next_msg_look (w_next_msg w') ''uuid-'' = Some (incoming_next_msg ''uuid-'')"
  using setup_new_incoming_ok[of idle_world sample_create_seq "Some ''http://server''"
      "\<lparr>cp_acks_to = Some (Some ''http://acks''), cp_ns_val = Some SPEC_2005_02_NS_URI,
       cp_offer = None, cp_ref_params = None\<rparr>"
      "Some ''http://acks''" "''uuid-''"]
  by (auto simp: sample_create_seq_def sample_msg_def table_look_def)

end
