(* ===== verification/Ack_Mgr.thy ===== *)
theory Ack_Mgr
  imports Seq_Mgr Spec_Specific_Consts
begin

text \<open>
  \<open>src/util/ack_mgr.c\<close> and \<open>sandesha2_msg_creator_add_ack_msg\<close> of
  \<open>src/util/msg_creator.c\<close>: building an acknowledgement from the stored list of received
  messages, reading the completed messages of a sequence, deciding whether the acknowledged
  ranges complete a sequence, and moving a waiting acknowledgement onto another message.
\<close>

section \<open>Building an acknowledgement\<close>

text \<open>The value of a fallible constant, or what the code returns beside the error.\<close>

definition or_default :: "'a \<Rightarrow> sandesha2_error + 'a \<Rightarrow> 'a" where
  "or_default d r = (case r of Inl _ \<Rightarrow> d | Inr x \<Rightarrow> x)"

text \<open>
  \<open>sandesha2_msg_creator_add_ack_msg\<close>.  Without a stored list the code hands a null pointer
  to \<open>strtok\<close>.
\<close>

definition ack_part :: "string \<Rightarrow> cstr \<Rightarrow> cstr \<Rightarrow> cstr \<Rightarrow> seq_ack_part" where
  "ack_part rm_version seq_id msg_no_list closed =
     (let rm_ns_value = get_rm_ns_val (Some rm_version) in
      \<lparr>sk_identifier = seq_id,
       sk_ranges = Some (case msg_no_list of None \<Rightarrow> []
                         | Some l \<Rightarrow> get_ack_range_list l rm_ns_value),
       sk_nacks = [],
       sk_final = (closed = Some AXIS2_VALUE_TRUE
                   \<and> or_default False (is_ack_final_allowed (Some rm_version)))\<rparr>)"

definition with_ack :: "string \<Rightarrow> seq_ack_part \<Rightarrow> string \<Rightarrow> out_msg \<Rightarrow> out_msg" where
  "with_ack rm_version part uuid target =
     target\<lparr>om_seq_ack := Some part,
            om_action := (case om_action target of
               None \<Rightarrow> Some (or_default '''' (get_seq_ack_action rm_version))
             | Some a \<Rightarrow> if a = '''' then Some (or_default '''' (get_seq_ack_action rm_version))
                        else Some a),
            om_soap_action := Some (or_default '''' (get_seq_ack_soap_action rm_version)),
            om_msg_id := Some uuid\<rparr>"

definition bean_value :: "seq_property_bean option \<Rightarrow> cstr" where
  "bean_value bean = (case bean of None \<Rightarrow> None | Some b \<Rightarrow> sp_value b)"

definition add_ack_msg :: "rm_msg \<Rightarrow> out_msg \<Rightarrow> cstr \<Rightarrow> (out_msg \<times> status) proc" where
  "add_ack_msg ref_msg target seq_id = do {
     version \<leftarrow> get_rm_version ref_msg;
     (case version of
        None \<Rightarrow> ret (target, AXIS2_FAILURE)
      | Some rm_version \<Rightarrow> do {
          seq_bean \<leftarrow> seq_prop_retrieve seq_id (Some SEQ_PROP_SERVER_COMPLETED_MESSAGES);
          (if is_null (bean_value seq_bean) then undefined_behaviour else ret ());
          seq_closed_bean \<leftarrow> seq_prop_retrieve seq_id (Some SEQ_PROP_SEQ_CLOSED);
          uuid \<leftarrow> uuid_gen;
          ret (with_ack rm_version
                 (ack_part rm_version seq_id (bean_value seq_bean) (bean_value seq_closed_bean))
                 uuid target, AXIS2_SUCCESS)
        })
   }"

text \<open>\<open>sandesha2_ack_mgr_generate_ack_msg\<close>\<close>

definition ack_destination :: "rm_msg \<Rightarrow> cstr \<Rightarrow> cstr option proc" where
  "ack_destination ref_msg seq_id =
     (case rm_reply_to ref_msg of
        Some address \<Rightarrow> ret (Some address)
      | None \<Rightarrow> do {
          acks_to_bean \<leftarrow> seq_prop_retrieve seq_id (Some SEQ_PROP_ACKS_TO_EPR);
          ret (map_option sp_value acks_to_bean)
        })"

definition ref_params_of :: "seq_property_bean option \<Rightarrow> string list" where
  "ref_params_of ref_param_bean =
     (case bean_value ref_param_bean of
        None \<Rightarrow> []
      | Some s \<Rightarrow> get_node_list_from_string (\<lambda>t. t) s)"

definition ack_ref_params :: "cstr option \<Rightarrow> cstr \<Rightarrow> string list proc" where
  "ack_ref_params to seq_id = do {
     ref_param_bean \<leftarrow> seq_prop_retrieve seq_id (Some SEQ_PROP_ACKS_TO_REF_PARAM);
     (if is_null to \<and> ref_params_of ref_param_bean \<noteq> [] then undefined_behaviour else ret ());
     ret (ref_params_of ref_param_bean)
   }"

definition generate_ack_msg :: "rm_msg \<Rightarrow> cstr \<Rightarrow> out_msg option proc" where
  "generate_ack_msg ref_msg seq_id =
     (if is_null seq_id then ret None
      else do {
        to \<leftarrow> ack_destination ref_msg seq_id;
        uuid \<leftarrow> uuid_gen;
        ref_params \<leftarrow> ack_ref_params to seq_id;
        r \<leftarrow> add_ack_msg ref_msg
               ((new_out_msg MSG_TYPE_ACK)
                  \<lparr>om_msg_id := Some uuid, om_to := to, om_ref_params := ref_params,
                   om_transport_url := rm_transport_url ref_msg\<rparr>) seq_id;
        emit Set_Response_Written;
        ret (Some (fst r))
      })"

section \<open>Completed messages\<close>

definition get_client_completed_msgs_list ::
  "cstr \<Rightarrow> (sandesha2_error + string list option) proc" where
  "get_client_completed_msgs_list rms_seq_id = do {
     internal_seq_bean \<leftarrow> seq_prop_retrieve rms_seq_id (Some SEQ_PROP_OUTGOING_INTERNAL_SEQUENCE_ID);
     let internal_seq_id = (case internal_seq_bean of None \<Rightarrow> None | Some b \<Rightarrow> sp_value b);
     first_bean \<leftarrow> (if is_null internal_seq_id then ret None
                    else seq_prop_retrieve internal_seq_id (Some SEQ_PROP_CLIENT_COMPLETED_MESSAGES));
     completed_msgs_bean \<leftarrow> (case first_bean of
         Some b \<Rightarrow> ret (Some b)
       | None \<Rightarrow> seq_prop_retrieve rms_seq_id (Some SEQ_PROP_CLIENT_COMPLETED_MESSAGES));
     (case completed_msgs_bean of
        Some b \<Rightarrow> ret (Inr (get_array_list_from_string (sp_value b)))
      | None \<Rightarrow> ret (Inl ERROR_COMPLETED_MSGS_BEAN_IS_NULL))
   }"

definition get_svr_completed_msgs_list ::
  "cstr \<Rightarrow> (sandesha2_error + string list option) proc" where
  "get_svr_completed_msgs_list rmd_seq_id = do {
     completed_msgs_bean \<leftarrow> seq_prop_retrieve rmd_seq_id (Some SEQ_PROP_SERVER_COMPLETED_MESSAGES);
     (case completed_msgs_bean of
        Some b \<Rightarrow> ret (Inr (get_array_list_from_string (sp_value b)))
      | None \<Rightarrow> ret (Inl ERROR_COMPLETED_MSGS_BEAN_IS_NULL))
   }"

section \<open>Completion of a sequence\<close>

text \<open>
  \<open>sandesha2_ack_mgr_verify_seq_completion\<close>: the ranges hashed by their printed lower bound
  (a later one replaces an earlier one), and the walk from range to range.  The walk need
  not end, so it is a partial function.
\<close>

definition range_hash :: "ack_range list \<Rightarrow> (string \<rightharpoonup> ack_range)" where
  "range_hash ack_ranges = foldl (\<lambda>h r. h(sprintf_ld (ar_lower r) \<mapsto> r)) Map.empty ack_ranges"

partial_function (option) verify_loop ::
  "(string \<rightharpoonup> ack_range) \<Rightarrow> int \<Rightarrow> int \<Rightarrow> bool option" where
  "verify_loop hash last_msg_no start =
     (case hash (sprintf_ld start) of
        None \<Rightarrow> Some False
      | Some r \<Rightarrow>
          if ar_upper r \<ge> last_msg_no then Some True
          else verify_loop hash last_msg_no (ar_upper r + 1))"

definition verify_seq_completion :: "ack_range list option \<Rightarrow> int \<Rightarrow> bool option" where
  "verify_seq_completion ack_ranges last_msg_no =
     (case ack_ranges of
        None \<Rightarrow> Some False
      | Some rs \<Rightarrow> verify_loop (range_hash rs) last_msg_no 1)"

section \<open>Piggybacking\<close>

text \<open>
  The loop over the waiting acknowledgements.  One that is not due yet falls through to the
  loop that frees the rest of the list and is then freed a second time.
\<close>

fun piggyback_loop :: "cstr \<Rightarrow> sender_bean list \<Rightarrow> out_msg \<Rightarrow> out_msg proc" where
  "piggyback_loop to_str [] target = ret target"
| "piggyback_loop to_str (b # bs) target = do {
     timenow \<leftarrow> current_time_in_millis;
     if sb_time_to_send b \<le> timenow then do {
       ack_msg_ctx \<leftarrow> retrieve_stored_msg (sb_msg_ctx_ref_key b);
       (case ack_msg_ctx of
          None \<Rightarrow> piggyback_loop to_str bs target
        | Some ctx \<Rightarrow>
          (case mc_to ctx of
             None \<Rightarrow> piggyback_loop to_str bs target
           | Some to \<Rightarrow>
             if is_null to \<or> to \<noteq> to_str then piggyback_loop to_str bs target
             else do {
               sender_remove (sb_msg_id b);
               remove_msg_ctx (sb_msg_ctx_ref_key b);
               stored \<leftarrow> asks (\<lambda>w. cf_stored (w_conf w) ctx);
               if fst stored \<noteq> MSG_TYPE_ACK then piggyback_loop to_str bs target
               else ret (target\<lparr>om_seq_ack := snd stored\<rparr>)
             }))
     } else do { undefined_behaviour; ret target }
   }"

definition piggyback_acks_if_present :: "cstr \<Rightarrow> out_msg \<Rightarrow> out_msg proc" where
  "piggyback_acks_if_present outgoing_sequence_id target = do {
     let find_bean = sender_bean_create\<lparr>sb_msg_type := MSG_TYPE_ACK,
           sb_seq_id := outgoing_sequence_id, sb_send := True, sb_resend := False\<rparr>;
     let to_str = (case om_to target of None \<Rightarrow> None | Some a \<Rightarrow> a);
     found_list \<leftarrow> sender_find (Some find_bean);
     piggyback_loop to_str (list_elems found_list) target
   }"

section \<open>When the walk over the ranges ends, and what it decides\<close>

lemma range_hash_snoc:
  "range_hash (rs @ [r]) = (range_hash rs)(sprintf_ld (ar_lower r) \<mapsto> r)"
  by (simp add: range_hash_def)

lemma range_hash_Some:
  "range_hash rs (sprintf_ld k) = Some r \<Longrightarrow> r \<in> set rs \<and> ar_lower r = k"
proof (induction rs rule: rev_induct)
  case (snoc x rs)
  then show ?case by (auto simp: range_hash_snoc sprintf_ld_inject split: if_splits)
qed (simp add: range_hash_def)

lemma range_hash_None: "range_hash rs (sprintf_ld k) = None \<longleftrightarrow> (\<forall>r \<in> set rs. ar_lower r \<noteq> k)"
proof (induction rs rule: rev_induct)
  case (snoc x rs)
  then show ?case by (auto simp: range_hash_snoc sprintf_ld_inject)
qed (simp add: range_hash_def)

definition proper_ranges :: "ack_range list \<Rightarrow> bool" where
  "proper_ranges rs \<longleftrightarrow> (\<forall>r \<in> set rs. ar_lower r \<le> ar_upper r)"

lemma verify_loop_returns:
  assumes "proper_ranges rs"
  shows "\<exists>b. verify_loop (range_hash rs) n start = Some b"
proof -
  obtain m where m: "\<forall>r \<in> set rs. ar_upper r \<le> m"
    using finite_imageI[of "set rs" ar_upper] by (meson List.finite_set bdd_above_finite bdd_above_def image_eqI)
  show ?thesis
  proof (induction "nat (m + 1 - start)" arbitrary: start rule: less_induct)
    case less
    show ?case
    proof (cases "range_hash rs (sprintf_ld start)")
      case None
      then show ?thesis by (subst verify_loop.simps) auto
    next
      case (Some r)
      then have "r \<in> set rs" "ar_lower r = start" using range_hash_Some by blast+
      then have "start \<le> ar_upper r" "ar_upper r \<le> m" using assms m by (auto simp: proper_ranges_def)
      then have "\<exists>b. verify_loop (range_hash rs) n (ar_upper r + 1) = Some b" by (intro less) simp
      then show ?thesis using Some by (subst verify_loop.simps) auto
    qed
  qed
qed

definition disjoint_ranges :: "ack_range list \<Rightarrow> bool" where
  "disjoint_ranges rs \<longleftrightarrow> (\<forall>a \<in> set rs. \<forall>b \<in> set rs. a \<noteq> b \<longrightarrow> range_set a \<inter> range_set b = {})"

lemma separated_disjoint: "separated rs \<Longrightarrow> proper_ranges rs \<and> disjoint_ranges rs"
proof (induction rs)
  case (Cons a rs)
  then have IH: "proper_ranges rs" "disjoint_ranges rs"
    and gap: "\<forall>b \<in> set rs. ar_upper a + 1 < ar_lower b" and le: "ar_lower a \<le> ar_upper a"
    by (simp_all add: separated_def)
  have "range_set a \<inter> range_set b = {}" if "b \<in> set rs" for b
    using gap that by (auto simp: range_set_def)
  then have "disjoint_ranges (a # rs)"
    using IH(2) by (simp add: disjoint_ranges_def Int_commute)
  then show ?case using IH(1) le by (simp add: proper_ranges_def)
qed (simp add: proper_ranges_def disjoint_ranges_def)

text \<open>Each start of the walk is the lowest number not yet known to be acknowledged.\<close>

lemma verify_loop_decides:
  assumes "proper_ranges rs" "disjoint_ranges rs" "start \<le> n"
    and "\<And>r. r \<in> set rs \<Longrightarrow> start \<in> range_set r \<Longrightarrow> ar_lower r = start"
  shows "verify_loop (range_hash rs) n start = Some ({start..n} \<subseteq> acked_set rs)"
  using assms(3,4)
proof (induction "nat (n - start)" arbitrary: start rule: less_induct)
  case less
  show ?case
  proof (cases "range_hash rs (sprintf_ld start)")
    case None
    then have "start \<notin> acked_set rs" using less.prems(2) by (auto simp: acked_set_def range_hash_None)
    then show ?thesis using None less.prems(1) by (subst verify_loop.simps) auto
  next
    case (Some r)
    then have r: "r \<in> set rs" "ar_lower r = start" using range_hash_Some by blast+
    then have up: "start \<le> ar_upper r" using assms(1) by (auto simp: proper_ranges_def)
    have cov: "{start..ar_upper r} \<subseteq> acked_set rs"
      using r by (auto simp: acked_set_def range_set_def intro!: bexI[of _ r])
    show ?thesis
    proof (cases "n \<le> ar_upper r")
      case True
      then have "{start..n} \<subseteq> acked_set rs" using cov by (meson atLeastatMost_subset_iff dual_order.trans order_refl)
      then show ?thesis using Some True by (subst verify_loop.simps) simp
    next
      case False
      have fresh: "ar_lower q = ar_upper r + 1"
        if "q \<in> set rs" "ar_upper r + 1 \<in> range_set q" for q
      proof (rule ccontr)
        assume "ar_lower q \<noteq> ar_upper r + 1"
        then have "ar_upper r \<in> range_set q \<inter> range_set r"
          using that(2) up r(2) by (auto simp: range_set_def)
        then have "q = r" using assms(2) that(1) r(1) unfolding disjoint_ranges_def by blast
        then show False using that(2) by (simp add: range_set_def)
      qed
      have "{start..n} = {start..ar_upper r} \<union> {ar_upper r + 1..n}" using up False by auto
      then have "{start..n} \<subseteq> acked_set rs \<longleftrightarrow> {ar_upper r + 1..n} \<subseteq> acked_set rs" using cov by simp
      moreover have "verify_loop (range_hash rs) n (ar_upper r + 1)
          = Some ({ar_upper r + 1..n} \<subseteq> acked_set rs)"
        using False up fresh by (intro less.hyps) auto
      ultimately show ?thesis using Some False by (subst verify_loop.simps) simp
    qed
  qed
qed

text \<open>C25: on ranges that do not overlap, are not inverted and start
  at 1 or later, the walk of \<open>sandesha2_ack_mgr_verify_seq_completion\<close> returns, and it returns
  true exactly when every message number from 1 to the last one is acknowledged.\<close>

theorem verify_seq_completion_decides:
  assumes "\<forall>r \<in> set rs. 1 \<le> ar_lower r \<and> ar_lower r \<le> ar_upper r" "disjoint_ranges rs" "1 \<le> n"
  shows "verify_seq_completion (Some rs) n = Some ({1..n} \<subseteq> acked_set rs)"
  unfolding verify_seq_completion_def option.case
  using assms by (intro verify_loop_decides) (auto simp: proper_ranges_def range_set_def)

theorem verify_seq_completion_decides_witness:
  "verify_seq_completion (Some [\<lparr>ar_lower = 4, ar_upper = 5, ar_ns = None\<rparr>,
                                \<lparr>ar_lower = 1, ar_upper = 3, ar_ns = None\<rparr>]) 5
   = Some ({1..5} \<subseteq> acked_set [\<lparr>ar_lower = 4, ar_upper = 5, ar_ns = None\<rparr>,
                                \<lparr>ar_lower = 1, ar_upper = 3, ar_ns = None\<rparr>])"
  by (rule verify_seq_completion_decides) (auto simp: disjoint_ranges_def range_set_def)

text \<open>C26: on an inverted range that starts at 1 and ends at 0 the
  walk never ends, whatever the last message number from 1 on: the bounds of a range of a
  received acknowledgement are not checked before.\<close>

theorem verify_seq_completion_may_hang:
  "1 \<le> n \<Longrightarrow> verify_seq_completion (Some [\<lparr>ar_lower = 1, ar_upper = 0, ar_ns = ns\<rparr>]) n = None"
proof -
  assume n: "1 \<le> n"
  let ?h = "range_hash [\<lparr>ar_lower = 1, ar_upper = 0, ar_ns = ns\<rparr>]"
  have "\<not> (?h = ?h \<and> n = n \<and> 1 = (1::int))" if "verify_loop ?h n 1 = Some y" for y
  proof (rule verify_loop.raw_induct
      [where P = "\<lambda>hash m start y. \<not> (hash = ?h \<and> m = n \<and> start = 1)", OF _ that])
    fix vl :: "(string \<Rightarrow> ack_range option) \<Rightarrow> int \<Rightarrow> int \<Rightarrow> bool option"
      and hash :: "string \<Rightarrow> ack_range option" and m start :: int and y
    assume IH: "\<And>hash m start y. vl hash m start = Some y \<Longrightarrow> \<not> (hash = ?h \<and> m = n \<and> start = 1)"
      and step: "(case hash (sprintf_ld start) of None \<Rightarrow> Some False
        | Some r \<Rightarrow> if m \<le> ar_upper r then Some True else vl hash m (ar_upper r + 1)) = Some y"
    show "\<not> (hash = ?h \<and> m = n \<and> start = 1)"
    proof
      assume a: "hash = ?h \<and> m = n \<and> start = 1"
      then have "vl ?h n 1 = Some y" using step n by (simp add: range_hash_def)
      then show False using IH[of ?h n 1 y] by simp
    qed
  qed
  then have "verify_loop ?h n 1 = None" by (cases "verify_loop ?h n 1") auto
  then show ?thesis by (simp add: verify_seq_completion_def)
qed

theorem verify_seq_completion_may_hang_witness:
  "verify_seq_completion (Some [\<lparr>ar_lower = 1, ar_upper = 0, ar_ns = None\<rparr>]) 7 = None"
  by (rule verify_seq_completion_may_hang) simp

section \<open>What an acknowledgement says\<close>

lemma prop_value_bean: "prop_value w s n = bean_value (seq_property_look (w_seq_prop w) (prop_id s n))"
  by (simp add: prop_value_def bean_value_def)

lemma run_add_ack_msg:
  assumes "ready w" "rm_has_svc m" "cf_property_bean (w_conf w) = Some pb"
    and "pb_spec_version pb = Some ver" "prop_value w s SEQ_PROP_SERVER_COMPLETED_MESSAGES = Some l"
  shows "run_state (add_ack_msg m g (Some s)) w
     = ((with_ack ver (ack_part ver (Some s) (Some l) (prop_value w s SEQ_PROP_SEQ_CLOSED))
           (w_uuids w (w_tick w + 2)) g, AXIS2_SUCCESS), w\<lparr>w_tick := w_tick w + 3\<rparr>)"
  using assms(1-4) assms(5)[unfolded prop_value_bean]
  by (simp add: add_ack_msg_def exec_simps prop_value_bean is_null_def tick_def)

lemma run_ack_ref_params:
  assumes "ready w"
  shows "run_state (ack_ref_params (Some a) (Some s)) w
     = (ref_params_of (seq_property_look (w_seq_prop w) (prop_id s SEQ_PROP_ACKS_TO_REF_PARAM)), tick w)"
  using assms by (simp add: ack_ref_params_def exec_simps is_null_def)

lemma prop_value_tick [simp]:
  "prop_value (tick w) s n = prop_value w s n" "prop_value (w\<lparr>w_tick := k\<rparr>) s n = prop_value w s n"
  by (simp_all add: prop_value_def)

text \<open>C10: the acknowledgement that is generated for a sequence
  whose list of received messages is stored names that sequence, and its ranges, which are
  increasing and leave gaps between each other, acknowledge exactly the received message
  numbers from 1 on; it is marked final exactly when the sequence is closed and the version of
  the protocol has the mark.  It goes to the reply address where there is one, and nothing
  is stored.\<close>

theorem generate_ack_acknowledges_received:
  assumes "ready w" "rm_has_svc m" "cf_property_bean (w_conf w) = Some pb"
    and "pb_spec_version pb = Some ver" "prop_value w s SEQ_PROP_SERVER_COMPLETED_MESSAGES = Some l"
    and "rm_reply_to m = Some a"
  shows "\<exists>g p rs w'. run_state (generate_ack_msg m (Some s)) w = (Some g, w')
     \<and> om_to g = Some a \<and> om_seq_ack g = Some p \<and> sk_identifier p = Some s
     \<and> sk_ranges p = Some rs \<and> separated rs \<and> acked_set rs = {n \<in> set (msg_nos_of l). 1 \<le> n}
     \<and> (sk_final p \<longleftrightarrow> prop_value w s SEQ_PROP_SEQ_CLOSED = Some AXIS2_VALUE_TRUE
                      \<and> is_ack_final_allowed (Some ver) = Inr True)
     \<and> w_seq_prop w' = w_seq_prop w \<and> w_sender w' = w_sender w \<and> w_ub w' = w_ub w"
proof -
  let ?ps = "ref_params_of (seq_property_look (w_seq_prop w) (prop_id s SEQ_PROP_ACKS_TO_REF_PARAM))"
  let ?p = "ack_part ver (Some s) (Some l) (prop_value w s SEQ_PROP_SEQ_CLOSED)"
  let ?g = "(new_out_msg MSG_TYPE_ACK)\<lparr>om_msg_id := Some (w_uuids w (w_tick w)), om_to := Some a,
      om_ref_params := ?ps, om_transport_url := rm_transport_url m\<rparr>"
  have "run_state (add_ack_msg m ?g (Some s)) (tick (tick w))
      = ((with_ack ver ?p (w_uuids w (Suc (Suc (Suc (Suc (w_tick w)))))) ?g, AXIS2_SUCCESS), w\<lparr>w_tick := w_tick w + 5\<rparr>)"
    using assms(1-5) run_add_ack_msg[of "tick (tick w)" m pb ver s l ?g] by (simp add: tick_def)
  then have "run_state (generate_ack_msg m (Some s)) w
      = (Some (with_ack ver ?p (w_uuids w (Suc (Suc (Suc (Suc (w_tick w)))))) ?g),
         w\<lparr>w_tick := w_tick w + 5, w_trace := w_trace w @ [Set_Response_Written]\<rparr>)"
    using assms(1,6)
    by (simp add: generate_ack_msg_def is_null_def ack_destination_def run_ack_ref_params exec_simps)
  moreover have "om_to (with_ack ver ?p u ?g) = Some a" "om_seq_ack (with_ack ver ?p u ?g) = Some ?p" for u
    by (simp_all add: with_ack_def)
  moreover have "sk_identifier ?p = Some s"
    "sk_ranges ?p = Some (get_ack_range_list l (get_rm_ns_val (Some ver)))"
    by (simp_all add: ack_part_def Let_def)
  moreover have "sk_final ?p \<longleftrightarrow> prop_value w s SEQ_PROP_SEQ_CLOSED = Some AXIS2_VALUE_TRUE
      \<and> is_ack_final_allowed (Some ver) = Inr True"
    by (cases "is_ack_final_allowed (Some ver)") (simp_all add: ack_part_def Let_def or_default_def)
  ultimately show ?thesis
    by (simp add: get_ack_range_list_separated get_ack_range_list_acked)
qed

definition acked_world :: world where
  "acked_world = idle_world\<lparr>w_seq_prop :=
     [seq_property_row_of (mk_prop ''s'' SEQ_PROP_SERVER_COMPLETED_MESSAGES ''1,2,4'')]\<rparr>"

lemma acked_world_facts:
  "ready acked_world" "cf_property_bean (w_conf acked_world) = cf_property_bean sample_conf"
  "prop_value acked_world ''s'' SEQ_PROP_SERVER_COMPLETED_MESSAGES = Some ''1,2,4''"
  using look_after(1)[of "[]" "mk_prop ''s'' SEQ_PROP_SERVER_COMPLETED_MESSAGES ''1,2,4''"]
  by (simp_all add: acked_world_def prop_value_def) (simp add: mk_prop_def)

theorem generate_ack_acknowledges_received_witness:
  "\<exists>g p rs w'. run_state (generate_ack_msg sample_msg (Some ''s'')) acked_world = (Some g, w')
     \<and> om_seq_ack g = Some p \<and> sk_ranges p = Some rs
     \<and> acked_set rs = {n \<in> set (msg_nos_of ''1,2,4''). 1 \<le> n}"
  using generate_ack_acknowledges_received[of acked_world sample_msg
      "the (cf_property_bean sample_conf)" SPEC_VERSION_1_0 "''s''" "''1,2,4''" "Some ''http://client''"]
    acked_world_facts by (auto simp: sample_msg_def sample_conf_def)

section \<open>What piggybacking takes away\<close>

definition waiting_ack :: "cstr \<Rightarrow> sender_row \<Rightarrow> bool" where
  "waiting_ack seq_id r \<longleftrightarrow> opt_text_cond seq_id (sr_seq_id r)
     \<and> sr_msg_type r = msg_type_code MSG_TYPE_ACK \<and> sr_send r"

lemma piggyback_find_cond:
  "sender_find_cond (Some (sender_bean_create\<lparr>sb_msg_type := MSG_TYPE_ACK, sb_seq_id := s,
     sb_send := True, sb_resend := False\<rparr>)) = waiting_ack s"
  by (auto simp: fun_eq_iff sender_find_cond_def waiting_ack_def sender_bean_create_def opt_text_cond_def)

text \<open>The state in the middle of the loop, relative to the sender table \<open>t\<close> it started from.\<close>

definition only_lost :: "(sender_row \<Rightarrow> bool) \<Rightarrow> world \<Rightarrow> world \<Rightarrow> bool" where
  "only_lost p w v \<longleftrightarrow> ready v \<and> set (w_sender v) \<subseteq> set (w_sender w)
     \<and> (\<forall>r \<in> set (w_sender w). \<not> p r \<longrightarrow> r \<in> set (w_sender v))
     \<and> w_seq_prop v = w_seq_prop w \<and> w_next_msg v = w_next_msg w
     \<and> w_create_seq v = w_create_seq w \<and> w_trace v = w_trace w"

lemma only_lost_self: "ready w \<Longrightarrow> only_lost p w w"
  by (simp add: only_lost_def)

lemma only_lost_keep [simp]:
  "only_lost p w (tick v) = only_lost p w v" "only_lost p w (v\<lparr>w_msg := m\<rparr>) = only_lost p w v"
  "only_lost p w (v\<lparr>w_ub := b\<rparr>) = only_lost p w v"
  by (simp_all add: only_lost_def)

lemma only_lost_remove:
  assumes "only_lost p w v" "sender_ok (w_sender w)" "r0 \<in> set (w_sender w)" "p r0"
  shows "only_lost p w (v\<lparr>w_sender := row_del sr_msg_id (sr_msg_id r0) (w_sender v)\<rparr>)"
proof -
  have "sr_msg_id r \<noteq> sr_msg_id r0" if "r \<in> set (w_sender w)" "\<not> p r" for r
    using that assms(2-4) unfolding pk_ok_def distinct_map by (metis inj_onD)
  then show ?thesis using assms(1) by (auto simp: only_lost_def)
qed

lemma piggyback_loop_only_lost:
  assumes "set rs \<subseteq> {r \<in> set (w_sender w). p r}" "sender_ok (w_sender w)" "only_lost p w v"
  shows "only_lost p w (snd (run_state (piggyback_loop to (map sender_dec rs) g) v))"
  using assms(1,3)
proof (induction rs arbitrary: v)
  case (Cons r rs)
  note IH = Cons.IH
  have rv: "ready v" using Cons.prems(2) by (simp add: only_lost_def)
  have removed: "only_lost p w (tick (tick v)\<lparr>w_sender := row_del sr_msg_id (sr_msg_id r) (w_sender v)\<rparr>)"
    using only_lost_remove[of p w "tick (tick v)" r] Cons.prems assms(2) by simp
  show ?case
  proof (cases "sr_time_to_send r \<le> w_clock v (w_tick v)")
    case False
    then show ?thesis using Cons.prems by (simp add: exec_simps)
  next
    case True
    obtain stored v' where st: "run_state (retrieve_stored_msg (Some (sr_msg_ctx_ref_key r))) (tick v) = (stored, v')"
      by (cases "run_state (retrieve_stored_msg (Some (sr_msg_ctx_ref_key r))) (tick v)")
    then have v': "v' = tick (tick v)" using retrieve_stored_msg_state by (metis snd_conv)
    have rest: "only_lost p w (snd (run_state (piggyback_loop to (map sender_dec rs) g) u))"
      if "only_lost p w u" for u
      using that Cons.prems(1) by (intro IH) auto
    show ?thesis
      using True st v' rv Cons.prems rest removed
      by (auto simp: exec_simps split: option.splits)
  qed
qed simp

text \<open>C36: piggybacking on a message of a sequence removes from the sender
  table nothing but acknowledgements of that sequence that wait to be sent, adds nothing,
  and leaves sequence properties, next-message and create-sequence beans alone.\<close>

theorem piggyback_only_takes_acks:
  assumes "ready w" "sender_ok (w_sender w)"
  shows "only_lost (waiting_ack s) w (snd (run_state (piggyback_acks_if_present s g) w))"
proof -
  let ?rs = "filter (waiting_ack s) (w_sender w)"
  have "only_lost (waiting_ack s) w (snd (run_state (piggyback_loop to (map sender_dec ?rs) g) (tick w)))"
    for to
    using assms by (intro piggyback_loop_only_lost) (auto simp: only_lost_self)
  moreover have "list_elems (fst (run_state (sender_find (Some (sender_bean_create
      \<lparr>sb_msg_type := MSG_TYPE_ACK, sb_seq_id := s, sb_send := True, sb_resend := False\<rparr>))) w))
      = map sender_dec ?rs"
    using assms(1) by (simp add: exec_simps piggyback_find_cond sender_beans_def Let_def)
  ultimately show ?thesis using assms(1)
    by (simp add: piggyback_acks_if_present_def exec_simps piggyback_find_cond Let_def sender_beans_def
        split: prod.splits)
qed

definition ack_row :: sender_row where
  "ack_row = sender_row_of (sender_bean_create\<lparr>sb_msg_ctx_ref_key := Some ''k'',
     sb_msg_id := Some ''ack-1'', sb_seq_id := Some ''s'', sb_msg_type := MSG_TYPE_ACK,
     sb_send := True, sb_time_to_send := 900\<rparr>)"

theorem piggyback_only_takes_acks_witness:
  "only_lost (waiting_ack (Some ''s'')) (idle_world\<lparr>w_sender := [ack_row]\<rparr>)
     (snd (run_state (piggyback_acks_if_present (Some ''s'') (new_out_msg MSG_TYPE_TERMINATE_SEQ))
        (idle_world\<lparr>w_sender := [ack_row]\<rparr>)))"
  by (rule piggyback_only_takes_acks) (simp_all add: pk_ok_def)

end
