(* ===== verification/Prop_Values.thy ===== *)
theory Prop_Values
  imports Ack_Mgr
begin

text \<open>
  The sequence properties as a function of sequence id and name, and what the writes of the
  table do to it: the view in which the handlers' effects on the properties are stated.
\<close>

lemma mk_prop_fields [simp]:
  "sp_seq_id (mk_prop s n v) = Some s" "sp_name (mk_prop s n v) = Some n"
  "sp_value (mk_prop s n v) = Some v"
  by (simp_all add: mk_prop_def)

lemma mk_prop_create [simp]:
  "seq_property_bean_create\<lparr>sp_seq_id := Some s, sp_name := Some n, sp_value := Some v\<rparr> = mk_prop s n v"
  by (simp add: mk_prop_def seq_property_bean_create_def)

lemma seq_property_dec_mk: "seq_property_dec r = mk_prop (pr_seq_id r) (pr_name r) (pr_value r)"
  by (simp add: seq_property_dec_def seq_property_fill_def seq_property_bean_create_def mk_prop_def)

text \<open>The values of the properties in a table, by sequence id and name.\<close>

definition pvals :: "seq_property_table \<Rightarrow> string \<Rightarrow> string \<Rightarrow> cstr" where
  "pvals t s n = bean_value (seq_property_look t (prop_id s n))"

lemma prop_value_pvals: "prop_value w = pvals (w_seq_prop w)"
  by (simp add: fun_eq_iff prop_value_bean pvals_def)

lemma pvals_simps [look_simps]:
  assumes "colon_free n" "colon_free n'"
  shows "pvals (t @ [seq_property_row_of (mk_prop s' n' v)]) s n
           = (if s = s' \<and> n = n' then Some v else pvals t s n)"
    and "pvals (prop_del (prop_id s' n') t) s n = (if s = s' \<and> n = n' then None else pvals t s n)"
  using assms by (auto simp: pvals_def look_after prop_id_inject bean_value_def)

lemma pvals_Cons:
  assumes "props_ok (t @ [r])" "colon_free n"
  shows "pvals (t @ [r]) s n = (if pr_seq_id r = s \<and> pr_name r = n then Some (pr_value r) else pvals t s n)"
proof -
  have r: "pr_id r = prop_id (pr_seq_id r) (pr_name r)" "colon_free (pr_name r)"
    using assms(1) by (simp_all add: props_ok_def)
  then have "pr_id r = prop_id s n \<longleftrightarrow> pr_seq_id r = s \<and> pr_name r = n"
    using assms(2) prop_id_inject by metis
  then show ?thesis
    by (auto simp: pvals_def seq_property_look_def bean_value_def seq_property_dec_mk)
qed

lemma pvals_prop_upd:
  "colon_free n \<Longrightarrow> colon_free n' \<Longrightarrow> (s, n) \<noteq> (s', n') \<Longrightarrow>
   pvals (prop_upd (mk_prop s' n' v) t) s n = pvals t s n"
  by (auto simp: pvals_def look_after prop_id_inject)

lemma pvals_prop_put [look_simps]:
  "colon_free n \<Longrightarrow> colon_free n' \<Longrightarrow>
   pvals (prop_put s' n' v t) s n = (if s = s' \<and> n = n' then Some v else pvals t s n)"
  by (auto simp: pvals_def look_prop_put prop_id_inject bean_value_def)

text \<open>
  A bean without a sequence id gets the empty key: \<open>axutil_strcat\<close> stops at the null pointer.  Such a
  row is never found by a key, so what is read is still a bean of the key asked for.
\<close>

definition props_wf :: "seq_property_table \<Rightarrow> bool" where
  "props_wf t \<longleftrightarrow> (\<forall>r \<in> set t. colon_free (pr_name r)
     \<and> (pr_id r = [] \<or> pr_id r = prop_id (pr_seq_id r) (pr_name r)))"

lemma props_ok_wf [simp]: "props_ok t \<Longrightarrow> props_wf t"
  by (simp add: props_ok_def props_wf_def)

lemma prop_id_not_Nil [simp]: "prop_id s n \<noteq> []" "[] \<noteq> prop_id s n"
  by (simp_all add: prop_id_def)

lemma null_id_bean: "sp_seq_id b = None \<Longrightarrow> get_id_with_bean b = []"
  by (simp add: get_id_with_bean_def axutil_strcat_def is_null_def)

lemma props_wf_look:
  assumes "props_wf t" "colon_free n" "seq_property_look t (prop_id s n) = Some b"
  shows "\<exists>v. b = mk_prop s n v"
proof -
  obtain r where r: "find (\<lambda>r. pr_id r = prop_id s n) (rev t) = Some r" "b = seq_property_dec r"
    using assms(3) by (auto simp: seq_property_look_def)
  then have "r \<in> set t" "pr_id r = prop_id s n"
    by (auto dest: find_SomeD)
  then have "pr_seq_id r = s \<and> pr_name r = n"
    using assms(1,2) prop_id_inject prop_id_not_Nil unfolding props_wf_def by metis
  then show ?thesis using r(2) by (intro exI[of _ "pr_value r"]) (simp add: seq_property_dec_mk)
qed

lemma pvals_look_Some:
  assumes "props_wf t" "colon_free n"
  shows "seq_property_look t (prop_id s n) = (case pvals t s n of None \<Rightarrow> None | Some v \<Rightarrow> Some (mk_prop s n v))"
proof (cases "seq_property_look t (prop_id s n)")
  case None
  then show ?thesis by (simp add: pvals_def bean_value_def)
next
  case (Some b)
  then obtain v where "b = mk_prop s n v" using props_wf_look assms by blast
  then show ?thesis using Some by (simp add: pvals_def bean_value_def)
qed

lemma pvals_upd:
  assumes "props_wf t" "colon_free n" "colon_free n'"
  shows "pvals (prop_upd (mk_prop s' n' v) t) s n
     = (if s = s' \<and> n = n' then (if pvals t s' n' = None then None else Some v) else pvals t s n)"
proof (cases "seq_property_look t (prop_id s' n')")
  case None
  then show ?thesis using assms(2,3) by (simp add: pvals_def look_after prop_id_inject bean_value_def)
next
  case (Some b)
  then obtain u where "b = mk_prop s' n' u" using props_wf_look assms(1,3) by blast
  then show ?thesis using Some assms(2,3)
    by (simp add: pvals_def look_after prop_id_inject bean_value_def)
qed

section \<open>Writes under a database that answers\<close>

lemma row_prop_bean [simp]:
  "seq_property_row_of (prop_bean (Some s) n v) = seq_property_row_of (mk_prop s n (sprintf_s v))"
  by (cases v) (simp_all add: seq_property_row_of_def get_id_with_bean_eq mk_prop_def
      seq_property_bean_create_with_data_def sprintf_s_def)

lemma prop_upd_prop_bean [simp]:
  "prop_upd (prop_bean (Some s) n v) t = prop_upd (mk_prop s n (sprintf_s v)) t"
  by (simp add: prop_upd_def)

text \<open>A write that inserts, or updates where the caller believes there is a row.\<close>

lemma run_insert_or_update:
  assumes "ready w" "props_ok (w_seq_prop w)" "colon_free n"
  shows "\<exists>t. run_state (insert_or_update added (prop_bean (Some s) n v)) w
       = (True, tick (w\<lparr>w_seq_prop := t\<rparr>)) \<and> props_ok t
     \<and> (\<forall>q m. colon_free m \<longrightarrow> pvals t q m
          = (if q = s \<and> m = n \<and> (added \<or> pvals (w_seq_prop w) s n \<noteq> None) then Some (sprintf_s v)
             else pvals (w_seq_prop w) q m))"
proof (cases added)
  case True
  then show ?thesis using assms
    by (intro exI[of _ "w_seq_prop w @ [seq_property_row_of (mk_prop s n (sprintf_s v))]"])
       (auto simp: insert_or_update_def exec_simps pvals_simps)
next
  case False
  then show ?thesis using assms
    by (intro exI[of _ "prop_upd (mk_prop s n (sprintf_s v)) (w_seq_prop w)"])
       (auto simp: insert_or_update_def exec_simps pvals_upd)
qed

text \<open>A lookup of a value.\<close>

lemma run_get_value:
  "ready w \<Longrightarrow> run_state (get_seq_property (Some s) (Some n)) w = (pvals (w_seq_prop w) s n, tick w)"
  by (simp add: exec_simps pvals_def bean_value_def)

lemma run_retrieve_value:
  assumes "ready w" "props_ok (w_seq_prop w)" "colon_free n"
  shows "run_state (seq_prop_retrieve (Some s) (Some n)) w
     = (map_option (mk_prop s n) (pvals (w_seq_prop w) s n), tick w)"
  using assms by (simp add: exec_simps pvals_look_Some split: option.splits)

lemma is_null_simps: "is_null None" "\<not> is_null (Some x)"
  by (simp_all add: is_null_def)

end
