(* ===== verification/Terminate_Mgr.thy ===== *)
theory Terminate_Mgr
  imports Prop_Values
begin

text \<open>
  \<open>src/util/terminate_mgr.c\<close>: removing what is stored of a sequence on the receiving and on
  the sending side, and sending the TerminateSequence message.
\<close>

section \<open>Which properties go\<close>

definition to_lower :: "char \<Rightarrow> char" where
  "to_lower c = (if 65 \<le> (of_char c :: nat) \<and> (of_char c :: nat) \<le> 90
                 then char_of (of_char c + 32 :: nat) else c)"

text \<open>\<open>axutil_strcasecmp(a, b) == 0\<close>\<close>

definition strcasecmp_eq :: "string \<Rightarrow> string \<Rightarrow> bool" where
  "strcasecmp_eq a b \<longleftrightarrow> map to_lower a = map to_lower b"

definition is_property_deletable :: "string \<Rightarrow> bool" where
  "is_property_deletable name =
     (let deletable = True;
          deletable = (if strcasecmp_eq name SEQ_PROP_TERMINATE_ADDED then False else deletable);
          deletable = (if strcasecmp_eq name SEQ_PROP_NO_OF_OUTGOING_MSGS_ACKED then False else deletable);
          deletable = (if strcasecmp_eq name SEQ_PROP_OUTGOING_INTERNAL_SEQUENCE_ID then False
                       else deletable);
          deletable = (if strcasecmp_eq name SEQ_PROP_SEQ_TERMINATED then False else deletable);
          deletable = (if strcasecmp_eq name SEQ_PROP_SEQ_CLOSED then False else deletable);
          deletable = (if strcasecmp_eq name SEQ_PROP_SEQ_TIMED_OUT then False else deletable)
      in deletable)"

definition carried_over :: "string \<Rightarrow> bool" where
  "carried_over name \<longleftrightarrow> name = SEQ_PROP_CLIENT_COMPLETED_MESSAGES \<or> name = SEQ_PROP_SEQ_TERMINATED
     \<or> name = SEQ_PROP_SEQ_CLOSED \<or> name = SEQ_PROP_SEQ_TIMED_OUT"

definition do_updates_if_needed :: "cstr \<Rightarrow> seq_property_bean \<Rightarrow> status proc" where
  "do_updates_if_needed rms_sequence_id bean =
     (if is_null rms_sequence_id then ret AXIS2_FAILURE
      else (case sp_name bean of
              None \<Rightarrow> ret AXIS2_FAILURE
            | Some name \<Rightarrow> do {
                (if carried_over name then do {
                   seq_prop_insert (seq_property_bean_create
                     \<lparr>sp_seq_id := rms_sequence_id, sp_name := Some name,
                      sp_value := sp_value bean\<rparr>);
                   seq_prop_remove (sp_seq_id bean) (Some name);
                   ret ()
                 } else ret ());
                ret AXIS2_SUCCESS
              }))"

text \<open>The end of both loops over the properties of a sequence.\<close>

definition delete_property :: "seq_property_bean \<Rightarrow> unit proc" where
  "delete_property bean =
     (case sp_name bean of
        None \<Rightarrow> undefined_behaviour
      | Some name \<Rightarrow>
          if is_property_deletable name then do {
            (if name = SEQ_PROP_HIGHEST_IN_MSG_NUMBER then do {
               remove_msg_ctx (sp_value bean);
               ret ()
             } else ret ());
            seq_prop_remove (sp_seq_id bean) (Some name);
            ret ()
          } else ret ())"

section \<open>The sending side\<close>

definition clean_sender_bean :: "sender_bean \<Rightarrow> unit proc" where
  "clean_sender_bean retrans_bean = do {
     sender_remove (sb_msg_id retrans_bean);
     remove_msg_ctx (sb_msg_ctx_ref_key retrans_bean);
     ret ()
   }"

definition clean_create_seq_bean :: "create_seq_bean \<Rightarrow> unit proc" where
  "clean_create_seq_bean create_seq_bean = do {
     (case cs_ref_msg_store_key create_seq_bean of
        None \<Rightarrow> ret ()
      | Some key \<Rightarrow> do { remove_msg_ctx (Some key); ret () });
     create_seq_remove (cs_create_seq_msg_id create_seq_bean);
     ret ()
   }"

definition clean_property :: "cstr \<Rightarrow> seq_property_bean \<Rightarrow> unit proc" where
  "clean_property rms_sequence_id bean = do {
     do_updates_if_needed rms_sequence_id bean;
     delete_property bean
   }"

definition clean_sending_side_data :: "cstr \<Rightarrow> status proc" where
  "clean_sending_side_data internal_sequence_id =
     (if is_null internal_sequence_id then ret AXIS2_FAILURE
      else do {
        rms_sequence_id \<leftarrow> get_seq_property internal_sequence_id (Some SEQ_PROP_OUTGOING_SEQUENCE_ID);
        sender_list \<leftarrow> sender_find_by_internal_seq_id internal_sequence_id;
        for_each clean_sender_bean (list_elems sender_list);
        create_seq_list \<leftarrow> create_seq_find
          (Some (create_seq_bean_create\<lparr>cs_internal_seq_id := internal_sequence_id\<rparr>));
        for_each clean_create_seq_bean (list_elems create_seq_list);
        prop_list \<leftarrow> seq_prop_find
          (Some (seq_property_bean_create\<lparr>sp_seq_id := internal_sequence_id\<rparr>));
        for_each (clean_property rms_sequence_id) (list_elems prop_list);
        ret AXIS2_SUCCESS
      })"

definition terminate_sending_side :: "cstr \<Rightarrow> status proc" where
  "terminate_sending_side internal_sequence_id =
     (if is_null internal_sequence_id then ret AXIS2_FAILURE
      else do {
        seq_prop_insert (seq_property_bean_create_with_data internal_sequence_id
          (Some SEQ_PROP_SEQ_TERMINATED) (Some AXIS2_VALUE_TRUE));
        clean_sending_side_data internal_sequence_id;
        ret AXIS2_SUCCESS
      })"

definition time_out_sending_side_seq :: "cstr \<Rightarrow> status proc" where
  "time_out_sending_side_seq internal_sequence_id =
     (if is_null internal_sequence_id then ret AXIS2_FAILURE
      else do {
        clean_sending_side_data internal_sequence_id;
        seq_prop_insert (seq_property_bean_create_with_data internal_sequence_id
          (Some SEQ_PROP_SEQ_TIMED_OUT) (Some AXIS2_VALUE_TRUE));
        ret AXIS2_SUCCESS
      })"

section \<open>The receiving side\<close>

text \<open>
  Taking a sequence out of the list of all incoming sequences, on the elements numbered by
  their first place.  The first loop frees what it passes, up to the element it removes; the
  second one runs over the rest with \<open>j\<close> and frees the element at the fixed place \<open>i\<close>.
  The result is the list that is printed, and whether an element is freed twice or printed
  after it was freed.
\<close>

definition remove_incoming :: "string \<Rightarrow> string list \<Rightarrow> string list \<times> bool" where
  "remove_incoming seq_id vs =
     (let size = length vs;
          i = length (takeWhile (\<lambda>v. v \<noteq> seq_id) vs);
          rest = take i [0..<size] @ drop (Suc i) [0..<size];
          freed = [0..<i] @ (if i < size then [i] else [])
                  @ concat (map (\<lambda>j. if Suc i < length rest then [rest ! Suc i] else []) [i..<size])
      in (map (\<lambda>k. vs ! k) rest, \<not> distinct freed \<or> list_ex (\<lambda>k. k \<in> set freed) rest))"

definition unlist_incoming_seq :: "string \<Rightarrow> unit proc" where
  "unlist_incoming_seq seq_id = do {
     all_seq_bean \<leftarrow> seq_prop_retrieve (Some SEQ_PROP_ALL_SEQS) (Some SEQ_PROP_INCOMING_SEQ_LIST);
     (case all_seq_bean of
        None \<Rightarrow> ret ()
      | Some b \<Rightarrow>
          (case get_array_list_from_string (sp_value b) of
             None \<Rightarrow> ret ()
           | Some vs \<Rightarrow> do {
               let r = remove_incoming seq_id vs;
               (if snd r then undefined_behaviour else ret ());
               seq_prop_update
                 (b\<lparr>sp_value := array_list_to_string ARRAY_LIST_STRING (Some (fst r))\<rparr>);
               ret ()
             }))
   }"

definition remove_recv_side_properties :: "string \<Rightarrow> status proc" where
  "remove_recv_side_properties seq_id = do {
     unlist_incoming_seq seq_id;
     found_list \<leftarrow> seq_prop_find (Some (seq_property_bean_create\<lparr>sp_seq_id := Some seq_id\<rparr>));
     for_each delete_property (list_elems found_list);
     ret AXIS2_SUCCESS
   }"

definition clean_next_msg_bean :: "next_msg_bean \<Rightarrow> unit proc" where
  "clean_next_msg_bean bean = do {
     (case nm_ref_msg_key bean of
        None \<Rightarrow> ret ()
      | Some key \<Rightarrow> do { remove_msg_ctx (Some key); ret () });
     (case nm_seq_id bean of
        None \<Rightarrow> ret ()
      | Some temp_seq_id \<Rightarrow> do { next_msg_remove (Some temp_seq_id); ret () })
   }"

definition complete_termination_of_recv_side :: "cstr \<Rightarrow> status proc" where
  "complete_termination_of_recv_side seq_id =
     (case seq_id of
        None \<Rightarrow> ret AXIS2_FAILURE
      | Some s \<Rightarrow> do {
          found_list \<leftarrow> next_msg_find (Some (next_msg_bean_create\<lparr>nm_seq_id := Some s\<rparr>));
          for_each clean_next_msg_bean (list_elems found_list);
          highest_in_msg_key \<leftarrow> get_seq_property (Some s) (Some SEQ_PROP_HIGHEST_IN_MSG_KEY);
          (case highest_in_msg_key of
             None \<Rightarrow> ret ()
           | Some key \<Rightarrow> do { remove_msg_ctx (Some key); ret () });
          remove_recv_side_properties s;
          ret AXIS2_SUCCESS
        })"

definition clean_recv_side_after_invocation :: "cstr \<Rightarrow> status proc" where
  "clean_recv_side_after_invocation seq_id =
     (if is_null seq_id then ret AXIS2_FAILURE
      else do { complete_termination_of_recv_side seq_id; ret AXIS2_SUCCESS })"

definition clean_recv_side_after_terminate_msg :: "cstr \<Rightarrow> status proc" where
  "clean_recv_side_after_terminate_msg seq_id =
     (if is_null seq_id then ret AXIS2_FAILURE
      else do { clean_recv_side_after_invocation seq_id; ret AXIS2_SUCCESS })"

section \<open>Sending TerminateSequence\<close>

text \<open>\<open>sandesha2_msg_creator_create_terminate_seq_msg\<close> of \<open>src/util/msg_creator.c\<close>.\<close>

definition terminate_last_msg_number :: "string \<Rightarrow> cstr \<Rightarrow> int option proc" where
  "terminate_last_msg_number rm_version internal_seq_id =
     (if or_default False (is_term_seq_res_reqd (Some rm_version)) then do {
        last_out_msg_no_bean \<leftarrow>
          seq_prop_retrieve internal_seq_id (Some SEQ_PROP_LAST_OUT_MESSAGE_NUMBER);
        (case last_out_msg_no_bean of
           None \<Rightarrow> ret None
         | Some b \<Rightarrow> (case sp_value b of None \<Rightarrow> ret (Some (-1)) | Some s \<Rightarrow> ret (Some (atol s))))
      } else ret None)"

definition create_terminate_seq_msg :: "rm_msg \<Rightarrow> cstr \<Rightarrow> cstr \<Rightarrow> out_msg option proc" where
  "create_terminate_seq_msg ref_rm_msg seq_id internal_seq_id = do {
     version \<leftarrow> get_rm_version ref_rm_msg;
     (case version of
        None \<Rightarrow> ret None
      | Some rm_version \<Rightarrow> do {
          temp_msg_id \<leftarrow> uuid_gen;
          last_msg_number \<leftarrow> terminate_last_msg_number rm_version internal_seq_id;
          ret (Some ((new_out_msg MSG_TYPE_TERMINATE_SEQ)
            \<lparr>om_msg_id := Some temp_msg_id, om_seq_id := seq_id,
             om_transport_url := rm_transport_url ref_rm_msg,
             om_last_msg_number := last_msg_number\<rparr>))
        })
   }"

text \<open>The address and the actions of the message, and the mark that it was added.\<close>

definition address_terminate :: "cstr \<Rightarrow> string \<Rightarrow> out_msg \<Rightarrow> out_msg proc" where
  "address_terminate internal_sequence_id rm_ver msg = do {
     to_bean \<leftarrow> seq_prop_retrieve internal_sequence_id (Some SEQ_PROP_TO_EPR);
     transport_to_bean \<leftarrow> seq_prop_retrieve internal_sequence_id (Some SEQ_PROP_TRANSPORT_TO);
     seq_prop_insert (seq_property_bean_create
       \<lparr>sp_name := Some SEQ_PROP_TERMINATE_ADDED, sp_seq_id := internal_sequence_id,
        sp_value := Some AXIS2_VALUE_TRUE\<rparr>);
     ret (msg\<lparr>om_to := (case to_bean of None \<Rightarrow> om_to msg | Some b \<Rightarrow> Some (sp_value b)),
              om_transport_url := (case transport_to_bean of None \<Rightarrow> om_transport_url msg
                                   | Some b \<Rightarrow> sp_value b),
              om_action := Some (or_default '''' (get_terminate_seq_action rm_ver)),
              om_soap_action := Some (or_default '''' (get_terminate_seq_soap_action (Some rm_ver)))\<rparr>)
   }"

definition terminate_sender_bean :: "string \<Rightarrow> int \<Rightarrow> cstr \<Rightarrow> cstr \<Rightarrow> cstr \<Rightarrow> sender_bean" where
  "terminate_sender_bean key send_time msg_id rms_sequence_id internal_sequence_id =
     sender_bean_create\<lparr>sb_msg_ctx_ref_key := Some key, sb_time_to_send := send_time,
       sb_msg_id := msg_id, sb_send := True, sb_seq_id := rms_sequence_id,
       sb_internal_seq_id := internal_sequence_id, sb_msg_type := MSG_TYPE_TERMINATE_SEQ,
       sb_resend := False\<rparr>"

text \<open>The hand-over to the engine, through the sandesha2 transport for an anonymous address.\<close>

definition dispatch_terminate :: "cstr \<Rightarrow> out_msg \<Rightarrow> out_msg proc" where
  "dispatch_terminate internal_sequence_id msg = do {
     anonymous \<leftarrow> asks (\<lambda>w. is_anon_uri (cf_wsa (w_conf w)) (cf_trim (w_conf w))
                               (case om_to msg of None \<Rightarrow> None | Some a \<Rightarrow> a));
     if anonymous then do {
       engine_send (msg\<lparr>om_via_sandesha_transport := True\<rparr>);
       ret (msg\<lparr>om_via_sandesha_transport := True\<rparr>)
     } else do {
       reply_to_bean \<leftarrow> seq_prop_retrieve internal_sequence_id (Some SEQ_PROP_REPLY_TO_EPR);
       let m = (case reply_to_bean of None \<Rightarrow> msg | Some b \<Rightarrow> msg\<lparr>om_reply_to := Some (sp_value b)\<rparr>);
       engine_send m;
       ret m
     }
   }"

text \<open>
  \<open>sandesha2_terminate_mgr_send_terminate_seq_msg\<close>.  The status of the path that queues the
  message is the initial \<open>AXIS2_FALSE\<close>, which is \<open>AXIS2_FAILURE\<close>.
\<close>

definition queue_terminate :: "property_bean \<Rightarrow> cstr \<Rightarrow> cstr \<Rightarrow> out_msg \<Rightarrow> status proc" where
  "queue_terminate property_bean rms_sequence_id internal_sequence_id msg = do {
     msg2 \<leftarrow> (if is_null (om_seq_ack msg) then piggyback_acks_if_present rms_sequence_id msg
              else ret msg);
     key \<leftarrow> uuid_gen;
     now \<leftarrow> current_time_in_millis;
     sender_insert (terminate_sender_bean key (now + pb_terminate_delay property_bean)
       (om_msg_id msg2) rms_sequence_id internal_sequence_id);
     seq_prop_retrieve rms_sequence_id (Some SEQ_PROP_REPLAY);
     sent \<leftarrow> dispatch_terminate internal_sequence_id msg2;
     ctx \<leftarrow> asks (\<lambda>w. cf_out_ctx (w_conf w) sent);
     store_msg_ctx (Some key) ctx;
     ret AXIS2_FAILURE
   }"

definition send_terminate_seq_msg :: "rm_msg \<Rightarrow> cstr \<Rightarrow> cstr \<Rightarrow> status proc" where
  "send_terminate_seq_msg rm_msg_ctx rms_sequence_id internal_sequence_id =
     (if is_null rms_sequence_id \<or> is_null internal_sequence_id then ret AXIS2_FAILURE
      else do {
        property_bean \<leftarrow> get_property_bean (rm_has_svc rm_msg_ctx);
        (case property_bean of
           None \<Rightarrow> ret AXIS2_FAILURE
         | Some pb \<Rightarrow> do {
             created \<leftarrow> create_terminate_seq_msg rm_msg_ctx rms_sequence_id internal_sequence_id;
             version \<leftarrow> get_rm_version rm_msg_ctx;
             (case (created, version) of
                (Some msg0, Some rm_ver) \<Rightarrow> do {
                  msg \<leftarrow> address_terminate internal_sequence_id rm_ver msg0;
                  direct \<leftarrow> asks (\<lambda>w. is_rm_1_0_anonymous_acks_to (cf_wsa (w_conf w))
                    (cf_trim (w_conf w)) (Some rm_ver) (case om_to msg of None \<Rightarrow> None | Some a \<Rightarrow> a));
                  if direct then do {
                    emit Set_Paused;
                    emit Set_Response_Written;
                    engine_send msg;
                    ret AXIS2_SUCCESS
                  } else queue_terminate pb rms_sequence_id internal_sequence_id msg
                }
              | _ \<Rightarrow> ret AXIS2_FAILURE)
           })
      })"

section \<open>Runs of the cleaning loops\<close>

lemma filter_row_del:
  "filter (\<lambda>x. f x \<notin> A) (row_del f k t) = filter (\<lambda>x. f x \<notin> insert k A) t"
  by (auto simp: row_del_def intro: filter_cong)

lemma run_clean_senders:
  "ready w \<Longrightarrow> run_state (for_each clean_sender_bean (map sender_dec rs)) w
    = ((), w\<lparr>w_sender := filter (\<lambda>x. sr_msg_id x \<notin> sr_msg_id ` set rs) (w_sender w),
             w_msg := filter (\<lambda>x. mr_stored_key x \<notin> sr_msg_ctx_ref_key ` set rs) (w_msg w),
             w_tick := w_tick w + 2 * length rs\<rparr>)"
proof (induction rs arbitrary: w)
  case (Cons r rs)
  let ?w = "w\<lparr>w_sender := row_del sr_msg_id (sr_msg_id r) (w_sender w),
      w_msg := row_del mr_stored_key (sr_msg_ctx_ref_key r) (w_msg w), w_tick := w_tick w + 2\<rparr>"
  have "run_state (clean_sender_bean (sender_dec r)) w = ((), ?w)"
    using Cons.prems by (simp add: clean_sender_bean_def exec_simps tick_def)
  then show ?case using Cons.IH[of ?w] Cons.prems
    by (simp add: filter_row_del)
qed simp

lemma create_seq_dec_fields [simp]:
  "cs_create_seq_msg_id (create_seq_dec r) = Some (cr_create_seq_msg_id r)"
  "cs_ref_msg_store_key (create_seq_dec r) = Some (cr_ref_msg_store_key r)"
  by (simp_all add: create_seq_dec_def create_seq_fill_def)

lemma run_clean_create_seqs:
  "ready w \<Longrightarrow> run_state (for_each clean_create_seq_bean (map create_seq_dec rs)) w
    = ((), w\<lparr>w_create_seq := filter (\<lambda>x. cr_create_seq_msg_id x \<notin> cr_create_seq_msg_id ` set rs) (w_create_seq w),
             w_msg := filter (\<lambda>x. mr_stored_key x \<notin> cr_ref_msg_store_key ` set rs) (w_msg w),
             w_tick := w_tick w + 2 * length rs\<rparr>)"
proof (induction rs arbitrary: w)
  case (Cons r rs)
  let ?w = "w\<lparr>w_create_seq := row_del cr_create_seq_msg_id (cr_create_seq_msg_id r) (w_create_seq w),
      w_msg := row_del mr_stored_key (cr_ref_msg_store_key r) (w_msg w), w_tick := w_tick w + 2\<rparr>"
  have "run_state (clean_create_seq_bean (create_seq_dec r)) w = ((), ?w)"
    using Cons.prems by (simp add: clean_create_seq_bean_def exec_simps tick_def)
  then show ?case using Cons.IH[of ?w] Cons.prems by (simp add: filter_row_del)
qed simp

text \<open>The property table after one and after all turns of the loop.\<close>

definition carry_row :: "cstr \<Rightarrow> seq_property_row \<Rightarrow> seq_property_table \<Rightarrow> seq_property_table" where
  "carry_row rms r t =
     (case rms of
        None \<Rightarrow> t
      | Some s \<Rightarrow> if carried_over (pr_name r)
                 then prop_del (prop_id (pr_seq_id r) (pr_name r))
                        (t @ [seq_property_row_of (mk_prop s (pr_name r) (pr_value r))])
                 else t)"

definition delete_row :: "seq_property_row \<Rightarrow> seq_property_table \<Rightarrow> seq_property_table" where
  "delete_row r t =
     (if is_property_deletable (pr_name r) then prop_del (prop_id (pr_seq_id r) (pr_name r)) t else t)"

definition clean_row :: "cstr \<Rightarrow> seq_property_row \<Rightarrow> seq_property_table \<Rightarrow> seq_property_table" where
  "clean_row rms r t = delete_row r (carry_row rms r t)"

definition highest_nos :: "seq_property_row list \<Rightarrow> string set" where
  "highest_nos rs = pr_value ` {r \<in> set rs. pr_name r = SEQ_PROP_HIGHEST_IN_MSG_NUMBER}"

lemma highest_deletable: "is_property_deletable SEQ_PROP_HIGHEST_IN_MSG_NUMBER"
  by (simp add: is_property_deletable_def prop_names strcasecmp_eq_def to_lower_def)

text \<open>The two steps, up to the number of external steps they take.\<close>

lemma run_do_updates:
  assumes "ready w"
  shows "run_state (do_updates_if_needed rms (seq_property_dec r)) w
     = (if rms = None then AXIS2_FAILURE else AXIS2_SUCCESS,
        w\<lparr>w_seq_prop := carry_row rms r (w_seq_prop w),
          w_tick := w_tick w + (if rms \<noteq> None \<and> carried_over (pr_name r) then 2 else 0)\<rparr>)"
proof (cases rms)
  case None
  then show ?thesis by (simp add: do_updates_if_needed_def is_null_def carry_row_def)
next
  case (Some s)
  then show ?thesis using assms
    by (cases "carried_over (pr_name r)")
       (simp_all add: do_updates_if_needed_def is_null_def carry_row_def seq_property_dec_mk exec_simps tick_def)
qed

lemma run_delete_property:
  assumes "ready w"
  shows "run_state (delete_property (seq_property_dec r)) w
     = ((), w\<lparr>w_seq_prop := delete_row r (w_seq_prop w),
             w_msg := filter (\<lambda>x. mr_stored_key x \<notin> highest_nos [r]) (w_msg w),
             w_tick := w_tick w + (if is_property_deletable (pr_name r)
               then if pr_name r = SEQ_PROP_HIGHEST_IN_MSG_NUMBER then 2 else 1 else 0)\<rparr>)"
proof (cases "pr_name r = SEQ_PROP_HIGHEST_IN_MSG_NUMBER")
  case True
  have h: "highest_nos [r] = {pr_value r}" using True by (auto simp: highest_nos_def)
  show ?thesis using assms
    by (simp add: delete_property_def seq_property_dec_mk True exec_simps highest_deletable
        tick_def row_del_def delete_row_def h)
next
  case False
  have h: "highest_nos [r] = {}" using False by (auto simp: highest_nos_def)
  show ?thesis using False assms
    by (cases "is_property_deletable (pr_name r)")
       (simp_all add: delete_property_def seq_property_dec_mk exec_simps tick_def delete_row_def h)
qed

definition clean_ticks :: "cstr \<Rightarrow> seq_property_row \<Rightarrow> nat" where
  "clean_ticks rms r = (if rms \<noteq> None \<and> carried_over (pr_name r) then 2 else 0)
     + (if is_property_deletable (pr_name r)
        then if pr_name r = SEQ_PROP_HIGHEST_IN_MSG_NUMBER then 2 else 1 else 0)"

lemma run_clean_property:
  assumes "ready w"
  shows "run_state (clean_property rms (seq_property_dec r)) w
     = ((), w\<lparr>w_seq_prop := clean_row rms r (w_seq_prop w),
             w_msg := filter (\<lambda>x. mr_stored_key x \<notin> highest_nos [r]) (w_msg w),
             w_tick := w_tick w + clean_ticks rms r\<rparr>)"
  using assms
  by (simp add: clean_property_def run_do_updates run_delete_property clean_row_def clean_ticks_def
      del: if_True)

lemma highest_nos_Cons: "highest_nos (r # rs) = highest_nos [r] \<union> highest_nos rs"
  by (auto simp: highest_nos_def)

lemma run_clean_properties:
  "ready w \<Longrightarrow> run_state (for_each (clean_property rms) (map seq_property_dec rs)) w
     = ((), w\<lparr>w_seq_prop := fold (clean_row rms) rs (w_seq_prop w),
             w_msg := filter (\<lambda>x. mr_stored_key x \<notin> highest_nos rs) (w_msg w),
             w_tick := w_tick w + sum_list (map (clean_ticks rms) rs)\<rparr>)"
proof (induction rs arbitrary: w)
  case Nil
  then show ?case by (simp add: highest_nos_def)
next
  case (Cons r rs)
  let ?w = "w\<lparr>w_seq_prop := clean_row rms r (w_seq_prop w),
      w_msg := filter (\<lambda>x. mr_stored_key x \<notin> highest_nos [r]) (w_msg w),
      w_tick := w_tick w + clean_ticks rms r\<rparr>"
  have "filter (\<lambda>x. mr_stored_key x \<notin> highest_nos rs) (filter (\<lambda>x. mr_stored_key x \<notin> highest_nos [r]) (w_msg w))
      = filter (\<lambda>x. mr_stored_key x \<notin> highest_nos (r # rs)) (w_msg w)"
    by (subst highest_nos_Cons) (auto intro: filter_cong)
  then show ?case using Cons.IH[of ?w] Cons.prems
    by (simp add: run_clean_property add.assoc)
qed

section \<open>What is left of the sending side\<close>

text \<open>The abstract effect of cleaning sequence \<open>i\<close> whose outgoing id is \<open>rms\<close>.\<close>

definition cleaned_props ::
  "string \<Rightarrow> cstr \<Rightarrow> (string \<Rightarrow> string \<Rightarrow> cstr) \<Rightarrow> string \<Rightarrow> string \<Rightarrow> cstr" where
  "cleaned_props i rms pv s n =
     (if s = i then (if is_property_deletable n \<or> (carried_over n \<and> rms \<noteq> None) then None else pv i n)
      else if rms = Some s \<and> carried_over n \<and> pv i n \<noteq> None then pv i n
      else pv s n)"

lemma pvals_clean_row:
  assumes "pr_seq_id r = i" "colon_free (pr_name r)" "colon_free n" "rms \<noteq> Some i"
  shows "pvals (clean_row rms r t) s n =
     (if pr_name r = n then
        (if s = i then (if is_property_deletable n \<or> (carried_over n \<and> rms \<noteq> None) then None else pvals t i n)
         else if rms = Some s \<and> carried_over n then Some (pr_value r) else pvals t s n)
      else pvals t s n)"
  using assms
  by (cases rms) (auto simp: clean_row_def delete_row_def carry_row_def pvals_simps)

text \<open>Folding over the rows of the sequence, with \<open>seen\<close> what the rows so far say.\<close>

definition seen :: "seq_property_row list \<Rightarrow> string \<Rightarrow> cstr" where
  "seen rs n = map_of (rev (map (\<lambda>r. (pr_name r, pr_value r)) rs)) n"

lemma seen_simps [simp]:
  "seen [] n = None" "seen (rs @ [r]) n = (if pr_name r = n then Some (pr_value r) else seen rs n)"
  by (simp_all add: seen_def)

lemma pvals_fold_clean:
  assumes "\<forall>r \<in> set rs. pr_seq_id r = i \<and> colon_free (pr_name r)" "colon_free n" "rms \<noteq> Some i"
  shows "pvals (fold (clean_row rms) rs t) s n =
     (if s = i then (if seen rs n \<noteq> None \<and> (is_property_deletable n \<or> (carried_over n \<and> rms \<noteq> None))
                     then None else pvals t i n)
      else if rms = Some s \<and> carried_over n \<and> seen rs n \<noteq> None then seen rs n
      else pvals t s n)"
  using assms(1)
proof (induction rs rule: rev_induct)
  case (snoc r rs)
  then have "pvals (fold (clean_row rms) (rs @ [r]) t) s n
      = pvals (clean_row rms r (fold (clean_row rms) rs t)) s n"
    and r: "pr_seq_id r = i" "colon_free (pr_name r)" by simp_all
  then show ?case using snoc pvals_clean_row[OF r assms(2,3), of "fold (clean_row rms) rs t" s]
    pvals_clean_row[OF r assms(2,3), of "fold (clean_row rms) rs t" i] by auto
qed simp

lemma seen_filter:
  assumes "props_ok t" "colon_free n"
  shows "seen (filter (\<lambda>r. pr_seq_id r = i) t) n = pvals t i n"
  using assms(1)
proof (induction t rule: rev_induct)
  case Nil
  then show ?case by (simp add: pvals_def seq_property_look_def bean_value_def)
next
  case (snoc r t)
  then have "props_ok t" by (simp add: props_ok_def)
  then show ?case using snoc assms(2) pvals_Cons[OF snoc.prems assms(2)] by auto
qed

lemma pvals_clean_all:
  assumes "props_ok t" "colon_free n" "rms \<noteq> Some i"
  shows "pvals (fold (clean_row rms) (filter (\<lambda>r. pr_seq_id r = i) t) t) s n
       = cleaned_props i rms (pvals t) s n"
proof -
  have rs: "\<forall>r \<in> set (filter (\<lambda>r. pr_seq_id r = i) t). pr_seq_id r = i \<and> colon_free (pr_name r)"
    using assms(1) by (simp add: props_ok_def)
  show ?thesis
    unfolding pvals_fold_clean[OF rs assms(2,3)] seen_filter[OF assms(1,2)] cleaned_props_def by auto
qed

text \<open>Removing the rows found by a column removes them by their keys.\<close>

lemma filter_by_keys:
  assumes "pk_ok pk t"
  shows "filter (\<lambda>x. pk x \<notin> pk ` set (filter P t)) t = filter (\<lambda>x. \<not> P x) t"
proof (rule filter_cong[OF refl])
  fix x assume "x \<in> set t"
  then show "pk x \<notin> pk ` set (filter P t) \<longleftrightarrow> \<not> P x"
    using assms unfolding pk_ok_def distinct_map by (auto dest: inj_onD)
qed

lemma list_elems_if_Nil [simp]:
  "list_elems (if xs = [] then None else Some xs) = xs"
  "list_elems (if rs = [] then None else Some (map f rs)) = map f rs"
  by simp_all

lemma seq_id_find_cond:
  "seq_property_find_cond (Some (seq_property_bean_create\<lparr>sp_seq_id := Some i\<rparr>)) = (\<lambda>r. pr_seq_id r = i)"
  by (simp add: fun_eq_iff seq_property_find_cond_def seq_property_bean_create_def opt_text_cond_def)

lemma create_seq_find_internal:
  "create_seq_find_cond (Some (create_seq_bean_create\<lparr>cs_internal_seq_id := Some i\<rparr>))
     = (\<lambda>r. cr_internal_seq_id r = i)"
  by (simp add: fun_eq_iff create_seq_find_cond_def create_seq_bean_create_def opt_text_cond_def)

definition sender_rows_of :: "string \<Rightarrow> world \<Rightarrow> sender_row list" where
  "sender_rows_of i w = filter (\<lambda>r. sr_internal_seq_id r = i) (w_sender w)"

definition create_rows_of :: "string \<Rightarrow> world \<Rightarrow> create_seq_row list" where
  "create_rows_of i w = filter (\<lambda>r. cr_internal_seq_id r = i) (w_create_seq w)"

definition prop_rows_of :: "string \<Rightarrow> world \<Rightarrow> seq_property_row list" where
  "prop_rows_of i w = filter (\<lambda>r. pr_seq_id r = i) (w_seq_prop w)"

lemma filter_by_column:
  "sender_ok (w_sender w) \<Longrightarrow>
   filter (\<lambda>x. sr_msg_id x \<notin> sr_msg_id ` set (sender_rows_of i w)) (w_sender w)
     = filter (\<lambda>r. sr_internal_seq_id r \<noteq> i) (w_sender w)"
  "create_seq_ok (w_create_seq w) \<Longrightarrow>
   filter (\<lambda>x. cr_create_seq_msg_id x \<notin> cr_create_seq_msg_id ` set (create_rows_of i w)) (w_create_seq w)
     = filter (\<lambda>r. cr_internal_seq_id r \<noteq> i) (w_create_seq w)"
  by (simp_all only: sender_rows_of_def create_rows_of_def filter_by_keys)

text \<open>The stored messages that go: those of the messages to send, of the create-sequence
  beans, and any whose key happens to be the highest number received.\<close>

definition freed_keys :: "string \<Rightarrow> world \<Rightarrow> string set" where
  "freed_keys i w = sr_msg_ctx_ref_key ` set (sender_rows_of i w)
     \<union> cr_ref_msg_store_key ` set (create_rows_of i w) \<union> highest_nos (prop_rows_of i w)"

lemma run_clean_sending_side:
  assumes "ready w" "sender_ok (w_sender w)" "create_seq_ok (w_create_seq w)"
    and "rms = prop_value w i SEQ_PROP_OUTGOING_SEQUENCE_ID"
  shows "\<exists>k. run_state (clean_sending_side_data (Some i)) w = (AXIS2_SUCCESS,
     w\<lparr>w_sender := filter (\<lambda>r. sr_internal_seq_id r \<noteq> i) (w_sender w),
       w_create_seq := filter (\<lambda>r. cr_internal_seq_id r \<noteq> i) (w_create_seq w),
       w_msg := filter (\<lambda>r. mr_stored_key r \<notin> freed_keys i w) (w_msg w),
       w_seq_prop := fold (clean_row rms) (prop_rows_of i w) (w_seq_prop w), w_tick := k\<rparr>)"
proof -
  let ?k = "Suc (Suc (Suc (Suc (w_tick w + 2 * length (sender_rows_of i w)
     + 2 * length (create_rows_of i w) + sum_list (map (clean_ticks rms) (prop_rows_of i w))))))"
  show ?thesis using assms
    by (intro exI[of _ ?k])
       (simp add: clean_sending_side_data_def is_null_def exec_simps Let_def sender_beans_def
         run_clean_senders run_clean_create_seqs run_clean_properties seq_id_find_cond
         create_seq_find_internal filter_by_column prop_value_def freed_keys_def
         flip: sender_rows_of_def create_rows_of_def prop_rows_of_def)
qed
lemma clean_sending_side_state:
  assumes "ready w" "sender_ok (w_sender w)" "create_seq_ok (w_create_seq w)" "props_ok (w_seq_prop w)"
    and "rms = prop_value w i SEQ_PROP_OUTGOING_SEQUENCE_ID" "rms \<noteq> Some i"
  shows "\<exists>w'. run_state (clean_sending_side_data (Some i)) w = (AXIS2_SUCCESS, w')
     \<and> (\<forall>s n. colon_free n \<longrightarrow> prop_value w' s n = cleaned_props i rms (prop_value w) s n)
     \<and> w_sender w' = filter (\<lambda>r. sr_internal_seq_id r \<noteq> i) (w_sender w)
     \<and> w_create_seq w' = filter (\<lambda>r. cr_internal_seq_id r \<noteq> i) (w_create_seq w)
     \<and> w_msg w' = filter (\<lambda>r. mr_stored_key r \<notin> freed_keys i w) (w_msg w)
     \<and> w_next_msg w' = w_next_msg w \<and> w_trace w' = w_trace w \<and> w_ub w' = w_ub w \<and> ready w'"
proof -
  obtain k where "run_state (clean_sending_side_data (Some i)) w = (AXIS2_SUCCESS,
     w\<lparr>w_sender := filter (\<lambda>r. sr_internal_seq_id r \<noteq> i) (w_sender w),
       w_create_seq := filter (\<lambda>r. cr_internal_seq_id r \<noteq> i) (w_create_seq w),
       w_msg := filter (\<lambda>r. mr_stored_key r \<notin> freed_keys i w) (w_msg w),
       w_seq_prop := fold (clean_row rms) (prop_rows_of i w) (w_seq_prop w), w_tick := k\<rparr>)"
    using run_clean_sending_side[OF assms(1-3,5)] by blast
  moreover have "colon_free n \<Longrightarrow> pvals (fold (clean_row rms) (prop_rows_of i w) (w_seq_prop w)) s n
      = cleaned_props i rms (prop_value w) s n" for s n
    using pvals_clean_all[OF assms(4) _ assms(6), of n s]
    by (simp add: prop_rows_of_def prop_value_pvals)
  ultimately show ?thesis using assms(1) by (simp add: prop_value_pvals)
qed

text \<open>C11: terminating the sending side of a sequence removes every
  message of the sequence that waits to be sent or resent and every request to create it,
  and no message or request of another sequence.  The mark of the termination ends up under
  the id the two sides agreed on, when there is one; of the sequence's own properties those
  that may go are gone, and every property of every other sequence has its value.\<close>

theorem terminate_sending_side_cleans:
  assumes "ready w" "sender_ok (w_sender w)" "create_seq_ok (w_create_seq w)" "props_ok (w_seq_prop w)"
    and "prop_value w i SEQ_PROP_OUTGOING_SEQUENCE_ID = Some rms" "rms \<noteq> i"
  shows "\<exists>w'. run_state (terminate_sending_side (Some i)) w = (AXIS2_SUCCESS, w')
     \<and> w_sender w' = filter (\<lambda>r. sr_internal_seq_id r \<noteq> i) (w_sender w)
     \<and> w_create_seq w' = filter (\<lambda>r. cr_internal_seq_id r \<noteq> i) (w_create_seq w)
     \<and> prop_value w' rms SEQ_PROP_SEQ_TERMINATED = Some AXIS2_VALUE_TRUE
     \<and> (\<forall>n. colon_free n \<and> is_property_deletable n \<longrightarrow> prop_value w' i n = None)
     \<and> (\<forall>s n. colon_free n \<and> s \<noteq> i \<and> s \<noteq> rms \<longrightarrow> prop_value w' s n = prop_value w s n)"
proof -
  let ?v = "tick (w\<lparr>w_seq_prop := w_seq_prop w
      @ [seq_property_row_of (mk_prop i SEQ_PROP_SEQ_TERMINATED AXIS2_VALUE_TRUE)]\<rparr>)"
  have names: "SEQ_PROP_OUTGOING_SEQUENCE_ID \<noteq> SEQ_PROP_SEQ_TERMINATED" by (simp add: prop_names)
  have pv: "prop_value ?v s n = (if s = i \<and> n = SEQ_PROP_SEQ_TERMINATED then Some AXIS2_VALUE_TRUE
      else prop_value w s n)" if "colon_free n" for s n
    using that by (simp add: prop_value_pvals pvals_simps)
  have "run_state (seq_prop_insert (seq_property_bean_create_with_data (Some i)
      (Some SEQ_PROP_SEQ_TERMINATED) (Some AXIS2_VALUE_TRUE))) w = (True, ?v)"
    using assms(1) by (simp add: exec_simps seq_property_bean_create_with_data_def mk_prop_def)
  moreover obtain w' where w': "run_state (clean_sending_side_data (Some i)) ?v = (AXIS2_SUCCESS, w')"
    "\<forall>s n. colon_free n \<longrightarrow> prop_value w' s n = cleaned_props i (Some rms) (prop_value ?v) s n"
    "w_sender w' = filter (\<lambda>r. sr_internal_seq_id r \<noteq> i) (w_sender w)"
    "w_create_seq w' = filter (\<lambda>r. cr_internal_seq_id r \<noteq> i) (w_create_seq w)"
    using clean_sending_side_state[of ?v "Some rms" i] assms pv names by auto
  ultimately have "run_state (terminate_sending_side (Some i)) w = (AXIS2_SUCCESS, w')"
    by (simp add: terminate_sending_side_def is_null_def)
  moreover have "prop_value w' rms SEQ_PROP_SEQ_TERMINATED = Some AXIS2_VALUE_TRUE"
    using w'(2) assms(6) pv by (simp add: cleaned_props_def carried_over_def)
  moreover have "prop_value w' s n = prop_value w s n" if "colon_free n" "s \<noteq> i" "s \<noteq> rms" for s n
    using w'(2) that pv by (simp add: cleaned_props_def)
  moreover have "prop_value w' i n = None" if "colon_free n" "is_property_deletable n" for n
    using w'(2) that by (simp add: cleaned_props_def)
  ultimately show ?thesis using w'(3,4) by blast
qed

definition out_world :: world where
  "out_world = idle_world\<lparr>w_seq_prop :=
     [seq_property_row_of (mk_prop ''i'' SEQ_PROP_OUTGOING_SEQUENCE_ID ''rms'')],
     w_sender := [sender_row_of (sender_bean_create\<lparr>sb_msg_id := Some ''m1'',
       sb_internal_seq_id := Some ''i'', sb_msg_ctx_ref_key := Some ''k1''\<rparr>)]\<rparr>"

lemma out_world_facts:
  "ready out_world" "sender_ok (w_sender out_world)" "create_seq_ok (w_create_seq out_world)"
  "props_ok (w_seq_prop out_world)"
  "prop_value out_world ''i'' SEQ_PROP_OUTGOING_SEQUENCE_ID = Some ''rms''"
  using look_after(1)[of "[]" "mk_prop ''i'' SEQ_PROP_OUTGOING_SEQUENCE_ID ''rms''"]
    props_ok_ops(2)[of "[]" SEQ_PROP_OUTGOING_SEQUENCE_ID "''i''" "''rms''"]
  by (simp_all add: out_world_def pk_ok_def prop_value_def props_ok_def)

theorem terminate_sending_side_cleans_witness:
  "\<exists>w'. run_state (terminate_sending_side (Some ''i'')) out_world = (AXIS2_SUCCESS, w')
     \<and> prop_value w' ''rms'' SEQ_PROP_SEQ_TERMINATED = Some AXIS2_VALUE_TRUE"
  using terminate_sending_side_cleans[of out_world "''i''" "''rms''"] out_world_facts by auto

text \<open>C33: timing out the sending side of a sequence cleans it in the
  same way, but sets its mark afterwards, so that the mark stays under the internal id, where
  the mark of a termination never is.\<close>

theorem time_out_sending_side_cleans:
  assumes "ready w" "sender_ok (w_sender w)" "create_seq_ok (w_create_seq w)" "props_ok (w_seq_prop w)"
    and "prop_value w i SEQ_PROP_OUTGOING_SEQUENCE_ID = Some rms" "rms \<noteq> i"
  shows "\<exists>w'. run_state (time_out_sending_side_seq (Some i)) w = (AXIS2_SUCCESS, w')
     \<and> w_sender w' = filter (\<lambda>r. sr_internal_seq_id r \<noteq> i) (w_sender w)
     \<and> prop_value w' i SEQ_PROP_SEQ_TIMED_OUT = Some AXIS2_VALUE_TRUE
     \<and> prop_value w' rms SEQ_PROP_SEQ_TIMED_OUT
         = (case prop_value w i SEQ_PROP_SEQ_TIMED_OUT of
              None \<Rightarrow> prop_value w rms SEQ_PROP_SEQ_TIMED_OUT | Some v \<Rightarrow> Some v)
     \<and> (\<forall>s n. colon_free n \<and> s \<noteq> i \<and> s \<noteq> rms \<longrightarrow> prop_value w' s n = prop_value w s n)"
proof -
  obtain v where v: "run_state (clean_sending_side_data (Some i)) w = (AXIS2_SUCCESS, v)"
    "\<forall>s n. colon_free n \<longrightarrow> prop_value v s n = cleaned_props i (Some rms) (prop_value w) s n"
    "w_sender v = filter (\<lambda>r. sr_internal_seq_id r \<noteq> i) (w_sender w)" "ready v"
    using clean_sending_side_state[OF assms(1-4) refl, of i] assms(5,6) by auto
  let ?w' = "tick (v\<lparr>w_seq_prop := w_seq_prop v
      @ [seq_property_row_of (mk_prop i SEQ_PROP_SEQ_TIMED_OUT AXIS2_VALUE_TRUE)]\<rparr>)"
  have pv: "prop_value ?w' s n = (if s = i \<and> n = SEQ_PROP_SEQ_TIMED_OUT then Some AXIS2_VALUE_TRUE
      else prop_value v s n)" if "colon_free n" for s n
    using that by (simp add: prop_value_pvals pvals_simps)
  have "run_state (time_out_sending_side_seq (Some i)) w = (AXIS2_SUCCESS, ?w')"
    using v(1,4) by (simp add: time_out_sending_side_seq_def is_null_def exec_simps
        seq_property_bean_create_with_data_def mk_prop_def)
  moreover have "prop_value ?w' rms SEQ_PROP_SEQ_TIMED_OUT
      = (case prop_value w i SEQ_PROP_SEQ_TIMED_OUT of
           None \<Rightarrow> prop_value w rms SEQ_PROP_SEQ_TIMED_OUT | Some v \<Rightarrow> Some v)"
    using pv v(2) assms(6) by (auto simp: cleaned_props_def carried_over_def split: option.splits)
  moreover have "prop_value ?w' s n = prop_value w s n" if "colon_free n" "s \<noteq> i" "s \<noteq> rms" for s n
    using pv v(2) that by (simp add: cleaned_props_def)
  moreover have "prop_value ?w' i SEQ_PROP_SEQ_TIMED_OUT = Some AXIS2_VALUE_TRUE" using pv by simp
  ultimately show ?thesis using v(3) by (intro exI[of _ ?w']) simp
qed

theorem time_out_sending_side_cleans_witness:
  "\<exists>w'. run_state (time_out_sending_side_seq (Some ''i'')) out_world = (AXIS2_SUCCESS, w')
     \<and> prop_value w' ''i'' SEQ_PROP_SEQ_TIMED_OUT = Some AXIS2_VALUE_TRUE"
  using time_out_sending_side_cleans[of out_world "''i''" "''rms''"] out_world_facts by auto

section \<open>What is left of the receiving side\<close>

text \<open>C40: taking a sequence out of a list of incoming sequences that is not
  empty neither frees an element twice nor prints a freed one exactly when the sequence is the
  first of at most two; in every other case the code has undefined behaviour.\<close>

theorem remove_incoming_safe_iff:
  "vs \<noteq> [] \<Longrightarrow> \<not> snd (remove_incoming s vs) \<longleftrightarrow> hd vs = s \<and> length vs \<le> 2"
proof -
  assume vs: "vs \<noteq> []"
  let ?i = "length (takeWhile (\<lambda>v. v \<noteq> s) vs)"
  have le: "?i \<le> length vs" by (rule length_takeWhile_le)
  show "\<not> snd (remove_incoming s vs) \<longleftrightarrow> hd vs = s \<and> length vs \<le> 2"
  proof (cases "hd vs = s")
    case False
    then have pos: "0 < ?i" using vs by (cases vs) auto
    then have mem: "0 \<in> set (take ?i [0..<length vs])"
      using vs by (cases ?i) (simp_all add: upt_conv_Cons)
    have "snd (remove_incoming s vs)"
      unfolding remove_incoming_def Let_def snd_conv list_ex_iff
      using mem pos by (intro disjI2 bexI[of _ 0]) simp_all
    then show ?thesis using False by simp
  next
    case True
    then obtain r where r: "vs = s # r" using vs by (cases vs) auto
    show ?thesis
    proof (cases "length r \<le> 1")
      case True
      then show ?thesis using r by (cases r) (auto simp: remove_incoming_def Let_def)
    next
      case False
      then obtain a b q where q: "r = a # b # q" by (cases r; cases "tl r") auto
      have "\<not> distinct ([0] @ concat (map (\<lambda>j. [x :: nat]) [0..<length vs]))" for x
        using r q by (simp add: upt_conv_Cons del: upt_Suc)
      then have "snd (remove_incoming s vs)"
        using r q by (simp add: remove_incoming_def Let_def upt_conv_Cons del: upt_Suc)
      then show ?thesis using False r by simp
    qed
  qed
qed

theorem remove_incoming_safe_iff_witness:
  "\<not> snd (remove_incoming ''a'' [''a'', ''b'']) \<longleftrightarrow> hd [''a'', ''b''] = ''a'' \<and> length [''a'', ''b''] \<le> 2"
  by (rule remove_incoming_safe_iff) simp

lemma clean_property_None: "clean_property None = delete_property"
  by (simp add: fun_eq_iff clean_property_def do_updates_if_needed_def is_null_def)

lemma next_msg_dec_fields [simp]:
  "nm_seq_id (next_msg_dec r) = Some (nr_seq_id r)"
  "nm_ref_msg_key (next_msg_dec r)
     = (if nr_ref_msg_key r = null_text then None else Some (nr_ref_msg_key r))"
  by (simp_all add: next_msg_dec_def next_msg_fill_def next_msg_bean_create_def)

lemma run_clean_next_msgs:
  "ready w \<Longrightarrow> \<exists>m k. run_state (for_each clean_next_msg_bean (map next_msg_dec rs)) w
    = ((), w\<lparr>w_next_msg := filter (\<lambda>x. nr_seq_id x \<notin> nr_seq_id ` set rs) (w_next_msg w),
             w_msg := m, w_tick := k\<rparr>)"
proof (induction rs arbitrary: w)
  case Nil
  then show ?case by (intro exI[of _ "w_msg w"] exI[of _ "w_tick w"]) simp
next
  case (Cons r rs)
  let ?m = "if nr_ref_msg_key r = null_text then w_msg w
            else row_del mr_stored_key (nr_ref_msg_key r) (w_msg w)"
  let ?k = "w_tick w + (if nr_ref_msg_key r = null_text then 1 else 2)"
  let ?w = "w\<lparr>w_next_msg := row_del nr_seq_id (nr_seq_id r) (w_next_msg w), w_msg := ?m, w_tick := ?k\<rparr>"
  have "run_state (clean_next_msg_bean (next_msg_dec r)) w = ((), ?w)"
    using Cons.prems
    by (cases "nr_ref_msg_key r = null_text") (simp_all add: clean_next_msg_bean_def exec_simps tick_def)
  moreover obtain m k where "run_state (for_each clean_next_msg_bean (map next_msg_dec rs)) ?w
    = ((), ?w\<lparr>w_next_msg := filter (\<lambda>x. nr_seq_id x \<notin> nr_seq_id ` set rs) (w_next_msg ?w),
             w_msg := m, w_tick := k\<rparr>)" using Cons.IH[of ?w] Cons.prems by auto
  ultimately show ?case
    by (intro exI[of _ m] exI[of _ k]) (simp add: filter_row_del)
qed

lemma prop_upd_value:
  "prop_upd ((mk_prop s n v)\<lparr>sp_value := x\<rparr>) t = prop_upd (mk_prop s n (sprintf_s x)) t"
  by (simp add: prop_upd_def seq_property_row_of_def get_id_with_bean_def mk_prop_def)

text \<open>Whether the list of incoming sequences gets the code into undefined behaviour.\<close>

definition unlist_breaks :: "string \<Rightarrow> world \<Rightarrow> bool" where
  "unlist_breaks s w \<longleftrightarrow>
     (case get_array_list_from_string (prop_value w SEQ_PROP_ALL_SEQS SEQ_PROP_INCOMING_SEQ_LIST) of
        None \<Rightarrow> False | Some vs \<Rightarrow> snd (remove_incoming s vs))"

lemma get_array_list_None [simp]: "get_array_list_from_string None = None"
  by (simp add: get_array_list_from_string_def)

lemma run_unlist_incoming_seq:
  assumes "ready w" "props_ok (w_seq_prop w)"
  shows "\<exists>t k. run_state (unlist_incoming_seq s) w
      = ((), w\<lparr>w_seq_prop := t, w_ub := w_ub w \<or> unlist_breaks s w, w_tick := k\<rparr>)
    \<and> props_ok t \<and> (\<forall>q n. colon_free n \<and> q \<noteq> SEQ_PROP_ALL_SEQS \<longrightarrow> pvals t q n = pvals (w_seq_prop w) q n)"
proof (cases "seq_property_look (w_seq_prop w) (prop_id SEQ_PROP_ALL_SEQS SEQ_PROP_INCOMING_SEQ_LIST)")
  case None
  then show ?thesis using assms
    by (intro exI[of _ "w_seq_prop w"] exI[of _ "Suc (w_tick w)"])
       (simp add: unlist_incoming_seq_def exec_simps unlist_breaks_def prop_value_def tick_def)
next
  case (Some b)
  then obtain v where b: "b = mk_prop SEQ_PROP_ALL_SEQS SEQ_PROP_INCOMING_SEQ_LIST v"
    using props_ok_look assms(2) prop_names_colon_free by metis
  show ?thesis
  proof (cases "get_array_list_from_string (Some v)")
    case None
    then show ?thesis using assms Some b
      by (intro exI[of _ "w_seq_prop w"] exI[of _ "Suc (w_tick w)"])
         (simp add: unlist_incoming_seq_def exec_simps unlist_breaks_def prop_value_def tick_def)
  next
    case vs: (Some vs)
    let ?t = "prop_upd (mk_prop SEQ_PROP_ALL_SEQS SEQ_PROP_INCOMING_SEQ_LIST
      (sprintf_s (array_list_to_string ARRAY_LIST_STRING (Some (fst (remove_incoming s vs)))))) (w_seq_prop w)"
    have "run_state (unlist_incoming_seq s) w
      = ((), w\<lparr>w_seq_prop := ?t, w_ub := w_ub w \<or> unlist_breaks s w, w_tick := Suc (Suc (w_tick w))\<rparr>)"
      using assms Some b vs
      by (cases "snd (remove_incoming s vs)")
         (simp_all add: unlist_incoming_seq_def exec_simps unlist_breaks_def prop_value_def tick_def
            Let_def prop_upd_value)
    then show ?thesis using assms(2) by (auto simp: pvals_prop_upd)
  qed
qed

lemma next_msg_find_seq:
  "next_msg_find_cond (Some (next_msg_bean_create\<lparr>nm_seq_id := Some s\<rparr>)) = (\<lambda>r. nr_seq_id r = s)"
  by (simp add: fun_eq_iff next_msg_find_cond_def next_msg_bean_create_def opt_text_cond_def)

lemma run_remove_recv_side_properties:
  assumes "ready w" "props_ok (w_seq_prop w)" "s \<noteq> SEQ_PROP_ALL_SEQS"
  shows "\<exists>t m k. run_state (remove_recv_side_properties s) w
      = (AXIS2_SUCCESS, w\<lparr>w_seq_prop := t, w_msg := m, w_ub := w_ub w \<or> unlist_breaks s w, w_tick := k\<rparr>)
    \<and> (\<forall>q n. colon_free n \<and> q \<noteq> SEQ_PROP_ALL_SEQS \<longrightarrow>
         pvals t q n = (if q = s \<and> is_property_deletable n then None else pvals (w_seq_prop w) q n))"
proof -
  obtain t k where u: "run_state (unlist_incoming_seq s) w
      = ((), w\<lparr>w_seq_prop := t, w_ub := w_ub w \<or> unlist_breaks s w, w_tick := k\<rparr>)"
    "props_ok t" "\<forall>q n. colon_free n \<and> q \<noteq> SEQ_PROP_ALL_SEQS \<longrightarrow> pvals t q n = pvals (w_seq_prop w) q n"
    using run_unlist_incoming_seq[OF assms(1,2)] by blast
  let ?rs = "filter (\<lambda>r. pr_seq_id r = s) t"
  let ?v = "tick (w\<lparr>w_seq_prop := t, w_ub := w_ub w \<or> unlist_breaks s w, w_tick := k\<rparr>)"
  let ?t = "fold (clean_row None) ?rs t"
  let ?m = "filter (\<lambda>x. mr_stored_key x \<notin> highest_nos ?rs) (w_msg w)"
  let ?k = "w_tick ?v + sum_list (map (clean_ticks None) ?rs)"
  have "run_state (for_each delete_property (map seq_property_dec ?rs)) ?v
      = ((), ?v\<lparr>w_seq_prop := ?t, w_msg := ?m, w_tick := ?k\<rparr>)"
    using run_clean_properties[of ?v None ?rs] assms(1) by (simp add: clean_property_None)
  then have "run_state (remove_recv_side_properties s) w
      = (AXIS2_SUCCESS, ?v\<lparr>w_seq_prop := ?t, w_msg := ?m, w_tick := ?k\<rparr>)"
    using u(1) assms(1)
    by (simp add: remove_recv_side_properties_def exec_simps Let_def seq_id_find_cond)
  also have "?v\<lparr>w_seq_prop := ?t, w_msg := ?m, w_tick := ?k\<rparr>
      = w\<lparr>w_seq_prop := ?t, w_msg := ?m, w_ub := w_ub w \<or> unlist_breaks s w, w_tick := ?k\<rparr>"
    by (simp add: tick_def)
  finally have run: "run_state (remove_recv_side_properties s) w = (AXIS2_SUCCESS,
      w\<lparr>w_seq_prop := ?t, w_msg := ?m, w_ub := w_ub w \<or> unlist_breaks s w, w_tick := ?k\<rparr>)" .
  have "pvals ?t q n = (if q = s \<and> is_property_deletable n then None else pvals (w_seq_prop w) q n)"
    if "colon_free n" "q \<noteq> SEQ_PROP_ALL_SEQS" for q n
    using pvals_clean_all[OF u(2) that(1), of None s q] u(3) that assms(3)
    by (auto simp: cleaned_props_def)
  then show ?thesis using run by blast
qed

text \<open>C12: completing the termination of the receiving side of a
  sequence removes its next-message bean and its deletable properties and nothing of any other
  sequence but the list of all of them; it gets into undefined behaviour exactly when that
  list has the sequence anywhere but first, not at all, or first of three or more.\<close>

theorem recv_side_termination_cleans:
  assumes "ready w" "props_ok (w_seq_prop w)" "s \<noteq> SEQ_PROP_ALL_SEQS"
  shows "\<exists>w'. run_state (complete_termination_of_recv_side (Some s)) w = (AXIS2_SUCCESS, w')
     \<and> w_next_msg w' = filter (\<lambda>r. nr_seq_id r \<noteq> s) (w_next_msg w)
     \<and> (\<forall>n. colon_free n \<and> is_property_deletable n \<longrightarrow> prop_value w' s n = None)
     \<and> (\<forall>q n. colon_free n \<and> q \<noteq> SEQ_PROP_ALL_SEQS \<and> (q \<noteq> s \<or> \<not> is_property_deletable n)
          \<longrightarrow> prop_value w' q n = prop_value w q n)
     \<and> w_sender w' = w_sender w \<and> w_ub w' = (w_ub w \<or> unlist_breaks s w)"
proof -
  let ?rs = "filter (\<lambda>r. nr_seq_id r = s) (w_next_msg w)"
  have mem: "filter (\<lambda>x. nr_seq_id x \<notin> nr_seq_id ` set ?rs) (w_next_msg w)
      = filter (\<lambda>r. nr_seq_id r \<noteq> s) (w_next_msg w)" by (auto intro: filter_cong)
  obtain m k where "run_state (for_each clean_next_msg_bean (map next_msg_dec ?rs)) (tick w)
    = ((), (tick w)\<lparr>w_next_msg := filter (\<lambda>x. nr_seq_id x \<notin> nr_seq_id ` set ?rs) (w_next_msg (tick w)),
             w_msg := m, w_tick := k\<rparr>)"
    using run_clean_next_msgs[of "tick w" ?rs] assms(1) by auto
  then have loop: "run_state (for_each clean_next_msg_bean (map next_msg_dec ?rs)) (tick w)
    = ((), w\<lparr>w_next_msg := filter (\<lambda>r. nr_seq_id r \<noteq> s) (w_next_msg w), w_msg := m, w_tick := k\<rparr>)"
    by (simp only: tick_fields mem) (simp add: tick_def)
  let ?v = "w\<lparr>w_next_msg := filter (\<lambda>r. nr_seq_id r \<noteq> s) (w_next_msg w), w_msg := m, w_tick := k\<rparr>"
  let ?key = "prop_value w s SEQ_PROP_HIGHEST_IN_MSG_KEY"
  let ?v2 = "case ?key of None \<Rightarrow> tick ?v
     | Some key \<Rightarrow> tick ((tick ?v)\<lparr>w_msg := row_del mr_stored_key key m\<rparr>)"
  have v2: "ready ?v2" "w_seq_prop ?v2 = w_seq_prop w" "w_ub ?v2 = w_ub w" "w_sender ?v2 = w_sender w"
    "w_next_msg ?v2 = filter (\<lambda>r. nr_seq_id r \<noteq> s) (w_next_msg w)"
    using assms(1) by (cases ?key; simp)+
  then have "unlist_breaks s ?v2 = unlist_breaks s w" by (simp add: unlist_breaks_def prop_value_def)
  then obtain t m' k' where r: "run_state (remove_recv_side_properties s) ?v2
      = (AXIS2_SUCCESS, ?v2\<lparr>w_seq_prop := t, w_msg := m', w_ub := w_ub w \<or> unlist_breaks s w, w_tick := k'\<rparr>)"
    "\<forall>q n. colon_free n \<and> q \<noteq> SEQ_PROP_ALL_SEQS \<longrightarrow>
         pvals t q n = (if q = s \<and> is_property_deletable n then None else pvals (w_seq_prop w) q n)"
    using run_remove_recv_side_properties[of ?v2 s] v2 assms(2,3) by auto
  have "run_state (complete_termination_of_recv_side (Some s)) w
      = run_state (do { remove_recv_side_properties s; ret AXIS2_SUCCESS }) ?v2"
    using assms(1) loop
    by (cases ?key) (simp_all add: complete_termination_of_recv_side_def exec_simps Let_def
        next_msg_find_seq prop_value_def)
  then show ?thesis using r v2 assms(3) by (simp add: prop_value_pvals)
qed

theorem recv_side_termination_cleans_witness:
  "\<exists>w'. run_state (complete_termination_of_recv_side (Some ''s'')) idle_world = (AXIS2_SUCCESS, w')
     \<and> w_sender w' = w_sender idle_world"
  using recv_side_termination_cleans[of idle_world "''s''"] by (auto simp: props_ok_def prop_names)

end
