(* ===== verification/Msg_Retrans_Adjuster.thy ===== *)
theory Msg_Retrans_Adjuster
  imports Terminate_Mgr
begin

text \<open>
  \<open>src/util/msg_retrans_adjuster.c\<close>: whether a message is to be sent again, when the next
  time is, and giving up a sequence that timed out.
\<close>

unbundle bit_operations_syntax

definition finalize_timedout_seq :: "cstr \<Rightarrow> status proc" where
  "finalize_timedout_seq internal_sequence_id =
     (if is_null internal_sequence_id then ret AXIS2_FAILURE
      else do { time_out_sending_side_seq internal_sequence_id; ret AXIS2_SUCCESS })"

text \<open>The bean is changed in place; the new one is returned beside the answer.\<close>

definition adjust_retrans :: "sender_bean \<Rightarrow> bool \<Rightarrow> (sender_bean \<times> bool) proc" where
  "adjust_retrans b has_svc =
     (if is_null (sb_msg_ctx_ref_key b) then ret (b, False)
      else do {
        property_bean \<leftarrow> get_property_bean has_svc;
        let max_attempts = (case property_bean of None \<Rightarrow> -1 | Some pb \<Rightarrow> pb_max_retrans_count pb);
        let b1 = b\<lparr>sb_sent_count := sb_sent_count b + 1\<rparr>;
        let too_many = (max_attempts > 0 \<and> sb_sent_count b1 > max_attempts);
        seq_timed_out \<leftarrow> has_seq_timedout (sb_internal_seq_id b1) has_svc;
        if too_many \<or> seq_timed_out then do {
          finalize_timedout_seq (sb_internal_seq_id b1);
          ret (b1\<lparr>sb_send := False\<rparr>, False)
        } else ret (b1, True)
      })"

text \<open>The caret of \<open>2^count\<close> is exclusive or in C.\<close>

definition next_exp_backoff_diff :: "int \<Rightarrow> int \<Rightarrow> int" where
  "next_exp_backoff_diff count initial_interval = initial_interval * (2 XOR count)"

definition adjust_next_retrans_time :: "sender_bean \<Rightarrow> property_bean \<Rightarrow> sender_bean proc" where
  "adjust_next_retrans_time b pb = do {
     let count = sb_sent_count b;
     let base_interval = pb_retrans_interval pb;
     let new_interval = (if pb_is_exp_backoff pb then next_exp_backoff_diff count base_interval
                         else base_interval);
     time_now \<leftarrow> current_time_in_millis;
     ret (b\<lparr>sb_time_to_send := time_now + new_interval\<rparr>)
   }"

section \<open>Properties\<close>

text \<open>With exponential back-off on, the second retransmission of a
  message is not delayed at all, and the delay after three attempts is smaller than the delay
  after one: the interval is multiplied by the exclusive or of 2 and the number of attempts.\<close>

theorem backoff_is_not_exponential:
  "next_exp_backoff_diff 2 base = 0 \<and> next_exp_backoff_diff 1 base = 3 * base
   \<and> next_exp_backoff_diff 3 base = base"
  by (simp add: next_exp_backoff_diff_def)

text \<open>Without exponential back-off the next time to send is one
  retransmission interval after the present, and nothing else of the bean changes; the
  database is not touched.\<close>

lemma next_retrans_time_fixed:
  "\<not> pb_is_exp_backoff pb \<Longrightarrow>
   run_state (adjust_next_retrans_time b pb) w
     = (b\<lparr>sb_time_to_send := w_clock w (w_tick w) + pb_retrans_interval pb\<rparr>, tick w)"
  by (simp add: adjust_next_retrans_time_def exec_simps Let_def)

lemma next_retrans_time_example:
  "run_state (adjust_next_retrans_time sender_bean_create (property_bean_create\<lparr>pb_retrans_interval := 20\<rparr>)) idle_world
     = (sender_bean_create\<lparr>sb_time_to_send := 1020\<rparr>, tick idle_world)"
  using next_retrans_time_fixed[of "property_bean_create\<lparr>pb_retrans_interval := 20\<rparr>" sender_bean_create idle_world]
  by (simp add: property_bean_create_def)

lemma has_seq_timedout_state:
  assumes "ready w" "cf_property_bean (w_conf w) = Some pb"
  shows "snd (run_state (has_seq_timedout (Some i) True) w)
     = (if pb_inactive_timeout_interval pb \<le> 0 then w else tick (tick w))"
  using assms by (simp add: has_seq_timedout_def is_null_def exec_simps Let_def)

text \<open>The branch that gives up.\<close>

lemma adjust_timed_out:
  assumes "ready w" "sender_ok (w_sender w)" "create_seq_ok (w_create_seq w)" "props_ok (w_seq_prop w)"
    and "cf_property_bean (w_conf w) = Some pb" "sb_internal_seq_id b = Some i"
    and "sb_msg_ctx_ref_key b \<noteq> None"
    and "prop_value w i SEQ_PROP_OUTGOING_SEQUENCE_ID \<noteq> Some i"
    and gives_up: "(pb_max_retrans_count pb > 0 \<and> sb_sent_count b + 1 > pb_max_retrans_count pb)
        \<or> fst (run_state (has_seq_timedout (Some i) True) w)"
  shows "\<exists>w'. run_state (adjust_retrans b True) w
       = ((b\<lparr>sb_sent_count := sb_sent_count b + 1, sb_send := False\<rparr>, False), w')
     \<and> w_sender w' = filter (\<lambda>r. sr_internal_seq_id r \<noteq> i) (w_sender w)
     \<and> prop_value w' i SEQ_PROP_SEQ_TIMED_OUT = Some AXIS2_VALUE_TRUE"
proof -
  let ?v = "if pb_inactive_timeout_interval pb \<le> 0 then w else tick (tick w)"
  obtain timed where timed: "run_state (has_seq_timedout (Some i) True) w = (timed, ?v)"
    using has_seq_timedout_state[OF assms(1,5)] by (metis prod.collapse)
  obtain key where key: "sb_msg_ctx_ref_key b = Some key" using assms(7) by blast
  have v: "ready ?v" "w_sender ?v = w_sender w" "w_seq_prop ?v = w_seq_prop w"
    "w_create_seq ?v = w_create_seq w" "prop_value ?v = prop_value w"
    using assms(1) by (auto simp: prop_value_pvals)
  obtain u where u: "run_state (clean_sending_side_data (Some i)) ?v = (AXIS2_SUCCESS, u)"
    "w_sender u = filter (\<lambda>r. sr_internal_seq_id r \<noteq> i) (w_sender w)" "ready u"
    using clean_sending_side_state[of ?v "prop_value w i SEQ_PROP_OUTGOING_SEQUENCE_ID" i]
      v assms(2-4,8) by auto
  let ?w' = "tick (u\<lparr>w_seq_prop := w_seq_prop u
    @ [seq_property_row_of (mk_prop i SEQ_PROP_SEQ_TIMED_OUT AXIS2_VALUE_TRUE)]\<rparr>)"
  have to: "run_state (time_out_sending_side_seq (Some i)) ?v = (AXIS2_SUCCESS, ?w')"
    using u(1,3) by (simp add: time_out_sending_side_seq_def is_null_def exec_simps
        seq_property_bean_create_with_data_def mk_prop_def split del: if_split)
  have "(0 < pb_max_retrans_count pb \<and> pb_max_retrans_count pb \<le> sb_sent_count b) \<or> timed"
    using gives_up timed by auto
  then have "run_state (adjust_retrans b True) w
      = ((b\<lparr>sb_sent_count := sb_sent_count b + 1, sb_send := False\<rparr>, False), ?w')"
    using assms(5,6) key timed to
    by (simp add: adjust_retrans_def finalize_timedout_seq_def is_null_def exec_simps Let_def
        split del: if_split)
  moreover have "prop_value ?w' i SEQ_PROP_SEQ_TIMED_OUT = Some AXIS2_VALUE_TRUE"
    by (simp add: prop_value_pvals pvals_simps)
  ultimately show ?thesis using u(2) by (intro exI[of _ ?w']) simp
qed

text \<open>When a sequence is given up: a positive number of attempts is configured and exceeded with the
  coming one, or a positive interval of inactivity is configured and has passed since the last activity.\<close>

definition gives_up :: "property_bean \<Rightarrow> int \<Rightarrow> cstr \<Rightarrow> int \<Rightarrow> bool" where
  "gives_up pb sent_count last_activated now \<longleftrightarrow>
     0 < pb_max_retrans_count pb \<and> pb_max_retrans_count pb < sent_count + 1
   \<or> 0 < pb_inactive_timeout_interval pb
     \<and> (case last_activated of None \<Rightarrow> False
         | Some v \<Rightarrow> 0 < atol v \<and> atol v + pb_inactive_timeout_interval pb < now)"

text \<open>C9: a message with a storage key and a sequence is sent again,
  its count of attempts raised by one, as long as neither the configured number of attempts
  is exceeded nor the sequence inactive for too long, and then no table changes.  In the other case it is not: every
  message of its sequence is taken out of the sender table, and none of another sequence, and the sequence is
  marked as timed out.\<close>

theorem adjust_retrans_gives_up:
  assumes "ready w" "sender_ok (w_sender w)" "create_seq_ok (w_create_seq w)" "props_ok (w_seq_prop w)"
    and "cf_property_bean (w_conf w) = Some pb" "sb_internal_seq_id b = Some i"
    and "sb_msg_ctx_ref_key b \<noteq> None"
    and "prop_value w i SEQ_PROP_OUTGOING_SEQUENCE_ID \<noteq> Some i"
    and "over = gives_up pb (sb_sent_count b) (prop_value w i SEQ_PROP_LAST_ACTIVATED_TIME) (w_clock w (Suc (w_tick w)))"
  shows "\<exists>w'. run_state (adjust_retrans b True) w
       = ((b\<lparr>sb_sent_count := sb_sent_count b + 1, sb_send := sb_send b \<and> \<not> over\<rparr>, \<not> over), w')
     \<and> (over \<longrightarrow> w_sender w' = filter (\<lambda>r. sr_internal_seq_id r \<noteq> i) (w_sender w)
          \<and> prop_value w' i SEQ_PROP_SEQ_TIMED_OUT = Some AXIS2_VALUE_TRUE)
     \<and> (\<not> over \<longrightarrow> (\<exists>k. w' = w\<lparr>w_tick := k\<rparr>))"
proof -
  have over: "over \<longleftrightarrow> (pb_max_retrans_count pb > 0 \<and> sb_sent_count b + 1 > pb_max_retrans_count pb)
        \<or> fst (run_state (has_seq_timedout (Some i) True) w)"
    unfolding assms(9) gives_up_def run_has_seq_timedout[OF assms(1,5)] by (auto split: option.split)
  show ?thesis
  proof (cases over)
    case True
    then show ?thesis using adjust_timed_out[OF assms(1-8)] over by auto
  next
    case False
    let ?v = "if pb_inactive_timeout_interval pb \<le> 0 then w else tick (tick w)"
    obtain timed where timed: "run_state (has_seq_timedout (Some i) True) w = (timed, ?v)"
      using has_seq_timedout_state[OF assms(1,5)] by (metis prod.collapse)
    have "?v = w\<lparr>w_tick := if pb_inactive_timeout_interval pb \<le> 0 then w_tick w else Suc (Suc (w_tick w))\<rparr>"
      by (simp add: tick_def)
    then have v: "\<exists>k. ?v = w\<lparr>w_tick := k\<rparr>" by (rule exI)
    have "\<not> (0 < pb_max_retrans_count pb \<and> pb_max_retrans_count pb \<le> sb_sent_count b)" "\<not> timed"
      using False over timed by auto
    then have "run_state (adjust_retrans b True) w = ((b\<lparr>sb_sent_count := sb_sent_count b + 1\<rparr>, True), ?v)"
      using assms(5-7) timed
      by (cases "0 < pb_max_retrans_count pb")
         (auto simp: adjust_retrans_def is_null_def exec_simps Let_def split del: if_split)
    then show ?thesis using False v by (intro exI[of _ ?v] conjI) simp_all
  qed
qed

theorem adjust_retrans_gives_up_witness:
  "\<exists>w'. run_state (adjust_retrans (sender_bean_create\<lparr>sb_msg_ctx_ref_key := Some ''k1'',
        sb_internal_seq_id := Some ''i'', sb_sent_count := 10\<rparr>) True) out_world
      = ((sender_bean_create\<lparr>sb_msg_ctx_ref_key := Some ''k1'', sb_internal_seq_id := Some ''i'',
          sb_sent_count := 11, sb_send := False\<rparr>, False), w')
     \<and> prop_value w' ''i'' SEQ_PROP_SEQ_TIMED_OUT = Some AXIS2_VALUE_TRUE"
  using adjust_retrans_gives_up[of out_world "the (cf_property_bean sample_conf)"
      "sender_bean_create\<lparr>sb_msg_ctx_ref_key := Some ''k1'', sb_internal_seq_id := Some ''i'',
         sb_sent_count := 10\<rparr>" "''i''" True] out_world_facts
  by (auto simp: out_world_def sample_conf_def sender_bean_create_def property_bean_create_def gives_up_def)

end
