(* ===== verification/Msg_Creator.thy ===== *)
theory Msg_Creator
  imports Terminate_Mgr
begin

text \<open>
  Messages that the processors build: the rest of \<open>src/util/msg_creator.c\<close>, beside the
  acknowledgement and the TerminateSequence message, and \<open>sandesha2_utils_create_out_msg_ctx\<close>.
  A function that returns a null pointer gives \<open>None\<close>.
\<close>

text \<open>A fallible constant whose error is a null pointer.\<close>

definition right :: "sandesha2_error + string \<Rightarrow> cstr" where
  "right r = (case r of Inl _ \<Rightarrow> None | Inr x \<Rightarrow> Some x)"

text \<open>
  \<open>sandesha2_utils_create_out_msg_ctx\<close>: the answer to a message, with a fresh id, addressed to
  where the message asks for answers.
\<close>

definition create_out_msg_ctx :: "rm_msg \<Rightarrow> out_msg proc" where
  "create_out_msg_ctx in_msg_ctx = do {
     msg_uuid \<leftarrow> uuid_gen;
     ret ((new_out_msg MSG_TYPE_UNKNOWN)
            \<lparr>om_msg_id := Some msg_uuid, om_to := rm_reply_to in_msg_ctx,
             om_relates_to := Some (rm_msg_id in_msg_ctx), om_action := rm_wsa_action in_msg_ctx\<rparr>)
   }"

text \<open>The offer that a CreateSequence response accepts: one with a name.\<close>

definition accepted_offer :: "rm_msg \<Rightarrow> cstr option option" where
  "accepted_offer create_seq_msg =
     (case rm_create_seq create_seq_msg of
        None \<Rightarrow> None
      | Some cs \<Rightarrow>
          (case cp_offer cs of
             Some (Some out_seq_id) \<Rightarrow>
               if out_seq_id \<noteq> '''' then Some (rm_to create_seq_msg) else None
           | _ \<Rightarrow> None))"

definition create_create_seq_res_msg :: "rm_msg \<Rightarrow> out_msg \<Rightarrow> cstr \<Rightarrow> out_msg option proc" where
  "create_create_seq_res_msg create_seq_msg out_msg new_seq_id = do {
     rm_version \<leftarrow> get_rm_version create_seq_msg;
     (case rm_version of
        None \<Rightarrow> ret None
      | Some v \<Rightarrow> do {
          addressing_ns_value \<leftarrow> get_seq_property new_seq_id (Some SEQ_PROP_ADDRESSING_NAMESPACE_VALUE);
          (if is_null addressing_ns_value then ret None
           else do {
             (if is_null (get_rm_ns_val rm_version) then undefined_behaviour else ret ());
             new_msg_id \<leftarrow> uuid_gen;
             ret (Some (out_msg\<lparr>om_type := MSG_TYPE_CREATE_SEQ_RESPONSE, om_seq_id := new_seq_id,
                 om_accept := accepted_offer create_seq_msg,
                 om_action := right (get_create_seq_res_action v), om_msg_id := Some new_msg_id\<rparr>))
           })
        })
   }"

text \<open>The responses to CloseSequence and TerminateSequence name the sequence of the request.\<close>

definition version_or_default :: "cstr \<Rightarrow> cstr \<Rightarrow> cstr" where
  "version_or_default d v = (case v of None \<Rightarrow> d | Some s \<Rightarrow> Some s)"

definition action_for :: "(string \<Rightarrow> sandesha2_error + string) \<Rightarrow> cstr \<Rightarrow> cstr" where
  "action_for action v = (case v of None \<Rightarrow> None | Some s \<Rightarrow> right (action s))"

definition create_close_seq_res_msg :: "rm_msg \<Rightarrow> out_msg \<Rightarrow> out_msg proc" where
  "create_close_seq_res_msg close_seq_msg out_msg = do {
     rm_version \<leftarrow> get_rm_version close_seq_msg;
     ret (out_msg\<lparr>om_type := MSG_TYPE_CLOSE_SEQ_RESPONSE,
            om_seq_id := Option.bind (rm_close_seq close_seq_msg) (\<lambda>s. s),
            om_action := action_for get_close_seq_res_action rm_version,
            om_soap_action := action_for get_close_seq_res_action rm_version\<rparr>)
   }"

definition create_terminate_seq_res_msg :: "rm_msg \<Rightarrow> out_msg \<Rightarrow> out_msg proc" where
  "create_terminate_seq_res_msg ref_rm_msg out_msg = do {
     version \<leftarrow> get_rm_version ref_rm_msg;
     let rm_version = version_or_default (get_rm_spec_ver ref_rm_msg) version;
     ret (out_msg\<lparr>om_type := MSG_TYPE_TERMINATE_SEQ_RESPONSE,
            om_seq_id := Option.bind (rm_terminate_seq ref_rm_msg) (\<lambda>s. s),
            om_action := right (get_teminate_seq_res_action rm_version),
            om_soap_action := right (get_teminate_seq_res_action rm_version)\<rparr>)
   }"

section \<open>CreateSequence\<close>

text \<open>
  \<open>sandesha2_msg_creator_create_create_seq_msg\<close>.  A requesting operation offers a sequence for
  the answers under a fresh id.
\<close>

definition addr_of :: "cstr option \<Rightarrow> cstr" where
  "addr_of epr = Option.bind epr (\<lambda>a. a)"

definition new_offer :: "rm_msg \<Rightarrow> cstr option proc" where
  "new_offer application_rm_msg = do {
     out_in \<leftarrow> asks (\<lambda>w. cf_mep_out_in (w_conf w));
     (if rm_mep application_rm_msg = out_in then do { u \<leftarrow> uuid_gen; ret (Some (Some u)) }
      else ret None)
   }"

text \<open>
  Where the message goes, where answers go and where acknowledgements go: the properties of the
  sequence, the application message, the anonymous address.
\<close>

definition create_seq_to :: "rm_msg \<Rightarrow> cstr \<Rightarrow> cstr option" where
  "create_seq_to application_rm_msg to_value =
     (case rm_target_epr application_rm_msg of
        Some t \<Rightarrow> Some t
      | None \<Rightarrow> (case rm_to application_rm_msg of
                  Some t \<Rightarrow> Some t
                | None \<Rightarrow> map_option Some to_value))"

definition create_seq_acks_to :: "cstr \<Rightarrow> cstr \<Rightarrow> cstr \<Rightarrow> cstr" where
  "create_seq_acks_to reply_to_value acks_to anonymous_uri =
     (let a = (case reply_to_value of None \<Rightarrow> acks_to | Some v \<Rightarrow> Some v) in
      if a = None \<or> a = Some '''' then anonymous_uri else a)"

definition create_create_seq_msg :: "rm_msg \<Rightarrow> cstr \<Rightarrow> cstr \<Rightarrow> out_msg option proc" where
  "create_create_seq_msg application_rm_msg internal_seq_id acks_to = do {
     create_seq_msg_id \<leftarrow> uuid_gen;
     rm_version \<leftarrow> get_rm_version application_rm_msg;
     (case rm_version of
        None \<Rightarrow> ret None
      | Some v \<Rightarrow> do {
          addressing_ns_value \<leftarrow> get_seq_property internal_seq_id (Some SEQ_PROP_ADDRESSING_NAMESPACE_VALUE);
          (if is_null (get_rm_ns_val rm_version) \<or> is_null addressing_ns_value then ret None
           else do {
             offer \<leftarrow> new_offer application_rm_msg;
             reply_to_bean \<leftarrow> seq_prop_retrieve internal_seq_id (Some SEQ_PROP_REPLY_TO_EPR);
             to_bean \<leftarrow> seq_prop_retrieve internal_seq_id (Some SEQ_PROP_TO_EPR);
             anonymous_uri \<leftarrow> asks (\<lambda>w. get_anon_uri (cf_wsa (w_conf w)) addressing_ns_value);
             ret (Some ((new_out_msg MSG_TYPE_CREATE_SEQ)
               \<lparr>om_msg_id := Some create_seq_msg_id,
                om_to := create_seq_to application_rm_msg (bean_value to_bean),
                om_reply_to := (case bean_value reply_to_bean of
                    Some r \<Rightarrow> Some (Some r) | None \<Rightarrow> rm_reply_to application_rm_msg),
                om_acks_to := Some (create_seq_acks_to (bean_value reply_to_bean) acks_to anonymous_uri),
                om_offer := offer, om_transport_url := rm_transport_url application_rm_msg,
                om_action := right (get_create_seq_action v),
                om_soap_action := right (get_create_seq_action v)\<rparr>))
           })
        })
   }"

text \<open>\<open>sandesha2_msg_creator_create_close_seq_msg\<close>\<close>

definition create_close_seq_msg :: "rm_msg \<Rightarrow> cstr \<Rightarrow> cstr \<Rightarrow> out_msg option proc" where
  "create_close_seq_msg ref_rm_msg seq_id internal_seq_id = do {
     version \<leftarrow> get_rm_version ref_rm_msg;
     (case version of
        None \<Rightarrow> ret None
      | Some rm_version \<Rightarrow> do {
          temp_msg_id \<leftarrow> uuid_gen;
          last_msg_number \<leftarrow> terminate_last_msg_number rm_version internal_seq_id;
          ret (Some ((new_out_msg MSG_TYPE_CLOSE_SEQ)
            \<lparr>om_msg_id := Some temp_msg_id, om_seq_id := seq_id,
             om_transport_url := rm_transport_url ref_rm_msg,
             om_last_msg_number := last_msg_number\<rparr>))
        })
   }"

end
