(* ===== verification/Fault_Mgr.thy ===== *)
theory Fault_Mgr
  imports Ack_Mgr
begin

text \<open>
  \<open>src/util/fault_mgr.c\<close>: the checks a received message goes through, each of which yields a
  fault message or nothing.
\<close>

section \<open>The fault message\<close>

definition fault_acks_to :: "rm_msg \<Rightarrow> cstr \<Rightarrow> cstr proc" where
  "fault_acks_to m seq_id =
     (if rm_msg_type m = MSG_TYPE_CREATE_SEQ then
        (case rm_create_seq m of
           None \<Rightarrow> do { undefined_behaviour; ret None }
         | Some cs \<Rightarrow> (case cp_acks_to cs of
                         None \<Rightarrow> do { undefined_behaviour; ret None }
                       | Some a \<Rightarrow> ret a))
      else do {
        acks_to_bean \<leftarrow> seq_prop_retrieve seq_id (Some SEQ_PROP_ACKS_TO_EPR);
        ret (bean_value acks_to_bean)
      })"

definition get_fault :: "rm_msg \<Rightarrow> fault_data \<Rightarrow> fault_msg option proc" where
  "get_fault m fd =
     (if is_null (rm_addr_ns_val m) then ret None
      else do {
        acks_to_str \<leftarrow> fault_acks_to m (fd_seq_id fd);
        anonymous \<leftarrow> asks (\<lambda>w. is_anon_uri (cf_wsa (w_conf w)) (cf_trim (w_conf w)) acks_to_str);
        ret (Some \<lparr>fm_data = fd, fm_to = (if anonymous then None else Some acks_to_str)\<rparr>)
      })"

definition new_fault :: "rm_msg \<Rightarrow> soap_fault \<Rightarrow> string \<Rightarrow> fault_data" where
  "new_fault m fault reason =
     \<lparr>fd_fault = fault, fd_soap11_code = rm_soap11 m, fd_reason = reason, fd_seq_id = None\<rparr>"

section \<open>The checks\<close>

text \<open>The test that would refuse a sequence is never made.\<close>

definition check_for_create_seq_refused :: "rm_msg \<Rightarrow> sandesha2_error + fault_msg option" where
  "check_for_create_seq_refused m =
     (case rm_create_seq m of
        None \<Rightarrow> Inl ERROR_REQD_MSG_PART_MISSING
      | Some _ \<Rightarrow> Inr None)"

definition exceeded_reason :: "int \<Rightarrow> int \<Rightarrow> string" where
  "exceeded_reason msg_num last_msg_no =
     ''The message number of the message '' @ sprintf_ld msg_num
     @ '' exceeded the last message number '' @ sprintf_ld last_msg_no
     @ '' which was mentioned as last message in a previosly received application message''"

text \<open>\<open>has_mgr\<close>: whether the caller passes a property manager or a null pointer.\<close>

definition check_for_last_msg_num_exceeded :: "bool \<Rightarrow> rm_msg \<Rightarrow> fault_msg option proc" where
  "check_for_last_msg_num_exceeded has_mgr m =
     (if \<not> has_mgr then ret None
      else (case rm_sequence m of
              None \<Rightarrow> do { undefined_behaviour; ret None }
            | Some sq \<Rightarrow> do {
                last_msg_bean \<leftarrow> seq_prop_retrieve (get_internal_sequence_id (sq_identifier sq))
                  (Some SEQ_PROP_LAST_OUT_MESSAGE_NO);
                (case bean_value last_msg_bean of
                   None \<Rightarrow> ret None
                 | Some v \<Rightarrow>
                     if sq_msg_no sq > atol v then
                       get_fault m (new_fault m Fault_Last_Message_No_Exceeded
                         (exceeded_reason (sq_msg_no sq) (atol v)))
                     else ret None)
              }))"

definition check_for_msg_num_rollover :: "rm_msg \<Rightarrow> fault_msg option" where
  "check_for_msg_num_rollover m = None"

definition on_sending_side :: "message_type \<Rightarrow> bool" where
  "on_sending_side type \<longleftrightarrow> type = MSG_TYPE_ACK \<or> type = MSG_TYPE_CREATE_SEQ_RESPONSE
     \<or> type = MSG_TYPE_TERMINATE_SEQ_RESPONSE \<or> type = MSG_TYPE_CLOSE_SEQ_RESPONSE"

definition valid_seq :: "message_type \<Rightarrow> string \<Rightarrow> bool proc" where
  "valid_seq type seq_id =
     (if on_sending_side type then do {
        found \<leftarrow> create_seq_find (Some (create_seq_bean_create\<lparr>cs_seq_id := Some seq_id\<rparr>));
        ret (list_size found \<noteq> 0)
      } else do {
        found \<leftarrow> next_msg_retrieve_all;
        ret (list_ex (\<lambda>b. nm_seq_id b = Some seq_id) (list_elems found))
      })"

definition check_for_unknown_seq :: "rm_msg \<Rightarrow> cstr \<Rightarrow> fault_msg option proc" where
  "check_for_unknown_seq m seq_id =
     (case seq_id of
        None \<Rightarrow> ret None
      | Some s \<Rightarrow> do {
          valid \<leftarrow> valid_seq (rm_msg_type m) s;
          if \<not> valid then
            get_fault m (new_fault m Fault_Unknown_Seq
              ''A sequence with the given sequenceID has NOT been established'')
          else ret None
        })"

definition invalid_ranges :: "ack_range list option \<Rightarrow> bool" where
  "invalid_ranges ack_range_list =
     (case ack_range_list of
        None \<Rightarrow> False
      | Some rs \<Rightarrow> list_ex (\<lambda>r. ar_lower r > ar_upper r) rs)"

definition check_for_invalid_ack :: "rm_msg \<Rightarrow> fault_msg option proc" where
  "check_for_invalid_ack m =
     (if rm_msg_type m \<noteq> MSG_TYPE_ACK then ret None
      else (case rm_seq_ack m of
              None \<Rightarrow> do { undefined_behaviour; ret None }
            | Some sk \<Rightarrow>
                if invalid_ranges (sk_ranges sk) then
                  get_fault m (new_fault m Fault_Invalid_Acknowledgement
                    ''The SequenceAcknowledgement is invalid. Lower value is larger than upper value'')
                else ret None))"

definition closed_reason :: "string \<Rightarrow> string" where
  "closed_reason seq_id = ''The sequence with the id '' @ seq_id
     @ '' was closed previously. Cannot accept this message''"

definition check_for_seq_closed :: "rm_msg \<Rightarrow> cstr \<Rightarrow> fault_msg option proc" where
  "check_for_seq_closed m seq_id =
     (case seq_id of
        None \<Rightarrow> ret None
      | Some s \<Rightarrow> do {
          closed_bean \<leftarrow> seq_prop_retrieve seq_id (Some SEQ_PROP_SEQ_CLOSED);
          if bean_value closed_bean = Some AXIS2_VALUE_TRUE then
            get_fault m (new_fault m Fault_Sequence_Closed (closed_reason s))
          else ret None
        })"

section \<open>Runs of the checks\<close>

lemma run_fault_of [exec_simps]:
  assumes "ready w" "rm_msg_type m \<noteq> MSG_TYPE_CREATE_SEQ"
  shows "run_state (get_fault m (new_fault m fault reason)) w
     = (if rm_addr_ns_val m = None then (None, w)
        else (Some \<lparr>fm_data = new_fault m fault reason, fm_to = None\<rparr>, tick w))"
  using assms
  by (auto simp: get_fault_def is_null_def new_fault_def fault_acks_to_def exec_simps bean_value_def
      is_anon_uri_def)

lemma run_valid_seq [exec_simps]:
  assumes "ready w"
  shows "run_state (valid_seq type s) w
     = (if on_sending_side type then \<exists>r \<in> set (w_create_seq w). cr_seq_id r = s
        else \<exists>r \<in> set (w_next_msg w). nr_seq_id r = s, tick w)"
proof -
  have "create_seq_find_cond (Some (create_seq_bean_create\<lparr>cs_seq_id := Some s\<rparr>)) = (\<lambda>r. cr_seq_id r = s)"
    by (simp add: fun_eq_iff create_seq_find_cond_def create_seq_bean_create_def opt_text_cond_def)
  moreover have "nm_seq_id (next_msg_dec r) = Some (nr_seq_id r)" for r
    by (simp add: next_msg_dec_def next_msg_fill_def next_msg_bean_create_def)
  ultimately show ?thesis using assms
    by (auto simp: valid_seq_def exec_simps Let_def list_size_def list_ex_iff filter_empty_conv)
qed

text \<open>A message other than a CreateSequence, in a known addressing
  namespace and with a sequence id, is answered with an unknown-sequence fault exactly when
  the sequence is not known: on the receiving side when there is no next-message bean for it,
  for answers of the receiving side when there is no create-sequence bean with that id.\<close>

theorem check_for_unknown_seq_iff:
  assumes "ready w" "rm_msg_type m \<noteq> MSG_TYPE_CREATE_SEQ" "rm_addr_ns_val m \<noteq> None"
  shows "fst (run_state (check_for_unknown_seq m (Some s)) w) = None \<longleftrightarrow>
     (if on_sending_side (rm_msg_type m) then \<exists>r \<in> set (w_create_seq w). cr_seq_id r = s
      else \<exists>r \<in> set (w_next_msg w). nr_seq_id r = s)"
  using assms by (auto simp: check_for_unknown_seq_def exec_simps)

theorem check_for_unknown_seq_iff_witness:
  "fst (run_state (check_for_unknown_seq sample_msg (Some ''s'')) idle_world) = None \<longleftrightarrow> False"
  using check_for_unknown_seq_iff[of idle_world sample_msg "''s''"]
  by (simp add: sample_msg_def on_sending_side_def)

text \<open>A fault that answers a message other than a CreateSequence never
  has an address to go to: the id of the sequence is not put into the fault data, so the
  acknowledgement address of the sequence is looked up under no id and found anonymous.\<close>

theorem faults_carry_no_address:
  assumes "ready w" "rm_msg_type m \<noteq> MSG_TYPE_CREATE_SEQ"
    and "fst (run_state (check_for_seq_closed m (Some s)) w) = Some f
       \<or> fst (run_state (check_for_unknown_seq m (Some s)) w) = Some f
       \<or> fst (run_state (check_for_invalid_ack m) w) = Some f"
  shows "fm_to f = None"
  using assms
  by (auto simp: check_for_unknown_seq_def check_for_seq_closed_def check_for_invalid_ack_def exec_simps
      split: if_splits option.splits)

theorem faults_carry_no_address_witness:
  "fm_to (the (fst (run_state (check_for_unknown_seq sample_msg (Some ''s'')) idle_world))) = None"
proof -
  have "fst (run_state (check_for_unknown_seq sample_msg (Some ''s'')) idle_world)
      = Some (the (fst (run_state (check_for_unknown_seq sample_msg (Some ''s'')) idle_world)))"
    by (simp add: check_for_unknown_seq_def exec_simps sample_msg_def on_sending_side_def)
  then show ?thesis
    using faults_carry_no_address[of idle_world sample_msg "''s''"] by (simp add: sample_msg_def)
qed

text \<open>A message for a sequence is answered with a closed-sequence fault
  exactly when the sequence's closed property holds the text true.\<close>

theorem seq_closed_fault_iff:
  assumes "ready w" "rm_msg_type m \<noteq> MSG_TYPE_CREATE_SEQ" "rm_addr_ns_val m \<noteq> None"
  shows "fst (run_state (check_for_seq_closed m (Some s)) w) \<noteq> None
     \<longleftrightarrow> prop_value w s SEQ_PROP_SEQ_CLOSED = Some AXIS2_VALUE_TRUE"
  using assms by (auto simp: check_for_seq_closed_def exec_simps prop_value_bean)

theorem seq_closed_fault_iff_witness:
  "fst (run_state (check_for_seq_closed sample_msg (Some ''s'')) idle_world) \<noteq> None
     \<longleftrightarrow> prop_value idle_world ''s'' SEQ_PROP_SEQ_CLOSED = Some AXIS2_VALUE_TRUE"
  by (rule seq_closed_fault_iff) (simp_all add: sample_msg_def)

end
