(* ===== verification/Frames.thy ===== *)
theory Frames
  imports Prop_Values
begin

text \<open>
  Invariants of handlers by their structure: a computation keeps a predicate when every run
  from a state with it ends in a state with it.  The rules follow the constructs the handlers
  are written with, so that a proof for a handler is a proof for the operations it calls.
\<close>

section \<open>Keeping a predicate\<close>

named_theorems keeps_rules "computations that keep a predicate"

definition keeps :: "(world \<Rightarrow> bool) \<Rightarrow> 'a proc \<Rightarrow> bool" where
  "keeps P c \<longleftrightarrow> (\<forall>w. P w \<longrightarrow> P (snd (run_state c w)))"

lemma keepsI: "(\<And>w. P w \<Longrightarrow> P (snd (run_state c w))) \<Longrightarrow> keeps P c"
  by (simp add: keeps_def)

lemma keepsD: "keeps P c \<Longrightarrow> P w \<Longrightarrow> P (snd (run_state c w))"
  by (simp add: keeps_def)

lemma keeps_run: "keeps P c \<Longrightarrow> P w \<Longrightarrow> run_state c w = (x, v) \<Longrightarrow> P v"
  by (drule (1) keepsD) simp

text \<open>From one predicate to another.\<close>

definition leads :: "(world \<Rightarrow> bool) \<Rightarrow> (world \<Rightarrow> bool) \<Rightarrow> 'a proc \<Rightarrow> bool" where
  "leads P Q c \<longleftrightarrow> (\<forall>w. P w \<longrightarrow> Q (snd (run_state c w)))"

lemma keeps_leads: "keeps P c = leads P P c"
  by (simp add: keeps_def leads_def)

lemma leadsI: "(\<And>w. P w \<Longrightarrow> Q (snd (run_state c w))) \<Longrightarrow> leads P Q c"
  by (simp add: leads_def)

lemma leadsD: "leads P Q c \<Longrightarrow> P w \<Longrightarrow> Q (snd (run_state c w))"
  by (simp add: leads_def)

lemma leads_keeps: "keeps Q c \<Longrightarrow> (\<And>w. P w \<Longrightarrow> Q w) \<Longrightarrow> leads P Q c"
  by (simp add: keeps_def leads_def)

lemma leads_bind: "leads P R c \<Longrightarrow> (\<And>x. leads R Q (f x)) \<Longrightarrow> leads P Q (c \<bind> f)"
  by (auto simp: leads_def split: prod.split)

lemma leads_keep_bind: "keeps P c \<Longrightarrow> (\<And>x. leads P Q (f x)) \<Longrightarrow> leads P Q (c \<bind> f)"
  by (auto simp: leads_def keeps_def split: prod.split)

lemma leads_cases:
  "leads P Q a \<Longrightarrow> leads P Q b \<Longrightarrow> leads P Q (if c then a else b)"
  "leads P Q a \<Longrightarrow> (\<And>x. leads P Q (f x)) \<Longrightarrow> leads P Q (case y of None \<Rightarrow> a | Some x \<Rightarrow> f x)"
  by (simp_all split: option.split)

lemma keeps_return [keeps_rules]: "keeps P (ret x)"
  by (simp add: keeps_def)

lemma keeps_bind [keeps_rules]:
  "keeps P c \<Longrightarrow> (\<And>x. keeps P (f x)) \<Longrightarrow> keeps P (c \<bind> f)"
  by (auto simp: keeps_def split: prod.split)

lemma keeps_if [keeps_rules]: "keeps P a \<Longrightarrow> keeps P b \<Longrightarrow> keeps P (if c then a else b)"
  by simp

lemma keeps_option [keeps_rules]:
  "keeps P a \<Longrightarrow> (\<And>x. keeps P (f x)) \<Longrightarrow> keeps P (case y of None \<Rightarrow> a | Some x \<Rightarrow> f x)"
  by (simp split: option.split)

lemma keeps_sum [keeps_rules]:
  "(\<And>x. keeps P (f x)) \<Longrightarrow> (\<And>x. keeps P (g x)) \<Longrightarrow> keeps P (case y of Inl x \<Rightarrow> f x | Inr x \<Rightarrow> g x)"
  by (simp split: sum.split)

lemma keeps_prod [keeps_rules]: "(\<And>a b. keeps P (f a b)) \<Longrightarrow> keeps P (case y of (a, b) \<Rightarrow> f a b)"
  by (simp split: prod.split)

lemma keeps_list [keeps_rules]:
  "keeps P a \<Longrightarrow> (\<And>x xs. keeps P (f x xs)) \<Longrightarrow> keeps P (case y of [] \<Rightarrow> a | x # xs \<Rightarrow> f x xs)"
  by (simp split: list.split)

lemma keeps_Let [keeps_rules]: "(\<And>x. keeps P (f x)) \<Longrightarrow> keeps P (let x = e in f x)"
  by (simp add: Let_def)

lemma keeps_for_each [keeps_rules]:
  assumes "\<And>x. keeps P (f x)"
  shows "keeps P (for_each f xs)"
  by (rule keepsI, erule for_each_invariant[rotated]) (rule keepsD[OF assms])

lemma keeps_for_each_in:
  assumes "\<And>x. x \<in> set xs \<Longrightarrow> keeps P (f x)"
  shows "keeps P (for_each f xs)"
  by (rule keepsI, erule for_each_invariant[rotated]) (rule keepsD[OF assms])

lemma keeps_asks [keeps_rules]: "keeps P (asks f)"
  by (simp add: keeps_def asks_def)

lemma keeps_policy [keeps_rules]: "keeps P (get_property_bean b)" "keeps P (get_rm_version m)"
  by (simp_all add: keeps_def run_policy)

section \<open>Predicates of parts of the state\<close>

text \<open>
  A predicate that does not look at the environment's counter is kept by everything that
  only asks; one that does not look at a table either is kept by the operations on that table.
\<close>

locale blind =
  fixes P :: "world \<Rightarrow> bool"
  assumes tick: "P (w\<lparr>w_tick := k\<rparr>) = P w"
begin

lemma P_tick [simp]: "P (tick w) = P w"
  by (simp add: tick_def tick)

lemma keeps_asking:
  "keeps P current_time_in_millis" "keeps P uuid_gen" "keeps P (seq_prop_retrieve s n)"
  "keeps P (seq_prop_find pb)" "keeps P (sender_find b)" "keeps P (sender_find_by_internal_seq_id i)"
  "keeps P (next_msg_retrieve k)" "keeps P (next_msg_find nb)" "keeps P next_msg_retrieve_all"
  "keeps P (create_seq_find cb)" "keeps P (retrieve_stored_msg k)" "keeps P (get_seq_property s n)"
  "keeps P (sender_find_unique b)" "keeps P (sender_retrieve k)" "keeps P (create_seq_retrieve k)"
  "keeps P create_db" "keeps P engine_answer" "keeps P connection_reply"
  "keeps P (get_application_msg_to_send s k)"
proof -
  show g: "keeps P (seq_prop_retrieve s n)" for s n by (simp add: keeps_def seq_prop_retrieve_def)
  show "keeps P (get_seq_property s n)"
    unfolding get_seq_property_def by (intro keeps_rules g)
qed (simp_all add: keeps_def current_time_in_millis_def uuid_gen_def seq_prop_find_def
      sender_find_def sender_find_by_internal_seq_id_def next_msg_retrieve_def next_msg_find_def
      next_msg_retrieve_all_def create_seq_find_def retrieve_stored_msg_def sender_find_unique_def
      sender_retrieve_def create_seq_retrieve_def create_db_def engine_answer_def connection_reply_def
      get_application_msg_to_send_def)

end

locale blind_sender = blind +
  assumes sender: "P (w\<lparr>w_sender := t\<rparr>) = P w"
begin

lemma keeps_sender_ops: "keeps P (sender_insert b)" "keeps P (sender_update b)" "keeps P (sender_remove k)"
  by (simp_all add: keeps_def sender_insert_def sender_update_def sender_remove_def Let_def sender)

end

locale blind_create_seq = blind +
  assumes create_seq: "P (w\<lparr>w_create_seq := t\<rparr>) = P w"
begin

lemma keeps_create_seq_ops:
  "keeps P (create_seq_insert b)" "keeps P (create_seq_update b)" "keeps P (create_seq_remove k)"
  by (simp_all add: keeps_def create_seq_insert_def create_seq_update_def create_seq_remove_def
      Let_def create_seq)

end

locale blind_next_msg = blind +
  assumes next_msg: "P (w\<lparr>w_next_msg := t\<rparr>) = P w"
    and invoker: "P (w\<lparr>w_invoker := u\<rparr>) = P w"
begin

lemma keeps_next_msg_ops:
  "keeps P (next_msg_insert b)" "keeps P (next_msg_remove k)" "keeps P (invoker_insert ib)"
  by (simp_all add: keeps_def next_msg_insert_def next_msg_remove_def invoker_insert_def Let_def
      next_msg invoker)

end

locale blind_msg = blind +
  assumes msg: "P (w\<lparr>w_msg := t\<rparr>) = P w"
    and ub: "P (w\<lparr>w_ub := u\<rparr>) = P w"
begin

lemma keeps_undefined: "keeps P undefined_behaviour"
  by (simp add: keeps_def undefined_behaviour_def ub)

lemma keeps_msg_ops: "keeps P (store_msg_ctx key c)" "keeps P (update_msg_ctx key c)" "keeps P (remove_msg_ctx key)"
  by (simp_all add: keeps_def store_msg_ctx_def update_msg_ctx_def remove_msg_ctx_def Let_def msg ub
      split: option.split)

end

locale blind_engine = blind +
  assumes trace: "P (w\<lparr>w_trace := tr\<rparr>) = P w"
begin

lemma keeps_engine_ops: "keeps P (emit ev)" "keeps P (engine_send m)" "keeps P (engine_send_fault f)"
  "keeps P (engine_send_stored ctx a)" "keeps P (engine_send_of_fault f)" "keeps P (engine_resume_send m)"
  by (simp_all add: keeps_def emit_def engine_send_def engine_send_fault_def engine_send_stored_def
      engine_send_of_fault_def engine_resume_send_def trace)

end

section \<open>Values of sequence properties\<close>

text \<open>
  Every property of every sequence has a value (or none) that satisfies \<open>V\<close>, whatever the
  database answers to the operations.  Writing needs \<open>V\<close> of what is written, reading gives it.
\<close>

definition vals_frame :: "(string \<Rightarrow> string \<Rightarrow> cstr \<Rightarrow> bool) \<Rightarrow> world \<Rightarrow> bool" where
  "vals_frame V w \<longleftrightarrow> props_wf (w_seq_prop w)
     \<and> (\<forall>q n. colon_free n \<longrightarrow> V q n (pvals (w_seq_prop w) q n))"

interpretation vals_frame: blind_sender "vals_frame V" for V
  by unfold_locales (simp_all add: vals_frame_def)

interpretation vals_frame: blind_create_seq "vals_frame V" for V
  by unfold_locales (simp_all add: vals_frame_def)

interpretation vals_frame: blind_next_msg "vals_frame V" for V
  by unfold_locales (simp_all add: vals_frame_def)

interpretation vals_frame: blind_msg "vals_frame V" for V
  by unfold_locales (simp_all add: vals_frame_def)

interpretation vals_frame: blind_engine "vals_frame V" for V
  by unfold_locales (simp_all add: vals_frame_def)

lemmas vals_frame_ops = vals_frame.keeps_asking vals_frame.keeps_sender_ops
  vals_frame.keeps_create_seq_ops vals_frame.keeps_next_msg_ops
  vals_frame.keeps_msg_ops vals_frame.keeps_undefined vals_frame.keeps_engine_ops

lemma fst_db_write: "fst (db_write e stmt t) = t \<or> stmt t = Some (fst (db_write e stmt t))"
  by (auto simp: db_write_def split: option.splits)

lemma seq_property_row_mk:
  assumes "sp_seq_id b = Some s" "sp_name b = Some n"
  shows "seq_property_row_of b = seq_property_row_of (mk_prop s n (sprintf_s (sp_value b)))"
  using assms by (simp add: seq_property_row_of_def get_id_with_bean_def mk_prop_def)

lemma vals_frame_row:
  assumes "sp_name b = Some n" "colon_free n"
  shows "colon_free (pr_name (seq_property_row_of b))"
    and "pr_id (seq_property_row_of b) = []
      \<or> pr_id (seq_property_row_of b) = prop_id (pr_seq_id (seq_property_row_of b)) (pr_name (seq_property_row_of b))"
proof -
  show "colon_free (pr_name (seq_property_row_of b))"
    using assms by (simp add: seq_property_row_of_def)
  show "pr_id (seq_property_row_of b) = []
      \<or> pr_id (seq_property_row_of b) = prop_id (pr_seq_id (seq_property_row_of b)) (pr_name (seq_property_row_of b))"
    using assms by (cases "sp_seq_id b") (simp_all add: null_id_bean seq_property_row_of_def get_id_with_bean_eq)
qed

lemma props_wf_write:
  assumes "props_wf t" "sp_name b = Some n" "colon_free n"
  shows "props_wf (t @ [seq_property_row_of b])" "props_wf (prop_upd b t)"
  using assms(1) vals_frame_row[OF assms(2,3)]
  by (auto simp: props_wf_def prop_upd_def)

lemma props_wf_del: "props_wf t \<Longrightarrow> props_wf (prop_del i t)"
  by (simp add: props_wf_def prop_del_def)

text \<open>A bean without a sequence id changes no value.\<close>

lemma pvals_null_id:
  assumes "sp_seq_id b = None"
  shows "pvals (t @ [seq_property_row_of b]) q m = pvals t q m" "pvals (prop_upd b t) q m = pvals t q m"
  using assms by (simp_all add: pvals_def look_after null_id_bean)

lemma vals_frame_insert_at:
  assumes "sp_name b = Some n" "colon_free n" "\<And>s. sp_seq_id b = Some s \<Longrightarrow> V s n (Some (sprintf_s (sp_value b)))"
  shows "keeps (vals_frame V) (seq_prop_insert b)"
proof (rule keepsI)
  fix w
  assume w: "vals_frame V w"
  let ?t = "fst (seq_property_mgr_insert (env_now w) (w_seq_prop w) (Some b))"
  have t: "?t = w_seq_prop w \<or> ?t = w_seq_prop w @ [seq_property_row_of b]"
    using fst_db_write[of "env_now w" "sql_insert (seq_property_row_of b)" "w_seq_prop w"]
    by (auto simp: seq_property_mgr_insert_def bean_mgr_eqs sql_insert_def)
  have "V q m (pvals (w_seq_prop w @ [seq_property_row_of b]) q m)" if "colon_free m" for q m
  proof (cases "sp_seq_id b")
    case None
    then show ?thesis using w that by (simp add: pvals_null_id vals_frame_def)
  next
    case (Some s)
    then show ?thesis
      using w that assms by (simp add: seq_property_row_mk[OF Some assms(1)] pvals_simps vals_frame_def)
  qed
  then have "vals_frame V (w\<lparr>w_seq_prop := ?t\<rparr>)"
    using t w props_wf_write(1)[OF _ assms(1,2)] by (auto simp: vals_frame_def)
  then show "vals_frame V (snd (run_state (seq_prop_insert b) w))"
    by (simp add: seq_prop_insert_def Let_def)
qed

lemma vals_frame_remove:
  assumes "colon_free n" "\<And>s. x = Some s \<Longrightarrow> V s n None"
  shows "keeps (vals_frame V) (seq_prop_remove x (Some n))"
proof (rule keepsI)
  fix w
  assume w: "vals_frame V w"
  let ?t = "fst (seq_property_mgr_remove (env_now w) (w_seq_prop w) x (Some n))"
  have "?t = w_seq_prop w \<or> (\<exists>s. x = Some s \<and> ?t = prop_del (prop_id s n) (w_seq_prop w))"
  proof (cases x)
    case (Some s)
    then show ?thesis
      using fst_db_write[of "env_now w" "sql_delete (\<lambda>r. pr_id r = prop_id s n)" "w_seq_prop w"]
      by (auto simp: seq_property_mgr_remove_def seq_property_remove_id_def is_null_def bean_mgr_eqs
          sql_delete_def prop_del_def)
  qed (simp add: seq_property_mgr_remove_def is_null_def)
  then have "vals_frame V (w\<lparr>w_seq_prop := ?t\<rparr>)"
    using w assms props_wf_del[of "w_seq_prop w"] by (auto simp: vals_frame_def pvals_simps)
  then show "vals_frame V (snd (run_state (seq_prop_remove x (Some n)) w))"
    by (simp add: seq_prop_remove_def Let_def)
qed

lemma vals_frame_update_at:
  assumes "sp_name b = Some n" "colon_free n" "\<And>s. sp_seq_id b = Some s \<Longrightarrow> V s n (Some (sprintf_s (sp_value b)))"
  shows "keeps (vals_frame V) (seq_prop_update b)"
proof (rule keepsI)
  fix w
  assume w: "vals_frame V w"
  let ?t = "fst (seq_property_mgr_update (env_now w) (w_seq_prop w) (Some b))"
  have t: "?t = w_seq_prop w \<or> ?t = prop_upd b (w_seq_prop w)"
    by (simp add: seq_property_mgr_update_def bean_mgr_eqs sql_update_def prop_upd_def db_write_def Let_def)
  have "V q m (pvals (prop_upd b (w_seq_prop w)) q m)" if m: "colon_free m" for q m
  proof (cases "sp_seq_id b")
    case None
    then show ?thesis using w m by (simp add: pvals_null_id vals_frame_def)
  next
    case (Some s)
    have "prop_upd b (w_seq_prop w) = prop_upd (mk_prop s n (sprintf_s (sp_value b))) (w_seq_prop w)"
      using seq_property_row_mk[OF Some assms(1)] Some assms(1)
      by (simp add: prop_upd_def get_id_with_bean_eq)
    moreover have "V q m (pvals (w_seq_prop w) q m)" "props_wf (w_seq_prop w)"
      using w m by (simp_all add: vals_frame_def)
    ultimately show ?thesis
      using m assms(2) assms(3)[OF Some] pvals_upd[of "w_seq_prop w" m n s "sprintf_s (sp_value b)" q]
      by (cases "pvals (w_seq_prop w) s n") (auto split: if_splits)
  qed
  then have "vals_frame V (w\<lparr>w_seq_prop := ?t\<rparr>)"
    using t w props_wf_write(2)[OF _ assms(1,2)] by (auto simp: vals_frame_def)
  then show "vals_frame V (snd (run_state (seq_prop_update b) w))"
    by (simp add: seq_prop_update_def Let_def)
qed

lemma vals_frame_writes:
  assumes "sp_name b \<noteq> None" "colon_free (the (sp_name b))"
    and "\<And>s. sp_seq_id b = Some s \<Longrightarrow> V s (the (sp_name b)) (Some (sprintf_s (sp_value b)))"
  shows "keeps (vals_frame V) (seq_prop_insert b)" "keeps (vals_frame V) (seq_prop_update b)"
    "keeps (vals_frame V) (insert_or_update added b)"
proof -
  show "keeps (vals_frame V) (seq_prop_insert b)" "keeps (vals_frame V) (seq_prop_update b)"
    using assms vals_frame_insert_at[of b "the (sp_name b)" V] vals_frame_update_at[of b "the (sp_name b)" V] by auto
  then show "keeps (vals_frame V) (insert_or_update added b)" by (simp add: insert_or_update_def)
qed

text \<open>What is read comes from the row of the sequence and name asked for.\<close>

lemma vals_frame_retrieve_leads:
  assumes "colon_free n" "leads (vals_frame V) Q (f None)"
    and "\<And>s v. x = Some s \<Longrightarrow> V s n (Some v) \<Longrightarrow> leads (vals_frame V) Q (f (Some (mk_prop s n v)))"
  shows "leads (vals_frame V) Q (seq_prop_retrieve x (Some n) \<bind> f)"
proof (rule leadsI)
  fix w
  assume w: "vals_frame V w"
  have "fst (run_state (seq_prop_retrieve x (Some n)) w) = None
     \<or> (\<exists>s v. x = Some s \<and> V s n (Some v)
          \<and> fst (run_state (seq_prop_retrieve x (Some n)) w) = Some (mk_prop s n v))"
  proof (cases "x")
    case (Some s)
    have "seq_property_mgr_retrieve (env_now w) (w_seq_prop w) (Some s) (Some n)
        \<in> {None, seq_property_look (w_seq_prop w) (prop_id s n)}"
      using seq_property_retrieve_up[of "env_now w" "w_seq_prop w" "prop_id s n"]
      by (cases "db_up (env_now w)")
         (simp_all add: seq_property_mgr_retrieve_def is_null_def,
          simp add: seq_property_retrieve_id_def bean_mgr_eqs db_query_def)
    moreover have "seq_property_look (w_seq_prop w) (prop_id s n)
        = (case pvals (w_seq_prop w) s n of None \<Rightarrow> None | Some v \<Rightarrow> Some (mk_prop s n v))"
      "V s n (pvals (w_seq_prop w) s n)"
      using w assms(1) pvals_look_Some[of "w_seq_prop w" n s] by (simp_all add: vals_frame_def)
    ultimately show ?thesis
      using Some by (cases "pvals (w_seq_prop w) s n") (auto simp: seq_prop_retrieve_def)
  qed (simp add: seq_prop_retrieve_def seq_property_mgr_retrieve_def is_null_def)
  then show "Q (snd (run_state (seq_prop_retrieve x (Some n) \<bind> f) w))"
    using keepsD[OF vals_frame.keeps_asking(3) w, of x "Some n"] assms(2,3)
    by (auto simp: leads_def split: prod.splits)
qed

lemma vals_frame_retrieve:
  assumes "colon_free n" "keeps (vals_frame V) (f None)"
    and "\<And>s v. x = Some s \<Longrightarrow> V s n (Some v) \<Longrightarrow> keeps (vals_frame V) (f (Some (mk_prop s n v)))"
  shows "keeps (vals_frame V) (seq_prop_retrieve x (Some n) \<bind> f)"
  using assms unfolding keeps_leads by (rule vals_frame_retrieve_leads)

text \<open>What a search finds are beans of rows.\<close>

definition row_beans :: "seq_property_bean list \<Rightarrow> bool" where
  "row_beans bs \<longleftrightarrow> (\<forall>b \<in> set bs. \<exists>s n v. b = mk_prop s n v \<and> colon_free n)"

lemma seq_prop_find_rows:
  assumes "props_wf (w_seq_prop w)"
  shows "row_beans (list_elems (fst (run_state (seq_prop_find b) w)))"
proof -
  have "list_elems (fst (run_state (seq_prop_find b) w)) = []
      \<or> (\<exists>p. list_elems (fst (run_state (seq_prop_find b) w)) = map seq_property_dec (filter p (w_seq_prop w)))"
    by (simp add: seq_prop_find_def seq_property_mgr_find_def bean_mgr_eqs sql_select_def
        seq_property_callback_eq db_query_def foldl_collect_with list_elems_def split: option.splits) blast
  then show ?thesis
    using assms by (fastforce simp: row_beans_def seq_property_dec_mk props_wf_def)
qed

lemma vals_frame_find:
  assumes "\<And>bs. row_beans (list_elems bs) \<Longrightarrow> keeps (vals_frame V) (f bs)"
  shows "keeps (vals_frame V) (seq_prop_find b \<bind> f)"
proof (rule keepsI)
  fix w
  assume w: "vals_frame V w"
  then have "row_beans (list_elems (fst (run_state (seq_prop_find b) w)))"
    by (intro seq_prop_find_rows) (simp add: vals_frame_def)
  then show "vals_frame V (snd (run_state (seq_prop_find b \<bind> f) w))"
    using keepsD[OF assms, of "fst (run_state (seq_prop_find b) w)" "snd (run_state (seq_prop_find b) w)"]
      keepsD[OF vals_frame.keeps_asking(4) w, of b]
    by (cases "run_state (seq_prop_find b) w") simp
qed

text \<open>The properties selected by \<open>K\<close> have the values \<open>g\<close>.\<close>

abbreviation props_frame :: "(string \<Rightarrow> string \<Rightarrow> bool) \<Rightarrow> (string \<Rightarrow> string \<Rightarrow> cstr) \<Rightarrow> world \<Rightarrow> bool" where
  "props_frame K g \<equiv> vals_frame (\<lambda>q n x. K q n \<longrightarrow> x = g q n)"

lemmas props_frame_def = vals_frame_def

section \<open>Runs that change the properties only\<close>

text \<open>A run that changed the properties only, and the counter.\<close>

definition props_run :: "world \<Rightarrow> world \<Rightarrow> bool" where
  "props_run w v \<longleftrightarrow> props_ok (w_seq_prop v) \<and> w_sender v = w_sender w \<and> w_next_msg v = w_next_msg w
     \<and> w_create_seq v = w_create_seq w \<and> w_invoker v = w_invoker w \<and> w_msg v = w_msg w
     \<and> w_response v = w_response w \<and> w_db v = w_db w \<and> w_clock v = w_clock w \<and> w_uuids v = w_uuids w
     \<and> w_engine v = w_engine w \<and> w_conf v = w_conf w \<and> w_trace v = w_trace w \<and> w_ub v = w_ub w"

lemma props_run_ready: "props_run w v \<Longrightarrow> ready v = ready w"
  by (simp add: props_run_def ready_def)

lemma props_run_trans: "props_run w v \<Longrightarrow> props_run v u \<Longrightarrow> props_run w u"
  by (simp add: props_run_def)

lemma props_run_tick: "props_ok (w_seq_prop w) \<Longrightarrow> props_run w (tick w)"
  by (simp add: props_run_def)

lemma run_put:
  assumes "ready w" "props_ok (w_seq_prop w)" "colon_free n"
  shows "\<exists>v. run_state (insert_or_update added (prop_bean (Some s) n x)) w = (True, v) \<and> props_run w v
     \<and> (\<forall>q m. colon_free m \<longrightarrow> pvals (w_seq_prop v) q m
          = (if q = s \<and> m = n \<and> (added \<or> pvals (w_seq_prop w) s n \<noteq> None) then Some (sprintf_s x)
             else pvals (w_seq_prop w) q m))"
proof -
  obtain t where "run_state (insert_or_update added (prop_bean (Some s) n x)) w
       = (True, tick (w\<lparr>w_seq_prop := t\<rparr>))" "props_ok t"
     "\<forall>q m. colon_free m \<longrightarrow> pvals t q m
          = (if q = s \<and> m = n \<and> (added \<or> pvals (w_seq_prop w) s n \<noteq> None) then Some (sprintf_s x)
             else pvals (w_seq_prop w) q m)"
    using run_insert_or_update[OF assms] by blast
  then show ?thesis
    by (intro exI[of _ "tick (w\<lparr>w_seq_prop := t\<rparr>)"]) (auto simp: props_run_def tick_def)
qed

end
