(* ===== verification/Create_Seq_Msg_Processor.thy ===== *)
theory Create_Seq_Msg_Processor
  imports Msg_Creator Fault_Mgr Frames
begin

text \<open>
  \<open>src/msgprocessors/create_seq_msg_processor.c\<close>: a received CreateSequence message sets up an
  incoming sequence, takes up the sequence it offers for the answers, and is answered.
\<close>

section \<open>The offered sequence\<close>

definition offer_accepted :: "cstr \<Rightarrow> bool" where
  "offer_accepted seq_id = (case seq_id of None \<Rightarrow> False | Some s \<Rightarrow> \<not> 1 \<ge> length s)"

text \<open>
  \<open>create_seq_msg_already_received\<close> removes nothing: it looks up the beans of an earlier message and
  frees them.  In the inner loop the index is the one of the outer loop and the bound is the
  size of the outer list, so an element of the inner list is freed as often as the outer list
  is long.
\<close>

definition free_internal_beans :: "nat \<Rightarrow> nat \<times> seq_property_bean \<Rightarrow> unit proc" where
  "free_internal_beans list_len ib =
     (case ib of (i, b) \<Rightarrow>
        if sp_name b = Some SEQ_PROP_OUTGOING_INTERNAL_SEQUENCE_ID then do {
          temp_list \<leftarrow> seq_prop_find (Some (seq_property_bean_create_with_data None None (sp_value b)));
          (if 2 \<le> list_len \<and> i < length (list_elems temp_list) then undefined_behaviour else ret ())
        } else ret ())"

definition create_seq_msg_already_received :: "cstr \<Rightarrow> status proc" where
  "create_seq_msg_already_received seq_id =
     (if is_null seq_id then ret AXIS2_FAILURE
      else do {
        create_seq_find (Some (create_seq_bean_create_with_data None None seq_id));
        found \<leftarrow> seq_prop_find (Some (seq_property_bean_create_with_data None None seq_id));
        let list = list_elems found;
        for_each (free_internal_beans (length list)) (zip [0..<length list] list);
        ret AXIS2_SUCCESS
      })"

text \<open>An accepted offer becomes the outgoing sequence of the answers, by either of its ids.\<close>

definition take_up_offer :: "cstr \<Rightarrow> string \<Rightarrow> unit proc" where
  "take_up_offer outgoing_sequence_id incoming_sequence_id = do {
     create_seq_msg_already_received outgoing_sequence_id;
     let outgoing_internal_sequence_id = get_internal_sequence_id (Some incoming_sequence_id);
     seq_prop_insert (seq_property_bean_create
       \<lparr>sp_name := Some SEQ_PROP_OUTGOING_SEQUENCE_ID, sp_seq_id := outgoing_internal_sequence_id,
        sp_value := outgoing_sequence_id\<rparr>);
     seq_prop_insert (seq_property_bean_create
       \<lparr>sp_name := Some SEQ_PROP_OUTGOING_INTERNAL_SEQUENCE_ID, sp_seq_id := outgoing_sequence_id,
        sp_value := outgoing_internal_sequence_id\<rparr>);
     ret ()
   }"

section \<open>Answering\<close>

text \<open>
  The rest of \<open>process_in_msg\<close>, from the addresses for acknowledgements on: the address is stored
  a second time, beside the one \<open>setup_new_incoming_sequence\<close> stored.
\<close>

definition store_acks_to :: "string \<Rightarrow> create_seq_part \<Rightarrow> string \<Rightarrow> unit proc" where
  "store_acks_to incoming_sequence_id cs acks_to = do {
     seq_prop_insert (prop_bean (Some incoming_sequence_id) SEQ_PROP_ACKS_TO_EPR (Some acks_to));
     (case cp_ref_params cs of
        None \<Rightarrow> ret ()
      | Some ref_param_list \<Rightarrow> do {
          seq_prop_insert (prop_bean (Some incoming_sequence_id) SEQ_PROP_ACKS_TO_REF_PARAM
            (get_string_from_node_list ref_param_list));
          ret ()
        })
   }"

definition answer_create_seq :: "string \<Rightarrow> out_msg \<Rightarrow> status proc" where
  "answer_create_seq incoming_sequence_id response = do {
     emit Set_Response_Written;
     update_last_activated_time (Some incoming_sequence_id);
     engine_send response;
     to_bean \<leftarrow> seq_prop_retrieve (Some incoming_sequence_id) (Some SEQ_PROP_TO_EPR);
     (case to_bean of
        None \<Rightarrow> ret AXIS2_FAILURE
      | Some b \<Rightarrow> do {
          get_seq_property (Some incoming_sequence_id) (Some SEQ_PROP_ADDRESSING_NAMESPACE_VALUE);
          anon \<leftarrow> asks (\<lambda>w. is_anon_uri (cf_wsa (w_conf w)) (cf_trim (w_conf w)) (sp_value b));
          emit (if anon then Set_Response_Written else Set_Response_Not_Written);
          emit Set_Paused;
          ret AXIS2_SUCCESS
        })
   }"

definition complete_create_seq ::
  "create_seq_part \<Rightarrow> string \<Rightarrow> out_msg \<Rightarrow> (sandesha2_error + status) proc" where
  "complete_create_seq cs incoming_sequence_id response =
     (case cp_acks_to cs of
        Some (Some acks_to) \<Rightarrow> do {
          store_acks_to incoming_sequence_id cs acks_to;
          status \<leftarrow> answer_create_seq incoming_sequence_id response;
          ret (Inr status)
        }
      | _ \<Rightarrow> ret (Inl ERROR_INVALID_EPR))"

text \<open>An offer without a name is not accepted in the response, which ends the processing.\<close>

definition respond_create_seq ::
  "create_seq_part \<Rightarrow> string \<Rightarrow> out_msg \<Rightarrow> (sandesha2_error + status) proc" where
  "respond_create_seq cs incoming_sequence_id response =
     (case cp_offer cs of
        None \<Rightarrow> complete_create_seq cs incoming_sequence_id response
      | Some outgoing_sequence_id \<Rightarrow>
          if is_null (om_accept response) then ret (Inl ERROR_REQD_MSG_PART_MISSING)
          else do {
            (if offer_accepted outgoing_sequence_id
             then take_up_offer outgoing_sequence_id incoming_sequence_id else ret ());
            complete_create_seq cs incoming_sequence_id response
          })"

definition create_seq_process_in_msg :: "rm_msg \<Rightarrow> (sandesha2_error + status) proc" where
  "create_seq_process_in_msg m =
     (case rm_create_seq m of
        None \<Rightarrow> ret (Inl ERROR_REQD_MSG_PART_MISSING)
      | Some cs \<Rightarrow>
        (case check_for_create_seq_refused m of
           Inr (Some fault) \<Rightarrow> do {
             engine_send_fault fault;
             emit Set_Paused;
             ret (Inr AXIS2_SUCCESS)
           }
         | _ \<Rightarrow> do {
             out_msg \<leftarrow> create_out_msg_ctx m;
             r \<leftarrow> setup_new_incoming_sequence m;
             (case r of
                Inl e \<Rightarrow> ret (Inr AXIS2_FAILURE)
              | Inr incoming_sequence_id \<Rightarrow> do {
                  response \<leftarrow> create_create_seq_res_msg m out_msg (Some incoming_sequence_id);
                  (case response of
                     None \<Rightarrow> ret (Inr AXIS2_FAILURE)
                   | Some res \<Rightarrow> respond_create_seq cs incoming_sequence_id res)
                })
           }))"

text \<open>\<open>process_out_msg\<close> does nothing.\<close>

definition create_seq_process_out_msg :: "rm_msg \<Rightarrow> status proc" where
  "create_seq_process_out_msg m = ret AXIS2_SUCCESS"

end
