(* ===== verification/App_Msg_Processor.thy ===== *)
theory App_Msg_Processor
  imports Fault_Mgr Frames
begin

text \<open>
  The way of a received application message through \<open>src/msgprocessors/app_msg_processor.c\<close>:
  the checks, the highest number and the list of received numbers, the hand-over to the
  invoker, the acknowledgement; and the counters of the sending side.
\<close>

section \<open>Numbers\<close>

text \<open>
  \<open>msg_num_is_in_list\<close>: the list is searched with \<open>axutil_array_list_contains\<close>, whose
  comparison is a parameter.
\<close>

definition msg_num_is_in_list :: "(string list \<Rightarrow> string \<Rightarrow> bool) \<Rightarrow> string \<Rightarrow> int \<Rightarrow> bool" where
  "msg_num_is_in_list contains str_list num =
     (case get_array_list_from_string (Some str_list) of
        None \<Rightarrow> False
      | Some list \<Rightarrow> contains list (sprintf_ld num))"

definition get_prev_msg_no :: "cstr \<Rightarrow> int proc" where
  "get_prev_msg_no internal_seq_id =
     (if is_null internal_seq_id then ret 0
      else do {
        next_msg_no_bean \<leftarrow> seq_prop_retrieve internal_seq_id (Some SEQ_PROP_NEXT_MESSAGE_NUMBER);
        ret (case bean_value next_msg_no_bean of None \<Rightarrow> -1 | Some v \<Rightarrow> atol v)
      })"

definition set_msg_no :: "string \<Rightarrow> cstr \<Rightarrow> int \<Rightarrow> (sandesha2_error + status) proc" where
  "set_msg_no name internal_seq_id msg_num =
     (if is_null internal_seq_id then ret (Inl AXIS2_ERROR_INVALID_NULL_PARAM)
      else if msg_num \<le> 0 then ret (Inl ERROR_INVALID_MSG_NUM)
      else do {
        found \<leftarrow> seq_prop_retrieve internal_seq_id (Some name);
        let bean = (case found of
              None \<Rightarrow> seq_property_bean_create\<lparr>sp_seq_id := internal_seq_id, sp_name := Some name\<rparr>
            | Some b \<Rightarrow> b);
        insert_or_update (is_null found) (bean\<lparr>sp_value := Some (sprintf_ld msg_num)\<rparr>);
        ret (Inr AXIS2_SUCCESS)
      })"

definition set_next_msg_no :: "cstr \<Rightarrow> int \<Rightarrow> (sandesha2_error + status) proc" where
  "set_next_msg_no internal_seq_id msg_num =
     set_msg_no SEQ_PROP_NEXT_MESSAGE_NUMBER internal_seq_id msg_num"

definition set_last_out_msg_no :: "cstr \<Rightarrow> int \<Rightarrow> (sandesha2_error + status) proc" where
  "set_last_out_msg_no internal_seq_id msg_num =
     set_msg_no SEQ_PROP_LAST_OUT_MESSAGE_NUMBER internal_seq_id msg_num"

text \<open>
  \<open>is_last_out_msg\<close>: on the server side a message is the last one when it answers the last
  one that came in, on the client side when the client said so and the version needs a mark.
\<close>

definition last_on_server :: "rm_msg \<Rightarrow> cstr \<Rightarrow> bool proc" where
  "last_on_server m rmd_sequence_id = do {
     last_req_id \<leftarrow> get_seq_property rmd_sequence_id (Some SEQ_PROP_LAST_IN_MESSAGE_ID);
     ret (\<not> is_null last_req_id \<and> rm_relates_to m = Some last_req_id)
   }"

definition last_on_client :: "rm_msg \<Rightarrow> bool proc" where
  "last_on_client m =
     (if rm_client_last_message m = Some AXIS2_VALUE_TRUE then do {
        spec_ver \<leftarrow> get_rm_version m;
        ret (case spec_ver of
               None \<Rightarrow> False
             | Some v \<Rightarrow> or_default False (is_last_msg_indicator_reqd v))
      } else ret False)"

definition is_last_out_msg :: "rm_msg \<Rightarrow> cstr \<Rightarrow> cstr \<Rightarrow> int \<Rightarrow> unit proc" where
  "is_last_out_msg m rmd_sequence_id internal_sequence_id msg_num = do {
     last_msg \<leftarrow> (if rm_server_side m then last_on_server m rmd_sequence_id else last_on_client m);
     (if last_msg then do {
        seq_prop_insert (prop_bean internal_sequence_id SEQ_PROP_LAST_OUT_MESSAGE_NO
          (Some (sprintf_ld msg_num)));
        ret ()
      } else ret ())
   }"

section \<open>Acknowledging\<close>

text \<open>The outgoing sequence that an acknowledgement can be piggybacked on.\<close>

definition take_related :: "rm_msg \<Rightarrow> cstr proc" where
  "take_related m =
     (case rm_relates_to m of
        None \<Rightarrow> ret None
      | Some related_msg_id \<Rightarrow> do {
          relates_to_bean \<leftarrow> seq_prop_retrieve related_msg_id (Some SEQ_PROP_RELATED_MSG_ID);
          (case relates_to_bean of
             None \<Rightarrow> ret None
           | Some b \<Rightarrow> do {
               seq_prop_remove related_msg_id (Some SEQ_PROP_RELATED_MSG_ID);
               ret (sp_value b)
             })
        })"

definition ack_outgoing_seq_id :: "rm_msg \<Rightarrow> cstr \<Rightarrow> cstr proc" where
  "ack_outgoing_seq_id m incoming_sequence_id = do {
     related \<leftarrow> take_related m;
     (if \<not> is_null related then ret related
      else do {
        outgoing_sequence_id_bean \<leftarrow> seq_prop_retrieve
          (get_internal_sequence_id incoming_sequence_id) (Some SEQ_PROP_OUTGOING_SEQUENCE_ID);
        ret (bean_value outgoing_sequence_id_bean)
      })
   }"

definition ack_sender_bean :: "string \<Rightarrow> cstr \<Rightarrow> int \<Rightarrow> cstr \<Rightarrow> sender_bean" where
  "ack_sender_bean key seq_id send_time msg_id =
     sender_bean_create\<lparr>sb_seq_id := seq_id, sb_msg_ctx_ref_key := Some key,
       sb_time_to_send := send_time, sb_msg_id := msg_id, sb_send := True,
       sb_msg_type := MSG_TYPE_ACK, sb_resend := False\<rparr>"

definition queue_ack :: "rm_msg \<Rightarrow> cstr \<Rightarrow> out_msg \<Rightarrow> string proc" where
  "queue_ack m incoming_sequence_id ack = do {
     key \<leftarrow> uuid_gen;
     seq_id \<leftarrow> ack_outgoing_seq_id m incoming_sequence_id;
     send_time \<leftarrow> current_time_in_millis;
     sender_insert (ack_sender_bean key seq_id send_time (om_msg_id ack));
     ret key
   }"

text \<open>
  \<open>send_ack_if_reqd\<close>.  An acknowledgement that has a response to travel on is only queued,
  one of a one-way message is sent, under no key of its own; both are stored.
\<close>

definition deliver_ack :: "bool \<Rightarrow> rm_msg \<Rightarrow> cstr \<Rightarrow> out_msg \<Rightarrow> (sandesha2_error + status) proc" where
  "deliver_ack one_way m incoming_sequence_id ack = do {
     key \<leftarrow> (if one_way then ret None
             else do { k \<leftarrow> queue_ack m incoming_sequence_id ack; ret (Some k) });
     sent \<leftarrow> (if one_way then engine_send ack else ret True);
     ctx \<leftarrow> asks (\<lambda>w. cf_out_ctx (w_conf w) ack);
     store_msg_ctx key ctx;
     ret (if sent then Inr AXIS2_SUCCESS else Inl ERROR_SENDING_ACK)
   }"

definition anonymous_addr :: "cstr \<Rightarrow> bool proc" where
  "anonymous_addr address = asks (\<lambda>w. is_anon_uri (cf_wsa (w_conf w)) (cf_trim (w_conf w)) address)"

definition send_ack_if_reqd :: "rm_msg \<Rightarrow> cstr \<Rightarrow> cstr \<Rightarrow> int \<Rightarrow> (sandesha2_error + status) proc" where
  "send_ack_if_reqd m msg_str incoming_sequence_id mep =
     (if is_null msg_str then ret (Inl AXIS2_ERROR_INVALID_NULL_PARAM)
      else do {
        acks_to_bean \<leftarrow> seq_prop_retrieve incoming_sequence_id (Some SEQ_PROP_ACKS_TO_EPR);
        in_only \<leftarrow> asks (\<lambda>w. cf_mep_in_only (w_conf w));
        let one_way = ((if mep = -1 then rm_mep m else mep) = in_only);
        rm_version \<leftarrow> get_rm_version m;
        acks_anonymous \<leftarrow> anonymous_addr (bean_value acks_to_bean);
        reply_anonymous \<leftarrow> (case rm_reply_to m of
            Some (Some reply_to_addr) \<Rightarrow> anonymous_addr (Some reply_to_addr)
          | _ \<Rightarrow> ret True);
        (if is_null acks_to_bean \<or> is_null rm_version then ret (Inr AXIS2_FAILURE)
         else if acks_anonymous \<and> reply_anonymous \<and> \<not> one_way then ret (Inr AXIS2_SUCCESS)
         else do {
           ack \<leftarrow> generate_ack_msg m incoming_sequence_id;
           (case ack of
              None \<Rightarrow> do { undefined_behaviour; ret (Inr AXIS2_FAILURE) }
            | Some a \<Rightarrow> deliver_ack one_way m incoming_sequence_id a)
         })
      })"

section \<open>Receiving\<close>

text \<open>What both refusals do: the fault is sent, and the message is paused if that worked.\<close>

definition refuse_with :: "fault_msg \<Rightarrow> (sandesha2_error + status) proc" where
  "refuse_with fault = do {
     sent \<leftarrow> engine_send_fault fault;
     (if sent then do { emit Set_Paused; ret (Inr AXIS2_SUCCESS) }
      else ret (Inl ERROR_SENDING_FAULT))
   }"

text \<open>The highest number so far, the key of its message and the id of its message.\<close>

definition store_highest :: "bool \<Rightarrow> cstr \<Rightarrow> int \<Rightarrow> cstr \<Rightarrow> cstr \<Rightarrow> unit proc" where
  "store_highest had_one rmd_sequence_id msg_no key msg_id = do {
     let put = (\<lambda>name v. insert_or_update (\<not> had_one) (prop_bean rmd_sequence_id name v));
     put SEQ_PROP_HIGHEST_IN_MSG_NUMBER (Some (sprintf_ld msg_no));
     put SEQ_PROP_HIGHEST_IN_MSG_KEY key;
     put SEQ_PROP_HIGHEST_IN_MSG_ID msg_id;
     ret ()
   }"

definition note_highest :: "rm_msg \<Rightarrow> cstr \<Rightarrow> int \<Rightarrow> unit proc" where
  "note_highest m rmd_sequence_id msg_no = do {
     highest_in_msg_no_str \<leftarrow> get_seq_property rmd_sequence_id (Some SEQ_PROP_HIGHEST_IN_MSG_NUMBER);
     stored_key \<leftarrow> get_seq_property rmd_sequence_id (Some SEQ_PROP_HIGHEST_IN_MSG_KEY);
     key \<leftarrow> (case stored_key of Some k \<Rightarrow> ret (Some k) | None \<Rightarrow> do { k \<leftarrow> uuid_gen; ret (Some k) });
     let highest_in_msg_no = (case highest_in_msg_no_str of None \<Rightarrow> 0 | Some s \<Rightarrow> atol s);
     (if msg_no > highest_in_msg_no then
        store_highest (\<not> is_null highest_in_msg_no_str) rmd_sequence_id msg_no key (rm_msg_id m)
      else ret ())
   }"

text \<open>
  The list of received numbers: a number that is not in it is appended.  One that is in it
  pauses the message, as the default invocation is exactly once; the message goes on through
  the rest of the handler all the same.
\<close>

definition append_msg_no :: "cstr \<Rightarrow> int \<Rightarrow> string" where
  "append_msg_no msgs_str msg_no =
     (case msgs_str of None \<Rightarrow> sprintf_ld msg_no | Some s \<Rightarrow> s @ '','' @ sprintf_ld msg_no)"

definition received_bean :: "cstr \<Rightarrow> (seq_property_bean \<times> cstr) proc" where
  "received_bean rmd_sequence_id = do {
     found \<leftarrow> seq_prop_retrieve rmd_sequence_id (Some SEQ_PROP_SERVER_COMPLETED_MESSAGES);
     (case found of
        Some b \<Rightarrow> ret (b, sp_value b)
      | None \<Rightarrow> do {
          let b = seq_property_bean_create\<lparr>sp_seq_id := rmd_sequence_id,
                    sp_name := Some SEQ_PROP_SERVER_COMPLETED_MESSAGES\<rparr>;
          seq_prop_insert b;
          ret (b, None)
        })
   }"

definition add_received :: "cstr \<Rightarrow> int \<Rightarrow> cstr proc" where
  "add_received rmd_sequence_id msg_no = do {
     (msgs_bean, msgs_str) \<leftarrow> received_bean rmd_sequence_id;
     contains \<leftarrow> asks (\<lambda>w. cf_list_contains (w_conf w));
     let present = (case msgs_str of None \<Rightarrow> False | Some s \<Rightarrow> msg_num_is_in_list contains s msg_no);
     (if present then do {
        (if QOS_DEFAULT_INVOCATION_TYPE = QOS_EXACTLY_ONCE then emit Set_Paused else ret ());
        ret msgs_str
      } else do {
        let s = append_msg_no msgs_str msg_no;
        seq_prop_update (msgs_bean\<lparr>sp_value := Some s\<rparr>);
        ret (Some s)
      })
   }"

text \<open>
  In-order invocation: the sequence is listed, and the message is stored for the invoker and
  paused.  The result is the status of an early return, if any.
\<close>

definition list_incoming_seq :: "cstr \<Rightarrow> status option proc" where
  "list_incoming_seq rmd_sequence_id = do {
     found \<leftarrow> seq_prop_retrieve (Some SEQ_PROP_ALL_SEQS) (Some SEQ_PROP_INCOMING_SEQ_LIST);
     bean \<leftarrow> (case found of
         Some b \<Rightarrow> ret b
       | None \<Rightarrow> do {
           let b = seq_property_bean_create\<lparr>sp_seq_id := Some SEQ_PROP_ALL_SEQS,
                     sp_name := Some SEQ_PROP_INCOMING_SEQ_LIST, sp_value := Some ''[]''\<rparr>;
           seq_prop_insert b;
           ret b
         });
     let incoming_seq_list = get_array_list_from_string (sp_value bean);
     error_status \<leftarrow> asks (\<lambda>w. cf_error_status (w_conf w));
     (if is_null incoming_seq_list \<and> error_status \<noteq> AXIS2_SUCCESS then ret (Some error_status)
      else do {
        (if \<not> array_list_contains incoming_seq_list rmd_sequence_id then do {
           let l = map_option (\<lambda>l. l @ [sprintf_s rmd_sequence_id]) incoming_seq_list;
           seq_prop_update (bean\<lparr>sp_value := array_list_to_string ARRAY_LIST_STRING l\<rparr>);
           ret ()
         } else ret ());
        ret None
      })
   }"

definition queue_for_invoker :: "rm_msg \<Rightarrow> cstr \<Rightarrow> int \<Rightarrow> status option proc" where
  "queue_for_invoker m rmd_sequence_id msg_no = do {
     failed \<leftarrow> list_incoming_seq rmd_sequence_id;
     (case failed of
        Some status \<Rightarrow> ret (Some status)
      | None \<Rightarrow> do {
          str_key \<leftarrow> uuid_gen;
          store_msg_ctx (Some str_key) (rm_ctx m);
          invoker_insert (invoker_bean_create_with_data (Some str_key) msg_no rmd_sequence_id False);
          emit Set_Processing_Done;
          emit Set_Paused;
          ret None
        })
   }"

definition empty_last_msg :: "rm_msg \<Rightarrow> bool" where
  "empty_last_msg m \<longleftrightarrow> rm_wsa_action m = Some (action_2005_02 ''LastMessage'')
     \<or> rm_soap_action m = Some (action_2005_02 ''LastMessage'')"

text \<open>The message is recorded; what remains is to hand it on and to acknowledge it.\<close>

definition hand_on :: "rm_msg \<Rightarrow> seq_part \<Rightarrow> cstr \<Rightarrow> bool \<Rightarrow> (sandesha2_error + status) proc" where
  "hand_on m sq msgs_str in_order_invoke = do {
     (if rm_server_side m \<and> sq_last_msg sq then do {
        seq_prop_insert (prop_bean (sq_identifier sq) SEQ_PROP_LAST_IN_MESSAGE_ID (rm_msg_id m));
        ret ()
      } else ret ());
     in_only \<leftarrow> asks (\<lambda>w. cf_mep_in_only (w_conf w));
     (if empty_last_msg m then do {
        send_ack_if_reqd m msgs_str (sq_identifier sq) in_only;
        emit Set_Paused;
        ret (Inr AXIS2_FAILURE)
      } else do {
        failed \<leftarrow> (if rm_server_side m \<and> in_order_invoke
                   then queue_for_invoker m (sq_identifier sq) (sq_msg_no sq) else ret None);
        (case failed of
           Some status \<Rightarrow> ret (Inr status)
         | None \<Rightarrow> send_ack_if_reqd m msgs_str (sq_identifier sq) (-1))
      })
   }"

definition accept_msg :: "rm_msg \<Rightarrow> seq_part \<Rightarrow> (sandesha2_error + status) proc" where
  "accept_msg m sq = do {
     update_last_activated_time (sq_identifier sq);
     (if sq_msg_no sq = 0 then ret (Inl ERROR_INVALID_MSG_NUM)
      else do {
        note_highest m (sq_identifier sq) (sq_msg_no sq);
        msgs_str \<leftarrow> add_received (sq_identifier sq) (sq_msg_no sq);
        next_msg_bean \<leftarrow> next_msg_retrieve (sq_identifier sq);
        property_bean \<leftarrow> get_property_bean (rm_has_svc m);
        (case (next_msg_bean, property_bean) of
           (None, _) \<Rightarrow> ret (Inl ERROR_SEQ_NOT_EXIST)
         | (Some _, None) \<Rightarrow> ret (Inr AXIS2_FAILURE)
         | (Some _, Some pb) \<Rightarrow> hand_on m sq msgs_str (pb_is_in_order pb))
      })
   }"

text \<open>
  \<open>process_in_msg\<close>.  The check for an exceeded last number is called before the property
  manager exists, and so never finds anything.
\<close>

definition app_process_in_msg :: "rm_msg \<Rightarrow> (sandesha2_error + status) proc" where
  "app_process_in_msg m =
     (if rm_app_processing_done m = Some AXIS2_VALUE_TRUE then ret (Inr AXIS2_SUCCESS)
      else do {
        emit Set_Response_Written;
        exceeded \<leftarrow> check_for_last_msg_num_exceeded False m;
        (case (exceeded, rm_sequence m) of
           (Some fault, _) \<Rightarrow> refuse_with fault
         | (None, None) \<Rightarrow> do { undefined_behaviour; ret (Inr AXIS2_FAILURE) }
         | (None, Some sq) \<Rightarrow> do {
             unknown \<leftarrow> check_for_unknown_seq m (sq_identifier sq);
             (case unknown of
                Some fault \<Rightarrow> refuse_with fault
              | None \<Rightarrow> do {
                  closed \<leftarrow> check_for_seq_closed m (sq_identifier sq);
                  (case closed of
                     Some fault \<Rightarrow> refuse_with fault
                   | None \<Rightarrow> accept_msg m sq)
                })
           })
      })"

section \<open>The acknowledgement leaves the properties alone\<close>

lemma frame_generate_ack: "keeps (props_frame K g) (generate_ack_msg m s)"
  unfolding generate_ack_msg_def ack_destination_def ack_ref_params_def add_ack_msg_def
  by (intro keeps_rules vals_frame_ops)

lemma frame_send_ack:
  assumes "\<And>s. \<not> K s SEQ_PROP_RELATED_MSG_ID"
  shows "keeps (props_frame K g) (send_ack_if_reqd m msg_str s mep)"
  unfolding send_ack_if_reqd_def deliver_ack_def queue_ack_def ack_outgoing_seq_id_def
    take_related_def anonymous_addr_def
  by (intro keeps_rules vals_frame_ops frame_generate_ack vals_frame_remove) (simp_all add: assms)

section \<open>What is recorded of a message\<close>

lemma msg_nos_append [simp]: "msg_nos_of (s @ CHR '','' # sprintf_ld n) = msg_nos_of s @ [n]"
  by (simp add: msg_nos_of_def strtok_snoc atol_sprintf_ld)

lemma msg_nos_single [simp]: "msg_nos_of (sprintf_ld n) = [n]"
  by (simp add: msg_nos_of_def strtok_no_delim atol_sprintf_ld)

lemma in_list_number:
  assumes "msg_num_is_in_list (\<lambda>l x. x \<in> set l) s n"
  shows "n \<in> set (msg_nos_of s)"
proof -
  have "s \<noteq> []" using assms by (auto simp: msg_num_is_in_list_def get_array_list_from_string_def)
  then obtain l where "get_array_list_from_string (Some s) = Some l" "set l = set (strtok_all CHR '','' s)"
    using get_array_list_from_string_set by blast
  then have "sprintf_ld n \<in> set (strtok_all CHR '','' s)"
    using assms by (simp add: msg_num_is_in_list_def)
  then show ?thesis unfolding msg_nos_of_def set_map 
    by (intro image_eqI[where x = "sprintf_ld n"]) (simp_all add: atol_sprintf_ld)
qed

lemma run_store_highest:
  assumes "ready w" "props_ok (w_seq_prop w)" "had \<longleftrightarrow> pvals (w_seq_prop w) s SEQ_PROP_HIGHEST_IN_MSG_NUMBER \<noteq> None"
  shows "\<exists>v. run_state (store_highest had (Some s) n key mid) w = ((), v) \<and> props_run w v
     \<and> (\<forall>q m. colon_free m \<and> (q \<noteq> s \<or> m \<notin> {SEQ_PROP_HIGHEST_IN_MSG_KEY, SEQ_PROP_HIGHEST_IN_MSG_ID})
          \<longrightarrow> pvals (w_seq_prop v) q m = (if q = s \<and> m = SEQ_PROP_HIGHEST_IN_MSG_NUMBER
                then Some (sprintf_ld n) else pvals (w_seq_prop w) q m))"
proof -
  let ?num = SEQ_PROP_HIGHEST_IN_MSG_NUMBER and ?key = SEQ_PROP_HIGHEST_IN_MSG_KEY
    and ?id = SEQ_PROP_HIGHEST_IN_MSG_ID
  have names: "?num \<noteq> ?key" "?num \<noteq> ?id" "?key \<noteq> ?id" by (simp_all add: prop_names)
  obtain v1 where 1: "run_state (insert_or_update (\<not> had) (prop_bean (Some s) ?num (Some (sprintf_ld n)))) w
      = (True, v1)" "props_run w v1"
    "\<forall>q m. colon_free m \<longrightarrow> pvals (w_seq_prop v1) q m = (if q = s \<and> m = ?num
        then Some (sprintf_ld n) else pvals (w_seq_prop w) q m)"
    using run_put[OF assms(1,2), of ?num "\<not> had" s "Some (sprintf_ld n)"] assms(3) by auto
  then have r1: "ready v1" "props_ok (w_seq_prop v1)"
    using assms(1) by (simp_all add: props_run_ready) (simp add: props_run_def)
  obtain v2 where 2: "run_state (insert_or_update (\<not> had) (prop_bean (Some s) ?key key)) v1 = (True, v2)"
    "props_run v1 v2"
    "\<forall>q m. colon_free m \<longrightarrow> (q \<noteq> s \<or> m \<noteq> ?key) \<longrightarrow> pvals (w_seq_prop v2) q m = pvals (w_seq_prop v1) q m"
    using run_put[OF r1, of ?key "\<not> had" s key] by auto
  then have r2: "ready v2" "props_ok (w_seq_prop v2)"
    using r1 by (simp_all add: props_run_ready) (simp add: props_run_def)
  obtain v3 where 3: "run_state (insert_or_update (\<not> had) (prop_bean (Some s) ?id mid)) v2 = (True, v3)"
    "props_run v2 v3"
    "\<forall>q m. colon_free m \<longrightarrow> (q \<noteq> s \<or> m \<noteq> ?id) \<longrightarrow> pvals (w_seq_prop v3) q m = pvals (w_seq_prop v2) q m"
    using run_put[OF r2, of ?id "\<not> had" s mid] by auto
  have "run_state (store_highest had (Some s) n key mid) w = ((), v3)"
    using 1(1) 2(1) 3(1) by (simp add: store_highest_def Let_def)
  moreover have "props_run w v3" using 1(2) 2(2) 3(2) props_run_trans by blast
  moreover have "\<forall>q m. colon_free m \<and> (q \<noteq> s \<or> m \<notin> {?key, ?id}) \<longrightarrow> pvals (w_seq_prop v3) q m
      = (if q = s \<and> m = ?num then Some (sprintf_ld n) else pvals (w_seq_prop w) q m)"
    using 1(3) 2(3) 3(3) by simp
  ultimately show ?thesis by blast
qed

definition highest_in :: "world \<Rightarrow> string \<Rightarrow> int" where
  "highest_in w s = (case prop_value w s SEQ_PROP_HIGHEST_IN_MSG_NUMBER of None \<Rightarrow> 0 | Some v \<Rightarrow> atol v)"

lemma run_note_highest:
  assumes "ready w" "props_ok (w_seq_prop w)"
  shows "\<exists>v. run_state (note_highest m (Some s) n) w = ((), v) \<and> props_run w v
     \<and> (\<forall>q x. colon_free x \<and> (q \<noteq> s \<or> x \<notin> {SEQ_PROP_HIGHEST_IN_MSG_KEY, SEQ_PROP_HIGHEST_IN_MSG_ID})
          \<longrightarrow> pvals (w_seq_prop v) q x
            = (if q = s \<and> x = SEQ_PROP_HIGHEST_IN_MSG_NUMBER \<and> n > highest_in w s
               then Some (sprintf_ld n) else pvals (w_seq_prop w) q x))"
proof -
  let ?num = SEQ_PROP_HIGHEST_IN_MSG_NUMBER
  let ?had = "pvals (w_seq_prop w) s ?num \<noteq> None"
  have keys: "\<exists>k u. run_state (case pvals (w_seq_prop w) s SEQ_PROP_HIGHEST_IN_MSG_KEY of
        Some k \<Rightarrow> ret (Some k) | None \<Rightarrow> do { k \<leftarrow> uuid_gen; ret (Some k) }) (tick (tick w)) = (k, u)
      \<and> ready u \<and> w_seq_prop u = w_seq_prop w \<and> props_run w u"
    using assms by (cases "pvals (w_seq_prop w) s SEQ_PROP_HIGHEST_IN_MSG_KEY")
      (auto simp: exec_simps props_run_def)
  then obtain k u where u: "run_state (case pvals (w_seq_prop w) s SEQ_PROP_HIGHEST_IN_MSG_KEY of
        Some k \<Rightarrow> ret (Some k) | None \<Rightarrow> do { k \<leftarrow> uuid_gen; ret (Some k) }) (tick (tick w)) = (k, u)"
    "ready u" "w_seq_prop u = w_seq_prop w" "props_run w u" by blast
  obtain v where v: "run_state (store_highest ?had (Some s) n k (rm_msg_id m)) u = ((), v)"
    "props_run u v" "\<forall>q x. colon_free x \<and> (q \<noteq> s \<or> x \<notin> {SEQ_PROP_HIGHEST_IN_MSG_KEY, SEQ_PROP_HIGHEST_IN_MSG_ID})
          \<longrightarrow> pvals (w_seq_prop v) q x = (if q = s \<and> x = ?num then Some (sprintf_ld n)
                else pvals (w_seq_prop w) q x)"
    using run_store_highest[of u ?had s n k "rm_msg_id m"] u assms(2) by auto
  have run: "run_state (note_highest m (Some s) n) w
      = run_state (if n > highest_in w s then store_highest ?had (Some s) n k (rm_msg_id m) else ret ()) u"
    using u(1) assms(1)
    by (simp add: note_highest_def run_get_value highest_in_def prop_value_pvals is_null_def)
  show ?thesis
  proof (cases "n > highest_in w s")
    case True
    then show ?thesis using run v(1,3) props_run_trans[OF u(4) v(2)] by (intro exI[of _ v]) simp
  next
    case False
    then show ?thesis using run u by (intro exI[of _ u]) simp
  qed
qed

lemma run_add_received:
  assumes "ready w" "props_ok (w_seq_prop w)" "c = SEQ_PROP_SERVER_COMPLETED_MESSAGES"
    and "old = (case prop_value w s c of None \<Rightarrow> [] | Some l \<Rightarrow> msg_nos_of l)"
  shows "\<exists>v l tr. run_state (add_received (Some s) n) w = (Some l, v) \<and> props_run (w\<lparr>w_trace := tr\<rparr>) v
     \<and> pvals (w_seq_prop v) s c = Some l
     \<and> (msg_nos_of l = old @ [n] \<or>
        msg_nos_of l = old \<and> (\<exists>t. prop_value w s c = Some t \<and> msg_num_is_in_list (cf_list_contains (w_conf w)) t n))
     \<and> (\<forall>q x. colon_free x \<and> (q, x) \<noteq> (s, c) \<longrightarrow> pvals (w_seq_prop v) q x = pvals (w_seq_prop w) q x)"
proof -
  have cf: "colon_free c" using assms(3) by simp
  have val: "(mk_prop s c v)\<lparr>sp_value := Some u\<rparr> = mk_prop s c u" for v u by (simp add: mk_prop_def)
  have nul: "seq_property_bean_create\<lparr>sp_seq_id := Some s, sp_name := Some c\<rparr>
      = (mk_prop s c null_text)\<lparr>sp_value := None\<rparr>"
    by (simp add: mk_prop_def seq_property_bean_create_def)
  have row: "seq_property_row_of ((mk_prop s c u)\<lparr>sp_value := None\<rparr>) = seq_property_row_of (mk_prop s c null_text)" for u
    by (simp add: seq_property_row_of_def get_id_with_bean_def mk_prop_def)
  show ?thesis
  proof (cases "pvals (w_seq_prop w) s c")
    case None
    let ?t1 = "w_seq_prop w @ [seq_property_row_of (mk_prop s c null_text)]"
    let ?v = "w\<lparr>w_seq_prop := prop_upd (mk_prop s c (sprintf_ld n)) ?t1, w_tick := w_tick w + 3\<rparr>"
    have "run_state (add_received (Some s) n) w = (Some (sprintf_ld n), ?v)"
      using None assms(1,2) cf nul row
      by (simp add: add_received_def received_bean_def run_retrieve_value exec_simps tick_def Let_def
          append_msg_no_def asks_def flip: assms(3)) (simp add: mk_prop_def)
    moreover have "old = []" using None assms(4) by (simp add: prop_value_pvals)
    ultimately show ?thesis using assms(2) cf
      by (intro exI[of _ ?v] exI[of _ "sprintf_ld n"] exI[of _ "w_trace w"])
         (simp add: props_run_def pvals_upd pvals_simps)
  next
    case (Some t)
    show ?thesis
    proof (cases "msg_num_is_in_list (cf_list_contains (w_conf w)) t n")
      case True
      let ?v = "w\<lparr>w_trace := w_trace w @ [Set_Paused], w_tick := w_tick w + 1\<rparr>"
      have "run_state (add_received (Some s) n) w = (Some t, ?v)"
        using True Some assms(1,2) cf
        by (simp add: add_received_def received_bean_def run_retrieve_value exec_simps tick_def Let_def
            QOS_DEFAULT_INVOCATION_TYPE_def QOS_EXACTLY_ONCE_def flip: assms(3))
      then show ?thesis using Some True assms(2,4)
        by (intro exI[of _ ?v] exI[of _ t] exI[of _ "w_trace w @ [Set_Paused]"])
           (simp add: props_run_def prop_value_pvals)
    next
      case False
      let ?l = "t @ '','' @ sprintf_ld n"
      let ?v = "w\<lparr>w_seq_prop := prop_upd (mk_prop s c ?l) (w_seq_prop w), w_tick := w_tick w + 2\<rparr>"
      have "run_state (add_received (Some s) n) w = (Some ?l, ?v)"
        using False Some assms(1,2) cf
        by (simp add: add_received_def received_bean_def run_retrieve_value exec_simps tick_def Let_def
            append_msg_no_def val flip: assms(3))
      then show ?thesis using Some assms(2,4) cf
        by (intro exI[of _ ?v] exI[of _ ?l] exI[of _ "w_trace w"])
           (simp add: props_run_def prop_value_pvals pvals_upd)
    qed
  qed
qed

text \<open>The message is let in: its sequence is known and open.\<close>

definition let_in :: "rm_msg \<Rightarrow> seq_part \<Rightarrow> string \<Rightarrow> world \<Rightarrow> bool" where
  "let_in m sq s w \<longleftrightarrow> rm_msg_type m = MSG_TYPE_APPLICATION \<and> rm_sequence m = Some sq
     \<and> sq_identifier sq = Some s \<and> rm_app_processing_done m \<noteq> Some AXIS2_VALUE_TRUE
     \<and> (\<exists>r \<in> set (w_next_msg w). nr_seq_id r = s)
     \<and> prop_value w s SEQ_PROP_SEQ_CLOSED \<noteq> Some AXIS2_VALUE_TRUE"

lemma run_let_in:
  assumes "ready w" "let_in m sq s w"
  shows "\<exists>v. run_state (app_process_in_msg m) w = run_state (accept_msg m sq) v
     \<and> v = w\<lparr>w_trace := w_trace w @ [Set_Response_Written], w_tick := w_tick w + 2\<rparr>"
  using assms
  by (auto simp: app_process_in_msg_def let_in_def exec_simps check_for_last_msg_num_exceeded_def
      check_for_unknown_seq_def check_for_seq_closed_def on_sending_side_def prop_value_bean tick_def)

lemma keeps_list_incoming:
  assumes "\<not> K SEQ_PROP_ALL_SEQS SEQ_PROP_INCOMING_SEQ_LIST"
  shows "keeps (props_frame K g) (list_incoming_seq s)"
  unfolding list_incoming_seq_def
proof (rule vals_frame_retrieve, goal_cases)
  case 2
  show ?case
    unfolding option.case Let_def bind_assoc bind_left_identity
    by (intro keeps_rules vals_frame_ops vals_frame_writes)
       (simp_all add: assms seq_property_bean_create_def)
next
  case (3 q v)
  then show ?case
    unfolding option.case Let_def bind_assoc bind_left_identity
    by (intro keeps_rules vals_frame_ops vals_frame_writes)
       (simp_all add: assms)
qed simp

lemma keeps_queue_for_invoker:
  assumes "\<not> K SEQ_PROP_ALL_SEQS SEQ_PROP_INCOMING_SEQ_LIST"
  shows "keeps (props_frame K g) (queue_for_invoker m s n)"
proof -
  have "keeps (props_frame K g) (invoker_insert b)" for b
    by (simp add: keeps_def invoker_insert_def Let_def props_frame_def)
  then show ?thesis unfolding queue_for_invoker_def
    by (intro keeps_rules vals_frame_ops keeps_list_incoming assms)
qed

lemma frame_hand_on:
  assumes "sq_identifier sq = Some s" "\<not> K s SEQ_PROP_LAST_IN_MESSAGE_ID"
    and "\<not> K SEQ_PROP_ALL_SEQS SEQ_PROP_INCOMING_SEQ_LIST" "\<And>s. \<not> K s SEQ_PROP_RELATED_MSG_ID"
  shows "keeps (props_frame K g) (hand_on m sq str ord)"
proof -
  have "keeps (props_frame K g) (seq_prop_insert (prop_bean (sq_identifier sq) SEQ_PROP_LAST_IN_MESSAGE_ID x))" for x
    by (rule vals_frame_writes) (simp_all add: assms seq_property_bean_create_with_data_def)
  then show ?thesis unfolding hand_on_def
    by (intro keeps_rules vals_frame_ops frame_send_ack keeps_queue_for_invoker assms)
qed

section \<open>An accepted message is recorded\<close>

text \<open>
  \<open>recorded w v s n\<close>: between the states \<open>w\<close> and \<open>v\<close> the number \<open>n\<close> was noted as
  received in sequence \<open>s\<close>.
\<close>

definition received_nos :: "world \<Rightarrow> string \<Rightarrow> int list" where
  "received_nos w s = (case prop_value w s SEQ_PROP_SERVER_COMPLETED_MESSAGES of
      None \<Rightarrow> [] | Some l \<Rightarrow> msg_nos_of l)"

definition recorded :: "world \<Rightarrow> world \<Rightarrow> string \<Rightarrow> int \<Rightarrow> bool" where
  "recorded w v s n \<longleftrightarrow>
     (received_nos v s = received_nos w s @ [n] \<or> received_nos v s = received_nos w s \<and> n \<in> set (received_nos w s))
     \<and> highest_in v s = max (highest_in w s) n
     \<and> (\<forall>q x. colon_free x \<and> q \<noteq> s \<and> q \<noteq> SEQ_PROP_ALL_SEQS \<and> x \<noteq> SEQ_PROP_RELATED_MSG_ID
          \<longrightarrow> prop_value v q x = prop_value w q x)"

text \<open>The properties that handing a message on may still write.\<close>

definition settled :: "string \<Rightarrow> string \<Rightarrow> string \<Rightarrow> bool" where
  "settled s q x \<longleftrightarrow> x \<noteq> SEQ_PROP_RELATED_MSG_ID \<and> q \<noteq> SEQ_PROP_ALL_SEQS
     \<and> (q, x) \<noteq> (s, SEQ_PROP_LAST_IN_MESSAGE_ID)"

lemma keeps_accept_rest:
  assumes "sq_identifier sq = Some s"
  shows "keeps (props_frame (settled s) g) (do {
      next_msg_bean \<leftarrow> next_msg_retrieve (sq_identifier sq);
      property_bean \<leftarrow> get_property_bean (rm_has_svc m);
      (case (next_msg_bean, property_bean) of
         (None, _) \<Rightarrow> ret (Inl ERROR_SEQ_NOT_EXIST)
       | (Some _, None) \<Rightarrow> ret (Inr AXIS2_FAILURE)
       | (Some _, Some pb) \<Rightarrow> hand_on m sq str (pb_is_in_order pb))
    })"
  by (intro keeps_rules vals_frame_ops frame_hand_on[OF assms]) (simp_all add: settled_def)

lemma accept_msg_recorded:
  assumes w: "ready w" "props_ok (w_seq_prop w)"
    and sq: "sq_identifier sq = Some s" "sq_msg_no sq = n" "n \<noteq> 0" "s \<noteq> SEQ_PROP_ALL_SEQS"
    and contains: "\<And>l x. cf_list_contains (w_conf w) l x \<Longrightarrow> x \<in> set l"
  shows "recorded w (snd (run_state (accept_msg m sq) w)) s n"
    and "(\<And>l x. \<not> cf_list_contains (w_conf w) l x) \<Longrightarrow>
      received_nos (snd (run_state (accept_msg m sq) w)) s = received_nos w s @ [n]"
proof -
  let ?num = SEQ_PROP_HIGHEST_IN_MSG_NUMBER and ?done = SEQ_PROP_SERVER_COMPLETED_MESSAGES
    and ?act = SEQ_PROP_LAST_ACTIVATED_TIME
  let ?hid = SEQ_PROP_HIGHEST_IN_MSG_ID and ?hkey = SEQ_PROP_HIGHEST_IN_MSG_KEY
  have names: "?done \<noteq> ?act" "?done \<noteq> ?num" "?num \<noteq> ?done" "?num \<noteq> ?act" "?done \<noteq> ?hkey" "?done \<noteq> ?hid" "?num \<noteq> ?hkey" "?num \<noteq> ?hid"
    "?done \<noteq> SEQ_PROP_RELATED_MSG_ID" "?num \<noteq> SEQ_PROP_RELATED_MSG_ID"
    "?done \<noteq> SEQ_PROP_LAST_IN_MESSAGE_ID" "?num \<noteq> SEQ_PROP_LAST_IN_MESSAGE_ID"
    by (simp_all add: prop_names)
  define time where "time = sprintf_ld (w_clock w (Suc (w_tick w)))"
  define w1 where "w1 = tick (tick (tick (w\<lparr>w_seq_prop := prop_put s ?act time (w_seq_prop w)\<rparr>)))"
  have r1: "run_state (update_last_activated_time (Some s)) w = (AXIS2_SUCCESS, w1)"
    using w by (simp add: exec_simps w1_def time_def)
  have w1: "ready w1" "props_ok (w_seq_prop w1)" "w_conf w1 = w_conf w"
    "\<And>q x. colon_free x \<Longrightarrow> pvals (w_seq_prop w1) q x
        = (if q = s \<and> x = ?act then Some time else pvals (w_seq_prop w) q x)"
    using w by (auto simp: w1_def pvals_prop_put)
  obtain w2 where w2: "run_state (note_highest m (Some s) n) w1 = ((), w2)" "props_run w1 w2"
    "\<And>q x. colon_free x \<Longrightarrow> (q \<noteq> s \<or> x \<notin> {SEQ_PROP_HIGHEST_IN_MSG_KEY, SEQ_PROP_HIGHEST_IN_MSG_ID}) \<Longrightarrow>
        pvals (w_seq_prop w2) q x = (if q = s \<and> x = ?num \<and> n > highest_in w1 s
            then Some (sprintf_ld n) else pvals (w_seq_prop w1) q x)"
    using run_note_highest[OF w1(1,2), of m s n] by blast
  have w2': "ready w2" "props_ok (w_seq_prop w2)" "w_conf w2 = w_conf w"
    using w2(2) w1(1-3) by (simp_all add: props_run_ready) (simp_all add: props_run_def)
  define old where "old = (case prop_value w2 s ?done of None \<Rightarrow> [] | Some l \<Rightarrow> msg_nos_of l)"
  obtain w3 l where w3: "run_state (add_received (Some s) n) w2 = (Some l, w3)" "props_ok (w_seq_prop w3)"
    "pvals (w_seq_prop w3) s ?done = Some l"
    "msg_nos_of l = old @ [n] \<or> msg_nos_of l = old \<and>
       (\<exists>t. prop_value w2 s ?done = Some t \<and> msg_num_is_in_list (cf_list_contains (w_conf w2)) t n)"
    "\<And>q x. colon_free x \<Longrightarrow> (q, x) \<noteq> (s, ?done) \<Longrightarrow> pvals (w_seq_prop w3) q x = pvals (w_seq_prop w2) q x"
    using run_add_received[OF w2'(1,2) refl old_def] by (force simp: props_run_def)
  define v where "v = snd (run_state (accept_msg m sq) w)"
  have "props_frame (settled s) (pvals (w_seq_prop w3)) v"
    using keepsD[OF keeps_accept_rest[OF sq(1)], of "pvals (w_seq_prop w3)" w3 m "Some l"] w3(2) r1 w2(1) w3(1) sq
    by (simp add: v_def accept_msg_def props_frame_def split del: if_split)
  then have v: "pvals (w_seq_prop v) q x = pvals (w_seq_prop w3) q x"
    if "colon_free x" "settled s q x" for q x using that by (simp add: props_frame_def)
  have old: "old = received_nos w s"
    using w1(4)[of ?done s] w2(3)[of ?done s]
    by (simp add: old_def received_nos_def prop_value_pvals names)
  have "received_nos v s = msg_nos_of l"
    using v[of ?done s] w3(3) sq(4)
    by (simp add: received_nos_def prop_value_pvals settled_def names)
  moreover have never: "\<not> msg_num_is_in_list (cf_list_contains (w_conf w2)) t n"
    if "\<And>l x. \<not> cf_list_contains (w_conf w) l x" for t
    using that by (simp add: w2'(3) msg_num_is_in_list_def split: option.split)
  moreover have "n \<in> set old"
    if "prop_value w2 s ?done = Some t" "msg_num_is_in_list (cf_list_contains (w_conf w2)) t n" for t
    using that contains in_list_number[of t n]
    by (auto simp: old_def w2'(3) msg_num_is_in_list_def split: option.splits)
  moreover have "highest_in v s = max (highest_in w s) n"
    using v[of ?num s] w3(5)[of ?num s] w2(3)[of ?num s] w1(4)[of ?num s] sq(4)
    by (simp add: highest_in_def prop_value_pvals settled_def names atol_sprintf_ld max_def split: option.splits)
  moreover have "prop_value v q x = prop_value w q x"
    if "colon_free x" "q \<noteq> s" "q \<noteq> SEQ_PROP_ALL_SEQS" "x \<noteq> SEQ_PROP_RELATED_MSG_ID" for q x
    using that v[of x q] w3(5)[of x q] w1(4)[of x q] w2(3)[of x q]
    by (simp add: prop_value_pvals settled_def)
  ultimately show "recorded w (snd (run_state (accept_msg m sq) w)) s n"
    "(\<And>l x. \<not> cf_list_contains (w_conf w) l x) \<Longrightarrow>
      received_nos (snd (run_state (accept_msg m sq) w)) s = received_nos w s @ [n]"
    using w3(4) old unfolding recorded_def v_def by metis+
qed

text \<open>C5: 
  An application message of a known, open sequence is recorded: its number is appended to the
  list of received numbers, unless the list contained it; the highest received number of the
  sequence is the larger of the old one and the message's; and no property of any other
  sequence changes, apart from the list of all incoming sequences and the property a sent
  acknowledgement is related by.  This holds whatever the message then meets: errors of
  the invoker queue, of the acknowledgement, or a stop by the property bean.
\<close>

theorem app_message_recorded:
  assumes "ready w" "props_ok (w_seq_prop w)" "let_in m sq s w"
    and "sq_msg_no sq \<noteq> 0" "s \<noteq> SEQ_PROP_ALL_SEQS"
    and "\<forall>l x. cf_list_contains (w_conf w) l x \<longrightarrow> x \<in> set l"
  shows "recorded w (snd (run_state (app_process_in_msg m) w)) s (sq_msg_no sq)"
proof -
  let ?v = "w\<lparr>w_trace := w_trace w @ [Set_Response_Written], w_tick := w_tick w + 2\<rparr>"
  have "recorded ?v (snd (run_state (accept_msg m sq) ?v)) s (sq_msg_no sq)"
    using assms by (intro accept_msg_recorded) (simp_all add: ready_def let_in_def)
  then show ?thesis
    using run_let_in[OF assms(1,3)] by (simp add: recorded_def received_nos_def highest_in_def prop_value_def)
qed

definition arriving :: "string \<Rightarrow> int \<Rightarrow> rm_msg" where
  "arriving s n = sample_msg\<lparr>rm_msg_type := MSG_TYPE_APPLICATION,
     rm_sequence := Some \<lparr>sq_identifier = Some s, sq_msg_no = n, sq_last_msg = False\<rparr>\<rparr>"

definition open_world :: "string \<Rightarrow> world" where
  "open_world s = idle_world\<lparr>w_next_msg := [\<lparr>nr_seq_id = s, nr_internal_seq_id = ''i'',
     nr_ref_msg_key = ''k'', nr_polling_mode = False, nr_msg_no = 1\<rparr>]\<rparr>"

theorem app_message_recorded_witness:
  "recorded (open_world ''s'')
     (snd (run_state (app_process_in_msg (arriving ''s'' 7)) (open_world ''s''))) ''s'' 7"
proof -
  let ?sq = "\<lparr>sq_identifier = Some ''s'', sq_msg_no = 7, sq_last_msg = False\<rparr>"
  have "let_in (arriving ''s'' 7) ?sq ''s'' (open_world ''s'')"
    by (simp add: let_in_def arriving_def sample_msg_def open_world_def prop_value_pvals pvals_def
        seq_property_look_def bean_value_def)
  then show ?thesis
    using app_message_recorded[of "open_world ''s''" "arriving ''s'' 7" ?sq "''s''"]
    by (simp add: open_world_def sample_conf_def props_ok_def prop_names)
qed

lemma run_set_msg_no:
  assumes "ready w" "props_ok (w_seq_prop w)" "colon_free x" "n > 0"
  shows "run_state (set_msg_no x (Some i) n) w
    = (Inr AXIS2_SUCCESS, tick (tick (w\<lparr>w_seq_prop := prop_put i x (sprintf_ld n) (w_seq_prop w)\<rparr>)))"
  using assms by (simp add: set_msg_no_def is_null_simps exec_simps Let_def seq_property_bean_create_def tick_def)

text \<open>
  The counter of the sending side: a number written is the number read back by the next
  message, whatever was there before; numbers below one are refused and write nothing.
\<close>

theorem next_msg_no_roundtrip:
  assumes "ready w" "props_ok (w_seq_prop w)" "n > 0"
  shows "fst (run_state (do { set_next_msg_no (Some i) n; get_prev_msg_no (Some i) }) w) = n"
  using assms
  by (simp add: set_next_msg_no_def get_prev_msg_no_def is_null_simps run_set_msg_no exec_simps look_simps bean_value_def
      atol_sprintf_ld)

theorem next_msg_no_roundtrip_witness:
  "fst (run_state (do { set_next_msg_no (Some ''i'') 5; get_prev_msg_no (Some ''i'') }) idle_world) = 5"
  using next_msg_no_roundtrip[of idle_world 5 "''i''"] by (simp add: props_ok_def)

end
