(* ===== verification/Terminate_Seq_Msg_Processor.thy ===== *)
theory Terminate_Seq_Msg_Processor
  imports Create_Seq_Msg_Processor App_Msg_Processor
begin

text \<open>
  \<open>src/msgprocessors/terminate_seq_msg_processor.c\<close> and
  \<open>src/msgprocessors/terminate_seq_res_msg_processor.c\<close>: a TerminateSequence message coming in, one
  going out that a client sends, and the response.
\<close>

section \<open>What a response carries\<close>

text \<open>Both responses, to TerminateSequence and to CloseSequence, carry a last acknowledgement.\<close>

definition respond_with_ack :: "rm_msg \<Rightarrow> cstr \<Rightarrow> out_msg \<Rightarrow> status proc" where
  "respond_with_ack m seq_id out_rm_msg = do {
     ack_rm_msg \<leftarrow> generate_ack_msg m seq_id;
     engine_send (case ack_rm_msg of
         None \<Rightarrow> out_rm_msg
       | Some a \<Rightarrow> out_rm_msg\<lparr>om_seq_ack := om_seq_ack a\<rparr>);
     emit Set_Response_Written;
     ret AXIS2_SUCCESS
   }"

definition add_terminate_seq_res :: "rm_msg \<Rightarrow> cstr \<Rightarrow> status proc" where
  "add_terminate_seq_res m seq_id = do {
     out_msg_ctx \<leftarrow> create_out_msg_ctx m;
     out_rm_msg \<leftarrow> create_terminate_seq_res_msg m out_msg_ctx;
     respond_with_ack m seq_id out_rm_msg
   }"

section \<open>The last messages of the sequence\<close>

text \<open>
  \<open>setup_highest_msg_nums\<close>.  The number up to which acknowledgements are asked for is that of the
  highest outgoing message when that one answers the highest incoming one, and zero otherwise.
\<close>

definition related_highest_out :: "cstr \<Rightarrow> cstr \<Rightarrow> int proc" where
  "related_highest_out rec_side_int_seq_id highest_in_msg_id = do {
     highest_out_relates_to \<leftarrow> get_seq_property rec_side_int_seq_id (Some SEQ_PROP_HIGHEST_OUT_RELATES_TO);
     (if \<not> is_null highest_out_relates_to \<and> highest_out_relates_to = highest_in_msg_id then do {
        highest_out \<leftarrow> get_seq_property rec_side_int_seq_id (Some SEQ_PROP_HIGHEST_OUT_MSG_NUMBER);
        (case highest_out of
           None \<Rightarrow> do { undefined_behaviour; ret 0 }
         | Some s \<Rightarrow> ret (atol s))
      } else ret 0)
   }"

definition mark_last_in :: "cstr \<Rightarrow> int \<Rightarrow> cstr \<Rightarrow> cstr \<Rightarrow> int proc" where
  "mark_last_in seq_id highest_in_msg_num highest_in_msg_id rec_side_int_seq_id =
     (if highest_in_msg_num = 0 then ret 0
      else do {
        seq_prop_insert (prop_bean seq_id SEQ_PROP_LAST_IN_MESSAGE_ID highest_in_msg_id);
        related_highest_out rec_side_int_seq_id highest_in_msg_id
      })"

definition terminate_if_acked :: "rm_msg \<Rightarrow> int \<Rightarrow> cstr \<Rightarrow> cstr \<Rightarrow> unit proc" where
  "terminate_if_acked m highest_out_msg_num rec_side_int_seq_id out_seq_id =
     (if \<not> is_null rec_side_int_seq_id \<and> \<not> is_null out_seq_id then do {
        by_internal \<leftarrow> is_all_msgs_acked_upto highest_out_msg_num rec_side_int_seq_id;
        all_acked \<leftarrow> (if by_internal then ret True
                      else is_all_msgs_acked_upto highest_out_msg_num out_seq_id);
        (if all_acked then do { send_terminate_seq_msg m out_seq_id rec_side_int_seq_id; ret () }
         else ret ())
      } else ret ())"

definition setup_highest_msg_nums :: "rm_msg \<Rightarrow> cstr \<Rightarrow> status proc" where
  "setup_highest_msg_nums m seq_id = do {
     highest_in_msg_num_str \<leftarrow> get_seq_property seq_id (Some SEQ_PROP_HIGHEST_IN_MSG_NUMBER);
     highest_in_msg_id \<leftarrow> get_seq_property seq_id (Some SEQ_PROP_HIGHEST_IN_MSG_ID);
     (if \<not> is_null highest_in_msg_num_str \<and> is_null highest_in_msg_id then ret AXIS2_FAILURE
      else do {
        let highest_in_msg_num = (case highest_in_msg_num_str of None \<Rightarrow> 0 | Some s \<Rightarrow> atol s);
        let rec_side_int_seq_id = get_internal_sequence_id seq_id;
        highest_out_msg_num \<leftarrow> mark_last_in seq_id highest_in_msg_num highest_in_msg_id rec_side_int_seq_id;
        out_seq_id \<leftarrow> get_seq_property rec_side_int_seq_id (Some SEQ_PROP_OUTGOING_SEQUENCE_ID);
        terminate_if_acked m highest_out_msg_num rec_side_int_seq_id out_seq_id;
        ret AXIS2_SUCCESS
      })
   }"

section \<open>TerminateSequence coming in\<close>

text \<open>
  With an acknowledgement in the message, the outgoing sequence is terminated when the ranges
  cover all its messages.  The walk over them need not end, so the result is \<open>None\<close> when it
  does not.
\<close>

definition highest_out_no :: "cstr \<Rightarrow> int proc" where
  "highest_out_no internal_sequence_id = do {
     last_out_msg_no_str \<leftarrow> get_seq_property internal_sequence_id (Some SEQ_PROP_LAST_OUT_MESSAGE_NO);
     (case last_out_msg_no_str of
        Some s \<Rightarrow> ret (atol s)
      | None \<Rightarrow> get_prev_msg_no internal_sequence_id)
   }"

definition terminate_on_ack :: "rm_msg \<Rightarrow> seq_ack_part \<Rightarrow> unit option proc" where
  "terminate_on_ack m seq_ack = do {
     let rms_sequence_id = sk_identifier seq_ack;
     internal_sequence_id \<leftarrow> get_seq_property rms_sequence_id (Some SEQ_PROP_OUTGOING_INTERNAL_SEQUENCE_ID);
     terminated_bean \<leftarrow> seq_prop_retrieve internal_sequence_id (Some SEQ_PROP_TERMINATE_ADDED);
     (if \<not> is_null terminated_bean then ret (Some ())
      else do {
        highest_out_msg_no \<leftarrow> highest_out_no internal_sequence_id;
        (if highest_out_msg_no > 0 then
           (case verify_seq_completion (sk_ranges seq_ack) highest_out_msg_no of
              None \<Rightarrow> ret None
            | Some completed \<Rightarrow> do {
                (if completed then do {
                   send_terminate_seq_msg m rms_sequence_id internal_sequence_id; ret ()
                 } else ret ());
                ret (Some ())
              })
         else ret (Some ()))
      })
   }"

definition accept_terminate :: "rm_msg \<Rightarrow> string \<Rightarrow> (sandesha2_error + status) option proc" where
  "accept_terminate m rmd_sequence_id = do {
     let res_reqd = or_default False (is_term_seq_res_reqd (get_rm_spec_ver m));
     (if res_reqd then do { add_terminate_seq_res m (Some rmd_sequence_id); ret () } else ret ());
     let m' = (if res_reqd then m\<lparr>rm_server_side := True\<rparr> else m);
     finished \<leftarrow> (case rm_seq_ack m of
         Some seq_ack \<Rightarrow> terminate_on_ack m' seq_ack
       | None \<Rightarrow> do { setup_highest_msg_nums m' (Some rmd_sequence_id); ret (Some ()) });
     (case finished of
        None \<Rightarrow> ret None
      | Some _ \<Rightarrow> do { emit Set_Paused; ret (Some (Inr AXIS2_SUCCESS)) })
   }"

definition terminate_process_in_msg :: "rm_msg \<Rightarrow> (sandesha2_error + status) option proc" where
  "terminate_process_in_msg m =
     (case rm_terminate_seq m of
        None \<Rightarrow> ret (Some (Inl ERROR_REQD_MSG_PART_MISSING))
      | Some None \<Rightarrow> ret (Some (Inr AXIS2_FAILURE))
      | Some (Some rmd_sequence_id) \<Rightarrow>
          if rmd_sequence_id = '''' then ret (Some (Inr AXIS2_FAILURE))
          else do {
            fault_ctx \<leftarrow> check_for_unknown_seq m (Some rmd_sequence_id);
            (case fault_ctx of
               Some fault \<Rightarrow> do {
                 engine_send_fault fault;
                 emit Set_Paused;
                 ret (Some (Inr AXIS2_SUCCESS))
               }
             | None \<Rightarrow> accept_terminate m rmd_sequence_id)
          })"

section \<open>TerminateSequence going out\<close>

text \<open>
  \<open>process_out_msg\<close>, on a message that a client sends.  The result has the message as it goes on,
  \<open>None\<close> where it goes on unchanged.
\<close>

definition fill_terminate :: "rm_msg \<Rightarrow> string \<Rightarrow> string \<Rightarrow> cstr \<Rightarrow> out_msg" where
  "fill_terminate m out_seq_id rm_version transport_to =
     (new_out_msg MSG_TYPE_TERMINATE_SEQ)
       \<lparr>om_msg_id := rm_msg_id m, om_to := Some (addr_of (rm_to m)), om_seq_id := Some out_seq_id,
        om_reply_to := rm_reply_to m, om_action := right (get_terminate_seq_action rm_version),
        om_soap_action := right (get_terminate_seq_soap_action (Some rm_version)),
        om_transport_url := (case transport_to of None \<Rightarrow> rm_transport_url m | Some t \<Rightarrow> Some t),
        om_seq_ack := rm_seq_ack m\<rparr>"

definition terminate_process_out_msg ::
  "rm_msg \<Rightarrow> (sandesha2_error + status \<times> out_msg option) proc" where
  "terminate_process_out_msg m = do {
     let int_seq_id = get_client_internal_sequence_id (addr_of (rm_to m)) (rm_client_seq_key m);
     out_seq_id \<leftarrow> get_seq_property int_seq_id (Some SEQ_PROP_OUTGOING_SEQUENCE_ID);
     (case out_seq_id of
        None \<Rightarrow> ret (Inl ERROR_CANNOT_FIND_SEQ_ID)
      | Some s \<Rightarrow> do {
          terminated \<leftarrow> get_seq_property int_seq_id (Some SEQ_PROP_TERMINATE_ADDED);
          (if terminated = Some AXIS2_VALUE_TRUE then ret (Inr (AXIS2_SUCCESS, None))
           else do {
             (if is_null (rm_terminate_seq m) then undefined_behaviour else ret ());
             rm_version \<leftarrow> get_rm_version m;
             (case rm_version of
                None \<Rightarrow> ret (Inr (AXIS2_FAILURE, None))
              | Some v \<Rightarrow> do {
                  transport_to \<leftarrow> get_seq_property int_seq_id (Some SEQ_PROP_TRANSPORT_TO);
                  let msg = fill_terminate m s v transport_to;
                  msg' \<leftarrow> (if is_null (rm_seq_ack m) then piggyback_acks_if_present (Some s) msg
                           else ret msg);
                  seq_prop_insert (seq_property_bean_create
                    \<lparr>sp_name := Some SEQ_PROP_TERMINATE_ADDED, sp_seq_id := int_seq_id,
                     sp_value := Some AXIS2_VALUE_TRUE\<rparr>);
                  ret (Inr (AXIS2_SUCCESS, Some msg'))
                })
           })
        })
   }"

section \<open>The response\<close>

text \<open>
  \<open>terminate_seq_res_msg_processor.c\<close>: the call that would clean the sending side is commented
  out, so the message is checked and paused.
\<close>

definition terminate_res_process_in_msg :: "rm_msg \<Rightarrow> (sandesha2_error + status) proc" where
  "terminate_res_process_in_msg m =
     (case rm_terminate_seq_res m of
        None \<Rightarrow> ret (Inl ERROR_REQD_MSG_PART_MISSING)
      | Some None \<Rightarrow> ret (Inr AXIS2_FAILURE)
      | Some (Some seq_id) \<Rightarrow>
          if seq_id = '''' then ret (Inr AXIS2_FAILURE)
          else do { emit Set_Paused; ret (Inr AXIS2_SUCCESS) })"

definition terminate_res_process_out_msg :: "rm_msg \<Rightarrow> status proc" where
  "terminate_res_process_out_msg m = ret AXIS2_SUCCESS"

end
