(* ===== verification/Close_Seq_Msg_Processor.thy ===== *)
theory Close_Seq_Msg_Processor
  imports Terminate_Seq_Msg_Processor
begin

text \<open>
  \<open>src/msgprocessors/close_seq_msg_processor.c\<close> and
  \<open>src/msgprocessors/close_seq_res_msg_processor.c\<close>: closing a sequence on either side, and the
  response, on which the sending side terminates.
\<close>

section \<open>CloseSequence coming in\<close>

definition add_close_seq_res :: "rm_msg \<Rightarrow> cstr \<Rightarrow> status proc" where
  "add_close_seq_res m seq_id = do {
     out_msg_ctx \<leftarrow> create_out_msg_ctx m;
     out_rm_msg \<leftarrow> create_close_seq_res_msg m out_msg_ctx;
     (if is_null seq_id then ret AXIS2_FAILURE else respond_with_ack m seq_id out_rm_msg)
   }"

definition close_process_in_msg :: "rm_msg \<Rightarrow> (sandesha2_error + status) proc" where
  "close_process_in_msg m =
     (case rm_close_seq m of
        None \<Rightarrow> do { undefined_behaviour; ret (Inr AXIS2_FAILURE) }
      | Some seq_id \<Rightarrow> do {
          fault \<leftarrow> check_for_unknown_seq m seq_id;
          (case fault of
             Some f \<Rightarrow> do {
               engine_send_of_fault f;
               emit Set_Paused;
               ret (Inr AXIS2_SUCCESS)
             }
           | None \<Rightarrow> do {
               seq_prop_insert (seq_property_bean_create
                 \<lparr>sp_seq_id := seq_id, sp_name := Some SEQ_PROP_SEQ_CLOSED,
                  sp_value := Some AXIS2_VALUE_TRUE\<rparr>);
               add_close_seq_res m seq_id;
               emit Set_Paused;
               ret (Inr AXIS2_SUCCESS)
             })
        })"

section \<open>The response\<close>

definition close_res_process_in_msg :: "rm_msg \<Rightarrow> (sandesha2_error + status) proc" where
  "close_res_process_in_msg m =
     (case rm_close_seq_res m of
        None \<Rightarrow> ret (Inl ERROR_REQD_MSG_PART_MISSING)
      | Some None \<Rightarrow> ret (Inr AXIS2_FAILURE)
      | Some (Some outgoing_sequence_id) \<Rightarrow>
          if outgoing_sequence_id = '''' then ret (Inr AXIS2_FAILURE)
          else do {
            outgoing_internal_sequence_id \<leftarrow>
              get_seq_property (Some outgoing_sequence_id) (Some SEQ_PROP_OUTGOING_INTERNAL_SEQUENCE_ID);
            send_terminate_seq_msg m (Some outgoing_sequence_id) outgoing_internal_sequence_id;
            ret (Inr AXIS2_SUCCESS)
          })"

definition close_res_process_out_msg :: "rm_msg \<Rightarrow> status proc" where
  "close_res_process_out_msg m = ret AXIS2_SUCCESS"

end
