(* ===== verification/Create_Seq_Res_Msg_Processor.thy ===== *)
theory Create_Seq_Res_Msg_Processor
  imports Create_Seq_Msg_Processor
begin

text \<open>
  \<open>src/msgprocessors/create_seq_res_msg_processor.c\<close>: the response to a CreateSequence message gives
  the outgoing sequence its name; if it accepts the offered sequence, that becomes an incoming one.
\<close>

text \<open>The outgoing sequence, by either of its ids; the CreateSequence message is not sent again.\<close>

definition name_outgoing :: "string \<Rightarrow> string \<Rightarrow> unit proc" where
  "name_outgoing internal_id outgoing_id = do {
     seq_prop_insert (prop_bean (Some internal_id) SEQ_PROP_OUTGOING_SEQUENCE_ID (Some outgoing_id));
     sender_bean \<leftarrow> sender_find_unique (Some (sender_bean_create
       \<lparr>sb_msg_type := MSG_TYPE_CREATE_SEQ, sb_internal_seq_id := Some internal_id, sb_send := True\<rparr>));
     (case sender_bean of
        Some b \<Rightarrow> do { sender_remove (sb_msg_id b); ret () }
      | None \<Rightarrow> ret ());
     seq_prop_insert (prop_bean (Some outgoing_id) SEQ_PROP_OUTGOING_INTERNAL_SEQUENCE_ID (Some internal_id));
     ret ()
   }"

text \<open>
  The accepted offer.  What is stored for the incoming sequence refers to a new CreateSequence
  message, which is built from the response; the result is \<open>False\<close> for the failing returns.
\<close>

definition offered_next_msg :: "cstr \<Rightarrow> cstr \<Rightarrow> string \<Rightarrow> next_msg_bean" where
  "offered_next_msg incoming_sequence_id internal_id key =
     next_msg_bean_create\<lparr>nm_seq_id := incoming_sequence_id, nm_internal_seq_id := internal_id,
       nm_msg_no := 1, nm_ref_msg_key := Some key, nm_polling_mode := False\<rparr>"

definition store_offered :: "rm_msg \<Rightarrow> string \<Rightarrow> cstr \<Rightarrow> out_msg \<Rightarrow> unit proc" where
  "store_offered m internal_id incoming_sequence_id create_seq_msg = do {
     new_msg_store_key \<leftarrow> uuid_gen;
     ctx \<leftarrow> asks (\<lambda>w. cf_out_ctx (w_conf w) create_seq_msg);
     store_msg_ctx (Some new_msg_store_key) ctx;
     next_msg_insert (offered_next_msg incoming_sequence_id (Some internal_id) new_msg_store_key);
     seq_prop_insert (prop_bean incoming_sequence_id SEQ_PROP_SERVER_COMPLETED_MESSAGES (Some ''''));
     seq_prop_insert (prop_bean incoming_sequence_id SEQ_PROP_CLIENT_COMPLETED_MESSAGES (Some ''''));
     seq_prop_insert (prop_bean incoming_sequence_id SEQ_PROP_ADDRESSING_NAMESPACE_VALUE (rm_addr_ns_val m));
     ret ()
   }"

definition take_offered :: "rm_msg \<Rightarrow> string \<Rightarrow> cstr option \<Rightarrow> cstr \<Rightarrow> bool proc" where
  "take_offered m internal_id acks_to_epr incoming_sequence_id = do {
     seq_prop_insert (seq_property_bean_create
       \<lparr>sp_name := Some SEQ_PROP_ACKS_TO_EPR, sp_seq_id := incoming_sequence_id,
        sp_value := addr_of acks_to_epr\<rparr>);
     (if is_null acks_to_epr then undefined_behaviour else ret ());
     created \<leftarrow> create_create_seq_msg m (Some internal_id) (addr_of acks_to_epr);
     (case created of
        None \<Rightarrow> ret False
      | Some create_seq_msg \<Rightarrow> do {
          to_seq_bean \<leftarrow> seq_prop_retrieve (Some internal_id) (Some SEQ_PROP_TO_EPR);
          (case to_seq_bean of
             None \<Rightarrow> ret False
           | Some b \<Rightarrow> do {
               store_offered m internal_id incoming_sequence_id
                 (create_seq_msg\<lparr>om_to := Some (sp_value b), om_relates_to := None\<rparr>);
               ret True
             })
        })
   }"

definition accept_offered :: "rm_msg \<Rightarrow> string \<Rightarrow> cstr option option \<Rightarrow> bool proc" where
  "accept_offered m internal_id accept =
     (case accept of
        None \<Rightarrow> ret True
      | Some acks_to_epr \<Rightarrow> do {
          offered_seq_bean \<leftarrow> seq_prop_retrieve (Some internal_id) (Some SEQ_PROP_OFFERED_SEQ);
          (case offered_seq_bean of
             None \<Rightarrow> ret False
           | Some b \<Rightarrow> take_offered m internal_id acks_to_epr (sp_value b))
        })"

definition establish_outgoing ::
  "rm_msg \<Rightarrow> create_seq_bean \<Rightarrow> string \<Rightarrow> string \<Rightarrow> cstr option option \<Rightarrow> status proc" where
  "establish_outgoing m create_seq_bean internal_id outgoing_id accept = do {
     create_seq_update (create_seq_bean\<lparr>cs_seq_id := Some outgoing_id\<rparr>);
     name_outgoing internal_id outgoing_id;
     ok \<leftarrow> accept_offered m internal_id accept;
     (if ok then do {
        update_last_activated_time (Some internal_id);
        emit Set_Response_Written;
        emit Set_Paused;
        ret AXIS2_SUCCESS
      } else ret AXIS2_FAILURE)
   }"

definition create_seq_res_process_in_msg :: "rm_msg \<Rightarrow> (sandesha2_error + status) proc" where
  "create_seq_res_process_in_msg m =
     (case rm_create_seq_res m of
        None \<Rightarrow> ret (Inl ERROR_REQD_MSG_PART_MISSING)
      | Some csr_part \<Rightarrow>
        (case cr_identifier csr_part of
           None \<Rightarrow> ret (Inl ERROR_CANNOT_FIND_SEQ_ID)
         | Some outgoing_id \<Rightarrow>
           (case rm_relates_to m of
              None \<Rightarrow> ret (Inl ERROR_INVALID_RELATES_TO)
            | Some create_seq_msg_id \<Rightarrow> do {
                create_seq_bean \<leftarrow> create_seq_retrieve create_seq_msg_id;
                (case create_seq_bean of
                   None \<Rightarrow> ret (Inr AXIS2_FAILURE)
                 | Some b \<Rightarrow>
                   (case cs_internal_seq_id b of
                      None \<Rightarrow> ret (Inl ERROR_CANNOT_FIND_SEQ_ID)
                    | Some internal_id \<Rightarrow> do {
                        status \<leftarrow> establish_outgoing m b internal_id outgoing_id (cr_accept csr_part);
                        ret (Inr status)
                      }))
              })))"

end
