(* ===== verification/Ack_Msg_Processor.thy ===== *)
theory Ack_Msg_Processor
  imports Fault_Mgr Terminate_Mgr
begin

text \<open>
  \<open>src/msgprocessors/ack_msg_processor.c\<close>: what a received acknowledgement does.  The handler
  is split along its stages: the checks, the removal of the acknowledged messages, the
  bookkeeping in the sequence properties, and the termination of the sequence.
\<close>

section \<open>The stages\<close>

definition get_retrans_entry :: "sender_bean list option \<Rightarrow> int \<Rightarrow> sender_bean option" where
  "get_retrans_entry l msg_no =
     (case l of None \<Rightarrow> None | Some bs \<Rightarrow> List.find (\<lambda>b. sb_msg_no b = msg_no) bs)"

definition get_no_of_msgs_acked :: "ack_range list option \<Rightarrow> int" where
  "get_no_of_msgs_acked l =
     (case l of
        None \<Rightarrow> -1
      | Some rs \<Rightarrow> foldl (\<lambda>n r. let diff = ar_upper r - ar_lower r + 1 in if diff > 0 then n + diff else n)
                   0 rs)"

definition report_fault :: "fault_msg option \<Rightarrow> unit proc" where
  "report_fault fault =
     (case fault of
        None \<Rightarrow> ret ()
      | Some f \<Rightarrow> do { engine_send_fault f; emit Set_Paused })"

definition remove_acked :: "sender_bean list option \<Rightarrow> int \<Rightarrow> unit proc" where
  "remove_acked retrans_list j =
     (case get_retrans_entry retrans_list j of
        None \<Rightarrow> ret ()
      | Some retrans_bean \<Rightarrow> do {
          sender_remove (sb_msg_id retrans_bean);
          remove_msg_ctx (sb_msg_ctx_ref_key retrans_bean);
          ret ()
        })"

definition acked_numbers :: "ack_range list option \<Rightarrow> int list" where
  "acked_numbers l = concat (map (\<lambda>r. [ar_lower r..ar_upper r]) (list_elems l))"

definition retrans_find_bean :: "cstr \<Rightarrow> sender_bean" where
  "retrans_find_bean internal_sequence_id =
     sender_bean_create\<lparr>sb_internal_seq_id := internal_sequence_id, sb_send := True,
       sb_resend := True, sb_msg_type := MSG_TYPE_APPLICATION\<rparr>"

definition remove_acked_messages :: "cstr \<Rightarrow> ack_range list option \<Rightarrow> unit proc" where
  "remove_acked_messages internal_sequence_id ack_range_list = do {
     retrans_list \<leftarrow> sender_find (Some (retrans_find_bean internal_sequence_id));
     for_each (remove_acked retrans_list) (acked_numbers ack_range_list)
   }"

definition update_acked_count :: "string \<Rightarrow> ack_range list option \<Rightarrow> unit proc" where
  "update_acked_count outgoing_sequence_id ack_range_list = do {
     found \<leftarrow> seq_prop_retrieve (Some outgoing_sequence_id) (Some SEQ_PROP_NO_OF_OUTGOING_MSGS_ACKED);
     let bean = (case found of
           None \<Rightarrow> seq_property_bean_create\<lparr>sp_name := Some SEQ_PROP_NO_OF_OUTGOING_MSGS_ACKED,
                                            sp_seq_id := Some outgoing_sequence_id\<rparr>
         | Some b \<Rightarrow> b);
     insert_or_update (is_null found)
       (bean\<lparr>sp_value := Some (sprintf_ld (get_no_of_msgs_acked ack_range_list))\<rparr>);
     ret ()
   }"

text \<open>
  The list of completed messages: the bean under the outgoing id, or one that is inserted
  without a value under the internal id, each time there is none under the outgoing one.
\<close>

definition completed_bean :: "string \<Rightarrow> cstr \<Rightarrow> seq_property_bean option proc" where
  "completed_bean outgoing_sequence_id internal_sequence_id = do {
     found \<leftarrow> seq_prop_retrieve (Some outgoing_sequence_id) (Some SEQ_PROP_CLIENT_COMPLETED_MESSAGES);
     (case (found, internal_sequence_id) of
        (None, Some i) \<Rightarrow> do {
          let b = seq_property_bean_create\<lparr>sp_seq_id := Some i,
                    sp_name := Some SEQ_PROP_CLIENT_COMPLETED_MESSAGES\<rparr>;
          seq_prop_insert b;
          ret (Some b)
        }
      | _ \<Rightarrow> ret found)
   }"

definition update_completed :: "string \<Rightarrow> cstr \<Rightarrow> ack_range list option \<Rightarrow> unit proc" where
  "update_completed outgoing_sequence_id internal_sequence_id ack_range_list = do {
     bean \<leftarrow> completed_bean outgoing_sequence_id internal_sequence_id;
     let str_list = array_list_to_string ARRAY_LIST_LONG (Some (acked_numbers ack_range_list));
     (case (bean, str_list) of
        (Some b, Some s) \<Rightarrow> do { seq_prop_update (b\<lparr>sp_value := Some s\<rparr>); ret () }
      | _ \<Rightarrow> ret ())
   }"

text \<open>
  The end of the sequence: the answer of the completion test is not looked at, but the test
  may fail to return.
\<close>

definition terminate_if_last :: "rm_msg \<Rightarrow> string \<Rightarrow> cstr \<Rightarrow> ack_range list option \<Rightarrow> unit option proc" where
  "terminate_if_last m outgoing_sequence_id internal_sequence_id ack_range_list = do {
     last_out_msg_no_str \<leftarrow> get_seq_property internal_sequence_id (Some SEQ_PROP_LAST_OUT_MESSAGE_NO);
     (case last_out_msg_no_str of
        None \<Rightarrow> ret (Some ())
      | Some s \<Rightarrow>
          if atol s > 0 then
            (case verify_seq_completion ack_range_list (atol s) of
               None \<Rightarrow> ret None
             | Some completed \<Rightarrow> do {
                 send_terminate_seq_msg m (Some outgoing_sequence_id) internal_sequence_id;
                 ret (Some ())
               })
          else ret (Some ()))
   }"

text \<open>What is done with an acknowledgement of a sequence that is not being terminated.\<close>

definition process_ack :: "rm_msg \<Rightarrow> string \<Rightarrow> cstr \<Rightarrow> ack_range list option \<Rightarrow> status option proc" where
  "process_ack m outgoing_sequence_id internal_sequence_id ack_range_list = do {
     remove_acked_messages internal_sequence_id ack_range_list;
     update_acked_count outgoing_sequence_id ack_range_list;
     update_completed outgoing_sequence_id internal_sequence_id ack_range_list;
     r \<leftarrow> terminate_if_last m outgoing_sequence_id internal_sequence_id ack_range_list;
     (case r of
        None \<Rightarrow> ret None
      | Some _ \<Rightarrow> do {
          (if rm_body_empty m then emit Set_Paused else ret ());
          ret (Some AXIS2_SUCCESS)
        })
   }"

text \<open>
  \<open>sandesha2_ack_msg_processor_process_in_msg\<close>.  \<open>Inl\<close> is a failure with its error code;
  the answer \<open>None\<close> stands for a handler that does not return.
\<close>

definition ack_process_in_msg :: "rm_msg \<Rightarrow> (sandesha2_error + status option) proc" where
  "ack_process_in_msg m =
     (case rm_seq_ack m of
        None \<Rightarrow> ret (Inl ERROR_REQD_MSG_PART_MISSING)
      | Some sk \<Rightarrow>
        (case sk_identifier sk of
           None \<Rightarrow> ret (Inl ERROR_NULL_SEQ)
         | Some outgoing_sequence_id \<Rightarrow>
           if outgoing_sequence_id = '''' then ret (Inl ERROR_NULL_SEQ)
           else do {
             internal_sequence_id \<leftarrow> get_seq_property (Some outgoing_sequence_id)
               (Some SEQ_PROP_OUTGOING_INTERNAL_SEQUENCE_ID);
             fault \<leftarrow> check_for_invalid_ack m;
             report_fault fault;
             (if is_null internal_sequence_id then ret AXIS2_SUCCESS
              else update_last_activated_time internal_sequence_id);
             terminated_bean \<leftarrow> seq_prop_retrieve internal_sequence_id (Some SEQ_PROP_TERMINATE_ADDED);
             (if is_null terminated_bean then do {
                r \<leftarrow> process_ack m outgoing_sequence_id internal_sequence_id (sk_ranges sk);
                ret (Inr r)
              } else ret (Inr (Some AXIS2_SUCCESS)))
           }))"

section \<open>Removing what is acknowledged\<close>

definition awaits_ack :: "cstr \<Rightarrow> sender_row \<Rightarrow> bool" where
  "awaits_ack internal_id r \<longleftrightarrow> opt_text_cond internal_id (sr_internal_seq_id r)
     \<and> sr_msg_type r = msg_type_code MSG_TYPE_APPLICATION \<and> sr_send r"

lemma retrans_find_cond: "sender_find_cond (Some (retrans_find_bean i)) = awaits_ack i"
  by (auto simp: fun_eq_iff sender_find_cond_def awaits_ack_def retrans_find_bean_def
      sender_bean_create_def opt_text_cond_def)

lemma find_map_dec:
  "List.find (\<lambda>b. sb_msg_no b = j) (map sender_dec rs) = map_option sender_dec (List.find (\<lambda>r. sr_msg_no r = j) rs)"
  by (induction rs) auto

lemma get_retrans_entry_found [simp]:
  "get_retrans_entry (if rs = [] then None else Some (map sender_dec rs)) j
     = map_option sender_dec (List.find (\<lambda>r. sr_msg_no r = j) rs)"
  by (cases "rs = []") (simp_all add: get_retrans_entry_def find_map_dec)

lemma set_acked_numbers [simp]: "set (acked_numbers (Some rs)) = acked_set rs"
  by (auto simp: acked_numbers_def acked_set_def range_set_def)

text \<open>The rows the loop over the numbers \<open>js\<close> removes.\<close>

definition hit_rows :: "sender_row list \<Rightarrow> int list \<Rightarrow> sender_row set" where
  "hit_rows rs js = {r. \<exists>j \<in> set js. List.find (\<lambda>r. sr_msg_no r = j) rs = Some r}"

lemma hit_rows_Cons:
  "hit_rows rs (j # js) = (case List.find (\<lambda>r. sr_msg_no r = j) rs of
      None \<Rightarrow> hit_rows rs js | Some r \<Rightarrow> insert r (hit_rows rs js))"
  by (auto simp: hit_rows_def split: option.splits)

lemma run_remove_acked_loop:
  "ready w \<Longrightarrow> \<exists>k. run_state (for_each (remove_acked
       (if rs = [] then None else Some (map sender_dec rs))) js) w
    = ((), w\<lparr>w_sender := filter (\<lambda>x. sr_msg_id x \<notin> sr_msg_id ` hit_rows rs js) (w_sender w),
             w_msg := filter (\<lambda>x. mr_stored_key x \<notin> sr_msg_ctx_ref_key ` hit_rows rs js) (w_msg w),
             w_tick := k\<rparr>)"
proof (induction js arbitrary: w)
  case Nil
  then show ?case by (intro exI[of _ "w_tick w"]) (simp add: hit_rows_def)
next
  case (Cons j js)
  show ?case
  proof (cases "List.find (\<lambda>r. sr_msg_no r = j) rs")
    case None
    then have "run_state (remove_acked (if rs = [] then None else Some (map sender_dec rs)) j) w
        = ((), w)" by (simp add: remove_acked_def split del: if_split)
    then show ?thesis using Cons None
      by (simp add: hit_rows_Cons split del: if_split)
  next
    case (Some r)
    let ?w = "w\<lparr>w_sender := row_del sr_msg_id (sr_msg_id r) (w_sender w),
      w_msg := row_del mr_stored_key (sr_msg_ctx_ref_key r) (w_msg w), w_tick := Suc (Suc (w_tick w))\<rparr>"
    have "run_state (remove_acked (if rs = [] then None else Some (map sender_dec rs)) j) w
        = ((), ?w)"
      using Some Cons.prems by (simp add: remove_acked_def exec_simps tick_def split del: if_split)
    moreover obtain k where "run_state (for_each (remove_acked
         (if rs = [] then None else Some (map sender_dec rs))) js) ?w
      = ((), ?w\<lparr>w_sender := filter (\<lambda>x. sr_msg_id x \<notin> sr_msg_id ` hit_rows rs js) (w_sender ?w),
               w_msg := filter (\<lambda>x. mr_stored_key x \<notin> sr_msg_ctx_ref_key ` hit_rows rs js) (w_msg ?w),
               w_tick := k\<rparr>)"
      using Cons.IH[of ?w] Cons.prems by auto
    ultimately show ?thesis using Some
      by (intro exI[of _ k]) (simp add: hit_rows_Cons filter_row_del split del: if_split)
  qed
qed

lemma hit_rows_unique:
  assumes "inj_on sr_msg_no (set rs)"
  shows "hit_rows rs js = {r \<in> set rs. sr_msg_no r \<in> set js}"
proof -
  have "List.find (\<lambda>x. sr_msg_no x = sr_msg_no r) rs = Some r" if "r \<in> set rs" for r
    using that assms
  proof (induction rs)
    case (Cons a rs)
    then show ?case by (auto simp: inj_on_def)
  qed simp
  then show ?thesis by (auto simp: hit_rows_def dest: find_SomeD)
qed

lemma run_remove_acked_messages:
  assumes "ready w" "sender_ok (w_sender w)" "inj_on sr_msg_no {r \<in> set (w_sender w). awaits_ack i r}"
  shows "\<exists>m k. run_state (remove_acked_messages i (Some rs)) w
    = ((), w\<lparr>w_sender := filter (\<lambda>r. \<not> (awaits_ack i r \<and> sr_msg_no r \<in> acked_set rs)) (w_sender w),
             w_msg := m, w_tick := k\<rparr>)"
proof -
  let ?c = "filter (awaits_ack i) (w_sender w)"
  obtain k where loop: "run_state (for_each (remove_acked
       (if ?c = [] then None else Some (map sender_dec ?c))) (acked_numbers (Some rs))) (tick w)
    = ((), (tick w)\<lparr>w_sender := filter (\<lambda>x. sr_msg_id x \<notin> sr_msg_id ` hit_rows ?c (acked_numbers (Some rs))) (w_sender (tick w)),
             w_msg := filter (\<lambda>x. mr_stored_key x \<notin> sr_msg_ctx_ref_key ` hit_rows ?c (acked_numbers (Some rs))) (w_msg (tick w)),
             w_tick := k\<rparr>)"
    using run_remove_acked_loop[of "tick w" ?c] assms(1) by auto
  have "hit_rows ?c (acked_numbers (Some rs))
      = set (filter (\<lambda>r. awaits_ack i r \<and> sr_msg_no r \<in> acked_set rs) (w_sender w))"
    using hit_rows_unique[of ?c "acked_numbers (Some rs)"] assms(3) by auto
  then have "filter (\<lambda>x. sr_msg_id x \<notin> sr_msg_id ` hit_rows ?c (acked_numbers (Some rs))) (w_sender w)
      = filter (\<lambda>r. \<not> (awaits_ack i r \<and> sr_msg_no r \<in> acked_set rs)) (w_sender w)"
    by (simp only: filter_by_keys[OF assms(2)])
  then have "run_state (remove_acked_messages i (Some rs)) w
    = ((), w\<lparr>w_sender := filter (\<lambda>r. \<not> (awaits_ack i r \<and> sr_msg_no r \<in> acked_set rs)) (w_sender w),
             w_msg := filter (\<lambda>x. mr_stored_key x \<notin> sr_msg_ctx_ref_key ` hit_rows ?c (acked_numbers (Some rs))) (w_msg w),
             w_tick := k\<rparr>)"
    using loop assms(1)
    by (simp add: remove_acked_messages_def exec_simps retrans_find_cond sender_beans_def tick_def Let_def
        split del: if_split)
  then show ?thesis by blast
qed

section \<open>The bookkeeping\<close>

lemma run_update_acked_count:
  assumes "ready w" "props_ok (w_seq_prop w)"
  shows "run_state (update_acked_count s l) w = ((), w\<lparr>w_seq_prop :=
       prop_put s SEQ_PROP_NO_OF_OUTGOING_MSGS_ACKED (sprintf_ld (get_no_of_msgs_acked l)) (w_seq_prop w),
       w_tick := w_tick w + 2\<rparr>)"
  using assms
  by (simp add: update_acked_count_def exec_simps Let_def seq_property_bean_create_def tick_def)

definition completed_text :: "ack_range list \<Rightarrow> string" where
  "completed_text rs = join_with '','' (map ARRAY_LIST_LONG (acked_numbers (Some rs)))"

lemma completed_text_numbers: "msg_nos_of (completed_text rs) = acked_numbers (Some rs)"
  by (simp add: msg_nos_of_def completed_text_def msg_nos_of_array_list_to_string)

lemma run_update_completed:
  assumes "ready w" "props_ok (w_seq_prop w)" "acked_numbers (Some rs) \<noteq> []"
    and "c = SEQ_PROP_CLIENT_COMPLETED_MESSAGES"
  shows "\<exists>t k. run_state (update_completed s (Some i) (Some rs)) w = ((), w\<lparr>w_seq_prop := t, w_tick := k\<rparr>)
     \<and> props_ok t
     \<and> (\<forall>q n. colon_free n \<longrightarrow> pvals t q n =
          (if q = (if pvals (w_seq_prop w) s c = None then i else s) \<and> n = c
           then Some (completed_text rs) else pvals (w_seq_prop w) q n))"
proof -
  have str: "array_list_to_string ARRAY_LIST_LONG (Some (acked_numbers (Some rs))) = Some (completed_text rs)"
    using assms(3) by (simp add: array_list_to_string_join completed_text_def)
  have val: "(mk_prop q n v)\<lparr>sp_value := Some u\<rparr> = mk_prop q n u" for q n v u by (simp add: mk_prop_def)
  have nul: "seq_property_bean_create\<lparr>sp_seq_id := Some i, sp_name := Some c\<rparr>
      = (mk_prop i c null_text)\<lparr>sp_value := None\<rparr>"
    by (simp add: mk_prop_def seq_property_bean_create_def)
  have row: "seq_property_row_of ((mk_prop i c u)\<lparr>sp_value := None\<rparr>) = seq_property_row_of (mk_prop i c null_text)" for u
    by (simp add: seq_property_row_of_def get_id_with_bean_def mk_prop_def)
  have cf: "colon_free c" using assms(4) by simp
  show ?thesis
  proof (cases "pvals (w_seq_prop w) s c")
    case None
    let ?t1 = "w_seq_prop w @ [seq_property_row_of (mk_prop i c null_text)]"
    let ?t = "prop_upd (mk_prop i c (completed_text rs)) ?t1"
    have ok: "props_ok ?t1" using assms(2) cf by simp
    have "run_state (update_completed s (Some i) (Some rs)) w
        = ((), w\<lparr>w_seq_prop := ?t, w_tick := w_tick w + 3\<rparr>)"
      using assms(1,2) None cf nul row str
      by (simp add: update_completed_def completed_bean_def exec_simps pvals_look_Some
          tick_def Let_def flip: assms(4)) (simp add: mk_prop_def)
    then show ?thesis using None ok cf
      by (intro exI[of _ ?t] exI[of _ "w_tick w + 3"] conjI) (simp_all add: pvals_upd pvals_simps)
  next
    case (Some v)
    let ?t = "prop_upd (mk_prop s c (completed_text rs)) (w_seq_prop w)"
    have "run_state (update_completed s (Some i) (Some rs)) w
        = ((), w\<lparr>w_seq_prop := ?t, w_tick := w_tick w + 2\<rparr>)"
      using assms(1,2) Some cf str
      by (simp add: update_completed_def completed_bean_def exec_simps pvals_look_Some val
          tick_def Let_def flip: assms(4))
    then show ?thesis using Some assms(2) cf
      by (intro exI[of _ ?t] exI[of _ "w_tick w + 2"] conjI) (simp_all add: pvals_upd)
  qed
qed

section \<open>The handler\<close>

lemma run_report_fault: "\<exists>k tr. run_state (report_fault f) w = ((), w\<lparr>w_tick := k, w_trace := tr\<rparr>)"
proof (cases f)
  case None
  then show ?thesis
    by (intro exI[of _ "w_tick w"] exI[of _ "w_trace w"]) (simp add: report_fault_def)
next
  case (Some a)
  then show ?thesis
    by (intro exI[of _ "Suc (w_tick w)"] exI[of _ "w_trace w @ [Engine_Send_Fault a, Set_Paused]"])
       (simp add: report_fault_def exec_simps tick_def)
qed

lemma run_check_invalid_ack:
  assumes "ready w" "rm_seq_ack m = Some sk" "rm_msg_type m \<noteq> MSG_TYPE_CREATE_SEQ"
  shows "\<exists>f. run_state (check_for_invalid_ack m) w = (f, w\<lparr>w_tick := w_tick w +
     (if rm_msg_type m = MSG_TYPE_ACK \<and> invalid_ranges (sk_ranges sk) \<and> rm_addr_ns_val m \<noteq> None
      then 1 else 0)\<rparr>)"
  using assms(2) run_fault_of[OF assms(1,3)]
  by (cases "rm_msg_type m = MSG_TYPE_ACK"; cases "invalid_ranges (sk_ranges sk)"; cases "rm_addr_ns_val m")
     (simp_all add: check_for_invalid_ack_def tick_def)

lemma run_process_ack:
  assumes "ready w" "sender_ok (w_sender w)" "props_ok (w_seq_prop w)"
    and "inj_on sr_msg_no {r \<in> set (w_sender w). awaits_ack (Some i) r}"
    and "acked_numbers (Some rs) \<noteq> []" "pvals (w_seq_prop w) i SEQ_PROP_LAST_OUT_MESSAGE_NO = None"
    and "c = SEQ_PROP_CLIENT_COMPLETED_MESSAGES" "d = SEQ_PROP_NO_OF_OUTGOING_MSGS_ACKED"
  shows "\<exists>w'. run_state (process_ack m s (Some i) (Some rs)) w = (Some AXIS2_SUCCESS, w')
     \<and> w_sender w' = filter (\<lambda>r. \<not> (awaits_ack (Some i) r \<and> sr_msg_no r \<in> acked_set rs)) (w_sender w)
     \<and> (\<forall>q n. colon_free n \<longrightarrow> pvals (w_seq_prop w') q n =
          (if q = (if pvals (w_seq_prop w) s c = None then i else s) \<and> n = c then Some (completed_text rs)
           else if q = s \<and> n = d then Some (sprintf_ld (get_no_of_msgs_acked (Some rs)))
           else pvals (w_seq_prop w) q n))"
proof -
  have names: "c \<noteq> d" "SEQ_PROP_LAST_OUT_MESSAGE_NO \<noteq> c" "SEQ_PROP_LAST_OUT_MESSAGE_NO \<noteq> d"
    using assms(7,8) by (simp_all add: prop_names)
  have cf: "colon_free c" "colon_free d" using assms(7,8) by simp_all
  obtain ms k1 where 1: "run_state (remove_acked_messages (Some i) (Some rs)) w
    = ((), w\<lparr>w_sender := filter (\<lambda>r. \<not> (awaits_ack (Some i) r \<and> sr_msg_no r \<in> acked_set rs)) (w_sender w),
             w_msg := ms, w_tick := k1\<rparr>)" (is "_ = ((), ?w1)")
    using run_remove_acked_messages[OF assms(1,2,4)] by blast
  let ?t2 = "prop_put s d (sprintf_ld (get_no_of_msgs_acked (Some rs))) (w_seq_prop w)"
  let ?w2 = "?w1\<lparr>w_seq_prop := ?t2, w_tick := k1 + 2\<rparr>"
  have 2: "run_state (update_acked_count s (Some rs)) ?w1 = ((), ?w2)"
    using run_update_acked_count[of ?w1 s "Some rs"] assms(1,3,8) by simp
  have t2: "pvals ?t2 q n = (if q = s \<and> n = d then Some (sprintf_ld (get_no_of_msgs_acked (Some rs)))
      else pvals (w_seq_prop w) q n)" if "colon_free n" for q n
    using that cf by (simp add: pvals_prop_put)
  obtain t k3 where 3: "run_state (update_completed s (Some i) (Some rs)) ?w2
      = ((), ?w2\<lparr>w_seq_prop := t, w_tick := k3\<rparr>)"
    "\<forall>q n. colon_free n \<longrightarrow> pvals t q n =
          (if q = (if pvals ?t2 s c = None then i else s) \<and> n = c then Some (completed_text rs)
           else pvals ?t2 q n)"
    using run_update_completed[of ?w2 rs c s i] assms(1,3,5,7,8) by auto
  let ?w3 = "?w2\<lparr>w_seq_prop := t, w_tick := k3\<rparr>"
  have t: "pvals t q n = (if q = (if pvals (w_seq_prop w) s c = None then i else s) \<and> n = c
           then Some (completed_text rs)
           else if q = s \<and> n = d then Some (sprintf_ld (get_no_of_msgs_acked (Some rs)))
           else pvals (w_seq_prop w) q n)" if "colon_free n" for q n
    using 3(2) that t2 cf names(1) by simp
  have "pvals t i SEQ_PROP_LAST_OUT_MESSAGE_NO = None" using t names assms(6) by simp
  then have "bean_value (seq_property_look t (prop_id i SEQ_PROP_LAST_OUT_MESSAGE_NO)) = None"
    by (simp add: pvals_def)
  then have 4: "run_state (terminate_if_last m s (Some i) (Some rs)) ?w3 = (Some (), tick ?w3)"
    using assms(1) by (simp add: terminate_if_last_def exec_simps flip: bean_value_def)
  show ?thesis
  proof (intro exI conjI)
    show "run_state (process_ack m s (Some i) (Some rs)) w = (Some AXIS2_SUCCESS,
        (tick ?w3)\<lparr>w_trace := w_trace w @ (if rm_body_empty m then [Set_Paused] else [])\<rparr>)"
      using 1 2 3(1) 4 by (simp add: process_ack_def exec_simps)
  qed (use t in \<open>simp_all\<close>)
qed

text \<open>The checks and the touch of the activation time, before the acknowledgement is processed.\<close>

lemma run_ack_process_in_msg:
  assumes "ready w" "props_ok (w_seq_prop w)" "rm_seq_ack m = Some sk" "sk_identifier sk = Some s"
    and "s \<noteq> []" "rm_msg_type m \<noteq> MSG_TYPE_CREATE_SEQ"
    and "prop_value w s SEQ_PROP_OUTGOING_INTERNAL_SEQUENCE_ID = Some i"
    and "prop_value w i SEQ_PROP_TERMINATE_ADDED = None"
  shows "\<exists>v now. run_state (ack_process_in_msg m) w
       = run_state (do { r \<leftarrow> process_ack m s (Some i) (sk_ranges sk); ret (Inr r) }) v
     \<and> ready v \<and> w_sender v = w_sender w
     \<and> w_seq_prop v = prop_put i SEQ_PROP_LAST_ACTIVATED_TIME now (w_seq_prop w)"
proof -
  have int: "run_state (get_seq_property (Some s) (Some SEQ_PROP_OUTGOING_INTERNAL_SEQUENCE_ID)) w
      = (Some i, tick w)"
    using assms(1,7) by (simp add: exec_simps prop_value_def)
  obtain f k where 1: "run_state (check_for_invalid_ack m) (tick w) = (f, w\<lparr>w_tick := k\<rparr>)"
    using run_check_invalid_ack[of "tick w" m sk] assms(1,3,6) by (auto simp: tick_def)
  obtain k2 tr where 2: "run_state (report_fault f) (w\<lparr>w_tick := k\<rparr>) = ((), w\<lparr>w_tick := k2, w_trace := tr\<rparr>)"
    using run_report_fault[of f "w\<lparr>w_tick := k\<rparr>"] by auto
  let ?w2 = "w\<lparr>w_tick := k2, w_trace := tr\<rparr>"
  let ?now = "sprintf_ld (w_clock w (Suc k2))"
  let ?v = "tick (tick (tick (?w2\<lparr>w_seq_prop := prop_put i SEQ_PROP_LAST_ACTIVATED_TIME ?now (w_seq_prop w)\<rparr>)))"
  have 3: "run_state (update_last_activated_time (Some i)) ?w2 = (AXIS2_SUCCESS, ?v)"
    using run_update_last_activated_time[of ?w2 i] assms(1,2) by simp
  have "SEQ_PROP_TERMINATE_ADDED \<noteq> SEQ_PROP_LAST_ACTIVATED_TIME" by (simp add: prop_names)
  then have "pvals (w_seq_prop ?v) i SEQ_PROP_TERMINATE_ADDED = None"
    using assms(8) by (simp add: pvals_prop_put prop_value_pvals)
  then have 4: "run_state (seq_prop_retrieve (Some i) (Some SEQ_PROP_TERMINATE_ADDED)) ?v = (None, tick ?v)"
    using assms(1,2) by (simp add: exec_simps pvals_look_Some)
  have "run_state (ack_process_in_msg m) w
       = run_state (do { r \<leftarrow> process_ack m s (Some i) (sk_ranges sk); ret (Inr r) }) (tick ?v)"
    using assms(3-5) int 1 2 3 4 by (simp add: ack_process_in_msg_def is_null_def)
  then show ?thesis using assms(1) by (intro exI[of _ "tick ?v"] exI[of _ ?now]) simp
qed

text \<open>What an acknowledgement changes.\<close>

lemma run_ack_of_sequence:
  assumes "ready w" "sender_ok (w_sender w)" "props_ok (w_seq_prop w)"
    and "rm_seq_ack m = Some sk" "sk_identifier sk = Some s" "s \<noteq> []" "sk_ranges sk = Some rs"
    and "rm_msg_type m \<noteq> MSG_TYPE_CREATE_SEQ" "acked_numbers (Some rs) \<noteq> []"
    and "prop_value w s SEQ_PROP_OUTGOING_INTERNAL_SEQUENCE_ID = Some i"
    and "prop_value w i SEQ_PROP_TERMINATE_ADDED = None"
    and "prop_value w i SEQ_PROP_LAST_OUT_MESSAGE_NO = None"
    and "inj_on sr_msg_no {r \<in> set (w_sender w). awaits_ack (Some i) r}"
  obtains w' where "run_state (ack_process_in_msg m) w = (Inr (Some AXIS2_SUCCESS), w')"
    "w_sender w' = filter (\<lambda>r. \<not> (awaits_ack (Some i) r \<and> sr_msg_no r \<in> acked_set rs)) (w_sender w)"
    "\<And>q n. colon_free n \<Longrightarrow> n \<noteq> SEQ_PROP_LAST_ACTIVATED_TIME \<Longrightarrow> prop_value w' q n =
          (if q = (if prop_value w s SEQ_PROP_CLIENT_COMPLETED_MESSAGES = None then i else s)
              \<and> n = SEQ_PROP_CLIENT_COMPLETED_MESSAGES then Some (completed_text rs)
           else if q = s \<and> n = SEQ_PROP_NO_OF_OUTGOING_MSGS_ACKED
             then Some (sprintf_ld (get_no_of_msgs_acked (Some rs)))
           else prop_value w q n)"
proof -
  let ?c = "SEQ_PROP_CLIENT_COMPLETED_MESSAGES" and ?d = "SEQ_PROP_NO_OF_OUTGOING_MSGS_ACKED"
  have names: "?c \<noteq> ?d" "?c \<noteq> SEQ_PROP_LAST_ACTIVATED_TIME" "?d \<noteq> SEQ_PROP_LAST_ACTIVATED_TIME"
    "SEQ_PROP_LAST_OUT_MESSAGE_NO \<noteq> SEQ_PROP_LAST_ACTIVATED_TIME" by (simp_all add: prop_names)
  obtain v now where v: "run_state (ack_process_in_msg m) w
       = run_state (do { r \<leftarrow> process_ack m s (Some i) (Some rs); ret (Inr r) }) v"
    "ready v" "w_sender v = w_sender w"
    "w_seq_prop v = prop_put i SEQ_PROP_LAST_ACTIVATED_TIME now (w_seq_prop w)"
    using run_ack_process_in_msg[OF assms(1,3,4,5,6,8,10,11)] assms(7) by auto
  have pv: "pvals (w_seq_prop v) q n = (if q = i \<and> n = SEQ_PROP_LAST_ACTIVATED_TIME then Some now
      else prop_value w q n)" if "colon_free n" for q n
    using that v(4) by (simp add: pvals_prop_put prop_value_pvals)
  obtain w' where w': "run_state (process_ack m s (Some i) (Some rs)) v = (Some AXIS2_SUCCESS, w')"
    "w_sender w' = filter (\<lambda>r. \<not> (awaits_ack (Some i) r \<and> sr_msg_no r \<in> acked_set rs)) (w_sender w)"
    "\<forall>q n. colon_free n \<longrightarrow> pvals (w_seq_prop w') q n =
          (if q = (if pvals (w_seq_prop v) s ?c = None then i else s) \<and> n = ?c then Some (completed_text rs)
           else if q = s \<and> n = ?d then Some (sprintf_ld (get_no_of_msgs_acked (Some rs)))
           else pvals (w_seq_prop v) q n)"
    using run_process_ack[where w = v and i = i and rs = rs and c = ?c and d = ?d and s = s and m = m] v assms(2,3,9,12,13) pv names by auto
  show thesis
    by (rule that[OF _ w'(2)]) (use w' v(1) pv names in \<open>auto simp: prop_value_pvals\<close>)
qed

text \<open>C1: an acknowledgement for an outgoing sequence whose last message
  is not known yet removes from the sender table exactly the application messages of that
  sequence that wait and whose numbers it acknowledges, and no message of any sequence besides;
  it records the number of acknowledged messages and the list of their numbers, and changes no
  other property but the time of the last activity.\<close>

theorem ack_removes_exactly_acked:
  assumes "ready w" "sender_ok (w_sender w)" "props_ok (w_seq_prop w)"
    and "rm_seq_ack m = Some sk" "sk_identifier sk = Some s" "s \<noteq> []" "sk_ranges sk = Some rs"
    and "rm_msg_type m \<noteq> MSG_TYPE_CREATE_SEQ" "acked_numbers (Some rs) \<noteq> []"
    and "prop_value w s SEQ_PROP_OUTGOING_INTERNAL_SEQUENCE_ID = Some i"
    and "prop_value w i SEQ_PROP_TERMINATE_ADDED = None"
    and "prop_value w i SEQ_PROP_LAST_OUT_MESSAGE_NO = None"
    and "inj_on sr_msg_no {r \<in> set (w_sender w). awaits_ack (Some i) r}"
  shows "\<exists>w' l. run_state (ack_process_in_msg m) w = (Inr (Some AXIS2_SUCCESS), w')
     \<and> w_sender w' = filter (\<lambda>r. \<not> (awaits_ack (Some i) r \<and> sr_msg_no r \<in> acked_set rs)) (w_sender w)
     \<and> prop_value w' s SEQ_PROP_NO_OF_OUTGOING_MSGS_ACKED = Some (sprintf_ld (get_no_of_msgs_acked (Some rs)))
     \<and> prop_value w' (if prop_value w s SEQ_PROP_CLIENT_COMPLETED_MESSAGES = None then i else s)
         SEQ_PROP_CLIENT_COMPLETED_MESSAGES = Some l
     \<and> msg_nos_of l = acked_numbers (Some rs)
     \<and> (\<forall>q n. colon_free n \<and> n \<notin> {SEQ_PROP_CLIENT_COMPLETED_MESSAGES,
           SEQ_PROP_NO_OF_OUTGOING_MSGS_ACKED, SEQ_PROP_LAST_ACTIVATED_TIME}
         \<longrightarrow> prop_value w' q n = prop_value w q n)"
proof (rule run_ack_of_sequence[OF assms])
  let ?c = "SEQ_PROP_CLIENT_COMPLETED_MESSAGES" and ?d = "SEQ_PROP_NO_OF_OUTGOING_MSGS_ACKED"
  have names: "?c \<noteq> ?d" "?c \<noteq> SEQ_PROP_LAST_ACTIVATED_TIME" "?d \<noteq> SEQ_PROP_LAST_ACTIVATED_TIME"
    "colon_free ?c" "colon_free ?d" by (simp_all add: prop_names colon_free_def)
  fix w' assume w': "run_state (ack_process_in_msg m) w = (Inr (Some AXIS2_SUCCESS), w')"
    "w_sender w' = filter (\<lambda>r. \<not> (awaits_ack (Some i) r \<and> sr_msg_no r \<in> acked_set rs)) (w_sender w)"
    "\<And>q n. colon_free n \<Longrightarrow> n \<noteq> SEQ_PROP_LAST_ACTIVATED_TIME \<Longrightarrow> prop_value w' q n =
       (if q = (if prop_value w s ?c = None then i else s) \<and> n = ?c then Some (completed_text rs)
        else if q = s \<and> n = ?d then Some (sprintf_ld (get_no_of_msgs_acked (Some rs)))
        else prop_value w q n)"
  show ?thesis
    by (intro exI[of _ w'] exI[of _ "completed_text rs"] conjI)
       (use w'(1,2) w'(3)[OF names(4,2)] w'(3)[OF names(5,3)] w'(3) names(1-3) in \<open>auto simp: completed_text_numbers\<close>)
qed

definition two_sent :: world where
  "two_sent = idle_world\<lparr>
     w_seq_prop := [seq_property_row_of (mk_prop ''rms'' SEQ_PROP_OUTGOING_INTERNAL_SEQUENCE_ID ''i'')],
     w_sender := map (\<lambda>(m, n). sender_row_of (sender_bean_create\<lparr>sb_msg_id := Some m,
       sb_internal_seq_id := Some ''i'', sb_msg_no := n, sb_send := True,
       sb_msg_type := MSG_TYPE_APPLICATION\<rparr>)) [(''m1'', 1), (''m2'', 2)]\<rparr>"

definition ack_of_first :: rm_msg where
  "ack_of_first = sample_msg\<lparr>rm_msg_type := MSG_TYPE_ACK, rm_seq_ack := Some
     \<lparr>sk_identifier = Some ''rms'', sk_ranges = Some [\<lparr>ar_lower = 1, ar_upper = 1, ar_ns = None\<rparr>],
      sk_nacks = [], sk_final = False\<rparr>\<rparr>"

lemma two_sent_facts:
  "ready two_sent" "sender_ok (w_sender two_sent)" "props_ok (w_seq_prop two_sent)"
  "prop_value two_sent ''rms'' SEQ_PROP_OUTGOING_INTERNAL_SEQUENCE_ID = Some ''i''"
  "prop_value two_sent ''i'' SEQ_PROP_TERMINATE_ADDED = None"
  "prop_value two_sent ''i'' SEQ_PROP_LAST_OUT_MESSAGE_NO = None"
  "inj_on sr_msg_no {r \<in> set (w_sender two_sent). awaits_ack (Some ''i'') r}"
proof -
  have t: "w_seq_prop two_sent = [] @ [seq_property_row_of (mk_prop ''rms'' SEQ_PROP_OUTGOING_INTERNAL_SEQUENCE_ID ''i'')]"
    by (simp add: two_sent_def)
  have e: "pvals [] q n = None" for q n by (simp add: pvals_def seq_property_look_def bean_value_def)
  show "ready two_sent" "sender_ok (w_sender two_sent)" by (simp_all add: two_sent_def pk_ok_def)
  show "props_ok (w_seq_prop two_sent)" unfolding t by (intro props_ok_ops(2)) (simp_all add: props_ok_def)
  show "prop_value two_sent ''rms'' SEQ_PROP_OUTGOING_INTERNAL_SEQUENCE_ID = Some ''i''"
    "prop_value two_sent ''i'' SEQ_PROP_TERMINATE_ADDED = None"
    "prop_value two_sent ''i'' SEQ_PROP_LAST_OUT_MESSAGE_NO = None"
    unfolding prop_value_pvals t by (subst pvals_simps; simp add: e)+
  show "inj_on sr_msg_no {r \<in> set (w_sender two_sent). awaits_ack (Some ''i'') r}"
    by (auto simp: two_sent_def inj_on_def sender_row_of_def)
qed

theorem ack_removes_exactly_acked_witness:
  "\<exists>w' l. run_state (ack_process_in_msg ack_of_first) two_sent = (Inr (Some AXIS2_SUCCESS), w')
     \<and> prop_value w' (if prop_value two_sent ''rms'' SEQ_PROP_CLIENT_COMPLETED_MESSAGES = None
                      then ''i'' else ''rms'') SEQ_PROP_CLIENT_COMPLETED_MESSAGES = Some l
     \<and> msg_nos_of l = [1]"
proof -
  have n: "acked_numbers (Some [\<lparr>ar_lower = 1, ar_upper = 1, ar_ns = None\<rparr>]) = [1]"
    by (simp add: acked_numbers_def)
  show ?thesis
    using ack_removes_exactly_acked[of two_sent ack_of_first
        "\<lparr>sk_identifier = Some ''rms'', sk_ranges = Some [\<lparr>ar_lower = 1, ar_upper = 1, ar_ns = None\<rparr>],
          sk_nacks = [], sk_final = False\<rparr>" "''rms''" "[\<lparr>ar_lower = 1, ar_upper = 1, ar_ns = None\<rparr>]" "''i''"]
      two_sent_facts n by (auto simp: ack_of_first_def)
qed

section \<open>Acknowledgements of an unknown sequence\<close>

text \<open>The first row with a number, of whatever sequence, that is an application message to be sent.\<close>

definition first_waiting :: "sender_row list \<Rightarrow> int \<Rightarrow> sender_row option" where
  "first_waiting t n = List.find (\<lambda>r. sr_send r \<and> sr_msg_type r = msg_type_code MSG_TYPE_APPLICATION \<and> sr_msg_no r = n) t"

lemma find_filter: "List.find P (filter Q xs) = List.find (\<lambda>x. Q x \<and> P x) xs"
  by (induction xs) auto

lemma hit_rows_first:
  "hit_rows (filter (awaits_ack None) t) js = {r. sr_msg_no r \<in> set js \<and> first_waiting t (sr_msg_no r) = Some r}"
  by (auto simp: hit_rows_def find_filter first_waiting_def awaits_ack_def opt_text_cond_def conj_ac dest: find_SomeD)

lemma run_remove_acked_unknown:
  assumes "ready w" "sender_ok (w_sender w)"
  shows "\<exists>m k. run_state (remove_acked_messages None (Some rs)) w
    = ((), w\<lparr>w_sender := filter (\<lambda>r. \<not> (sr_msg_no r \<in> acked_set rs \<and> first_waiting (w_sender w) (sr_msg_no r) = Some r))
               (w_sender w), w_msg := m, w_tick := k\<rparr>)"
proof -
  let ?c = "filter (awaits_ack None) (w_sender w)"
  let ?h = "hit_rows ?c (acked_numbers (Some rs))"
  let ?p = "\<lambda>r. sr_msg_no r \<in> acked_set rs \<and> first_waiting (w_sender w) (sr_msg_no r) = Some r"
  obtain k where loop: "run_state (for_each (remove_acked
       (if ?c = [] then None else Some (map sender_dec ?c))) (acked_numbers (Some rs))) (tick w)
    = ((), (tick w)\<lparr>w_sender := filter (\<lambda>x. sr_msg_id x \<notin> sr_msg_id ` ?h) (w_sender (tick w)),
             w_msg := filter (\<lambda>x. mr_stored_key x \<notin> sr_msg_ctx_ref_key ` ?h) (w_msg (tick w)), w_tick := k\<rparr>)"
    using run_remove_acked_loop[of "tick w" ?c] assms(1) by auto
  have "?h = set (filter ?p (w_sender w))"
    by (auto simp: hit_rows_first first_waiting_def dest: find_SomeD)
  then have "filter (\<lambda>x. sr_msg_id x \<notin> sr_msg_id ` ?h) (w_sender w) = filter (\<lambda>r. \<not> ?p r) (w_sender w)"
    by (simp only: filter_by_keys[OF assms(2)])
  then have "run_state (remove_acked_messages None (Some rs)) w
    = ((), w\<lparr>w_sender := filter (\<lambda>r. \<not> ?p r) (w_sender w),
             w_msg := filter (\<lambda>x. mr_stored_key x \<notin> sr_msg_ctx_ref_key ` ?h) (w_msg w), w_tick := k\<rparr>)"
    using loop assms(1)
    by (simp add: remove_acked_messages_def exec_simps retrans_find_cond sender_beans_def tick_def Let_def
        split del: if_split)
  then show ?thesis by blast
qed

lemma run_update_completed_unknown:
  assumes "ready w" "props_ok (w_seq_prop w)"
  shows "\<exists>t k. run_state (update_completed s None l) w = ((), w\<lparr>w_seq_prop := t, w_tick := k\<rparr>)
     \<and> (\<forall>q n. colon_free n \<and> (q = s \<longrightarrow> n \<noteq> SEQ_PROP_CLIENT_COMPLETED_MESSAGES) \<longrightarrow> pvals t q n = pvals (w_seq_prop w) q n)"
proof -
  let ?c = SEQ_PROP_CLIENT_COMPLETED_MESSAGES
  let ?str = "array_list_to_string ARRAY_LIST_LONG (Some (acked_numbers l))"
  have val: "(mk_prop q n v)\<lparr>sp_value := Some u\<rparr> = mk_prop q n u" for q n v u by (simp add: mk_prop_def)
  show ?thesis
  proof (cases "pvals (w_seq_prop w) s ?c = None \<or> ?str = None")
    case True
    then have "run_state (update_completed s None l) w = ((), tick w)"
      using assms by (auto simp: update_completed_def completed_bean_def exec_simps pvals_look_Some Let_def split: option.split)
    then show ?thesis by (intro exI[of _ "w_seq_prop w"] exI[of _ "Suc (w_tick w)"]) (simp add: tick_def)
  next
    case False
    then obtain v u where "pvals (w_seq_prop w) s ?c = Some v" "?str = Some u" by auto
    moreover from this have "run_state (update_completed s None l) w
        = ((), w\<lparr>w_seq_prop := prop_upd (mk_prop s ?c u) (w_seq_prop w), w_tick := w_tick w + 2\<rparr>)"
      using assms by (simp add: update_completed_def completed_bean_def exec_simps pvals_look_Some val tick_def Let_def)
    ultimately show ?thesis using assms(2)
      by (intro exI[of _ "prop_upd (mk_prop s ?c u) (w_seq_prop w)"] exI[of _ "w_tick w + 2"])
         (auto simp: pvals_upd)
  qed
qed

text \<open>C39: an acknowledgement whose sequence id is unknown is not refused (the test for unknown
  sequences is commented out): it is processed with success under no sequence.  For each number it
  acknowledges, the first application message with that number that waits to be sent is taken out of the sender
  table, to whatever sequence it belongs, and no other row; the number of acknowledged messages is
  recorded under the unknown id, and no property of another sequence changes.\<close>

theorem unknown_ack_hits_other_sequences:
  assumes "ready w" "sender_ok (w_sender w)" "props_ok (w_seq_prop w)"
    and "rm_seq_ack m = Some sk" "sk_identifier sk = Some s" "s \<noteq> []" "sk_ranges sk = Some rs"
    and "rm_msg_type m \<noteq> MSG_TYPE_CREATE_SEQ"
    and "prop_value w s SEQ_PROP_OUTGOING_INTERNAL_SEQUENCE_ID = None"
  shows "\<exists>w'. run_state (ack_process_in_msg m) w = (Inr (Some AXIS2_SUCCESS), w')
     \<and> w_sender w' = filter (\<lambda>r. \<not> (sr_msg_no r \<in> acked_set rs \<and> first_waiting (w_sender w) (sr_msg_no r) = Some r)) (w_sender w)
     \<and> prop_value w' s SEQ_PROP_NO_OF_OUTGOING_MSGS_ACKED = Some (sprintf_ld (get_no_of_msgs_acked (Some rs)))
     \<and> (\<forall>q n. colon_free n \<and> (q = s \<longrightarrow> n \<notin> {SEQ_PROP_CLIENT_COMPLETED_MESSAGES, SEQ_PROP_NO_OF_OUTGOING_MSGS_ACKED})
         \<longrightarrow> prop_value w' q n = prop_value w q n)"
proof -
  let ?c = SEQ_PROP_CLIENT_COMPLETED_MESSAGES and ?d = SEQ_PROP_NO_OF_OUTGOING_MSGS_ACKED
  have names: "?c \<noteq> ?d" "colon_free ?c" "colon_free ?d" by (simp_all add: prop_names colon_free_def)
  have int: "run_state (get_seq_property (Some s) (Some SEQ_PROP_OUTGOING_INTERNAL_SEQUENCE_ID)) w = (None, tick w)"
    using assms(1,9) by (simp add: exec_simps prop_value_def)
  obtain f k where 1: "run_state (check_for_invalid_ack m) (tick w) = (f, w\<lparr>w_tick := k\<rparr>)"
    using run_check_invalid_ack[of "tick w" m sk] assms(1,4,8) by (auto simp: tick_def)
  obtain k2 tr where 2: "run_state (report_fault f) (w\<lparr>w_tick := k\<rparr>) = ((), w\<lparr>w_tick := k2, w_trace := tr\<rparr>)"
    using run_report_fault[of f "w\<lparr>w_tick := k\<rparr>"] by auto
  let ?w2 = "w\<lparr>w_trace := tr, w_tick := Suc k2\<rparr>"
  obtain ms k3 where 3: "run_state (remove_acked_messages None (Some rs)) ?w2
    = ((), ?w2\<lparr>w_sender := filter (\<lambda>r. \<not> (sr_msg_no r \<in> acked_set rs \<and> first_waiting (w_sender w) (sr_msg_no r) = Some r))
               (w_sender w), w_msg := ms, w_tick := k3\<rparr>)" (is "_ = ((), ?w3)")
    using run_remove_acked_unknown[of ?w2 rs] assms(1,2) by auto
  let ?t = "prop_put s ?d (sprintf_ld (get_no_of_msgs_acked (Some rs))) (w_seq_prop w)"
  let ?w4 = "?w3\<lparr>w_seq_prop := ?t, w_tick := k3 + 2\<rparr>"
  have 4: "run_state (update_acked_count s (Some rs)) ?w3 = ((), ?w4)"
    using run_update_acked_count[of ?w3 s "Some rs"] assms(1,3) by simp
  obtain t k5 where 5: "run_state (update_completed s None (Some rs)) ?w4 = ((), ?w4\<lparr>w_seq_prop := t, w_tick := k5\<rparr>)"
    "\<forall>q n. colon_free n \<and> (q = s \<longrightarrow> n \<noteq> ?c) \<longrightarrow> pvals t q n = pvals ?t q n"
    using run_update_completed_unknown[of ?w4 s "Some rs"] assms(1,3) names(3) by auto
  let ?w5 = "?w4\<lparr>w_seq_prop := t, w_tick := k5\<rparr>"
  let ?w' = "?w5\<lparr>w_trace := tr @ (if rm_body_empty m then [Set_Paused] else [])\<rparr>"
  have "run_state (terminate_if_last m s None (Some rs)) ?w5 = (Some (), ?w5)"
    by (simp add: terminate_if_last_def exec_simps)
  then have "run_state (process_ack m s None (Some rs)) ?w2 = (Some AXIS2_SUCCESS, ?w')"
    using 3 4 5(1) by (simp add: process_ack_def exec_simps)
  moreover have "run_state (ack_process_in_msg m) w
      = run_state (do { r \<leftarrow> process_ack m s None (Some rs); ret (Inr r) }) ?w2"
    using assms(4-7) int 1 2 by (simp add: ack_process_in_msg_def exec_simps is_null_def tick_def)
  ultimately have run: "run_state (ack_process_in_msg m) w = (Inr (Some AXIS2_SUCCESS), ?w')"
    by simp
  have "pvals t q n = (if q = s \<and> n = ?d then Some (sprintf_ld (get_no_of_msgs_acked (Some rs))) else pvals (w_seq_prop w) q n)"
    if "colon_free n" "q = s \<longrightarrow> n \<noteq> ?c" for q n
    using that 5(2) names(3) by (simp add: pvals_prop_put)
  then show ?thesis using run names
    by (intro exI[of _ ?w'])
       (auto simp: prop_value_pvals)
qed

text \<open>An acknowledgement for an id that nobody gave takes the first message of the sequence \<open>i\<close>.\<close>

definition ack_of_unknown :: rm_msg where
  "ack_of_unknown = sample_msg\<lparr>rm_msg_type := MSG_TYPE_ACK, rm_seq_ack := Some
     \<lparr>sk_identifier = Some ''unknown'', sk_ranges = Some [\<lparr>ar_lower = 1, ar_upper = 1, ar_ns = None\<rparr>],
      sk_nacks = [], sk_final = False\<rparr>\<rparr>"

theorem unknown_ack_hits_other_sequences_witness:
  "\<exists>w'. run_state (ack_process_in_msg ack_of_unknown) two_sent = (Inr (Some AXIS2_SUCCESS), w')
     \<and> map sr_msg_id (w_sender two_sent) = [''m1'', ''m2''] \<and> map sr_msg_id (w_sender w') = [''m2'']"
proof -
  let ?rs = "[\<lparr>ar_lower = 1, ar_upper = 1, ar_ns = None\<rparr>]"
  have t: "w_seq_prop two_sent = [] @ [seq_property_row_of (mk_prop ''rms'' SEQ_PROP_OUTGOING_INTERNAL_SEQUENCE_ID ''i'')]"
    by (simp add: two_sent_def)
  have none: "prop_value two_sent ''unknown'' SEQ_PROP_OUTGOING_INTERNAL_SEQUENCE_ID = None"
    unfolding prop_value_pvals t by (subst pvals_simps) (simp_all add: pvals_def seq_property_look_def bean_value_def)
  have "map sr_msg_id (filter (\<lambda>r. \<not> (sr_msg_no r \<in> acked_set ?rs \<and> first_waiting (w_sender two_sent) (sr_msg_no r) = Some r))
      (w_sender two_sent)) = [''m2'']"
    by (simp add: two_sent_def sender_row_of_def acked_set_def range_set_def first_waiting_def)
  then show ?thesis
    using unknown_ack_hits_other_sequences[OF two_sent_facts(1-3) _ _ _ _ _ none, of ack_of_unknown _ ?rs]
    by (force simp: ack_of_unknown_def two_sent_def)
qed

end
