(* ===== verification/Ack_Req_Msg_Processor.thy ===== *)
theory Ack_Req_Msg_Processor
  imports Create_Seq_Msg_Processor
begin

text \<open>
  \<open>src/msgprocessors/ack_req_msg_processor.c\<close>: an AckRequested message is answered with the
  acknowledgement of the sequence, at once to an anonymous address, through the sender table
  otherwise.
\<close>

definition requested_ack :: "rm_msg \<Rightarrow> cstr \<Rightarrow> string \<Rightarrow> out_msg proc" where
  "requested_ack m seq_id acks_to_str = do {
     msg_id \<leftarrow> uuid_gen;
     r \<leftarrow> add_ack_msg m ((new_out_msg MSG_TYPE_ACK)
            \<lparr>om_msg_id := Some msg_id, om_to := Some (Some acks_to_str), om_reply_to := rm_to m,
             om_transport_url := rm_transport_url m\<rparr>) seq_id;
     ret (fst r)
   }"

text \<open>
  The waiting acknowledgements are looked up without a sequence, so those of every sequence make
  way, and the new one takes the time of the last of them.
\<close>

fun replace_waiting_acks :: "sender_bean list \<Rightarrow> int \<Rightarrow> int proc" where
  "replace_waiting_acks [] time_to_send = ret time_to_send"
| "replace_waiting_acks (old_ack_bean # bs) time_to_send = do {
     sender_remove (sb_msg_id old_ack_bean);
     remove_msg_ctx (sb_msg_ctx_ref_key old_ack_bean);
     replace_waiting_acks bs (sb_time_to_send old_ack_bean)
   }"

definition waiting_acks_bean :: sender_bean where
  "waiting_acks_bean =
     sender_bean_create\<lparr>sb_resend := False, sb_send := True, sb_msg_type := MSG_TYPE_ACK\<rparr>"

definition requested_ack_bean :: "string \<Rightarrow> cstr \<Rightarrow> cstr \<Rightarrow> int \<Rightarrow> sender_bean" where
  "requested_ack_bean key msg_id seq_id time_to_send =
     sender_bean_create\<lparr>sb_msg_ctx_ref_key := Some key, sb_msg_id := msg_id, sb_resend := False,
       sb_seq_id := seq_id, sb_send := True, sb_msg_type := MSG_TYPE_ACK,
       sb_time_to_send := time_to_send\<rparr>"

definition schedule_ack ::
  "rm_msg \<Rightarrow> cstr \<Rightarrow> out_msg \<Rightarrow> (sandesha2_error + status) proc" where
  "schedule_ack m seq_id ack = do {
     key \<leftarrow> uuid_gen;
     prop_bean \<leftarrow> get_property_bean (rm_has_svc m);
     (case prop_bean of
        None \<Rightarrow> ret (Inr AXIS2_FAILURE)
      | Some pb \<Rightarrow> do {
          now \<leftarrow> current_time_in_millis;
          found_list \<leftarrow> sender_find (Some waiting_acks_bean);
          time_to_send \<leftarrow> replace_waiting_acks (list_elems found_list) (now + pb_ack_interval pb);
          ctx \<leftarrow> asks (\<lambda>w. cf_out_ctx (w_conf w) ack);
          store_msg_ctx (Some key) ctx;
          sender_insert (requested_ack_bean key (om_msg_id ack) seq_id time_to_send);
          sent \<leftarrow> engine_send (ack\<lparr>om_via_sandesha_transport := True\<rparr>);
          (if sent then do { emit Set_Paused; ret (Inr AXIS2_SUCCESS) }
           else ret (Inl ERROR_SENDING_ACK))
        })
   }"

definition ack_req_process_in_msg :: "rm_msg \<Rightarrow> (sandesha2_error + status) proc" where
  "ack_req_process_in_msg m =
     (case rm_ack_requested m of
        None \<Rightarrow> ret (Inl ERROR_REQD_MSG_PART_MISSING)
      | Some seq_id \<Rightarrow> do {
          acks_to_bean \<leftarrow> seq_prop_retrieve seq_id (Some SEQ_PROP_ACKS_TO_EPR);
          (if is_null acks_to_bean then undefined_behaviour else ret ());
          (case bean_value acks_to_bean of
             None \<Rightarrow> ret (Inr AXIS2_FAILURE)
           | Some acks_to_str \<Rightarrow> do {
               ack \<leftarrow> requested_ack m seq_id acks_to_str;
               anon \<leftarrow> asks (\<lambda>w. is_anon_uri (cf_wsa (w_conf w)) (cf_trim (w_conf w)) (Some acks_to_str));
               (if anon then do {
                  emit Set_Response_Written;
                  sent \<leftarrow> engine_send ack;
                  ret (if sent then Inr AXIS2_SUCCESS else Inl ERROR_SENDING_ACK)
                } else schedule_ack m seq_id ack)
             })
        })"

definition ack_req_process_out_msg :: "rm_msg \<Rightarrow> status proc" where
  "ack_req_process_out_msg m = ret AXIS2_SUCCESS"

end
