(* ===== verification/Make_Connection_Msg_Processor.thy ===== *)
theory Make_Connection_Msg_Processor
  imports Msg_Creator Msg_Retrans_Adjuster Frames
begin

text \<open>
  \<open>src/msgprocessors/make_connection_msg_processor.c\<close>: a MakeConnection message opens a connection on
  which one waiting message is sent.
\<close>

section \<open>Which message is sent\<close>

text \<open>
  One turn of the loop over the due messages.  Acknowledgements and MakeConnection messages are
  passed over; an application message replaces a result with a larger number.
\<close>

definition mc_step :: "sender_bean option \<Rightarrow> sender_bean \<Rightarrow> sender_bean option" where
  "mc_step result bean =
     (if sb_msg_type bean = MSG_TYPE_ACK then result
      else if sb_msg_type bean = MSG_TYPE_MAKE_CONNECTION_MSG then result
      else if sb_msg_type bean = MSG_TYPE_APPLICATION then
        (case result of
           None \<Rightarrow> Some bean
         | Some r \<Rightarrow> if sb_msg_no r > sb_msg_no bean then Some bean else Some r)
      else (case result of None \<Rightarrow> Some bean | Some r \<Rightarrow> Some r))"

text \<open>
  Without a positive time the statement has no first condition, which is an error of syntax.  The
  second result is whether more messages are pending.
\<close>

definition mc_get_next_msg_to_send ::
  "db_env \<Rightarrow> sender_table \<Rightarrow> int \<Rightarrow> cstr \<Rightarrow> sender_bean option \<times> bool" where
  "mc_get_next_msg_to_send e t time_now internal_seq_id =
     (let match_list = bean_mgr_find e sender_find_callback
            (if time_now > 0
             then sql_select
                    (\<lambda>r. sr_time_to_send r \<le> time_now
                       \<and> opt_text_cond internal_seq_id (sr_internal_seq_id r)
                       \<and> sr_send r) t
             else None)
      in (foldl mc_step None (list_elems match_list), list_size match_list > 1))"

definition next_on_connection :: "cstr \<Rightarrow> (sender_bean option \<times> bool) proc" where
  "next_on_connection internal_seq_id = do {
     time_now \<leftarrow> current_time_in_millis;
     State (\<lambda>w. (mc_get_next_msg_to_send (env_now w) (w_sender w) time_now internal_seq_id, tick w))
   }"

section \<open>Sending it\<close>

text \<open>After the transmission: a message to be resent keeps its row with the new count and time.\<close>

definition after_transmission :: "sender_bean \<Rightarrow> cstr \<Rightarrow> unit proc" where
  "after_transmission sender_bean msg_id = do {
     bean1 \<leftarrow> sender_retrieve msg_id;
     (case bean1 of
        None \<Rightarrow> ret ()
      | Some b \<Rightarrow>
          if sb_resend sender_bean then do {
            sender_update (b\<lparr>sb_sent_count := sb_sent_count sender_bean,
                             sb_time_to_send := sb_time_to_send sender_bean\<rparr>);
            ret ()
          } else do {
            sender_remove (sb_msg_id b);
            remove_msg_ctx (sb_msg_ctx_ref_key b);
            ret ()
          })
   }"

text \<open>
  A message of a type that is not to be sent stays where it is.  The elements of the list are the numbers
  that \<open>atoi\<close> reads in its texts.
\<close>

definition type_dropped :: "property_bean option \<Rightarrow> message_type \<Rightarrow> bool" where
  "type_dropped bean ty =
     (case Option.bind bean pb_msg_types_to_drop of
        None \<Rightarrow> False
      | Some msgs_not_to_send \<Rightarrow> list_ex (\<lambda>int_val. msg_type_code ty = int_val) msgs_not_to_send)"

definition transmit :: "rm_msg \<Rightarrow> sender_bean \<Rightarrow> cstr \<Rightarrow> msg_ctx \<Rightarrow> bool \<Rightarrow> unit proc" where
  "transmit m sender_bean msg_id ctx pending =
     (if \<not> is_null (rm_qualified m) \<and> rm_qualified m \<noteq> Some AXIS2_VALUE_TRUE then ret ()
      else do {
        prop_bean \<leftarrow> get_property_bean (rm_has_svc m);
        msg_type \<leftarrow> asks (\<lambda>w. fst (cf_stored (w_conf w) ctx));
        (if type_dropped prop_bean msg_type then ret ()
         else do {
           emit (Transport_Invoke ctx pending);
           after_transmission sender_bean msg_id
         })
      })"

definition send_on_connection :: "rm_msg \<Rightarrow> sender_bean \<Rightarrow> bool \<Rightarrow> (sandesha2_error + status) proc" where
  "send_on_connection m sender_bean pending = do {
     return_msg_ctx \<leftarrow> retrieve_stored_msg (sb_msg_ctx_ref_key sender_bean);
     (case return_msg_ctx of
        None \<Rightarrow> ret (Inr AXIS2_FAILURE)
      | Some ctx \<Rightarrow> do {
          emit Set_Response_Written;
          (bean, continue_sending) \<leftarrow> adjust_retrans sender_bean (rm_has_svc m);
          (if continue_sending then transmit m bean (sb_msg_id sender_bean) ctx pending else ret ());
          ret (Inr AXIS2_SUCCESS)
        })
   }"

definition make_connection_process_in_msg :: "rm_msg \<Rightarrow> (sandesha2_error + status) proc" where
  "make_connection_process_in_msg m =
     (case rm_make_connection m of
        None \<Rightarrow> ret (Inl ERROR_REQD_MSG_PART_MISSING)
      | Some identifier \<Rightarrow> do {
          emit Set_Paused;
          int_seq_bean \<leftarrow> seq_prop_retrieve (addr_of identifier) (Some SEQ_PROP_OUTGOING_INTERNAL_SEQUENCE_ID);
          (sender_bean, pending) \<leftarrow> next_on_connection (bean_value int_seq_bean);
          (case sender_bean of
             None \<Rightarrow> ret (Inr AXIS2_SUCCESS)
           | Some b \<Rightarrow>
               if \<not> rm_has_transport_out m then ret (Inl ERROR_CANNOT_INFER_TRANSPORT)
               else send_on_connection m b pending)
        })"

end
