(* ===== verification/In_Handler.thy ===== *)
theory In_Handler
  imports Terminate_Seq_Msg_Processor Close_Seq_Msg_Processor Create_Seq_Res_Msg_Processor
    Ack_Msg_Processor Ack_Req_Msg_Processor Make_Connection_Msg_Processor
begin

text \<open>
  \<open>src/handlers/sandesha2_in_handler.c\<close> and \<open>src/msgprocessors/msg_processor_creator.c\<close>: a message that
  comes in is dropped if it is a duplicate, else its acknowledgement is processed and it goes
  to the processor of its type.  Left out is that the handler clears the must-understand mark of an
  AckRequested in the message and writes the envelope anew: the processors read the elements
  that were made of the envelope before.
\<close>

section \<open>The processor of a type\<close>

datatype msg_processor =
    Create_Seq_Proc
  | Terminate_Seq_Proc
  | Terminate_Seq_Res_Proc
  | Application_Proc
  | Create_Seq_Res_Proc
  | Close_Seq_Proc
  | Close_Seq_Res_Proc
  | Make_Connection_Proc

definition create_msg_processor :: "message_type \<Rightarrow> msg_processor option" where
  "create_msg_processor msg_type =
     (if msg_type = MSG_TYPE_CREATE_SEQ then Some Create_Seq_Proc
      else if msg_type = MSG_TYPE_TERMINATE_SEQ then Some Terminate_Seq_Proc
      else if msg_type = MSG_TYPE_TERMINATE_SEQ_RESPONSE then Some Terminate_Seq_Res_Proc
      else if msg_type = MSG_TYPE_APPLICATION then Some Application_Proc
      else if msg_type = MSG_TYPE_CREATE_SEQ_RESPONSE then Some Create_Seq_Res_Proc
      else if msg_type = MSG_TYPE_CLOSE_SEQ then Some Close_Seq_Proc
      else if msg_type = MSG_TYPE_CLOSE_SEQ_RESPONSE then Some Close_Seq_Res_Proc
      else if msg_type = MSG_TYPE_MAKE_CONNECTION_MSG then Some Make_Connection_Proc
      else None)"

text \<open>
  The status of a processor is not looked at, so only the return matters: \<open>None\<close> when a walk over
  acknowledged ranges does not end.
\<close>

definition returns :: "'a proc \<Rightarrow> unit option proc" where
  "returns c = do { c; ret (Some ()) }"

definition returns_if :: "('a \<Rightarrow> 'b option) \<Rightarrow> 'a proc \<Rightarrow> unit option proc" where
  "returns_if f c = do { r \<leftarrow> c; ret (map_option (\<lambda>_. ()) (f r)) }"

definition ack_returned :: "sandesha2_error + status option \<Rightarrow> status option" where
  "ack_returned r = (case r of Inl _ \<Rightarrow> Some AXIS2_FAILURE | Inr s \<Rightarrow> s)"

definition msg_processor_process_in_msg :: "msg_processor \<Rightarrow> rm_msg \<Rightarrow> unit option proc" where
  "msg_processor_process_in_msg p m =
     (case p of
        Create_Seq_Proc \<Rightarrow> returns (create_seq_process_in_msg m)
      | Terminate_Seq_Proc \<Rightarrow> returns_if id (terminate_process_in_msg m)
      | Terminate_Seq_Res_Proc \<Rightarrow> returns (terminate_res_process_in_msg m)
      | Application_Proc \<Rightarrow> returns (app_process_in_msg m)
      | Create_Seq_Res_Proc \<Rightarrow> returns (create_seq_res_process_in_msg m)
      | Close_Seq_Proc \<Rightarrow> returns (close_process_in_msg m)
      | Close_Seq_Res_Proc \<Rightarrow> returns (close_res_process_in_msg m)
      | Make_Connection_Proc \<Rightarrow> returns (make_connection_process_in_msg m))"

section \<open>Duplicates\<close>

definition app_sequence :: "rm_msg \<Rightarrow> (cstr \<times> int) option" where
  "app_sequence m =
     (if rm_msg_type m = MSG_TYPE_APPLICATION
      then map_option (\<lambda>sq. (sq_identifier sq, sq_msg_no sq)) (rm_sequence m) else None)"

definition already_received :: "seq_property_bean option \<Rightarrow> int \<Rightarrow> bool" where
  "already_received rcvd_msgs_bean msg_no =
     list_ex (\<lambda>temp. atol temp = msg_no)
       (list_elems (get_array_list_from_string (bean_value rcvd_msgs_bean)))"

text \<open>
  A message without a body gets the action of a last message, and its number is listed here
  already, with a comma unless the list is empty.
\<close>

definition list_empty_msg :: "string \<Rightarrow> int \<Rightarrow> seq_property_bean option \<Rightarrow> unit proc" where
  "list_empty_msg rmd_sequence_id msg_no rcvd_msgs_bean = do {
     bean \<leftarrow> (case rcvd_msgs_bean of
         Some b \<Rightarrow> ret b
       | None \<Rightarrow> do {
           let b = prop_bean (Some rmd_sequence_id) SEQ_PROP_SERVER_COMPLETED_MESSAGES (Some '''');
           seq_prop_insert b;
           ret b
         });
     let bean_value = (case sp_value bean of
           None \<Rightarrow> sprintf_ld msg_no
         | Some s \<Rightarrow> if 0 < length s then s @ '','' @ sprintf_ld msg_no else sprintf_ld msg_no);
     seq_prop_update (bean\<lparr>sp_value := Some bean_value\<rparr>);
     ret ()
   }"

definition as_last_message :: "rm_msg \<Rightarrow> rm_msg" where
  "as_last_message m = m\<lparr>rm_wsa_action := Some (action_2005_02 ''LastMessage'')\<rparr>"

definition drop_app_msg :: "rm_msg \<Rightarrow> string \<Rightarrow> int \<Rightarrow> (rm_msg \<times> bool) proc" where
  "drop_app_msg m rmd_sequence_id msg_no = do {
     rcvd_msgs_bean \<leftarrow> seq_prop_retrieve (Some rmd_sequence_id) (Some SEQ_PROP_SERVER_COMPLETED_MESSAGES);
     (if already_received rcvd_msgs_bean msg_no then ret (m, True)
      else if rm_body_empty m then do {
        list_empty_msg rmd_sequence_id msg_no rcvd_msgs_bean;
        ret (as_last_message m, False)
      } else ret (m, False))
   }"

text \<open>The message goes on as it is in the result, whose second part tells whether to drop it.\<close>

definition drop_if_duplicate :: "rm_msg \<Rightarrow> (rm_msg \<times> bool) proc" where
  "drop_if_duplicate m = do {
     r \<leftarrow> (case app_sequence m of
         Some (Some rmd_sequence_id, msg_no) \<Rightarrow>
           if 0 < msg_no then drop_app_msg m rmd_sequence_id msg_no else ret (m, False)
       | _ \<Rightarrow> ret (m, rm_msg_type m = MSG_TYPE_UNKNOWN \<and> \<not> is_null (rm_relates_to m) \<and> \<not> rm_op_ctx_known m));
     (if snd r then emit Set_Paused else ret ());
     ret r
   }"

text \<open>
  A dropped message is acknowledged again: with its response, if that still waits to be
  acknowledged itself, alone otherwise.
\<close>

definition response_bean :: "cstr \<Rightarrow> int \<Rightarrow> sender_bean" where
  "response_bean internal_sequence_id msg_no =
     sender_bean_create\<lparr>sb_msg_no := msg_no, sb_internal_seq_id := internal_sequence_id, sb_send := True\<rparr>"

definition with_response :: "msg_ctx \<Rightarrow> rm_msg \<Rightarrow> string \<Rightarrow> unit proc" where
  "with_response ctx m rmd_sequence_id = do {
     emit Set_Response_Written;
     stored \<leftarrow> asks (\<lambda>w. cf_stored (w_conf w) ctx);
     r \<leftarrow> add_ack_msg (m\<lparr>rm_has_svc := \<not> is_null (mc_svc ctx)\<rparr>)
            ((new_out_msg (fst stored))
               \<lparr>om_msg_id := mc_msg_id ctx, om_action := mc_action ctx, om_seq_ack := snd stored\<rparr>)
            (Some rmd_sequence_id);
     engine_send_stored (ctx\<lparr>mc_msg_id := om_msg_id (fst r), mc_action := om_action (fst r)\<rparr>)
       (om_seq_ack (fst r));
     ret ()
   }"

definition answer_dropped :: "rm_msg \<Rightarrow> string \<Rightarrow> int \<Rightarrow> cstr \<Rightarrow> unit proc" where
  "answer_dropped m rmd_sequence_id msg_no rcvd_msgs_str = do {
     let internal_sequence_id = get_internal_sequence_id (Some rmd_sequence_id);
     sender_bean \<leftarrow> sender_find_unique (Some (response_bean internal_sequence_id msg_no));
     (case sender_bean of
        Some b \<Rightarrow> do {
          app_msg_ctx \<leftarrow> retrieve_stored_msg (sb_msg_ctx_ref_key b);
          (case app_msg_ctx of
             None \<Rightarrow> undefined_behaviour
           | Some ctx \<Rightarrow> with_response ctx m rmd_sequence_id)
        }
      | None \<Rightarrow> do { send_ack_if_reqd m rcvd_msgs_str (Some rmd_sequence_id) (-1); ret () })
   }"

definition process_dropped_msg :: "rm_msg \<Rightarrow> unit proc" where
  "process_dropped_msg m =
     (case app_sequence m of
        Some (Some rmd_sequence_id, msg_no) \<Rightarrow> do {
          rcvd_msgs_bean \<leftarrow> seq_prop_retrieve (Some rmd_sequence_id) (Some SEQ_PROP_SERVER_COMPLETED_MESSAGES);
          (case rcvd_msgs_bean of
             None \<Rightarrow> ret ()
           | Some b \<Rightarrow> answer_dropped m rmd_sequence_id msg_no (sp_value b))
        }
      | _ \<Rightarrow> ret ())"

section \<open>The handler\<close>

text \<open>\<open>sandesha2_in_handler_invoke\<close>, from the check for duplicates on, and as a whole.\<close>

definition process_by_type :: "rm_msg \<Rightarrow> unit option proc" where
  "process_by_type m = do {
     acked \<leftarrow> (if is_null (rm_seq_ack m) then ret (Some ())
               else returns_if ack_returned (ack_process_in_msg m));
     (case acked of
        None \<Rightarrow> ret None
      | Some _ \<Rightarrow>
        (case create_msg_processor (rm_msg_type m) of
           None \<Rightarrow> ret (Some ())
         | Some p \<Rightarrow> msg_processor_process_in_msg p m))
   }"

definition handle_incoming :: "rm_msg \<Rightarrow> unit option proc" where
  "handle_incoming m = do {
     (m', dropped) \<leftarrow> (if rm_isolated_last_msg m = Some AXIS2_VALUE_TRUE then ret (m, False)
                       else drop_if_duplicate m);
     (if dropped then do { process_dropped_msg m'; ret (Some ()) }
      else process_by_type m')
   }"

definition in_handler_invoke :: "rm_msg \<Rightarrow> status option proc" where
  "in_handler_invoke m = do {
     created \<leftarrow> create_db;
     (if \<not> created then ret (Some AXIS2_FAILURE)
      else if rm_app_processing_done m = Some AXIS2_VALUE_TRUE then ret (Some AXIS2_SUCCESS)
      else if rm_reinjected m = Some AXIS2_VALUE_TRUE then ret (Some AXIS2_SUCCESS)
      else do {
        finished \<leftarrow> handle_incoming m;
        ret (map_option (\<lambda>_. AXIS2_SUCCESS) finished)
      })
   }"

end
