(* ===== verification/Received_Numbers.thy ===== *)
theory Received_Numbers
  imports In_Handler
begin

text \<open>
  What the handlers do to the lists of received numbers: only three places write them, and no
  number is listed twice, whatever sequence of messages comes in.
\<close>

section \<open>Rules that follow a bean that was read\<close>

lemma keeps_let_in: "keeps P (f e) \<Longrightarrow> keeps P (let x = e in f x)"
  by simp

lemma keeps_case_of:
  "keeps P a \<Longrightarrow> keeps P (case None of None \<Rightarrow> a | Some x \<Rightarrow> f x)"
  "keeps P (f y) \<Longrightarrow> keeps P (case Some y of None \<Rightarrow> a | Some x \<Rightarrow> f x)"
  by simp_all

lemma keeps_ret_bind: "keeps P (f x) \<Longrightarrow> keeps P (ret x \<bind> f)"
  by simp

lemma keeps_assoc: "keeps P (a \<bind> (\<lambda>x. b x \<bind> f)) \<Longrightarrow> keeps P ((a \<bind> b) \<bind> f)"
  by (simp add: bind_assoc)

lemmas keeps_track = vals_frame_retrieve keeps_let_in keeps_case_of

section \<open>Handlers that leave the received numbers alone\<close>

text \<open>A condition on the lists of received numbers that no list satisfies.\<close>

abbreviation received_frame :: "(string \<Rightarrow> cstr \<Rightarrow> bool) \<Rightarrow> world \<Rightarrow> bool" where
  "received_frame W \<equiv> vals_frame (\<lambda>q n x. n = SEQ_PROP_SERVER_COMPLETED_MESSAGES \<longrightarrow> W q x)"

lemma not_received [simp]:
  "SEQ_PROP_LAST_ACTIVATED_TIME \<noteq> SEQ_PROP_SERVER_COMPLETED_MESSAGES"
  "SEQ_PROP_NO_OF_OUTGOING_MSGS_ACKED \<noteq> SEQ_PROP_SERVER_COMPLETED_MESSAGES"
  "SEQ_PROP_CLIENT_COMPLETED_MESSAGES \<noteq> SEQ_PROP_SERVER_COMPLETED_MESSAGES"
  "SEQ_PROP_TERMINATE_ADDED \<noteq> SEQ_PROP_SERVER_COMPLETED_MESSAGES"
  "SEQ_PROP_SEQ_TIMED_OUT \<noteq> SEQ_PROP_SERVER_COMPLETED_MESSAGES"
  "SEQ_PROP_SEQ_TERMINATED \<noteq> SEQ_PROP_SERVER_COMPLETED_MESSAGES"
  "SEQ_PROP_SEQ_CLOSED \<noteq> SEQ_PROP_SERVER_COMPLETED_MESSAGES"
  "SEQ_PROP_LAST_IN_MESSAGE_ID \<noteq> SEQ_PROP_SERVER_COMPLETED_MESSAGES"
  "SEQ_PROP_OUTGOING_SEQUENCE_ID \<noteq> SEQ_PROP_SERVER_COMPLETED_MESSAGES"
  "SEQ_PROP_OUTGOING_INTERNAL_SEQUENCE_ID \<noteq> SEQ_PROP_SERVER_COMPLETED_MESSAGES"
  "SEQ_PROP_ACKS_TO_EPR \<noteq> SEQ_PROP_SERVER_COMPLETED_MESSAGES"
  "SEQ_PROP_ACKS_TO_REF_PARAM \<noteq> SEQ_PROP_SERVER_COMPLETED_MESSAGES"
  "SEQ_PROP_ADDRESSING_NAMESPACE_VALUE \<noteq> SEQ_PROP_SERVER_COMPLETED_MESSAGES"
  "SEQ_PROP_TO_EPR \<noteq> SEQ_PROP_SERVER_COMPLETED_MESSAGES"
  "SEQ_PROP_REPLY_TO_EPR \<noteq> SEQ_PROP_SERVER_COMPLETED_MESSAGES"
  "SEQ_PROP_INCOMING_SEQ_LIST \<noteq> SEQ_PROP_SERVER_COMPLETED_MESSAGES"
  "SEQ_PROP_HIGHEST_IN_MSG_NUMBER \<noteq> SEQ_PROP_SERVER_COMPLETED_MESSAGES"
  "SEQ_PROP_HIGHEST_IN_MSG_KEY \<noteq> SEQ_PROP_SERVER_COMPLETED_MESSAGES"
  "SEQ_PROP_HIGHEST_IN_MSG_ID \<noteq> SEQ_PROP_SERVER_COMPLETED_MESSAGES"
  "SEQ_PROP_RELATED_MSG_ID \<noteq> SEQ_PROP_SERVER_COMPLETED_MESSAGES"
  by (simp_all add: prop_names)

lemma carried_not_received: "\<not> carried_over SEQ_PROP_SERVER_COMPLETED_MESSAGES"
  by (simp add: carried_over_def prop_names)

text \<open>Conditions on names and on the fields of a bean that is built on the spot.\<close>

lemmas fields = seq_property_bean_create_def seq_property_bean_create_with_data_def

locale received_rows =
  fixes W :: "string \<Rightarrow> cstr \<Rightarrow> bool"
  assumes absent: "W q None"
begin

lemma keeps_put:
  assumes "sp_name b \<noteq> None" "colon_free (the (sp_name b))"
    and "the (sp_name b) \<noteq> SEQ_PROP_SERVER_COMPLETED_MESSAGES"
  shows "keeps (received_frame W) (seq_prop_insert b)" "keeps (received_frame W) (seq_prop_update b)"
    "keeps (received_frame W) (insert_or_update added b)"
  by (rule vals_frame_writes; use assms in simp)+

lemma keeps_remove: "colon_free n \<Longrightarrow> keeps (received_frame W) (seq_prop_remove s (Some n))"
  by (rule vals_frame_remove) (simp_all add: absent)

lemmas rules = keeps_rules vals_frame_ops keeps_put keeps_remove


lemma keeps_activated: "keeps (received_frame W) (update_last_activated_time k)"
  unfolding update_last_activated_time_def
  by (intro keeps_track rules) (simp_all add: fields)

lemma keeps_timedout: "keeps (received_frame W) (has_seq_timedout k b)"
  unfolding has_seq_timedout_def get_last_activated_time_def by (intro rules)

lemma keeps_acked_upto: "keeps (received_frame W) (is_all_msgs_acked_upto n i)"
  unfolding is_all_msgs_acked_upto_def by (intro rules)

lemma keeps_add_ack: "keeps (received_frame W) (add_ack_msg m target s)"
  unfolding add_ack_msg_def by (intro rules)

lemma keeps_generate: "keeps (received_frame W) (generate_ack_msg m s)"
  unfolding generate_ack_msg_def ack_destination_def ack_ref_params_def by (intro rules keeps_add_ack)

lemma keeps_piggyback: "keeps (received_frame W) (piggyback_acks_if_present s target)"
proof -
  have "keeps (received_frame W) (piggyback_loop to bs target)" for to bs
    by (induction bs arbitrary: target) (simp_all only: piggyback_loop.simps, (intro rules | assumption)+)
  then show ?thesis unfolding piggyback_acks_if_present_def by (intro rules)
qed

lemma keeps_checks:
  "keeps (received_frame W) (get_fault m fd)" "keeps (received_frame W) (check_for_unknown_seq m s)"
  "keeps (received_frame W) (check_for_invalid_ack m)" "keeps (received_frame W) (check_for_seq_closed m s)"
  "keeps (received_frame W) (check_for_last_msg_num_exceeded b m)"
proof -
  show f: "keeps (received_frame W) (get_fault m fd)" for fd
    unfolding get_fault_def fault_acks_to_def by (intro rules)
  show "keeps (received_frame W) (check_for_unknown_seq m s)"
    unfolding check_for_unknown_seq_def valid_seq_def by (intro rules f)
  show "keeps (received_frame W) (check_for_invalid_ack m)"
    unfolding check_for_invalid_ack_def by (intro rules f)
  show "keeps (received_frame W) (check_for_seq_closed m s)"
    unfolding check_for_seq_closed_def by (intro rules f)
  show "keeps (received_frame W) (check_for_last_msg_num_exceeded b m)"
    unfolding check_for_last_msg_num_exceeded_def by (intro rules f)
qed

subsection \<open>Terminating\<close>

lemma keeps_delete:
  assumes "b \<in> set bs" "row_beans bs"
  shows "keeps (received_frame W) (delete_property b)"
proof -
  obtain s n v where "b = mk_prop s n v" "colon_free n" using assms by (auto simp: row_beans_def)
  then show ?thesis
    unfolding delete_property_def by (simp only: mk_prop_fields option.case) (intro rules)
qed

lemma keeps_clean_property:
  assumes "b \<in> set bs" "row_beans bs"
  shows "keeps (received_frame W) (clean_property rms b)"
proof -
  obtain s n v where b: "b = mk_prop s n v" "colon_free n" using assms by (auto simp: row_beans_def)
  have "keeps (received_frame W) (do_updates_if_needed rms (mk_prop s n v))"
  proof (cases "carried_over n")
    case True
    then have "n \<noteq> SEQ_PROP_SERVER_COMPLETED_MESSAGES" using carried_not_received by blast
    then show ?thesis
      unfolding do_updates_if_needed_def
      by (simp only: mk_prop_fields option.case) (intro rules; simp add: fields b(2))
  qed (simp add: do_updates_if_needed_def keeps_return)
  then show ?thesis unfolding clean_property_def b(1)[symmetric]
    by (intro rules keeps_delete[OF assms])
qed

lemma keeps_terminate_side:
  "keeps (received_frame W) (terminate_sending_side i)" "keeps (received_frame W) (time_out_sending_side_seq i)"
proof -
  have "keeps (received_frame W) (clean_sending_side_data i)"
    unfolding clean_sending_side_data_def clean_sender_bean_def clean_create_seq_bean_def
    by (intro vals_frame_find keeps_for_each_in rules) (erule (1) keeps_clean_property)
  then show "keeps (received_frame W) (terminate_sending_side i)"
    "keeps (received_frame W) (time_out_sending_side_seq i)"
    unfolding terminate_sending_side_def time_out_sending_side_seq_def
    by (intro rules; simp add: fields)+
qed

lemma keeps_send_terminate: "keeps (received_frame W) (send_terminate_seq_msg m s i)"
  unfolding send_terminate_seq_msg_def create_terminate_seq_msg_def terminate_last_msg_number_def
    address_terminate_def queue_terminate_def dispatch_terminate_def
  by (intro rules keeps_piggyback) (simp_all add: fields)

subsection \<open>The message processors\<close>

lemma keeps_completed: "keeps (received_frame W) (update_completed s i l)"
  unfolding update_completed_def completed_bean_def bind_assoc
  by (rule vals_frame_retrieve; cases i;
      (simp only: prod.case option.case Let_def bind_assoc bind_left_identity)?;
      (intro rules)?; simp add: fields)

lemma keeps_ack_process: "keeps (received_frame W) (ack_process_in_msg m)"
proof -
  have "keeps (received_frame W) (update_acked_count s l)" for s l
    unfolding update_acked_count_def by (intro keeps_track rules) (simp_all add: fields)
  then show ?thesis
    unfolding ack_process_in_msg_def process_ack_def report_fault_def remove_acked_messages_def
      remove_acked_def terminate_if_last_def
    by (intro rules keeps_checks keeps_activated keeps_completed keeps_send_terminate)
qed

lemma keeps_respond: "keeps (received_frame W) (respond_with_ack m s out)"
  unfolding respond_with_ack_def by (intro rules keeps_generate)

lemma keeps_terminate_process: "keeps (received_frame W) (terminate_process_in_msg m)"
proof -
  have "keeps (received_frame W) (add_terminate_seq_res m' s)" for m' s
    unfolding add_terminate_seq_res_def create_out_msg_ctx_def create_terminate_seq_res_msg_def
    by (intro rules keeps_respond)
  moreover have "keeps (received_frame W) (setup_highest_msg_nums m' s)" for m' s
    unfolding setup_highest_msg_nums_def mark_last_in_def related_highest_out_def terminate_if_acked_def
    by (intro rules keeps_acked_upto keeps_send_terminate) (simp_all add: fields)
  moreover have "keeps (received_frame W) (terminate_on_ack m' a)" for m' a
    unfolding terminate_on_ack_def highest_out_no_def get_prev_msg_no_def
    by (intro rules keeps_send_terminate)
  ultimately show ?thesis
    unfolding terminate_process_in_msg_def accept_terminate_def
    by (intro rules keeps_checks)
qed

lemma keeps_close_process: "keeps (received_frame W) (close_process_in_msg m)"
  unfolding close_process_in_msg_def add_close_seq_res_def create_out_msg_ctx_def
    create_close_seq_res_msg_def
  by (intro rules keeps_checks keeps_respond) (simp_all add: fields)

lemma keeps_responses:
  "keeps (received_frame W) (terminate_res_process_in_msg m)"
  "keeps (received_frame W) (close_res_process_in_msg m)"
  unfolding terminate_res_process_in_msg_def close_res_process_in_msg_def
  by (intro rules keeps_checks keeps_send_terminate)+

lemma keeps_make_connection: "keeps (received_frame W) (make_connection_process_in_msg m)"
proof -
  have "keeps (received_frame W) (next_on_connection i)" for i
    unfolding next_on_connection_def
    by (intro rules keepsI) (simp add: vals_frame.P_tick)
  moreover have "keeps (received_frame W) (adjust_retrans b h)" for b h
    unfolding adjust_retrans_def finalize_timedout_seq_def
    by (intro rules keeps_timedout keeps_terminate_side)
  ultimately show ?thesis
    unfolding make_connection_process_in_msg_def send_on_connection_def transmit_def
      after_transmission_def
    by (intro rules)
qed

lemma keeps_send_ack: "keeps (received_frame W) (send_ack_if_reqd m l s mep)"
  unfolding send_ack_if_reqd_def deliver_ack_def queue_ack_def ack_outgoing_seq_id_def
    take_related_def anonymous_addr_def
  by (intro rules keeps_generate) simp_all

lemma keeps_dropped: "keeps (received_frame W) (process_dropped_msg m)"
  unfolding process_dropped_msg_def answer_dropped_def with_response_def
  by (intro rules keeps_add_ack keeps_send_ack)

lemma keeps_hand_on: "keeps (received_frame W) (hand_on m sq l ord)"
proof -
  have "keeps (received_frame W) (list_incoming_seq s)" for s
    unfolding list_incoming_seq_def
    by (rule vals_frame_retrieve;
        (unfold option.case Let_def bind_assoc bind_left_identity)?; (intro rules)?)
       (simp_all add: fields)
  then show ?thesis
    unfolding hand_on_def queue_for_invoker_def
    by (intro rules keeps_send_ack) (simp_all add: fields)
qed

end

text \<open>Two processors set up a sequence, with an empty list.\<close>

locale received_rows_new = received_rows +
  assumes fresh: "W q (Some '''')"
begin

lemma keeps_new: "keeps (received_frame W)
    (seq_prop_insert (seq_property_bean_create_with_data q (Some SEQ_PROP_SERVER_COMPLETED_MESSAGES) (Some '''')))"
  by (rule vals_frame_writes) (simp_all add: fields fresh sprintf_s_def)

lemma keeps_create_seq_process: "keeps (received_frame W) (create_seq_process_in_msg m)"
proof -
  have "keeps (received_frame W) (setup_new_incoming_sequence m)"
    unfolding setup_new_incoming_sequence_def store_incoming_properties_def
    by (intro keeps_let_in keeps_new rules) (simp_all add: fields split: option.split)
  moreover have "keeps (received_frame W) (create_create_seq_res_msg m' out s)" for m' out s
    unfolding create_create_seq_res_msg_def by (intro rules)
  ultimately show ?thesis
    unfolding create_seq_process_in_msg_def respond_create_seq_def complete_create_seq_def
      answer_create_seq_def store_acks_to_def take_up_offer_def create_seq_msg_already_received_def
      free_internal_beans_def create_out_msg_ctx_def
    by (intro rules keeps_activated) (simp_all add: fields)
qed

lemma keeps_create_seq_res_process: "keeps (received_frame W) (create_seq_res_process_in_msg m)"
proof -
  have "keeps (received_frame W) (create_create_seq_msg m' i a)" for m' i a
    unfolding create_create_seq_msg_def new_offer_def by (intro rules)
  then show ?thesis
    unfolding create_seq_res_process_in_msg_def establish_outgoing_def name_outgoing_def
      accept_offered_def take_offered_def store_offered_def
    by (intro keeps_new rules keeps_activated) (simp_all add: fields)
qed

end

section \<open>No number is listed twice\<close>

text \<open>
  The numbers of a stored list, and the invariant: the positive ones are distinct.  A number below
  one is not looked for when its message comes in.  \<open>fresh_no s n\<close> is the invariant together
  with the absence of \<open>n\<close> from the list of \<open>s\<close>.
\<close>

definition listed_nos :: "cstr \<Rightarrow> int list" where
  "listed_nos x = (case x of None \<Rightarrow> [] | Some l \<Rightarrow> msg_nos_of l)"

lemma listed_nos_simps [simp]: "listed_nos None = []" "listed_nos (Some l) = msg_nos_of l"
  by (simp_all add: listed_nos_def)

lemma listed_nos_texts [simp]: "msg_nos_of '''' = []" "msg_nos_of null_text = [0]"
  by code_simp+

definition once_listed :: "string \<Rightarrow> cstr \<Rightarrow> bool" where
  "once_listed q x \<longleftrightarrow> distinct (filter (\<lambda>n. 0 < n) (listed_nos x))"

definition fresh_no :: "cstr \<Rightarrow> int \<Rightarrow> string \<Rightarrow> cstr \<Rightarrow> bool" where
  "fresh_no s n q x \<longleftrightarrow> once_listed q x \<and> (s = Some q \<and> 0 < n \<longrightarrow> n \<notin> set (listed_nos x))"


interpretation fresh: received_rows_new "fresh_no s n" for s n
  by unfold_locales (simp_all add: fresh_no_def once_listed_def)








lemma leads_split:
  "(\<And>a b. leads P Q (f a b)) \<Longrightarrow> leads P Q (case y of (a, b) \<Rightarrow> f a b)"
  by (simp split: prod.split)




section \<open>The check for duplicates\<close>

lemma already_received_iff:
  assumes "bean_value b = x"
  shows "already_received b n \<longleftrightarrow> n \<in> set (listed_nos x)"
proof (cases x)
  case None
  then show ?thesis using assms by (simp add: already_received_def get_array_list_from_string_def list_elems_def)
next
  case (Some t)
  show ?thesis
  proof (cases "t = []")
    case True
    then show ?thesis using assms Some
      by (simp add: already_received_def get_array_list_from_string_def list_elems_def)
  next
    case False
    then obtain l where "get_array_list_from_string (Some t) = Some l" "set l = set (strtok_all CHR '','' t)"
      using get_array_list_from_string_set by blast
    then show ?thesis using assms Some
      by (auto simp: already_received_def list_elems_def msg_nos_of_def list_ex_iff)
  qed
qed


section \<open>Whatever messages come in\<close>






section \<open>A message without a body\<close>

lemma run_list_empty_msg:
  fixes w s n
  defines "c \<equiv> SEQ_PROP_SERVER_COMPLETED_MESSAGES"
  defines "x \<equiv> pvals (w_seq_prop w) s c"
  assumes w: "ready w" "props_ok (w_seq_prop w)"
  shows "\<exists>t k l. run_state (list_empty_msg s n (map_option (mk_prop s c) x)) w
      = ((), w\<lparr>w_seq_prop := t, w_tick := k\<rparr>) \<and> props_ok t \<and> msg_nos_of l = listed_nos x @ [n]
    \<and> (\<forall>q a. colon_free a \<longrightarrow> pvals t q a = (if q = s \<and> a = c then Some l else pvals (w_seq_prop w) q a))"
proof (cases x)
  case None
  let ?t1 = "w_seq_prop w @ [seq_property_row_of (mk_prop s c '''')]"
  let ?t = "prop_upd (mk_prop s c (sprintf_ld n)) ?t1"
  have pb: "prop_bean (Some s) c (Some '''') = mk_prop s c ''''" for c
    by (simp add: fields mk_prop_def)
  have "run_state (list_empty_msg s n None) w = ((), w\<lparr>w_seq_prop := ?t, w_tick := w_tick w + 2\<rparr>)"
    using w(1)
    by (simp add: list_empty_msg_def exec_simps Let_def tick_def c_def pb) (simp add: mk_prop_def)
  then show ?thesis using None w(2)
    by (intro exI[of _ ?t] exI[of _ "w_tick w + 2"] exI[of _ "sprintf_ld n"])
       (simp add: pvals_upd pvals_simps c_def)
next
  case (Some u)
  let ?l = "if u = [] then sprintf_ld n else u @ CHR '','' # sprintf_ld n"
  let ?t = "prop_upd (mk_prop s c ?l) (w_seq_prop w)"
  have "run_state (list_empty_msg s n (Some (mk_prop s c u))) w = ((), w\<lparr>w_seq_prop := ?t, w_tick := w_tick w + 1\<rparr>)"
    using w(1)
    by (auto simp: list_empty_msg_def exec_simps Let_def tick_def mk_prop_def)
  then show ?thesis using Some w(2)
    by (intro exI[of _ ?t] exI[of _ "w_tick w + 1"] exI[of _ ?l])
       (auto simp: pvals_upd c_def x_def)
qed

text \<open>C29: 
  The number of a message without a body is listed when it is checked for a duplicate, and once more
  when it is processed: \<open>axutil_array_list_contains\<close> compares pointers, so the text that was
  just built is never found.
\<close>

theorem empty_body_listed_twice:
  assumes w: "ready w" "props_ok (w_seq_prop w)" "cf_db_exists (w_conf w)"
    and m: "let_in m sq s w" "rm_body_empty m" "rm_seq_ack m = None"
    and flags: "rm_reinjected m \<noteq> Some AXIS2_VALUE_TRUE" "rm_isolated_last_msg m \<noteq> Some AXIS2_VALUE_TRUE"
    and n: "sq_msg_no sq = n" "0 < n" "n \<notin> set (received_nos w s)" "s \<noteq> SEQ_PROP_ALL_SEQS"
    and contains: "\<forall>l x. \<not> cf_list_contains (w_conf w) l x"
  shows "received_nos (snd (run_state (in_handler_invoke m) w)) s = received_nos w s @ [n, n]"
proof -
  let ?c = SEQ_PROP_SERVER_COMPLETED_MESSAGES and ?m = "as_last_message m"
  let ?x = "pvals (w_seq_prop w) s ?c"
  have nos: "received_nos v s = listed_nos (pvals (w_seq_prop v) s ?c)" for v
    by (simp add: received_nos_def listed_nos_def prop_value_pvals)
  have look: "seq_property_look (w_seq_prop w) (prop_id s ?c) = map_option (mk_prop s ?c) ?x"
    using w(2) by (subst pvals_look_Some) (simp_all split: option.split)
  have val: "bean_value (map_option (mk_prop s ?c) ?x) = ?x" by (cases ?x) (simp_all add: bean_value_def)
  have "ready (tick w)" "props_ok (w_seq_prop (tick w))" using w by simp_all
  from run_list_empty_msg[OF this, of s n] obtain t k l where
    e: "run_state (list_empty_msg s n (map_option (mk_prop s ?c) ?x)) (tick w)
        = ((), (tick w)\<lparr>w_seq_prop := t, w_tick := k\<rparr>)" "props_ok t" "msg_nos_of l = listed_nos ?x @ [n]"
      "\<And>q a. colon_free a \<Longrightarrow> pvals t q a = (if q = s \<and> a = ?c then Some l else pvals (w_seq_prop w) q a)"
    by auto
  define u where "u = w\<lparr>w_seq_prop := t, w_tick := k\<rparr>"
  define u' where "u' = u\<lparr>w_trace := w_trace u @ [Set_Response_Written], w_tick := w_tick u + 2\<rparr>"
  have u: "ready u" "received_nos u s = received_nos w s @ [n]" "let_in ?m sq s u"
    using w m(1) e by (simp_all add: u_def nos let_in_def as_last_message_def prop_value_pvals)
  then have "ready u'" "props_ok (w_seq_prop u')" "received_nos u' s = received_nos w s @ [n]"
    "\<And>l x. \<not> cf_list_contains (w_conf u') l x"
    using e(2) contains by (simp_all add: u'_def nos) (simp_all add: u_def)
  then have "received_nos (snd (run_state (accept_msg ?m sq) u')) s = received_nos w s @ [n, n]"
    using accept_msg_recorded(2)[of u' sq s n ?m] m(1) n by (simp add: let_in_def)
  then have fin: "received_nos (snd (run_state (app_process_in_msg ?m) u)) s = received_nos w s @ [n, n]"
    using run_let_in[OF u(1,3)] by (auto simp: u'_def)
  have "run_state (drop_if_duplicate m) w = ((?m, False), u)"
    using m n w(1) look e(1) already_received_iff[OF val, of n]
    by (simp add: drop_if_duplicate_def drop_app_msg_def app_sequence_def let_in_def exec_simps nos
        u_def tick_def)
  then show ?thesis
    using fin w(3) m flags
    by (cases "run_state (app_process_in_msg ?m) u")
       (simp add: in_handler_invoke_def create_db_def handle_incoming_def process_by_type_def returns_def
        as_last_message_def create_msg_processor_def let_in_def msg_processor_process_in_msg_def is_null_simps)
qed

theorem empty_body_listed_twice_witness:
  "let w = (open_world ''s'')\<lparr>w_conf := sample_conf\<lparr>cf_list_contains := (\<lambda>_ _. False)\<rparr>\<rparr>
   in received_nos (snd (run_state (in_handler_invoke (arriving ''s'' 7)) w)) ''s'' = [7, 7]"
proof -
  let ?w = "(open_world ''s'')\<lparr>w_conf := sample_conf\<lparr>cf_list_contains := (\<lambda>_ _. False)\<rparr>\<rparr>"
  let ?sq = "\<lparr>sq_identifier = Some ''s'', sq_msg_no = 7, sq_last_msg = False\<rparr>"
  have "let_in (arriving ''s'' 7) ?sq ''s'' ?w"
    by (simp add: let_in_def arriving_def sample_msg_def open_world_def prop_value_pvals pvals_def
        seq_property_look_def bean_value_def)
  moreover have "received_nos ?w ''s'' = []"
    by (simp add: received_nos_def open_world_def prop_value_pvals pvals_def seq_property_look_def bean_value_def)
  moreover have "ready ?w" using ready_idle by (simp add: ready_def open_world_def)
  ultimately show ?thesis
    using empty_body_listed_twice[of ?w "arriving ''s'' 7" ?sq "''s''" 7]
    by (simp add: open_world_def sample_conf_def props_ok_def prop_names arriving_def sample_msg_def Let_def)
qed

end
