(* ===== verification/Global_In_Handler.thy ===== *)
theory Global_In_Handler
  imports In_Handler
begin

text \<open>
  \<open>src/handlers/sandesha2_global_in_handler.c\<close>: the handler before the dispatch, which marks the
  isolated last messages of the 1.0 protocol, and the order in which \<open>src/config/module.xml\<close> puts
  the two incoming handlers into the flows of messages and of faults.
\<close>

abbreviation LAST_MESSAGE_ACTION :: string where
  "LAST_MESSAGE_ACTION \<equiv> action_2005_02 ''LastMessage''"

text \<open>A Sequence header of the 1.0 namespace with a LastMessage element.\<close>

definition has_last_msg_header :: "rm_msg \<Rightarrow> bool" where
  "has_last_msg_header m =
     (rm_rm_ns_val m = Some SPEC_2005_02_NS_URI
      \<and> (case rm_sequence m of None \<Rightarrow> False | Some sq \<Rightarrow> sq_last_msg sq))"

definition mark_isolated :: "rm_msg \<Rightarrow> rm_msg" where
  "mark_isolated m = m\<lparr>rm_isolated_last_msg := Some AXIS2_VALUE_TRUE\<rparr>"

definition header_names :: "rm_msg \<Rightarrow> (string \<times> string) list option option" where
  "header_names m =
     Some (Some (case (rm_sequence m, rm_rm_ns_val m) of
                   (Some _, Some ns) \<Rightarrow> [(''Sequence'', ns)]
                 | _ \<Rightarrow> []))"

text \<open>A fault that answers a message whose sender can be told of it pauses the message.\<close>

definition global_in_handler_invoke :: "rm_msg \<Rightarrow> (rm_msg \<times> bool) proc" where
  "global_in_handler_invoke m =
     (if rm_wsa_action m = Some LAST_MESSAGE_ACTION then ret (mark_isolated m, False)
      else if is_null (rm_soap_action m) \<and> is_null (rm_wsa_action m) then
        ret (if has_last_msg_header m \<and> rm_body_empty m
             then mark_isolated (m\<lparr>rm_soap_action := Some LAST_MESSAGE_ACTION,
                                   rm_wsa_action := Some LAST_MESSAGE_ACTION\<rparr>)
             else m, False)
      else if \<not> is_rm_global_msg (rm_wsa_action m) (header_names m) then ret (m, False)
      else if rm_fault m \<and> \<not> is_null (rm_relates_to m) \<and> is_retrievable_on_faults (rm_related_out_action m)
      then do { emit Set_Paused; ret (m, True) }
      else ret (m, False))"

text \<open>Both handlers in order; a paused message does not get to the second.\<close>

definition receive_flow :: "rm_msg \<Rightarrow> status option proc" where
  "receive_flow m = do {
     (m', paused) \<leftarrow> global_in_handler_invoke m;
     (if paused then ret (Some AXIS2_SUCCESS) else in_handler_invoke m')
   }"

end
