(* ===== verification/App_Msg_Sender.thy ===== *)
theory App_Msg_Sender
  imports Global_In_Handler
begin

text \<open>
  The sending side of \<open>src/msgprocessors/app_msg_processor.c\<close>: an outgoing application message gets
  its number, the first one of a sequence sends a CreateSequence message, and the message is sent
  and sent again until it is acknowledged or given up.  Loops that wait for the other side take
  the number of turns they may run as their first argument; the result \<open>None\<close> is a call that has not
  returned within it, or that ended the process.
\<close>

section \<open>Calls that may not return\<close>

definition on_return :: "'a option proc \<Rightarrow> ('a \<Rightarrow> 'b option proc) \<Rightarrow> 'b option proc" where
  "on_return c f = do { r \<leftarrow> c; (case r of None \<Rightarrow> ret None | Some x \<Rightarrow> f x) }"

definition done_with :: "'a \<Rightarrow> 'a option proc" where
  "done_with x = ret (Some x)"

section \<open>Responses on the connection\<close>

text \<open>
  \<open>axis2_engine_receive\<close> and \<open>axis2_engine_receive_fault\<close> run the incoming handlers; their status is the
  engine's.
\<close>

definition engine_receive :: "rm_msg \<Rightarrow> status option proc" where
  "engine_receive m = on_return (receive_flow m) (\<lambda>_. do {
     ok \<leftarrow> engine_answer;
     done_with (if ok then AXIS2_SUCCESS else AXIS2_FAILURE)
   })"

definition process_create_seq_response :: "status option proc" where
  "process_create_seq_response = do {
     response \<leftarrow> connection_reply;
     (case response of
        None \<Rightarrow> done_with AXIS2_SUCCESS
      | Some r \<Rightarrow> engine_receive (r\<lparr>rm_server_side := False\<rparr>))
   }"

definition process_app_msg_response :: "status option proc" where
  "process_app_msg_response = do {
     response \<leftarrow> connection_reply;
     (case response of
        None \<Rightarrow> done_with AXIS2_SUCCESS
      | Some r \<Rightarrow> do {
          emit Mark_Handlers_Visited;
          engine_receive (r\<lparr>rm_server_side := False\<rparr>)
        })
   }"

section \<open>The CreateSequence message\<close>

text \<open>A listener is started for a one-way operation that asks for one; \<open>None\<close> is its failure.\<close>

definition separate_listener :: "rm_msg \<Rightarrow> bool proc" where
  "separate_listener m = do {
     one_way \<leftarrow> asks (\<lambda>w. rm_mep_uri m \<in> {Some (cf_mep_uri_out_only (w_conf w)),
                                          Some (cf_mep_uri_robust_out_only (w_conf w))});
     ret (one_way \<and> rm_separate_listener m = Some AXIS2_VALUE_TRUE \<and> rm_has_transport_out m)
   }"

definition start_listener :: "rm_msg \<Rightarrow> bool option proc" where
  "start_listener m = do {
     wanted \<leftarrow> separate_listener m;
     (if \<not> wanted then ret (Some False)
      else do {
        emit Start_Listener;
        started \<leftarrow> engine_answer;
        (if started then do { axis2_sleep 0; ret (Some True) } else ret None)
      })
   }"

definition create_seq_sender_bean :: "string \<Rightarrow> int \<Rightarrow> cstr \<Rightarrow> cstr \<Rightarrow> sender_bean" where
  "create_seq_sender_bean key millisecs msg_id internal_sequence_id =
     sender_bean_create\<lparr>sb_msg_ctx_ref_key := Some key, sb_time_to_send := millisecs,
       sb_msg_id := msg_id, sb_internal_seq_id := internal_sequence_id, sb_send := True,
       sb_msg_type := MSG_TYPE_CREATE_SEQ\<rparr>"

text \<open>
  What is stored of the message before it is sent.  The property \<open>OFFERED_SEQ\<close> is written only
  when a sequence is offered.
\<close>

definition store_create_seq :: "rm_msg \<Rightarrow> cstr \<Rightarrow> out_msg \<Rightarrow> (out_msg \<times> sender_bean \<times> string) proc" where
  "store_create_seq m internal_sequence_id msg = do {
     (case rm_to m of
        None \<Rightarrow> ret False
      | Some to_str \<Rightarrow> seq_prop_insert (prop_bean internal_sequence_id SEQ_PROP_TO_EPR to_str));
     (case om_offer msg of
        None \<Rightarrow> ret False
      | Some seq_offer_id \<Rightarrow>
          seq_prop_insert (prop_bean internal_sequence_id SEQ_PROP_OFFERED_SEQ seq_offer_id));
     key \<leftarrow> uuid_gen;
     create_seq_insert (create_seq_bean_create_with_data internal_sequence_id (om_msg_id msg) None
       \<lparr>cs_ref_msg_store_key := Some key\<rparr>);
     addr_ns_uri \<leftarrow> get_seq_property internal_sequence_id (Some SEQ_PROP_ADDRESSING_NAMESPACE_VALUE);
     anon_uri \<leftarrow> asks (\<lambda>w. get_anon_uri (cf_wsa (w_conf w)) addr_ns_uri);
     millisecs \<leftarrow> current_time_in_millis;
     let bean = create_seq_sender_bean key millisecs (om_msg_id msg) internal_sequence_id;
     sender_insert bean;
     ret (msg\<lparr>om_relates_to := None,
              om_reply_to := (case om_reply_to msg of None \<Rightarrow> Some anon_uri | Some r \<Rightarrow> Some r)\<rparr>,
          bean, key)
   }"

text \<open>
  On a single channel the message is sent again in the thread of the client, until the response
  has named the sequence, the adjuster gives up, or the response could not be processed.
\<close>

definition outgoing_sequence :: "cstr \<Rightarrow> seq_property_bean option proc" where
  "outgoing_sequence internal_sequence_id =
     seq_prop_retrieve internal_sequence_id (Some SEQ_PROP_OUTGOING_SEQUENCE_ID)"

definition transport_sender_invoke :: "out_msg \<Rightarrow> unit proc" where
  "transport_sender_invoke msg = emit (Transport_Send msg)"

fun await_create_seq :: "nat \<Rightarrow> cstr \<Rightarrow> out_msg \<Rightarrow> int \<Rightarrow> sender_bean \<Rightarrow> status \<Rightarrow> status option proc" where
  "await_create_seq 0 internal_sequence_id msg retrans_interval bean status = ret None"
| "await_create_seq (Suc turns) internal_sequence_id msg retrans_interval bean status = do {
     rms_sequence_bean \<leftarrow> outgoing_sequence internal_sequence_id;
     (if \<not> is_null rms_sequence_bean then done_with status
      else do {
        (b, continue_sending) \<leftarrow> adjust_retrans bean True;
        sender_update b;
        (if \<not> continue_sending then done_with AXIS2_FAILURE
         else do {
           axis2_sleep retrans_interval;
           transport_sender_invoke msg;
           on_return process_create_seq_response (\<lambda>s.
             if s \<noteq> AXIS2_SUCCESS then done_with s
             else await_create_seq turns internal_sequence_id msg retrans_interval b s)
         })
      })
   }"

definition create_seq_single_channel ::
  "nat \<Rightarrow> cstr \<Rightarrow> out_msg \<Rightarrow> int \<Rightarrow> sender_bean \<Rightarrow> string \<Rightarrow> status \<Rightarrow> status option proc" where
  "create_seq_single_channel turns internal_sequence_id msg retrans_interval bean key status = do {
     ctx \<leftarrow> asks (\<lambda>w. cf_out_ctx (w_conf w) msg);
     store_msg_ctx (Some key) ctx;
     sent \<leftarrow> engine_send msg;
     on_return (if sent then process_create_seq_response else done_with status)
       (await_create_seq turns internal_sequence_id msg retrans_interval bean)
   }"

text \<open>On two channels it goes through the false transport, is stored and left to a thread.\<close>

definition start_thread :: "worker_thread \<Rightarrow> status proc" where
  "start_thread worker = do {
     emit (Start_Thread worker);
     started \<leftarrow> engine_answer;
     ret (if started then AXIS2_SUCCESS else AXIS2_FAILURE)
   }"

definition create_seq_dual_channel :: "rm_msg \<Rightarrow> cstr \<Rightarrow> out_msg \<Rightarrow> int \<Rightarrow> string \<Rightarrow> status proc" where
  "create_seq_dual_channel m internal_sequence_id msg retrans_interval key = do {
     engine_send (msg\<lparr>om_via_sandesha_transport := True\<rparr>);
     ctx \<leftarrow> asks (\<lambda>w. cf_out_ctx (w_conf w) (msg\<lparr>om_via_sandesha_transport := True\<rparr>));
     store_msg_ctx (Some key) ctx;
     start_thread (Create_Seq_Worker internal_sequence_id (om_msg_id msg) (rm_server_side m) retrans_interval)
   }"

definition dispatch_create_seq ::
  "nat \<Rightarrow> rm_msg \<Rightarrow> cstr \<Rightarrow> property_bean \<Rightarrow> bool \<Rightarrow> out_msg \<Rightarrow> status option proc" where
  "dispatch_create_seq turns m internal_sequence_id pb listening created = do {
     (msg, bean, key) \<leftarrow> store_create_seq m internal_sequence_id created;
     (if rm_has_transport_out m then ret () else undefined_behaviour);
     reply_to_bean \<leftarrow> seq_prop_retrieve internal_sequence_id (Some SEQ_PROP_REPLY_TO_EPR);
     reply_anonymous \<leftarrow> anonymous_addr (bean_value reply_to_bean);
     rm_version \<leftarrow> get_rm_version m;
     (if is_null rm_version then done_with AXIS2_FAILURE
      else if \<not> rm_server_side m \<and> (listening \<or> is_null (bean_value reply_to_bean) \<or> reply_anonymous)
      then create_seq_single_channel turns internal_sequence_id msg (pb_retrans_interval pb) bean key
             (if listening then AXIS2_SUCCESS else AXIS2_FAILURE)
      else do {
        status \<leftarrow> create_seq_dual_channel m internal_sequence_id msg (pb_retrans_interval pb) key;
        done_with status
      })
   }"

definition send_create_seq_msg :: "nat \<Rightarrow> rm_msg \<Rightarrow> cstr \<Rightarrow> cstr \<Rightarrow> status option proc" where
  "send_create_seq_msg turns m internal_sequence_id acks_to =
     (if is_null internal_sequence_id \<or> is_null acks_to then done_with AXIS2_FAILURE
      else do {
        created \<leftarrow> create_create_seq_msg m internal_sequence_id acks_to;
        property_bean \<leftarrow> get_property_bean (rm_has_svc m);
        (case (created, property_bean) of
           (Some msg, Some pb) \<Rightarrow> do {
             listening \<leftarrow> start_listener m;
             (case listening of
                None \<Rightarrow> done_with AXIS2_FAILURE
              | Some l \<Rightarrow> dispatch_create_seq turns m internal_sequence_id pb l msg)
           }
         | _ \<Rightarrow> done_with AXIS2_FAILURE)
      })"

text \<open>The thread: it sends the stored message as long as its row waits to be sent.\<close>

definition create_seq_find_bean :: "cstr \<Rightarrow> sender_bean" where
  "create_seq_find_bean internal_sequence_id =
     sender_bean_create\<lparr>sb_msg_type := MSG_TYPE_CREATE_SEQ, sb_internal_seq_id := internal_sequence_id,
       sb_send := True\<rparr>"

definition stored_out :: "conf \<Rightarrow> msg_ctx \<Rightarrow> out_msg" where
  "stored_out cf ctx =
     (new_out_msg (fst (cf_stored cf ctx)))
       \<lparr>om_msg_id := mc_msg_id ctx, om_to := mc_to ctx, om_reply_to := mc_reply_to ctx,
        om_action := mc_action ctx, om_transport_url := mc_transport_url ctx,
        om_seq_ack := snd (cf_stored cf ctx)\<rparr>"

fun create_seq_loop :: "nat \<Rightarrow> cstr \<Rightarrow> out_msg \<Rightarrow> bool \<Rightarrow> int \<Rightarrow> sender_bean \<Rightarrow> unit option proc" where
  "create_seq_loop 0 internal_sequence_id msg has_sender retrans_interval bean = ret None"
| "create_seq_loop (Suc turns) internal_sequence_id msg has_sender retrans_interval bean = do {
     (b, continue_sending) \<leftarrow> adjust_retrans bean True;
     sender_update b;
     (if \<not> continue_sending then done_with ()
      else do {
        (if has_sender then transport_sender_invoke msg else ret ());
        found \<leftarrow> sender_find_unique (Some (create_seq_find_bean internal_sequence_id));
        (case found of
           None \<Rightarrow> done_with ()
         | Some next_bean \<Rightarrow> do {
             axis2_sleep retrans_interval;
             create_seq_loop turns internal_sequence_id msg has_sender retrans_interval next_bean
           })
      })
   }"

definition create_seq_msg_worker_function :: "nat \<Rightarrow> cstr \<Rightarrow> int \<Rightarrow> unit option proc" where
  "create_seq_msg_worker_function turns internal_sequence_id retrans_interval = do {
     found \<leftarrow> sender_find_unique (Some (create_seq_find_bean internal_sequence_id));
     (case found of
        None \<Rightarrow> done_with ()
      | Some bean \<Rightarrow> do {
          create_seq_msg_ctx \<leftarrow> retrieve_stored_msg (sb_msg_ctx_ref_key bean);
          (case create_seq_msg_ctx of
             None \<Rightarrow> do { undefined_behaviour; ret None }
           | Some ctx \<Rightarrow>
               if is_null (mc_svc ctx) then done_with ()
               else do {
                 msg \<leftarrow> asks (\<lambda>w. stored_out (w_conf w) ctx);
                 create_seq_loop turns internal_sequence_id msg (\<not> is_null (mc_transport_out ctx))
                   retrans_interval bean
               })
        })
   }"

section \<open>The application message\<close>

text \<open>The message as it is given to the engine, with its sequence header.\<close>

definition app_out :: "rm_msg \<Rightarrow> out_msg" where
  "app_out m =
     (new_out_msg MSG_TYPE_APPLICATION)
       \<lparr>om_msg_id := rm_msg_id m, om_to := rm_to m, om_reply_to := rm_reply_to m,
        om_relates_to := rm_relates_to m, om_action := rm_wsa_action m, om_soap_action := rm_soap_action m,
        om_transport_url := rm_transport_url m, om_seq_ack := rm_seq_ack m\<rparr>"

definition with_sequence :: "seq_part \<Rightarrow> cstr \<Rightarrow> out_msg \<Rightarrow> out_msg" where
  "with_sequence sq rms_sequence_id msg =
     msg\<lparr>om_seq_id := rms_sequence_id, om_msg_no := Some (sq_msg_no sq), om_last_msg := sq_last_msg sq\<rparr>"

text \<open>Waiting for the outgoing sequence to be named, a second at a time, has no limit.\<close>

fun wait_outgoing :: "nat \<Rightarrow> cstr \<Rightarrow> cstr option proc" where
  "wait_outgoing 0 internal_sequence_id = ret None"
| "wait_outgoing (Suc turns) internal_sequence_id = do {
     rms_sequence_bean \<leftarrow> outgoing_sequence internal_sequence_id;
     axis2_sleep 1;
     (case rms_sequence_bean of
        Some b \<Rightarrow> done_with (sp_value b)
      | None \<Rightarrow> wait_outgoing turns internal_sequence_id)
   }"

definition named_outgoing :: "nat \<Rightarrow> cstr \<Rightarrow> cstr option proc" where
  "named_outgoing turns internal_sequence_id = do {
     rms_sequence_bean \<leftarrow> outgoing_sequence internal_sequence_id;
     (case rms_sequence_bean of
        Some b \<Rightarrow> done_with (sp_value b)
      | None \<Rightarrow> wait_outgoing turns internal_sequence_id)
   }"

text \<open>
  The server side that answers on the connection of the request.  The acknowledgement of the
  incoming sequence is added.
\<close>

definition send_replay :: "nat \<Rightarrow> rm_msg \<Rightarrow> cstr \<Rightarrow> cstr \<Rightarrow> seq_part \<Rightarrow> status option proc" where
  "send_replay turns m internal_sequence_id rmd_sequence_id sq =
     on_return (named_outgoing turns internal_sequence_id) (\<lambda>rms_sequence_id. do {
       (msg, _) \<leftarrow> add_ack_msg m (with_sequence sq rms_sequence_id (app_out m)) rmd_sequence_id;
       sent \<leftarrow> engine_resume_send msg;
       done_with (if sent then AXIS2_SUCCESS else AXIS2_FAILURE)
     })"

text \<open>The client sends again until nothing of the message waits; giving up leaves the status as it is.\<close>

fun resend_loop :: "nat \<Rightarrow> rm_msg \<Rightarrow> cstr \<Rightarrow> out_msg \<Rightarrow> int \<Rightarrow> sender_bean \<Rightarrow> status \<Rightarrow> status option proc" where
  "resend_loop 0 m internal_sequence_id msg retrans_interval bean status = ret None"
| "resend_loop (Suc turns) m internal_sequence_id msg retrans_interval bean status = do {
     (b, continue_sending) \<leftarrow> adjust_retrans bean (rm_has_svc m);
     sender_update b;
     (if \<not> continue_sending then done_with status
      else do {
        axis2_sleep retrans_interval;
        transport_sender_invoke msg;
        on_return process_app_msg_response (\<lambda>s.
          if s \<noteq> AXIS2_SUCCESS then done_with s
          else do {
            sender_bean \<leftarrow> get_application_msg_to_send internal_sequence_id (rm_msg_id m);
            (case sender_bean of
               None \<Rightarrow> done_with s
             | Some next_bean \<Rightarrow> resend_loop turns m internal_sequence_id msg retrans_interval next_bean s)
          })
      })
   }"

definition resend_in_client ::
  "nat \<Rightarrow> rm_msg \<Rightarrow> cstr \<Rightarrow> out_msg \<Rightarrow> int \<Rightarrow> status \<Rightarrow> status option proc" where
  "resend_in_client turns m internal_sequence_id msg retrans_interval status = do {
     sender_bean \<leftarrow> get_application_msg_to_send internal_sequence_id (rm_msg_id m);
     (case sender_bean of
        None \<Rightarrow> done_with AXIS2_SUCCESS
      | Some bean \<Rightarrow>
          if \<not> rm_has_transport_out m then done_with AXIS2_FAILURE
          else resend_loop turns m internal_sequence_id msg retrans_interval bean status)
   }"

definition note_sent :: "rm_msg \<Rightarrow> cstr \<Rightarrow> unit proc" where
  "note_sent m rms_sequence_id = do {
     seq_prop_insert (prop_bean (rm_msg_id m) SEQ_PROP_RELATED_MSG_ID rms_sequence_id);
     out_in \<leftarrow> asks (\<lambda>w. rm_mep_uri m = Some (cf_mep_uri_out_in (w_conf w)));
     (if out_in then do { seq_prop_insert (prop_bean rms_sequence_id SEQ_PROP_REPLAY None); ret () }
      else ret ())
   }"

definition send_in_client :: "nat \<Rightarrow> rm_msg \<Rightarrow> cstr \<Rightarrow> int \<Rightarrow> seq_part \<Rightarrow> status option proc" where
  "send_in_client turns m internal_sequence_id retrans_interval sq =
     on_return (named_outgoing turns internal_sequence_id) (\<lambda>rms_sequence_id. do {
       note_sent m rms_sequence_id;
       acked \<leftarrow> (if is_null (rm_seq_ack m) then piggyback_acks_if_present rms_sequence_id (app_out m)
                 else ret (app_out m));
       let msg = with_sequence sq rms_sequence_id acked;
       sent \<leftarrow> engine_resume_send msg;
       on_return (if sent then process_app_msg_response else done_with AXIS2_SUCCESS)
         (resend_in_client turns m internal_sequence_id msg retrans_interval)
     })"

text \<open>The two-way case goes through the false transport and leaves the rest to a thread.\<close>

definition send_in_thread :: "rm_msg \<Rightarrow> cstr \<Rightarrow> string \<Rightarrow> int \<Rightarrow> seq_part \<Rightarrow> status proc" where
  "send_in_thread m internal_sequence_id storage_key retrans_interval sq = do {
     engine_resume_send ((app_out m)\<lparr>om_via_sandesha_transport := True\<rparr>);
     ctx \<leftarrow> asks (\<lambda>w. cf_out_ctx (w_conf w) ((app_out m)\<lparr>om_via_sandesha_transport := True\<rparr>));
     store_msg_ctx (Some storage_key) ctx;
     start_thread (Application_Msg_Worker internal_sequence_id (rm_msg_id m) (rm_server_side m)
       retrans_interval sq)
   }"

text \<open>
  On the server side the reply address is the sequence's, and the message goes to the address of
  the sequence when the request asked for no address of its own.
\<close>

definition addressed :: "rm_msg \<Rightarrow> seq_property_bean option \<Rightarrow> seq_property_bean option \<Rightarrow> rm_msg" where
  "addressed m to_bean reply_to_bean =
     (if \<not> rm_server_side m then m
      else m\<lparr>rm_reply_to := (case reply_to_bean of None \<Rightarrow> rm_reply_to m | Some b \<Rightarrow> Some (sp_value b)),
             rm_to := (case (addr_of (Option.bind (rm_request m) rq_reply_to), to_bean) of
                 (None, Some b) \<Rightarrow> Some (sp_value b)
               | _ \<Rightarrow> rm_to m)\<rparr>)"

text \<open>
  Whether the message is marked as the last: on the server side when the request was, on the
  client side when the client said so and the version needs a mark.  \<open>None\<close> is a request without
  a sequence.
\<close>

definition request_sequence :: "rm_msg \<Rightarrow> seq_part option" where
  "request_sequence m = Option.bind (rm_request m) rq_sequence"

definition marked_last :: "rm_msg \<Rightarrow> string \<Rightarrow> bool option" where
  "marked_last m rm_version =
     (if rm_server_side m then map_option sq_last_msg (request_sequence m)
      else Some (rm_client_last_message m = Some AXIS2_VALUE_TRUE
                 \<and> or_default False (is_last_msg_indicator_reqd rm_version)))"

definition app_sender_bean :: "string \<Rightarrow> int \<Rightarrow> cstr \<Rightarrow> cstr \<Rightarrow> int \<Rightarrow> sender_bean" where
  "app_sender_bean storage_key millisecs msg_id internal_sequence_id msg_num =
     sender_bean_create\<lparr>sb_internal_seq_id := internal_sequence_id, sb_msg_ctx_ref_key := Some storage_key,
       sb_time_to_send := millisecs, sb_msg_id := msg_id, sb_msg_no := msg_num,
       sb_msg_type := MSG_TYPE_APPLICATION, sb_send := True\<rparr>"

text \<open>
  How the stored message is sent: on the request's connection, in this thread, or in one of its
  own.  The addresses are those that only the server side reads.
\<close>

definition on_server_side :: "rm_msg \<Rightarrow> seq_property_bean option \<Rightarrow> cstr" where
  "on_server_side m b = (if rm_server_side m then bean_value b else None)"

definition choose_channel ::
  "nat \<Rightarrow> rm_msg \<Rightarrow> cstr \<Rightarrow> string \<Rightarrow> int \<Rightarrow> seq_part \<Rightarrow> sender_bean \<Rightarrow> cstr \<Rightarrow> status option proc" where
  "choose_channel turns m internal_sequence_id storage_key retrans_interval sq bean reply_to_addr = do {
     (b, continue_sending) \<leftarrow> adjust_retrans bean (rm_has_svc m);
     reply_anonymous \<leftarrow> anonymous_addr reply_to_addr;
     (if \<not> continue_sending then done_with AXIS2_FAILURE
      else if \<not> rm_server_side m \<and> (is_null reply_to_addr \<or> reply_anonymous)
      then send_in_client turns m internal_sequence_id retrans_interval sq
      else do {
        status \<leftarrow> send_in_thread m internal_sequence_id storage_key retrans_interval sq;
        done_with status
      })
   }"

definition send_stored ::
  "nat \<Rightarrow> rm_msg \<Rightarrow> cstr \<Rightarrow> string \<Rightarrow> int \<Rightarrow> seq_part \<Rightarrow> cstr \<Rightarrow> cstr \<Rightarrow> status option proc" where
  "send_stored turns m internal_sequence_id storage_key retrans_interval sq to_addr reply_to_addr = do {
     let rmd_sequence_id = Option.bind (request_sequence m) sq_identifier;
     from_acks_to_bean \<leftarrow> (if is_null rmd_sequence_id then ret None
                          else seq_prop_retrieve rmd_sequence_id (Some SEQ_PROP_ACKS_TO_EPR));
     is_last_out_msg m rmd_sequence_id internal_sequence_id (sq_msg_no sq);
     millisecs \<leftarrow> current_time_in_millis;
     let bean = app_sender_bean storage_key millisecs (rm_msg_id m) internal_sequence_id (sq_msg_no sq);
     sender_insert bean;
     acks_anonymous \<leftarrow> anonymous_addr (bean_value from_acks_to_bean);
     to_anonymous \<leftarrow> anonymous_addr to_addr;
     (if rm_server_side m \<and> acks_anonymous \<and> (is_null to_addr \<or> to_anonymous)
      then send_replay turns m internal_sequence_id rmd_sequence_id sq
      else choose_channel turns m internal_sequence_id storage_key retrans_interval sq bean reply_to_addr)
   }"

definition send_app_msg :: "nat \<Rightarrow> rm_msg \<Rightarrow> cstr \<Rightarrow> int \<Rightarrow> string \<Rightarrow> status option proc" where
  "send_app_msg turns m internal_sequence_id msg_num storage_key = do {
     property_bean \<leftarrow> get_property_bean (rm_has_svc m);
     (case property_bean of
        None \<Rightarrow> done_with AXIS2_FAILURE
      | Some pb \<Rightarrow> do {
          (case rm_relates_to m of
             None \<Rightarrow> ret False
           | Some relates_to_value \<Rightarrow> seq_prop_insert
               (prop_bean internal_sequence_id SEQ_PROP_HIGHEST_OUT_RELATES_TO relates_to_value));
          set_last_out_msg_no internal_sequence_id msg_num;
          to_bean \<leftarrow> seq_prop_retrieve internal_sequence_id (Some SEQ_PROP_TO_EPR);
          reply_to_bean \<leftarrow> seq_prop_retrieve internal_sequence_id (Some SEQ_PROP_REPLY_TO_EPR);
          let m' = addressed m to_bean reply_to_bean;
          (case Option.bind (pb_spec_version pb) (marked_last m') of
             None \<Rightarrow> done_with AXIS2_FAILURE
           | Some last_msg \<Rightarrow>
               send_stored turns m' internal_sequence_id storage_key (pb_retrans_interval pb)
                 \<lparr>sq_identifier = None, sq_msg_no = msg_num, sq_last_msg = last_msg\<rparr>
                 (on_server_side m to_bean) (on_server_side m reply_to_bean))
        })
   }"


section \<open>The thread of an application message\<close>

text \<open>\<open>sandesha2_app_msg_processor_resend\<close>\<close>

definition app_resend :: "cstr \<Rightarrow> bool \<Rightarrow> bool \<Rightarrow> out_msg \<Rightarrow> status proc" where
  "app_resend msg_id has_svc has_sender msg = do {
     sender_worker_bean \<leftarrow> sender_retrieve msg_id;
     (case sender_worker_bean of
        None \<Rightarrow> ret AXIS2_FAILURE
      | Some bean \<Rightarrow> do {
          (b, continue_sending) \<leftarrow> adjust_retrans bean has_svc;
          sender_update b;
          (if \<not> continue_sending then ret AXIS2_FAILURE
           else do {
             (if has_sender then transport_sender_invoke msg else ret ());
             bean1 \<leftarrow> sender_retrieve (sb_msg_id b);
             (case bean1 of
                None \<Rightarrow> ret True
              | Some b1 \<Rightarrow>
                  if sb_resend b then sender_update (b1\<lparr>sb_sent_count := sb_sent_count b,
                    sb_time_to_send := sb_time_to_send b\<rparr>)
                  else ret True);
             ret AXIS2_SUCCESS
           })
        })
   }"

fun app_msg_loop :: "nat \<Rightarrow> cstr \<Rightarrow> cstr \<Rightarrow> int \<Rightarrow> bool \<Rightarrow> bool \<Rightarrow> out_msg \<Rightarrow> unit option proc" where
  "app_msg_loop 0 internal_sequence_id msg_id retrans_interval has_svc has_sender msg = ret None"
| "app_msg_loop (Suc turns) internal_sequence_id msg_id retrans_interval has_svc has_sender msg = do {
     status \<leftarrow> app_resend msg_id has_svc has_sender msg;
     (if status \<noteq> AXIS2_SUCCESS then done_with ()
      else do {
        sender_bean \<leftarrow> get_application_msg_to_send internal_sequence_id msg_id;
        (if is_null sender_bean then done_with ()
         else do {
           axis2_sleep retrans_interval;
           app_msg_loop turns internal_sequence_id msg_id retrans_interval has_svc has_sender msg
         })
      })
   }"

text \<open>
  The thread also counts an attempt for each second that it waits for the sequence to be named.
  \<open>Some None\<close> is giving up.
\<close>

fun await_outgoing :: "nat \<Rightarrow> cstr \<Rightarrow> bool \<Rightarrow> sender_bean \<Rightarrow> cstr option option proc" where
  "await_outgoing 0 internal_sequence_id has_svc bean = ret None"
| "await_outgoing (Suc turns) internal_sequence_id has_svc bean = do {
     (b, continue_sending) \<leftarrow> adjust_retrans bean has_svc;
     sender_update b;
     (if \<not> continue_sending then done_with None
      else do {
        rms_sequence_bean \<leftarrow> outgoing_sequence internal_sequence_id;
        axis2_sleep 1;
        (case rms_sequence_bean of
           Some rms \<Rightarrow> done_with (Some (sp_value rms))
         | None \<Rightarrow> await_outgoing turns internal_sequence_id has_svc b)
      })
   }"

definition send_from_thread ::
  "nat \<Rightarrow> cstr \<Rightarrow> cstr \<Rightarrow> int \<Rightarrow> seq_part \<Rightarrow> msg_ctx \<Rightarrow> cstr \<Rightarrow> unit option proc" where
  "send_from_thread turns internal_sequence_id msg_id retrans_interval sq ctx rms_sequence_id = do {
     let has_svc = (\<not> is_null (mc_svc ctx));
     seq_prop_insert (prop_bean msg_id SEQ_PROP_RELATED_MSG_ID rms_sequence_id);
     prop \<leftarrow> get_property_bean has_svc;
     (if is_null (Option.bind prop pb_spec_version) then done_with ()
      else do {
        stored \<leftarrow> asks (\<lambda>w. stored_out (w_conf w) ctx);
        let named = with_sequence sq rms_sequence_id stored;
        msg \<leftarrow> (if is_null (om_seq_ack named) then piggyback_acks_if_present rms_sequence_id named
                else ret named);
        sender_bean \<leftarrow> get_application_msg_to_send internal_sequence_id msg_id;
        (if is_null sender_bean then done_with ()
         else app_msg_loop turns internal_sequence_id msg_id retrans_interval has_svc
                (\<not> is_null (mc_transport_out ctx)) msg)
      })
   }"

definition application_msg_worker_function ::
  "nat \<Rightarrow> cstr \<Rightarrow> cstr \<Rightarrow> int \<Rightarrow> seq_part \<Rightarrow> unit option proc" where
  "application_msg_worker_function turns internal_sequence_id msg_id retrans_interval sq = do {
     sender_bean \<leftarrow> get_application_msg_to_send internal_sequence_id msg_id;
     (case sender_bean of
        None \<Rightarrow> done_with ()
      | Some bean \<Rightarrow> do {
          rms_sequence_bean \<leftarrow> outgoing_sequence internal_sequence_id;
          app_msg_ctx \<leftarrow> retrieve_stored_msg (sb_msg_ctx_ref_key bean);
          (case app_msg_ctx of
             None \<Rightarrow> do { undefined_behaviour; ret None }
           | Some ctx \<Rightarrow>
               on_return (case rms_sequence_bean of
                   Some rms \<Rightarrow> done_with (Some (sp_value rms))
                 | None \<Rightarrow> await_outgoing turns internal_sequence_id (\<not> is_null (mc_svc ctx)) bean)
                 (\<lambda>named. case named of
                    None \<Rightarrow> done_with ()
                  | Some rms_sequence_id \<Rightarrow>
                      send_from_thread turns internal_sequence_id msg_id retrans_interval sq ctx
                        rms_sequence_id))
        })
   }"

section \<open>Outgoing application messages\<close>

text \<open>
  The incoming sequence and the name of the outgoing one: on the server side by the request's
  sequence, on the client side by the address and the key the client chose, or a fresh one.
  \<open>None\<close> is a request without a sequence, or an unnamed one.
\<close>

definition server_sequences :: "rm_msg \<Rightarrow> (rm_msg \<times> cstr \<times> cstr) option proc" where
  "server_sequences m = do {
     (if is_null (rm_request m) then undefined_behaviour else ret ());
     ret (case Option.bind (request_sequence m) sq_identifier of
            None \<Rightarrow> None
          | Some rmd_sequence_id \<Rightarrow>
              Some (m, Some rmd_sequence_id, get_internal_sequence_id (Some rmd_sequence_id)))
   }"

definition client_sequences :: "rm_msg \<Rightarrow> (rm_msg \<times> cstr \<times> cstr) option proc" where
  "client_sequences m = do {
     seq_key \<leftarrow> (case rm_client_seq_key m of
         Some k \<Rightarrow> ret k
       | None \<Rightarrow> uuid_gen);
     ret (Some (m\<lparr>rm_client_seq_key := Some seq_key\<rparr>, None,
                get_client_internal_sequence_id (addr_of (rm_to m)) (Some seq_key)))
   }"

text \<open>A sequence that timed out ends the process; its mark is removed first.\<close>

definition exit_if_timed_out :: "cstr \<Rightarrow> unit option proc" where
  "exit_if_timed_out internal_sequence_id = do {
     seq_timeout_bean \<leftarrow> seq_prop_retrieve internal_sequence_id (Some SEQ_PROP_SEQ_TIMED_OUT);
     (case seq_timeout_bean of
        None \<Rightarrow> done_with ()
      | Some b \<Rightarrow>
          if sp_value b = Some AXIS2_VALUE_TRUE then do {
            seq_prop_remove (sp_seq_id b) (sp_name b);
            emit Exit_Process;
            ret None
          } else done_with ())
   }"

definition outgoing_msg_number :: "int option \<Rightarrow> int \<Rightarrow> int" where
  "outgoing_msg_number client_msg_no system_msg_num =
     (case client_msg_no of
        Some n \<Rightarrow> n
      | None \<Rightarrow> if system_msg_num > 0 then system_msg_num + 1 else 1)"

definition assign_msg_number :: "rm_msg \<Rightarrow> cstr \<Rightarrow> (sandesha2_error + int) proc" where
  "assign_msg_number m internal_sequence_id =
     (if (case rm_client_msg_no m of None \<Rightarrow> False | Some n \<Rightarrow> n \<le> 0) then ret (Inl ERROR_INVALID_MSG_NUM)
      else do {
        system_msg_num \<leftarrow> get_prev_msg_no internal_sequence_id;
        (if (case rm_client_msg_no m of None \<Rightarrow> False | Some n \<Rightarrow> n \<le> system_msg_num)
         then ret (Inl ERROR_INVALID_MSG_NUM)
         else do {
           let msg_number = outgoing_msg_number (rm_client_msg_no m) system_msg_num;
           (if rm_dummy m \<noteq> Some AXIS2_VALUE_TRUE
            then do { set_next_msg_no internal_sequence_id msg_number; ret () } else ret ());
           seq_prop_insert (prop_bean internal_sequence_id SEQ_PROP_HIGHEST_OUT_MSG_NUMBER
             (Some (sprintf_ld msg_number)));
           ret (Inr msg_number)
         })
      })"


text \<open>Where acknowledgements of the outgoing sequence go.\<close>

definition server_acks_to :: "rm_msg \<Rightarrow> cstr \<Rightarrow> cstr proc" where
  "server_acks_to m rmd_sequence_id =
     (case Option.bind (rm_request m) rq_to of
        None \<Rightarrow> do { undefined_behaviour; ret None }
      | Some (Some acks_to) \<Rightarrow> ret (Some acks_to)
      | Some None \<Rightarrow> do {
          reply_to_epr_bean \<leftarrow> seq_prop_retrieve rmd_sequence_id (Some SEQ_PROP_REPLY_TO_EPR);
          ret (bean_value reply_to_epr_bean)
        })"

definition outgoing_acks_to :: "rm_msg \<Rightarrow> cstr \<Rightarrow> cstr \<Rightarrow> cstr proc" where
  "outgoing_acks_to m rmd_sequence_id anon_uri =
     (if rm_server_side m then server_acks_to m rmd_sequence_id
      else ret (case rm_client_acks_to m of None \<Rightarrow> anon_uri | Some acks_to \<Rightarrow> Some acks_to))"

text \<open>
  The CreateSequence message is sent once: the second result tells whether it was sent here, with
  what status.
\<close>

definition create_seq_once :: "nat \<Rightarrow> rm_msg \<Rightarrow> cstr \<Rightarrow> cstr \<Rightarrow> status option option proc" where
  "create_seq_once turns m rmd_sequence_id internal_sequence_id = do {
     create_seq_added \<leftarrow> seq_prop_retrieve internal_sequence_id (Some SEQ_PROP_OUT_CREATE_SEQ_SENT);
     addr_ns_uri \<leftarrow> get_seq_property internal_sequence_id (Some SEQ_PROP_ADDRESSING_NAMESPACE_VALUE);
     anon_uri \<leftarrow> asks (\<lambda>w. get_anon_uri (cf_wsa (w_conf w)) addr_ns_uri);
     (if \<not> is_null create_seq_added then done_with None
      else do {
        seq_prop_insert (prop_bean internal_sequence_id SEQ_PROP_OUT_CREATE_SEQ_SENT (Some AXIS2_VALUE_TRUE));
        acks_to \<leftarrow> outgoing_acks_to m rmd_sequence_id anon_uri;
        on_return (send_create_seq_msg turns m internal_sequence_id acks_to) (\<lambda>s. done_with (Some s))
      })
   }"

definition start_sequence :: "nat \<Rightarrow> rm_msg \<Rightarrow> cstr \<Rightarrow> cstr \<Rightarrow> int \<Rightarrow> status option option proc" where
  "start_sequence turns m rmd_sequence_id internal_sequence_id msg_number = do {
     (if rm_server_side m then do { seq_prop_retrieve rmd_sequence_id (Some SEQ_PROP_TO_EPR); ret () }
      else ret ());
     spec_ver \<leftarrow> get_rm_version m;
     rms_sequence_bean \<leftarrow> outgoing_sequence internal_sequence_id;
     (if msg_number = 1 then do {
        setup_new_outgoing_sequence m internal_sequence_id
          (case spec_ver of None \<Rightarrow> Some get_default_spec_version | Some v \<Rightarrow> Some v);
        ret ()
      } else ret ());
     (if msg_number = 1 \<and> is_null rms_sequence_bean
      then create_seq_once turns m rmd_sequence_id internal_sequence_id else done_with None)
   }"

text \<open>The message itself, with the actions it goes with, unless it is a dummy.\<close>

definition with_actions :: "rm_msg \<Rightarrow> rm_msg" where
  "with_actions m =
     m\<lparr>rm_wsa_action := (case rm_wsa_action m of None \<Rightarrow> addr_of (rm_to m) | Some a \<Rightarrow> Some a),
       rm_soap_action := (case rm_soap_action m of None \<Rightarrow> addr_of (rm_to m) | Some a \<Rightarrow> Some a)\<rparr>"

definition send_numbered :: "nat \<Rightarrow> rm_msg \<Rightarrow> cstr \<Rightarrow> int \<Rightarrow> status \<Rightarrow> status option proc" where
  "send_numbered turns m internal_sequence_id msg_number status = do {
     (if rm_server_side m \<and> rm_ack_written m \<noteq> Some AXIS2_VALUE_TRUE then emit Set_Response_Written
      else ret ());
     on_return (if rm_dummy m = Some AXIS2_VALUE_TRUE then done_with status
                else do {
                  storage_key \<leftarrow> uuid_gen;
                  send_app_msg turns (with_actions m) internal_sequence_id msg_number storage_key
                }) (\<lambda>s. do { emit Set_Paused; done_with s })
   }"

definition send_in_sequence :: "nat \<Rightarrow> rm_msg \<Rightarrow> cstr \<Rightarrow> cstr \<Rightarrow> (sandesha2_error + status) option proc" where
  "send_in_sequence turns m rmd_sequence_id internal_sequence_id =
     on_return (exit_if_timed_out internal_sequence_id) (\<lambda>_. do {
       assigned \<leftarrow> assign_msg_number m internal_sequence_id;
       (case assigned of
          Inl e \<Rightarrow> done_with (Inl e)
        | Inr msg_number \<Rightarrow>
            on_return (start_sequence turns m rmd_sequence_id internal_sequence_id msg_number) (\<lambda>created.
              case created of
                Some s \<Rightarrow>
                  if s \<noteq> AXIS2_SUCCESS then do { emit Set_Paused; done_with (Inr s) }
                  else on_return (send_numbered turns m internal_sequence_id msg_number s)
                         (\<lambda>status. done_with (Inr status))
              | None \<Rightarrow>
                  on_return (send_numbered turns m internal_sequence_id msg_number AXIS2_FAILURE)
                    (\<lambda>status. done_with (Inr status))))
     })"

definition no_address :: "rm_msg \<Rightarrow> bool" where
  "no_address m \<longleftrightarrow> addr_of (rm_to m) = None \<or> addr_of (rm_to m) = Some ''''"

definition app_process_out_msg :: "nat \<Rightarrow> rm_msg \<Rightarrow> (sandesha2_error + status) option proc" where
  "app_process_out_msg turns m =
     (if no_address m \<and> \<not> rm_server_side m then done_with (Inr AXIS2_FAILURE)
      else do {
        msg_id \<leftarrow> (case rm_msg_id m of Some i \<Rightarrow> ret i | None \<Rightarrow> uuid_gen);
        sequences \<leftarrow> (if rm_server_side m then server_sequences (m\<lparr>rm_msg_id := Some msg_id\<rparr>)
                      else client_sequences (m\<lparr>rm_msg_id := Some msg_id\<rparr>));
        (case sequences of
           None \<Rightarrow> done_with (if is_null (request_sequence m) then Inl ERROR_SEQ_NOT_EXIST
                              else Inr AXIS2_FAILURE)
         | Some (m', rmd_sequence_id, internal_sequence_id) \<Rightarrow>
             send_in_sequence turns m' rmd_sequence_id internal_sequence_id)
      })"

end
