(* ===== verification/Close_Seq_Sender.thy ===== *)
theory Close_Seq_Sender
  imports App_Msg_Sender
begin

text \<open>
  The sending side of \<open>src/msgprocessors/close_seq_msg_processor.c\<close>, and \<open>sandesha2_terminate_mgr_process_response\<close>
  of \<open>src/util/terminate_mgr.c\<close>: what comes back on the connection of a CloseSequence message goes through
  the incoming handlers.  \<open>None\<close> is a call that does not return.
\<close>

section \<open>The response on the connection\<close>

text \<open>What the handlers made of the response is not looked at.\<close>

definition terminate_mgr_process_response :: "status option proc" where
  "terminate_mgr_process_response = do {
     response \<leftarrow> connection_reply;
     (case response of
        None \<Rightarrow> done_with AXIS2_SUCCESS
      | Some r \<Rightarrow> on_return (engine_receive (r\<lparr>rm_server_side := False\<rparr>)) (\<lambda>_. done_with AXIS2_SUCCESS))
   }"

section \<open>CloseSequence going out\<close>

text \<open>
  A client whose answers come back on the connection sends a message of its own and pauses the
  one it was given; otherwise the message is filled in and goes on, as the result shows.
\<close>

definition address_close :: "cstr \<Rightarrow> string \<Rightarrow> out_msg \<Rightarrow> out_msg proc" where
  "address_close int_seq_id rm_version msg = do {
     to_bean \<leftarrow> seq_prop_retrieve int_seq_id (Some SEQ_PROP_TO_EPR);
     transport_to_bean \<leftarrow> seq_prop_retrieve int_seq_id (Some SEQ_PROP_TRANSPORT_TO);
     ret (msg\<lparr>om_to := (case to_bean of None \<Rightarrow> om_to msg | Some b \<Rightarrow> Some (sp_value b)),
              om_transport_url := (case transport_to_bean of None \<Rightarrow> om_transport_url msg
                                   | Some b \<Rightarrow> sp_value b),
              om_action := right (get_close_seq_action rm_version),
              om_soap_action := right (get_close_seq_action rm_version)\<rparr>)
   }"

definition close_with_own_msg ::
  "rm_msg \<Rightarrow> string \<Rightarrow> cstr \<Rightarrow> string \<Rightarrow> (status \<times> out_msg option) option proc" where
  "close_with_own_msg m out_seq_id int_seq_id rm_version = do {
     created \<leftarrow> create_close_seq_msg m (Some out_seq_id) int_seq_id;
     (case created of
        None \<Rightarrow> do { emit Set_Paused; done_with (AXIS2_FAILURE, None) }
      | Some msg0 \<Rightarrow> do {
          msg1 \<leftarrow> address_close int_seq_id rm_version msg0;
          msg \<leftarrow> piggyback_acks_if_present (Some out_seq_id) msg1;
          sent \<leftarrow> engine_send msg;
          on_return (if sent then terminate_mgr_process_response else done_with AXIS2_SUCCESS)
            (\<lambda>_. do { emit Set_Paused; done_with (AXIS2_SUCCESS, None) })
        })
   }"

definition fill_close :: "rm_msg \<Rightarrow> string \<Rightarrow> string \<Rightarrow> cstr \<Rightarrow> cstr \<Rightarrow> out_msg" where
  "fill_close m out_seq_id rm_version last_msg_num transport_to =
     (new_out_msg MSG_TYPE_CLOSE_SEQ)
       \<lparr>om_msg_id := rm_msg_id m, om_to := Some (addr_of (rm_to m)), om_seq_id := Some out_seq_id,
        om_reply_to := rm_reply_to m, om_action := right (get_close_seq_action rm_version),
        om_soap_action := right (get_close_seq_action rm_version),
        om_transport_url := (case transport_to of None \<Rightarrow> rm_transport_url m | Some t \<Rightarrow> Some t),
        om_last_msg_number := map_option atol last_msg_num, om_seq_ack := rm_seq_ack m\<rparr>"

definition close_with_given_msg ::
  "rm_msg \<Rightarrow> string \<Rightarrow> cstr \<Rightarrow> string \<Rightarrow> (status \<times> out_msg option) proc" where
  "close_with_given_msg m out_seq_id int_seq_id rm_version = do {
     last_out_msg_no_bean \<leftarrow> seq_prop_retrieve int_seq_id (Some SEQ_PROP_LAST_OUT_MESSAGE_NUMBER);
     transport_to \<leftarrow> get_seq_property int_seq_id (Some SEQ_PROP_TRANSPORT_TO);
     let msg = fill_close m out_seq_id rm_version (bean_value last_out_msg_no_bean) transport_to;
     msg' \<leftarrow> (if is_null (rm_seq_ack m) then piggyback_acks_if_present (Some out_seq_id) msg
              else ret msg);
     ret (AXIS2_SUCCESS, Some msg')
   }"

definition close_process_out_msg ::
  "rm_msg \<Rightarrow> (sandesha2_error + status \<times> out_msg option) option proc" where
  "close_process_out_msg m = do {
     let int_seq_id = get_client_internal_sequence_id (addr_of (rm_to m)) (rm_client_seq_key m);
     out_seq_id \<leftarrow> get_seq_property int_seq_id (Some SEQ_PROP_OUTGOING_SEQUENCE_ID);
     (case out_seq_id of
        None \<Rightarrow> done_with (Inl ERROR_CANNOT_FIND_SEQ_ID)
      | Some s \<Rightarrow> do {
          rm_version \<leftarrow> get_rm_version m;
          (case rm_version of
             None \<Rightarrow> done_with (Inr (AXIS2_FAILURE, None))
           | Some v \<Rightarrow> do {
               reply_to_bean \<leftarrow> seq_prop_retrieve int_seq_id (Some SEQ_PROP_REPLY_TO_EPR);
               anon \<leftarrow> (case bean_value reply_to_bean of
                   None \<Rightarrow> ret True
                 | Some r \<Rightarrow> anonymous_addr (Some r));
               on_return
                 (if \<not> rm_server_side m \<and> anon then close_with_own_msg m s int_seq_id v
                  else do { r \<leftarrow> close_with_given_msg m s int_seq_id v; done_with r })
                 (\<lambda>r. done_with (Inr r))
             })
        })
   }"

end
