(* ===== verification/Out_Handler.thy ===== *)
theory Out_Handler
  imports Close_Seq_Sender
begin

text \<open>
  \<open>src/handlers/sandesha2_out_handler.c\<close>: an outgoing message goes to the processor of its type, an
  unknown one that belongs to a sequence to the application processor; and the transport sender
  of \<open>src/transport/sandesha2_transport_sender.c\<close>, which takes a message through the phases.
\<close>

section \<open>The processor\<close>

text \<open>
  Two processors have no outgoing operation: the pointer of one is null, that of the other is what
  \<open>malloc\<close> left.
\<close>

definition msg_processor_process_out_msg :: "nat \<Rightarrow> msg_processor \<Rightarrow> rm_msg \<Rightarrow> unit option proc" where
  "msg_processor_process_out_msg turns p m =
     (case p of
        Create_Seq_Proc \<Rightarrow> returns (create_seq_process_out_msg m)
      | Terminate_Seq_Proc \<Rightarrow> returns (terminate_process_out_msg m)
      | Terminate_Seq_Res_Proc \<Rightarrow> returns (terminate_res_process_out_msg m)
      | Application_Proc \<Rightarrow> on_return (app_process_out_msg turns m) (\<lambda>_. done_with ())
      | Create_Seq_Res_Proc \<Rightarrow> do { undefined_behaviour; ret None }
      | Close_Seq_Proc \<Rightarrow> on_return (close_process_out_msg m) (\<lambda>_. done_with ())
      | Close_Seq_Res_Proc \<Rightarrow> returns (close_res_process_out_msg m)
      | Make_Connection_Proc \<Rightarrow> do { undefined_behaviour; ret None })"

text \<open>
  A client that is closed ends its sequence: with a message that is taken for a CloseSequence, or
  with an empty last message in the 1.0 version.
\<close>

definition close_client :: "rm_msg \<Rightarrow> rm_msg proc" where
  "close_client m =
     (if \<not> rm_client_closed m then ret m
      else do {
        spec_version \<leftarrow> get_rm_version m;
        ret (if spec_version = Some SPEC_VERSION_1_1
             then m\<lparr>rm_soap_action := action_for get_terminate_seq_action spec_version,
                    rm_msg_type := MSG_TYPE_CLOSE_SEQ\<rparr>
             else if spec_version = Some SPEC_VERSION_1_0
             then m\<lparr>rm_soap_action := Some LAST_MESSAGE_ACTION,
                    rm_client_last_message := Some AXIS2_VALUE_TRUE\<rparr>
             else m)
      })"

definition out_msg_processor :: "rm_msg \<Rightarrow> msg_processor option" where
  "out_msg_processor m =
     (if rm_msg_type m = MSG_TYPE_UNKNOWN then
        (case rm_request m of
           Some rq \<Rightarrow> if is_null (rq_sequence rq) then None else Some Application_Proc
         | None \<Rightarrow> if rm_server_side m then None else Some Application_Proc)
      else create_msg_processor (rm_msg_type m))"

section \<open>The handler\<close>

text \<open>
  The status code in the environment's error is what the calls before left there, which functions
  set and reset all the time; it decides whether the message is sent.
\<close>

definition handle_outgoing :: "nat \<Rightarrow> rm_msg \<Rightarrow> status option proc" where
  "handle_outgoing turns m = do {
     m' \<leftarrow> close_client m;
     on_return (case out_msg_processor m' of
         None \<Rightarrow> done_with ()
       | Some p \<Rightarrow> msg_processor_process_out_msg turns p m')
       (\<lambda>_. do {
          no_error \<leftarrow> engine_answer;
          (if \<not> no_error then do { emit Set_Paused; done_with AXIS2_FAILURE }
           else do { emit Set_Processing_Not_Done; done_with AXIS2_SUCCESS })
        })
   }"

definition out_handler_invoke :: "nat \<Rightarrow> rm_msg \<Rightarrow> status option proc" where
  "out_handler_invoke turns m = do {
     rstr_msg \<leftarrow> asks (\<lambda>w. is_rstr_msg (cf_rstr_actions (w_conf w)) (Some (rm_wsa_action m)));
     (if rm_mc_out_path m \<or> rstr_msg then done_with AXIS2_SUCCESS
      else if \<not> rm_has_svc m then done_with AXIS2_FAILURE
      else if \<not> rm_module_engaged m \<or> rm_app_processing_done m = Some AXIS2_VALUE_TRUE
      then done_with AXIS2_SUCCESS
      else do {
        emit Set_Processing_Done;
        created \<leftarrow> create_db;
        (if \<not> created then done_with AXIS2_FAILURE else handle_outgoing turns m)
      })
   }"

section \<open>The transport sender\<close>

text \<open>The transport the message had is put back; the transport is not used again.\<close>

definition original_transport :: "msg_ctx \<Rightarrow> cstr" where
  "original_transport ctx = Option.bind (map_of (mc_properties ctx) SANDESHA2_ORIGINAL_TRANSPORT_OUT_DESC) (\<lambda>v. v)"

definition transport_sender_invoke_ctx :: "(string \<Rightarrow> int) \<Rightarrow> msg_ctx \<Rightarrow> msg_ctx \<times> status" where
  "transport_sender_invoke_ctx desc_enum ctx =
     (case original_transport ctx of
        None \<Rightarrow> (ctx, AXIS2_FAILURE)
      | Some out_desc \<Rightarrow> (ctx\<lparr>mc_transport_out := Some (desc_enum out_desc)\<rparr>, AXIS2_SUCCESS))"

end
