(* ===== verification/Keeping.thy ===== *)
theory Keeping
  imports Out_Handler
begin

text \<open>
  What every handler keeps because each operation does: a predicate that the single operations
  of the tables, the engine and the clock keep is kept by both handlers, the processors behind
  them and the worker threads, for any answers of the environment.
\<close>

text \<open>First the predicates that the operations on the tables keep; the engine comes after.\<close>

locale quiet = blind +
  assumes on_sender: "keeps P (sender_insert b)" "keeps P (sender_update b)" "keeps P (sender_remove k)"
    and on_create_seq: "keeps P (create_seq_insert cb)" "keeps P (create_seq_update cb)" "keeps P (create_seq_remove k)"
    and on_next_msg: "keeps P (next_msg_insert nb)" "keeps P (next_msg_remove k)"
    and on_invoker: "keeps P (invoker_insert ib)"
    and on_msg: "keeps P (store_msg_ctx k c)" "keeps P (update_msg_ctx k c)" "keeps P (remove_msg_ctx k)"
    and on_props: "keeps P (seq_prop_insert pb)" "keeps P (seq_prop_update pb)" "keeps P (seq_prop_remove s n)"
    and on_undefined: "keeps P undefined_behaviour"
begin

lemma on_put: "keeps P (insert_or_update added b)"
  by (simp add: insert_or_update_def on_props)

lemmas table_rules = keeps_rules keeps_asking on_sender on_create_seq on_next_msg on_invoker on_msg on_props
  on_put on_undefined

lemma k_activated: "keeps P (update_last_activated_time k)"
  unfolding update_last_activated_time_def by (intro table_rules)

lemma k_timedout: "keeps P (has_seq_timedout k b)"
  unfolding has_seq_timedout_def get_last_activated_time_def by (intro table_rules)

lemma k_terminate_side: "keeps P (terminate_sending_side i)" "keeps P (time_out_sending_side_seq i)"
  unfolding terminate_sending_side_def time_out_sending_side_seq_def clean_sending_side_data_def
    clean_sender_bean_def clean_create_seq_bean_def clean_property_def do_updates_if_needed_def delete_property_def
  by (intro table_rules)+

lemma k_adjust: "keeps P (adjust_retrans b h)"
  unfolding adjust_retrans_def finalize_timedout_seq_def
  by (intro table_rules k_timedout k_terminate_side)

end

locale kept = quiet +
  assumes on_engine: "keeps P (emit ev)" "keeps P (engine_send m)" "keeps P (engine_send_fault f)"
      "keeps P (engine_send_stored c a)" "keeps P (engine_send_of_fault f)" "keeps P (engine_resume_send m)"
    and on_sleep: "keeps P (axis2_sleep i)"
begin

lemmas rules = table_rules on_engine on_sleep

lemma k_return: "keeps P c \<Longrightarrow> (\<And>x. keeps P (f x)) \<Longrightarrow> keeps P (on_return c f)" "keeps P (done_with x)"
  "keeps P d \<Longrightarrow> keeps P (returns d)" "keeps P e \<Longrightarrow> keeps P (returns_if h e)"
  unfolding on_return_def done_with_def returns_def returns_if_def by (intro rules | assumption)+

subsection \<open>Managers\<close>

lemma k_acked_upto: "keeps P (is_all_msgs_acked_upto n i)"
  unfolding is_all_msgs_acked_upto_def by (intro rules)

lemma k_add_ack: "keeps P (add_ack_msg m target s)"
  unfolding add_ack_msg_def by (intro rules)

lemma k_generate: "keeps P (generate_ack_msg m s)"
  unfolding generate_ack_msg_def ack_destination_def ack_ref_params_def by (intro rules k_add_ack)

lemma k_piggyback: "keeps P (piggyback_acks_if_present s target)"
proof -
  have "keeps P (piggyback_loop to bs target)" for to bs
    by (induction bs arbitrary: target) (simp_all only: piggyback_loop.simps, (intro rules | assumption)+)
  then show ?thesis unfolding piggyback_acks_if_present_def by (intro rules)
qed

lemma k_checks:
  "keeps P (check_for_unknown_seq m s)" "keeps P (check_for_invalid_ack m)"
  "keeps P (check_for_seq_closed m s)" "keeps P (check_for_last_msg_num_exceeded b m)"
  unfolding check_for_unknown_seq_def valid_seq_def check_for_invalid_ack_def check_for_seq_closed_def
    check_for_last_msg_num_exceeded_def get_fault_def fault_acks_to_def
  by (intro rules)+

lemma k_send_terminate: "keeps P (send_terminate_seq_msg m s i)"
  unfolding send_terminate_seq_msg_def create_terminate_seq_msg_def terminate_last_msg_number_def
    address_terminate_def queue_terminate_def dispatch_terminate_def
  by (intro rules k_piggyback)

lemma k_send_ack: "keeps P (send_ack_if_reqd m l s mep)"
  unfolding send_ack_if_reqd_def deliver_ack_def queue_ack_def ack_outgoing_seq_id_def
    take_related_def anonymous_addr_def
  by (intro rules k_generate)

subsection \<open>Received messages\<close>

lemma k_ack_process: "keeps P (ack_process_in_msg m)"
  unfolding ack_process_in_msg_def process_ack_def report_fault_def remove_acked_messages_def
    remove_acked_def terminate_if_last_def update_acked_count_def update_completed_def completed_bean_def
  by (intro rules k_checks k_activated k_send_terminate)

lemma k_terminate_process: "keeps P (terminate_process_in_msg m)"
  unfolding terminate_process_in_msg_def accept_terminate_def add_terminate_seq_res_def
    create_out_msg_ctx_def create_terminate_seq_res_msg_def respond_with_ack_def setup_highest_msg_nums_def
    mark_last_in_def related_highest_out_def terminate_if_acked_def terminate_on_ack_def
    highest_out_no_def get_prev_msg_no_def
  by (intro rules k_checks k_generate k_acked_upto k_send_terminate)

lemma k_close_process: "keeps P (close_process_in_msg m)"
  unfolding close_process_in_msg_def add_close_seq_res_def create_out_msg_ctx_def
    create_close_seq_res_msg_def respond_with_ack_def
  by (intro rules k_checks k_generate)

lemma k_responses: "keeps P (terminate_res_process_in_msg m)" "keeps P (close_res_process_in_msg m)"
  unfolding terminate_res_process_in_msg_def close_res_process_in_msg_def
  by (intro rules k_checks k_send_terminate)+

lemma k_make_connection: "keeps P (make_connection_process_in_msg m)"
proof -
  have "keeps P (next_on_connection i)" for i
    unfolding next_on_connection_def by (intro rules keepsI) simp
  then show ?thesis
    unfolding make_connection_process_in_msg_def send_on_connection_def transmit_def after_transmission_def
    by (intro rules k_adjust)
qed

lemma k_dropped: "keeps P (process_dropped_msg m)"
  unfolding process_dropped_msg_def answer_dropped_def with_response_def
  by (intro rules k_add_ack k_send_ack)

lemma k_let: "keeps P (f e) \<Longrightarrow> keeps P (let x = e in f x)"
  by simp

lemma k_app_process: "keeps P (app_process_in_msg m)"
proof -
  have "keeps P (store_highest h s n k i)" for h s n k i
    unfolding store_highest_def by (intro k_let rules)
  then show ?thesis
    unfolding app_process_in_msg_def refuse_with_def accept_msg_def note_highest_def
      add_received_def received_bean_def hand_on_def queue_for_invoker_def list_incoming_seq_def
    by (intro rules k_checks k_activated k_send_ack)
qed

lemma k_create_seq_process: "keeps P (create_seq_process_in_msg m)"
  unfolding create_seq_process_in_msg_def respond_create_seq_def complete_create_seq_def
    answer_create_seq_def store_acks_to_def take_up_offer_def create_seq_msg_already_received_def
    free_internal_beans_def create_out_msg_ctx_def setup_new_incoming_sequence_def
    store_incoming_properties_def create_create_seq_res_msg_def
  by (intro rules k_activated)

lemma k_create_create_seq: "keeps P (create_create_seq_msg m i a)"
  unfolding create_create_seq_msg_def new_offer_def by (intro rules)

lemma k_create_seq_res_process: "keeps P (create_seq_res_process_in_msg m)"
  unfolding create_seq_res_process_in_msg_def establish_outgoing_def name_outgoing_def
    accept_offered_def take_offered_def store_offered_def
  by (intro rules k_activated k_create_create_seq)

lemma k_in_handler: "keeps P (in_handler_invoke m)"
proof -
  have "keeps P (msg_processor_process_in_msg p m')" for p m'
    unfolding msg_processor_process_in_msg_def
    by (cases p; simp only: msg_processor.case; intro k_return k_create_seq_process k_terminate_process
        k_responses k_app_process k_create_seq_res_process k_close_process k_make_connection)
  then show ?thesis
    unfolding in_handler_invoke_def handle_incoming_def process_by_type_def drop_if_duplicate_def
      drop_app_msg_def list_empty_msg_def
    by (intro rules k_return k_ack_process k_dropped)
qed

lemma k_receive: "keeps P (receive_flow m)" "keeps P (engine_receive m)"
  "keeps P process_create_seq_response" "keeps P process_app_msg_response"
proof -
  show f: "keeps P (receive_flow m)" for m
    unfolding receive_flow_def global_in_handler_invoke_def by (intro rules k_in_handler)
  show e: "keeps P (engine_receive m)" for m
    unfolding engine_receive_def by (intro rules f k_return)
  show "keeps P process_create_seq_response" "keeps P process_app_msg_response"
    unfolding process_create_seq_response_def process_app_msg_response_def by (intro rules e k_return)+
qed

subsection \<open>The sending side\<close>

lemma k_start: "keeps P (start_thread t)" "keeps P (start_listener m)" "keeps P (outgoing_sequence i)"
  unfolding start_thread_def start_listener_def separate_listener_def outgoing_sequence_def
  by (intro rules)+

lemma k_transport: "keeps P (transport_sender_invoke msg)"
  unfolding transport_sender_invoke_def by (intro rules)

lemma k_await_create_seq: "keeps P (await_create_seq turns i msg ri b s)"
  by (induction turns arbitrary: b s)
     (simp_all only: await_create_seq.simps, (intro rules k_return k_start k_adjust k_transport k_receive | assumption)+)

lemma k_send_create_seq: "keeps P (send_create_seq_msg turns m i a)"
  unfolding send_create_seq_msg_def dispatch_create_seq_def store_create_seq_def anonymous_addr_def
    create_seq_single_channel_def create_seq_dual_channel_def
  by (intro rules k_return k_start k_create_create_seq k_await_create_seq k_receive)

lemma k_create_seq_worker: "keeps P (create_seq_msg_worker_function turns i ri)"
proof -
  have "keeps P (create_seq_loop turns i msg h ri b)" for msg h b
    by (induction turns arbitrary: b)
       (simp_all only: create_seq_loop.simps, (intro rules k_return k_adjust k_transport | assumption)+)
  then show ?thesis unfolding create_seq_msg_worker_function_def by (intro rules k_return)
qed

lemma k_named_outgoing: "keeps P (named_outgoing turns i)"
proof -
  have "keeps P (wait_outgoing turns i)"
    by (induction turns) (simp_all only: wait_outgoing.simps, (intro rules k_return k_start | assumption)+)
  then show ?thesis unfolding named_outgoing_def by (intro rules k_return k_start)
qed

lemma k_send_in_client: "keeps P (send_in_client turns m i ri sq)"
proof -
  have "keeps P (resend_loop turns m i msg ri b s)" for msg b s
    by (induction turns arbitrary: b s)
       (simp_all only: resend_loop.simps, (intro rules k_return k_adjust k_transport k_receive | assumption)+)
  then show ?thesis
    unfolding send_in_client_def note_sent_def resend_in_client_def
    by (intro rules k_return k_named_outgoing k_piggyback k_receive)
qed

lemma k_send_app_msg: "keeps P (send_app_msg turns m i n key)"
  unfolding send_app_msg_def send_stored_def choose_channel_def send_in_thread_def send_replay_def
    set_last_out_msg_no_def set_msg_no_def is_last_out_msg_def last_on_server_def last_on_client_def anonymous_addr_def
  by (intro rules k_return k_start k_adjust k_send_in_client k_named_outgoing k_add_ack)

lemma k_app_worker: "keeps P (application_msg_worker_function turns i mid ri sq)"
proof -
  have "keeps P (app_msg_loop turns i mid ri h hs msg)" for h hs msg
    unfolding app_resend_def
    by (induction turns)
       (simp_all only: app_msg_loop.simps app_resend_def, (intro rules k_return k_adjust k_transport | assumption)+)
  moreover have "keeps P (await_outgoing turns i h b)" for h b
    by (induction turns arbitrary: b)
       (simp_all only: await_outgoing.simps, (intro rules k_return k_start k_adjust | assumption)+)
  ultimately show ?thesis
    unfolding application_msg_worker_function_def send_from_thread_def
    by (intro rules k_return k_start k_piggyback)
qed

lemma k_app_out: "keeps P (app_process_out_msg turns m)"
  unfolding app_process_out_msg_def server_sequences_def client_sequences_def send_in_sequence_def
    exit_if_timed_out_def assign_msg_number_def get_prev_msg_no_def set_next_msg_no_def set_msg_no_def
    start_sequence_def create_seq_once_def outgoing_acks_to_def server_acks_to_def send_numbered_def
    setup_new_outgoing_sequence_def outgoing_addr_ns_val_def outgoing_reply_to_def
  by (intro rules k_return k_start k_activated k_send_create_seq k_send_app_msg)

lemma k_out_handler: "keeps P (out_handler_invoke turns m)"
proof -
  have "keeps P (close_process_out_msg m')" for m'
    unfolding close_process_out_msg_def close_with_own_msg_def close_with_given_msg_def address_close_def
      fill_close_def create_close_seq_msg_def terminate_last_msg_number_def anonymous_addr_def
      terminate_mgr_process_response_def
    by (intro rules k_return k_receive k_piggyback)
  moreover have "keeps P (terminate_process_out_msg m')" for m'
    unfolding terminate_process_out_msg_def by (intro rules k_piggyback)
  ultimately have "keeps P (msg_processor_process_out_msg turns p m')" for p m'
    unfolding msg_processor_process_out_msg_def create_seq_process_out_msg_def
      terminate_res_process_out_msg_def close_res_process_out_msg_def
    by (cases p; simp only: msg_processor.case; (intro k_return rules k_app_out | assumption)+)
  then show ?thesis
    unfolding out_handler_invoke_def handle_outgoing_def close_client_def
    by (intro rules k_return)
qed

end

section \<open>The environment\<close>

text \<open>What no operation changes: the answers to come and the configuration.\<close>

definition environment_is :: "world \<Rightarrow> world \<Rightarrow> bool" where
  "environment_is u w \<longleftrightarrow> w_conf w = w_conf u \<and> w_replies w = w_replies u \<and> w_others w = w_others u
     \<and> w_db w = w_db u \<and> w_engine w = w_engine u \<and> w_clock w = w_clock u \<and> w_uuids w = w_uuids u"

interpretation environment: kept "environment_is u" for u
  by unfold_locales
    (simp_all add: keeps_def environment_is_def sender_insert_def sender_update_def sender_remove_def
      create_seq_insert_def create_seq_update_def create_seq_remove_def next_msg_insert_def next_msg_remove_def
      invoker_insert_def store_msg_ctx_def update_msg_ctx_def remove_msg_ctx_def seq_prop_insert_def
      seq_prop_update_def seq_prop_remove_def emit_def engine_send_def engine_send_fault_def
      engine_send_stored_def engine_send_of_fault_def engine_resume_send_def axis2_sleep_def put_tables_def
      undefined_behaviour_def Let_def split: option.split prod.split)

lemma environment_refl [simp]: "environment_is w w"
  by (simp add: environment_is_def)

lemma environment_trans: "environment_is u v \<Longrightarrow> environment_is v w \<Longrightarrow> environment_is u w"
  by (simp add: environment_is_def)

lemma environment_ready: "environment_is u w \<Longrightarrow> ready w = ready u"
  by (simp add: environment_is_def ready_def)

text \<open>The operations of the tables send nothing.\<close>

interpretation silent: quiet "\<lambda>w. w_trace w = tr" for tr
  by unfold_locales
    (simp_all add: keeps_def sender_insert_def sender_update_def sender_remove_def
      create_seq_insert_def create_seq_update_def create_seq_remove_def next_msg_insert_def next_msg_remove_def
      invoker_insert_def store_msg_ctx_def update_msg_ctx_def remove_msg_ctx_def seq_prop_insert_def
      seq_prop_update_def seq_prop_remove_def undefined_behaviour_def Let_def split: option.split)

section \<open>The keys of the tables\<close>

text \<open>
  The type invariant of the database: in the tables with a primary key no two rows have the same
  key, and every sequence property has its name in its key.  Other threads and processes run the
  same code, so what they leave has it too.
\<close>

definition tables_ok :: "db_tables \<Rightarrow> bool" where
  "tables_ok ts = (case ts of (s, n, c, i, p, m, r) \<Rightarrow>
     sender_ok s \<and> next_msg_ok n \<and> create_seq_ok c \<and> pk_ok ir_msg_ctx_ref_key i \<and> msg_store_ok m)"

definition others_ok :: "(nat \<Rightarrow> db_tables \<Rightarrow> db_tables) \<Rightarrow> bool" where
  "others_ok others \<longleftrightarrow> (\<forall>k ts. tables_ok ts \<longrightarrow> tables_ok (others k ts))"

definition keys_kept :: "world \<Rightarrow> bool" where
  "keys_kept w \<longleftrightarrow> tables_ok (tables_of w) \<and> others_ok (w_others w)"

lemma keys_kept_iff:
  "keys_kept w \<longleftrightarrow> sender_ok (w_sender w) \<and> next_msg_ok (w_next_msg w) \<and> create_seq_ok (w_create_seq w)
     \<and> pk_ok ir_msg_ctx_ref_key (w_invoker w) \<and> msg_store_ok (w_msg w) \<and> others_ok (w_others w)"
  by (auto simp: keys_kept_def tables_ok_def tables_of_def)

lemma pk_write:
  assumes "pk_ok pk t"
  shows "pk_ok pk (fst (db_write e (sql_insert_pk pk v) t))"
    and "pk v = k \<Longrightarrow> pk_ok pk (fst (db_write e (sql_update (\<lambda>r. pk r = k) (\<lambda>_. v)) t))"
    and "pk_ok pk (fst (db_write e (sql_delete c) t))"
proof -
  show "pk_ok pk (fst (db_write e (sql_insert_pk pk v) t))"
    using fst_db_write[of e "sql_insert_pk pk v" t] assms pk_ok_row_ops(1)[of pk t v]
    by (auto simp: sql_insert_pk_def row_ins_def list_ex_pk split: if_splits)
  show "pk v = k \<Longrightarrow> pk_ok pk (fst (db_write e (sql_update (\<lambda>r. pk r = k) (\<lambda>_. v)) t))"
    using fst_db_write[of e "sql_update (\<lambda>r. pk r = pk v) (\<lambda>_. v)" t] assms pk_ok_row_ops(3)[of pk t v]
    by (auto simp: sql_update_def row_upd_def)
  have "pk_ok pk (filter c t)" for c using assms by (simp add: pk_ok_def distinct_map_filter)
  then show "pk_ok pk (fst (db_write e (sql_delete c) t))"
    using fst_db_write[of e "sql_delete c" t] assms by (elim disjE) (simp_all add: sql_delete_def, metis)
qed

lemmas key_writes = sender_insert_def sender_update_def sender_remove_def create_seq_insert_def
  create_seq_update_def create_seq_remove_def next_msg_insert_def next_msg_remove_def invoker_insert_def
  store_msg_ctx_def update_msg_ctx_def remove_msg_ctx_def
  sender_mgr_insert_def sender_mgr_remove_def sender_update_sql create_seq_mgr_insert_def
  create_seq_mgr_remove_def create_seq_update_sql next_msg_mgr_insert_def next_msg_mgr_remove_def
  invoker_mgr_insert_def insert_msg_store_bean_def msg_store_update_sql remove_msg_store_bean_def

lemma tables_of_put [simp]: "tables_of (put_tables ts w) = ts" "w_others (put_tables ts w) = w_others w"
  by (simp_all add: tables_of_def put_tables_def split: prod.split)

lemma keys_sleep: "keeps keys_kept (axis2_sleep i)"
proof (rule keepsI)
  fix w
  have "tables_of (tick v) = tables_of v" for v by (simp add: tables_of_def)
  moreover have "tables_ok ts \<Longrightarrow> others_ok os \<Longrightarrow> tables_ok (os k ts)" for ts os k
    by (simp only: others_ok_def)
  ultimately show "keys_kept w \<Longrightarrow> keys_kept (snd (run_state (axis2_sleep i) w))"
    by (simp add: keys_kept_def axis2_sleep_def)
qed

interpretation keys: kept keys_kept
  by unfold_locales
    (rule keys_sleep | (simp add: keeps_def keys_kept_iff key_writes bean_mgr_eqs pk_write Let_def
      seq_prop_insert_def seq_prop_update_def seq_prop_remove_def emit_def engine_send_def
      engine_send_fault_def engine_send_stored_def engine_send_of_fault_def engine_resume_send_def
      undefined_behaviour_def split: option.split))+

section \<open>The whole module\<close>

text \<open>
  A process that runs the module: messages come in and go out, the worker threads run, time goes
  by, and others change the tables.  Whatever the database answers is possible.
\<close>

inductive system :: "world \<Rightarrow> world \<Rightarrow> bool" for w where
  start: "system w w"
| received: "system w v \<Longrightarrow> system w (snd (run_state (receive_flow m) v))"
| sent: "system w v \<Longrightarrow> system w (snd (run_state (out_handler_invoke turns m) v))"
| creating: "system w v \<Longrightarrow> system w (snd (run_state (create_seq_msg_worker_function turns i interval) v))"
| resending: "system w v \<Longrightarrow>
    system w (snd (run_state (application_msg_worker_function turns i msg_id interval sq) v))"
| beside: "system w v \<Longrightarrow> tables_ok ts \<Longrightarrow> system w (put_tables ts v)"
| environment: "system w v \<Longrightarrow> others_ok others \<Longrightarrow>
    system w (v\<lparr>w_db := db, w_clock := clock, w_uuids := uuids, w_engine := engine, w_replies := replies,
                w_others := others, w_conf := cf\<rparr>)"

text \<open>The primary keys of the tables stay unique while messages come in and go out, in whatever order
  and however their handling is interrupted by a database that fails.  This rests on SQLite, which
  refuses an insertion with a key that is there, and on the others that share the database keeping the keys
  unique; it is what the premises \<open>sender_ok\<close>, \<open>create_seq_ok\<close> and their like of other
  theorems may be discharged with.\<close>

theorem keys_stay_unique:
  assumes "system w v" "tables_ok (tables_of w)" "others_ok (w_others w)"
  shows "tables_ok (tables_of v)"
proof -
  have "keys_kept v"
    using assms(1)
  proof induction
    case start
    then show ?case using assms(2,3) by (simp add: keys_kept_def)
  next
    case (beside v ts)
    then show ?case by (simp add: keys_kept_def)
  next
    case (environment v others db clock uuids engine replies cf)
    then show ?case by (simp add: keys_kept_def tables_of_def)
  qed (rule keepsD[OF keys.k_receive(1)] keepsD[OF keys.k_out_handler] keepsD[OF keys.k_create_seq_worker]
        keepsD[OF keys.k_app_worker], assumption)+
  then show ?thesis by (simp add: keys_kept_def)
qed

theorem keys_stay_unique_witness:
  "tables_ok (tables_of (snd (run_state (out_handler_invoke 3 (sample_msg\<lparr>rm_server_side := False\<rparr>)) idle_world)))"
proof -
  have "tables_ok (tables_of idle_world)" "others_ok (w_others idle_world)"
    by (simp_all add: tables_ok_def tables_of_def others_ok_def idle_world_def)
  then show ?thesis
    using keys_stay_unique[OF system.sent[OF system.start]] by blast
qed

end
