(* ===== verification/Sending.thy ===== *)
theory Sending
  imports Keeping Received_Numbers
begin

text \<open>
  Properties of the sending side: the numbers that are given out, the loops that wait for the
  other side, and what a sequence that was given up does to the client.
\<close>

section \<open>Message numbers\<close>

text \<open>The number of the last message, as the code reads it: below zero when there is none.\<close>

definition last_number :: "world \<Rightarrow> string \<Rightarrow> int" where
  "last_number w i = (case prop_value w i SEQ_PROP_NEXT_MESSAGE_NUMBER of None \<Rightarrow> -1 | Some v \<Rightarrow> atol v)"

definition is_dummy :: "rm_msg \<Rightarrow> bool" where
  "is_dummy m \<longleftrightarrow> rm_dummy m = Some AXIS2_VALUE_TRUE"

text \<open>A number the client chose is refused when it is not above zero and above the last one.\<close>

definition refused_number :: "rm_msg \<Rightarrow> int \<Rightarrow> bool" where
  "refused_number m prev \<longleftrightarrow> (case rm_client_msg_no m of None \<Rightarrow> False | Some n \<Rightarrow> n \<le> 0 \<or> n \<le> prev)"

lemma last_number_pvals: "last_number w i = (case pvals (w_seq_prop w) i SEQ_PROP_NEXT_MESSAGE_NUMBER of None \<Rightarrow> -1 | Some v \<Rightarrow> atol v)"
  by (simp add: last_number_def prop_value_pvals)

lemma run_get_prev_msg_no:
  assumes "ready w"
  shows "run_state (get_prev_msg_no (Some i)) w = (last_number w i, tick w)"
  using assms by (simp add: get_prev_msg_no_def is_null_simps exec_simps last_number_def prop_value_pvals pvals_def)

lemma run_set_next_msg_no:
  assumes "ready w" "props_ok (w_seq_prop w)" "0 < n"
  shows "run_state (set_next_msg_no (Some i) n) w
     = (Inr AXIS2_SUCCESS, tick (tick (w\<lparr>w_seq_prop :=
          prop_put i SEQ_PROP_NEXT_MESSAGE_NUMBER (sprintf_ld n) (w_seq_prop w)\<rparr>)))"
  using assms
  by (simp add: set_next_msg_no_def set_msg_no_def is_null_simps exec_simps Let_def
      seq_property_bean_create_def tick_def)

lemma number_names [simp]:
  "SEQ_PROP_NEXT_MESSAGE_NUMBER \<noteq> SEQ_PROP_HIGHEST_OUT_MSG_NUMBER"
  "SEQ_PROP_HIGHEST_OUT_MSG_NUMBER \<noteq> SEQ_PROP_NEXT_MESSAGE_NUMBER"
  by (simp_all add: prop_names)

lemma run_assign_refused:
  assumes "ready w" "refused_number m (last_number w i)"
  shows "run_state (assign_msg_number m (Some i)) w = (Inl ERROR_INVALID_MSG_NUM, w)
     \<or> run_state (assign_msg_number m (Some i)) w = (Inl ERROR_INVALID_MSG_NUM, tick w)"
proof (cases "rm_client_msg_no m")
  case (Some n)
  then show ?thesis
    using assms by (cases "n \<le> 0") (simp_all add: refused_number_def assign_msg_number_def run_get_prev_msg_no)
qed (use assms in \<open>simp add: refused_number_def\<close>)

lemma run_assign:
  assumes "ready w" "props_ok (w_seq_prop w)" "\<not> refused_number m (last_number w i)"
  defines "n \<equiv> outgoing_msg_number (rm_client_msg_no m) (last_number w i)"
  shows "\<exists>v. run_state (assign_msg_number m (Some i)) w = (Inr n, v) \<and> props_run w v
     \<and> last_number w i < n \<and> 0 < n
     \<and> last_number v i = (if is_dummy m then last_number w i else n)
     \<and> (\<forall>q a. colon_free a \<longrightarrow> pvals (w_seq_prop v) q a =
          (if q = i \<and> a = SEQ_PROP_HIGHEST_OUT_MSG_NUMBER \<or> q = i \<and> a = SEQ_PROP_NEXT_MESSAGE_NUMBER \<and> \<not> is_dummy m
           then Some (sprintf_ld n) else pvals (w_seq_prop w) q a))"
proof -
  have n: "last_number w i < n" "0 < n"
    using assms(3) by (auto simp: n_def outgoing_msg_number_def refused_number_def split: option.splits)
  let ?u = "if is_dummy m then tick w else tick (tick (tick (w\<lparr>w_seq_prop :=
          prop_put i SEQ_PROP_NEXT_MESSAGE_NUMBER (sprintf_ld n) (w_seq_prop w)\<rparr>)))"
  have u: "ready ?u" "props_ok (w_seq_prop ?u)" using assms(1,2) by auto
  obtain v where v: "run_state (insert_or_update True (prop_bean (Some i) SEQ_PROP_HIGHEST_OUT_MSG_NUMBER (Some (sprintf_ld n)))) ?u = (True, v)"
    "props_run ?u v"
    "\<forall>q a. colon_free a \<longrightarrow> pvals (w_seq_prop v) q a = (if q = i \<and> a = SEQ_PROP_HIGHEST_OUT_MSG_NUMBER
       then Some (sprintf_ld n) else pvals (w_seq_prop ?u) q a)"
    using run_put[OF u, of SEQ_PROP_HIGHEST_OUT_MSG_NUMBER True i "Some (sprintf_ld n)"] by auto
  have "run_state (assign_msg_number m (Some i)) w = (Inr n, v)"
    using assms(1-3) v(1) n(2)
    by (cases "rm_client_msg_no m")
       (auto simp: assign_msg_number_def refused_number_def run_get_prev_msg_no run_set_next_msg_no Let_def
          is_dummy_def insert_or_update_def tick_def n_def outgoing_msg_number_def)
  moreover have "props_run w v" using v(2) assms(2) by (auto simp: props_run_def split: if_splits)
  moreover have "pvals (w_seq_prop ?u) q a = (if q = i \<and> a = SEQ_PROP_NEXT_MESSAGE_NUMBER \<and> \<not> is_dummy m
           then Some (sprintf_ld n) else pvals (w_seq_prop w) q a)" if "colon_free a" for q a
    using that by (simp add: pvals_prop_put)
  moreover have "last_number v i = (if is_dummy m then last_number w i else n)"
    using v(3) by (simp add: last_number_pvals pvals_prop_put atol_sprintf_ld)
  ultimately show ?thesis using n v(3) by (intro exI[of _ v]) auto
qed

text \<open>The numbers that a series of messages of one sequence gets, without the dummies.\<close>

fun numbers_given :: "string \<Rightarrow> rm_msg list \<Rightarrow> int list proc" where
  "numbers_given i [] = ret []"
| "numbers_given i (m # ms) = do {
     assigned \<leftarrow> assign_msg_number m (Some i);
     ns \<leftarrow> numbers_given i ms;
     ret (case assigned of Inl _ \<Rightarrow> ns | Inr n \<Rightarrow> if is_dummy m then ns else n # ns)
   }"

lemma assign_step:
  assumes "ready w" "props_ok (w_seq_prop w)"
  obtains r v where "run_state (assign_msg_number m (Some i)) w = (r, v)" "ready v" "props_ok (w_seq_prop v)"
    "case r of Inl _ \<Rightarrow> refused_number m (last_number w i) \<and> last_number v i = last_number w i
     | Inr n \<Rightarrow> n = outgoing_msg_number (rm_client_msg_no m) (last_number w i) \<and> last_number w i < n \<and> 0 < n
         \<and> last_number v i = (if is_dummy m then last_number w i else n)"
proof (cases "refused_number m (last_number w i)")
  case True
  have l: "last_number (tick w) i = last_number w i" by (simp add: last_number_pvals)
  from run_assign_refused[OF assms(1) True] show thesis
  proof
    assume "run_state (assign_msg_number m (Some i)) w = (Inl ERROR_INVALID_MSG_NUM, w)"
    then show thesis by (rule that) (use assms True in simp_all)
  next
    assume "run_state (assign_msg_number m (Some i)) w = (Inl ERROR_INVALID_MSG_NUM, tick w)"
    then show thesis by (rule that) (use assms True l in simp_all)
  qed
next
  case False
  let ?n = "outgoing_msg_number (rm_client_msg_no m) (last_number w i)"
  obtain v where v: "run_state (assign_msg_number m (Some i)) w = (Inr ?n, v)" "props_run w v"
    "last_number w i < ?n" "0 < ?n" "last_number v i = (if is_dummy m then last_number w i else ?n)"
    using run_assign[OF assms False] by blast
  then have "ready v" "props_ok (w_seq_prop v)" using assms(1) by (simp_all add: props_run_ready) (simp add: props_run_def)
  then show thesis using that[OF v(1)] v by simp
qed

text \<open>C6: The numbers given to the messages of a sequence are positive and increase strictly, whatever
  numbers the client asks for and however dummies are mixed in.\<close>

theorem numbers_increase:
  assumes "ready w" "props_ok (w_seq_prop w)"
  shows "sorted_wrt (<) (fst (run_state (numbers_given i ms) w))
     \<and> (\<forall>n \<in> set (fst (run_state (numbers_given i ms) w)). 0 < n \<and> last_number w i < n)"
  using assms
proof (induction ms arbitrary: w)
  case (Cons m ms)
  obtain r v where a: "run_state (assign_msg_number m (Some i)) w = (r, v)" "ready v" "props_ok (w_seq_prop v)"
    "case r of Inl _ \<Rightarrow> refused_number m (last_number w i) \<and> last_number v i = last_number w i
     | Inr n \<Rightarrow> n = outgoing_msg_number (rm_client_msg_no m) (last_number w i) \<and> last_number w i < n \<and> 0 < n
       \<and> last_number v i = (if is_dummy m then last_number w i else n)"
    using assign_step[OF Cons.prems] by blast
  show ?case using a Cons.IH[OF a(2,3)]
    by (cases "run_state (numbers_given i ms) v"; cases r) (auto split: if_splits)
qed simp

theorem numbers_increase_witness:
  "let ns = fst (run_state (numbers_given ''i'' [sample_msg, sample_msg\<lparr>rm_client_msg_no := Some 5\<rparr>,
        sample_msg\<lparr>rm_client_msg_no := Some 3\<rparr>, sample_msg]) idle_world)
   in sorted_wrt (<) ns \<and> (\<forall>n \<in> set ns. 0 < n)"
  using numbers_increase[of idle_world "''i''" "[sample_msg, sample_msg\<lparr>rm_client_msg_no := Some 5\<rparr>,
        sample_msg\<lparr>rm_client_msg_no := Some 3\<rparr>, sample_msg]"]
  by (simp add: props_ok_def Let_def del: numbers_given.simps)

text \<open>C28: Without a number of the client's, the messages of a sequence are numbered one after the other,
  from one above the last, or from 1.\<close>

theorem numbers_consecutive:
  assumes "ready w" "props_ok (w_seq_prop w)" "list_all (\<lambda>m. rm_client_msg_no m = None \<and> \<not> is_dummy m) ms"
  shows "fst (run_state (numbers_given i ms) w)
    = map (\<lambda>k. max 0 (last_number w i) + 1 + int k) [0..<length ms]"
  using assms
proof (induction ms arbitrary: w)
  case (Cons m ms)
  obtain r v where a: "run_state (assign_msg_number m (Some i)) w = (r, v)" "ready v" "props_ok (w_seq_prop v)"
    "case r of Inl _ \<Rightarrow> refused_number m (last_number w i) \<and> last_number v i = last_number w i
     | Inr n \<Rightarrow> n = outgoing_msg_number (rm_client_msg_no m) (last_number w i) \<and> last_number w i < n \<and> 0 < n
       \<and> last_number v i = (if is_dummy m then last_number w i else n)"
    using assign_step[OF Cons.prems(1,2)] by blast
  have m: "rm_client_msg_no m = None" "\<not> is_dummy m" using Cons.prems(3) by simp_all
  then have r: "r = Inr (max 0 (last_number w i) + 1)" "last_number v i = max 0 (last_number w i) + 1"
    using a(4) by (auto simp: refused_number_def outgoing_msg_number_def split: sum.splits)
  have "fst (run_state (numbers_given i (m # ms)) w)
      = (max 0 (last_number w i) + 1) # fst (run_state (numbers_given i ms) v)"
    using a(1) r m by (cases "run_state (numbers_given i ms) v") simp
  also have "fst (run_state (numbers_given i ms) v)
      = map (\<lambda>k. max 0 (last_number w i) + 1 + int k) (map Suc [0..<length ms])"
    using Cons.IH[OF a(2,3)] Cons.prems(3) r(2) by (simp add: max_def)
  finally show ?case by (simp add: upt_conv_Cons map_Suc_upt del: upt_Suc)
qed simp

theorem numbers_consecutive_witness:
  "fst (run_state (numbers_given ''i'' [sample_msg, sample_msg, sample_msg]) idle_world) = [1, 2, 3]"
proof -
  have "last_number idle_world ''i'' = -1"
    by (simp add: last_number_def prop_value_def seq_property_look_def)
  then show ?thesis
    using numbers_consecutive[of idle_world "[sample_msg, sample_msg, sample_msg]" "''i''"]
    by (simp add: props_ok_def sample_msg_def is_dummy_def upt_rec del: numbers_given.simps)
qed


section \<open>Waiting for the other side\<close>

text \<open>How often a message was handed to the transport.\<close>

definition transmissions :: "world \<Rightarrow> nat" where
  "transmissions w = length (filter (\<lambda>ev. case ev of Transport_Send _ \<Rightarrow> True | _ \<Rightarrow> False) (w_trace w))"

text \<open>The adjuster counts the attempt and allows no more than the policy does; it sends nothing.\<close>

lemma adjust_counts:
  assumes "sb_msg_ctx_ref_key b \<noteq> None" "cf_property_bean (w_conf w) = Some pb"
  obtains b' go v where "run_state (adjust_retrans b True) w = ((b', go), v)"
    "sb_sent_count b' = sb_sent_count b + 1" "sb_msg_ctx_ref_key b' = sb_msg_ctx_ref_key b"
    "go \<Longrightarrow> 0 < pb_max_retrans_count pb \<Longrightarrow> sb_sent_count b' \<le> pb_max_retrans_count pb"
    "environment_is w v" "w_trace v = w_trace w"
proof -
  obtain key where k: "sb_msg_ctx_ref_key b = Some key" using assms(1) by blast
  have f: "environment_is w (snd (run_state (adjust_retrans b True) w))"
    "w_trace (snd (run_state (adjust_retrans b True) w)) = w_trace w"
    using keepsD[OF environment.k_adjust environment_refl] keepsD[OF silent.k_adjust refl] by auto
  obtain t u where t: "run_state (has_seq_timedout (sb_internal_seq_id b) True) w = (t, u)" by fastforce
  obtain b' go v where r: "run_state (adjust_retrans b True) w = ((b', go), v)" by (metis surj_pair)
  obtain z y where fin: "run_state (finalize_timedout_seq (sb_internal_seq_id b)) u = (z, y)" by fastforce
  have "sb_sent_count b' = sb_sent_count b + 1 \<and> sb_msg_ctx_ref_key b' = Some key
     \<and> (go \<and> 0 < pb_max_retrans_count pb \<longrightarrow> sb_sent_count b' \<le> pb_max_retrans_count pb)"
  proof (cases "0 < pb_max_retrans_count pb \<and> pb_max_retrans_count pb < sb_sent_count b + 1 \<or> t")
    case True
    then show ?thesis using r assms(2) k t fin
      by (auto simp add: adjust_retrans_def is_null_simps exec_simps Let_def)
  next
    case False
    then show ?thesis using r assms(2) k t
      by (auto simp: adjust_retrans_def is_null_simps exec_simps Let_def split: if_splits)
  qed
  then show thesis using that[OF r] f r k by auto
qed

lemma transmissions_simps [simp]:
  "transmissions (tick w) = transmissions w"
  "transmissions (w\<lparr>w_trace := w_trace w @ [Transport_Send msg]\<rparr>) = Suc (transmissions w)"
  by (simp_all add: transmissions_def)

lemma silent_steps:
  "w_trace (snd (run_state (sender_update b) w)) = w_trace w"
  "w_trace (snd (run_state (axis2_sleep n) w)) = w_trace w"
  "w_trace (snd (run_state (outgoing_sequence i) w)) = w_trace w"
  using keepsD[OF silent.on_sender(2) refl, of b w] keepsD[OF silent.keeps_asking(3) refl, of i "Some SEQ_PROP_OUTGOING_SEQUENCE_ID" w]
  by (simp_all add: axis2_sleep_def put_tables_def outgoing_sequence_def split: prod.split)

lemma environment_steps:
  "environment_is u w \<Longrightarrow> environment_is u (snd (run_state (sender_update b) w))"
  "environment_is u w \<Longrightarrow> environment_is u (snd (run_state (axis2_sleep n) w))"
  "environment_is u w \<Longrightarrow> environment_is u (snd (run_state (outgoing_sequence i) w))"
  "environment_is u w \<Longrightarrow> environment_is u (snd (run_state (transport_sender_invoke msg) w))"
  by (rule keepsD[OF environment.on_sender(2)] keepsD[OF environment.on_sleep]
      keepsD[OF environment.k_start(3)] keepsD[OF environment.k_transport]; assumption)+

text \<open>One more transmission: a turn of the loop that found the sequence unnamed and may go on.\<close>

lemma run_transport: "run_state (transport_sender_invoke msg) w = ((), w\<lparr>w_trace := w_trace w @ [Transport_Send msg]\<rparr>)"
  by (simp add: transport_sender_invoke_def exec_simps)

lemma no_reply: "\<forall>k. w_replies w k = None \<Longrightarrow> run_state process_create_seq_response w = (Some AXIS2_SUCCESS, tick w)"
  by (simp add: process_create_seq_response_def done_with_def exec_simps)

lemma run_on_return: "run_state (on_return c f) w = (case run_state c w of (None, v) \<Rightarrow> (None, v) | (Some x, v) \<Rightarrow> run_state (f x) v)"
  by (auto simp: on_return_def split: prod.split option.split)

lemma create_seq_turn:
  assumes "\<forall>k. w_replies w k = None" "cf_property_bean (w_conf w) = Some pb" "sb_msg_ctx_ref_key b \<noteq> None"
  shows "(\<exists>s v. run_state (await_create_seq (Suc turns) i msg ri b status) w = (Some s, v) \<and> transmissions v = transmissions w)
     \<or> (\<exists>b' v. run_state (await_create_seq (Suc turns) i msg ri b status) w
            = run_state (await_create_seq turns i msg ri b' AXIS2_SUCCESS) v
          \<and> environment_is w v \<and> transmissions v = Suc (transmissions w)
          \<and> sb_sent_count b' = sb_sent_count b + 1 \<and> sb_msg_ctx_ref_key b' = sb_msg_ctx_ref_key b
          \<and> (0 < pb_max_retrans_count pb \<longrightarrow> sb_sent_count b' \<le> pb_max_retrans_count pb))"
proof -
  obtain rms w1 where 1: "run_state (outgoing_sequence i) w = (rms, w1)" by fastforce
  have e1: "environment_is w w1" "transmissions w1 = transmissions w"
    using environment_steps(3)[of w w i] silent_steps(3)[of i w] 1 by (simp_all add: transmissions_def)
  show ?thesis
  proof (cases rms)
    case (Some x)
    then show ?thesis using 1 e1 by (intro disjI1 exI[of _ status] exI[of _ w1]) (simp add: done_with_def is_null_simps)
  next
    case None
    have "cf_property_bean (w_conf w1) = Some pb" using e1 assms(2) by (simp add: environment_is_def)
    then obtain b' go w2 where 2: "run_state (adjust_retrans b True) w1 = ((b', go), w2)"
      "sb_sent_count b' = sb_sent_count b + 1" "sb_msg_ctx_ref_key b' = sb_msg_ctx_ref_key b"
      "go \<Longrightarrow> 0 < pb_max_retrans_count pb \<Longrightarrow> sb_sent_count b' \<le> pb_max_retrans_count pb"
      "environment_is w1 w2" "w_trace w2 = w_trace w1"
      using adjust_counts[OF assms(3), of w1 pb] by blast
    obtain ok w3 where 3: "run_state (sender_update b') w2 = (ok, w3)" by fastforce
    have e3: "environment_is w w3" "transmissions w3 = transmissions w"
      using environment_steps(1)[OF environment_trans[OF e1(1) 2(5)], of b'] silent_steps(1)[of b' w2] 3 2(6) e1(2)
      by (simp_all add: transmissions_def)
    show ?thesis
    proof (cases go)
      case False
      then show ?thesis using 1 2(1) 3 e3 None
        by (intro disjI1 exI[of _ AXIS2_FAILURE] exI[of _ w3]) (simp add: done_with_def is_null_simps)
    next
      case True
      obtain w4 where 4: "run_state (axis2_sleep ri) w3 = ((), w4)" by (simp add: axis2_sleep_def)
      let ?w5 = "w4\<lparr>w_trace := w_trace w4 @ [Transport_Send msg]\<rparr>"
      have e4: "environment_is w w4" "transmissions w4 = transmissions w"
        using environment_steps(2)[OF e3(1), of ri] silent_steps(2)[of ri w3] 4 e3(2)
        by (simp_all add: transmissions_def)
      then have "\<forall>k. w_replies ?w5 k = None" using assms(1) by (simp add: environment_is_def)
      then have "run_state (await_create_seq (Suc turns) i msg ri b status) w
          = run_state (await_create_seq turns i msg ri b' AXIS2_SUCCESS) (tick ?w5)"
        using 1 2(1) 3 4 None True
        by (simp add: done_with_def is_null_simps run_transport run_on_return no_reply)
      moreover have "environment_is w (tick ?w5)" "transmissions (tick ?w5) = Suc (transmissions w)"
        using e4 by (simp_all add: environment_is_def)
      ultimately show ?thesis using 2(2-4) True by blast
    qed
  qed
qed

text \<open>C16: When the peer never answers a CreateSequence message and the policy limits the attempts, the
  client gives up: the loop ends by itself, whatever the database answers, after it has sent the message
  no more often than the policy allows.\<close>

theorem create_seq_gives_up:
  assumes "\<forall>k. w_replies w k = None" "cf_property_bean (w_conf w) = Some pb" "sb_msg_ctx_ref_key b \<noteq> None"
    and "0 < pb_max_retrans_count pb" "pb_max_retrans_count pb - sb_sent_count b < int turns" "0 < turns"
  shows "\<exists>s v. run_state (await_create_seq turns i msg ri b status) w = (Some s, v)
     \<and> int (transmissions v) \<le> int (transmissions w) + max 0 (pb_max_retrans_count pb - sb_sent_count b)"
  using assms
proof (induction turns arbitrary: b status w)
  case (Suc turns)
  from create_seq_turn[OF Suc.prems(1-3), of turns i msg ri status] show ?case
  proof (elim disjE exE conjE)
    fix b' v
    assume v: "run_state (await_create_seq (Suc turns) i msg ri b status) w
            = run_state (await_create_seq turns i msg ri b' AXIS2_SUCCESS) v"
      "environment_is w v" "transmissions v = Suc (transmissions w)"
      "sb_sent_count b' = sb_sent_count b + 1" "sb_msg_ctx_ref_key b' = sb_msg_ctx_ref_key b"
      "0 < pb_max_retrans_count pb \<longrightarrow> sb_sent_count b' \<le> pb_max_retrans_count pb"
    have "\<forall>k. w_replies v k = None" "cf_property_bean (w_conf v) = Some pb"
      using v(2) Suc.prems(1,2) by (simp_all add: environment_is_def)
    moreover have "pb_max_retrans_count pb - sb_sent_count b' < int turns" "0 < turns"
      using v(4,6) Suc.prems(4,5) by auto
    ultimately obtain s u where "run_state (await_create_seq turns i msg ri b' AXIS2_SUCCESS) v = (Some s, u)"
      "int (transmissions u) \<le> int (transmissions v) + max 0 (pb_max_retrans_count pb - sb_sent_count b')"
      using Suc.IH[of v b' AXIS2_SUCCESS] v(5) Suc.prems(3,4) by auto
    then show ?thesis using v Suc.prems(4) by auto
  qed auto
qed simp

theorem create_seq_gives_up_witness:
  "\<exists>s v. run_state (await_create_seq 12 (Some ''i'') (new_out_msg MSG_TYPE_CREATE_SEQ) 20
        (create_seq_sender_bean ''k'' 0 (Some ''m'') (Some ''i'')) AXIS2_FAILURE) idle_world = (Some s, v)
     \<and> transmissions v \<le> 11"
proof -
  have "cf_property_bean (w_conf idle_world) = Some (the (cf_property_bean sample_conf))"
    "pb_max_retrans_count (the (cf_property_bean sample_conf)) = 10"
    "w_replies idle_world k = None" "transmissions idle_world = 0" for k
    by (simp_all add: sample_conf_def idle_world_def transmissions_def)
  then show ?thesis
    using create_seq_gives_up[of idle_world "the (cf_property_bean sample_conf)"
        "create_seq_sender_bean ''k'' 0 (Some ''m'') (Some ''i'')" 12 "Some ''i''"
        "new_out_msg MSG_TYPE_CREATE_SEQ" 20 AXIS2_FAILURE]
    by (auto simp: create_seq_sender_bean_def sender_bean_create_def)
qed

lemma sleep_alone: "w_others w (w_tick w) = (\<lambda>ts. ts) \<Longrightarrow> run_state (axis2_sleep n) w = ((), tick w)"
  by (simp add: axis2_sleep_def tables_of_def put_tables_def)

text \<open>C17: Without a limit of attempts and without a time-out the client never gives up: as long as the peer does
  not answer and nobody names the sequence, the loop sends the message in every turn and does not
  return, however long it runs.\<close>

theorem create_seq_never_gives_up:
  assumes "\<forall>k. w_replies w k = None" "\<forall>k ts. w_others w k ts = ts" "ready w"
    and "cf_property_bean (w_conf w) = Some pb" "pb_max_retrans_count pb \<le> 0" "pb_inactive_timeout_interval pb \<le> 0"
    and "sb_msg_ctx_ref_key b \<noteq> None" "sb_internal_seq_id b = Some i"
    and "seq_property_look (w_seq_prop w) (prop_id i SEQ_PROP_OUTGOING_SEQUENCE_ID) = None"
  shows "\<exists>v. run_state (await_create_seq turns (Some i) msg ri b status) w = (None, v)
     \<and> transmissions v = transmissions w + turns"
  using assms
proof (induction turns arbitrary: b status w)
  case (Suc turns)
  obtain key where k: "sb_msg_ctx_ref_key b = Some key" using Suc.prems(7) by blast
  let ?b = "b\<lparr>sb_sent_count := sb_sent_count b + 1\<rparr>"
  have timed: "run_state (has_seq_timedout (Some i) True) (tick w) = (False, tick w)"
    using Suc.prems(4,6) by (simp add: has_seq_timedout_def is_null_simps exec_simps Let_def)
  have adj: "run_state (adjust_retrans b True) (tick w) = ((?b, True), tick w)"
    using timed Suc.prems(4,5,8) k by (simp add: adjust_retrans_def is_null_simps exec_simps Let_def)
  let ?w1 = "tick ((tick w)\<lparr>w_sender := row_upd sr_msg_id (sender_row_of ?b) (w_sender w)\<rparr>)"
  let ?w3 = "tick ((tick ?w1)\<lparr>w_trace := w_trace w @ [Transport_Send msg]\<rparr>)"
  have upd: "run_state (sender_update ?b) (tick w) = (True, ?w1)"
    using Suc.prems(3) by (simp add: exec_simps)
  have sleep: "run_state (axis2_sleep ri) ?w1 = ((), tick ?w1)"
    using Suc.prems(2) by (intro sleep_alone) (simp add: fun_eq_iff)
  have "run_state (await_create_seq (Suc turns) (Some i) msg ri b status) w
      = run_state (await_create_seq turns (Some i) msg ri ?b AXIS2_SUCCESS) ?w3"
    using Suc.prems(1,3,9) adj upd sleep
    by (simp add: outgoing_sequence_def exec_simps is_null_simps run_transport run_on_return no_reply)
  moreover have "transmissions ?w3 = Suc (transmissions w)" by (simp add: transmissions_def)
  moreover have "\<exists>v. run_state (await_create_seq turns (Some i) msg ri ?b AXIS2_SUCCESS) ?w3 = (None, v)
     \<and> transmissions v = transmissions ?w3 + turns"
    using Suc.prems by (intro Suc.IH) simp_all
  ultimately show ?case by auto
qed simp

theorem create_seq_never_gives_up_witness:
  "fst (run_state (await_create_seq 1000 (Some ''i'') (new_out_msg MSG_TYPE_CREATE_SEQ) 20
        (create_seq_sender_bean ''k'' 0 (Some ''m'') (Some ''i'')) AXIS2_FAILURE)
      (idle_world\<lparr>w_conf := sample_conf\<lparr>cf_property_bean := Some property_bean_create\<rparr>\<rparr>)) = None"
proof -
  let ?w = "idle_world\<lparr>w_conf := sample_conf\<lparr>cf_property_bean := Some property_bean_create\<rparr>\<rparr>"
  let ?b = "create_seq_sender_bean ''k'' 0 (Some ''m'') (Some ''i'')"
  have w: "ready ?w" using ready_idle by (simp add: ready_def idle_world_def)
  have "w_replies ?w k = None" "w_others ?w k ts = ts" "w_seq_prop ?w = []" for k ts
    by (simp_all add: idle_world_def)
  moreover have "cf_property_bean (w_conf ?w) = Some property_bean_create" by simp
  moreover have "pb_max_retrans_count property_bean_create \<le> 0" "pb_inactive_timeout_interval property_bean_create \<le> 0"
    by (simp_all add: property_bean_create_def)
  moreover have "sb_msg_ctx_ref_key ?b \<noteq> None" "sb_internal_seq_id ?b = Some ''i''"
    by (simp_all add: create_seq_sender_bean_def sender_bean_create_def)
  ultimately obtain v where "run_state (await_create_seq 1000 (Some ''i'') (new_out_msg MSG_TYPE_CREATE_SEQ) 20 ?b AXIS2_FAILURE) ?w = (None, v)"
    using create_seq_never_gives_up[of ?w property_bean_create ?b "''i''" 1000 "new_out_msg MSG_TYPE_CREATE_SEQ" 20 AXIS2_FAILURE] w
    by (auto simp: seq_property_look_def)
  then show ?thesis by simp
qed

text \<open>C20: The thread of an application message waits for its sequence to be named no longer than a limit
  of attempts allows: every second that it waits counts as an attempt, whatever the retransmission interval is,
  and nothing is sent meanwhile.\<close>

theorem waiting_counts_as_attempts:
  assumes "cf_property_bean (w_conf w) = Some pb" "sb_msg_ctx_ref_key b \<noteq> None"
    and "0 < pb_max_retrans_count pb" "pb_max_retrans_count pb - sb_sent_count b < int turns" "0 < turns"
  shows "\<exists>r v. run_state (await_outgoing turns i True b) w = (Some r, v) \<and> transmissions v = transmissions w"
  using assms
proof (induction turns arbitrary: b w)
  case (Suc turns)
  obtain b' go w2 where 2: "run_state (adjust_retrans b True) w = ((b', go), w2)"
    "sb_sent_count b' = sb_sent_count b + 1" "sb_msg_ctx_ref_key b' = sb_msg_ctx_ref_key b"
    "go \<Longrightarrow> 0 < pb_max_retrans_count pb \<Longrightarrow> sb_sent_count b' \<le> pb_max_retrans_count pb"
    "environment_is w w2" "w_trace w2 = w_trace w"
    using adjust_counts[OF Suc.prems(2,1)] by blast
  obtain ok w3 where 3: "run_state (sender_update b') w2 = (ok, w3)" by fastforce
  obtain rms w4 where 4: "run_state (outgoing_sequence i) w3 = (rms, w4)" by fastforce
  obtain w5 where 5: "run_state (axis2_sleep 1) w4 = ((), w5)" by (simp add: axis2_sleep_def)
  have "environment_is w w3" using environment_steps(1)[OF 2(5), of b'] 3 by simp
  then have "environment_is w w4" using environment_steps(3)[of w w3 i] 4 by simp
  then have e: "environment_is w w5" using environment_steps(2)[of w w4 1] 5 by simp
  have t: "w_trace w3 = w_trace w" "w_trace w5 = w_trace w"
    using silent_steps(1)[of b' w2] silent_steps(3)[of i w3] silent_steps(2)[of 1 w4] 2(6) 3 4 5 by simp_all
  have run: "run_state (await_outgoing (Suc turns) i True b) w
      = (if \<not> go then (Some None, w3)
         else case rms of Some x \<Rightarrow> (Some (Some (sp_value x)), w5) | None \<Rightarrow> run_state (await_outgoing turns i True b') w5)"
    using 2(1) 3 4 5 by (simp add: done_with_def split: option.split)
  show ?case
  proof (cases "go \<and> rms = None")
    case True
    have "cf_property_bean (w_conf w5) = Some pb" using e Suc.prems(1) by (simp add: environment_is_def)
    moreover have "pb_max_retrans_count pb - sb_sent_count b' < int turns" "0 < turns"
      using 2(2,4) True Suc.prems(3,4) by auto
    ultimately show ?thesis
      using Suc.IH[of w5 b'] 2(3) Suc.prems(2,3) run True t(2) by (simp add: transmissions_def)
  next
    case False
    then show ?thesis using run t by (auto simp: transmissions_def split: option.splits)
  qed
qed simp

theorem waiting_counts_as_attempts_witness:
  "\<exists>r v. run_state (await_outgoing 12 (Some ''i'') True
      (app_sender_bean ''k'' 0 (Some ''m'') (Some ''i'') 1)) idle_world = (Some r, v) \<and> transmissions v = 0"
proof -
  have "cf_property_bean (w_conf idle_world) = Some (the (cf_property_bean sample_conf))"
    "pb_max_retrans_count (the (cf_property_bean sample_conf)) = 10" "transmissions idle_world = 0"
    by (simp_all add: sample_conf_def idle_world_def transmissions_def)
  then show ?thesis
    using waiting_counts_as_attempts[of idle_world "the (cf_property_bean sample_conf)"
        "app_sender_bean ''k'' 0 (Some ''m'') (Some ''i'') 1" 12 "Some ''i''"]
    by (simp add: app_sender_bean_def sender_bean_create_def)
qed

section \<open>A sequence that was given up\<close>

interpretation any_rows: received_rows_new "\<lambda>_ _. True"
  by unfold_locales simp_all

lemma adjust_keeps_wf:
  assumes "props_wf (w_seq_prop w)"
  shows "props_wf (w_seq_prop (snd (run_state (adjust_retrans b h) w)))"
proof -
  have k: "keeps (received_frame (\<lambda>_ _. True)) (adjust_retrans b h)"
    unfolding adjust_retrans_def finalize_timedout_seq_def
    by (intro any_rows.rules any_rows.keeps_timedout any_rows.keeps_terminate_side)
  have "received_frame (\<lambda>_ _. True) w" using assms by (simp add: vals_frame_def)
  from keepsD[OF k this] show ?thesis by (simp add: vals_frame_def)
qed

lemma exit_run:
  assumes "ready w" "props_wf (w_seq_prop w)" "prop_value w i SEQ_PROP_SEQ_TIMED_OUT = Some AXIS2_VALUE_TRUE"
  shows "run_state (exit_if_timed_out (Some i)) w
     = (None, (tick (tick w))\<lparr>w_seq_prop := prop_del (prop_id i SEQ_PROP_SEQ_TIMED_OUT) (w_seq_prop w),
                             w_trace := w_trace w @ [Exit_Process]\<rparr>)"
  using assms pvals_look_Some[OF assms(2), of SEQ_PROP_SEQ_TIMED_OUT i]
  by (simp add: exit_if_timed_out_def exec_simps prop_value_pvals tick_def)

text \<open>C21: When the client's sequence was given up, the next message of the application ends the process; the mark is
  taken away first, so that the message after a restart is sent again.\<close>

theorem give_up_then_exit:
  assumes "ready w" "sender_ok (w_sender w)" "create_seq_ok (w_create_seq w)" "props_ok (w_seq_prop w)"
    and "cf_property_bean (w_conf w) = Some pb" "sb_internal_seq_id b = Some i" "sb_msg_ctx_ref_key b \<noteq> None"
    and "prop_value w i SEQ_PROP_OUTGOING_SEQUENCE_ID \<noteq> Some i"
    and "0 < pb_max_retrans_count pb" "pb_max_retrans_count pb \<le> sb_sent_count b"
    and client: "\<not> rm_server_side m" "rm_to m = Some (Some to)" "to \<noteq> ''''" "rm_client_seq_key m = Some key"
      "rm_msg_id m = Some msg_id" "get_client_internal_sequence_id (Some to) (Some key) = Some i"
  shows "\<exists>v u. run_state (adjust_retrans b True) w = ((b\<lparr>sb_sent_count := sb_sent_count b + 1, sb_send := False\<rparr>, False), v)
     \<and> run_state (app_process_out_msg turns m) v = (None, u)
     \<and> w_trace u = w_trace w @ [Exit_Process]
     \<and> prop_value u i SEQ_PROP_SEQ_TIMED_OUT = None
     \<and> w_sender u = filter (\<lambda>r. sr_internal_seq_id r \<noteq> i) (w_sender w)"
proof -
  have up: "0 < pb_max_retrans_count pb \<and> pb_max_retrans_count pb < sb_sent_count b + 1
        \<or> fst (run_state (has_seq_timedout (Some i) True) w)"
    using assms(9,10) by simp
  obtain v where v: "run_state (adjust_retrans b True) w
       = ((b\<lparr>sb_sent_count := sb_sent_count b + 1, sb_send := False\<rparr>, False), v)"
    "w_sender v = filter (\<lambda>r. sr_internal_seq_id r \<noteq> i) (w_sender w)"
    "prop_value v i SEQ_PROP_SEQ_TIMED_OUT = Some AXIS2_VALUE_TRUE"
    using adjust_timed_out[OF assms(1-8) up] by auto
  have "ready v" using keepsD[OF environment.k_adjust environment_refl, of w b True] v(1) assms(1)
    by (simp add: environment_ready)
  moreover have "props_wf (w_seq_prop v)" using adjust_keeps_wf[of w b True] v(1) assms(4) by simp
  ultimately have "run_state (exit_if_timed_out (Some i)) v
     = (None, (tick (tick v))\<lparr>w_seq_prop := prop_del (prop_id i SEQ_PROP_SEQ_TIMED_OUT) (w_seq_prop v),
                             w_trace := w_trace v @ [Exit_Process]\<rparr>)"
    using v(3) by (rule exit_run)
  moreover have "w_trace v = w_trace w" using keepsD[OF silent.k_adjust refl, of b True w] v(1) by simp
  moreover have "m\<lparr>rm_msg_id := Some msg_id, rm_client_seq_key := Some key\<rparr> = m"
    using client by simp
  ultimately show ?thesis using v client
    by (simp add: app_process_out_msg_def no_address_def addr_of_def client_sequences_def send_in_sequence_def
        run_on_return prop_value_pvals pvals_simps)
qed

theorem give_up_then_exit_witness:
  "let i = the (get_client_internal_sequence_id (Some ''to'') (Some ''key''));
       b = (app_sender_bean ''k'' 0 (Some ''m'') (Some i) 1)\<lparr>sb_sent_count := 10\<rparr>;
       m = sample_msg\<lparr>rm_server_side := False, rm_to := Some (Some ''to''), rm_client_seq_key := Some ''key''\<rparr>
   in \<exists>v u. run_state (adjust_retrans b True) idle_world
            = ((b\<lparr>sb_sent_count := 11, sb_send := False\<rparr>, False), v)
        \<and> run_state (app_process_out_msg 5 m) v = (None, u) \<and> w_trace u = [Exit_Process]"
proof -
  let ?i = "the (get_client_internal_sequence_id (Some ''to'') (Some ''key''))"
  let ?b = "(app_sender_bean ''k'' 0 (Some ''m'') (Some ?i) 1)\<lparr>sb_sent_count := 10\<rparr>"
  let ?m = "sample_msg\<lparr>rm_server_side := False, rm_to := Some (Some ''to''), rm_client_seq_key := Some ''key''\<rparr>"
  have "get_client_internal_sequence_id (Some ''to'') (Some ''key'') = Some ?i"
    by (simp add: get_client_internal_sequence_id_def is_null_def)
  moreover have "cf_property_bean (w_conf idle_world) = Some (the (cf_property_bean sample_conf))"
    "pb_max_retrans_count (the (cf_property_bean sample_conf)) = 10"
    by (simp_all add: sample_conf_def idle_world_def)
  moreover have "prop_value idle_world ?i SEQ_PROP_OUTGOING_SEQUENCE_ID \<noteq> Some ?i"
    by (simp add: prop_value_def seq_property_look_def)
  ultimately show ?thesis
    using give_up_then_exit[of idle_world "the (cf_property_bean sample_conf)" ?b ?i ?m "''to''" "''key''" "''msg-1''" 5]
    by (simp add: app_sender_bean_def sender_bean_create_def props_ok_def sample_msg_def Let_def) blast
qed

end
