(* ===== verification/Prop_Refinement.thy ===== *)
theory Prop_Refinement
  imports Prop_Values
begin

text \<open>
  The property table of \<open>src/storage/sqlite/permanent_seq_property_mgr.c\<close> against its specification: a
  map from sequence ids and names to values, of which every operation succeeds or, when the database does not
  answer, does nothing.
\<close>

section \<open>The operations and their answers\<close>

datatype prop_op =
    Insert_Prop (op_seq: string) (op_name: string) string
  | Update_Prop (op_seq: string) (op_name: string) string
  | Remove_Prop (op_seq: string) (op_name: string)
  | Retrieve_Prop (op_seq: string) (op_name: string)

datatype prop_answer = Done bool | Found cstr

text \<open>On the table, as the manager carries them out.\<close>

fun table_op :: "db_env \<times> prop_op \<Rightarrow> seq_property_table \<Rightarrow> seq_property_table \<times> prop_answer" where
  "table_op (e, Insert_Prop s n v) t = apsnd Done (seq_property_mgr_insert e t (Some (mk_prop s n v)))"
| "table_op (e, Update_Prop s n v) t = apsnd Done (seq_property_mgr_update e t (Some (mk_prop s n v)))"
| "table_op (e, Remove_Prop s n) t = apsnd Done (seq_property_mgr_remove e t (Some s) (Some n))"
| "table_op (e, Retrieve_Prop s n) t = (t, Found (bean_value (seq_property_mgr_retrieve e t (Some s) (Some n))))"

text \<open>On the map.\<close>

fun map_op :: "bool \<times> prop_op \<Rightarrow> (string \<times> string \<rightharpoonup> string) \<Rightarrow> (string \<times> string \<rightharpoonup> string) \<times> prop_answer" where
  "map_op (True, Insert_Prop s n v) m = (m((s, n) \<mapsto> v), Done True)"
| "map_op (True, Update_Prop s n v) m = (if m (s, n) = None then m else m((s, n) \<mapsto> v), Done True)"
| "map_op (True, Remove_Prop s n) m = (m((s, n) := None), Done True)"
| "map_op (True, Retrieve_Prop s n) m = (m, Found (m (s, n)))"
| "map_op (False, Retrieve_Prop s n) m = (m, Found None)"
| "map_op (False, _) m = (m, Done False)"

fun run_ops :: "('o \<Rightarrow> 's \<Rightarrow> 's \<times> 'a) \<Rightarrow> 'o list \<Rightarrow> 's \<Rightarrow> 's \<times> 'a list" where
  "run_ops f [] s = (s, [])"
| "run_ops f (x # xs) s = (let (s', a) = f x s; (s'', as) = run_ops f xs s' in (s'', a # as))"

section \<open>Simulation\<close>

text \<open>The table holds the map.\<close>

definition holds_map :: "seq_property_table \<Rightarrow> (string \<times> string \<rightharpoonup> string) \<Rightarrow> bool" where
  "holds_map t m \<longleftrightarrow> props_ok t \<and> (\<forall>s n. colon_free n \<longrightarrow> pvals t s n = m (s, n))"

lemma table_op_up:
  assumes "db_up e"
  shows "table_op (e, Insert_Prop s n v) t = (t @ [seq_property_row_of (mk_prop s n v)], Done True)"
    "table_op (e, Update_Prop s n v) t = (prop_upd (mk_prop s n v) t, Done True)"
    "table_op (e, Remove_Prop s n) t = (prop_del (prop_id s n) t, Done True)"
    "table_op (e, Retrieve_Prop s n) t = (t, Found (pvals t s n))"
  using assms
  by (simp_all add: seq_property_mgr_insert_def seq_property_mgr_update_def seq_property_mgr_remove_def
      seq_property_mgr_retrieve_def seq_property_remove_id_def is_null_def bean_mgr_eqs db_write_def sql_insert_def
      sql_update_def sql_delete_def Let_def prop_upd_def prop_del_def pvals_def seq_property_retrieve_up)

lemma table_op_down:
  assumes "\<not> db_up e"
  shows "table_op (e, Insert_Prop s n v) t = (t, Done False)" "table_op (e, Update_Prop s n v) t = (t, Done False)"
    "table_op (e, Remove_Prop s n) t = (t, Done False)" "table_op (e, Retrieve_Prop s n) t = (t, Found None)"
  using assms
  by (simp_all add: seq_property_mgr_insert_def seq_property_mgr_update_def seq_property_mgr_remove_def
      seq_property_mgr_retrieve_def seq_property_remove_id_def seq_property_retrieve_id_def is_null_def bean_mgr_eqs
      db_write_def db_query_def Let_def bean_value_def)

lemma op_simulated:
  assumes "holds_map t m" "colon_free (op_name x)"
  shows "holds_map (fst (table_op (e, x) t)) (fst (map_op (db_up e, x) m))
     \<and> snd (table_op (e, x) t) = snd (map_op (db_up e, x) m)"
proof (cases "db_up e")
  case True
  then show ?thesis
    using assms by (cases x) (auto simp: table_op_up holds_map_def pvals_simps pvals_upd simp del: table_op.simps)
next
  case False
  then show ?thesis using assms by (cases x) (simp_all add: table_op_down del: table_op.simps)
qed

lemma run_simulated:
  assumes "holds_map t m" "list_all (\<lambda>(e, x). colon_free (op_name x)) ops"
  shows "holds_map (fst (run_ops table_op ops t)) (fst (run_ops map_op (map (apfst db_up) ops) m))
     \<and> snd (run_ops table_op ops t) = snd (run_ops map_op (map (apfst db_up) ops) m)"
  using assms
proof (induction ops arbitrary: t m)
  case (Cons y ops)
  obtain e x where y: "y = (e, x)" by (cases y)
  have "holds_map (fst (table_op (e, x) t)) (fst (map_op (db_up e, x) m))
     \<and> snd (table_op (e, x) t) = snd (map_op (db_up e, x) m)"
    using op_simulated Cons.prems y by simp
  with Cons.IH[of "fst (table_op y t)" "fst (map_op (apfst db_up y) m)"] Cons.prems(2) y show ?case
    by (simp add: split_beta Let_def)
qed simp

text \<open>C7: the property table refines a map: any operations on it, under a database that answers some
  of them and not others, give the answers of the map and leave the values of the map.\<close>

theorem property_table_refines_map:
  assumes "list_all (\<lambda>(e, x). colon_free (op_name x)) ops"
  shows "snd (run_ops table_op ops []) = snd (run_ops map_op (map (apfst db_up) ops) Map.empty)
     \<and> (\<forall>s n. colon_free n \<longrightarrow>
          pvals (fst (run_ops table_op ops [])) s n = fst (run_ops map_op (map (apfst db_up) ops) Map.empty) (s, n))"
proof -
  have "holds_map [] Map.empty"
    by (simp add: holds_map_def props_ok_def pvals_def seq_property_look_def bean_value_def)
  from run_simulated[OF this assms] show ?thesis by (simp add: holds_map_def)
qed

theorem property_table_refines_map_witness:
  "snd (run_ops table_op [(up_env, Insert_Prop ''s'' ''LastOut'' ''3''), (up_env, Retrieve_Prop ''s'' ''LastOut'')] [])
     = [Done True, Found (Some ''3'')]"
proof -
  have "db_up up_env" by (auto simp: up_env_def db_up_iff intro!: exI[of _ 0])
  then show ?thesis
    using property_table_refines_map[of "[(up_env, Insert_Prop ''s'' ''LastOut'' ''3''), (up_env, Retrieve_Prop ''s'' ''LastOut'')]"]
    by (simp add: colon_free_def del: table_op.simps)
qed

end
