(* ===== verification/Om_Tree.thy ===== *)
theory Om_Tree
  imports Spec_Specific_Consts "HOL-Library.AList"
begin

text \<open>
  The interface of AXIOM, the XML object model of Axis2/C, as the message parts of
  \<open>src/wsrm\<close> use it.  AXIOM is a library outside the repository: its operations are a record
  of functions on nodes, an argument of the definitions that read and write messages, and the locale
  \<open>om_tree\<close> holds what its documentation promises.  A node stands for the whole subtree it
  roots; an operation of the C library that changes a node gives the changed node, and the
  code hands a node to one owner at a time.  The trees below are an implementation of the interface.
\<close>

section \<open>The operations\<close>

text \<open>
  Names: a local part and a namespace URI; the prefix of a qualified name takes no part in comparisons.
\<close>

record 'n om_api =
  om_is_element :: "'n \<Rightarrow> bool"                                 \<comment> \<open>\<open>axiom_node_get_data_element\<close>\<close>
  om_name :: "'n \<Rightarrow> string \<times> cstr"                             \<comment> \<open>local part and URI\<close>
  om_prefix :: "'n \<Rightarrow> cstr"                                     \<comment> \<open>\<open>axiom_namespace_get_prefix\<close>\<close>
  om_elements :: "'n \<Rightarrow> 'n list"                                \<comment> \<open>\<open>axiom_element_get_child_elements\<close>\<close>
  om_children :: "'n \<Rightarrow> string \<Rightarrow> string \<Rightarrow> 'n list"           \<comment> \<open>\<open>..._get_children_with_qname\<close>\<close>
  om_first_child :: "'n \<Rightarrow> string \<Rightarrow> string \<Rightarrow> 'n option"      \<comment> \<open>\<open>..._get_first_child_with_qname\<close>\<close>
  om_text :: "'n \<Rightarrow> cstr"                                       \<comment> \<open>\<open>axiom_element_get_text\<close>\<close>
  om_attribute :: "'n \<Rightarrow> string \<Rightarrow> cstr"                       \<comment> \<open>\<open>..._get_attribute_value_by_name\<close>\<close>
  om_create :: "string \<Rightarrow> string \<Rightarrow> string \<Rightarrow> 'n"              \<comment> \<open>\<open>axiom_element_create\<close>: name, URI, prefix\<close>
  om_set_text :: "string \<Rightarrow> 'n \<Rightarrow> 'n"                          \<comment> \<open>\<open>axiom_element_set_text\<close>\<close>
  om_add_attribute :: "string \<Rightarrow> string \<Rightarrow> 'n \<Rightarrow> 'n"          \<comment> \<open>\<open>axiom_element_add_attribute\<close>\<close>
  om_must_understand :: "bool \<Rightarrow> 'n \<Rightarrow> 'n"                      \<comment> \<open>\<open>..._set_must_understand_with_bool\<close>\<close>
  om_add_child :: "'n \<Rightarrow> 'n \<Rightarrow> 'n"                              \<comment> \<open>\<open>axiom_node_add_child\<close>: child, parent\<close>
  om_remove_child :: "string \<Rightarrow> string \<Rightarrow> 'n \<Rightarrow> 'n"            \<comment> \<open>the first child of a name, detached\<close>
  om_remove_block :: "string \<Rightarrow> string \<Rightarrow> 'n \<Rightarrow> 'n"            \<comment> \<open>\<open>axiom_soap_header_remove_header_block\<close>\<close>
  om_blocks_with_uri :: "'n \<Rightarrow> string \<Rightarrow> 'n list"               \<comment> \<open>\<open>..._get_header_blocks_with_namespace_uri\<close>\<close>

text \<open>A SOAP envelope: its header and its body.\<close>

record 'n soap_envelope =
  se_header :: "'n option"
  se_body :: 'n

section \<open>What the documentation promises\<close>

locale om_tree =
  fixes om :: "'n om_api"
  assumes first_child: "om_first_child om n l u
      = (case om_children om n l u of [] \<Rightarrow> None | c # _ \<Rightarrow> Some c)"
    and children: "om_children om n l u = filter (\<lambda>c. om_name om c = (l, Some u)) (om_elements om n)"
    and blocks: "om_blocks_with_uri om n u = filter (\<lambda>c. snd (om_name om c) = Some u) (om_elements om n)"
    and create: "om_is_element om (om_create om l u p)" "om_name om (om_create om l u p) = (l, Some u)"
      "om_prefix om (om_create om l u p) = Some p" "om_elements om (om_create om l u p) = []"
      "om_attribute om (om_create om l u p) k = None"
    and set_text: "om_is_element om n \<Longrightarrow> om_is_element om (om_set_text om t n)"
      "om_name om (om_set_text om t n) = om_name om n" "om_elements om (om_set_text om t n) = om_elements om n"
      "t \<noteq> [] \<Longrightarrow> om_is_element om n \<Longrightarrow> om_text om (om_set_text om t n) = Some t"
    and add_attribute: "om_is_element om n \<Longrightarrow> om_is_element om (om_add_attribute om k v n)"
      "om_name om (om_add_attribute om k v n) = om_name om n"
      "om_elements om (om_add_attribute om k v n) = om_elements om n"
      "om_is_element om n \<Longrightarrow>
         om_attribute om (om_add_attribute om k v n) k' = (if k' = k then Some v else om_attribute om n k')"
    and must_understand: "om_is_element om n \<Longrightarrow> om_is_element om (om_must_understand om b n)"
      "om_name om (om_must_understand om b n) = om_name om n"
      "om_prefix om (om_must_understand om b n) = om_prefix om n"
      "om_elements om (om_must_understand om b n) = om_elements om n"
    and add_child: "om_is_element om n \<Longrightarrow> om_is_element om (om_add_child om c n)"
      "om_name om (om_add_child om c n) = om_name om n" "om_prefix om (om_add_child om c n) = om_prefix om n"
      "om_is_element om n \<Longrightarrow> om_is_element om c \<Longrightarrow> om_elements om (om_add_child om c n) = om_elements om n @ [c]"
    and remove_child: "om_is_element om n \<Longrightarrow> om_is_element om (om_remove_child om l u n)"
      "(l', u') \<noteq> (l, u) \<Longrightarrow> om_children om (om_remove_child om l u n) l' u' = om_children om n l' u'"
      "om_children om n l u = [] \<Longrightarrow> om_remove_child om l u n = n"
    and remove_block: "om_is_element om n \<Longrightarrow> om_is_element om (om_remove_block om l u n)"
      "(l', u') \<noteq> (l, u) \<Longrightarrow> om_children om (om_remove_block om l u n) l' u' = om_children om n l' u'"
      "om_children om n l u = [] \<Longrightarrow> om_remove_block om l u n = n"
begin

lemma children_create [simp]: "om_children om (om_create om l u p) l' u' = []"
  by (simp add: children create)

lemma children_set_text [simp]: "om_children om (om_set_text om t n) l u = om_children om n l u"
  by (simp add: children set_text)

lemma children_must_understand [simp]: "om_children om (om_must_understand om b n) l u = om_children om n l u"
  by (simp add: children must_understand)

lemma children_add_attribute [simp]: "om_children om (om_add_attribute om k v n) l u = om_children om n l u"
  by (simp add: children add_attribute)

lemma children_add_child [simp]:
  "om_is_element om n \<Longrightarrow> om_is_element om c \<Longrightarrow> om_children om (om_add_child om c n) l u
     = om_children om n l u @ (if om_name om c = (l, Some u) then [c] else [])"
  by (simp add: children add_child)

lemmas om_simps = create set_text add_attribute must_understand add_child first_child

end

section \<open>Trees\<close>

text \<open>XML trees with text, attributes and qualified names: an implementation of the interface.\<close>

datatype xml =
    Element (el_name: string) (el_uri: cstr) (el_prefix: cstr) (el_attributes: "(string \<times> string) list") (el_content: "xml list")
  | Text string

fun xml_is_element :: "xml \<Rightarrow> bool" where
  "xml_is_element (Element _ _ _ _ _) = True"
| "xml_is_element (Text _) = False"

fun xml_name :: "xml \<Rightarrow> string \<times> cstr" where
  "xml_name (Element l u _ _ _) = (l, u)"
| "xml_name (Text _) = ('''', None)"

fun xml_prefix :: "xml \<Rightarrow> cstr" where
  "xml_prefix (Element _ _ p _ _) = p"
| "xml_prefix (Text _) = None"

fun xml_elements :: "xml \<Rightarrow> xml list" where
  "xml_elements (Element _ _ _ _ cs) = filter xml_is_element cs"
| "xml_elements (Text _) = []"

definition xml_children :: "xml \<Rightarrow> string \<Rightarrow> string \<Rightarrow> xml list" where
  "xml_children n l u = filter (\<lambda>c. xml_name c = (l, Some u)) (xml_elements n)"

fun xml_texts :: "xml list \<Rightarrow> string list" where
  "xml_texts [] = []"
| "xml_texts (Text t # cs) = t # xml_texts cs"
| "xml_texts (Element _ _ _ _ _ # cs) = xml_texts cs"

fun xml_text :: "xml \<Rightarrow> cstr" where
  "xml_text (Element _ _ _ _ cs) = (if xml_texts cs = [] then None else Some (concat (xml_texts cs)))"
| "xml_text (Text _) = None"

fun xml_attribute :: "xml \<Rightarrow> string \<Rightarrow> cstr" where
  "xml_attribute (Element _ _ _ as _) k = map_of as k"
| "xml_attribute (Text _) k = None"

text \<open>Setting the text removes the texts there were.\<close>

fun xml_set_text :: "string \<Rightarrow> xml \<Rightarrow> xml" where
  "xml_set_text t (Element l u p as cs) = Element l u p as (Text t # filter xml_is_element cs)"
| "xml_set_text t (Text s) = Text s"

fun xml_add_attribute :: "string \<Rightarrow> string \<Rightarrow> xml \<Rightarrow> xml" where
  "xml_add_attribute k v (Element l u p as cs) = Element l u p (AList.update k v as) cs"
| "xml_add_attribute k v (Text s) = Text s"

fun xml_add_child :: "xml \<Rightarrow> xml \<Rightarrow> xml" where
  "xml_add_child c (Element l u p as cs) = Element l u p as (cs @ [c])"
| "xml_add_child c (Text s) = Text s"

fun remove_first :: "('a \<Rightarrow> bool) \<Rightarrow> 'a list \<Rightarrow> 'a list" where
  "remove_first P [] = []"
| "remove_first P (x # xs) = (if P x then xs else x # remove_first P xs)"

fun xml_remove_child :: "string \<Rightarrow> string \<Rightarrow> xml \<Rightarrow> xml" where
  "xml_remove_child l u (Element l' u' p as cs) =
     Element l' u' p as (remove_first (\<lambda>c. xml_is_element c \<and> xml_name c = (l, Some u)) cs)"
| "xml_remove_child l u (Text s) = Text s"

definition om_of_xml :: "xml om_api" where
  "om_of_xml =
     \<lparr>om_is_element = xml_is_element, om_name = xml_name, om_prefix = xml_prefix, om_elements = xml_elements,
      om_children = xml_children,
      om_first_child = (\<lambda>n l u. case xml_children n l u of [] \<Rightarrow> None | c # _ \<Rightarrow> Some c),
      om_text = xml_text, om_attribute = xml_attribute,
      om_create = (\<lambda>l u p. Element l (Some u) (Some p) [] []), om_set_text = xml_set_text,
      om_add_attribute = xml_add_attribute,
      om_must_understand = (\<lambda>b. xml_add_attribute ''mustUnderstand'' (if b then ''1'' else ''0'')),
      om_add_child = xml_add_child, om_remove_child = xml_remove_child, om_remove_block = xml_remove_child,
      om_blocks_with_uri = (\<lambda>n u. filter (\<lambda>c. snd (xml_name c) = Some u) (xml_elements n))\<rparr>"

lemma xml_kept [simp]:
  "xml_is_element (xml_set_text t n) = xml_is_element n" "xml_name (xml_set_text t n) = xml_name n"
  "xml_elements (xml_set_text t n) = xml_elements n"
  "xml_is_element (xml_add_attribute k v n) = xml_is_element n" "xml_name (xml_add_attribute k v n) = xml_name n"
  "xml_prefix (xml_add_attribute k v n) = xml_prefix n" "xml_elements (xml_add_attribute k v n) = xml_elements n"
  "xml_is_element (xml_add_child c n) = xml_is_element n" "xml_name (xml_add_child c n) = xml_name n"
  "xml_prefix (xml_add_child c n) = xml_prefix n" "xml_is_element (xml_remove_child l u n) = xml_is_element n"
  by (cases n; simp)+

lemma xml_texts_elements [simp]: "xml_texts (filter xml_is_element cs) = []"
  by (induction cs rule: xml_texts.induct) simp_all

lemma xml_text_set_text: "xml_is_element n \<Longrightarrow> xml_text (xml_set_text t n) = Some t"
  by (cases n) simp_all

lemma xml_attribute_add:
  "xml_is_element n \<Longrightarrow> xml_attribute (xml_add_attribute k v n) k' = (if k' = k then Some v else xml_attribute n k')"
  by (cases n) (simp_all add: update_conv')

lemma xml_elements_add:
  "xml_is_element n \<Longrightarrow> xml_is_element c \<Longrightarrow> xml_elements (xml_add_child c n) = xml_elements n @ [c]"
  by (cases n) simp_all

lemma filter_remove_first:
  "(\<And>x. x \<in> set xs \<Longrightarrow> Q x \<Longrightarrow> \<not> P x) \<Longrightarrow> filter Q (remove_first P xs) = filter Q xs"
  by (induction xs) auto

lemma xml_children_remove:
  "(l', u') \<noteq> (l, u) \<Longrightarrow> xml_children (xml_remove_child l u n) l' u' = xml_children n l' u'"
  by (cases n) (auto simp: xml_children_def conj_commute intro!: filter_remove_first)

lemma remove_first_none: "filter P xs = [] \<Longrightarrow> remove_first P xs = xs"
  by (induction xs) (auto split: if_splits)

lemma xml_remove_none: "xml_children n l u = [] \<Longrightarrow> xml_remove_child l u n = n"
  by (cases n) (simp_all add: xml_children_def remove_first_none conj_commute)

interpretation xml: om_tree om_of_xml
  by unfold_locales
     (auto simp: om_of_xml_def xml_children_def xml_text_set_text xml_attribute_add xml_elements_add
       xml_children_remove[unfolded xml_children_def] xml_remove_none[unfolded xml_children_def])

end
