(* ===== verification/Wsrm_Parts.thy ===== *)
theory Wsrm_Parts
  imports Om_Tree Utils "HOL-Library.Word"
begin

text \<open>
  The simple parts of the WS-ReliableMessaging elements, \<open>src/wsrm\<close>: identifiers, message numbers,
  acknowledgement ranges, addresses, durations and marks.  Each has a struct, a constructor that refuses
  namespaces that do not define the part, a reader from a node and a writer into a parent node.
  A reader gives the struct as it leaves it, also when it gives up half way, with its result; a writer
  gives the parent node as it leaves it.  Memory does not run out.
\<close>

section \<open>Names\<close>

definition WSRM_PREFIX :: string where "WSRM_PREFIX = ''wsrm''"
definition WSMC_PREFIX :: string where "WSMC_PREFIX = ''wsmc''"
definition WSA_PREFIX :: string where "WSA_PREFIX = ''wsa''"
definition WSRM_MSG_NUMBER :: string where "WSRM_MSG_NUMBER = ''MessageNumber''"
definition WSRM_LAST_MSG_NUMBER :: string where "WSRM_LAST_MSG_NUMBER = ''LastMsgNumber''"
definition WSRM_LAST_MSG :: string where "WSRM_LAST_MSG = ''LastMessage''"
definition WSRM_SEQ :: string where "WSRM_SEQ = ''Sequence''"
definition WSRM_SEQ_OFFER :: string where "WSRM_SEQ_OFFER = ''Offer''"
definition WSRM_TERMINATE_SEQ :: string where "WSRM_TERMINATE_SEQ = ''TerminateSequence''"
definition WSRM_CLOSE_SEQ :: string where "WSRM_CLOSE_SEQ = ''CloseSequence''"
definition WSRM_CLOSE_SEQ_RESPONSE :: string where "WSRM_CLOSE_SEQ_RESPONSE = ''CloseSequenceResponse''"
definition WSRM_TERMINATE_SEQ_RESPONSE :: string where "WSRM_TERMINATE_SEQ_RESPONSE = ''TerminateSequenceResponse''"
definition WSRM_FAULT_CODE :: string where "WSRM_FAULT_CODE = ''FaultCode''"
definition WSRM_SEQ_FAULT :: string where "WSRM_SEQ_FAULT = ''SequenceFault''"
definition WSRM_ACKS_TO :: string where "WSRM_ACKS_TO = ''AcksTo''"
definition WSRM_EXPIRES :: string where "WSRM_EXPIRES = ''Expires''"
definition WSRM_CREATE_SEQ :: string where "WSRM_CREATE_SEQ = ''CreateSequence''"
definition WSRM_CREATE_SEQ_RESPONSE :: string where "WSRM_CREATE_SEQ_RESPONSE = ''CreateSequenceResponse''"
definition WSRM_ACK_REQUESTED :: string where "WSRM_ACK_REQUESTED = ''AckRequested''"
definition WSRM_ACK_RANGE :: string where "WSRM_ACK_RANGE = ''AcknowledgementRange''"
definition WSRM_UPPER :: string where "WSRM_UPPER = ''Upper''"
definition WSRM_LOWER :: string where "WSRM_LOWER = ''Lower''"
definition WSRM_NACK :: string where "WSRM_NACK = ''Nack''"
definition WSRM_SEQ_ACK :: string where "WSRM_SEQ_ACK = ''SequenceAcknowledgement''"
definition WSRM_IDENTIFIER :: string where "WSRM_IDENTIFIER = ''Identifier''"
definition WSRM_ACCEPT :: string where "WSRM_ACCEPT = ''Accept''"
definition WSRM_NONE :: string where "WSRM_NONE = ''None''"
definition WSRM_FINAL :: string where "WSRM_FINAL = ''Final''"
definition WSRM_MESSAGE_PENDING :: string where "WSRM_MESSAGE_PENDING = ''MessagePending''"
definition WSRM_PENDING :: string where "WSRM_PENDING = ''pending''"
definition WSRM_MAKE_CONNECTION :: string where "WSRM_MAKE_CONNECTION = ''MakeConnection''"
definition WSRM_ENDPOINT :: string where "WSRM_ENDPOINT = ''Endpoint''"
definition WSA_ADDRESS :: string where "WSA_ADDRESS = ''Address''"
definition WSMC_ADDRESS :: string where "WSMC_ADDRESS = ''Address''"
definition AXIS2_VALUE_FALSE :: string where "AXIS2_VALUE_FALSE = ''false''"
definition EPR_REFERENCE_PARAMETERS :: string where "EPR_REFERENCE_PARAMETERS = ''ReferenceParameters''"

lemmas wsrm_names =
  WSRM_MSG_NUMBER_def WSRM_LAST_MSG_NUMBER_def WSRM_LAST_MSG_def WSRM_SEQ_def WSRM_SEQ_OFFER_def
  WSRM_TERMINATE_SEQ_def WSRM_CLOSE_SEQ_def WSRM_CLOSE_SEQ_RESPONSE_def WSRM_TERMINATE_SEQ_RESPONSE_def
  WSRM_FAULT_CODE_def WSRM_SEQ_FAULT_def WSRM_ACKS_TO_def WSRM_EXPIRES_def WSRM_CREATE_SEQ_def
  WSRM_CREATE_SEQ_RESPONSE_def WSRM_ACK_REQUESTED_def WSRM_ACK_RANGE_def WSRM_UPPER_def WSRM_LOWER_def
  WSRM_NACK_def WSRM_SEQ_ACK_def WSRM_IDENTIFIER_def WSRM_ACCEPT_def WSRM_NONE_def WSRM_FINAL_def
  WSRM_MESSAGE_PENDING_def WSRM_PENDING_def WSRM_MAKE_CONNECTION_def WSRM_ENDPOINT_def WSA_ADDRESS_def
  WSMC_ADDRESS_def EPR_REFERENCE_PARAMETERS_def

section \<open>Namespaces and results\<close>

text \<open>
  Most parts exist in both versions of the specification, some only in the second, and MakeConnection
  in a namespace of its own.
\<close>

definition both_namespaces_supported :: "string \<Rightarrow> bool" where
  "both_namespaces_supported ns =
     (if ns = SPEC_2005_02_NS_URI then True else if ns = SPEC_2007_02_NS_URI then True else False)"

definition second_namespace_supported :: "string \<Rightarrow> bool" where
  "second_namespace_supported ns =
     (if ns = SPEC_2005_02_NS_URI then False else if ns = SPEC_2007_02_NS_URI then True else False)"

text \<open>A null pointer as result, with the error that was set, or a success.\<close>

datatype om_result = Om_Success | Om_Null (om_error: "sandesha2_error option")

abbreviation om_fails :: "sandesha2_error \<Rightarrow> om_result" where "om_fails e \<equiv> Om_Null (Some e)"

text \<open>A constructor for a part that a namespace may lack.\<close>

definition create_in :: "(string \<Rightarrow> bool) \<Rightarrow> (string \<Rightarrow> 'p) \<Rightarrow> cstr \<Rightarrow> sandesha2_error + 'p" where
  "create_in supported new ns_val =
     (case ns_val of
        None \<Rightarrow> Inl AXIS2_ERROR_INVALID_NULL_PARAM
      | Some ns \<Rightarrow> if \<not> supported ns then Inl ERROR_UNSUPPORTED_NS else Inr (new ns))"

text \<open>The text of a child that the readers of simple parts ask for.\<close>

definition child_text :: "'n om_api \<Rightarrow> 'n \<Rightarrow> string \<Rightarrow> string \<Rightarrow> om_result + string" where
  "child_text om node local ns =
     (if \<not> om_is_element om node then Inl (om_fails ERROR_NULL_OM_ELEMENT)
      else case om_first_child om node local ns of
             None \<Rightarrow> Inl (om_fails ERROR_NULL_OM_ELEMENT)
           | Some part \<Rightarrow>
               (case om_text om part of
                  None \<Rightarrow> Inl (om_fails ERROR_EMPTY_OM_ELEMENT)
                | Some text \<Rightarrow> Inr text))"

text \<open>A child that has to be there.\<close>

definition child_there :: "'n om_api \<Rightarrow> 'n \<Rightarrow> string \<Rightarrow> string \<Rightarrow> om_result" where
  "child_there om node local ns =
     (if \<not> om_is_element om node then om_fails ERROR_NULL_OM_ELEMENT
      else case om_first_child om node local ns of
             None \<Rightarrow> om_fails ERROR_NULL_OM_ELEMENT
           | Some part \<Rightarrow> Om_Success)"

text \<open>An element with a text.\<close>

definition text_element :: "'n om_api \<Rightarrow> string \<Rightarrow> string \<Rightarrow> string \<Rightarrow> string \<Rightarrow> 'n" where
  "text_element om local ns pre text = om_set_text om text (om_create om local ns pre)"

definition no_text :: "cstr \<Rightarrow> bool" where
  "no_text s \<longleftrightarrow> s = None \<or> s = Some ''''"

text \<open>\<open>atoi\<close> keeps the low 32 bits of the number, as a signed number.\<close>

definition atoi :: "string \<Rightarrow> int" where
  "atoi s = sint (of_int (atol s) :: 32 word)"

lemma atoi_sprintf_ld: "- (2 ^ 31) \<le> n \<Longrightarrow> n < 2 ^ 31 \<Longrightarrow> atoi (sprintf_ld n) = n"
  by (simp add: atoi_def atol_sprintf_ld sint_sbintrunc' signed_take_bit_int_eq_self)

section \<open>Identifier\<close>

record identifier_t =
  idf_str_id :: cstr
  idf_ns :: string

definition identifier_create :: "cstr \<Rightarrow> sandesha2_error + identifier_t" where
  "identifier_create = create_in both_namespaces_supported (\<lambda>ns. \<lparr>idf_str_id = None, idf_ns = ns\<rparr>)"

definition identifier_clone :: "identifier_t option \<Rightarrow> sandesha2_error + identifier_t" where
  "identifier_clone rm_identifier =
     (case rm_identifier of
        None \<Rightarrow> Inl AXIS2_ERROR_INVALID_NULL_PARAM
      | Some i \<Rightarrow>
          (case identifier_create (Some (idf_ns i)) of
             Inl e \<Rightarrow> Inl e
           | Inr n \<Rightarrow> Inr (n\<lparr>idf_str_id := idf_str_id i\<rparr>)))"

definition identifier_from_om_node :: "'n om_api \<Rightarrow> identifier_t \<Rightarrow> 'n \<Rightarrow> identifier_t \<times> om_result" where
  "identifier_from_om_node om i node =
     (case child_text om node WSRM_IDENTIFIER (idf_ns i) of
        Inl r \<Rightarrow> (i, r)
      | Inr ident_str \<Rightarrow> (i\<lparr>idf_str_id := Some ident_str\<rparr>, Om_Success))"

definition identifier_to_om_node :: "'n om_api \<Rightarrow> identifier_t \<Rightarrow> 'n \<Rightarrow> 'n \<times> om_result" where
  "identifier_to_om_node om i node =
     (if no_text (idf_str_id i) then (node, om_fails ERROR_TO_OM_NULL_ELEMENT)
      else (om_add_child om (text_element om WSRM_IDENTIFIER (idf_ns i) WSRM_PREFIX (the (idf_str_id i))) node, Om_Success))"

section \<open>Message numbers\<close>

record msg_number =
  mn_msg_num :: int
  mn_ns :: string

definition msg_number_create :: "cstr \<Rightarrow> sandesha2_error + msg_number" where
  "msg_number_create = create_in both_namespaces_supported (\<lambda>ns. \<lparr>mn_msg_num = 0, mn_ns = ns\<rparr>)"

definition msg_number_clone :: "msg_number option \<Rightarrow> sandesha2_error + msg_number" where
  "msg_number_clone msg_num =
     (case msg_num of
        None \<Rightarrow> Inl AXIS2_ERROR_INVALID_NULL_PARAM
      | Some m \<Rightarrow>
          (case msg_number_create (Some (mn_ns m)) of
             Inl e \<Rightarrow> Inl e
           | Inr n \<Rightarrow> Inr (n\<lparr>mn_msg_num := mn_msg_num m\<rparr>)))"

definition msg_number_from_om_node :: "'n om_api \<Rightarrow> msg_number \<Rightarrow> 'n \<Rightarrow> msg_number \<times> om_result" where
  "msg_number_from_om_node om m node =
     (case child_text om node WSRM_MSG_NUMBER (mn_ns m) of
        Inl r \<Rightarrow> (m, r)
      | Inr mn_str \<Rightarrow> (m\<lparr>mn_msg_num := atol mn_str\<rparr>, Om_Success))"

definition msg_number_to_om_node :: "'n om_api \<Rightarrow> msg_number \<Rightarrow> 'n \<Rightarrow> 'n \<times> om_result" where
  "msg_number_to_om_node om m node =
     (if mn_msg_num m \<le> 0 then (node, om_fails ERROR_TO_OM_INVALID_NUMBER)
      else (om_add_child om (text_element om WSRM_MSG_NUMBER (mn_ns m) WSRM_PREFIX (sprintf_ld (mn_msg_num m))) node, Om_Success))"

text \<open>The number of the last message of a sequence, in CloseSequence and TerminateSequence.\<close>

record last_msg_number =
  ln_msg_num :: int
  ln_ns :: string

definition last_msg_number_create :: "cstr \<Rightarrow> sandesha2_error + last_msg_number" where
  "last_msg_number_create = create_in both_namespaces_supported (\<lambda>ns. \<lparr>ln_msg_num = 0, ln_ns = ns\<rparr>)"

definition last_msg_number_from_om_node ::
  "'n om_api \<Rightarrow> last_msg_number \<Rightarrow> 'n \<Rightarrow> last_msg_number \<times> om_result" where
  "last_msg_number_from_om_node om m node =
     (case child_text om node WSRM_LAST_MSG_NUMBER (ln_ns m) of
        Inl r \<Rightarrow> (m, r)
      | Inr mn_str \<Rightarrow> (m\<lparr>ln_msg_num := atol mn_str\<rparr>, Om_Success))"

definition last_msg_number_to_om_node :: "'n om_api \<Rightarrow> last_msg_number \<Rightarrow> 'n \<Rightarrow> 'n \<times> om_result" where
  "last_msg_number_to_om_node om m node =
     (if ln_msg_num m \<le> 0 then (node, om_fails ERROR_TO_OM_INVALID_NUMBER)
      else (om_add_child om (text_element om WSRM_LAST_MSG_NUMBER (ln_ns m) WSRM_PREFIX (sprintf_ld (ln_msg_num m))) node, Om_Success))"

section \<open>Marks\<close>

text \<open>LastMessage, None and Final hold nothing but their namespace.\<close>

record last_msg = lm_ns :: string
record ack_none = an_ns :: string
record ack_final = af_ns :: string

definition last_msg_create :: "cstr \<Rightarrow> sandesha2_error + last_msg" where
  "last_msg_create = create_in both_namespaces_supported (\<lambda>ns. \<lparr>lm_ns = ns\<rparr>)"

definition last_msg_clone :: "last_msg option \<Rightarrow> sandesha2_error + last_msg" where
  "last_msg_clone last_msg =
     (case last_msg of None \<Rightarrow> Inl AXIS2_ERROR_INVALID_NULL_PARAM | Some m \<Rightarrow> last_msg_create (Some (lm_ns m)))"

definition last_msg_from_om_node :: "'n om_api \<Rightarrow> last_msg \<Rightarrow> 'n \<Rightarrow> last_msg \<times> om_result" where
  "last_msg_from_om_node om m node = (m, child_there om node WSRM_LAST_MSG (lm_ns m))"

definition last_msg_to_om_node :: "'n om_api \<Rightarrow> last_msg \<Rightarrow> 'n \<Rightarrow> 'n \<times> om_result" where
  "last_msg_to_om_node om m node = (om_add_child om (om_create om WSRM_LAST_MSG (lm_ns m) WSRM_PREFIX) node, Om_Success)"

definition ack_none_create :: "cstr \<Rightarrow> sandesha2_error + ack_none" where
  "ack_none_create = create_in second_namespace_supported (\<lambda>ns. \<lparr>an_ns = ns\<rparr>)"

definition ack_none_from_om_node :: "'n om_api \<Rightarrow> ack_none \<Rightarrow> 'n \<Rightarrow> ack_none \<times> om_result" where
  "ack_none_from_om_node om m node = (m, child_there om node WSRM_NONE (an_ns m))"

definition ack_none_to_om_node :: "'n om_api \<Rightarrow> ack_none \<Rightarrow> 'n \<Rightarrow> 'n \<times> om_result" where
  "ack_none_to_om_node om m node = (om_add_child om (om_create om WSRM_NONE (an_ns m) WSRM_PREFIX) node, Om_Success)"

definition ack_final_create :: "cstr \<Rightarrow> sandesha2_error + ack_final" where
  "ack_final_create = create_in second_namespace_supported (\<lambda>ns. \<lparr>af_ns = ns\<rparr>)"

definition ack_final_from_om_node :: "'n om_api \<Rightarrow> ack_final \<Rightarrow> 'n \<Rightarrow> ack_final \<times> om_result" where
  "ack_final_from_om_node om m node = (m, child_there om node WSRM_FINAL (af_ns m))"

definition ack_final_to_om_node :: "'n om_api \<Rightarrow> ack_final \<Rightarrow> 'n \<Rightarrow> 'n \<times> om_result" where
  "ack_final_to_om_node om m node = (om_add_child om (om_create om WSRM_FINAL (af_ns m) WSRM_PREFIX) node, Om_Success)"

section \<open>Acknowledgement ranges\<close>

text \<open>The struct of \<^typ>\<open>ack_range\<close> with the prefix it was read with.\<close>

definition ack_range_create :: "cstr \<Rightarrow> sandesha2_error + ack_range" where
  "ack_range_create =
     create_in both_namespaces_supported (\<lambda>ns. \<lparr>ar_lower = 0, ar_upper = 0, ar_ns = Some ns\<rparr>)"

definition ack_range_from_om_node :: "'n om_api \<Rightarrow> ack_range \<Rightarrow> 'n \<Rightarrow> ack_range \<times> om_result" where
  "ack_range_from_om_node om r node =
     (if \<not> om_is_element om node then (r, om_fails ERROR_NULL_OM_ELEMENT)
      else case (om_attribute om node WSRM_LOWER, om_attribute om node WSRM_UPPER) of
             (Some lower_str, Some upper_str) \<Rightarrow>
               (r\<lparr>ar_lower := atoi lower_str, ar_upper := atoi upper_str\<rparr>, Om_Success)
           | _ \<Rightarrow> (r, om_fails ERROR_NULL_OM_ATTRIBUTE))"

text \<open>A range always has a namespace: the constructor refuses a null one.\<close>

definition ack_range_to_om_node :: "'n om_api \<Rightarrow> ack_range \<Rightarrow> 'n \<Rightarrow> 'n \<times> om_result" where
  "ack_range_to_om_node om r node =
     (case ar_ns r of
        None \<Rightarrow> (node, Om_Null None)
      | Some ns \<Rightarrow>
          (om_add_child om
             (om_add_attribute om WSRM_UPPER (sprintf_ld (ar_upper r))
               (om_add_attribute om WSRM_LOWER (sprintf_ld (ar_lower r)) (om_create om WSRM_ACK_RANGE ns WSRM_PREFIX)))
             node, Om_Success))"

text \<open>
  A nack.  The reader looks for a Nack element inside the Nack element, and takes no number
  from it.
\<close>

record nack =
  nk_nack_num :: int
  nk_ns :: string

definition nack_create :: "cstr \<Rightarrow> sandesha2_error + nack" where
  "nack_create = create_in both_namespaces_supported (\<lambda>ns. \<lparr>nk_nack_num = 0, nk_ns = ns\<rparr>)"

definition nack_from_om_node :: "'n om_api \<Rightarrow> nack \<Rightarrow> 'n \<Rightarrow> nack \<times> om_result" where
  "nack_from_om_node om k node =
     (case child_text om node WSRM_NACK (nk_ns k) of
        Inl r \<Rightarrow> (k, r)
      | Inr nack_text \<Rightarrow> (k, Om_Success))"

definition nack_to_om_node :: "'n om_api \<Rightarrow> nack \<Rightarrow> 'n \<Rightarrow> 'n \<times> om_result" where
  "nack_to_om_node om k node =
     (if nk_nack_num k \<le> 0 then (node, om_fails ERROR_TO_OM_INVALID_NUMBER)
      else (om_add_child om (text_element om WSRM_NACK (nk_ns k) WSRM_PREFIX (sprintf_ld (nk_nack_num k))) node, Om_Success))"

section \<open>Durations and fault codes\<close>

record expires =
  ex_duration :: cstr
  ex_ns :: string

definition expires_create :: "cstr \<Rightarrow> sandesha2_error + expires" where
  "expires_create = create_in both_namespaces_supported (\<lambda>ns. \<lparr>ex_duration = None, ex_ns = ns\<rparr>)"

definition expires_from_om_node :: "'n om_api \<Rightarrow> expires \<Rightarrow> 'n \<Rightarrow> expires \<times> om_result" where
  "expires_from_om_node om x node =
     (case child_text om node WSRM_EXPIRES (ex_ns x) of
        Inl r \<Rightarrow> (x, r)
      | Inr text \<Rightarrow> (x\<lparr>ex_duration := Some text\<rparr>, Om_Success))"

definition expires_to_om_node :: "'n om_api \<Rightarrow> expires \<Rightarrow> 'n \<Rightarrow> 'n \<times> om_result" where
  "expires_to_om_node om x node =
     (if no_text (ex_duration x) then (node, om_fails ERROR_TO_OM_NULL_ELEMENT)
      else (om_add_child om (text_element om WSRM_EXPIRES (ex_ns x) WSRM_PREFIX (the (ex_duration x))) node, Om_Success))"

record fault_code =
  fc_str :: cstr
  fc_ns :: string

definition fault_code_create :: "cstr \<Rightarrow> sandesha2_error + fault_code" where
  "fault_code_create = create_in both_namespaces_supported (\<lambda>ns. \<lparr>fc_str = None, fc_ns = ns\<rparr>)"

definition fault_code_from_om_node :: "'n om_api \<Rightarrow> fault_code \<Rightarrow> 'n \<Rightarrow> fault_code \<times> om_result" where
  "fault_code_from_om_node om c node =
     (case child_text om node WSRM_FAULT_CODE (fc_ns c) of
        Inl r \<Rightarrow> (c, r)
      | Inr fault_text \<Rightarrow> (c\<lparr>fc_str := Some fault_text\<rparr>, Om_Success))"

definition fault_code_to_om_node :: "'n om_api \<Rightarrow> fault_code \<Rightarrow> 'n \<Rightarrow> 'n \<times> om_result" where
  "fault_code_to_om_node om c node =
     (if no_text (fc_str c) then (node, om_fails ERROR_TO_OM_NULL_ELEMENT)
      else (om_add_child om (text_element om WSRM_FAULT_CODE (fc_ns c) WSRM_PREFIX (the (fc_str c))) node, Om_Success))"

section \<open>Addresses\<close>

text \<open>An endpoint reference is the address it holds, as in messages; the constructors accept any namespace.\<close>

record address =
  ad_epr :: "cstr option"
  ad_ns :: string

definition address_create :: "cstr \<Rightarrow> cstr option \<Rightarrow> sandesha2_error + address" where
  "address_create ns_val epr = create_in (\<lambda>_. True) (\<lambda>ns. \<lparr>ad_epr = epr, ad_ns = ns\<rparr>) ns_val"

definition address_from_om_node :: "'n om_api \<Rightarrow> address \<Rightarrow> 'n \<Rightarrow> address \<times> om_result" where
  "address_from_om_node om a node =
     (case child_text om node WSA_ADDRESS (ad_ns a) of
        Inl r \<Rightarrow> (a, r)
      | Inr str_address \<Rightarrow>
          if str_address = '''' then (a, om_fails ERROR_EMPTY_OM_ELEMENT)
          else (a\<lparr>ad_epr := Some (Some str_address)\<rparr>, Om_Success))"

definition address_to_om_node :: "'n om_api \<Rightarrow> address \<Rightarrow> 'n \<Rightarrow> 'n \<times> om_result" where
  "address_to_om_node om a node =
     (if ad_epr a = None \<or> no_text (the (ad_epr a)) then (node, om_fails ERROR_TO_OM_NULL_ELEMENT)
      else (om_add_child om (text_element om WSA_ADDRESS (ad_ns a) WSA_PREFIX (the (the (ad_epr a)))) node, Om_Success))"

record mc_address =
  ma_epr :: "cstr option"
  ma_ns :: string

definition mc_address_create :: "cstr \<Rightarrow> cstr option \<Rightarrow> sandesha2_error + mc_address" where
  "mc_address_create ns_val epr = create_in (\<lambda>_. True) (\<lambda>ns. \<lparr>ma_epr = epr, ma_ns = ns\<rparr>) ns_val"

definition mc_address_from_om_node :: "'n om_api \<Rightarrow> mc_address \<Rightarrow> 'n \<Rightarrow> mc_address \<times> om_result" where
  "mc_address_from_om_node om a node =
     (case child_text om node WSA_ADDRESS (ma_ns a) of
        Inl r \<Rightarrow> (a, r)
      | Inr str_address \<Rightarrow>
          if str_address = '''' then (a, om_fails ERROR_EMPTY_OM_ELEMENT)
          else (a\<lparr>ma_epr := Some (Some str_address)\<rparr>, Om_Success))"

definition mc_address_to_om_node :: "'n om_api \<Rightarrow> mc_address \<Rightarrow> 'n \<Rightarrow> 'n \<times> om_result" where
  "mc_address_to_om_node om a node =
     (if ma_epr a = None \<or> no_text (the (ma_epr a)) then (node, om_fails ERROR_TO_OM_NULL_ELEMENT)
      else (om_add_child om (text_element om WSMC_ADDRESS (ma_ns a) WSMC_PREFIX (the (the (ma_epr a)))) node, Om_Success))"

end
