(* ===== verification/Wsrm_Elements.thy ===== *)
theory Wsrm_Elements
  imports Wsrm_Parts
begin

text \<open>
  The WS-ReliableMessaging elements with parts of their own, \<open>src/wsrm\<close>: endpoints and offers, the messages
  that create, close and terminate a sequence, and the headers of application messages and
  acknowledgements.  A reader that gives up keeps the parts it has read; what the callers do with
  the struct then is in the theory \<open>Rm_Elements\<close>.  A writer that builds a new element adds
  it to its parent at the end; a header block is in the header from the start, so a writer that gives
  up leaves it there.
\<close>

section \<open>Endpoints\<close>

text \<open>The reference parameters are nodes of the document that was read.\<close>

record 'n acks_to_t =
  at_address :: "address option"
  at_ref_params :: "'n list option"
  at_rm_ns :: string
  at_addr_ns :: string

definition acks_to_create :: "address option \<Rightarrow> cstr \<Rightarrow> cstr \<Rightarrow> sandesha2_error + 'n acks_to_t" where
  "acks_to_create addr rm_ns_val addr_ns_val =
     (case addr_ns_val of
        None \<Rightarrow> Inl AXIS2_ERROR_INVALID_NULL_PARAM
      | Some a \<Rightarrow> create_in both_namespaces_supported
          (\<lambda>ns. \<lparr>at_address = addr, at_ref_params = None, at_rm_ns = ns, at_addr_ns = a\<rparr>) rm_ns_val)"

definition acks_to_add_ref_param :: "'n acks_to_t \<Rightarrow> 'n \<Rightarrow> 'n acks_to_t" where
  "acks_to_add_ref_param a node =
     a\<lparr>at_ref_params := Some ((case at_ref_params a of None \<Rightarrow> [] | Some l \<Rightarrow> l) @ [node])\<rparr>"

definition acks_to_from_om_node :: "'n om_api \<Rightarrow> 'n acks_to_t \<Rightarrow> 'n \<Rightarrow> 'n acks_to_t \<times> om_result" where
  "acks_to_from_om_node om a node =
     (if \<not> om_is_element om node then (a, om_fails ERROR_NULL_OM_ELEMENT)
      else case om_first_child om node WSRM_ACKS_TO (at_rm_ns a) of
        None \<Rightarrow> (a, om_fails ERROR_NULL_OM_ELEMENT)
      | Some acks_to_node \<Rightarrow>
          (case address_create (Some (at_addr_ns a)) None of
             Inl e \<Rightarrow> (a\<lparr>at_address := None\<rparr>, om_fails e)
           | Inr new \<Rightarrow>
               (let (addr, r) = address_from_om_node om new acks_to_node;
                    b = a\<lparr>at_address := Some addr\<rparr>
                in if r \<noteq> Om_Success then (b, Om_Null (om_error r))
                   else case om_first_child om acks_to_node EPR_REFERENCE_PARAMETERS (at_addr_ns a) of
                          None \<Rightarrow> (b, Om_Success)
                        | Some ref_params_node \<Rightarrow>
                            (foldl acks_to_add_ref_param b (om_elements om ref_params_node), Om_Success))))"

text \<open>The reference parameters are written beside the element, not into it.\<close>

definition acks_to_to_om_node :: "'n om_api \<Rightarrow> 'n acks_to_t \<Rightarrow> 'n \<Rightarrow> 'n \<times> om_result" where
  "acks_to_to_om_node om a node =
     (case at_address a of
        None \<Rightarrow> (node, om_fails ERROR_TO_OM_NULL_ELEMENT)
      | Some addr \<Rightarrow>
          (let (at_node, r) = address_to_om_node om addr (om_create om WSRM_ACKS_TO (at_rm_ns a) WSRM_PREFIX);
               node' = om_add_child om at_node node
           in (foldl (\<lambda>n p. om_add_child om p n) node' (case at_ref_params a of None \<Rightarrow> [] | Some l \<Rightarrow> l), Om_Success)))"

record 'n accept_t =
  ac_acks_to :: "'n acks_to_t option"
  ac_rm_ns :: string
  ac_addr_ns :: string

definition accept_create :: "cstr \<Rightarrow> cstr \<Rightarrow> sandesha2_error + 'n accept_t" where
  "accept_create rm_ns_val addr_ns_val =
     (case addr_ns_val of
        None \<Rightarrow> Inl AXIS2_ERROR_INVALID_NULL_PARAM
      | Some a \<Rightarrow> create_in both_namespaces_supported
          (\<lambda>ns. \<lparr>ac_acks_to = None, ac_rm_ns = ns, ac_addr_ns = a\<rparr>) rm_ns_val)"

definition accept_from_om_node :: "'n om_api \<Rightarrow> 'n accept_t \<Rightarrow> 'n \<Rightarrow> 'n accept_t \<times> om_result" where
  "accept_from_om_node om a node =
     (if \<not> om_is_element om node then (a, om_fails ERROR_NULL_OM_ELEMENT)
      else case om_first_child om node WSRM_ACCEPT (ac_rm_ns a) of
        None \<Rightarrow> (a, om_fails ERROR_NULL_OM_ELEMENT)
      | Some child_om_node \<Rightarrow>
          (case acks_to_create None (Some (ac_rm_ns a)) (Some (ac_addr_ns a)) of
             Inl e \<Rightarrow> (a\<lparr>ac_acks_to := None\<rparr>, om_fails e)
           | Inr new \<Rightarrow>
               (let (acks_to, r) = acks_to_from_om_node om new child_om_node
                in (a\<lparr>ac_acks_to := Some acks_to\<rparr>, r))))"

definition accept_to_om_node :: "'n om_api \<Rightarrow> 'n accept_t \<Rightarrow> 'n \<Rightarrow> 'n \<times> om_result" where
  "accept_to_om_node om a node =
     (case ac_acks_to a of
        None \<Rightarrow> (node, om_fails ERROR_TO_OM_NULL_ELEMENT)
      | Some acks_to \<Rightarrow>
          (let (accept_node, r) = acks_to_to_om_node om acks_to (om_create om WSRM_ACCEPT (ac_rm_ns a) WSRM_PREFIX)
           in (om_add_child om accept_node node, Om_Success)))"

record endpoint =
  ep_address :: "address option"
  ep_rm_ns :: string
  ep_addr_ns :: string

definition endpoint_create :: "address option \<Rightarrow> cstr \<Rightarrow> cstr \<Rightarrow> sandesha2_error + endpoint" where
  "endpoint_create addr rm_ns_val addr_ns_val =
     (case addr_ns_val of
        None \<Rightarrow> Inl AXIS2_ERROR_INVALID_NULL_PARAM
      | Some a \<Rightarrow> create_in both_namespaces_supported
          (\<lambda>ns. \<lparr>ep_address = addr, ep_rm_ns = ns, ep_addr_ns = a\<rparr>) rm_ns_val)"

definition endpoint_from_om_node :: "'n om_api \<Rightarrow> endpoint \<Rightarrow> 'n \<Rightarrow> endpoint \<times> om_result" where
  "endpoint_from_om_node om p node =
     (if \<not> om_is_element om node then (p, om_fails ERROR_NULL_OM_ELEMENT)
      else case om_first_child om node WSRM_ENDPOINT (ep_rm_ns p) of
        None \<Rightarrow> (p, Om_Null None)
      | Some endpoint_node \<Rightarrow>
          (case address_create (Some (ep_addr_ns p)) None of
             Inl e \<Rightarrow> (p\<lparr>ep_address := None\<rparr>, om_fails e)
           | Inr new \<Rightarrow>
               (let (addr, r) = address_from_om_node om new endpoint_node
                in (p\<lparr>ep_address := Some addr\<rparr>, r))))"

definition endpoint_to_om_node :: "'n om_api \<Rightarrow> endpoint \<Rightarrow> 'n \<Rightarrow> 'n \<times> om_result" where
  "endpoint_to_om_node om p node =
     (case ep_address p of
        None \<Rightarrow> (node, om_fails ERROR_TO_OM_NULL_ELEMENT)
      | Some addr \<Rightarrow>
          (let (at_node, r) = address_to_om_node om addr (om_create om WSRM_ENDPOINT (ep_rm_ns p) WSRM_PREFIX)
           in (om_add_child om at_node node, Om_Success)))"

section \<open>Creating a sequence\<close>

record seq_offer =
  so_identifier :: "identifier_t option"
  so_endpoint :: "endpoint option"
  so_expires :: "expires option"
  so_ns :: string
  so_addr_ns :: string

definition seq_offer_create :: "cstr \<Rightarrow> cstr \<Rightarrow> sandesha2_error + seq_offer" where
  "seq_offer_create ns_val addr_ns_val =
     (case addr_ns_val of
        None \<Rightarrow> Inl AXIS2_ERROR_INVALID_NULL_PARAM
      | Some a \<Rightarrow> create_in both_namespaces_supported
          (\<lambda>ns. \<lparr>so_identifier = None, so_endpoint = None, so_expires = None, so_ns = ns, so_addr_ns = a\<rparr>) ns_val)"

text \<open>The duration of an offer is looked for inside the Expires element.\<close>

definition seq_offer_from_om_node :: "'n om_api \<Rightarrow> seq_offer \<Rightarrow> 'n \<Rightarrow> seq_offer \<times> om_result" where
  "seq_offer_from_om_node om s node =
     (if \<not> om_is_element om node then (s, om_fails ERROR_NULL_OM_ELEMENT)
      else case om_first_child om node WSRM_SEQ_OFFER (so_ns s) of
        None \<Rightarrow> (s, om_fails ERROR_NULL_OM_ELEMENT)
      | Some so_node \<Rightarrow>
          (case identifier_create (Some (so_ns s)) of
             Inl e \<Rightarrow> (s\<lparr>so_identifier := None\<rparr>, om_fails e)
           | Inr i \<Rightarrow>
          (let s = s\<lparr>so_identifier := Some (fst (identifier_from_om_node om i so_node))\<rparr>
           in case endpoint_create None (Some (so_ns s)) (Some (so_addr_ns s)) of
                Inl e \<Rightarrow> (s\<lparr>so_endpoint := None\<rparr>, om_fails e)
              | Inr p \<Rightarrow>
          (let s = s\<lparr>so_endpoint := Some (fst (endpoint_from_om_node om p so_node))\<rparr>
           in case om_first_child om so_node WSRM_EXPIRES (so_ns s) of
                None \<Rightarrow> (s, Om_Success)
              | Some exp_node \<Rightarrow>
                  (case expires_create (Some (so_ns s)) of
                     Inl e \<Rightarrow> (s\<lparr>so_expires := None\<rparr>, om_fails e)
                   | Inr x \<Rightarrow> (s\<lparr>so_expires := Some (fst (expires_from_om_node om x exp_node))\<rparr>, Om_Success))))))"

text \<open>
  With a duration the code calls this writer on the duration, as if it were an offer: it
  reads the memory of another struct.  The result is \<open>None\<close> then.
\<close>

definition seq_offer_to_om_node :: "'n om_api \<Rightarrow> seq_offer \<Rightarrow> 'n \<Rightarrow> ('n \<times> om_result) option" where
  "seq_offer_to_om_node om s node =
     (case so_identifier s of
        None \<Rightarrow> Some (node, om_fails ERROR_TO_OM_NULL_ELEMENT)
      | Some i \<Rightarrow>
          (let (n1, r1) = identifier_to_om_node om i (om_create om WSRM_SEQ_OFFER (so_ns s) WSRM_PREFIX);
               n2 = (case so_endpoint s of None \<Rightarrow> n1 | Some p \<Rightarrow> fst (endpoint_to_om_node om p n1))
           in if so_expires s \<noteq> None then None
              else Some (om_add_child om n2 node, Om_Success)))"

record 'n create_seq_t =
  cs_acks_to :: "'n acks_to_t option"
  cs_expires :: "expires option"
  cs_seq_offer :: "seq_offer option"
  cs_rm_ns :: string
  cs_addr_ns :: string

definition create_seq_create :: "cstr \<Rightarrow> cstr \<Rightarrow> sandesha2_error + 'n create_seq_t" where
  "create_seq_create addr_ns_val rm_ns_val =
     (case addr_ns_val of
        None \<Rightarrow> Inl AXIS2_ERROR_INVALID_NULL_PARAM
      | Some a \<Rightarrow> create_in both_namespaces_supported
          (\<lambda>ns. \<lparr>cs_acks_to = None, cs_expires = None, cs_seq_offer = None, cs_rm_ns = ns, cs_addr_ns = a\<rparr>) rm_ns_val)"

text \<open>An optional child: absent, or read into a new struct in place of the old one.\<close>

definition read_optional ::
  "'n om_api \<Rightarrow> 'n \<Rightarrow> string \<Rightarrow> string \<Rightarrow> 'p option \<Rightarrow> (sandesha2_error + 'p) \<Rightarrow> ('p \<Rightarrow> 'n \<Rightarrow> 'p \<times> om_result) \<Rightarrow> ('p option \<times> om_result)" where
  "read_optional om node local ns old new from_node =
     (case om_first_child om node local ns of
        None \<Rightarrow> (old, Om_Success)
      | Some part \<Rightarrow>
          (case new of
             Inl e \<Rightarrow> (None, om_fails e)
           | Inr p \<Rightarrow> (let (q, r) = from_node p node in (Some q, r))))"

definition create_seq_from_om_node :: "'n om_api \<Rightarrow> 'n create_seq_t \<Rightarrow> 'n \<Rightarrow> 'n create_seq_t \<times> om_result" where
  "create_seq_from_om_node om c node =
     (if \<not> om_is_element om node then (c, om_fails ERROR_NULL_OM_ELEMENT)
      else case acks_to_create None (Some (cs_rm_ns c)) (Some (cs_addr_ns c)) of
        Inl e \<Rightarrow> (c\<lparr>cs_acks_to := None\<rparr>, om_fails e)
      | Inr new \<Rightarrow>
          (let (a, r) = acks_to_from_om_node om new node; c = c\<lparr>cs_acks_to := Some a\<rparr>
           in if r \<noteq> Om_Success then (c, Om_Null (om_error r))
              else let (s, r) = read_optional om node WSRM_SEQ_OFFER (cs_rm_ns c) (cs_seq_offer c)
                       (seq_offer_create (Some (cs_rm_ns c)) (Some (cs_addr_ns c))) (seq_offer_from_om_node om);
                       c = c\<lparr>cs_seq_offer := s\<rparr>
                   in if r \<noteq> Om_Success then (c, Om_Null (om_error r))
                      else let (x, r) = read_optional om node WSRM_EXPIRES (cs_rm_ns c) (cs_expires c)
                               (expires_create (Some (cs_rm_ns c))) (expires_from_om_node om)
                           in (c\<lparr>cs_expires := x\<rparr>, r)))"

definition create_seq_to_om_node :: "'n om_api \<Rightarrow> 'n create_seq_t \<Rightarrow> 'n \<Rightarrow> ('n \<times> om_result) option" where
  "create_seq_to_om_node om c node =
     (case cs_acks_to c of
        None \<Rightarrow> Some (node, om_fails ERROR_TO_OM_NULL_ELEMENT)
      | Some a \<Rightarrow>
          (let n1 = fst (acks_to_to_om_node om a (om_create om WSRM_CREATE_SEQ (cs_rm_ns c) WSRM_PREFIX));
               n2 = (case cs_expires c of None \<Rightarrow> n1 | Some x \<Rightarrow> fst (expires_to_om_node om x n1))
           in case (case cs_seq_offer c of None \<Rightarrow> Some n2 | Some s \<Rightarrow> map_option fst (seq_offer_to_om_node om s n2)) of
                None \<Rightarrow> None
              | Some n3 \<Rightarrow> Some (om_add_child om n3 node, Om_Success)))"

record 'n create_seq_res_t =
  cr_identifier_t :: "identifier_t option"
  cr_accept_t :: "'n accept_t option"
  cr_expires :: "expires option"
  cr_rm_ns :: string
  cr_addr_ns :: string

definition create_seq_res_create :: "cstr \<Rightarrow> cstr \<Rightarrow> sandesha2_error + 'n create_seq_res_t" where
  "create_seq_res_create rm_ns_val addr_ns_val =
     (case addr_ns_val of
        None \<Rightarrow> Inl AXIS2_ERROR_INVALID_NULL_PARAM
      | Some a \<Rightarrow> create_in both_namespaces_supported
          (\<lambda>ns. \<lparr>cr_identifier_t = None, cr_accept_t = None, cr_expires = None, cr_rm_ns = ns, cr_addr_ns = a\<rparr>) rm_ns_val)"

definition create_seq_res_from_om_node ::
  "'n om_api \<Rightarrow> 'n create_seq_res_t \<Rightarrow> 'n \<Rightarrow> 'n create_seq_res_t \<times> om_result" where
  "create_seq_res_from_om_node om c node =
     (if \<not> om_is_element om node then (c, om_fails ERROR_NULL_OM_ELEMENT)
      else case identifier_create (Some (cr_rm_ns c)) of
        Inl e \<Rightarrow> (c\<lparr>cr_identifier_t := None\<rparr>, om_fails e)
      | Inr new \<Rightarrow>
          (let (i, r) = identifier_from_om_node om new node; c = c\<lparr>cr_identifier_t := Some i\<rparr>
           in if r \<noteq> Om_Success then (c, Om_Null (om_error r))
              else let (x, r) = read_optional om node WSRM_EXPIRES (cr_rm_ns c) (cr_expires c)
                       (expires_create (Some (cr_rm_ns c))) (expires_from_om_node om);
                       c = c\<lparr>cr_expires := x\<rparr>
                   in if r \<noteq> Om_Success then (c, Om_Null (om_error r))
                      else let (a, r) = read_optional om node WSRM_ACCEPT (cr_rm_ns c) (cr_accept_t c)
                               (accept_create (Some (cr_rm_ns c)) (Some (cr_addr_ns c))) (accept_from_om_node om)
                           in (c\<lparr>cr_accept_t := a\<rparr>, r)))"

definition create_seq_res_to_om_node :: "'n om_api \<Rightarrow> 'n create_seq_res_t \<Rightarrow> 'n \<Rightarrow> 'n \<times> om_result" where
  "create_seq_res_to_om_node om c node =
     (case cr_identifier_t c of
        None \<Rightarrow> (node, om_fails ERROR_TO_OM_NULL_ELEMENT)
      | Some i \<Rightarrow>
          (let n1 = fst (identifier_to_om_node om i (om_create om WSRM_CREATE_SEQ_RESPONSE (cr_rm_ns c) WSRM_PREFIX));
               n2 = (case cr_accept_t c of None \<Rightarrow> n1 | Some a \<Rightarrow> fst (accept_to_om_node om a n1));
               n3 = (case cr_expires c of None \<Rightarrow> n2 | Some x \<Rightarrow> fst (expires_to_om_node om x n2))
           in (om_add_child om n3 node, Om_Success)))"

section \<open>Closing and terminating a sequence\<close>

record close_seq_t =
  cl_identifier :: "identifier_t option"
  cl_last_msg_number :: "last_msg_number option"
  cl_ns :: string

definition close_seq_create :: "cstr \<Rightarrow> sandesha2_error + close_seq_t" where
  "close_seq_create = create_in second_namespace_supported
     (\<lambda>ns. \<lparr>cl_identifier = None, cl_last_msg_number = None, cl_ns = ns\<rparr>)"

text \<open>The number of the last message is required when reading and optional when writing.\<close>

definition close_seq_from_om_node :: "'n om_api \<Rightarrow> close_seq_t \<Rightarrow> 'n \<Rightarrow> close_seq_t \<times> om_result" where
  "close_seq_from_om_node om c node =
     (if \<not> om_is_element om node then (c, om_fails ERROR_NULL_OM_ELEMENT)
      else case identifier_create (Some (cl_ns c)) of
        Inl e \<Rightarrow> (c\<lparr>cl_identifier := None\<rparr>, om_fails e)
      | Inr new \<Rightarrow>
          (let (i, r) = identifier_from_om_node om new node; c = c\<lparr>cl_identifier := Some i\<rparr>
           in if r \<noteq> Om_Success then (c, Om_Null (om_error r))
              else case last_msg_number_create (Some (cl_ns c)) of
                Inl e \<Rightarrow> (c\<lparr>cl_last_msg_number := None\<rparr>, om_fails e)
              | Inr new \<Rightarrow>
                  (let (l, r) = last_msg_number_from_om_node om new node
                   in (c\<lparr>cl_last_msg_number := Some l\<rparr>, r))))"

definition close_seq_to_om_node :: "'n om_api \<Rightarrow> close_seq_t \<Rightarrow> 'n \<Rightarrow> 'n \<times> om_result" where
  "close_seq_to_om_node om c node =
     (case cl_identifier c of
        None \<Rightarrow> (node, om_fails ERROR_TO_OM_NULL_ELEMENT)
      | Some i \<Rightarrow>
          (let n1 = fst (identifier_to_om_node om i (om_create om WSRM_CLOSE_SEQ (cl_ns c) WSRM_PREFIX));
               n2 = (case cl_last_msg_number c of None \<Rightarrow> n1 | Some l \<Rightarrow> fst (last_msg_number_to_om_node om l n1))
           in (om_add_child om n2 node, Om_Success)))"

record close_seq_res_t =
  clr_identifier :: "identifier_t option"
  clr_ns :: string

definition close_seq_res_create :: "cstr \<Rightarrow> sandesha2_error + close_seq_res_t" where
  "close_seq_res_create = create_in second_namespace_supported (\<lambda>ns. \<lparr>clr_identifier = None, clr_ns = ns\<rparr>)"

definition close_seq_res_from_om_node :: "'n om_api \<Rightarrow> close_seq_res_t \<Rightarrow> 'n \<Rightarrow> close_seq_res_t \<times> om_result" where
  "close_seq_res_from_om_node om c node =
     (if \<not> om_is_element om node then (c, om_fails ERROR_NULL_OM_ELEMENT)
      else case identifier_create (Some (clr_ns c)) of
        Inl e \<Rightarrow> (c\<lparr>clr_identifier := None\<rparr>, om_fails e)
      | Inr new \<Rightarrow> (let (i, r) = identifier_from_om_node om new node in (c\<lparr>clr_identifier := Some i\<rparr>, r)))"

definition close_seq_res_to_om_node :: "'n om_api \<Rightarrow> close_seq_res_t \<Rightarrow> 'n \<Rightarrow> 'n \<times> om_result" where
  "close_seq_res_to_om_node om c node =
     (case clr_identifier c of
        None \<Rightarrow> (node, om_fails ERROR_TO_OM_NULL_ELEMENT)
      | Some i \<Rightarrow>
          (om_add_child om (fst (identifier_to_om_node om i (om_create om WSRM_CLOSE_SEQ_RESPONSE (clr_ns c) WSRM_PREFIX))) node,
           Om_Success))"

record terminate_seq_t =
  te_identifier :: "identifier_t option"
  te_last_msg_number :: "last_msg_number option"
  te_ns :: string

definition terminate_seq_create :: "cstr \<Rightarrow> sandesha2_error + terminate_seq_t" where
  "terminate_seq_create = create_in both_namespaces_supported
     (\<lambda>ns. \<lparr>te_identifier = None, te_last_msg_number = None, te_ns = ns\<rparr>)"

definition terminate_seq_from_om_node :: "'n om_api \<Rightarrow> terminate_seq_t \<Rightarrow> 'n \<Rightarrow> terminate_seq_t \<times> om_result" where
  "terminate_seq_from_om_node om t node =
     (if \<not> om_is_element om node then (t, om_fails ERROR_NULL_OM_ELEMENT)
      else case identifier_create (Some (te_ns t)) of
        Inl e \<Rightarrow> (t\<lparr>te_identifier := None\<rparr>, om_fails e)
      | Inr new \<Rightarrow>
          (let t = t\<lparr>te_identifier := Some (fst (identifier_from_om_node om new node))\<rparr>
           in case last_msg_number_create (Some (te_ns t)) of
                Inl e \<Rightarrow> (t\<lparr>te_last_msg_number := None\<rparr>, om_fails e)
              | Inr new \<Rightarrow> (t\<lparr>te_last_msg_number := Some (fst (last_msg_number_from_om_node om new node))\<rparr>, Om_Success)))"

definition terminate_seq_to_om_node :: "'n om_api \<Rightarrow> terminate_seq_t \<Rightarrow> 'n \<Rightarrow> 'n \<times> om_result" where
  "terminate_seq_to_om_node om t node =
     (case te_identifier t of
        None \<Rightarrow> (node, om_fails ERROR_TO_OM_NULL_ELEMENT)
      | Some i \<Rightarrow>
          (let n1 = fst (identifier_to_om_node om i (om_create om WSRM_TERMINATE_SEQ (te_ns t) WSRM_PREFIX));
               n2 = (case te_last_msg_number t of None \<Rightarrow> n1 | Some l \<Rightarrow> fst (last_msg_number_to_om_node om l n1))
           in (om_add_child om n2 node, Om_Success)))"

record terminate_seq_res_t =
  ter_identifier :: "identifier_t option"
  ter_ns :: string

definition terminate_seq_res_create :: "cstr \<Rightarrow> sandesha2_error + terminate_seq_res_t" where
  "terminate_seq_res_create = create_in second_namespace_supported (\<lambda>ns. \<lparr>ter_identifier = None, ter_ns = ns\<rparr>)"

definition terminate_seq_res_from_om_node ::
  "'n om_api \<Rightarrow> terminate_seq_res_t \<Rightarrow> 'n \<Rightarrow> terminate_seq_res_t \<times> om_result" where
  "terminate_seq_res_from_om_node om t node =
     (if \<not> om_is_element om node then (t, om_fails ERROR_NULL_OM_ELEMENT)
      else case identifier_create (Some (ter_ns t)) of
        Inl e \<Rightarrow> (t\<lparr>ter_identifier := None\<rparr>, om_fails e)
      | Inr new \<Rightarrow> (t\<lparr>ter_identifier := Some (fst (identifier_from_om_node om new node))\<rparr>, Om_Success))"

definition terminate_seq_res_to_om_node :: "'n om_api \<Rightarrow> terminate_seq_res_t \<Rightarrow> 'n \<Rightarrow> 'n \<times> om_result" where
  "terminate_seq_res_to_om_node om t node =
     (case ter_identifier t of
        None \<Rightarrow> (node, om_fails ERROR_TO_OM_NULL_ELEMENT)
      | Some i \<Rightarrow>
          (om_add_child om (fst (identifier_to_om_node om i (om_create om WSRM_TERMINATE_SEQ_RESPONSE (ter_ns t) WSRM_PREFIX))) node,
           Om_Success))"

section \<open>Headers\<close>

text \<open>A header block is an element that is added to the header before it is filled.\<close>

record seq_t =
  sq_identifier_t :: "identifier_t option"
  sq_msg_num :: "msg_number option"
  sq_last_msg_t :: "last_msg option"
  sq_must_understand :: bool
  sq_ns :: string

definition seq_create :: "cstr \<Rightarrow> sandesha2_error + seq_t" where
  "seq_create = create_in both_namespaces_supported
     (\<lambda>ns. \<lparr>sq_identifier_t = None, sq_msg_num = None, sq_last_msg_t = None, sq_must_understand = True, sq_ns = ns\<rparr>)"

definition of_sum :: "'e + 'p \<Rightarrow> 'p option" where
  "of_sum s = (case s of Inl _ \<Rightarrow> None | Inr p \<Rightarrow> Some p)"

definition seq_clone :: "seq_t option \<Rightarrow> sandesha2_error + seq_t" where
  "seq_clone sequence =
     (case sequence of
        None \<Rightarrow> Inl AXIS2_ERROR_INVALID_NULL_PARAM
      | Some s \<Rightarrow>
          (case seq_create (Some (sq_ns s)) of
             Inl e \<Rightarrow> Inl e
           | Inr n \<Rightarrow> Inr (n\<lparr>sq_identifier_t := of_sum (identifier_clone (sq_identifier_t s)),
                             sq_msg_num := of_sum (msg_number_clone (sq_msg_num s)),
                             sq_last_msg_t := of_sum (last_msg_clone (sq_last_msg_t s))\<rparr>)))"

text \<open>The identifier and the number may be unreadable: the results of their readers are not looked at.\<close>

definition seq_from_om_node :: "'n om_api \<Rightarrow> seq_t \<Rightarrow> 'n \<Rightarrow> seq_t \<times> om_result" where
  "seq_from_om_node om s node =
     (if \<not> om_is_element om node then (s, om_fails ERROR_NULL_OM_ELEMENT)
      else case identifier_create (Some (sq_ns s)) of
        Inl e \<Rightarrow> (s\<lparr>sq_identifier_t := None\<rparr>, om_fails e)
      | Inr i \<Rightarrow>
          (let s = s\<lparr>sq_identifier_t := Some (fst (identifier_from_om_node om i node))\<rparr>
           in case msg_number_create (Some (sq_ns s)) of
                Inl e \<Rightarrow> (s\<lparr>sq_msg_num := None\<rparr>, om_fails e)
              | Inr m \<Rightarrow>
                  (let s = s\<lparr>sq_msg_num := Some (fst (msg_number_from_om_node om m node))\<rparr>
                   in case om_first_child om node WSRM_LAST_MSG (sq_ns s) of
                        None \<Rightarrow> (s, Om_Success)
                      | Some lm_node \<Rightarrow>
                          (case last_msg_create (Some (sq_ns s)) of
                             Inl e \<Rightarrow> (s\<lparr>sq_last_msg_t := None\<rparr>, om_fails e)
                           | Inr l \<Rightarrow> (s\<lparr>sq_last_msg_t := Some (fst (last_msg_from_om_node om l lm_node))\<rparr>, Om_Success)))))"

definition seq_to_om_node :: "'n om_api \<Rightarrow> seq_t \<Rightarrow> 'n \<Rightarrow> 'n \<times> om_result" where
  "seq_to_om_node om s header =
     (case (sq_identifier_t s, sq_msg_num s) of
        (Some i, Some m) \<Rightarrow>
          (let n0 = om_must_understand om (sq_must_understand s) (om_create om WSRM_SEQ (sq_ns s) WSRM_PREFIX);
               n1 = fst (identifier_to_om_node om i n0);
               n2 = fst (msg_number_to_om_node om m n1);
               n3 = (case sq_last_msg_t s of None \<Rightarrow> n2 | Some l \<Rightarrow> fst (last_msg_to_om_node om l n2))
           in (om_add_child om n3 header, Om_Success))
      | _ \<Rightarrow> (header, om_fails ERROR_TO_OM_NULL_ELEMENT))"

record seq_ack_t =
  sk_identifier_t :: "identifier_t option"
  sk_ack_range_list :: "ack_range list"
  sk_nack_list :: "nack list"
  sk_ack_none :: "ack_none option"
  sk_ack_final :: "ack_final option"
  sk_must_understand :: bool
  sk_ns :: string

definition seq_ack_create :: "cstr \<Rightarrow> sandesha2_error + seq_ack_t" where
  "seq_ack_create = create_in both_namespaces_supported
     (\<lambda>ns. \<lparr>sk_identifier_t = None, sk_ack_range_list = [], sk_nack_list = [], sk_ack_none = None, sk_ack_final = None,
            sk_must_understand = False, sk_ns = ns\<rparr>)"

text \<open>The ranges that can be read, in their order.\<close>

fun read_ranges :: "'n om_api \<Rightarrow> string \<Rightarrow> 'n list \<Rightarrow> sandesha2_error + ack_range list" where
  "read_ranges om ns [] = Inr []"
| "read_ranges om ns (node # nodes) =
     (case ack_range_create (Some ns) of
        Inl e \<Rightarrow> Inl e
      | Inr new \<Rightarrow>
          (case read_ranges om ns nodes of
             Inl e \<Rightarrow> Inl e
           | Inr rs \<Rightarrow> (let (r, res) = ack_range_from_om_node om new node in Inr (if res = Om_Success then r # rs else rs))))"

text \<open>A nack is added whether it could be read or not.\<close>

fun read_nacks :: "'n om_api \<Rightarrow> string \<Rightarrow> 'n list \<Rightarrow> sandesha2_error + nack list" where
  "read_nacks om ns [] = Inr []"
| "read_nacks om ns (node # nodes) =
     (case nack_create (Some ns) of
        Inl e \<Rightarrow> Inl e
      | Inr new \<Rightarrow>
          (case read_nacks om ns nodes of
             Inl e \<Rightarrow> Inl e
           | Inr ks \<Rightarrow> Inr (fst (nack_from_om_node om new node) # ks)))"

text \<open>Whether the version of a namespace allows a part.\<close>

definition allowed_in :: "(cstr \<Rightarrow> sandesha2_error + bool) \<Rightarrow> string \<Rightarrow> bool" where
  "allowed_in is_allowed ns \<longleftrightarrow> is_allowed (of_sum (get_spec_ver_str (Some ns))) = Inr True"

text \<open>An optional mark, read when the namespace allows it.\<close>

definition read_mark ::
  "'n om_api \<Rightarrow> 'n \<Rightarrow> bool \<Rightarrow> string \<Rightarrow> string \<Rightarrow> 'p option \<Rightarrow> (sandesha2_error + 'p) \<Rightarrow> ('p \<Rightarrow> 'n \<Rightarrow> 'p \<times> om_result)
     \<Rightarrow> 'p option \<times> om_result" where
  "read_mark om node is_allowed local ns old new from_node =
     (if \<not> is_allowed then (old, Om_Success)
      else case om_first_child om node local ns of
             None \<Rightarrow> (old, Om_Success)
           | Some part \<Rightarrow>
               (case new of Inl e \<Rightarrow> (None, om_fails e) | Inr p \<Rightarrow> (Some (fst (from_node p node)), Om_Success)))"

definition seq_ack_from_om_node :: "'n om_api \<Rightarrow> seq_ack_t \<Rightarrow> 'n \<Rightarrow> seq_ack_t \<times> om_result" where
  "seq_ack_from_om_node om s node =
     (if \<not> om_is_element om node then (s, om_fails ERROR_NULL_OM_ELEMENT)
      else case identifier_create (Some (sk_ns s)) of
        Inl e \<Rightarrow> (s\<lparr>sk_identifier_t := None\<rparr>, om_fails e)
      | Inr i \<Rightarrow>
          (let s = s\<lparr>sk_identifier_t := Some (fst (identifier_from_om_node om i node))\<rparr>
           in case read_ranges om (sk_ns s) (om_children om node WSRM_ACK_RANGE (sk_ns s)) of
                Inl e \<Rightarrow> (s, om_fails e)
              | Inr rs \<Rightarrow>
          (let s = s\<lparr>sk_ack_range_list := sk_ack_range_list s @ rs\<rparr>
           in case read_nacks om (sk_ns s) (om_children om node WSRM_NACK (sk_ns s)) of
                Inl e \<Rightarrow> (s, om_fails e)
              | Inr ks \<Rightarrow>
          (let s = s\<lparr>sk_nack_list := sk_nack_list s @ ks\<rparr>;
               (f, r) = read_mark om node (allowed_in is_ack_final_allowed (sk_ns s)) WSRM_FINAL (sk_ns s)
                   (sk_ack_final s) (ack_final_create (Some (sk_ns s))) (ack_final_from_om_node om);
               s = s\<lparr>sk_ack_final := f\<rparr>
           in if r \<noteq> Om_Success then (s, r)
              else let (n, r) = read_mark om node (allowed_in is_ack_none_allowed (sk_ns s)) WSRM_NONE (sk_ns s)
                       (sk_ack_none s) (ack_none_create (Some (sk_ns s))) (ack_none_from_om_node om)
                   in (s\<lparr>sk_ack_none := n\<rparr>, r)))))"

text \<open>
  The writer: an acknowledgement of nothing gets a None where the version has one.  A None with a
  range or a nack, and a Final with a nack, are refused, and what was written before stays in the header.
\<close>

definition seq_ack_to_om_node :: "'n om_api \<Rightarrow> seq_ack_t \<Rightarrow> 'n \<Rightarrow> 'n \<times> om_result" where
  "seq_ack_to_om_node om s header =
     (let n0 = om_create om WSRM_SEQ_ACK (sk_ns s) WSRM_PREFIX
      in case sk_identifier_t s of
           None \<Rightarrow> (om_add_child om n0 header, om_fails ERROR_TO_OM_NULL_ELEMENT)
         | Some i \<Rightarrow>
             (let n1 = fst (identifier_to_om_node om i (om_must_understand om (sk_must_understand s) n0));
                  n2 = foldl (\<lambda>n r. fst (ack_range_to_om_node om r n)) n1 (sk_ack_range_list s);
                  n3 = foldl (\<lambda>n k. fst (nack_to_om_node om k n)) n2 (sk_nack_list s);
                  nothing = (sk_ack_range_list s = [] \<and> sk_nack_list s = []);
                  none_allowed = allowed_in is_ack_none_allowed (sk_ns s);
                  none = (if sk_ack_none s = None \<and> nothing \<and> none_allowed
                          then of_sum (ack_none_create (Some (sk_ns s))) else sk_ack_none s)
              in if sk_ack_none s = None \<and> nothing \<and> none_allowed \<and> none = None
                 then (om_add_child om n3 header, om_fails ERROR_UNSUPPORTED_NS)
                 else if none \<noteq> None \<and> (\<not> none_allowed \<or> \<not> nothing)
                 then (om_add_child om n3 header, om_fails ERROR_ACK_NONE_NOT_ALLOWED)
                 else let n4 = (case none of None \<Rightarrow> n3 | Some a \<Rightarrow> fst (ack_none_to_om_node om a n3))
                      in case sk_ack_final s of
                           None \<Rightarrow> (om_add_child om n4 header, Om_Success)
                         | Some f \<Rightarrow>
                             if \<not> allowed_in is_ack_final_allowed (sk_ns s) \<or> sk_nack_list s \<noteq> []
                             then (om_add_child om n4 header, om_fails ERROR_ACK_FINAL_NOT_ALLOWED)
                             else (om_add_child om (fst (ack_final_to_om_node om f n4)) header, Om_Success)))"

record ack_requested_t =
  arq_identifier :: "identifier_t option"
  arq_msg_num :: "msg_number option"
  arq_must_understand :: bool
  arq_ns :: string

definition ack_requested_create :: "cstr \<Rightarrow> sandesha2_error + ack_requested_t" where
  "ack_requested_create = create_in both_namespaces_supported
     (\<lambda>ns. \<lparr>arq_identifier = None, arq_msg_num = None, arq_must_understand = False, arq_ns = ns\<rparr>)"

definition ack_requested_from_om_node :: "'n om_api \<Rightarrow> ack_requested_t \<Rightarrow> 'n \<Rightarrow> ack_requested_t \<times> om_result" where
  "ack_requested_from_om_node om a node =
     (if \<not> om_is_element om node then (a, om_fails ERROR_NULL_OM_ELEMENT)
      else case identifier_create (Some (arq_ns a)) of
        Inl e \<Rightarrow> (a\<lparr>arq_identifier := None\<rparr>, om_fails e)
      | Inr new \<Rightarrow>
          (let (i, r) = identifier_from_om_node om new node; a = a\<lparr>arq_identifier := Some i\<rparr>
           in if r \<noteq> Om_Success then (a, Om_Null (om_error r))
              else let (m, r) = read_optional om node WSRM_MSG_NUMBER (arq_ns a) (arq_msg_num a)
                       (msg_number_create (Some (arq_ns a))) (msg_number_from_om_node om)
                   in (a\<lparr>arq_msg_num := m\<rparr>, r)))"

definition ack_requested_to_om_node :: "'n om_api \<Rightarrow> ack_requested_t \<Rightarrow> 'n \<Rightarrow> 'n \<times> om_result" where
  "ack_requested_to_om_node om a header =
     (case arq_identifier a of
        None \<Rightarrow> (header, om_fails ERROR_TO_OM_NULL_ELEMENT)
      | Some i \<Rightarrow>
          (let n0 = om_must_understand om (arq_must_understand a) (om_create om WSRM_ACK_REQUESTED (arq_ns a) WSRM_PREFIX);
               n1 = fst (identifier_to_om_node om i n0);
               n2 = (case arq_msg_num a of None \<Rightarrow> n1 | Some m \<Rightarrow> fst (msg_number_to_om_node om m n1))
           in (om_add_child om n2 header, Om_Success)))"

section \<open>Making a connection\<close>

record make_connection_t =
  mk_identifier :: "identifier_t option"
  mk_address :: "mc_address option"
  mk_ns :: string

definition make_connection_supported :: "string \<Rightarrow> bool" where
  "make_connection_supported ns =
     (if ns = SPEC_2005_02_NS_URI then False
      else if ns = SPEC_2007_02_NS_URI then False
      else if ns = MAKE_CONNECTION_SPEC_2007_02_NS_URI then True
      else False)"

definition make_connection_create :: "cstr \<Rightarrow> sandesha2_error + make_connection_t" where
  "make_connection_create = create_in make_connection_supported
     (\<lambda>ns. \<lparr>mk_identifier = None, mk_address = None, mk_ns = ns\<rparr>)"

text \<open>The identifier is created in the namespace of MakeConnection.\<close>

definition make_connection_from_om_node ::
  "'n om_api \<Rightarrow> make_connection_t \<Rightarrow> 'n \<Rightarrow> make_connection_t \<times> om_result" where
  "make_connection_from_om_node om k node =
     (if \<not> om_is_element om node then (k, om_fails ERROR_NULL_OM_ELEMENT)
      else let identifier_element = om_first_child om node WSRM_IDENTIFIER (mk_ns k);
               address_element = om_first_child om node WSA_ADDRESS (mk_ns k)
           in if identifier_element = None \<and> address_element = None
              then (k, om_fails ERROR_MAKE_CONNECTION_ELEMENT_SHOULD_HAVE_AT_LEAST_ADDRESS_OR_IDENTIFIER)
              else let (k, r) =
                     (if identifier_element = None then (k, Om_Success)
                      else case identifier_create (Some (mk_ns k)) of
                             Inl e \<Rightarrow> (k\<lparr>mk_identifier := None\<rparr>, om_fails e)
                           | Inr i \<Rightarrow> (k\<lparr>mk_identifier := Some (fst (identifier_from_om_node om i node))\<rparr>, Om_Success))
                   in if r \<noteq> Om_Success then (k, r)
                      else if address_element = None then (k, Om_Success)
                      else case mc_address_create (Some (mk_ns k)) None of
                             Inl e \<Rightarrow> (k\<lparr>mk_address := None\<rparr>, om_fails e)
                           | Inr a \<Rightarrow> (k\<lparr>mk_address := Some (fst (mc_address_from_om_node om a node))\<rparr>, Om_Success))"

definition make_connection_to_om_node :: "'n om_api \<Rightarrow> make_connection_t \<Rightarrow> 'n \<Rightarrow> 'n \<times> om_result" where
  "make_connection_to_om_node om k body =
     (if mk_identifier k = None \<and> mk_address k = None
      then (body, om_fails ERROR_INVALID_MAKE_CONNECTION_BOTH_IDENTIFER_AND_ADDRESS_NULL)
      else let n0 = om_create om WSRM_MAKE_CONNECTION (mk_ns k) WSMC_PREFIX;
               n1 = (case mk_identifier k of None \<Rightarrow> n0 | Some i \<Rightarrow> fst (identifier_to_om_node om i n0));
               n2 = (case mk_address k of None \<Rightarrow> n1 | Some a \<Rightarrow> fst (mc_address_to_om_node om a n1))
           in (om_add_child om n2 body, Om_Success))"

text \<open>
  MessagePending.  The reader sets error codes and leaves the struct as it is; the writer writes \<open>false\<close>
  whatever the struct says.  The third component is the error code that was set beside the
  result.  Without the attribute the code asks for the value of a null attribute: the result is \<open>None\<close>.
\<close>

record msg_pending_t =
  mp_pending :: bool
  mp_ns :: string

definition msg_pending_create :: "cstr \<Rightarrow> sandesha2_error + msg_pending_t" where
  "msg_pending_create = create_in second_namespace_supported (\<lambda>ns. \<lparr>mp_pending = True, mp_ns = ns\<rparr>)"

definition msg_pending_from_om_node ::
  "'n om_api \<Rightarrow> msg_pending_t \<Rightarrow> 'n \<Rightarrow> (msg_pending_t \<times> om_result \<times> sandesha2_error option) option" where
  "msg_pending_from_om_node om p node =
     (if \<not> om_is_element om node then Some (p, om_fails ERROR_NULL_OM_ELEMENT, Some ERROR_NULL_OM_ELEMENT)
      else case om_attribute om node WSRM_PENDING of
        None \<Rightarrow> None
      | Some v \<Rightarrow>
          Some (p, Om_Success,
                if v = AXIS2_VALUE_FALSE then None else Some ERROR_ATTRIBUTE_PENDING_MUST_HAVE_VALUE_TRUE_OR_FALSE))"

definition msg_pending_to_om_node :: "'n om_api \<Rightarrow> msg_pending_t \<Rightarrow> 'n \<Rightarrow> 'n \<times> om_result" where
  "msg_pending_to_om_node om p header =
     (om_add_child om
        (om_add_attribute om WSRM_PENDING AXIS2_VALUE_FALSE (om_create om WSRM_MESSAGE_PENDING (mp_ns p) WSRM_PREFIX)) header,
      Om_Success)"

section \<open>Faults\<close>

record seq_fault_t =
  sf_fault_code :: "fault_code option"
  sf_ns :: string

definition seq_fault_create :: "cstr \<Rightarrow> sandesha2_error + seq_fault_t" where
  "seq_fault_create = create_in both_namespaces_supported (\<lambda>ns. \<lparr>sf_fault_code = None, sf_ns = ns\<rparr>)"

definition seq_fault_from_om_node :: "'n om_api \<Rightarrow> seq_fault_t \<Rightarrow> 'n \<Rightarrow> seq_fault_t \<times> om_result" where
  "seq_fault_from_om_node om s node =
     (if \<not> om_is_element om node then (s, om_fails ERROR_NULL_OM_ELEMENT)
      else case om_first_child om node WSRM_SEQ_FAULT (sf_ns s) of
        None \<Rightarrow> (s, om_fails ERROR_NULL_OM_ELEMENT)
      | Some sf_node \<Rightarrow>
          (case om_first_child om sf_node WSRM_FAULT_CODE (sf_ns s) of
             None \<Rightarrow> (s, Om_Success)
           | Some fc_node \<Rightarrow>
               (case fault_code_create (Some (sf_ns s)) of
                  Inl e \<Rightarrow> (s\<lparr>sf_fault_code := None\<rparr>, om_fails e)
                | Inr c \<Rightarrow> (s\<lparr>sf_fault_code := Some (fst (fault_code_from_om_node om c sf_node))\<rparr>, Om_Success))))"

definition seq_fault_to_om_node :: "'n om_api \<Rightarrow> seq_fault_t \<Rightarrow> 'n \<Rightarrow> 'n \<times> om_result" where
  "seq_fault_to_om_node om s node =
     (let n0 = om_create om WSRM_SEQ_FAULT (sf_ns s) WSRM_PREFIX;
          n1 = (case sf_fault_code s of None \<Rightarrow> n0 | Some c \<Rightarrow> fst (fault_code_to_om_node om c n0))
      in (om_add_child om n1 node, Om_Success))"

end
