(* ===== verification/Rm_Elements.thy ===== *)
theory Rm_Elements
  imports Wsrm_Elements "HOL-Library.Monad_Syntax"
begin

text \<open>
  Reading a SOAP envelope into its reliable-messaging elements and writing them into one:
  \<open>src/wsrm/rm_elements.c\<close>, the writers of single elements into envelopes, and
  \<open>src/core/sandesha2_msg_ctx.c\<close> with \<open>src/util/msg_init.c\<close>, which keep the elements of a message and find its
  type.  An outer \<open>None\<close> is an access to a null pointer: the process ends there.
\<close>

section \<open>The elements of an envelope\<close>

record 'n rm_elements =
  el_seq :: "seq_t option"
  el_seq_ack :: "seq_ack_t option"
  el_create_seq :: "'n create_seq_t option"
  el_create_seq_res :: "'n create_seq_res_t option"
  el_terminate_seq :: "terminate_seq_t option"
  el_terminate_seq_res :: "terminate_seq_res_t option"
  el_close_seq :: "close_seq_t option"
  el_close_seq_res :: "close_seq_res_t option"
  el_ack_requested :: "ack_requested_t option"
  el_make_connection :: "make_connection_t option"
  el_msg_pending :: "msg_pending_t option"

definition rm_elements_create :: "'n rm_elements" where
  "rm_elements_create =
     \<lparr>el_seq = None, el_seq_ack = None, el_create_seq = None, el_create_seq_res = None, el_terminate_seq = None,
      el_terminate_seq_res = None, el_close_seq = None, el_close_seq_res = None, el_ack_requested = None,
      el_make_connection = None, el_msg_pending = None\<rparr>"

text \<open>
  The namespace of a message: the first of three that a header block is in, or the one the action belongs
  to.
\<close>

definition has_blocks :: "'n om_api \<Rightarrow> 'n option \<Rightarrow> string \<Rightarrow> bool" where
  "has_blocks om header uri \<longleftrightarrow> (case header of None \<Rightarrow> False | Some h \<Rightarrow> om_blocks_with_uri om h uri \<noteq> [])"

definition get_rm_ns_val_of :: "'n om_api \<Rightarrow> 'n soap_envelope \<Rightarrow> cstr \<Rightarrow> cstr" where
  "get_rm_ns_val_of om env action =
     (case action of
        None \<Rightarrow> None
      | Some a \<Rightarrow>
          if has_blocks om (se_header env) SPEC_2005_02_NS_URI then Some SPEC_2005_02_NS_URI
          else if has_blocks om (se_header env) SPEC_2007_02_NS_URI then Some SPEC_2007_02_NS_URI
          else if has_blocks om (se_header env) MAKE_CONNECTION_SPEC_2007_02_NS_URI
          then Some MAKE_CONNECTION_SPEC_2007_02_NS_URI
          else if a \<in> {action_2005_02 ''CreateSequence'', action_2005_02 ''CreateSequenceResponse'',
                       action_2005_02 ''SequenceAcknowledgement'', action_2005_02 ''TerminateSequence''}
          then Some SPEC_2005_02_NS_URI
          else if a \<in> {action_2007_02 ''CreateSequence'', action_2007_02 ''CreateSequenceResponse'',
                       action_2007_02 ''SequenceAcknowledgement'', action_2007_02 ''TerminateSequence'',
                       action_2007_02 ''CloseSequence'', action_2007_02 ''TerminateSequenceResponse'',
                       action_2007_02 ''CloseSequenceResponse''}
          then Some SPEC_2007_02_NS_URI
          else if a = SPEC_2007_02_ACTION_MAKE_CONNECTION then Some MAKE_CONNECTION_SPEC_2007_02_NS_URI
          else None)"

text \<open>Without a block of WS-Addressing it is the namespace of the header element, that of SOAP.\<close>

definition get_addr_ns_val_from_env :: "'n om_api \<Rightarrow> wsa_consts \<Rightarrow> 'n soap_envelope \<Rightarrow> cstr \<Rightarrow> cstr" where
  "get_addr_ns_val_from_env om wsa env action =
     (case (action, se_header env) of
        (Some a, Some h) \<Rightarrow>
          if om_blocks_with_uri om h (WSA_NAMESPACE wsa) \<noteq> [] then Some (WSA_NAMESPACE wsa)
          else if om_blocks_with_uri om h (WSA_NAMESPACE_SUBMISSION wsa) \<noteq> [] then Some (WSA_NAMESPACE_SUBMISSION wsa)
          else snd (om_name om h)
      | _ \<Rightarrow> None)"

text \<open>
  One element: absent, or read into a new struct.  The constructor gives a null pointer when
  the namespace does not define the element, and the reader uses it.
\<close>

definition read_element ::
  "'n om_api \<Rightarrow> 'n \<Rightarrow> string \<Rightarrow> string \<Rightarrow> (sandesha2_error + 'p) \<Rightarrow> ('p \<Rightarrow> 'n \<Rightarrow> 'p) \<Rightarrow> 'p option option" where
  "read_element om parent local ns new from_node =
     (case om_first_child om parent local ns of
        None \<Rightarrow> Some None
      | Some node \<Rightarrow> (case new of Inl e \<Rightarrow> None | Inr p \<Rightarrow> Some (Some (from_node p node))))"

definition read_msg_pending :: "'n om_api \<Rightarrow> 'n \<Rightarrow> string \<Rightarrow> msg_pending_t option option" where
  "read_msg_pending om header ns =
     (case om_first_child om header WSRM_MESSAGE_PENDING ns of
        None \<Rightarrow> Some None
      | Some node \<Rightarrow>
          (case msg_pending_create (Some ns) of
             Inl e \<Rightarrow> None
           | Inr p \<Rightarrow> map_option (\<lambda>(q, r, e). Some q) (msg_pending_from_om_node om p node)))"

text \<open>The elements of a message in a namespace; the readers' results are not looked at.\<close>

definition read_elements :: "'n om_api \<Rightarrow> string \<Rightarrow> string \<Rightarrow> 'n \<Rightarrow> 'n \<Rightarrow> 'n rm_elements option" where
  "read_elements om ns addr_ns header body = do {
     seq \<leftarrow> read_element om header WSRM_SEQ ns (seq_create (Some ns)) (\<lambda>p n. fst (seq_from_om_node om p n));
     seq_ack \<leftarrow> read_element om header WSRM_SEQ_ACK ns (seq_ack_create (Some ns)) (\<lambda>p n. fst (seq_ack_from_om_node om p n));
     create_seq \<leftarrow> read_element om body WSRM_CREATE_SEQ ns (create_seq_create (Some addr_ns) (Some ns))
       (\<lambda>p n. fst (create_seq_from_om_node om p n));
     create_seq_res \<leftarrow> read_element om body WSRM_CREATE_SEQ_RESPONSE ns (create_seq_res_create (Some ns) (Some addr_ns))
       (\<lambda>p n. fst (create_seq_res_from_om_node om p n));
     terminate_seq \<leftarrow> read_element om body WSRM_TERMINATE_SEQ ns (terminate_seq_create (Some ns))
       (\<lambda>p n. fst (terminate_seq_from_om_node om p n));
     terminate_seq_res \<leftarrow> read_element om body WSRM_TERMINATE_SEQ_RESPONSE ns (terminate_seq_res_create (Some ns))
       (\<lambda>p n. fst (terminate_seq_res_from_om_node om p n));
     close_seq \<leftarrow> read_element om body WSRM_CLOSE_SEQ ns (close_seq_create (Some ns)) (\<lambda>p n. fst (close_seq_from_om_node om p n));
     close_seq_res \<leftarrow> read_element om body WSRM_CLOSE_SEQ_RESPONSE ns (close_seq_res_create (Some ns))
       (\<lambda>p n. fst (close_seq_res_from_om_node om p n));
     make_connection \<leftarrow> read_element om body WSRM_MAKE_CONNECTION ns (make_connection_create (Some ns))
       (\<lambda>p n. fst (make_connection_from_om_node om p n));
     ack_requested \<leftarrow> read_element om header WSRM_ACK_REQUESTED ns (ack_requested_create (Some ns))
       (\<lambda>p n. fst (ack_requested_from_om_node om p n));
     msg_pending \<leftarrow> read_msg_pending om header ns;
     Some \<lparr>el_seq = seq, el_seq_ack = seq_ack, el_create_seq = create_seq, el_create_seq_res = create_seq_res,
           el_terminate_seq = terminate_seq, el_terminate_seq_res = terminate_seq_res, el_close_seq = close_seq,
           el_close_seq_res = close_seq_res, el_ack_requested = ack_requested, el_make_connection = make_connection,
           el_msg_pending = msg_pending\<rparr>
   }"

definition from_soap_envelope ::
  "'n om_api \<Rightarrow> wsa_consts \<Rightarrow> 'n soap_envelope \<Rightarrow> cstr \<Rightarrow> ('n rm_elements \<times> status) option" where
  "from_soap_envelope om wsa env action =
     (if action = None then Some (rm_elements_create, AXIS2_FAILURE)
      else case get_rm_ns_val_of om env action of
        None \<Rightarrow> Some (rm_elements_create, AXIS2_SUCCESS)
      | Some ns \<Rightarrow>
          (case (get_addr_ns_val_from_env om wsa env action, se_header env) of
             (Some addr_ns, Some header) \<Rightarrow>
               map_option (\<lambda>e. (e, AXIS2_SUCCESS)) (read_elements om ns addr_ns header (se_body env))
           | _ \<Rightarrow> Some (rm_elements_create, AXIS2_FAILURE)))"

section \<open>Writing elements into an envelope\<close>

text \<open>Into the header, after the block of the same name that was there, and into the body.\<close>

definition into_header ::
  "'n om_api \<Rightarrow> string \<Rightarrow> string \<Rightarrow> ('n \<Rightarrow> 'n \<times> om_result) \<Rightarrow> 'n soap_envelope \<Rightarrow> 'n soap_envelope" where
  "into_header om local ns write env =
     env\<lparr>se_header := map_option (\<lambda>h. fst (write (om_remove_block om local ns h))) (se_header env)\<rparr>"

definition into_body ::
  "'n om_api \<Rightarrow> string \<Rightarrow> string \<Rightarrow> ('n \<Rightarrow> 'n \<times> om_result) \<Rightarrow> 'n soap_envelope \<Rightarrow> 'n soap_envelope" where
  "into_body om local ns write env = env\<lparr>se_body := fst (write (om_remove_child om local ns (se_body env)))\<rparr>"

definition seq_to_soap_envelope :: "'n om_api \<Rightarrow> seq_t \<Rightarrow> 'n soap_envelope \<Rightarrow> 'n soap_envelope" where
  "seq_to_soap_envelope om s = into_header om WSRM_SEQ (sq_ns s) (seq_to_om_node om s)"

text \<open>The acknowledgement that was there is not removed.\<close>

definition seq_ack_to_soap_envelope :: "'n om_api \<Rightarrow> seq_ack_t \<Rightarrow> 'n soap_envelope \<Rightarrow> 'n soap_envelope" where
  "seq_ack_to_soap_envelope om s env =
     env\<lparr>se_header := map_option (\<lambda>h. fst (seq_ack_to_om_node om s h)) (se_header env)\<rparr>"

definition ack_requested_to_soap_envelope :: "'n om_api \<Rightarrow> ack_requested_t \<Rightarrow> 'n soap_envelope \<Rightarrow> 'n soap_envelope" where
  "ack_requested_to_soap_envelope om a = into_header om WSRM_ACK_REQUESTED (arq_ns a) (ack_requested_to_om_node om a)"

definition msg_pending_to_soap_envelope :: "'n om_api \<Rightarrow> msg_pending_t \<Rightarrow> 'n soap_envelope \<Rightarrow> 'n soap_envelope" where
  "msg_pending_to_soap_envelope om p = into_header om WSRM_MESSAGE_PENDING (mp_ns p) (msg_pending_to_om_node om p)"

definition create_seq_to_soap_envelope :: "'n om_api \<Rightarrow> 'n create_seq_t \<Rightarrow> 'n soap_envelope \<Rightarrow> 'n soap_envelope option" where
  "create_seq_to_soap_envelope om c env =
     map_option (\<lambda>(body, r). env\<lparr>se_body := body\<rparr>)
       (create_seq_to_om_node om c (om_remove_child om WSRM_CREATE_SEQ (cs_rm_ns c) (se_body env)))"

definition create_seq_res_to_soap_envelope :: "'n om_api \<Rightarrow> 'n create_seq_res_t \<Rightarrow> 'n soap_envelope \<Rightarrow> 'n soap_envelope" where
  "create_seq_res_to_soap_envelope om c = into_body om WSRM_CREATE_SEQ_RESPONSE (cr_rm_ns c) (create_seq_res_to_om_node om c)"

definition close_seq_to_soap_envelope :: "'n om_api \<Rightarrow> close_seq_t \<Rightarrow> 'n soap_envelope \<Rightarrow> 'n soap_envelope" where
  "close_seq_to_soap_envelope om c = into_body om WSRM_CLOSE_SEQ (cl_ns c) (close_seq_to_om_node om c)"

definition close_seq_res_to_soap_envelope :: "'n om_api \<Rightarrow> close_seq_res_t \<Rightarrow> 'n soap_envelope \<Rightarrow> 'n soap_envelope" where
  "close_seq_res_to_soap_envelope om c = into_body om WSRM_CLOSE_SEQ_RESPONSE (clr_ns c) (close_seq_res_to_om_node om c)"

definition terminate_seq_to_soap_envelope :: "'n om_api \<Rightarrow> terminate_seq_t \<Rightarrow> 'n soap_envelope \<Rightarrow> 'n soap_envelope" where
  "terminate_seq_to_soap_envelope om t = into_body om WSRM_TERMINATE_SEQ (te_ns t) (terminate_seq_to_om_node om t)"

definition terminate_seq_res_to_soap_envelope ::
  "'n om_api \<Rightarrow> terminate_seq_res_t \<Rightarrow> 'n soap_envelope \<Rightarrow> 'n soap_envelope" where
  "terminate_seq_res_to_soap_envelope om t =
     into_body om WSRM_TERMINATE_SEQ_RESPONSE (ter_ns t) (terminate_seq_res_to_om_node om t)"

definition make_connection_to_soap_envelope :: "'n om_api \<Rightarrow> make_connection_t \<Rightarrow> 'n soap_envelope \<Rightarrow> 'n soap_envelope" where
  "make_connection_to_soap_envelope om k = into_body om WSRM_MAKE_CONNECTION (mk_ns k) (make_connection_to_om_node om k)"

definition write_if :: "('p \<Rightarrow> 'e \<Rightarrow> 'e) \<Rightarrow> 'p option \<Rightarrow> 'e \<Rightarrow> 'e" where
  "write_if write part env = (case part of None \<Rightarrow> env | Some p \<Rightarrow> write p env)"

text \<open>\<open>sandesha2_rm_elements_to_soap_envelope\<close> writes every element but AckRequested, each into the header or body as it is.\<close>

definition in_header :: "('p \<Rightarrow> 'n \<Rightarrow> 'n \<times> om_result) \<Rightarrow> 'p \<Rightarrow> 'n soap_envelope \<Rightarrow> 'n soap_envelope" where
  "in_header write p env = env\<lparr>se_header := map_option (\<lambda>h. fst (write p h)) (se_header env)\<rparr>"

definition in_body :: "('p \<Rightarrow> 'n \<Rightarrow> 'n \<times> om_result) \<Rightarrow> 'p \<Rightarrow> 'n soap_envelope \<Rightarrow> 'n soap_envelope" where
  "in_body write p env = env\<lparr>se_body := fst (write p (se_body env))\<rparr>"

definition to_soap_envelope :: "'n om_api \<Rightarrow> 'n rm_elements \<Rightarrow> 'n soap_envelope \<Rightarrow> 'n soap_envelope option" where
  "to_soap_envelope om e env =
     (let env = write_if (in_header (seq_to_om_node om)) (el_seq e) env;
          env = write_if (in_header (seq_ack_to_om_node om)) (el_seq_ack e) env;
          env = write_if (in_header (msg_pending_to_om_node om)) (el_msg_pending e) env
      in do {
        env \<leftarrow> (case el_create_seq e of
                  None \<Rightarrow> Some env
                | Some c \<Rightarrow> map_option (\<lambda>(body, r). env\<lparr>se_body := body\<rparr>) (create_seq_to_om_node om c (se_body env)));
        let env = write_if (in_body (create_seq_res_to_om_node om)) (el_create_seq_res e) env;
        let env = write_if (in_body (terminate_seq_to_om_node om)) (el_terminate_seq e) env;
        let env = write_if (in_body (terminate_seq_res_to_om_node om)) (el_terminate_seq_res e) env;
        let env = write_if (in_body (close_seq_to_om_node om)) (el_close_seq e) env;
        let env = write_if (in_body (close_seq_res_to_om_node om)) (el_close_seq_res e) env;
        Some (write_if (in_body (make_connection_to_om_node om)) (el_make_connection e) env)
      })"

section \<open>Message contexts\<close>

text \<open>\<open>sandesha2_msg_ctx_t\<close>: a message's elements, namespaces and type.\<close>

record 'n rm_msg_ctx =
  ctx_msg_type :: message_type
  ctx_rm_ns_val :: cstr
  ctx_addr_ns_val :: cstr
  ctx_spec_ver :: cstr
  ctx_elements :: "'n rm_elements"

definition msg_ctx_create :: "'n rm_msg_ctx" where
  "msg_ctx_create = \<lparr>ctx_msg_type = MSG_TYPE_UNKNOWN, ctx_rm_ns_val = None, ctx_addr_ns_val = None, ctx_spec_ver = None,
     ctx_elements = rm_elements_create\<rparr>"

definition set_rm_ns_val :: "'n rm_msg_ctx \<Rightarrow> cstr \<Rightarrow> 'n rm_msg_ctx" where
  "set_rm_ns_val ctx ns_val =
     (case ns_val of
        None \<Rightarrow> ctx
      | Some ns \<Rightarrow>
          ctx\<lparr>ctx_rm_ns_val := Some ns,
              ctx_spec_ver := (if ns = SPEC_2005_02_NS_URI then Some SPEC_VERSION_1_0
                               else if ns = SPEC_2007_02_NS_URI then Some SPEC_VERSION_1_1 else ctx_spec_ver ctx)\<rparr>)"

definition set_addr_ns_val :: "'n rm_msg_ctx \<Rightarrow> cstr \<Rightarrow> 'n rm_msg_ctx" where
  "set_addr_ns_val ctx ns_val = (case ns_val of None \<Rightarrow> ctx | Some ns \<Rightarrow> ctx\<lparr>ctx_addr_ns_val := Some ns\<rparr>)"

text \<open>
  Writing the elements of a message into its envelope, a new one when it has none.  AckRequested is
  not among them.
\<close>

definition add_soap_envelope ::
  "'n om_api \<Rightarrow> 'n soap_envelope \<Rightarrow> 'n rm_msg_ctx \<Rightarrow> 'n soap_envelope option \<Rightarrow> 'n soap_envelope option" where
  "add_soap_envelope om default_envelope ctx soap_envelope =
     (let env = (case soap_envelope of None \<Rightarrow> default_envelope | Some env \<Rightarrow> env); e = ctx_elements ctx;
          env = write_if (close_seq_to_soap_envelope om) (el_close_seq e) env;
          env = write_if (close_seq_res_to_soap_envelope om) (el_close_seq_res e) env
      in do {
        env \<leftarrow> (case el_create_seq e of None \<Rightarrow> Some env | Some c \<Rightarrow> create_seq_to_soap_envelope om c env);
        let env = write_if (create_seq_res_to_soap_envelope om) (el_create_seq_res e) env;
        let env = write_if (make_connection_to_soap_envelope om) (el_make_connection e) env;
        let env = write_if (msg_pending_to_soap_envelope om) (el_msg_pending e) env;
        let env = write_if (seq_ack_to_soap_envelope om) (el_seq_ack e) env;
        let env = write_if (seq_to_soap_envelope om) (el_seq e) env;
        let env = write_if (terminate_seq_to_soap_envelope om) (el_terminate_seq e) env;
        Some (write_if (terminate_seq_res_to_soap_envelope om) (el_terminate_seq_res e) env)
      })"

section \<open>Recognising a message\<close>

text \<open>The namespace of a message is that of the last element in this order.\<close>

definition elements_ns :: "'n rm_elements \<Rightarrow> cstr" where
  "elements_ns e =
     (let ns = (case el_create_seq e of None \<Rightarrow> None | Some p \<Rightarrow> Some (cs_rm_ns p));
          ns = (case el_create_seq_res e of None \<Rightarrow> ns | Some p \<Rightarrow> Some (cr_rm_ns p));
          ns = (case el_seq e of None \<Rightarrow> ns | Some p \<Rightarrow> Some (sq_ns p));
          ns = (case el_terminate_seq e of None \<Rightarrow> ns | Some p \<Rightarrow> Some (te_ns p));
          ns = (case el_terminate_seq_res e of None \<Rightarrow> ns | Some p \<Rightarrow> Some (ter_ns p));
          ns = (case el_ack_requested e of None \<Rightarrow> ns | Some p \<Rightarrow> Some (arq_ns p));
          ns = (case el_close_seq e of None \<Rightarrow> ns | Some p \<Rightarrow> Some (cl_ns p));
          ns = (case el_close_seq_res e of None \<Rightarrow> ns | Some p \<Rightarrow> Some (clr_ns p));
          ns = (case el_make_connection e of None \<Rightarrow> ns | Some p \<Rightarrow> Some (mk_ns p));
          ns = (case el_seq_ack e of None \<Rightarrow> ns | Some p \<Rightarrow> Some (sk_ns p))
      in case el_msg_pending e of None \<Rightarrow> ns | Some p \<Rightarrow> Some (mp_ns p))"

definition populate_rm_msg_ctx ::
  "'n om_api \<Rightarrow> wsa_consts \<Rightarrow> cstr \<Rightarrow> bool \<Rightarrow> 'n soap_envelope \<Rightarrow> cstr \<Rightarrow> 'n rm_msg_ctx \<Rightarrow> 'n rm_msg_ctx option" where
  "populate_rm_msg_ctx om wsa wsa_version server_side env action ctx =
     (let addressing_ns = (if wsa_version = None \<and> \<not> server_side then Some (WSA_NAMESPACE wsa) else wsa_version)
      in map_option (\<lambda>(e, status). set_addr_ns_val (set_rm_ns_val (ctx\<lparr>ctx_elements := e\<rparr>) (elements_ns e)) addressing_ns)
           (from_soap_envelope om wsa env action))"

text \<open>
  The type of a message, and the identifier of its sequence; an outer \<open>None\<close> is an element without
  an identifier.
\<close>

definition identifier_value :: "identifier_t option \<Rightarrow> cstr option" where
  "identifier_value i = map_option idf_str_id i"

definition type_and_seq_id :: "'n rm_elements \<Rightarrow> (message_type \<times> cstr) option" where
  "type_and_seq_id e =
     (if el_create_seq e \<noteq> None then Some (MSG_TYPE_CREATE_SEQ, None)
      else case el_create_seq_res e of
        Some p \<Rightarrow> map_option (Pair MSG_TYPE_CREATE_SEQ_RESPONSE) (identifier_value (cr_identifier_t p))
      | None \<Rightarrow> (case el_terminate_seq e of
        Some p \<Rightarrow> map_option (Pair MSG_TYPE_TERMINATE_SEQ) (identifier_value (te_identifier p))
      | None \<Rightarrow> (case el_terminate_seq_res e of
        Some p \<Rightarrow> map_option (Pair MSG_TYPE_TERMINATE_SEQ_RESPONSE) (identifier_value (ter_identifier p))
      | None \<Rightarrow> (case el_seq e of
        Some p \<Rightarrow> map_option (Pair MSG_TYPE_APPLICATION) (identifier_value (sq_identifier_t p))
      | None \<Rightarrow> (case el_ack_requested e of
        Some p \<Rightarrow> map_option (Pair MSG_TYPE_ACK_REQUEST) (identifier_value (arq_identifier p))
      | None \<Rightarrow> (case el_close_seq e of
        Some p \<Rightarrow> map_option (Pair MSG_TYPE_CLOSE_SEQ) (identifier_value (cl_identifier p))
      | None \<Rightarrow> (case el_close_seq_res e of
        Some p \<Rightarrow> map_option (Pair MSG_TYPE_CLOSE_SEQ_RESPONSE) (identifier_value (clr_identifier p))
      | None \<Rightarrow> (case el_make_connection e of
        Some p \<Rightarrow> Some (MSG_TYPE_MAKE_CONNECTION_MSG, case mk_identifier p of None \<Rightarrow> None | Some i \<Rightarrow> idf_str_id i)
      | None \<Rightarrow> (case el_seq_ack e of
        Some p \<Rightarrow> map_option (Pair MSG_TYPE_ACK) (identifier_value (sk_identifier_t p))
      | None \<Rightarrow> Some (MSG_TYPE_UNKNOWN, None))))))))))"

text \<open>
  \<open>validate_msg\<close>: the type is set; the message is refused when MakeConnection has neither an identifier
  nor an address, and when its namespace is not that of the version in the service's policy.
  The property that the code reads before is not used.
\<close>

definition validate_msg :: "cstr \<Rightarrow> 'n rm_msg_ctx \<Rightarrow> ('n rm_msg_ctx \<times> (sandesha2_error + unit)) option" where
  "validate_msg spec_version ctx =
     (case type_and_seq_id (ctx_elements ctx) of
        None \<Rightarrow> None
      | Some (ty, seq_id) \<Rightarrow>
          (let ctx = ctx\<lparr>ctx_msg_type := ty\<rparr>
           in if ty = MSG_TYPE_MAKE_CONNECTION_MSG
                 \<and> (case el_make_connection (ctx_elements ctx) of None \<Rightarrow> False | Some k \<Rightarrow> mk_identifier k = None \<and> mk_address k = None)
              then Some (ctx, Inl ERROR_INVALID_MAKE_CONNECTION_MSG)
              else if seq_id \<noteq> None \<and> get_rm_ns_val spec_version \<noteq> None \<and> ctx_rm_ns_val ctx \<noteq> None
                      \<and> get_rm_ns_val spec_version \<noteq> ctx_rm_ns_val ctx
              then Some (ctx, Inl ERROR_RM_NS_VALUE_IS_DIFFERENT_FROM_REGISTERED_NS_FOR_SEQ)
              else Some (ctx, Inr ())))"

text \<open>Whether the message was refused is not looked at.\<close>

definition init_msg ::
  "'n om_api \<Rightarrow> wsa_consts \<Rightarrow> cstr \<Rightarrow> bool \<Rightarrow> cstr \<Rightarrow> 'n soap_envelope \<Rightarrow> cstr \<Rightarrow> 'n rm_msg_ctx option" where
  "init_msg om wsa wsa_version server_side spec_version env action = do {
     ctx \<leftarrow> populate_rm_msg_ctx om wsa wsa_version server_side env action msg_ctx_create;
     map_option fst (validate_msg spec_version ctx)
   }"

end
