(* ===== verification/Wsrm_Roundtrip.thy ===== *)
theory Wsrm_Roundtrip
  imports Rm_Elements
begin

text \<open>
  What is written is read back: for every element of a message the node the writer adds, and that the
  reader gives the element from it.  Everything is proved for any implementation of the
  interface to AXIOM, inside its locale; the theorems at the end name the interface as a hypothesis.
\<close>

section \<open>Writable elements\<close>

text \<open>
  An element of a namespace that its writer writes completely, with the values the readers give to what is
  not written.
\<close>

definition wf_identifier :: "string \<Rightarrow> identifier_t option \<Rightarrow> bool" where
  "wf_identifier ns i \<longleftrightarrow> (case i of None \<Rightarrow> False | Some i \<Rightarrow> idf_ns i = ns \<and> \<not> no_text (idf_str_id i))"

definition wf_acks_to :: "string \<Rightarrow> string \<Rightarrow> 'n acks_to_t option \<Rightarrow> bool" where
  "wf_acks_to ns addr_ns a \<longleftrightarrow>
     (case a of None \<Rightarrow> False
      | Some a \<Rightarrow> at_rm_ns a = ns \<and> at_addr_ns a = addr_ns \<and> at_ref_params a = None \<and>
          (\<exists>x. at_address a = Some \<lparr>ad_epr = Some (Some x), ad_ns = addr_ns\<rparr> \<and> x \<noteq> ''''))"

definition wf_endpoint :: "string \<Rightarrow> string \<Rightarrow> endpoint option \<Rightarrow> bool" where
  "wf_endpoint ns addr_ns p \<longleftrightarrow>
     (case p of None \<Rightarrow> False
      | Some p \<Rightarrow> ep_rm_ns p = ns \<and> ep_addr_ns p = addr_ns \<and>
          (\<exists>x. ep_address p = Some \<lparr>ad_epr = Some (Some x), ad_ns = addr_ns\<rparr> \<and> x \<noteq> ''''))"

definition wf_expires :: "string \<Rightarrow> expires option \<Rightarrow> bool" where
  "wf_expires ns x \<longleftrightarrow> (case x of None \<Rightarrow> True | Some x \<Rightarrow> ex_ns x = ns \<and> \<not> no_text (ex_duration x))"

definition wf_endpoint_option :: "string \<Rightarrow> string \<Rightarrow> endpoint option \<Rightarrow> bool" where
  "wf_endpoint_option ns addr_ns p \<longleftrightarrow> p = None \<or> wf_endpoint ns addr_ns p"

definition wf_offer :: "string \<Rightarrow> string \<Rightarrow> seq_offer option \<Rightarrow> bool" where
  "wf_offer ns addr_ns s \<longleftrightarrow>
     (case s of None \<Rightarrow> True
      | Some s \<Rightarrow> so_ns s = ns \<and> so_addr_ns s = addr_ns \<and> wf_identifier ns (so_identifier s)
          \<and> wf_endpoint_option ns addr_ns (so_endpoint s) \<and> so_expires s = None)"

definition wf_create_seq :: "string \<Rightarrow> string \<Rightarrow> 'n create_seq_t \<Rightarrow> bool" where
  "wf_create_seq ns addr_ns c \<longleftrightarrow> cs_rm_ns c = ns \<and> cs_addr_ns c = addr_ns \<and> wf_acks_to ns addr_ns (cs_acks_to c)
     \<and> wf_expires ns (cs_expires c) \<and> wf_offer ns addr_ns (cs_seq_offer c)"

definition wf_accept :: "string \<Rightarrow> string \<Rightarrow> 'n accept_t option \<Rightarrow> bool" where
  "wf_accept ns addr_ns a \<longleftrightarrow>
     (case a of None \<Rightarrow> True
      | Some a \<Rightarrow> ac_rm_ns a = ns \<and> ac_addr_ns a = addr_ns \<and> wf_acks_to ns addr_ns (ac_acks_to a))"

definition wf_create_seq_res :: "string \<Rightarrow> string \<Rightarrow> 'n create_seq_res_t \<Rightarrow> bool" where
  "wf_create_seq_res ns addr_ns c \<longleftrightarrow> cr_rm_ns c = ns \<and> cr_addr_ns c = addr_ns \<and> wf_identifier ns (cr_identifier_t c)
     \<and> wf_expires ns (cr_expires c) \<and> wf_accept ns addr_ns (cr_accept_t c)"

definition wf_last_number :: "string \<Rightarrow> last_msg_number option \<Rightarrow> bool" where
  "wf_last_number ns l \<longleftrightarrow> (case l of None \<Rightarrow> True | Some l \<Rightarrow> ln_ns l = ns \<and> 0 < ln_msg_num l)"

definition wf_close_seq :: "string \<Rightarrow> close_seq_t \<Rightarrow> bool" where
  "wf_close_seq ns c \<longleftrightarrow> second_namespace_supported ns \<and> cl_ns c = ns \<and> wf_identifier ns (cl_identifier c)
     \<and> wf_last_number ns (cl_last_msg_number c)"

definition wf_close_seq_res :: "string \<Rightarrow> close_seq_res_t \<Rightarrow> bool" where
  "wf_close_seq_res ns c \<longleftrightarrow> second_namespace_supported ns \<and> clr_ns c = ns \<and> wf_identifier ns (clr_identifier c)"

definition wf_terminate_seq :: "string \<Rightarrow> terminate_seq_t \<Rightarrow> bool" where
  "wf_terminate_seq ns t \<longleftrightarrow> te_ns t = ns \<and> wf_identifier ns (te_identifier t) \<and> wf_last_number ns (te_last_msg_number t)"

definition wf_terminate_seq_res :: "string \<Rightarrow> terminate_seq_res_t \<Rightarrow> bool" where
  "wf_terminate_seq_res ns t \<longleftrightarrow> second_namespace_supported ns \<and> ter_ns t = ns \<and> wf_identifier ns (ter_identifier t)"

definition wf_seq :: "string \<Rightarrow> seq_t \<Rightarrow> bool" where
  "wf_seq ns s \<longleftrightarrow> sq_ns s = ns \<and> wf_identifier ns (sq_identifier_t s)
     \<and> (case sq_msg_num s of None \<Rightarrow> False | Some m \<Rightarrow> mn_ns m = ns \<and> 0 < mn_msg_num m)
     \<and> (case sq_last_msg_t s of None \<Rightarrow> True | Some l \<Rightarrow> lm_ns l = ns) \<and> sq_must_understand s"

definition wf_range :: "string \<Rightarrow> ack_range \<Rightarrow> bool" where
  "wf_range ns r \<longleftrightarrow> ar_ns r = Some ns \<and> - (2 ^ 31) \<le> ar_lower r \<and> ar_lower r < 2 ^ 31
     \<and> - (2 ^ 31) \<le> ar_upper r \<and> ar_upper r < 2 ^ 31"

definition wf_seq_ack :: "string \<Rightarrow> seq_ack_t \<Rightarrow> bool" where
  "wf_seq_ack ns s \<longleftrightarrow> sk_ns s = ns \<and> wf_identifier ns (sk_identifier_t s) \<and> list_all (wf_range ns) (sk_ack_range_list s)
     \<and> sk_nack_list s = [] \<and> sk_ack_none s = None
     \<and> (case sk_ack_final s of None \<Rightarrow> True | Some f \<Rightarrow> af_ns f = ns \<and> second_namespace_supported ns)
     \<and> \<not> sk_must_understand s"

definition wf_ack_requested :: "string \<Rightarrow> ack_requested_t \<Rightarrow> bool" where
  "wf_ack_requested ns a \<longleftrightarrow> arq_ns a = ns \<and> wf_identifier ns (arq_identifier a)
     \<and> (case arq_msg_num a of None \<Rightarrow> True | Some m \<Rightarrow> mn_ns m = ns \<and> 0 < mn_msg_num m) \<and> \<not> arq_must_understand a"

text \<open>Where the version has a None, an acknowledgement of nothing is written with it.\<close>

definition with_none :: "seq_ack_t \<Rightarrow> seq_ack_t" where
  "with_none s = (if sk_ack_range_list s = [] \<and> second_namespace_supported (sk_ns s)
                  then s\<lparr>sk_ack_none := Some \<lparr>an_ns = sk_ns s\<rparr>\<rparr> else s)"

text \<open>
  What the reader adds: a number zero where the last number is not there, an endpoint without an
  address where an offer has none.
\<close>

definition with_number :: "string \<Rightarrow> last_msg_number option \<Rightarrow> last_msg_number option" where
  "with_number ns l = (case l of None \<Rightarrow> Some \<lparr>ln_msg_num = 0, ln_ns = ns\<rparr> | Some n \<Rightarrow> Some n)"

definition close_as_read :: "close_seq_t \<Rightarrow> close_seq_t" where
  "close_as_read c = c\<lparr>cl_last_msg_number := with_number (cl_ns c) (cl_last_msg_number c)\<rparr>"

definition terminate_as_read :: "terminate_seq_t \<Rightarrow> terminate_seq_t" where
  "terminate_as_read t = t\<lparr>te_last_msg_number := with_number (te_ns t) (te_last_msg_number t)\<rparr>"

definition offer_as_read :: "seq_offer \<Rightarrow> seq_offer" where
  "offer_as_read s = s\<lparr>so_endpoint := (case so_endpoint s of
     None \<Rightarrow> Some \<lparr>ep_address = None, ep_rm_ns = so_ns s, ep_addr_ns = so_addr_ns s\<rparr> | Some p \<Rightarrow> Some p)\<rparr>"

definition create_as_read :: "'n create_seq_t \<Rightarrow> 'n create_seq_t" where
  "create_as_read c = c\<lparr>cs_seq_offer := map_option offer_as_read (cs_seq_offer c)\<rparr>"

lemmas wf_defs = wf_identifier_def wf_acks_to_def wf_endpoint_def wf_expires_def wf_offer_def wf_create_seq_def
  wf_accept_def wf_create_seq_res_def wf_last_number_def wf_close_seq_def wf_close_seq_res_def wf_terminate_seq_def
  wf_terminate_seq_res_def wf_seq_def wf_range_def wf_seq_ack_def wf_ack_requested_def

text \<open>The two namespaces of the specification.\<close>

lemma namespaces:
  "SPEC_2005_02_NS_URI \<noteq> SPEC_2007_02_NS_URI" "SPEC_2005_02_NS_URI \<noteq> MAKE_CONNECTION_SPEC_2007_02_NS_URI"
  "SPEC_2007_02_NS_URI \<noteq> MAKE_CONNECTION_SPEC_2007_02_NS_URI"
  by code_simp+

lemma second_both: "second_namespace_supported ns \<Longrightarrow> both_namespaces_supported ns"
  by (simp add: second_namespace_supported_def both_namespaces_supported_def split: if_splits)

lemma allowed_second:
  "both_namespaces_supported ns \<Longrightarrow> allowed_in is_ack_final_allowed ns = second_namespace_supported ns"
  "both_namespaces_supported ns \<Longrightarrow> allowed_in is_ack_none_allowed ns = second_namespace_supported ns"
  unfolding allowed_in_def both_namespaces_supported_def second_namespace_supported_def
  by (auto simp: of_sum_def get_spec_ver_str_def is_ack_final_allowed_def is_ack_none_allowed_def
      SPEC_VERSION_1_0_def SPEC_VERSION_1_1_def namespaces split: if_splits)

lemma create_in_simps [simp]:
  "supported ns \<Longrightarrow> create_in supported new (Some ns) = Inr (new ns)"
  "\<not> supported ns \<Longrightarrow> create_in supported new (Some ns) = Inl ERROR_UNSUPPORTED_NS"
  "create_in supported new None = Inl AXIS2_ERROR_INVALID_NULL_PARAM"
  by (simp_all add: create_in_def)

section \<open>Nodes and their elements\<close>

lemma wf_identifierD:
  "wf_identifier ns i \<Longrightarrow> \<exists>x. i = Some \<lparr>idf_str_id = Some x, idf_ns = ns\<rparr> \<and> x \<noteq> ''''"
  by (auto simp: wf_identifier_def no_text_def split: option.splits) (metis identifier_t.surjective old.unit.exhaust)

lemma wf_last_numberD:
  "wf_last_number ns l \<Longrightarrow> \<exists>n. l = map_option (\<lambda>n. \<lparr>ln_msg_num = n, ln_ns = ns\<rparr>) n \<and> (\<forall>k. n = Some k \<longrightarrow> 0 < k)"
proof (cases l)
  case (Some k)
  assume "wf_last_number ns l"
  then show ?thesis using Some by (cases k) (intro exI[of _ "Some (ln_msg_num k)"], simp add: wf_last_number_def)
qed (intro exI[of _ None]; simp)

lemma wf_acks_toD:
  "wf_acks_to ns addr_ns a \<Longrightarrow>
     \<exists>x. a = Some \<lparr>at_address = Some \<lparr>ad_epr = Some (Some x), ad_ns = addr_ns\<rparr>, at_ref_params = None,
                    at_rm_ns = ns, at_addr_ns = addr_ns\<rparr> \<and> x \<noteq> ''''"
  by (auto simp: wf_acks_to_def split: option.splits) (metis acks_to_t.surjective old.unit.exhaust)

lemma wf_endpointD:
  "wf_endpoint ns addr_ns p \<Longrightarrow>
     \<exists>x. p = Some \<lparr>ep_address = Some \<lparr>ad_epr = Some (Some x), ad_ns = addr_ns\<rparr>, ep_rm_ns = ns, ep_addr_ns = addr_ns\<rparr>
        \<and> x \<noteq> ''''"
  by (auto simp: wf_endpoint_def split: option.splits) (metis endpoint.surjective old.unit.exhaust)

lemma wf_expiresD:
  "wf_expires ns (Some y) \<Longrightarrow> \<exists>x. y = \<lparr>ex_duration = Some x, ex_ns = ns\<rparr> \<and> x \<noteq> ''''"
  by (auto simp: wf_expires_def no_text_def) (metis expires.surjective old.unit.exhaust)

text \<open>A writer adds a node of a name that its reader reads as the element.\<close>

definition reads_back ::
  "'n om_api \<Rightarrow> string \<times> string \<Rightarrow> ('n \<Rightarrow> 'n \<times> om_result) \<Rightarrow> ('n \<Rightarrow> 'p \<times> om_result) \<Rightarrow> 'p \<Rightarrow> bool" where
  "reads_back om name write from_node p \<longleftrightarrow>
     (\<exists>node. (\<forall>parent. write parent = (om_add_child om node parent, Om_Success)) \<and> om_is_element om node
        \<and> om_name om node = (fst name, Some (snd name)) \<and> fst (from_node node) = p)"

context om_tree begin

lemma is_element_text [simp]: "om_is_element om (text_element om l u p t)"
  by (simp add: text_element_def om_simps)

lemma name_text [simp]: "om_name om (text_element om l u p t) = (l, Some u)"
  by (simp add: text_element_def om_simps)

lemma text_text [simp]: "t \<noteq> [] \<Longrightarrow> om_text om (text_element om l u p t) = Some t"
  by (simp add: text_element_def om_simps)

lemma child_text_eq:
  "om_is_element om n \<Longrightarrow> child_text om n l u = (case om_children om n l u of
     [] \<Rightarrow> Inl (om_fails ERROR_NULL_OM_ELEMENT)
   | c # _ \<Rightarrow> (case om_text om c of None \<Rightarrow> Inl (om_fails ERROR_EMPTY_OM_ELEMENT) | Some t \<Rightarrow> Inr t))"
  by (simp add: child_text_def first_child split: list.splits)

lemmas part_writers = identifier_to_om_node_def msg_number_to_om_node_def last_msg_number_to_om_node_def
  last_msg_to_om_node_def ack_none_to_om_node_def ack_final_to_om_node_def expires_to_om_node_def
  address_to_om_node_def

lemmas part_readers = identifier_from_om_node_def msg_number_from_om_node_def last_msg_number_from_om_node_def
  last_msg_from_om_node_def ack_none_from_om_node_def ack_final_from_om_node_def expires_from_om_node_def
  address_from_om_node_def child_text_eq

lemmas part_creators = identifier_create_def msg_number_create_def last_msg_number_create_def last_msg_create_def
  ack_none_create_def ack_final_create_def expires_create_def address_create_def

lemmas part_simps = part_writers part_readers part_creators om_simps no_text_def wsrm_names atol_sprintf_ld

text \<open>The node of an identifier.\<close>

abbreviation idf_node :: "string \<Rightarrow> string \<Rightarrow> 'n" where
  "idf_node ns x \<equiv> text_element om WSRM_IDENTIFIER ns WSRM_PREFIX x"

text \<open>An optional child.\<close>

definition optional_child :: "'n option \<Rightarrow> 'n \<Rightarrow> 'n" where
  "optional_child c n = (case c of None \<Rightarrow> n | Some c \<Rightarrow> om_add_child om c n)"

lemma optional_child:
  assumes "om_is_element om n" "\<And>y. om_is_element om (f y)"
  shows "om_is_element om (optional_child (map_option f c) n)" "om_name om (optional_child (map_option f c) n) = om_name om n"
    "om_children om (optional_child (map_option f c) n) l u
       = om_children om n l u @ (case c of None \<Rightarrow> [] | Some y \<Rightarrow> if om_name om (f y) = (l, Some u) then [f y] else [])"
  using assms by (auto simp: optional_child_def om_simps split: option.split)

text \<open>The number of the last message.\<close>

abbreviation number_node :: "string \<Rightarrow> int \<Rightarrow> 'n" where
  "number_node ns n \<equiv> text_element om WSRM_LAST_MSG_NUMBER ns WSRM_PREFIX (sprintf_ld n)"

lemma write_number:
  "\<forall>k. n = Some k \<longrightarrow> 0 < k \<Longrightarrow>
   (case map_option (\<lambda>n. \<lparr>ln_msg_num = n, ln_ns = ns\<rparr>) n of None \<Rightarrow> m | Some l \<Rightarrow> fst (last_msg_number_to_om_node om l m))
     = optional_child (map_option (number_node ns) n) m"
  by (cases n) (simp_all add: last_msg_number_to_om_node_def optional_child_def)

lemma read_number:
  assumes "om_is_element om m" "om_children om m WSRM_LAST_MSG_NUMBER ns = (case n of None \<Rightarrow> [] | Some k \<Rightarrow> [number_node ns k])"
  shows "Some (fst (last_msg_number_from_om_node om \<lparr>ln_msg_num = 0, ln_ns = ns\<rparr> m))
     = with_number ns (map_option (\<lambda>n. \<lparr>ln_msg_num = n, ln_ns = ns\<rparr>) n)"
  using assms
  by (cases n) (simp_all add: last_msg_number_from_om_node_def child_text_eq with_number_def atol_sprintf_ld)

lemma number_children:
  assumes "m = optional_child (map_option (number_node ns) n) (om_add_child om (idf_node ns x) (om_create om local ns WSRM_PREFIX))"
  shows "om_is_element om m" "om_name om m = (local, Some ns)" "om_children om m WSRM_IDENTIFIER ns = [idf_node ns x]"
    "om_children om m WSRM_LAST_MSG_NUMBER ns = (case n of None \<Rightarrow> [] | Some k \<Rightarrow> [number_node ns k])"
  unfolding assms by (auto simp: optional_child om_simps wsrm_names split: option.split)

lemma terminate_seq_reads_back:
  assumes "both_namespaces_supported ns" "wf_terminate_seq ns t"
  shows "reads_back om (WSRM_TERMINATE_SEQ, ns) (terminate_seq_to_om_node om t)
     (terminate_seq_from_om_node om \<lparr>te_identifier = None, te_last_msg_number = None, te_ns = ns\<rparr>) (terminate_as_read t)"
proof -
  obtain x n where t: "t = \<lparr>te_identifier = Some \<lparr>idf_str_id = Some x, idf_ns = ns\<rparr>,
      te_last_msg_number = map_option (\<lambda>n. \<lparr>ln_msg_num = n, ln_ns = ns\<rparr>) n, te_ns = ns\<rparr>" "x \<noteq> ''''" "\<forall>k. n = Some k \<longrightarrow> 0 < k"
    using assms(2) by (cases t) (auto simp: wf_terminate_seq_def dest!: wf_identifierD wf_last_numberD)
  define m where "m = optional_child (map_option (number_node ns) n)
    (om_add_child om (idf_node ns x) (om_create om WSRM_TERMINATE_SEQ ns WSRM_PREFIX))"
  note m = number_children[OF m_def]
  have "terminate_seq_to_om_node om t p = (om_add_child om m p, Om_Success)" for p
    using t(2) write_number[OF t(3)] unfolding t(1)
    by (simp add: terminate_seq_to_om_node_def identifier_to_om_node_def no_text_def m_def)
  moreover have "fst (terminate_seq_from_om_node om \<lparr>te_identifier = None, te_last_msg_number = None, te_ns = ns\<rparr> m)
      = terminate_as_read t"
    using m t(2) assms(1) read_number[OF m(1,4)] unfolding t(1)
    by (simp add: terminate_seq_from_om_node_def identifier_create_def identifier_from_om_node_def child_text_eq
        last_msg_number_create_def terminate_as_read_def)
  ultimately show ?thesis using m(1,2) unfolding reads_back_def by auto
qed

lemma close_seq_reads_back:
  assumes "wf_close_seq ns c"
  shows "reads_back om (WSRM_CLOSE_SEQ, ns) (close_seq_to_om_node om c)
     (close_seq_from_om_node om \<lparr>cl_identifier = None, cl_last_msg_number = None, cl_ns = ns\<rparr>) (close_as_read c)"
proof -
  obtain x n where c: "c = \<lparr>cl_identifier = Some \<lparr>idf_str_id = Some x, idf_ns = ns\<rparr>,
      cl_last_msg_number = map_option (\<lambda>n. \<lparr>ln_msg_num = n, ln_ns = ns\<rparr>) n, cl_ns = ns\<rparr>" "x \<noteq> ''''" "\<forall>k. n = Some k \<longrightarrow> 0 < k"
      "second_namespace_supported ns" "both_namespaces_supported ns"
    using assms by (cases c) (auto simp: wf_close_seq_def second_both dest!: wf_identifierD wf_last_numberD)
  define m where "m = optional_child (map_option (number_node ns) n)
    (om_add_child om (idf_node ns x) (om_create om WSRM_CLOSE_SEQ ns WSRM_PREFIX))"
  note m = number_children[OF m_def]
  have "close_seq_to_om_node om c p = (om_add_child om m p, Om_Success)" for p
    using c(2) write_number[OF c(3)] unfolding c(1)
    by (simp add: close_seq_to_om_node_def identifier_to_om_node_def no_text_def m_def)
  moreover have "fst (close_seq_from_om_node om \<lparr>cl_identifier = None, cl_last_msg_number = None, cl_ns = ns\<rparr> m) = close_as_read c"
    using m c(2,5) read_number[OF m(1,4)] unfolding c(1)
    by (cases "last_msg_number_from_om_node om \<lparr>ln_msg_num = 0, ln_ns = ns\<rparr> m")
       (simp add: close_seq_from_om_node_def identifier_create_def identifier_from_om_node_def child_text_eq
          last_msg_number_create_def close_as_read_def)
  ultimately show ?thesis using m(1,2) unfolding reads_back_def by auto
qed

lemma close_seq_res_reads_back:
  assumes "wf_close_seq_res ns c"
  shows "reads_back om (WSRM_CLOSE_SEQ_RESPONSE, ns) (close_seq_res_to_om_node om c)
     (close_seq_res_from_om_node om \<lparr>clr_identifier = None, clr_ns = ns\<rparr>) c"
proof -
  obtain x where c: "c = \<lparr>clr_identifier = Some \<lparr>idf_str_id = Some x, idf_ns = ns\<rparr>, clr_ns = ns\<rparr>" "x \<noteq> ''''"
      "second_namespace_supported ns"
    using assms by (cases c) (auto simp: wf_close_seq_res_def dest!: wf_identifierD)
  show ?thesis
    using c(2,3) second_both[OF c(3)] unfolding c(1) reads_back_def
    by (intro exI[of _ "om_add_child om (idf_node ns x) (om_create om WSRM_CLOSE_SEQ_RESPONSE ns WSRM_PREFIX)"])
       (simp add: close_seq_res_to_om_node_def close_seq_res_from_om_node_def part_simps)
qed

lemma terminate_seq_res_reads_back:
  assumes "wf_terminate_seq_res ns t"
  shows "reads_back om (WSRM_TERMINATE_SEQ_RESPONSE, ns) (terminate_seq_res_to_om_node om t)
     (terminate_seq_res_from_om_node om \<lparr>ter_identifier = None, ter_ns = ns\<rparr>) t"
proof -
  obtain x where t: "t = \<lparr>ter_identifier = Some \<lparr>idf_str_id = Some x, idf_ns = ns\<rparr>, ter_ns = ns\<rparr>" "x \<noteq> ''''"
      "second_namespace_supported ns"
    using assms by (cases t) (auto simp: wf_terminate_seq_res_def dest!: wf_identifierD)
  show ?thesis
    using t(2,3) second_both[OF t(3)] unfolding t(1) reads_back_def
    by (intro exI[of _ "om_add_child om (idf_node ns x) (om_create om WSRM_TERMINATE_SEQ_RESPONSE ns WSRM_PREFIX)"])
       (simp add: terminate_seq_res_to_om_node_def terminate_seq_res_from_om_node_def part_simps)
qed

lemma seq_reads_back:
  assumes "both_namespaces_supported ns" "wf_seq ns s"
  shows "reads_back om (WSRM_SEQ, ns) (seq_to_om_node om s)
     (seq_from_om_node om \<lparr>sq_identifier_t = None, sq_msg_num = None, sq_last_msg_t = None, sq_must_understand = True, sq_ns = ns\<rparr>) s"
proof -
  obtain x m l where s: "s = \<lparr>sq_identifier_t = Some \<lparr>idf_str_id = Some x, idf_ns = ns\<rparr>, sq_msg_num = Some m,
      sq_last_msg_t = l, sq_must_understand = True, sq_ns = ns\<rparr>" "x \<noteq> ''''" "mn_ns m = ns" "0 < mn_msg_num m"
      "l = None \<or> l = Some \<lparr>lm_ns = ns\<rparr>"
    using assms(2) by (cases s) (auto simp: wf_seq_def dest!: wf_identifierD split: option.splits)
  obtain n where m: "m = \<lparr>mn_msg_num = n, mn_ns = ns\<rparr>" using s(3) by (cases m) simp
  let ?n = "om_add_child om (text_element om WSRM_MSG_NUMBER ns WSRM_PREFIX (sprintf_ld n)) (om_add_child om (idf_node ns x)
      (om_must_understand om True (om_create om WSRM_SEQ ns WSRM_PREFIX)))"
  show ?thesis
    using s(2,4,5) assms(1) unfolding s(1) m reads_back_def
    by (intro exI[of _ "case l of None \<Rightarrow> ?n | Some _ \<Rightarrow> om_add_child om (om_create om WSRM_LAST_MSG ns WSRM_PREFIX) ?n"])
       (auto simp add: seq_to_om_node_def seq_from_om_node_def part_simps split: option.split)
qed

lemma ack_requested_reads_back:
  assumes "both_namespaces_supported ns" "wf_ack_requested ns a"
  shows "reads_back om (WSRM_ACK_REQUESTED, ns) (ack_requested_to_om_node om a)
     (ack_requested_from_om_node om \<lparr>arq_identifier = None, arq_msg_num = None, arq_must_understand = False, arq_ns = ns\<rparr>) a"
proof -
  obtain x m where a: "a = \<lparr>arq_identifier = Some \<lparr>idf_str_id = Some x, idf_ns = ns\<rparr>, arq_msg_num = m,
      arq_must_understand = False, arq_ns = ns\<rparr>" "x \<noteq> ''''"
      "m = None \<or> (\<exists>n. m = Some \<lparr>mn_msg_num = n, mn_ns = ns\<rparr> \<and> 0 < n)"
    using assms(2)
    by (cases a) (auto simp: wf_ack_requested_def dest!: wf_identifierD split: option.splits;
        metis msg_number.surjective old.unit.exhaust)
  let ?n = "om_add_child om (idf_node ns x) (om_must_understand om False (om_create om WSRM_ACK_REQUESTED ns WSRM_PREFIX))"
  show ?thesis
    using a(2,3) assms(1) unfolding a(1) reads_back_def
    by (intro exI[of _ "case m of None \<Rightarrow> ?n
          | Some k \<Rightarrow> om_add_child om (text_element om WSRM_MSG_NUMBER ns WSRM_PREFIX (sprintf_ld (mn_msg_num k))) ?n"])
       (auto simp add: ack_requested_to_om_node_def ack_requested_from_om_node_def read_optional_def part_simps)
qed

text \<open>The ranges of an acknowledgement, one child after the other.\<close>

abbreviation range_node :: "string \<Rightarrow> ack_range \<Rightarrow> 'n" where
  "range_node ns r \<equiv> om_add_attribute om WSRM_UPPER (sprintf_ld (ar_upper r))
     (om_add_attribute om WSRM_LOWER (sprintf_ld (ar_lower r)) (om_create om WSRM_ACK_RANGE ns WSRM_PREFIX))"

lemma range_node: "om_is_element om (range_node ns r)" "om_name om (range_node ns r) = (WSRM_ACK_RANGE, Some ns)"
  by (simp_all add: om_simps)

lemma write_ranges:
  assumes "list_all (wf_range ns) rs" "om_is_element om n"
  shows "om_is_element om (foldl (\<lambda>n r. fst (ack_range_to_om_node om r n)) n rs)
     \<and> om_name om (foldl (\<lambda>n r. fst (ack_range_to_om_node om r n)) n rs) = om_name om n
     \<and> om_children om (foldl (\<lambda>n r. fst (ack_range_to_om_node om r n)) n rs) l u
       = om_children om n l u @ (if (l, u) = (WSRM_ACK_RANGE, ns) then map (range_node ns) rs else [])"
  using assms
  by (induction rs arbitrary: n) (auto simp: ack_range_to_om_node_def wf_range_def om_simps)

lemma read_range_node:
  assumes "wf_range ns r"
  shows "ack_range_from_om_node om \<lparr>ar_lower = a, ar_upper = b, ar_ns = Some ns\<rparr> (range_node ns r) = (r, Om_Success)"
  using assms
  by (cases r) (simp add: ack_range_from_om_node_def wf_range_def om_simps wsrm_names atoi_sprintf_ld)

lemma read_range_nodes:
  "both_namespaces_supported ns \<Longrightarrow> list_all (wf_range ns) rs \<Longrightarrow> read_ranges om ns (map (range_node ns) rs) = Inr rs"
  by (induction rs) (simp_all add: ack_range_create_def read_range_node)

lemma seq_ack_reads_back:
  assumes "both_namespaces_supported ns" "wf_seq_ack ns s"
  shows "reads_back om (WSRM_SEQ_ACK, ns) (seq_ack_to_om_node om s)
     (seq_ack_from_om_node om \<lparr>sk_identifier_t = None, sk_ack_range_list = [], sk_nack_list = [], sk_ack_none = None,
        sk_ack_final = None, sk_must_understand = False, sk_ns = ns\<rparr>) (with_none s)"
proof -
  obtain x rs f where s: "s = \<lparr>sk_identifier_t = Some \<lparr>idf_str_id = Some x, idf_ns = ns\<rparr>, sk_ack_range_list = rs,
      sk_nack_list = [], sk_ack_none = None, sk_ack_final = f, sk_must_understand = False, sk_ns = ns\<rparr>" "x \<noteq> ''''"
      "list_all (wf_range ns) rs" "f = None \<or> f = Some \<lparr>af_ns = ns\<rparr> \<and> second_namespace_supported ns"
    using assms(2) by (cases s) (auto simp: wf_seq_ack_def dest!: wf_identifierD split: option.splits)
  define n1 where "n1 = om_add_child om (idf_node ns x) (om_must_understand om False (om_create om WSRM_SEQ_ACK ns WSRM_PREFIX))"
  define n2 where "n2 = foldl (\<lambda>n r. fst (ack_range_to_om_node om r n)) n1 rs"
  define n4 where "n4 = (if rs = [] \<and> second_namespace_supported ns
    then om_add_child om (om_create om WSRM_NONE ns WSRM_PREFIX) n2 else n2)"
  define n5 where "n5 = (case f of None \<Rightarrow> n4 | Some _ \<Rightarrow> om_add_child om (om_create om WSRM_FINAL ns WSRM_PREFIX) n4)"
  have n1: "om_is_element om n1" "om_name om n1 = (WSRM_SEQ_ACK, Some ns)"
    "om_children om n1 l u = (if (l, u) = (WSRM_IDENTIFIER, ns) then [idf_node ns x] else [])" for l u
    by (auto simp: n1_def om_simps)
  have n2: "om_is_element om n2" "om_name om n2 = (WSRM_SEQ_ACK, Some ns)" "om_children om n2 l u
      = om_children om n1 l u @ (if (l, u) = (WSRM_ACK_RANGE, ns) then map (range_node ns) rs else [])" for l u
    using write_ranges[OF s(3) n1(1)] n1(2) by (auto simp: n2_def)
  have wr: "seq_ack_to_om_node om s h = (om_add_child om n5 h, Om_Success)" for h
    using assms(1) s(2,4) unfolding s(1)
    by (auto simp: seq_ack_to_om_node_def Let_def allowed_second of_sum_def part_simps n1_def n2_def
        n4_def n5_def)
  have n5: "om_is_element om n5" "om_name om n5 = (WSRM_SEQ_ACK, Some ns)"
    using n2(1,2) by (auto simp: n5_def n4_def om_simps split: option.split)
  have c: "om_children om n5 WSRM_IDENTIFIER ns = [idf_node ns x]" "om_children om n5 WSRM_ACK_RANGE ns = map (range_node ns) rs"
    "om_children om n5 WSRM_NACK ns = []"
    "om_children om n5 WSRM_FINAL ns = (if f = None then [] else [om_create om WSRM_FINAL ns WSRM_PREFIX])"
    "om_children om n5 WSRM_NONE ns
       = (if rs = [] \<and> second_namespace_supported ns then [om_create om WSRM_NONE ns WSRM_PREFIX] else [])"
    using n2 n1 by (auto simp: n5_def n4_def om_simps wsrm_names split: option.split)
  have "seq_ack_from_om_node om \<lparr>sk_identifier_t = None, sk_ack_range_list = [], sk_nack_list = [], sk_ack_none = None,
        sk_ack_final = None, sk_must_understand = False, sk_ns = ns\<rparr> n5 = (with_none s, Om_Success)"
    using n5(1) c s(2-4) assms(1) read_range_nodes[OF assms(1) s(3)] unfolding s(1)
    by (auto simp: seq_ack_from_om_node_def with_none_def read_mark_def allowed_second identifier_from_om_node_def
        child_text_eq first_child part_creators ack_none_from_om_node_def ack_final_from_om_node_def
        child_there_def Let_def)
  then show ?thesis using wr n5 unfolding reads_back_def by auto
qed

text \<open>The elements that hold an address.\<close>

abbreviation addr_in :: "string \<Rightarrow> string \<Rightarrow> string \<Rightarrow> string \<Rightarrow> 'n" where
  "addr_in local ns addr_ns x \<equiv>
     om_add_child om (text_element om WSA_ADDRESS addr_ns WSA_PREFIX x) (om_create om local ns WSRM_PREFIX)"

abbreviation acks_to_of :: "string \<Rightarrow> string \<Rightarrow> string \<Rightarrow> 'n acks_to_t" where
  "acks_to_of ns addr_ns x \<equiv> \<lparr>at_address = Some \<lparr>ad_epr = Some (Some x), ad_ns = addr_ns\<rparr>, at_ref_params = None,
     at_rm_ns = ns, at_addr_ns = addr_ns\<rparr>"

lemma addr_in: "om_is_element om (addr_in l ns addr_ns x)" "om_name om (addr_in l ns addr_ns x) = (l, Some ns)"
  by (simp_all add: om_simps)

lemma write_acks_to:
  "x \<noteq> '''' \<Longrightarrow> acks_to_to_om_node om (acks_to_of ns addr_ns x) n = (om_add_child om (addr_in WSRM_ACKS_TO ns addr_ns x) n, Om_Success)"
  by (simp add: acks_to_to_om_node_def part_writers no_text_def)

lemma read_acks_to:
  assumes "both_namespaces_supported ns" "x \<noteq> ''''" "om_is_element om n"
    and "om_children om n WSRM_ACKS_TO ns = addr_in WSRM_ACKS_TO ns addr_ns x # rest"
  shows "acks_to_from_om_node om \<lparr>at_address = None, at_ref_params = None, at_rm_ns = ns, at_addr_ns = addr_ns\<rparr> n
     = (acks_to_of ns addr_ns x, Om_Success)"
proof -
  have "om_children om (addr_in WSRM_ACKS_TO ns addr_ns x) EPR_REFERENCE_PARAMETERS addr_ns = []"
    by (simp add: om_simps wsrm_names)
  then show ?thesis
    using assms by (simp add: acks_to_from_om_node_def address_create_def address_from_om_node_def child_text_eq om_simps)
qed

abbreviation expires_node :: "string \<Rightarrow> expires \<Rightarrow> 'n" where
  "expires_node ns x \<equiv> text_element om WSRM_EXPIRES ns WSRM_PREFIX (the (ex_duration x))"

lemma write_expires:
  "wf_expires ns x \<Longrightarrow> (case x of None \<Rightarrow> n | Some y \<Rightarrow> fst (expires_to_om_node om y n))
     = optional_child (map_option (expires_node ns) x) n"
  by (auto simp: wf_expires_def optional_child_def expires_to_om_node_def no_text_def split: option.split)

lemma read_expires:
  assumes "both_namespaces_supported ns" "wf_expires ns x" "om_is_element om n"
    and "om_children om n WSRM_EXPIRES ns = (case x of None \<Rightarrow> [] | Some y \<Rightarrow> [expires_node ns y])"
  shows "read_optional om n WSRM_EXPIRES ns None (expires_create (Some ns)) (expires_from_om_node om) = (x, Om_Success)"
  using assms
  by (cases x) (auto simp: read_optional_def expires_create_def expires_from_om_node_def child_text_eq first_child
      dest!: wf_expiresD)

text \<open>An offer, with or without the address of its endpoint.\<close>

abbreviation offer_node :: "string \<Rightarrow> string \<Rightarrow> string \<times> cstr \<Rightarrow> 'n" where
  "offer_node ns addr_ns p \<equiv> optional_child (map_option (addr_in WSRM_ENDPOINT ns addr_ns) (snd p))
     (om_add_child om (idf_node ns (fst p)) (om_create om WSRM_SEQ_OFFER ns WSRM_PREFIX))"

abbreviation endpoint_of :: "string \<Rightarrow> string \<Rightarrow> string \<Rightarrow> endpoint" where
  "endpoint_of ns addr_ns x \<equiv> \<lparr>ep_address = Some \<lparr>ad_epr = Some (Some x), ad_ns = addr_ns\<rparr>, ep_rm_ns = ns, ep_addr_ns = addr_ns\<rparr>"

abbreviation offer_of :: "string \<Rightarrow> string \<Rightarrow> string \<times> cstr \<Rightarrow> seq_offer" where
  "offer_of ns addr_ns p \<equiv> \<lparr>so_identifier = Some \<lparr>idf_str_id = Some (fst p), idf_ns = ns\<rparr>,
     so_endpoint = map_option (endpoint_of ns addr_ns) (snd p), so_expires = None, so_ns = ns, so_addr_ns = addr_ns\<rparr>"

abbreviation ok_offer :: "(string \<times> cstr) option \<Rightarrow> bool" where
  "ok_offer p \<equiv> \<forall>q. p = Some q \<longrightarrow> fst q \<noteq> '''' \<and> snd q \<noteq> Some ''''"

lemma offer_node: "om_is_element om (offer_node ns addr_ns p)" "om_name om (offer_node ns addr_ns p) = (WSRM_SEQ_OFFER, Some ns)"
  by (simp_all add: optional_child om_simps)

lemma wf_offerD:
  "wf_offer ns addr_ns s \<Longrightarrow> \<exists>p. s = map_option (offer_of ns addr_ns) p \<and> ok_offer p"
proof (cases s)
  case (Some t)
  assume wf: "wf_offer ns addr_ns s"
  then obtain x where x: "so_identifier t = Some \<lparr>idf_str_id = Some x, idf_ns = ns\<rparr>" "x \<noteq> ''''"
    using Some by (auto simp: wf_offer_def dest!: wf_identifierD)
  obtain y where y: "so_endpoint t = map_option (endpoint_of ns addr_ns) y" "y \<noteq> Some ''''"
  proof (cases "so_endpoint t")
    case None
    then show thesis using that[of None] by simp
  next
    case (Some p)
    then obtain z where "so_endpoint t = Some (endpoint_of ns addr_ns z)" "z \<noteq> ''''"
      using wf \<open>s = Some t\<close> by (auto simp: wf_offer_def wf_endpoint_option_def dest!: wf_endpointD)
    then show thesis using that[of "Some z"] by simp
  qed
  have "t = offer_of ns addr_ns (x, y)" using wf Some x(1) y(1) by (cases t) (simp add: wf_offer_def)
  then show ?thesis using Some x(2) y(2) by (intro exI[of _ "Some (x, y)"]) simp
qed (intro exI[of _ None]; simp)

lemma write_offer:
  "ok_offer p \<Longrightarrow>
   (case map_option (offer_of ns addr_ns) p of None \<Rightarrow> Some n | Some s \<Rightarrow> map_option fst (seq_offer_to_om_node om s n))
     = Some (optional_child (map_option (offer_node ns addr_ns) p) n)"
  by (cases p; cases "snd (the p)")
     (simp_all add: seq_offer_to_om_node_def endpoint_to_om_node_def part_writers no_text_def optional_child_def)

lemma read_endpoint:
  assumes "om_is_element om n" "y \<noteq> Some ''''"
    and "om_children om n WSRM_ENDPOINT ns = (case y of None \<Rightarrow> [] | Some z \<Rightarrow> [addr_in WSRM_ENDPOINT ns addr_ns z])"
  shows "fst (endpoint_from_om_node om \<lparr>ep_address = None, ep_rm_ns = ns, ep_addr_ns = addr_ns\<rparr> n)
     = (case y of None \<Rightarrow> \<lparr>ep_address = None, ep_rm_ns = ns, ep_addr_ns = addr_ns\<rparr> | Some z \<Rightarrow> endpoint_of ns addr_ns z)"
  using assms
  by (cases y) (simp_all add: endpoint_from_om_node_def address_create_def address_from_om_node_def child_text_eq om_simps)

lemma read_offer:
  assumes "both_namespaces_supported ns" "ok_offer p" "om_is_element om n"
    and "om_children om n WSRM_SEQ_OFFER ns = (case p of None \<Rightarrow> [] | Some q \<Rightarrow> [offer_node ns addr_ns q])"
  shows "read_optional om n WSRM_SEQ_OFFER ns None (seq_offer_create (Some ns) (Some addr_ns)) (seq_offer_from_om_node om)
     = (map_option offer_as_read (map_option (offer_of ns addr_ns) p), Om_Success)"
proof (cases p)
  case (Some q)
  define m where "m = offer_node ns addr_ns q"
  have c: "om_children om m WSRM_IDENTIFIER ns = [idf_node ns (fst q)]"
    "om_children om m WSRM_ENDPOINT ns = (case snd q of None \<Rightarrow> [] | Some z \<Rightarrow> [addr_in WSRM_ENDPOINT ns addr_ns z])"
    "om_children om m WSRM_EXPIRES ns = []"
    by (simp_all add: m_def optional_child om_simps wsrm_names split: option.split)
  have m: "om_is_element om m" "om_children om n WSRM_SEQ_OFFER ns = [m]"
    using offer_node assms(4) Some by (simp_all add: m_def)
  have "seq_offer_from_om_node om \<lparr>so_identifier = None, so_endpoint = None, so_expires = None, so_ns = ns, so_addr_ns = addr_ns\<rparr> n
      = (offer_as_read (offer_of ns addr_ns q), Om_Success)"
    using assms(1-3) Some c(1,3) m read_endpoint[OF m(1) _ c(2)]
    by (simp add: seq_offer_from_om_node_def identifier_create_def identifier_from_om_node_def endpoint_create_def
        child_text_eq first_child offer_as_read_def split: option.split)
  then show ?thesis
    using assms Some by (simp add: read_optional_def seq_offer_create_def first_child)
qed (use assms in \<open>simp add: read_optional_def first_child\<close>)

lemma create_seq_reads_back:
  assumes "both_namespaces_supported ns" "wf_create_seq ns addr_ns c"
  shows "\<exists>node. (\<forall>body. create_seq_to_om_node om c body = Some (om_add_child om node body, Om_Success))
     \<and> om_is_element om node \<and> om_name om node = (WSRM_CREATE_SEQ, Some ns)
     \<and> create_seq_from_om_node om \<lparr>cs_acks_to = None, cs_expires = None, cs_seq_offer = None, cs_rm_ns = ns, cs_addr_ns = addr_ns\<rparr> node
         = (create_as_read c, Om_Success)"
proof -
  obtain x e p where c: "c = \<lparr>cs_acks_to = Some (acks_to_of ns addr_ns x), cs_expires = e,
      cs_seq_offer = map_option (offer_of ns addr_ns) p, cs_rm_ns = ns, cs_addr_ns = addr_ns\<rparr>"
      "x \<noteq> ''''" "wf_expires ns e" "ok_offer p"
    using assms(2) by (cases c) (auto simp: wf_create_seq_def dest!: wf_acks_toD wf_offerD)
  define n1 where "n1 = om_add_child om (addr_in WSRM_ACKS_TO ns addr_ns x) (om_create om WSRM_CREATE_SEQ ns WSRM_PREFIX)"
  define n2 where "n2 = optional_child (map_option (expires_node ns) e) n1"
  define n3 where "n3 = optional_child (map_option (offer_node ns addr_ns) p) n2"
  have n1: "om_is_element om n1" "om_name om n1 = (WSRM_CREATE_SEQ, Some ns)"
    by (simp_all add: n1_def om_simps)
  have n2: "om_is_element om n2" "om_name om n2 = (WSRM_CREATE_SEQ, Some ns)" "om_children om n2 l u
      = om_children om n1 l u @ (case e of None \<Rightarrow> [] | Some y \<Rightarrow> if (l, u) = (WSRM_EXPIRES, ns) then [expires_node ns y] else [])" for l u
    unfolding n2_def by (auto simp: optional_child n1 split: option.split)
  have n3: "om_is_element om n3" "om_name om n3 = (WSRM_CREATE_SEQ, Some ns)" "om_children om n3 l u
      = om_children om n2 l u @ (case p of None \<Rightarrow> [] | Some q \<Rightarrow> if (l, u) = (WSRM_SEQ_OFFER, ns) then [offer_node ns addr_ns q] else [])" for l u
    unfolding n3_def by (auto simp: optional_child n2(1,2) offer_node split: option.split)
  have ch: "om_children om n3 WSRM_ACKS_TO ns = [addr_in WSRM_ACKS_TO ns addr_ns x]"
    "om_children om n3 WSRM_EXPIRES ns = (case e of None \<Rightarrow> [] | Some y \<Rightarrow> [expires_node ns y])"
    "om_children om n3 WSRM_SEQ_OFFER ns = (case p of None \<Rightarrow> [] | Some q \<Rightarrow> [offer_node ns addr_ns q])"
    unfolding n3(3) n2(3) by (simp_all add: n1_def addr_in om_simps wsrm_names split: option.split)
  have "create_seq_to_om_node om c body = Some (om_add_child om n3 body, Om_Success)" for body
    using write_acks_to[OF c(2)] write_expires[OF c(3)] write_offer[OF c(4)] unfolding c(1)
    by (simp add: create_seq_to_om_node_def n1_def n2_def n3_def)
  moreover have "create_seq_from_om_node om
      \<lparr>cs_acks_to = None, cs_expires = None, cs_seq_offer = None, cs_rm_ns = ns, cs_addr_ns = addr_ns\<rparr> n3 = (create_as_read c, Om_Success)"
    using read_acks_to[OF assms(1) c(2) n3(1) ch(1)] read_expires[OF assms(1) c(3) n3(1) ch(2)]
      read_offer[OF assms(1) c(4) n3(1) ch(3)] n3(1) assms(1) unfolding c(1)
    by (simp add: create_seq_from_om_node_def acks_to_create_def create_as_read_def Let_def)
  ultimately show ?thesis using n3(1,2) by blast
qed

text \<open>An accepted offer.\<close>

abbreviation accept_node :: "string \<Rightarrow> string \<Rightarrow> string \<Rightarrow> 'n" where
  "accept_node ns addr_ns x \<equiv> om_add_child om (addr_in WSRM_ACKS_TO ns addr_ns x) (om_create om WSRM_ACCEPT ns WSRM_PREFIX)"

abbreviation accept_of :: "string \<Rightarrow> string \<Rightarrow> string \<Rightarrow> 'n accept_t" where
  "accept_of ns addr_ns x \<equiv> \<lparr>ac_acks_to = Some (acks_to_of ns addr_ns x), ac_rm_ns = ns, ac_addr_ns = addr_ns\<rparr>"

lemma accept_node: "om_is_element om (accept_node ns addr_ns x)" "om_name om (accept_node ns addr_ns x) = (WSRM_ACCEPT, Some ns)"
  by (simp_all add: om_simps)

lemma wf_acceptD:
  "wf_accept ns addr_ns a \<Longrightarrow> \<exists>p. a = map_option (accept_of ns addr_ns) p \<and> (\<forall>q. p = Some q \<longrightarrow> q \<noteq> '''')"
proof (cases a)
  case (Some t)
  assume "wf_accept ns addr_ns a"
  then obtain x where "t = accept_of ns addr_ns x" "x \<noteq> ''''"
    using Some by (cases t) (auto simp: wf_accept_def dest!: wf_acks_toD)
  then show ?thesis using Some by (intro exI[of _ "Some x"]) simp
qed (intro exI[of _ None]; simp)

lemma write_accept:
  "\<forall>q. p = Some q \<longrightarrow> q \<noteq> '''' \<Longrightarrow>
   (case map_option (accept_of ns addr_ns) p of None \<Rightarrow> n | Some a \<Rightarrow> fst (accept_to_om_node om a n))
     = optional_child (map_option (accept_node ns addr_ns) p) n"
  by (cases p) (simp_all add: accept_to_om_node_def write_acks_to optional_child_def)

lemma read_accept:
  assumes "both_namespaces_supported ns" "\<forall>q. p = Some q \<longrightarrow> q \<noteq> ''''" "om_is_element om n"
    and "om_children om n WSRM_ACCEPT ns = (case p of None \<Rightarrow> [] | Some q \<Rightarrow> [accept_node ns addr_ns q])"
  shows "read_optional om n WSRM_ACCEPT ns None (accept_create (Some ns) (Some addr_ns)) (accept_from_om_node om)
     = (map_option (accept_of ns addr_ns) p, Om_Success)"
proof (cases p)
  case (Some q)
  have "om_children om (accept_node ns addr_ns q) WSRM_ACKS_TO ns = [addr_in WSRM_ACKS_TO ns addr_ns q]"
    by (simp add: addr_in om_simps)
  from read_acks_to[OF assms(1) _ accept_node(1) this] show ?thesis
    using assms Some
    by (simp add: read_optional_def accept_create_def accept_from_om_node_def acks_to_create_def first_child)
qed (use assms in \<open>simp add: read_optional_def first_child\<close>)

lemma create_seq_res_reads_back:
  assumes "both_namespaces_supported ns" "wf_create_seq_res ns addr_ns c"
  shows "reads_back om (WSRM_CREATE_SEQ_RESPONSE, ns) (create_seq_res_to_om_node om c)
     (create_seq_res_from_om_node om
        \<lparr>cr_identifier_t = None, cr_accept_t = None, cr_expires = None, cr_rm_ns = ns, cr_addr_ns = addr_ns\<rparr>) c"
proof -
  obtain x p e where c: "c = \<lparr>cr_identifier_t = Some \<lparr>idf_str_id = Some x, idf_ns = ns\<rparr>,
      cr_accept_t = map_option (accept_of ns addr_ns) p, cr_expires = e, cr_rm_ns = ns, cr_addr_ns = addr_ns\<rparr>"
      "x \<noteq> ''''" "wf_expires ns e" "\<forall>q. p = Some q \<longrightarrow> q \<noteq> ''''"
    using assms(2) by (cases c) (auto simp: wf_create_seq_res_def dest!: wf_identifierD wf_acceptD)
  define n1 where "n1 = om_add_child om (idf_node ns x) (om_create om WSRM_CREATE_SEQ_RESPONSE ns WSRM_PREFIX)"
  define n2 where "n2 = optional_child (map_option (accept_node ns addr_ns) p) n1"
  define n3 where "n3 = optional_child (map_option (expires_node ns) e) n2"
  have n1: "om_is_element om n1" "om_name om n1 = (WSRM_CREATE_SEQ_RESPONSE, Some ns)"
    by (simp_all add: n1_def om_simps)
  have n2: "om_is_element om n2" "om_name om n2 = (WSRM_CREATE_SEQ_RESPONSE, Some ns)" "om_children om n2 l u
      = om_children om n1 l u @ (case p of None \<Rightarrow> [] | Some q \<Rightarrow> if (l, u) = (WSRM_ACCEPT, ns) then [accept_node ns addr_ns q] else [])" for l u
    unfolding n2_def by (auto simp: optional_child n1 accept_node split: option.split)
  have n3: "om_is_element om n3" "om_name om n3 = (WSRM_CREATE_SEQ_RESPONSE, Some ns)" "om_children om n3 l u
      = om_children om n2 l u @ (case e of None \<Rightarrow> [] | Some y \<Rightarrow> if (l, u) = (WSRM_EXPIRES, ns) then [expires_node ns y] else [])" for l u
    unfolding n3_def by (auto simp: optional_child n2(1,2) split: option.split)
  have ch: "om_children om n3 WSRM_IDENTIFIER ns = [idf_node ns x]"
    "om_children om n3 WSRM_EXPIRES ns = (case e of None \<Rightarrow> [] | Some y \<Rightarrow> [expires_node ns y])"
    "om_children om n3 WSRM_ACCEPT ns = (case p of None \<Rightarrow> [] | Some q \<Rightarrow> [accept_node ns addr_ns q])"
    unfolding n3(3) n2(3) by (simp_all add: n1_def om_simps wsrm_names split: option.split)
  have "create_seq_res_to_om_node om c body = (om_add_child om n3 body, Om_Success)" for body
    using c(2) write_accept[OF c(4)] write_expires[OF c(3)] unfolding c(1)
    by (simp add: create_seq_res_to_om_node_def identifier_to_om_node_def no_text_def n1_def n2_def n3_def)
  moreover have "create_seq_res_from_om_node om
      \<lparr>cr_identifier_t = None, cr_accept_t = None, cr_expires = None, cr_rm_ns = ns, cr_addr_ns = addr_ns\<rparr> n3 = (c, Om_Success)"
    using read_expires[OF assms(1) c(3) n3(1) ch(2)] read_accept[OF assms(1) c(4) n3(1) ch(3)] n3(1) assms(1) ch(1) c(2)
    unfolding c(1)
    by (simp add: create_seq_res_from_om_node_def identifier_create_def identifier_from_om_node_def child_text_eq Let_def)
  ultimately show ?thesis using n3(1,2) unfolding reads_back_def by auto
qed

end

end
