(* ===== verification/Envelopes.thy ===== *)
theory Envelopes
  imports Wsrm_Roundtrip
begin

text \<open>
  Whole messages: what one side writes into an envelope, the other reads and recognises; and where
  reading fails: the messages that end the process of the receiver, and the parts that get lost.
\<close>

section \<open>Messages that are written and read\<close>

text \<open>The elements of a message in one of the two namespaces of the specification.\<close>

definition wf_elements :: "string \<Rightarrow> string \<Rightarrow> 'n rm_elements \<Rightarrow> bool" where
  "wf_elements ns addr_ns e \<longleftrightarrow>
     pred_option (wf_seq ns) (el_seq e) \<and> pred_option (wf_seq_ack ns) (el_seq_ack e)
     \<and> pred_option (wf_create_seq ns addr_ns) (el_create_seq e)
     \<and> pred_option (wf_create_seq_res ns addr_ns) (el_create_seq_res e)
     \<and> pred_option (wf_terminate_seq ns) (el_terminate_seq e)
     \<and> pred_option (wf_terminate_seq_res ns) (el_terminate_seq_res e)
     \<and> pred_option (wf_close_seq ns) (el_close_seq e) \<and> pred_option (wf_close_seq_res ns) (el_close_seq_res e)
     \<and> el_make_connection e = None
     \<and> pred_option (\<lambda>p. mp_ns p = ns \<and> mp_pending p \<and> second_namespace_supported ns) (el_msg_pending e)"

text \<open>What the reader makes of them; AckRequested is not written.\<close>

definition as_read :: "'n rm_elements \<Rightarrow> 'n rm_elements" where
  "as_read e = e\<lparr>el_seq_ack := map_option with_none (el_seq_ack e), el_create_seq := map_option create_as_read (el_create_seq e),
     el_terminate_seq := map_option terminate_as_read (el_terminate_seq e), el_close_seq := map_option close_as_read (el_close_seq e),
     el_ack_requested := None\<rparr>"

text \<open>An envelope without reliable-messaging elements.\<close>

definition fresh_envelope :: "'n om_api \<Rightarrow> 'n soap_envelope \<Rightarrow> bool" where
  "fresh_envelope om env \<longleftrightarrow>
     (case se_header env of
        None \<Rightarrow> False
      | Some h \<Rightarrow> om_is_element om h
          \<and> list_all (\<lambda>ns. list_all (\<lambda>c. snd (om_name om c) \<noteq> Some ns) (om_elements om h @ om_elements om (se_body env)))
              [SPEC_2005_02_NS_URI, SPEC_2007_02_NS_URI, MAKE_CONNECTION_SPEC_2007_02_NS_URI])
     \<and> om_is_element om (se_body env)"

context om_tree begin

text \<open>An optional node of a name.\<close>

definition named :: "string \<Rightarrow> string \<Rightarrow> 'n option \<Rightarrow> bool" where
  "named l ns c \<longleftrightarrow> (\<forall>x. c = Some x \<longrightarrow> om_is_element om x \<and> om_name om x = (l, Some ns))"

lemma optional_named:
  assumes "named l ns c" "om_is_element om b"
  shows "om_is_element om (optional_child c b)" "om_name om (optional_child c b) = om_name om b"
    "om_elements om (optional_child c b) = om_elements om b @ (case c of None \<Rightarrow> [] | Some x \<Rightarrow> [x])"
    "om_children om (optional_child c b) l' u'
       = om_children om b l' u' @ (if (l', u') = (l, ns) then (case c of None \<Rightarrow> [] | Some x \<Rightarrow> [x]) else [])"
  using assms by (auto simp: named_def optional_child_def om_simps split: option.split)

text \<open>The node, if any, of a part: what its writer adds and its reader reads.\<close>

definition node_for ::
  "string \<Rightarrow> string \<Rightarrow> ('p \<Rightarrow> 'n \<Rightarrow> 'n \<times> om_result) \<Rightarrow> ('n \<Rightarrow> 'p \<times> om_result) \<Rightarrow> ('p \<Rightarrow> 'p) \<Rightarrow> 'p option \<Rightarrow> 'n option \<Rightarrow> bool" where
  "node_for l ns w r g part c \<longleftrightarrow> named l ns c \<and> map_option (\<lambda>n. fst (r n)) c = map_option g part
     \<and> (\<forall>n. (case part of None \<Rightarrow> n | Some p \<Rightarrow> fst (w p n)) = optional_child c n)"

lemma part_node:
  assumes "\<And>p. part = Some p \<Longrightarrow> reads_back om (l, ns) (w p) r (g p)"
  shows "\<exists>c. node_for l ns w r g part c"
proof (cases part)
  case None
  then show ?thesis by (intro exI[of _ None]) (simp add: node_for_def named_def optional_child_def)
next
  case (Some p)
  then obtain node where "\<And>parent. w p parent = (om_add_child om node parent, Om_Success)" "om_is_element om node"
    "om_name om node = (l, Some ns)" "fst (r node) = g p"
    using assms unfolding reads_back_def by auto
  then show ?thesis using Some by (intro exI[of _ "Some node"]) (simp add: node_for_def named_def optional_child_def)
qed

lemma node_forD:
  "node_for l ns w r g part c \<Longrightarrow> named l ns c"
  "node_for l ns w r g part c \<Longrightarrow> map_option (\<lambda>n. fst (r n)) c = map_option g part"
  "node_for l ns w r g part c \<Longrightarrow> (case part of None \<Rightarrow> n | Some p \<Rightarrow> fst (w p n)) = optional_child c n"
  "node_for l ns w r g part c \<Longrightarrow> c = None \<longleftrightarrow> part = None"
  by (auto simp: node_for_def)

lemma write_body:
  assumes "node_for l ns w r g part c" "\<And>p. part = Some p \<Longrightarrow> f p env = into_body om l ns (w p) env"
    and "om_children om (se_body env) l ns = []"
  shows "write_if f part env = env\<lparr>se_body := optional_child c (se_body env)\<rparr>"
  using node_forD(3)[OF assms(1), of "se_body env"] assms(2,3)
  by (cases part) (auto simp: write_if_def into_body_def remove_child)

lemma write_header:
  assumes "node_for l ns w r g part c" "\<And>p. part = Some p \<Longrightarrow> f p env = into_header om l ns (w p) env"
    and "se_header env = Some h" "om_children om h l ns = []"
  shows "write_if f part env = env\<lparr>se_header := Some (optional_child c h)\<rparr>"
  using node_forD(3)[OF assms(1), of h] assms(2-4)
  by (cases part) (auto simp: write_if_def into_header_def remove_block)

lemma read_node:
  assumes "node_for l ns w r g part c" "om_children om parent l ns = (case c of None \<Rightarrow> [] | Some x \<Rightarrow> [x])"
    and "part \<noteq> None \<Longrightarrow> new = Inr p0" "r = from_node p0"
  shows "read_element om parent l ns new (\<lambda>p n. fst (from_node p n)) = Some (map_option g part)"
  using assms node_forD(2,4)[OF assms(1)] by (cases c) (auto simp: read_element_def first_child split: option.splits)

text \<open>Nothing of the two namespaces is in a new envelope.\<close>

lemma fresh_children:
  assumes "fresh_envelope om env" "both_namespaces_supported ns"
  obtains h where "se_header env = Some h" "om_is_element om h" "om_is_element om (se_body env)"
    "\<And>l. om_children om h l ns = []" "\<And>l. om_children om (se_body env) l ns = []"
    "\<And>u. u \<in> {SPEC_2005_02_NS_URI, SPEC_2007_02_NS_URI, MAKE_CONNECTION_SPEC_2007_02_NS_URI} \<Longrightarrow>
        om_blocks_with_uri om h u = []"
proof -
  let ?all = "{SPEC_2005_02_NS_URI, SPEC_2007_02_NS_URI, MAKE_CONNECTION_SPEC_2007_02_NS_URI}"
  have ns: "ns \<in> ?all" using assms(2) by (simp add: both_namespaces_supported_def split: if_splits)
  obtain h where h: "se_header env = Some h" "om_is_element om h" "om_is_element om (se_body env)"
    "\<forall>u \<in> ?all. \<forall>c \<in> set (om_elements om h) \<union> set (om_elements om (se_body env)). snd (om_name om c) \<noteq> Some u"
    using assms(1) by (auto simp: fresh_envelope_def list_all_iff split: option.splits)
  have n: "om_name om c \<noteq> (l, Some ns)" if "c \<in> set (om_elements om h) \<union> set (om_elements om (se_body env))" for c l
  proof
    assume "om_name om c = (l, Some ns)"
    then have "snd (om_name om c) = Some ns" by simp
    then show False using h(4) ns that by blast
  qed
  show thesis
  proof (rule that[OF h(1-3)])
    show "om_children om h l ns = []" "om_children om (se_body env) l ns = []" for l
      using n by (simp_all add: children filter_empty_conv)
    show "om_blocks_with_uri om h u = []" if "u \<in> ?all" for u
      unfolding blocks filter_empty_conv using h(4) that by blast
  qed
qed

lemma pending_part:
  assumes "pred_option (\<lambda>p. mp_ns p = ns \<and> mp_pending p \<and> second_namespace_supported ns) part"
  obtains c where "named WSRM_MESSAGE_PENDING ns c"
    "\<And>n. (case part of None \<Rightarrow> n | Some p \<Rightarrow> fst (msg_pending_to_om_node om p n)) = optional_child c n"
    "\<And>h. om_children om h WSRM_MESSAGE_PENDING ns = (case c of None \<Rightarrow> [] | Some x \<Rightarrow> [x]) \<Longrightarrow> read_msg_pending om h ns = Some part"
    "c = None \<longleftrightarrow> part = None"
proof (cases part)
  case None
  then show thesis
    using that[of None] by (simp add: named_def optional_child_def read_msg_pending_def first_child)
next
  case (Some p)
  let ?c = "om_add_attribute om WSRM_PENDING AXIS2_VALUE_FALSE (om_create om WSRM_MESSAGE_PENDING ns WSRM_PREFIX)"
  have p: "p = \<lparr>mp_pending = True, mp_ns = ns\<rparr>" "second_namespace_supported ns"
    using assms Some by (cases p; simp)+
  show thesis
    by (rule that[of "Some ?c"])
       (use Some p in \<open>simp_all add: named_def optional_child_def read_msg_pending_def first_child om_simps
          msg_pending_to_om_node_def msg_pending_create_def msg_pending_from_om_node_def\<close>)
qed

lemma create_part:
  assumes "both_namespaces_supported ns" "pred_option (wf_create_seq ns addr_ns) part"
  obtains c where "named WSRM_CREATE_SEQ ns c"
    "map_option (\<lambda>n. fst (create_seq_from_om_node om
        \<lparr>cs_acks_to = None, cs_expires = None, cs_seq_offer = None, cs_rm_ns = ns, cs_addr_ns = addr_ns\<rparr> n)) c
       = map_option create_as_read part"
    "\<And>env. om_children om (se_body env) WSRM_CREATE_SEQ ns = [] \<Longrightarrow>
       (case part of None \<Rightarrow> Some env | Some p \<Rightarrow> create_seq_to_soap_envelope om p env)
       = Some (env\<lparr>se_body := optional_child c (se_body env)\<rparr>)"
proof (cases part)
  case None
  then show thesis using that[of None] by (simp add: named_def optional_child_def)
next
  case (Some p)
  then have wf: "wf_create_seq ns addr_ns p" using assms(2) by simp
  from create_seq_reads_back[OF assms(1) wf] obtain node where
    "\<And>body. create_seq_to_om_node om p body = Some (om_add_child om node body, Om_Success)"
    "om_is_element om node" "om_name om node = (WSRM_CREATE_SEQ, Some ns)"
    "create_seq_from_om_node om \<lparr>cs_acks_to = None, cs_expires = None, cs_seq_offer = None, cs_rm_ns = ns, cs_addr_ns = addr_ns\<rparr> node
         = (create_as_read p, Om_Success)" by blast
  moreover have "cs_rm_ns p = ns" using wf by (simp add: wf_create_seq_def)
  ultimately show thesis
    using that[of "Some node"] Some
    by (simp add: named_def optional_child_def create_seq_to_soap_envelope_def remove_child)
qed

text \<open>The new structs that the readers fill.\<close>

abbreviation "new_seq ns \<equiv> \<lparr>sq_identifier_t = None, sq_msg_num = None, sq_last_msg_t = None, sq_must_understand = True, sq_ns = ns\<rparr>"
abbreviation "new_seq_ack ns \<equiv> \<lparr>sk_identifier_t = None, sk_ack_range_list = [], sk_nack_list = [], sk_ack_none = None,
  sk_ack_final = None, sk_must_understand = False, sk_ns = ns\<rparr>"
abbreviation "new_close_seq ns \<equiv> \<lparr>cl_identifier = None, cl_last_msg_number = None, cl_ns = ns\<rparr>"
abbreviation "new_close_seq_res ns \<equiv> \<lparr>clr_identifier = None, clr_ns = ns\<rparr>"
abbreviation "new_terminate_seq ns \<equiv> \<lparr>te_identifier = None, te_last_msg_number = None, te_ns = ns\<rparr>"
abbreviation "new_terminate_seq_res ns \<equiv> \<lparr>ter_identifier = None, ter_ns = ns\<rparr>"
abbreviation "new_create_seq_res ns addr_ns \<equiv>
  \<lparr>cr_identifier_t = None, cr_accept_t = None, cr_expires = None, cr_rm_ns = ns, cr_addr_ns = addr_ns\<rparr>"
abbreviation "new_create_seq ns addr_ns \<equiv>
  \<lparr>cs_acks_to = None, cs_expires = None, cs_seq_offer = None, cs_rm_ns = ns, cs_addr_ns = addr_ns\<rparr>"

text \<open>The nodes of the parts of a message.\<close>

lemma message_nodes:
  assumes ns: "both_namespaces_supported ns" and wf: "wf_elements ns addr_ns e"
  obtains sq sk cl clr te ter cr where
    "node_for WSRM_SEQ ns (seq_to_om_node om) (seq_from_om_node om (new_seq ns)) (\<lambda>p. p) (el_seq e) sq"
    "node_for WSRM_SEQ_ACK ns (seq_ack_to_om_node om) (seq_ack_from_om_node om (new_seq_ack ns)) with_none (el_seq_ack e) sk"
    "node_for WSRM_CLOSE_SEQ ns (close_seq_to_om_node om) (close_seq_from_om_node om (new_close_seq ns)) close_as_read (el_close_seq e) cl"
    "node_for WSRM_CLOSE_SEQ_RESPONSE ns (close_seq_res_to_om_node om) (close_seq_res_from_om_node om (new_close_seq_res ns))
       (\<lambda>p. p) (el_close_seq_res e) clr"
    "node_for WSRM_TERMINATE_SEQ ns (terminate_seq_to_om_node om) (terminate_seq_from_om_node om (new_terminate_seq ns))
       terminate_as_read (el_terminate_seq e) te"
    "node_for WSRM_TERMINATE_SEQ_RESPONSE ns (terminate_seq_res_to_om_node om)
       (terminate_seq_res_from_om_node om (new_terminate_seq_res ns)) (\<lambda>p. p) (el_terminate_seq_res e) ter"
    "node_for WSRM_CREATE_SEQ_RESPONSE ns (create_seq_res_to_om_node om)
       (create_seq_res_from_om_node om (new_create_seq_res ns addr_ns)) (\<lambda>p. p) (el_create_seq_res e) cr"
proof -
  note wf' = wf[unfolded wf_elements_def]
  have "\<exists>c. node_for WSRM_SEQ ns (seq_to_om_node om) (seq_from_om_node om (new_seq ns)) (\<lambda>p. p) (el_seq e) c"
    by (rule part_node, rule seq_reads_back[OF ns]) (use wf' in simp)
  moreover have "\<exists>c. node_for WSRM_SEQ_ACK ns (seq_ack_to_om_node om) (seq_ack_from_om_node om (new_seq_ack ns)) with_none (el_seq_ack e) c"
    by (rule part_node, rule seq_ack_reads_back[OF ns]) (use wf' in simp)
  moreover have "\<exists>c. node_for WSRM_CLOSE_SEQ ns (close_seq_to_om_node om) (close_seq_from_om_node om (new_close_seq ns))
      close_as_read (el_close_seq e) c"
    by (rule part_node, rule close_seq_reads_back) (use wf' in simp)
  moreover have "\<exists>c. node_for WSRM_CLOSE_SEQ_RESPONSE ns (close_seq_res_to_om_node om)
      (close_seq_res_from_om_node om (new_close_seq_res ns)) (\<lambda>p. p) (el_close_seq_res e) c"
    by (rule part_node, rule close_seq_res_reads_back) (use wf' in simp)
  moreover have "\<exists>c. node_for WSRM_TERMINATE_SEQ ns (terminate_seq_to_om_node om)
      (terminate_seq_from_om_node om (new_terminate_seq ns)) terminate_as_read (el_terminate_seq e) c"
    by (rule part_node, rule terminate_seq_reads_back[OF ns]) (use wf' in simp)
  moreover have "\<exists>c. node_for WSRM_TERMINATE_SEQ_RESPONSE ns (terminate_seq_res_to_om_node om)
      (terminate_seq_res_from_om_node om (new_terminate_seq_res ns)) (\<lambda>p. p) (el_terminate_seq_res e) c"
    by (rule part_node, rule terminate_seq_res_reads_back) (use wf' in simp)
  moreover have "\<exists>c. node_for WSRM_CREATE_SEQ_RESPONSE ns (create_seq_res_to_om_node om)
      (create_seq_res_from_om_node om (new_create_seq_res ns addr_ns)) (\<lambda>p. p) (el_create_seq_res e) c"
    by (rule part_node, rule create_seq_res_reads_back[OF ns]) (use wf' in simp)
  ultimately show thesis using that by blast
qed

text \<open>Three parts in the header and six in the body.\<close>

lemma header_children:
  assumes "named WSRM_MESSAGE_PENDING ns mp" "named WSRM_SEQ_ACK ns sk" "named WSRM_SEQ ns sq" "om_is_element om h"
    "\<And>l. om_children om h l ns = []"
  defines "h' \<equiv> optional_child sq (optional_child sk (optional_child mp h))"
  shows "om_children om h' WSRM_SEQ ns = (case sq of None \<Rightarrow> [] | Some x \<Rightarrow> [x])"
    "om_children om h' WSRM_SEQ_ACK ns = (case sk of None \<Rightarrow> [] | Some x \<Rightarrow> [x])"
    "om_children om h' WSRM_MESSAGE_PENDING ns = (case mp of None \<Rightarrow> [] | Some x \<Rightarrow> [x])"
    "om_children om h' WSRM_ACK_REQUESTED ns = []" "om_name om h' = om_name om h"
    "om_elements om h' = om_elements om h @ (case mp of None \<Rightarrow> [] | Some x \<Rightarrow> [x]) @ (case sk of None \<Rightarrow> [] | Some x \<Rightarrow> [x])
       @ (case sq of None \<Rightarrow> [] | Some x \<Rightarrow> [x])"
proof -
  note a = optional_named[OF assms(1,4)]
  note b = optional_named[OF assms(2) a(1)]
  note c = optional_named[OF assms(3) b(1)]
  show "om_children om h' WSRM_SEQ ns = (case sq of None \<Rightarrow> [] | Some x \<Rightarrow> [x])"
    "om_children om h' WSRM_SEQ_ACK ns = (case sk of None \<Rightarrow> [] | Some x \<Rightarrow> [x])"
    "om_children om h' WSRM_MESSAGE_PENDING ns = (case mp of None \<Rightarrow> [] | Some x \<Rightarrow> [x])"
    "om_children om h' WSRM_ACK_REQUESTED ns = []" "om_name om h' = om_name om h"
    "om_elements om h' = om_elements om h @ (case mp of None \<Rightarrow> [] | Some x \<Rightarrow> [x]) @ (case sk of None \<Rightarrow> [] | Some x \<Rightarrow> [x])
       @ (case sq of None \<Rightarrow> [] | Some x \<Rightarrow> [x])"
    unfolding h'_def by (simp_all add: a b c assms(5) wsrm_names)
qed

lemma body_children:
  assumes "named WSRM_CLOSE_SEQ ns cl" "named WSRM_CLOSE_SEQ_RESPONSE ns clr" "named WSRM_CREATE_SEQ ns cs"
    "named WSRM_CREATE_SEQ_RESPONSE ns cr" "named WSRM_TERMINATE_SEQ ns te" "named WSRM_TERMINATE_SEQ_RESPONSE ns ter"
    "om_is_element om b" "\<And>l. om_children om b l ns = []"
  defines "b' \<equiv> optional_child ter (optional_child te (optional_child cr (optional_child cs (optional_child clr (optional_child cl b)))))"
  shows "om_children om b' WSRM_CLOSE_SEQ ns = (case cl of None \<Rightarrow> [] | Some x \<Rightarrow> [x])"
    "om_children om b' WSRM_CLOSE_SEQ_RESPONSE ns = (case clr of None \<Rightarrow> [] | Some x \<Rightarrow> [x])"
    "om_children om b' WSRM_CREATE_SEQ ns = (case cs of None \<Rightarrow> [] | Some x \<Rightarrow> [x])"
    "om_children om b' WSRM_CREATE_SEQ_RESPONSE ns = (case cr of None \<Rightarrow> [] | Some x \<Rightarrow> [x])"
    "om_children om b' WSRM_TERMINATE_SEQ ns = (case te of None \<Rightarrow> [] | Some x \<Rightarrow> [x])"
    "om_children om b' WSRM_TERMINATE_SEQ_RESPONSE ns = (case ter of None \<Rightarrow> [] | Some x \<Rightarrow> [x])"
    "om_children om b' WSRM_MAKE_CONNECTION ns = []"
proof -
  note c1 = optional_named[OF assms(1,7)]
  note c2 = optional_named[OF assms(2) c1(1)]
  note c3 = optional_named[OF assms(3) c2(1)]
  note c4 = optional_named[OF assms(4) c3(1)]
  note c5 = optional_named[OF assms(5) c4(1)]
  note c6 = optional_named[OF assms(6) c5(1)]
  show "om_children om b' WSRM_CLOSE_SEQ ns = (case cl of None \<Rightarrow> [] | Some x \<Rightarrow> [x])"
    "om_children om b' WSRM_CLOSE_SEQ_RESPONSE ns = (case clr of None \<Rightarrow> [] | Some x \<Rightarrow> [x])"
    "om_children om b' WSRM_CREATE_SEQ ns = (case cs of None \<Rightarrow> [] | Some x \<Rightarrow> [x])"
    "om_children om b' WSRM_CREATE_SEQ_RESPONSE ns = (case cr of None \<Rightarrow> [] | Some x \<Rightarrow> [x])"
    "om_children om b' WSRM_TERMINATE_SEQ ns = (case te of None \<Rightarrow> [] | Some x \<Rightarrow> [x])"
    "om_children om b' WSRM_TERMINATE_SEQ_RESPONSE ns = (case ter of None \<Rightarrow> [] | Some x \<Rightarrow> [x])"
    "om_children om b' WSRM_MAKE_CONNECTION ns = []"
    unfolding b'_def by (simp_all add: c1(4) c2(4) c3(4) c4(4) c5(4) c6(4) assms(8) wsrm_names)
qed

text \<open>Writing a message: every part is added in its turn.\<close>

lemma write_message:
  assumes wf: "wf_elements ns addr_ns (ctx_elements ctx)" and h: "se_header env = Some h" "om_is_element om h"
    and b: "se_body env = b" "om_is_element om b"
    and fresh: "\<And>l. om_children om h l ns = []" "\<And>l. om_children om b l ns = []"
    and mp: "named WSRM_MESSAGE_PENDING ns mp"
      "\<And>n. (case el_msg_pending (ctx_elements ctx) of None \<Rightarrow> n | Some p \<Rightarrow> fst (msg_pending_to_om_node om p n)) = optional_child mp n"
    and cs: "named WSRM_CREATE_SEQ ns cs"
      "\<And>env. om_children om (se_body env) WSRM_CREATE_SEQ ns = [] \<Longrightarrow>
         (case el_create_seq (ctx_elements ctx) of None \<Rightarrow> Some env | Some p \<Rightarrow> create_seq_to_soap_envelope om p env)
           = Some (env\<lparr>se_body := optional_child cs (se_body env)\<rparr>)"
    and sq: "node_for WSRM_SEQ ns (seq_to_om_node om) r1 g1 (el_seq (ctx_elements ctx)) sq"
    and sk: "node_for WSRM_SEQ_ACK ns (seq_ack_to_om_node om) r2 g2 (el_seq_ack (ctx_elements ctx)) sk"
    and cl: "node_for WSRM_CLOSE_SEQ ns (close_seq_to_om_node om) r3 g3 (el_close_seq (ctx_elements ctx)) cl"
    and clr: "node_for WSRM_CLOSE_SEQ_RESPONSE ns (close_seq_res_to_om_node om) r4 g4 (el_close_seq_res (ctx_elements ctx)) clr"
    and te: "node_for WSRM_TERMINATE_SEQ ns (terminate_seq_to_om_node om) r5 g5 (el_terminate_seq (ctx_elements ctx)) te"
    and ter: "node_for WSRM_TERMINATE_SEQ_RESPONSE ns (terminate_seq_res_to_om_node om) r6 g6 (el_terminate_seq_res (ctx_elements ctx)) ter"
    and cr: "node_for WSRM_CREATE_SEQ_RESPONSE ns (create_seq_res_to_om_node om) r7 g7 (el_create_seq_res (ctx_elements ctx)) cr"
  shows "add_soap_envelope om d ctx (Some env) = Some \<lparr>
     se_header = Some (optional_child sq (optional_child sk (optional_child mp h))),
     se_body = optional_child ter (optional_child te (optional_child cr (optional_child cs (optional_child clr (optional_child cl b)))))\<rparr>"
proof -
  let ?e = "ctx_elements ctx"
  note c1 = optional_named[OF node_forD(1)[OF cl] b(2)]
  note c2 = optional_named[OF node_forD(1)[OF clr] c1(1)]
  note c3 = optional_named[OF cs(1) c2(1)]
  note c4 = optional_named[OF node_forD(1)[OF cr] c3(1)]
  note c5 = optional_named[OF node_forD(1)[OF te] c4(1)]
  note d1 = optional_named[OF mp(1) h(2)]
  note d2 = optional_named[OF node_forD(1)[OF sk] d1(1)]
  note parts = wf[unfolded wf_elements_def wf_seq_def wf_seq_ack_def wf_create_seq_res_def wf_terminate_seq_def
      wf_terminate_seq_res_def wf_close_seq_def wf_close_seq_res_def]
  let ?b1 = "optional_child cl b" and ?b2 = "optional_child clr (optional_child cl b)"
  let ?b3 = "optional_child cs ?b2" let ?b4 = "optional_child cr ?b3" let ?b5 = "optional_child te ?b4"
  let ?h1 = "optional_child mp h" let ?h2 = "optional_child sk ?h1"
  have s1: "write_if (close_seq_to_soap_envelope om) (el_close_seq ?e) env = env\<lparr>se_body := ?b1\<rparr>"
    by (subst write_body[OF cl]) (use parts in \<open>simp_all add: close_seq_to_soap_envelope_def b fresh\<close>)
  have s2: "write_if (close_seq_res_to_soap_envelope om) (el_close_seq_res ?e) (env\<lparr>se_body := ?b1\<rparr>) = env\<lparr>se_body := ?b2\<rparr>"
    by (subst write_body[OF clr]) (use parts in \<open>simp_all add: close_seq_res_to_soap_envelope_def c1 fresh wsrm_names\<close>)
  have s3: "(case el_create_seq ?e of None \<Rightarrow> Some (env\<lparr>se_body := ?b2\<rparr>) | Some p \<Rightarrow> create_seq_to_soap_envelope om p (env\<lparr>se_body := ?b2\<rparr>))
      = Some (env\<lparr>se_body := ?b3\<rparr>)"
    by (subst cs(2)) (simp_all add: c2(4) c1(4) fresh wsrm_names)
  have s4: "write_if (create_seq_res_to_soap_envelope om) (el_create_seq_res ?e) (env\<lparr>se_body := ?b3\<rparr>) = env\<lparr>se_body := ?b4\<rparr>"
    by (subst write_body[OF cr]) (use parts in \<open>simp_all add: create_seq_res_to_soap_envelope_def c3(4) c2(4) c1(4) fresh wsrm_names\<close>)
  have s5: "write_if (make_connection_to_soap_envelope om) (el_make_connection ?e) x = x" for x
    using parts by (simp add: write_if_def)
  have "om_remove_block om WSRM_MESSAGE_PENDING ns h = h" by (simp add: remove_block fresh)
  then have s6: "write_if (msg_pending_to_soap_envelope om) (el_msg_pending ?e) (env\<lparr>se_body := ?b4\<rparr>)
      = env\<lparr>se_body := ?b4, se_header := Some ?h1\<rparr>"
    using mp(2)[of h] parts h(1)
    by (cases "el_msg_pending ?e") (simp_all add: write_if_def msg_pending_to_soap_envelope_def into_header_def)
  have s7: "write_if (seq_ack_to_soap_envelope om) (el_seq_ack ?e) (env\<lparr>se_body := ?b4, se_header := Some ?h1\<rparr>)
      = env\<lparr>se_body := ?b4, se_header := Some ?h2\<rparr>"
    using node_forD(3)[OF sk, of ?h1]
    by (cases "el_seq_ack ?e") (simp_all add: write_if_def seq_ack_to_soap_envelope_def)
  have s8: "write_if (seq_to_soap_envelope om) (el_seq ?e) (env\<lparr>se_body := ?b4, se_header := Some ?h2\<rparr>)
      = env\<lparr>se_body := ?b4, se_header := Some (optional_child sq ?h2)\<rparr>"
    by (subst write_header[OF sq]) (use parts in \<open>simp_all add: seq_to_soap_envelope_def d2(4) d1(4) fresh wsrm_names\<close>)
  have s9: "write_if (terminate_seq_to_soap_envelope om) (el_terminate_seq ?e) (env\<lparr>se_body := ?b4, se_header := x\<rparr>)
      = env\<lparr>se_body := ?b5, se_header := x\<rparr>" for x
    by (subst write_body[OF te]) (use parts in \<open>simp_all add: terminate_seq_to_soap_envelope_def c4(4) c3(4) c2(4) c1(4) fresh wsrm_names\<close>)
  have s10: "write_if (terminate_seq_res_to_soap_envelope om) (el_terminate_seq_res ?e) (env\<lparr>se_body := ?b5, se_header := x\<rparr>)
      = env\<lparr>se_body := optional_child ter ?b5, se_header := x\<rparr>" for x
    by (subst write_body[OF ter])
       (use parts in \<open>simp_all add: terminate_seq_res_to_soap_envelope_def c5(4) c4(4) c3(4) c2(4) c1(4) fresh wsrm_names\<close>)
  show ?thesis
    unfolding add_soap_envelope_def Let_def option.case s1 s2 s3 by (simp add: s4 s5 s6 s7 s8 s9 s10)
qed

text \<open>Reading it: the nodes of the parts, each under its name.\<close>

lemma read_none: "om_children om parent l ns = [] \<Longrightarrow> read_element om parent l ns new f = Some None"
  by (simp add: read_element_def first_child)

lemma read_message:
  assumes ns: "both_namespaces_supported ns" and wf: "wf_elements ns addr_ns e"
    and n: "node_for WSRM_SEQ ns w1 (seq_from_om_node om (new_seq ns)) (\<lambda>p. p) (el_seq e) sq"
      "node_for WSRM_SEQ_ACK ns w2 (seq_ack_from_om_node om (new_seq_ack ns)) with_none (el_seq_ack e) sk"
      "node_for WSRM_CLOSE_SEQ ns w3 (close_seq_from_om_node om (new_close_seq ns)) close_as_read (el_close_seq e) cl"
      "node_for WSRM_CLOSE_SEQ_RESPONSE ns w4 (close_seq_res_from_om_node om (new_close_seq_res ns)) (\<lambda>p. p) (el_close_seq_res e) clr"
      "node_for WSRM_TERMINATE_SEQ ns w5 (terminate_seq_from_om_node om (new_terminate_seq ns)) terminate_as_read (el_terminate_seq e) te"
      "node_for WSRM_TERMINATE_SEQ_RESPONSE ns w6 (terminate_seq_res_from_om_node om (new_terminate_seq_res ns))
         (\<lambda>p. p) (el_terminate_seq_res e) ter"
      "node_for WSRM_CREATE_SEQ_RESPONSE ns w7 (create_seq_res_from_om_node om (new_create_seq_res ns addr_ns))
         (\<lambda>p. p) (el_create_seq_res e) cr"
    and cs: "map_option (\<lambda>n. fst (create_seq_from_om_node om (new_create_seq ns addr_ns) n)) cs = map_option create_as_read (el_create_seq e)"
    and mp: "read_msg_pending om h ns = Some (el_msg_pending e)"
    and hc: "om_children om h WSRM_SEQ ns = (case sq of None \<Rightarrow> [] | Some x \<Rightarrow> [x])"
      "om_children om h WSRM_SEQ_ACK ns = (case sk of None \<Rightarrow> [] | Some x \<Rightarrow> [x])" "om_children om h WSRM_ACK_REQUESTED ns = []"
    and bc: "om_children om b WSRM_CLOSE_SEQ ns = (case cl of None \<Rightarrow> [] | Some x \<Rightarrow> [x])"
      "om_children om b WSRM_CLOSE_SEQ_RESPONSE ns = (case clr of None \<Rightarrow> [] | Some x \<Rightarrow> [x])"
      "om_children om b WSRM_CREATE_SEQ ns = (case cs of None \<Rightarrow> [] | Some x \<Rightarrow> [x])"
      "om_children om b WSRM_CREATE_SEQ_RESPONSE ns = (case cr of None \<Rightarrow> [] | Some x \<Rightarrow> [x])"
      "om_children om b WSRM_TERMINATE_SEQ ns = (case te of None \<Rightarrow> [] | Some x \<Rightarrow> [x])"
      "om_children om b WSRM_TERMINATE_SEQ_RESPONSE ns = (case ter of None \<Rightarrow> [] | Some x \<Rightarrow> [x])"
      "om_children om b WSRM_MAKE_CONNECTION ns = []"
  shows "read_elements om ns addr_ns h b = Some (as_read e)"
proof -
  note parts = wf[unfolded wf_elements_def wf_terminate_seq_res_def wf_close_seq_def wf_close_seq_res_def]
  have second: "second_namespace_supported ns"
    if "el_close_seq e \<noteq> None \<or> el_close_seq_res e \<noteq> None \<or> el_terminate_seq_res e \<noteq> None"
    using parts that by auto
  have v: "seq_create (Some ns) = Inr (new_seq ns)" "seq_ack_create (Some ns) = Inr (new_seq_ack ns)"
    "create_seq_res_create (Some ns) (Some addr_ns) = Inr (new_create_seq_res ns addr_ns)"
    "terminate_seq_create (Some ns) = Inr (new_terminate_seq ns)"
    "el_terminate_seq_res e \<noteq> None \<Longrightarrow> terminate_seq_res_create (Some ns) = Inr (new_terminate_seq_res ns)"
    "el_close_seq e \<noteq> None \<Longrightarrow> close_seq_create (Some ns) = Inr (new_close_seq ns)"
    "el_close_seq_res e \<noteq> None \<Longrightarrow> close_seq_res_create (Some ns) = Inr (new_close_seq_res ns)"
    using ns second
    by (simp_all add: seq_create_def seq_ack_create_def create_seq_res_create_def terminate_seq_create_def
        terminate_seq_res_create_def close_seq_create_def close_seq_res_create_def)
  have "read_element om b WSRM_CREATE_SEQ ns (create_seq_create (Some addr_ns) (Some ns)) (\<lambda>p n. fst (create_seq_from_om_node om p n))
      = Some (map_option create_as_read (el_create_seq e))"
    using bc(3) cs ns by (cases cs) (auto simp: read_element_def first_child create_seq_create_def)
  note r = this read_node[where from_node = "seq_from_om_node om", OF n(1) hc(1) v(1) refl]
    read_node[where from_node = "seq_ack_from_om_node om", OF n(2) hc(2) v(2) refl]
    read_node[where from_node = "create_seq_res_from_om_node om", OF n(7) bc(4) v(3) refl]
    read_node[where from_node = "terminate_seq_from_om_node om", OF n(5) bc(5) v(4) refl]
    read_node[where from_node = "terminate_seq_res_from_om_node om", OF n(6) bc(6) v(5) refl]
    read_node[where from_node = "close_seq_from_om_node om", OF n(3) bc(1) v(6) refl]
    read_node[where from_node = "close_seq_res_from_om_node om", OF n(4) bc(2) v(7) refl]
  have "read_elements om ns addr_ns h b = Some
      \<lparr>el_seq = map_option (\<lambda>p. p) (el_seq e), el_seq_ack = map_option with_none (el_seq_ack e),
       el_create_seq = map_option create_as_read (el_create_seq e), el_create_seq_res = map_option (\<lambda>p. p) (el_create_seq_res e),
       el_terminate_seq = map_option terminate_as_read (el_terminate_seq e),
       el_terminate_seq_res = map_option (\<lambda>p. p) (el_terminate_seq_res e),
       el_close_seq = map_option close_as_read (el_close_seq e), el_close_seq_res = map_option (\<lambda>p. p) (el_close_seq_res e),
       el_ack_requested = None, el_make_connection = None, el_msg_pending = el_msg_pending e\<rparr>"
    unfolding read_elements_def
    by (simp add: r read_none[OF bc(7)] read_none[OF hc(3)] mp)
  also have "\<dots> = Some (as_read e)"
    using parts by (cases e) (simp add: as_read_def option.map_ident)
  finally show ?thesis .
qed

text \<open>The envelope of a message, and what is read from it.\<close>

lemma written_envelope:
  assumes ns: "both_namespaces_supported ns" and wf: "wf_elements ns addr_ns (ctx_elements ctx)" and fresh: "fresh_envelope om env"
  defines "e \<equiv> ctx_elements ctx"
  obtains h h' b' where "add_soap_envelope om d ctx (Some env) = Some \<lparr>se_header = Some h', se_body = b'\<rparr>"
    "read_elements om ns addr_ns h' b' = Some (as_read e)" "se_header env = Some h" "om_name om h' = om_name om h"
    "\<And>u. om_blocks_with_uri om h' u \<noteq> []
       \<longleftrightarrow> om_blocks_with_uri om h u \<noteq> [] \<or> u = ns \<and> (el_seq e \<noteq> None \<or> el_seq_ack e \<noteq> None \<or> el_msg_pending e \<noteq> None)"
    "\<And>u. u \<in> {SPEC_2005_02_NS_URI, SPEC_2007_02_NS_URI, MAKE_CONNECTION_SPEC_2007_02_NS_URI} \<Longrightarrow> om_blocks_with_uri om h u = []"
proof -
  obtain h where h: "se_header env = Some h" "om_is_element om h" "om_is_element om (se_body env)"
    "\<And>l. om_children om h l ns = []" "\<And>l. om_children om (se_body env) l ns = []"
    "\<And>u. u \<in> {SPEC_2005_02_NS_URI, SPEC_2007_02_NS_URI, MAKE_CONNECTION_SPEC_2007_02_NS_URI} \<Longrightarrow> om_blocks_with_uri om h u = []"
    using fresh_children[OF fresh ns] by blast
  note parts = wf[unfolded wf_elements_def]
  obtain mp where mp: "named WSRM_MESSAGE_PENDING ns mp"
    "\<And>n. (case el_msg_pending e of None \<Rightarrow> n | Some p \<Rightarrow> fst (msg_pending_to_om_node om p n)) = optional_child mp n"
    "\<And>h. om_children om h WSRM_MESSAGE_PENDING ns = (case mp of None \<Rightarrow> [] | Some x \<Rightarrow> [x])
       \<Longrightarrow> read_msg_pending om h ns = Some (el_msg_pending e)" "mp = None \<longleftrightarrow> el_msg_pending e = None"
    using pending_part[of ns "el_msg_pending e"] parts unfolding e_def by blast
  obtain cs where cs: "named WSRM_CREATE_SEQ ns cs"
    "map_option (\<lambda>n. fst (create_seq_from_om_node om (new_create_seq ns addr_ns) n)) cs = map_option create_as_read (el_create_seq e)"
    "\<And>env. om_children om (se_body env) WSRM_CREATE_SEQ ns = [] \<Longrightarrow>
       (case el_create_seq e of None \<Rightarrow> Some env | Some p \<Rightarrow> create_seq_to_soap_envelope om p env)
       = Some (env\<lparr>se_body := optional_child cs (se_body env)\<rparr>)"
    using create_part[OF ns, of addr_ns "el_create_seq e"] parts unfolding e_def by blast
  from message_nodes[OF ns wf] obtain sq sk cl clr te ter cr where n:
    "node_for WSRM_SEQ ns (seq_to_om_node om) (seq_from_om_node om (new_seq ns)) (\<lambda>p. p) (el_seq e) sq"
    "node_for WSRM_SEQ_ACK ns (seq_ack_to_om_node om) (seq_ack_from_om_node om (new_seq_ack ns)) with_none (el_seq_ack e) sk"
    "node_for WSRM_CLOSE_SEQ ns (close_seq_to_om_node om) (close_seq_from_om_node om (new_close_seq ns)) close_as_read (el_close_seq e) cl"
    "node_for WSRM_CLOSE_SEQ_RESPONSE ns (close_seq_res_to_om_node om) (close_seq_res_from_om_node om (new_close_seq_res ns))
       (\<lambda>p. p) (el_close_seq_res e) clr"
    "node_for WSRM_TERMINATE_SEQ ns (terminate_seq_to_om_node om) (terminate_seq_from_om_node om (new_terminate_seq ns))
       terminate_as_read (el_terminate_seq e) te"
    "node_for WSRM_TERMINATE_SEQ_RESPONSE ns (terminate_seq_res_to_om_node om)
       (terminate_seq_res_from_om_node om (new_terminate_seq_res ns)) (\<lambda>p. p) (el_terminate_seq_res e) ter"
    "node_for WSRM_CREATE_SEQ_RESPONSE ns (create_seq_res_to_om_node om)
       (create_seq_res_from_om_node om (new_create_seq_res ns addr_ns)) (\<lambda>p. p) (el_create_seq_res e) cr"
    unfolding e_def .
  let ?h = "optional_child sq (optional_child sk (optional_child mp h))"
  let ?b = "optional_child ter (optional_child te (optional_child cr (optional_child cs (optional_child clr (optional_child cl (se_body env))))))"
  note hc = header_children[OF mp(1) node_forD(1)[OF n(2)] node_forD(1)[OF n(1)] h(2,4)]
  note bc = body_children[OF node_forD(1)[OF n(3)] node_forD(1)[OF n(4)] cs(1) node_forD(1)[OF n(7)] node_forD(1)[OF n(5)]
      node_forD(1)[OF n(6)] h(3,5)]
  have w: "add_soap_envelope om d ctx (Some env) = Some \<lparr>se_header = Some ?h, se_body = ?b\<rparr>"
    by (rule write_message[OF wf h(1,2) refl h(3-5) mp(1,2)[unfolded e_def] cs(1,3)[unfolded e_def] n[unfolded e_def]])
  show thesis
  proof (rule that[OF w])
    show "read_elements om ns addr_ns ?h ?b = Some (as_read e)"
      by (rule read_message[OF ns wf[folded e_def] n cs(2) mp(3)[OF hc(3)] hc(1,2,4) bc])
    have named: "x \<in> set (case c of None \<Rightarrow> [] | Some y \<Rightarrow> [y]) \<Longrightarrow> snd (om_name om x) = Some ns" if "named l ns c" for l c x
      using that by (cases c) (auto simp: named_def)
    note nm = named[OF mp(1)] named[OF node_forD(1)[OF n(1)]] named[OF node_forD(1)[OF n(2)]]
    show "om_blocks_with_uri om ?h u \<noteq> []
       \<longleftrightarrow> om_blocks_with_uri om h u \<noteq> [] \<or> u = ns \<and> (el_seq e \<noteq> None \<or> el_seq_ack e \<noteq> None \<or> el_msg_pending e \<noteq> None)" for u
      unfolding blocks hc(6) filter_empty_conv mp(4)[symmetric] node_forD(4)[OF n(1), symmetric] node_forD(4)[OF n(2), symmetric]
      using nm by (cases mp; cases sk; cases sq) (auto simp del: om_simps)
  qed (use h hc in simp_all)
qed

end

end
