(* ===== verification/Wire.thy ===== *)
theory Wire
  imports Envelopes Ack_Msg_Processor Make_Connection_Msg_Processor
begin

text \<open>
  The properties of messages between two sides: what is written into an envelope is read from it and
  recognised, the numbers one side acknowledges are those the other removes, and what goes wrong when reading:
  elements that end the receiver's process and parts that get lost.
\<close>

section \<open>Examples\<close>

definition sample_addressing :: wsa_consts where
  "sample_addressing = \<lparr>WSA_NAMESPACE_SUBMISSION = ''wsa04'', WSA_NAMESPACE = ''wsa05'', WSA_ANONYMOUS_URL_SUBMISSION = ''anon04'',
     WSA_ANONYMOUS_URL = ''anon05''\<rparr>"

definition sample_envelope :: "xml soap_envelope" where
  "sample_envelope = \<lparr>se_header = Some (Element ''Header'' (Some ''soap'') None []
       [Element ''To'' (Some ''wsa05'') None [] [Text ''http://server'']]),
     se_body = Element ''Body'' (Some ''soap'') None [] []\<rparr>"

text \<open>Message three with an acknowledgement of one, two and four.\<close>

definition sample_ack :: seq_ack_t where
  "sample_ack = \<lparr>sk_identifier_t = Some \<lparr>idf_str_id = Some ''rms'', idf_ns = SPEC_2005_02_NS_URI\<rparr>,
     sk_ack_range_list = get_ack_range_list ''1,2,4'' (Some SPEC_2005_02_NS_URI), sk_nack_list = [], sk_ack_none = None,
     sk_ack_final = None, sk_must_understand = False, sk_ns = SPEC_2005_02_NS_URI\<rparr>"

definition sample_seq :: seq_t where
  "sample_seq = \<lparr>sq_identifier_t = Some \<lparr>idf_str_id = Some ''s'', idf_ns = SPEC_2005_02_NS_URI\<rparr>,
     sq_msg_num = Some \<lparr>mn_msg_num = 3, mn_ns = SPEC_2005_02_NS_URI\<rparr>, sq_last_msg_t = None, sq_must_understand = True,
     sq_ns = SPEC_2005_02_NS_URI\<rparr>"

definition sample_ctx :: "xml rm_msg_ctx" where
  "sample_ctx = msg_ctx_create\<lparr>ctx_elements := rm_elements_create\<lparr>el_seq := Some sample_seq, el_seq_ack := Some sample_ack\<rparr>\<rparr>"

lemma sample_ranges:
  "get_ack_range_list ''1,2,4'' (Some ns) = [\<lparr>ar_lower = 1, ar_upper = 2, ar_ns = Some ns\<rparr>, \<lparr>ar_lower = 4, ar_upper = 4, ar_ns = Some ns\<rparr>]"
proof -
  have "get_sorted_msg_no_list ''1,2,4'' CHR '','' = [1, 2, 4]" by code_simp
  then show ?thesis by (simp add: get_ack_range_list_def)
qed

lemma first_namespace [simp]: "both_namespaces_supported SPEC_2005_02_NS_URI" "\<not> second_namespace_supported SPEC_2005_02_NS_URI"
  by code_simp+

lemma sample_facts:
  "both_namespaces_supported SPEC_2005_02_NS_URI" "wf_elements SPEC_2005_02_NS_URI ''wsa05'' (ctx_elements sample_ctx)"
  "fresh_envelope om_of_xml sample_envelope"
  "get_addr_ns_val_from_env om_of_xml sample_addressing sample_envelope (Some a) = Some ''wsa05''"
  "WSA_NAMESPACE sample_addressing \<noteq> SPEC_2005_02_NS_URI" "WSA_NAMESPACE_SUBMISSION sample_addressing \<noteq> SPEC_2005_02_NS_URI"
  "el_seq (ctx_elements sample_ctx) \<noteq> None"
  subgoal by simp
  subgoal by (simp add: sample_ctx_def msg_ctx_create_def rm_elements_create_def wf_elements_def wf_seq_def wf_seq_ack_def
        sample_seq_def sample_ack_def wf_identifier_def no_text_def sample_ranges wf_range_def)
  subgoal by code_simp
  subgoal by (simp add: get_addr_ns_val_from_env_def sample_envelope_def sample_addressing_def om_of_xml_def)
  subgoal by code_simp
  subgoal by code_simp
  subgoal by (simp add: sample_ctx_def msg_ctx_create_def rm_elements_create_def)
  done

section \<open>Messages that are written and read\<close>

text \<open>The namespace that the reader finds is that of the message.\<close>

lemma namespace_found:
  assumes "both_namespaces_supported ns"
    and "\<And>u. om_blocks_with_uri om h' u \<noteq> [] \<longleftrightarrow> om_blocks_with_uri om h u \<noteq> [] \<or> u = ns \<and> part"
    and "\<And>u. u \<in> {SPEC_2005_02_NS_URI, SPEC_2007_02_NS_URI, MAKE_CONNECTION_SPEC_2007_02_NS_URI} \<Longrightarrow> om_blocks_with_uri om h u = []"
    and "part \<or> get_rm_ns_val_of om \<lparr>se_header = Some h, se_body = b\<rparr> (Some a) = Some ns"
  shows "get_rm_ns_val_of om \<lparr>se_header = Some h', se_body = b'\<rparr> (Some a) = Some ns"
proof -
  have ns: "ns = SPEC_2005_02_NS_URI \<or> ns = SPEC_2007_02_NS_URI"
    using assms(1) by (auto simp: both_namespaces_supported_def split: if_splits)
  have blocks: "has_blocks om (Some h') u \<longleftrightarrow> u = ns \<and> part" "\<not> has_blocks om (Some h) u"
    if "u \<in> {SPEC_2005_02_NS_URI, SPEC_2007_02_NS_URI, MAKE_CONNECTION_SPEC_2007_02_NS_URI}" for u
    using assms(2,3) that by (auto simp: has_blocks_def)
  show ?thesis
  proof (cases part)
    case True
    then show ?thesis using ns namespaces blocks by (auto simp: get_rm_ns_val_of_def)
  next
    case False
    then show ?thesis using assms(4) blocks by (simp add: get_rm_ns_val_of_def)
  qed
qed

lemma addressing_kept:
  assumes "\<And>u. om_blocks_with_uri om h' u \<noteq> [] \<longleftrightarrow> om_blocks_with_uri om h u \<noteq> [] \<or> u = ns \<and> part" "om_name om h' = om_name om h"
    and "WSA_NAMESPACE wsa \<noteq> ns" "WSA_NAMESPACE_SUBMISSION wsa \<noteq> ns"
  shows "get_addr_ns_val_from_env om wsa \<lparr>se_header = Some h', se_body = b'\<rparr> (Some a)
       = get_addr_ns_val_from_env om wsa \<lparr>se_header = Some h, se_body = b\<rparr> (Some a)"
  using assms by (simp add: get_addr_ns_val_from_env_def)

lemma message_comes_back:
  assumes om: "om_tree om" and ns: "both_namespaces_supported ns" and wf: "wf_elements ns addr_ns (ctx_elements ctx)"
    and fresh: "fresh_envelope om env" and addr: "get_addr_ns_val_from_env om wsa env (Some a) = Some addr_ns"
    and wsa: "WSA_NAMESPACE wsa \<noteq> ns" "WSA_NAMESPACE_SUBMISSION wsa \<noteq> ns"
    and found: "el_seq (ctx_elements ctx) \<noteq> None \<or> el_seq_ack (ctx_elements ctx) \<noteq> None \<or> el_msg_pending (ctx_elements ctx) \<noteq> None
      \<or> get_rm_ns_val_of om env (Some a) = Some ns"
  obtains env' where "add_soap_envelope om d ctx (Some env) = Some env'"
    "from_soap_envelope om wsa env' (Some a) = Some (as_read (ctx_elements ctx), AXIS2_SUCCESS)"
proof (rule om_tree.written_envelope[OF om ns wf fresh, of d])
  let ?e = "ctx_elements ctx"
  fix h h' b'
  assume w: "add_soap_envelope om d ctx (Some env) = Some \<lparr>se_header = Some h', se_body = b'\<rparr>"
      "read_elements om ns addr_ns h' b' = Some (as_read ?e)" "se_header env = Some h" "om_name om h' = om_name om h"
    and blocks: "\<And>u. om_blocks_with_uri om h' u \<noteq> []
       \<longleftrightarrow> om_blocks_with_uri om h u \<noteq> [] \<or> u = ns \<and> (el_seq ?e \<noteq> None \<or> el_seq_ack ?e \<noteq> None \<or> el_msg_pending ?e \<noteq> None)"
    and none: "\<And>u. u \<in> {SPEC_2005_02_NS_URI, SPEC_2007_02_NS_URI, MAKE_CONNECTION_SPEC_2007_02_NS_URI} \<Longrightarrow> om_blocks_with_uri om h u = []"
  have env: "env = \<lparr>se_header = Some h, se_body = se_body env\<rparr>" using w(3) by simp
  have "get_rm_ns_val_of om \<lparr>se_header = Some h', se_body = b'\<rparr> (Some a) = Some ns"
    by (rule namespace_found[OF ns blocks none, where b = "se_body env"]) (use found env in \<open>auto simp del: not_None_eq\<close>)
  moreover have "get_addr_ns_val_from_env om wsa \<lparr>se_header = Some h', se_body = b'\<rparr> (Some a) = Some addr_ns"
    using addressing_kept[OF blocks w(4) wsa, where b' = b' and b = "se_body env"] addr env by metis
  ultimately show thesis using that[OF w(1)] w(2) by (simp add: from_soap_envelope_def)
qed

text \<open>C4: the elements of a message that are written into an envelope without any are read from it with
  the same contents, if they are as \<open>wf_elements\<close> describes them: all of one namespace of
  WS-ReliableMessaging that has them, with identifiers and addresses that are there and not empty, positive message
  numbers, ranges that fit in 32 bits, a Sequence that must be understood, a SequenceAcknowledgement
  that need not and has no nacks, no AcksTo with reference parameters (they are lost,
  \<open>ref_params_lost\<close>), no offer with an Expires, a MessagePending only when more is
  pending, and no MakeConnection (its identifier is lost, \<open>connection_message_read_back\<close>).  What is
  read is \<open>as_read\<close> of what was written: an AckRequested is missing, for it is never
  written, and the reader adds a None to an acknowledgement of nothing, a last number zero and an endpoint
  without an address where there was none.\<close>

theorem elements_come_back:
  assumes "om_tree om" "both_namespaces_supported ns" "wf_elements ns addr_ns (ctx_elements ctx)" "fresh_envelope om env"
    and "get_addr_ns_val_from_env om wsa env (Some a) = Some addr_ns"
    and "WSA_NAMESPACE wsa \<noteq> ns" "WSA_NAMESPACE_SUBMISSION wsa \<noteq> ns"
    and "el_seq (ctx_elements ctx) \<noteq> None \<or> el_seq_ack (ctx_elements ctx) \<noteq> None \<or> el_msg_pending (ctx_elements ctx) \<noteq> None
      \<or> get_rm_ns_val_of om env (Some a) = Some ns"
  shows "\<exists>env'. add_soap_envelope om d ctx (Some env) = Some env'
     \<and> from_soap_envelope om wsa env' (Some a) = Some (as_read (ctx_elements ctx), AXIS2_SUCCESS)"
  by (rule message_comes_back[OF assms, of d]) blast

theorem elements_come_back_witness:
  "\<exists>env'. add_soap_envelope om_of_xml sample_envelope sample_ctx (Some sample_envelope) = Some env'
     \<and> from_soap_envelope om_of_xml sample_addressing env' (Some ''send'') = Some (as_read (ctx_elements sample_ctx), AXIS2_SUCCESS)"
  by (rule elements_come_back[OF xml.om_tree_axioms sample_facts(1-6)]) (simp add: sample_facts(7))

text \<open>The type of what is read is that of what was written.\<close>

lemma as_read_simps [simp]:
  "el_seq (as_read e) = el_seq e" "el_seq_ack (as_read e) = map_option with_none (el_seq_ack e)"
  "el_create_seq (as_read e) = map_option create_as_read (el_create_seq e)" "el_create_seq_res (as_read e) = el_create_seq_res e"
  "el_terminate_seq (as_read e) = map_option terminate_as_read (el_terminate_seq e)"
  "el_terminate_seq_res (as_read e) = el_terminate_seq_res e" "el_close_seq (as_read e) = map_option close_as_read (el_close_seq e)"
  "el_close_seq_res (as_read e) = el_close_seq_res e" "el_ack_requested (as_read e) = None"
  "el_make_connection (as_read e) = el_make_connection e" "el_msg_pending (as_read e) = el_msg_pending e"
  by (simp_all add: as_read_def)

lemma read_values [simp]:
  "sk_identifier_t (with_none k) = sk_identifier_t k" "sk_ns (with_none k) = sk_ns k" "cs_rm_ns (create_as_read c) = cs_rm_ns c"
  "sk_ack_range_list (with_none k) = sk_ack_range_list k" "sk_nack_list (with_none k) = sk_nack_list k"
  "sk_ack_final (with_none k) = sk_ack_final k"
  "te_identifier (terminate_as_read t) = te_identifier t" "te_ns (terminate_as_read t) = te_ns t"
  "cl_identifier (close_as_read l) = cl_identifier l" "cl_ns (close_as_read l) = cl_ns l"
  by (simp_all add: with_none_def create_as_read_def terminate_as_read_def close_as_read_def)

lemma type_as_read:
  assumes "el_ack_requested e = None"
  shows "type_and_seq_id (as_read e) = type_and_seq_id e"
  unfolding type_and_seq_id_def as_read_simps case_map_option comp_def read_values assms option.case option.map_disc_iff ..

lemma elements_ns_as_read:
  assumes "el_ack_requested e = None"
  shows "elements_ns (as_read e) = elements_ns e"
  unfolding elements_ns_def Let_def as_read_simps case_map_option comp_def read_values assms option.case ..

lemma wf_elements_type:
  assumes "wf_elements ns addr_ns e" "el_ack_requested e = None"
  obtains ty i where "type_and_seq_id e = Some (ty, i)" "ty \<noteq> MSG_TYPE_MAKE_CONNECTION_MSG"
proof -
  note wf = assms(1)[unfolded wf_elements_def wf_seq_def wf_seq_ack_def wf_create_seq_res_def wf_terminate_seq_def
      wf_terminate_seq_res_def wf_close_seq_def wf_close_seq_res_def]
  have i: "wf_identifier ns x \<Longrightarrow> \<exists>j. x = Some j" for x by (auto dest: wf_identifierD)
  have ids: "el_create_seq_res e = Some a \<Longrightarrow> \<exists>j. cr_identifier_t a = Some j" "el_terminate_seq e = Some b \<Longrightarrow> \<exists>j. te_identifier b = Some j"
    "el_terminate_seq_res e = Some c \<Longrightarrow> \<exists>j. ter_identifier c = Some j" "el_seq e = Some d \<Longrightarrow> \<exists>j. sq_identifier_t d = Some j"
    "el_close_seq e = Some f \<Longrightarrow> \<exists>j. cl_identifier f = Some j" "el_close_seq_res e = Some g \<Longrightarrow> \<exists>j. clr_identifier g = Some j"
    "el_seq_ack e = Some h \<Longrightarrow> \<exists>j. sk_identifier_t h = Some j" "el_make_connection e = None" for a b c d f g h
    using wf i by simp_all
  have "\<exists>ty i. type_and_seq_id e = Some (ty, i) \<and> ty \<noteq> MSG_TYPE_MAKE_CONNECTION_MSG"
    unfolding type_and_seq_id_def identifier_value_def assms(2) ids(8)
    by (auto dest: ids(1-7) split: option.splits)
  then show thesis using that by blast
qed

lemma wf_elements_ns:
  assumes "wf_elements ns addr_ns e" "el_ack_requested e = None" "elements_ns e \<noteq> None"
  shows "elements_ns e = Some ns"
proof -
  note wf = assms(1)[unfolded wf_elements_def wf_seq_def wf_seq_ack_def wf_create_seq_def wf_create_seq_res_def
      wf_terminate_seq_def wf_terminate_seq_res_def wf_close_seq_def wf_close_seq_res_def]
  have step: "(case x of None \<Rightarrow> n | Some p \<Rightarrow> Some (f p)) \<in> {None, Some ns}"
    if "n \<in> {None, Some ns}" "\<And>p. x = Some p \<Longrightarrow> f p = ns" for x :: "'p option" and n f
    using that by (cases x) simp_all
  have "elements_ns e \<in> {None, Some ns}"
    unfolding elements_ns_def Let_def assms(2) option.case(1)
    by (intro step) (use wf in simp_all)
  then show ?thesis using assms(3) by simp
qed

text \<open>Whatever the validation says, the message gets its type.\<close>

lemma validated: "type_and_seq_id (ctx_elements c) = Some (ty, i) \<Longrightarrow> map_option fst (validate_msg v c) = Some (c\<lparr>ctx_msg_type := ty\<rparr>)"
  by (simp add: validate_msg_def Let_def)

text \<open>C8: a message written into an envelope is recognised by the reader as what it is, in the
  namespace it was written in.\<close>

theorem messages_recognised:
  assumes "om_tree om" "both_namespaces_supported ns" "wf_elements ns addr_ns (ctx_elements ctx)" "fresh_envelope om env"
    and "get_addr_ns_val_from_env om wsa env (Some a) = Some addr_ns"
    and "WSA_NAMESPACE wsa \<noteq> ns" "WSA_NAMESPACE_SUBMISSION wsa \<noteq> ns"
    and "el_seq (ctx_elements ctx) \<noteq> None \<or> el_seq_ack (ctx_elements ctx) \<noteq> None \<or> el_msg_pending (ctx_elements ctx) \<noteq> None
      \<or> get_rm_ns_val_of om env (Some a) = Some ns"
    and none: "el_ack_requested (ctx_elements ctx) = None" and some: "elements_ns (ctx_elements ctx) \<noteq> None"
  shows "\<exists>env' ctx' i. add_soap_envelope om d ctx (Some env) = Some env'
     \<and> init_msg om wsa wsa_version server_side spec_version env' (Some a) = Some ctx'
     \<and> type_and_seq_id (ctx_elements ctx) = Some (ctx_msg_type ctx', i) \<and> ctx_rm_ns_val ctx' = Some ns"
proof (rule message_comes_back[OF assms(1-8), of d])
  let ?e = "ctx_elements ctx"
  fix env' assume env': "add_soap_envelope om d ctx (Some env) = Some env'"
    "from_soap_envelope om wsa env' (Some a) = Some (as_read ?e, AXIS2_SUCCESS)"
  obtain ty i where ty: "type_and_seq_id ?e = Some (ty, i)" "ty \<noteq> MSG_TYPE_MAKE_CONNECTION_MSG"
    using wf_elements_type[OF assms(3) none] by blast
  have ns: "elements_ns (as_read ?e) = Some ns"
    using wf_elements_ns[OF assms(3) none some] elements_ns_as_read[OF none] by simp
  have el: "ctx_elements (set_addr_ns_val c v) = ctx_elements c" "ctx_rm_ns_val (set_addr_ns_val c v) = ctx_rm_ns_val c"
    "ctx_elements (set_rm_ns_val c v) = ctx_elements c" for c :: "'a rm_msg_ctx" and v
    by (simp_all add: set_addr_ns_val_def set_rm_ns_val_def split: option.split)
  define c where "c = set_addr_ns_val (set_rm_ns_val (msg_ctx_create\<lparr>ctx_elements := as_read ?e\<rparr>) (Some ns))
    (if wsa_version = None \<and> \<not> server_side then Some (WSA_NAMESPACE wsa) else wsa_version)"
  have "ctx_elements c = as_read ?e" "ctx_rm_ns_val c = Some ns" by (simp_all add: c_def el set_rm_ns_val_def)
  moreover have "populate_rm_msg_ctx om wsa wsa_version server_side env' (Some a) msg_ctx_create = Some c"
    by (simp add: populate_rm_msg_ctx_def env'(2) ns c_def Let_def)
  ultimately have "init_msg om wsa wsa_version server_side spec_version env' (Some a) = Some (c\<lparr>ctx_msg_type := ty\<rparr>)"
    "ctx_rm_ns_val (c\<lparr>ctx_msg_type := ty\<rparr>) = Some ns" "ctx_msg_type (c\<lparr>ctx_msg_type := ty\<rparr>) = ty"
    using validated[of c ty i] ty(1) type_as_read[OF none] by (simp_all add: init_msg_def)
  then show ?thesis
    using env'(1) ty(1) by (intro exI[of _ env'] exI[of _ "c\<lparr>ctx_msg_type := ty\<rparr>"] exI[of _ i]) simp
qed

theorem messages_recognised_witness:
  "\<exists>env' ctx' i. add_soap_envelope om_of_xml sample_envelope sample_ctx (Some sample_envelope) = Some env'
     \<and> init_msg om_of_xml sample_addressing None False None env' (Some ''send'') = Some ctx'
     \<and> type_and_seq_id (ctx_elements sample_ctx) = Some (ctx_msg_type ctx', i) \<and> ctx_rm_ns_val ctx' = Some SPEC_2005_02_NS_URI"
  by (rule messages_recognised[OF xml.om_tree_axioms sample_facts(1-6)])
     (simp_all add: sample_facts(7) sample_ctx_def msg_ctx_create_def rm_elements_create_def elements_ns_def)

section \<open>Acknowledged numbers\<close>

lemma acked_range: "r \<in> set rs \<Longrightarrow> separated rs \<Longrightarrow> ar_lower r \<in> acked_set rs \<and> ar_upper r \<in> acked_set rs"
  by (auto simp: acked_set_def range_set_def separated_def intro!: bexI[of _ r])

lemma wf_ranges:
  assumes "\<forall>n \<in> set (msg_nos_of l). n < 2 ^ 31"
  shows "list_all (wf_range ns) (get_ack_range_list l (Some ns))"
proof -
  have "ar_ns r = Some ns" if "r \<in> set (get_ack_range_list l (Some ns))" for r
    using that by (auto simp: get_ack_range_list_runs mk_range_def split: list.splits)
  moreover have "1 \<le> n \<and> n < 2 ^ 31" if "n \<in> acked_set (get_ack_range_list l (Some ns))" for n
    using that assms by (simp add: get_ack_range_list_acked)
  ultimately show ?thesis
    using acked_range[OF _ get_ack_range_list_separated[of l "Some ns"]]
    unfolding list_all_iff wf_range_def by fastforce
qed

definition ack_message :: "string \<Rightarrow> string \<Rightarrow> string \<Rightarrow> bool \<Rightarrow> 'n rm_elements" where
  "ack_message ns seq_id l final = rm_elements_create\<lparr>el_seq_ack := Some
     \<lparr>sk_identifier_t = Some \<lparr>idf_str_id = Some seq_id, idf_ns = ns\<rparr>, sk_ack_range_list = get_ack_range_list l (Some ns),
      sk_nack_list = [], sk_ack_none = None, sk_ack_final = (if final then Some \<lparr>af_ns = ns\<rparr> else None),
      sk_must_understand = False, sk_ns = ns\<rparr>\<rparr>"

text \<open>What the acknowledgement processor takes from the part that was read.\<close>

definition ack_part_of :: "seq_ack_t \<Rightarrow> seq_ack_part" where
  "ack_part_of s = \<lparr>sk_identifier = (case sk_identifier_t s of None \<Rightarrow> None | Some i \<Rightarrow> idf_str_id i),
     sk_ranges = Some (sk_ack_range_list s), sk_nacks = map nk_nack_num (sk_nack_list s), sk_final = (sk_ack_final s \<noteq> None)\<rparr>"

lemma wf_ack_message:
  "seq_id \<noteq> '''' \<Longrightarrow> \<forall>n \<in> set (msg_nos_of l). n < 2 ^ 31 \<Longrightarrow> final \<longrightarrow> second_namespace_supported ns \<Longrightarrow>
   wf_elements ns addr_ns (ack_message ns seq_id l final)"
  by (simp add: ack_message_def rm_elements_create_def wf_elements_def wf_seq_ack_def wf_identifier_def no_text_def wf_ranges)

lemma ack_read:
  "el_seq_ack (as_read (ack_message ns seq_id l final)) = Some s \<Longrightarrow>
   ack_part_of s = \<lparr>sk_identifier = Some seq_id, sk_ranges = Some (get_ack_range_list l (Some ns)), sk_nacks = [], sk_final = final\<rparr>"
  by (auto simp: ack_message_def ack_part_of_def split: if_splits)

text \<open>C3: from list to list: the acknowledgement of a list of received numbers, written into an
  envelope by the one side and read by the other, takes exactly the messages with the numbers of the
  list off those that wait for one, and marks just these numbers as completed.\<close>

theorem received_numbers_are_removed:
  assumes "om_tree om" "both_namespaces_supported ns" "fresh_envelope om env" "final \<longrightarrow> second_namespace_supported ns"
    and "get_addr_ns_val_from_env om wsa env (Some a) = Some addr_ns" "WSA_NAMESPACE wsa \<noteq> ns" "WSA_NAMESPACE_SUBMISSION wsa \<noteq> ns"
    and l: "\<forall>n \<in> set (msg_nos_of l). 1 \<le> n \<and> n < 2 ^ 31" "msg_nos_of l \<noteq> []"
    and w: "ready w" "sender_ok (w_sender w)" "props_ok (w_seq_prop w)" "s \<noteq> []" "rm_msg_type m \<noteq> MSG_TYPE_CREATE_SEQ"
      "prop_value w s SEQ_PROP_OUTGOING_INTERNAL_SEQUENCE_ID = Some i" "prop_value w i SEQ_PROP_TERMINATE_ADDED = None"
      "prop_value w i SEQ_PROP_LAST_OUT_MESSAGE_NO = None" "inj_on sr_msg_no {r \<in> set (w_sender w). awaits_ack (Some i) r}"
  shows "\<exists>env' e. add_soap_envelope om d (msg_ctx_create\<lparr>ctx_elements := ack_message ns s l final\<rparr>) (Some env) = Some env'
     \<and> from_soap_envelope om wsa env' (Some a) = Some (e, AXIS2_SUCCESS)
     \<and> (\<exists>w' l'. run_state (ack_process_in_msg (m\<lparr>rm_seq_ack := map_option ack_part_of (el_seq_ack e)\<rparr>)) w
            = (Inr (Some AXIS2_SUCCESS), w')
          \<and> w_sender w' = filter (\<lambda>r. \<not> (awaits_ack (Some i) r \<and> sr_msg_no r \<in> set (msg_nos_of l))) (w_sender w)
          \<and> prop_value w' (if prop_value w s SEQ_PROP_CLIENT_COMPLETED_MESSAGES = None then i else s)
              SEQ_PROP_CLIENT_COMPLETED_MESSAGES = Some l'
          \<and> set (msg_nos_of l') = set (msg_nos_of l))"
proof (rule message_comes_back[OF assms(1,2) _ assms(3,5-7), of "msg_ctx_create\<lparr>ctx_elements := ack_message ns s l final\<rparr>" d])
  let ?rs = "get_ack_range_list l (Some ns)" and ?e = "ack_message ns s l final :: 'a rm_elements"
  let ?c = "msg_ctx_create\<lparr>ctx_elements := ?e\<rparr>"
  show "wf_elements ns addr_ns (ctx_elements ?c)" using wf_ack_message[of s l final ns addr_ns] w(4) l assms(4) by simp
  show "el_seq (ctx_elements ?c) \<noteq> None \<or> el_seq_ack (ctx_elements ?c) \<noteq> None \<or> el_msg_pending (ctx_elements ?c) \<noteq> None
      \<or> get_rm_ns_val_of om env (Some a) = Some ns" by (simp add: ack_message_def)
  fix env' assume env': "add_soap_envelope om d ?c (Some env) = Some env'"
    "from_soap_envelope om wsa env' (Some a) = Some (as_read (ctx_elements ?c), AXIS2_SUCCESS)"
  have set: "acked_set ?rs = set (msg_nos_of l)" using l(1) by (auto simp: get_ack_range_list_acked)
  have nums: "acked_numbers (Some ?rs) \<noteq> []" using set l(2) by (metis set_acked_numbers set_empty)
  obtain k where k: "el_seq_ack (as_read ?e) = Some k" by (simp add: ack_message_def)
  let ?m = "\<lambda>k. m\<lparr>rm_seq_ack := Some (ack_part_of k)\<rparr>"
  have m: "m\<lparr>rm_seq_ack := map_option ack_part_of (el_seq_ack (as_read ?e))\<rparr> = ?m k" unfolding k by simp
  have "\<exists>w' l'. run_state (ack_process_in_msg (?m k)) w = (Inr (Some AXIS2_SUCCESS), w')
          \<and> w_sender w' = filter (\<lambda>r. \<not> (awaits_ack (Some i) r \<and> sr_msg_no r \<in> set (msg_nos_of l))) (w_sender w)
          \<and> prop_value w' (if prop_value w s SEQ_PROP_CLIENT_COMPLETED_MESSAGES = None then i else s)
              SEQ_PROP_CLIENT_COMPLETED_MESSAGES = Some l'
          \<and> set (msg_nos_of l') = set (msg_nos_of l)"
  proof (rule run_ack_of_sequence[OF w(1-3) _ _ w(4) _ _ nums w(6-9), where sk = "ack_part_of k" and m = "?m k"])
    let ?d = "SEQ_PROP_CLIENT_COMPLETED_MESSAGES"
    show "rm_seq_ack (?m k) = Some (ack_part_of k)" "rm_msg_type (?m k) \<noteq> MSG_TYPE_CREATE_SEQ" "sk_identifier (ack_part_of k) = Some s" "sk_ranges (ack_part_of k) = Some ?rs"
      using w(5) ack_read[OF k] by simp_all
    fix w' assume w': "run_state (ack_process_in_msg (?m k)) w = (Inr (Some AXIS2_SUCCESS), w')"
      "w_sender w' = filter (\<lambda>r. \<not> (awaits_ack (Some i) r \<and> sr_msg_no r \<in> acked_set ?rs)) (w_sender w)"
      "\<And>q n. colon_free n \<Longrightarrow> n \<noteq> SEQ_PROP_LAST_ACTIVATED_TIME \<Longrightarrow> prop_value w' q n =
          (if q = (if prop_value w s ?d = None then i else s) \<and> n = ?d then Some (completed_text ?rs)
           else if q = s \<and> n = SEQ_PROP_NO_OF_OUTGOING_MSGS_ACKED then Some (sprintf_ld (get_no_of_msgs_acked (Some ?rs)))
           else prop_value w q n)"
    have "colon_free ?d" "?d \<noteq> SEQ_PROP_LAST_ACTIVATED_TIME" by (simp_all add: prop_names colon_free_def)
    from w'(3)[OF this] show ?thesis
      by (intro exI[of _ w'] exI[of _ "completed_text ?rs"] conjI)
         (use w'(1,2) set nums in \<open>simp_all add: completed_text_numbers\<close>)
  qed
  moreover have "from_soap_envelope om wsa env' (Some a) = Some (as_read ?e, AXIS2_SUCCESS)" using env'(2) by simp
  ultimately show ?thesis using env'(1) unfolding m[symmetric] by blast
qed

theorem received_numbers_are_removed_witness:
  "\<exists>env' e. add_soap_envelope om_of_xml sample_envelope
       (msg_ctx_create\<lparr>ctx_elements := ack_message SPEC_2005_02_NS_URI ''rms'' ''2'' False\<rparr>) (Some sample_envelope) = Some env'
     \<and> from_soap_envelope om_of_xml sample_addressing env' (Some ''send'') = Some (e, AXIS2_SUCCESS)
     \<and> (\<exists>w' l'. run_state (ack_process_in_msg (ack_of_first\<lparr>rm_seq_ack := map_option ack_part_of (el_seq_ack e)\<rparr>)) two_sent
            = (Inr (Some AXIS2_SUCCESS), w')
          \<and> w_sender w' = filter (\<lambda>r. \<not> (awaits_ack (Some ''i'') r \<and> sr_msg_no r \<in> set (msg_nos_of ''2''))) (w_sender two_sent)
          \<and> prop_value w' (if prop_value two_sent ''rms'' SEQ_PROP_CLIENT_COMPLETED_MESSAGES = None then ''i'' else ''rms'')
              SEQ_PROP_CLIENT_COMPLETED_MESSAGES = Some l'
          \<and> set (msg_nos_of l') = set (msg_nos_of ''2''))"
proof -
  have l: "msg_nos_of ''2'' = [2]" by code_simp
  show ?thesis
    by (rule received_numbers_are_removed[OF xml.om_tree_axioms sample_facts(1,3) _ sample_facts(4-6) _ _ two_sent_facts(1-3) _ _
          two_sent_facts(4-7)])
       (simp_all add: l ack_of_first_def)
qed

section \<open>Numbers that do not fit\<close>

lemma atoi_sprintf: "atoi (sprintf_ld n) = signed_take_bit 31 n"
  by (simp add: atoi_def atol_sprintf_ld sint_sbintrunc')

lemma fits: "signed_take_bit 31 n = n \<longleftrightarrow> - (2 ^ 31) \<le> n \<and> n < (2 ^ 31 :: int)"
  using signed_take_bit_int_eq_self_iff[of 31 n] by simp

context om_tree begin

lemma range_read:
  assumes "ar_ns r = Some ns"
  shows "ack_range_from_om_node om \<lparr>ar_lower = 0, ar_upper = 0, ar_ns = Some ns\<rparr> (range_node ns r)
      = (r\<lparr>ar_lower := signed_take_bit 31 (ar_lower r), ar_upper := signed_take_bit 31 (ar_upper r)\<rparr>, Om_Success)"
  using assms by (cases r) (simp add: ack_range_from_om_node_def om_simps wsrm_names atoi_sprintf)

end

text \<open>C34: the bounds of an acknowledgement range are written as they are and read as 32-bit numbers: the
  range that was written is read exactly when both fit.\<close>

theorem range_comes_back_iff:
  assumes "om_tree om" "ar_ns r = Some ns"
  shows "\<exists>c. (\<forall>node. ack_range_to_om_node om r node = (om_add_child om c node, Om_Success))
     \<and> ack_range_from_om_node om \<lparr>ar_lower = 0, ar_upper = 0, ar_ns = Some ns\<rparr> c
         = (r\<lparr>ar_lower := signed_take_bit 31 (ar_lower r), ar_upper := signed_take_bit 31 (ar_upper r)\<rparr>, Om_Success)
     \<and> (fst (ack_range_from_om_node om \<lparr>ar_lower = 0, ar_upper = 0, ar_ns = Some ns\<rparr> c) = r
        \<longleftrightarrow> ar_lower r \<in> {- (2 ^ 31) ..< 2 ^ 31} \<and> ar_upper r \<in> {- (2 ^ 31) ..< 2 ^ 31})"
proof -
  have "r\<lparr>ar_lower := signed_take_bit 31 (ar_lower r), ar_upper := signed_take_bit 31 (ar_upper r)\<rparr> = r
      \<longleftrightarrow> ar_lower r \<in> {- (2 ^ 31) ..< 2 ^ 31} \<and> ar_upper r \<in> {- (2 ^ 31) ..< 2 ^ 31}"
    using fits[of "ar_lower r"] fits[of "ar_upper r"] by (cases r) simp
  moreover note om_tree.range_read[OF assms]
  ultimately show ?thesis
    using assms(2) by (auto simp: ack_range_to_om_node_def intro!: exI)
qed

theorem range_comes_back_iff_witness:
  "\<exists>c. (\<forall>node. ack_range_to_om_node om_of_xml \<lparr>ar_lower = 1, ar_upper = 2 ^ 31, ar_ns = Some ''ns''\<rparr> node
            = (om_add_child om_of_xml c node, Om_Success))
     \<and> ack_range_from_om_node om_of_xml \<lparr>ar_lower = 0, ar_upper = 0, ar_ns = Some ''ns''\<rparr> c
         = (\<lparr>ar_lower = 1, ar_upper = - (2 ^ 31), ar_ns = Some ''ns''\<rparr>, Om_Success)"
proof -
  have "signed_take_bit 31 (1 :: int) = 1" "signed_take_bit 31 (2 ^ 31 :: int) = - (2 ^ 31)" by code_simp+
  then show ?thesis
    using range_comes_back_iff[OF xml.om_tree_axioms, of "\<lparr>ar_lower = 1, ar_upper = 2 ^ 31, ar_ns = Some ''ns''\<rparr>" "''ns''"]
    by auto
qed

section \<open>MakeConnection\<close>

text \<open>The identifier of a MakeConnection message as the processor gets it.\<close>

definition connection_part_of :: "make_connection_t \<Rightarrow> cstr option" where
  "connection_part_of k = map_option idf_str_id (mk_identifier k)"

lemma identifier_not_read:
  assumes "make_connection_create (Some ns) = Inr new"
  shows "mk_identifier (fst (make_connection_from_om_node om new node)) = None"
proof -
  have ns: "make_connection_supported ns" "mk_ns new = ns" "mk_identifier new = None"
    using assms by (auto simp: make_connection_create_def create_in_def split: if_splits)
  then have "\<not> both_namespaces_supported ns"
    by (simp add: make_connection_supported_def both_namespaces_supported_def split: if_splits)
  then have "identifier_create (Some ns) = Inl ERROR_UNSUPPORTED_NS" by (simp add: identifier_create_def)
  then show ?thesis using ns(2,3)
    by (simp add: make_connection_from_om_node_def Let_def mc_address_create_def)
qed

text \<open>The messages a connection may be given: those that are due, of any type but two.\<close>

definition offered :: "int \<Rightarrow> sender_row \<Rightarrow> bool" where
  "offered now r \<longleftrightarrow> sr_send r \<and> sr_time_to_send r \<le> now
     \<and> sb_msg_type (sender_dec r) \<notin> {MSG_TYPE_ACK, MSG_TYPE_MAKE_CONNECTION_MSG}"

lemma size_of_elems: "list_size l = length (list_elems l)"
  by (cases l) (simp_all add: list_size_def list_elems_def)

lemma mc_steps_filter:
  "foldl mc_step x (filter (\<lambda>a. sb_msg_type a \<notin> {MSG_TYPE_ACK, MSG_TYPE_MAKE_CONNECTION_MSG}) bs) = foldl mc_step x bs"
  by (induction bs arbitrary: x) (auto simp: mc_step_def)

text \<open>What a connection chooses among the messages it may be given.\<close>

definition chosen_among :: "sender_bean list \<Rightarrow> sender_bean \<Rightarrow> bool" where
  "chosen_among bs b \<longleftrightarrow> b \<in> set bs
     \<and> (\<forall>a \<in> set bs. sb_msg_type a = MSG_TYPE_APPLICATION \<longrightarrow> sb_msg_no b \<le> sb_msg_no a)
     \<and> (b = hd bs \<or> sb_msg_type b = MSG_TYPE_APPLICATION \<and> sb_msg_no b < sb_msg_no (hd bs))"

lemma mc_steps:
  assumes "\<forall>a \<in> set bs. sb_msg_type a \<notin> {MSG_TYPE_ACK, MSG_TYPE_MAKE_CONNECTION_MSG}" "bs \<noteq> []"
  shows "\<exists>b. foldl mc_step None bs = Some b \<and> chosen_among bs b"
  using assms
proof (induction bs rule: rev_induct)
  case (snoc a bs)
  show ?case
  proof (cases "bs = []")
    case True
    then show ?thesis using snoc.prems by (simp add: mc_step_def[of None a] chosen_among_def)
  next
    case False
    then obtain b where "foldl mc_step None bs = Some b" "chosen_among bs b"
      using snoc by auto
    then have "mc_step (Some b) a = Some a \<and> chosen_among (bs @ [a]) a \<or> mc_step (Some b) a = Some b \<and> chosen_among (bs @ [a]) b"
      using snoc.prems False by (auto simp: mc_step_def[of "Some b" a] chosen_among_def)
    then show ?thesis using \<open>foldl mc_step None bs = Some b\<close> by auto
  qed
qed simp

text \<open>The message as the processor gets it, with the element that was read.\<close>

definition asking :: "rm_msg \<Rightarrow> make_connection_t \<Rightarrow> rm_msg" where
  "asking m k = m\<lparr>rm_make_connection := Some (connection_part_of k)\<rparr>"

text \<open>C19: the identifier in a MakeConnection message is never read, so that whatever the message
  says the processor goes on with the same message of the sender table: the first that is due, of whatever
  sequence, or else an application message with a smaller number, and no application message that is due has a smaller one still.
  It is announced as the last one if no other row is due.\<close>

theorem connection_serves_any_sequence:
  assumes "make_connection_create (Some ns) = Inr new" "ready w"
    and "0 < now" "now = w_clock w (Suc (w_tick w))" "filter (offered now) (w_sender w) \<noteq> []"
  shows "\<exists>b. chosen_among (map sender_dec (filter (offered now) (w_sender w))) b
     \<and> (\<forall>node. run_state (make_connection_process_in_msg (asking m (fst (make_connection_from_om_node om new node)))) w
       = run_state
           (if rm_has_transport_out m
            then send_on_connection (asking m (fst (make_connection_from_om_node om new node))) b
                   (1 < length (filter (\<lambda>r. sr_time_to_send r \<le> now \<and> sr_send r) (w_sender w)))
            else ret (Inl ERROR_CANNOT_INFER_TRANSPORT))
           (w\<lparr>w_trace := w_trace w @ [Set_Paused], w_tick := w_tick w + 3\<rparr>))"
proof -
  let ?w = "w\<lparr>w_trace := w_trace w @ [Set_Paused]\<rparr>"
  let ?rows = "filter (\<lambda>r. sr_time_to_send r \<le> now \<and> sr_send r) (w_sender w)"
  have "mc_get_next_msg_to_send (env_now (tick (tick ?w))) (w_sender w) now None
      = (foldl mc_step None (map sender_dec ?rows), 1 < length ?rows)"
    using assms(2,3) by (simp add: mc_get_next_msg_to_send_def sender_query_elems size_of_elems sender_beans_def opt_text_cond_def)
  moreover have bs: "map sender_dec (filter (offered now) (w_sender w))
      = filter (\<lambda>a. sb_msg_type a \<notin> {MSG_TYPE_ACK, MSG_TYPE_MAKE_CONNECTION_MSG}) (map sender_dec ?rows)"
    by (auto simp: filter_map comp_def offered_def intro!: arg_cong[where f = "map sender_dec"] filter_cong)
  moreover obtain b where "foldl mc_step None (map sender_dec ?rows) = Some b"
    "chosen_among (map sender_dec (filter (offered now) (w_sender w))) b"
  proof -
    have "\<forall>a \<in> set (map sender_dec (filter (offered now) (w_sender w))). sb_msg_type a \<notin> {MSG_TYPE_ACK, MSG_TYPE_MAKE_CONNECTION_MSG}"
      by (auto simp: offered_def)
    moreover have "map sender_dec (filter (offered now) (w_sender w)) \<noteq> []" using assms(5) by simp
    ultimately obtain b where "foldl mc_step None (map sender_dec (filter (offered now) (w_sender w))) = Some b"
      "chosen_among (map sender_dec (filter (offered now) (w_sender w))) b"
      using mc_steps by blast
    then show ?thesis by (intro that) (simp_all only: bs mc_steps_filter)
  qed
  ultimately have b: "mc_get_next_msg_to_send (env_now (tick (tick ?w))) (w_sender w) now None = (Some b, 1 < length ?rows)"
    "chosen_among (map sender_dec (filter (offered now) (w_sender w))) b"
    by simp_all
  have "run_state (next_on_connection None) (tick ?w) = ((Some b, 1 < length ?rows), tick (tick (tick ?w)))"
    using b(1) assms(2,4) by (simp add: next_on_connection_def exec_simps tick_def)
  moreover have "connection_part_of (fst (make_connection_from_om_node om new node)) = None" for node
    using identifier_not_read[OF assms(1)] by (simp add: connection_part_of_def)
  ultimately show ?thesis
    using b(2) assms(2)
    by (intro exI[of _ b])
       (auto simp: make_connection_process_in_msg_def addr_of_def exec_simps asking_def bean_value_def tick_def numeral_3_eq_3)
qed

definition other_connection :: xml where
  "other_connection = Element WSRM_MAKE_CONNECTION (Some MAKE_CONNECTION_SPEC_2007_02_NS_URI) None []
     [Element WSRM_IDENTIFIER (Some MAKE_CONNECTION_SPEC_2007_02_NS_URI) None [] [Text ''other'']]"

text \<open>The first message of the sequence \<open>i\<close> goes out on a connection that names another.\<close>

theorem connection_serves_any_sequence_witness:
  "run_state (make_connection_process_in_msg (asking sample_msg (fst (make_connection_from_om_node om_of_xml
         \<lparr>mk_identifier = None, mk_address = None, mk_ns = MAKE_CONNECTION_SPEC_2007_02_NS_URI\<rparr> other_connection)))) two_sent
   = run_state (if rm_has_transport_out sample_msg then send_on_connection (asking sample_msg (fst (make_connection_from_om_node om_of_xml
         \<lparr>mk_identifier = None, mk_address = None, mk_ns = MAKE_CONNECTION_SPEC_2007_02_NS_URI\<rparr> other_connection)))
           (sender_dec (hd (w_sender two_sent))) True
         else ret (Inl ERROR_CANNOT_INFER_TRANSPORT))
       (two_sent\<lparr>w_trace := w_trace two_sent @ [Set_Paused], w_tick := w_tick two_sent + 3\<rparr>)"
proof -
  let ?new = "\<lparr>mk_identifier = None, mk_address = None, mk_ns = MAKE_CONNECTION_SPEC_2007_02_NS_URI\<rparr>"
  let ?t = "w_clock two_sent (Suc (w_tick two_sent))" and ?rows = "w_sender two_sent"
  have new: "make_connection_create (Some MAKE_CONNECTION_SPEC_2007_02_NS_URI) = Inr ?new"
    using namespaces by (simp add: make_connection_create_def make_connection_supported_def create_in_def)
  have t: "0 < ?t" by (simp add: two_sent_def idle_world_def)
  have rows: "filter (offered ?t) ?rows = ?rows" "?rows \<noteq> []"
    "filter (\<lambda>r. sr_time_to_send r \<le> ?t \<and> sr_send r) ?rows = ?rows" "length ?rows = 2"
    "map (\<lambda>r. (sb_msg_type (sender_dec r), sb_msg_no (sender_dec r))) ?rows = [(MSG_TYPE_APPLICATION, 1), (MSG_TYPE_APPLICATION, 2)]"
    unfolding two_sent_def offered_def idle_world_def by code_simp+
  have chosen: "b = sender_dec (hd ?rows)" if "chosen_among (map sender_dec ?rows) b" for b
  proof -
    obtain r1 r2 where "?rows = [r1, r2]" using rows(4) by (auto simp: length_Suc_conv numeral_2_eq_2)
    then show ?thesis using that rows(5) by (auto simp: chosen_among_def)
  qed
  obtain b where b: "chosen_among (map sender_dec ?rows) b" and run: "\<forall>node.
      run_state (make_connection_process_in_msg (asking sample_msg (fst (make_connection_from_om_node om_of_xml ?new node)))) two_sent
       = run_state
           (if rm_has_transport_out sample_msg
            then send_on_connection (asking sample_msg (fst (make_connection_from_om_node om_of_xml ?new node))) b True
            else ret (Inl ERROR_CANNOT_INFER_TRANSPORT))
           (two_sent\<lparr>w_trace := w_trace two_sent @ [Set_Paused], w_tick := w_tick two_sent + 3\<rparr>)"
    using connection_serves_any_sequence[OF new two_sent_facts(1) t refl, where m = sample_msg and om = om_of_xml] rows
    by auto
  show ?thesis using run unfolding chosen[OF b] by (rule spec)
qed

section \<open>Elements that end the process\<close>

text \<open>
  An element that the namespace of the message does not define, or a MessagePending without its
  attribute.
\<close>

definition stray_element :: "'n om_api \<Rightarrow> string \<Rightarrow> 'n \<Rightarrow> 'n \<Rightarrow> bool" where
  "stray_element om ns header body \<longleftrightarrow>
     (let within = (\<lambda>node. list_ex (\<lambda>l. om_first_child om node l ns \<noteq> None)) in
        \<not> both_namespaces_supported ns
          \<and> (within header [WSRM_SEQ, WSRM_SEQ_ACK, WSRM_ACK_REQUESTED]
             \<or> within body [WSRM_CREATE_SEQ, WSRM_CREATE_SEQ_RESPONSE, WSRM_TERMINATE_SEQ])
      \<or> \<not> second_namespace_supported ns
          \<and> (within header [WSRM_MESSAGE_PENDING]
             \<or> within body [WSRM_TERMINATE_SEQ_RESPONSE, WSRM_CLOSE_SEQ, WSRM_CLOSE_SEQ_RESPONSE])
      \<or> \<not> make_connection_supported ns \<and> within body [WSRM_MAKE_CONNECTION]
      \<or> (case om_first_child om header WSRM_MESSAGE_PENDING ns of
           None \<Rightarrow> False | Some p \<Rightarrow> om_is_element om p \<and> om_attribute om p WSRM_PENDING = None))"

lemma read_element_None:
  "read_element om parent l ns new f = None \<longleftrightarrow> om_first_child om parent l ns \<noteq> None \<and> (\<exists>e. new = Inl e)"
  by (auto simp: read_element_def split: option.split sum.split)

lemma read_pending_None:
  "read_msg_pending om header ns = None \<longleftrightarrow>
     (case om_first_child om header WSRM_MESSAGE_PENDING ns of
        None \<Rightarrow> False
      | Some p \<Rightarrow> \<not> second_namespace_supported ns \<or> om_is_element om p \<and> om_attribute om p WSRM_PENDING = None)"
  by (auto simp: read_msg_pending_def msg_pending_create_def msg_pending_from_om_node_def create_in_def split: option.split)

lemma bind_None: "Option.bind x f = None \<longleftrightarrow> x = None \<or> f (the x) = None"
  by (cases x) simp_all

lemma created_not: "(\<exists>e. create_in supported new (Some ns) = Inl e) \<longleftrightarrow> \<not> supported ns"
  by (simp add: create_in_def)

lemma read_elements_None: "read_elements om ns addr_ns header body = None \<longleftrightarrow> stray_element om ns header body"
  unfolding read_elements_def bind_None read_element_None read_pending_None
    seq_create_def seq_ack_create_def create_seq_create_def create_seq_res_create_def terminate_seq_create_def
    terminate_seq_res_create_def close_seq_create_def close_seq_res_create_def make_connection_create_def
    ack_requested_create_def option.case created_not stray_element_def Let_def
  by (cases "om_first_child om header WSRM_MESSAGE_PENDING ns") (simp_all del: not_None_eq, blast+)

text \<open>C18: the receiver ends with an access to a null pointer exactly on the messages with such an
  element: anyone who can send a message can end the process.\<close>

theorem reading_ends_in_null_iff:
  "from_soap_envelope om wsa env (Some a) = None \<longleftrightarrow>
     (case (get_rm_ns_val_of om env (Some a), get_addr_ns_val_from_env om wsa env (Some a), se_header env) of
        (Some ns, Some addr_ns, Some header) \<Rightarrow> stray_element om ns header (se_body env)
      | _ \<Rightarrow> False)"
  by (auto simp: from_soap_envelope_def read_elements_None split: option.splits)

text \<open>A CloseSequence of the first version of the specification, which has none.\<close>

lemma stray_example:
  "from_soap_envelope om_of_xml sample_addressing
     (sample_envelope\<lparr>se_body := Element ''Body'' (Some ''soap'') None [] [Element WSRM_CLOSE_SEQ (Some SPEC_2005_02_NS_URI) None [] []]\<rparr>)
     (Some (action_2005_02 ''CreateSequence'')) = None"
  unfolding sample_envelope_def sample_addressing_def by code_simp

section \<open>Parts that get lost\<close>

lemma read_nacks_zero: "read_nacks om ns nodes = Inr ks \<Longrightarrow> list_all (\<lambda>k. nk_nack_num k = 0) ks"
  by (induction nodes arbitrary: ks)
     (auto simp: nack_from_om_node_def nack_create_def create_in_def split: sum.splits if_splits)

text \<open>Of the nacks of an acknowledgement the numbers are not read: each is zero, and the writer refuses it.\<close>

theorem nack_numbers_lost:
  "list_all (\<lambda>k. nk_nack_num k = 0 \<and> fst (nack_to_om_node om k parent) = parent)
     (sk_nack_list (fst (seq_ack_from_om_node om
        \<lparr>sk_identifier_t = None, sk_ack_range_list = [], sk_nack_list = [], sk_ack_none = None, sk_ack_final = None,
         sk_must_understand = False, sk_ns = ns\<rparr> node)))"
proof -
  have w: "list_all (\<lambda>k. nk_nack_num k = 0 \<and> fst (nack_to_om_node om k parent) = parent) ks"
    if "list_all (\<lambda>k. nk_nack_num k = 0) ks" for ks
    using that by (auto simp: list_all_iff nack_to_om_node_def)
  show ?thesis
    unfolding seq_ack_from_om_node_def Let_def
    by (auto intro!: w dest!: read_nacks_zero split: option.split sum.split prod.split)
qed

context om_tree begin

text \<open>What is written beside an element comes after it.\<close>

lemma written_beside:
  assumes "om_is_element om n" "list_all (om_is_element om) ps"
  shows "om_is_element om (foldl (\<lambda>n p. om_add_child om p n) n ps)
     \<and> om_children om (foldl (\<lambda>n p. om_add_child om p n) n ps) l u
         = om_children om n l u @ filter (\<lambda>p. om_name om p = (l, Some u)) ps"
  using assms by (induction ps arbitrary: n) (auto simp: om_simps)

lemma read_without_params:
  assumes "both_namespaces_supported ns" "x \<noteq> ''''" "om_is_element om n" "om_children om n WSRM_ACKS_TO ns = []"
    and "list_all (om_is_element om) ps"
  shows "acks_to_from_om_node om \<lparr>at_address = None, at_ref_params = None, at_rm_ns = ns, at_addr_ns = addr_ns\<rparr>
       (fst (acks_to_to_om_node om (acks_to_of ns addr_ns x\<lparr>at_ref_params := Some ps\<rparr>) n)) = (acks_to_of ns addr_ns x, Om_Success)"
proof (rule read_acks_to[OF assms(1,2)])
  let ?n = "om_add_child om (addr_in WSRM_ACKS_TO ns addr_ns x) n"
  have w: "fst (acks_to_to_om_node om (acks_to_of ns addr_ns x\<lparr>at_ref_params := Some ps\<rparr>) n)
      = foldl (\<lambda>n p. om_add_child om p n) ?n ps"
    using assms(2) by (simp add: acks_to_to_om_node_def part_writers no_text_def)
  have n: "om_is_element om ?n" "om_children om ?n WSRM_ACKS_TO ns = [addr_in WSRM_ACKS_TO ns addr_ns x]"
    using assms(3,4) addr_in by (simp_all add: om_simps)
  show "om_is_element om (fst (acks_to_to_om_node om (acks_to_of ns addr_ns x\<lparr>at_ref_params := Some ps\<rparr>) n))"
    "om_children om (fst (acks_to_to_om_node om (acks_to_of ns addr_ns x\<lparr>at_ref_params := Some ps\<rparr>) n)) WSRM_ACKS_TO ns
       = addr_in WSRM_ACKS_TO ns addr_ns x # filter (\<lambda>p. om_name om p = (WSRM_ACKS_TO, Some ns)) ps"
    unfolding w using written_beside[OF n(1) assms(5), of WSRM_ACKS_TO ns] n(2) by simp_all
qed

end

text \<open>C35: the reference parameters of an address for acknowledgements are written beside the element, where
  the reader does not look for them.\<close>

theorem ref_params_lost:
  assumes "om_tree om" "both_namespaces_supported ns" "wf_acks_to ns addr_ns (Some (a\<lparr>at_ref_params := None\<rparr>))"
    and "om_is_element om node" "om_children om node WSRM_ACKS_TO ns = []"
    and "at_ref_params a = Some ps" "list_all (om_is_element om) ps"
  shows "acks_to_from_om_node om \<lparr>at_address = None, at_ref_params = None, at_rm_ns = ns, at_addr_ns = addr_ns\<rparr>
       (fst (acks_to_to_om_node om a node)) = (a\<lparr>at_ref_params := None\<rparr>, Om_Success)"
proof -
  obtain x where "a = \<lparr>at_address = Some \<lparr>ad_epr = Some (Some x), ad_ns = addr_ns\<rparr>, at_ref_params = None,
     at_rm_ns = ns, at_addr_ns = addr_ns\<rparr>\<lparr>at_ref_params := Some ps\<rparr>" "x \<noteq> ''''"
    using wf_acks_toD[OF assms(3)] assms(6) by (cases a) auto
  then show ?thesis using om_tree.read_without_params[OF assms(1,2) _ assms(4,5,7)] by auto
qed

definition sample_acks_to :: "xml acks_to_t" where
  "sample_acks_to = \<lparr>at_address = Some \<lparr>ad_epr = Some (Some ''http://client''), ad_ns = ''wsa05''\<rparr>,
     at_ref_params = Some [Element ''Key'' (Some ''app'') None [] [Text ''7'']], at_rm_ns = SPEC_2005_02_NS_URI, at_addr_ns = ''wsa05''\<rparr>"

theorem ref_params_lost_witness:
  "acks_to_from_om_node om_of_xml \<lparr>at_address = None, at_ref_params = None, at_rm_ns = SPEC_2005_02_NS_URI, at_addr_ns = ''wsa05''\<rparr>
       (fst (acks_to_to_om_node om_of_xml sample_acks_to (Element WSRM_CREATE_SEQ (Some SPEC_2005_02_NS_URI) None [] [])))
     = (sample_acks_to\<lparr>at_ref_params := None\<rparr>, Om_Success)"
  by (rule ref_params_lost[OF xml.om_tree_axioms first_namespace(1),
        where ps = "[Element ''Key'' (Some ''app'') None [] [Text ''7'']]"])
     (simp_all add: sample_acks_to_def wf_acks_to_def om_of_xml_def xml_children_def)

end
