(* ===== verification/Property_Mgr.thy ===== *)
theory Property_Mgr
  imports World Wsrm_Parts "HOL-Library.Monad_Syntax"
begin

text \<open>
  \<open>src/util/property_mgr.c\<close>: the options of a service, from its policy, from the description of the
  module, or by default.  A null result is the write through a null pointer in \<open>trim_string\<close>, when a text
  has nothing but blanks.
\<close>

section \<open>Defaults\<close>

definition DEF_VAL_ACK_INTERVAL :: int where "DEF_VAL_ACK_INTERVAL = 4000"
definition DEF_VAL_EXP_BACKOFF :: bool where "DEF_VAL_EXP_BACKOFF = True"
definition DEF_VAL_INACTIVETIMEOUT :: int where "DEF_VAL_INACTIVETIMEOUT = - 1"
definition DEF_VAL_INACTIVETIMEOUT_MEASURE :: string where "DEF_VAL_INACTIVETIMEOUT_MEASURE = ''seconds''"
definition DEF_VAL_INORDER_INVOCATION :: bool where "DEF_VAL_INORDER_INVOCATION = False"
definition DEF_VAL_MSG_TYPES_TO_DROP :: string where "DEF_VAL_MSG_TYPES_TO_DROP = ''none''"
definition DEF_VAL_RETR_COUNT :: int where "DEF_VAL_RETR_COUNT = 8"
definition DEF_VAL_MAX_RETR_COUNT :: int where "DEF_VAL_MAX_RETR_COUNT = 10"
definition TERMINATE_DELAY :: int where "TERMINATE_DELAY = 4"
definition POLLING_DELAY :: int where "POLLING_DELAY = 4"
definition VALUE_NONE :: string where "VALUE_NONE = ''none''"

section \<open>Single options\<close>

text \<open>
  \<open>axutil_atoi\<close> is Axis2's: the argument \<open>ax_atoi\<close>.  A number that is not positive leaves
  the option as it is.
\<close>

definition set_positive :: "(int \<Rightarrow> property_bean \<Rightarrow> property_bean) \<Rightarrow> int \<Rightarrow> property_bean \<Rightarrow> property_bean" where
  "set_positive upd n bean = (if 0 < n then upd n bean else bean)"

definition number_of :: "(string \<Rightarrow> int) \<Rightarrow> int \<Rightarrow> cstr \<Rightarrow> int option" where
  "number_of read otherwise value =
     map_option (\<lambda>str. case str of None \<Rightarrow> otherwise | Some s \<Rightarrow> read s) (trim_string value)"

definition load_exp_backoff :: "cstr \<Rightarrow> property_bean \<Rightarrow> (property_bean \<times> status) option" where
  "load_exp_backoff value bean =
     (if value = None then Some (bean, AXIS2_FAILURE)
      else map_option (\<lambda>str. (bean\<lparr>pb_is_exp_backoff := (str = Some AXIS2_VALUE_TRUE)\<rparr>, AXIS2_SUCCESS)) (trim_string value))"

definition load_retrans_int :: "cstr \<Rightarrow> property_bean \<Rightarrow> (property_bean \<times> status) option" where
  "load_retrans_int value bean =
     (if value = None then Some (bean, AXIS2_FAILURE)
      else map_option (\<lambda>n. (set_positive (\<lambda>n b. b\<lparr>pb_retrans_interval := n\<rparr>) n bean, AXIS2_SUCCESS)) (number_of atoi (- 1) value))"

definition load_ack_int :: "cstr \<Rightarrow> property_bean \<Rightarrow> (property_bean \<times> status) option" where
  "load_ack_int value bean =
     (if value = None then Some (bean, AXIS2_FAILURE)
      else map_option (\<lambda>n. (set_positive (\<lambda>n b. b\<lparr>pb_ack_interval := n\<rparr>) n bean, AXIS2_SUCCESS)) (number_of atoi (- 1) value))"

definition load_inactive_timeout :: "(string \<Rightarrow> int) \<Rightarrow> cstr \<Rightarrow> cstr \<Rightarrow> property_bean \<Rightarrow> (property_bean \<times> status) option" where
  "load_inactive_timeout ax_atoi value units bean =
     (if value = None \<or> units = None then Some (bean, AXIS2_FAILURE)
      else do {
        timeout \<leftarrow> number_of ax_atoi (- 1) value;
        str2 \<leftarrow> trim_string units;
        Some (set_positive (\<lambda>n b. case str2 of
            None \<Rightarrow> b\<lparr>pb_inactive_timeout_interval := n\<rparr>
          | Some u \<Rightarrow> fst (set_inactive_timeout_interval_with_units b n (Some u))) timeout bean, AXIS2_SUCCESS)
      })"

definition load_in_order_invocation :: "cstr \<Rightarrow> property_bean \<Rightarrow> (property_bean \<times> status) option" where
  "load_in_order_invocation value bean =
     (if value = None then Some (bean, AXIS2_FAILURE)
      else map_option (\<lambda>str. (bean\<lparr>pb_is_in_order := (str = Some AXIS2_VALUE_TRUE)\<rparr>, AXIS2_SUCCESS)) (trim_string value))"

text \<open>The first of the types is read with the bracket before it; \<open>garbage\<close> is what the elements of the list hold.\<close>

definition load_msg_types_to_drop ::
  "(string \<Rightarrow> int) \<Rightarrow> int \<Rightarrow> cstr \<Rightarrow> property_bean \<Rightarrow> (property_bean \<times> status) option" where
  "load_msg_types_to_drop ax_atoi garbage value bean =
     (if value = None then Some (bean, AXIS2_FAILURE)
      else map_option (\<lambda>str.
        (case str of
           None \<Rightarrow> (bean, AXIS2_SUCCESS)
         | Some s \<Rightarrow>
             if s = VALUE_NONE then (bean, AXIS2_SUCCESS)
             else (foldl (\<lambda>b t. fst (add_msg_type_to_drop garbage b (ax_atoi t))) bean
                     (list_elems (get_array_list_from_string (Some (''['' @ s @ '']'')))), AXIS2_SUCCESS)))
        (trim_string value))"

section \<open>All options\<close>

definition load_properties_from_def_values :: "(string \<Rightarrow> int) \<Rightarrow> int \<Rightarrow> property_bean option" where
  "load_properties_from_def_values ax_atoi garbage =
     (let bean = property_bean_create\<lparr>pb_is_exp_backoff := DEF_VAL_EXP_BACKOFF, pb_retrans_interval := DEF_VAL_RETR_COUNT,
            pb_ack_interval := DEF_VAL_ACK_INTERVAL\<rparr>;
          bean = fst (set_inactive_timeout_interval_with_units bean DEF_VAL_INACTIVETIMEOUT (Some DEF_VAL_INACTIVETIMEOUT_MEASURE));
          bean = bean\<lparr>pb_is_in_order := DEF_VAL_INORDER_INVOCATION, pb_msg_types_to_drop := None,
            pb_max_retrans_count := DEF_VAL_MAX_RETR_COUNT\<rparr>
      in map_option (\<lambda>(bean, r). bean\<lparr>pb_terminate_delay := TERMINATE_DELAY, pb_polling_delay := POLLING_DELAY\<rparr>)
           (load_msg_types_to_drop ax_atoi garbage (Some DEF_VAL_MSG_TYPES_TO_DROP) bean))"

text \<open>A parameter of the module's description, and an option of the assertion: loaded when it is there.\<close>

definition when_there :: "'p option \<Rightarrow> ('p \<Rightarrow> property_bean \<Rightarrow> (property_bean \<times> status) option) \<Rightarrow> property_bean \<Rightarrow> property_bean option" where
  "when_there p load bean = (case p of None \<Rightarrow> Some bean | Some v \<Rightarrow> map_option fst (load v bean))"

definition load_number ::
  "(string \<Rightarrow> int) \<Rightarrow> int \<Rightarrow> (int \<Rightarrow> property_bean \<Rightarrow> property_bean) \<Rightarrow> cstr \<Rightarrow> property_bean \<Rightarrow> (property_bean \<times> status) option" where
  "load_number read otherwise upd value bean =
     map_option (\<lambda>n. (set_positive upd n bean, AXIS2_SUCCESS)) (number_of read otherwise value)"

definition load_properties_from_module_desc ::
  "(string \<Rightarrow> int) \<Rightarrow> int \<Rightarrow> (string \<Rightarrow> cstr option) option \<Rightarrow> property_bean option option" where
  "load_properties_from_module_desc ax_atoi garbage module_desc =
     (case module_desc of
        None \<Rightarrow> Some None
      | Some param \<Rightarrow> do {
          b \<leftarrow> when_there (param ''ExponentialBackoff'') load_exp_backoff property_bean_create;
          b \<leftarrow> when_there (param ''RetransmissionInterval'') load_retrans_int b;
          b \<leftarrow> when_there (param ''AcknowledgementInterval'') load_ack_int b;
          b \<leftarrow> when_there (param ''InactivityTimeout'')
                 (\<lambda>v. load_inactive_timeout ax_atoi v
                    (case param ''InactivityTimeoutMeasure'' of
                       Some (Some m) \<Rightarrow> Some m
                     | _ \<Rightarrow> Some DEF_VAL_INACTIVETIMEOUT_MEASURE)) b;
          b \<leftarrow> when_there (param ''InvokeInOrder'') load_in_order_invocation b;
          b \<leftarrow> when_there (param ''MessageTypesToDrop'') (load_msg_types_to_drop ax_atoi garbage) b;
          b \<leftarrow> when_there (param ''StorageManager'') (\<lambda>v b. Some (if v = None then b else b\<lparr>pb_storage_mgr := v\<rparr>, AXIS2_SUCCESS)) b;
          b \<leftarrow> when_there (param ''MaxRetransCount'')
                 (load_number atoi (- 1) (\<lambda>n b. b\<lparr>pb_max_retrans_count := n\<rparr>)) b;
          b \<leftarrow> when_there (param ''TerminateDelay'')
                 (load_number atoi TERMINATE_DELAY (\<lambda>n b. b\<lparr>pb_terminate_delay := n\<rparr>)) b;
          b \<leftarrow> when_there (param ''PollingWaitTime'')
                 (load_number ax_atoi POLLING_DELAY (\<lambda>n b. b\<lparr>pb_polling_delay := n\<rparr>)) b;
          Some (Some b)
        })"

text \<open>The assertion of the policy, with the answers of its accessors.\<close>

record rm_assertion =
  ra_is_exp_backoff :: bool
  ra_is_inorder :: bool
  ra_retrans_interval :: cstr
  ra_ack_interval :: cstr
  ra_inactivity_timeout :: cstr
  ra_message_types_to_drop :: cstr
  ra_storage_mgr :: cstr
  ra_max_retrans_count :: cstr
  ra_terminate_delay :: cstr
  ra_polling_wait_time :: cstr
  ra_spec_version :: cstr

definition load_properties_from_policy ::
  "(string \<Rightarrow> int) \<Rightarrow> int \<Rightarrow> rm_assertion option \<Rightarrow> property_bean option option" where
  "load_properties_from_policy ax_atoi garbage rm_assertion =
     (case rm_assertion of
        None \<Rightarrow> Some None
      | Some ra \<Rightarrow>
          (let there = (\<lambda>value load. when_there value (\<lambda>v. load (Some v)))
           in do {
             b \<leftarrow> Some (property_bean_create\<lparr>pb_is_exp_backoff := ra_is_exp_backoff ra, pb_is_in_order := ra_is_inorder ra\<rparr>);
             b \<leftarrow> there (ra_retrans_interval ra) load_retrans_int b;
             b \<leftarrow> there (ra_ack_interval ra) load_ack_int b;
             b \<leftarrow> there (ra_inactivity_timeout ra)
                    (\<lambda>v. load_inactive_timeout ax_atoi v (Some DEF_VAL_INACTIVETIMEOUT_MEASURE)) b;
             b \<leftarrow> there (ra_message_types_to_drop ra) (load_msg_types_to_drop ax_atoi garbage) b;
             b \<leftarrow> there (ra_storage_mgr ra) (\<lambda>v b. Some (b\<lparr>pb_storage_mgr := v\<rparr>, AXIS2_SUCCESS)) b;
             b \<leftarrow> there (ra_max_retrans_count ra) (load_number atoi (- 1) (\<lambda>n b. b\<lparr>pb_max_retrans_count := n\<rparr>)) b;
             b \<leftarrow> there (ra_terminate_delay ra) (load_number atoi TERMINATE_DELAY (\<lambda>n b. b\<lparr>pb_terminate_delay := n\<rparr>)) b;
             b \<leftarrow> there (ra_polling_wait_time ra) (load_number ax_atoi POLLING_DELAY (\<lambda>n b. b\<lparr>pb_polling_delay := n\<rparr>)) b;
             Some (Some (case ra_spec_version ra of None \<Rightarrow> b | Some v \<Rightarrow> b\<lparr>pb_spec_version := Some v\<rparr>))
           }))"

section \<open>What a policy gives\<close>

text \<open>An option that is not there, or not positive, is zero; the defaults are not used.\<close>

definition option_value :: "(string \<Rightarrow> int) \<Rightarrow> cstr \<Rightarrow> int" where
  "option_value read value = (case value of None \<Rightarrow> 0 | Some s \<Rightarrow> max 0 (read (dropWhile (\<lambda>c. c = CHR '' '') s)))"

definition blank :: "cstr \<Rightarrow> bool" where
  "blank value \<longleftrightarrow> (case value of None \<Rightarrow> False | Some s \<Rightarrow> list_all (\<lambda>c. c = CHR '' '') s)"

lemma trim_string_blank: "trim_string (Some s) = (if blank (Some s) then None else Some (Some (dropWhile (\<lambda>c. c = CHR '' '') s)))"
  by (auto simp: trim_string_def blank_def list_all_iff dropWhile_eq_Nil_conv)

lemma drop_nothing: "pb_msg_types_to_drop b = None \<Longrightarrow>
    foldl (\<lambda>b t. fst (add_msg_type_to_drop garbage b (f t))) b ts = b"
  by (induction ts) (simp_all add: add_msg_type_to_drop_def)

lemma number_of_some: "number_of read otherwise (Some s) = (if blank (Some s) then None else Some (read (dropWhile (\<lambda>c. c = CHR '' '') s)))"
  by (simp add: number_of_def trim_string_blank)

lemma set_positive_max: "upd 0 b = b \<Longrightarrow> set_positive upd n b = upd (max 0 n) b"
  by (simp add: set_positive_def max_def)

text \<open>An option that was zero.\<close>

lemma number_loaded:
  assumes "\<And>s. load (Some s) b = map_option (\<lambda>n. (set_positive upd n b, AXIS2_SUCCESS)) (number_of read k (Some s))" "upd 0 b = b"
  shows "when_there value (\<lambda>v. load (Some v)) b = (if blank value then None else Some (upd (option_value read value) b))"
  using assms(2)
  by (cases "value") (simp_all add: when_there_def assms(1) number_of_some set_positive_max option_value_def blank_def)

lemma timeout_loaded:
  "pb_inactive_timeout_interval b = 0 \<Longrightarrow>
   when_there value (\<lambda>v. load_inactive_timeout ax_atoi (Some v) (Some DEF_VAL_INACTIVETIMEOUT_MEASURE)) b
     = (if blank value then None else Some (b\<lparr>pb_inactive_timeout_interval := option_value ax_atoi value\<rparr>))"
  by (cases "value")
     (simp_all add: when_there_def load_inactive_timeout_def number_of_some trim_string_def DEF_VAL_INACTIVETIMEOUT_MEASURE_def
       set_inactive_timeout_interval_with_units_def set_positive_def option_value_def blank_def max_def)

lemma types_loaded:
  "pb_msg_types_to_drop b = None \<Longrightarrow> when_there value (\<lambda>v. load_msg_types_to_drop ax_atoi garbage (Some v)) b
     = (if blank value then None else Some b)"
  by (cases "value") (simp_all add: when_there_def load_msg_types_to_drop_def trim_string_blank drop_nothing blank_def)

lemma load_number_loaded:
  "upd 0 b = b \<Longrightarrow> when_there v (\<lambda>v. load_number read k upd (Some v)) b
     = (if blank v then None else Some (upd (option_value read v) b))"
  by (rule number_loaded) (simp_all add: load_number_def)

lemma intervals_loaded:
  "pb_retrans_interval b = 0 \<Longrightarrow> when_there v (\<lambda>v. load_retrans_int (Some v)) b
     = (if blank v then None else Some (b\<lparr>pb_retrans_interval := option_value atoi v\<rparr>))"
  "pb_ack_interval b = 0 \<Longrightarrow> when_there v (\<lambda>v. load_ack_int (Some v)) b
     = (if blank v then None else Some (b\<lparr>pb_ack_interval := option_value atoi v\<rparr>))"
  by (rule number_loaded; simp add: load_retrans_int_def load_ack_int_def)+

lemmas options_loaded = intervals_loaded load_number_loaded timeout_loaded types_loaded

lemma storage_loaded:
  "pb_storage_mgr b = None \<Longrightarrow> when_there value (\<lambda>v b. Some (b\<lparr>pb_storage_mgr := Some v\<rparr>, AXIS2_SUCCESS)) b = Some (b\<lparr>pb_storage_mgr := value\<rparr>)"
  by (cases "value") (simp_all add: when_there_def)

text \<open>C31: what a policy gives: every number is the one in its text, or zero when it is absent or not
  positive, whatever the defaults are; message types are never dropped; and a text of blanks alone ends the process.\<close>

theorem policy_gives:
  "load_properties_from_policy ax_atoi garbage (Some ra) =
     (if list_ex blank [ra_retrans_interval ra, ra_ack_interval ra, ra_inactivity_timeout ra, ra_message_types_to_drop ra,
           ra_max_retrans_count ra, ra_terminate_delay ra, ra_polling_wait_time ra]
      then None
      else Some (Some
        \<lparr>pb_inactive_timeout_interval = option_value ax_atoi (ra_inactivity_timeout ra),
         pb_ack_interval = option_value atoi (ra_ack_interval ra),
         pb_retrans_interval = option_value atoi (ra_retrans_interval ra),
         pb_is_exp_backoff = ra_is_exp_backoff ra, pb_storage_mgr = ra_storage_mgr ra, pb_is_in_order = ra_is_inorder ra,
         pb_msg_types_to_drop = None, pb_max_retrans_count = option_value atoi (ra_max_retrans_count ra),
         pb_terminate_delay = option_value atoi (ra_terminate_delay ra),
         pb_polling_delay = option_value ax_atoi (ra_polling_wait_time ra),
         pb_db_path = None, pb_spec_version = ra_spec_version ra\<rparr>))"
  unfolding load_properties_from_policy_def Let_def option.case
  by (simp add: options_loaded storage_loaded property_bean_create_def split: option.split)

end
