(* ===== verification/Seq_Report.thy ===== *)
theory Seq_Report
  imports World
begin

text \<open>
  \<open>src/client/sequence_report.c\<close> and \<open>src/client/report.c\<close>: what the client API tells of one sequence, and of
  all of them.
\<close>

section \<open>The report of a sequence\<close>

definition SEQ_STATUS_UNKNOWN :: int where "SEQ_STATUS_UNKNOWN = 0"
definition SEQ_STATUS_INITIAL :: int where "SEQ_STATUS_INITIAL = 1"
definition SEQ_STATUS_ESTABLISHED :: int where "SEQ_STATUS_ESTABLISHED = 2"
definition SEQ_STATUS_TERMINATED :: int where "SEQ_STATUS_TERMINATED = 3"
definition SEQ_STATUS_TIMED_OUT :: int where "SEQ_STATUS_TIMED_OUT = 4"
definition MAX_SEQ_STATUS :: int where "MAX_SEQ_STATUS = 4"

definition SEQ_DIRECTION_UNKNOWN :: int where "SEQ_DIRECTION_UNKNOWN = 0"
definition SEQ_DIRECTION_IN :: int where "SEQ_DIRECTION_IN = 1"
definition SEQ_DIRECTION_OUT :: int where "SEQ_DIRECTION_OUT = 2"
definition MAX_SEQ_DIRECTION :: int where "MAX_SEQ_DIRECTION = 2"

lemmas report_codes = SEQ_STATUS_UNKNOWN_def SEQ_STATUS_INITIAL_def SEQ_STATUS_ESTABLISHED_def
  SEQ_STATUS_TERMINATED_def SEQ_STATUS_TIMED_OUT_def MAX_SEQ_STATUS_def SEQ_DIRECTION_UNKNOWN_def
  SEQ_DIRECTION_IN_def SEQ_DIRECTION_OUT_def MAX_SEQ_DIRECTION_def

record seq_report =
  rt_seq_status :: int
  rt_seq_direction :: int
  rt_seq_id :: cstr
  rt_internal_seq_id :: cstr
  rt_completed_msgs :: "int list"

definition seq_report_create :: seq_report where
  "seq_report_create =
     \<lparr>rt_seq_status = SEQ_STATUS_UNKNOWN, rt_seq_direction = SEQ_DIRECTION_UNKNOWN, rt_seq_id = None,
      rt_internal_seq_id = None, rt_completed_msgs = []\<rparr>"

text \<open>A status or a direction out of its range is not taken; the result says success all the same.\<close>

definition seq_report_set_seq_status :: "int \<Rightarrow> seq_report \<Rightarrow> seq_report" where
  "seq_report_set_seq_status seq_status report =
     (if SEQ_STATUS_UNKNOWN \<le> seq_status \<and> seq_status \<le> MAX_SEQ_STATUS
      then report\<lparr>rt_seq_status := seq_status\<rparr> else report)"

definition seq_report_set_seq_direction :: "int \<Rightarrow> seq_report \<Rightarrow> seq_report" where
  "seq_report_set_seq_direction seq_direction report =
     (if SEQ_DIRECTION_UNKNOWN \<le> seq_direction \<and> seq_direction \<le> MAX_SEQ_DIRECTION
      then report\<lparr>rt_seq_direction := seq_direction\<rparr> else report)"

text \<open>The copy of a null pointer is null, which is reported as a lack of memory.\<close>

definition seq_report_set_seq_id :: "cstr \<Rightarrow> seq_report \<Rightarrow> seq_report \<times> status" where
  "seq_report_set_seq_id seq_id report =
     (report\<lparr>rt_seq_id := seq_id\<rparr>, if is_null seq_id then AXIS2_FAILURE else AXIS2_SUCCESS)"

definition seq_report_set_internal_seq_id :: "cstr \<Rightarrow> seq_report \<Rightarrow> seq_report \<times> status" where
  "seq_report_set_internal_seq_id internal_seq_id report =
     (report\<lparr>rt_internal_seq_id := internal_seq_id\<rparr>,
      if is_null internal_seq_id then AXIS2_FAILURE else AXIS2_SUCCESS)"

definition seq_report_add_completed_msg :: "int \<Rightarrow> seq_report \<Rightarrow> seq_report" where
  "seq_report_add_completed_msg msg_no report =
     report\<lparr>rt_completed_msgs := rt_completed_msgs report @ [msg_no]\<rparr>"

definition seq_report_set_completed_msgs :: "int list \<Rightarrow> seq_report \<Rightarrow> seq_report" where
  "seq_report_set_completed_msgs completed_msgs report = report\<lparr>rt_completed_msgs := completed_msgs\<rparr>"

lemma set_status_codes [simp]:
  "seq_report_set_seq_status SEQ_STATUS_UNKNOWN r = r\<lparr>rt_seq_status := SEQ_STATUS_UNKNOWN\<rparr>"
  "seq_report_set_seq_status SEQ_STATUS_INITIAL r = r\<lparr>rt_seq_status := SEQ_STATUS_INITIAL\<rparr>"
  "seq_report_set_seq_status SEQ_STATUS_ESTABLISHED r = r\<lparr>rt_seq_status := SEQ_STATUS_ESTABLISHED\<rparr>"
  "seq_report_set_seq_status SEQ_STATUS_TERMINATED r = r\<lparr>rt_seq_status := SEQ_STATUS_TERMINATED\<rparr>"
  "seq_report_set_seq_status SEQ_STATUS_TIMED_OUT r = r\<lparr>rt_seq_status := SEQ_STATUS_TIMED_OUT\<rparr>"
  "seq_report_set_seq_status (- 1) r = r"
  by (simp_all add: seq_report_set_seq_status_def report_codes)

lemma set_direction_codes [simp]:
  "seq_report_set_seq_direction SEQ_DIRECTION_IN r = r\<lparr>rt_seq_direction := SEQ_DIRECTION_IN\<rparr>"
  "seq_report_set_seq_direction SEQ_DIRECTION_OUT r = r\<lparr>rt_seq_direction := SEQ_DIRECTION_OUT\<rparr>"
  by (simp_all add: seq_report_set_seq_direction_def report_codes)

lemma status_codes_differ [simp]:
  "SEQ_STATUS_ESTABLISHED \<noteq> SEQ_STATUS_TERMINATED" "SEQ_STATUS_TERMINATED \<noteq> SEQ_STATUS_ESTABLISHED"
  "SEQ_STATUS_INITIAL \<noteq> SEQ_STATUS_TERMINATED" "SEQ_STATUS_UNKNOWN \<noteq> SEQ_STATUS_TERMINATED"
  "SEQ_STATUS_ESTABLISHED \<noteq> SEQ_STATUS_TIMED_OUT" "SEQ_STATUS_TERMINATED \<noteq> SEQ_STATUS_TIMED_OUT"
  "SEQ_STATUS_INITIAL \<noteq> SEQ_STATUS_TIMED_OUT" "SEQ_STATUS_UNKNOWN \<noteq> SEQ_STATUS_TIMED_OUT"
  "SEQ_STATUS_INITIAL \<noteq> SEQ_STATUS_ESTABLISHED" "SEQ_STATUS_UNKNOWN \<noteq> SEQ_STATUS_ESTABLISHED"
  by (simp_all add: report_codes)

section \<open>The report of all sequences\<close>

text \<open>
  The map of states holds the address of the parameter of the function that filled it, a
  variable that is gone when the function returns: it says no more than whether there is an entry.
\<close>

record report =
  rp_incoming_seq_list :: "string list"
  rp_outgoing_seq_list :: "string list"
  rp_seq_status_map :: "string \<Rightarrow> unit option"
  rp_no_of_completed_msgs_map :: "string \<Rightarrow> int option"
  rp_outgoing_internal_seq_id_map :: "string \<Rightarrow> cstr"

definition report_create :: report where
  "report_create =
     \<lparr>rp_incoming_seq_list = [], rp_outgoing_seq_list = [], rp_seq_status_map = Map.empty,
      rp_no_of_completed_msgs_map = Map.empty, rp_outgoing_internal_seq_id_map = Map.empty\<rparr>"

definition report_get_completed_msgs_count :: "report \<Rightarrow> string \<Rightarrow> int" where
  "report_get_completed_msgs_count report seq_id =
     (case rp_no_of_completed_msgs_map report seq_id of None \<Rightarrow> - 1 | Some lng \<Rightarrow> lng)"

text \<open>\<open>None\<close>: what is read is the variable that is gone.\<close>

definition report_get_seq_status_map :: "report \<Rightarrow> string \<Rightarrow> int option" where
  "report_get_seq_status_map report seq_id =
     (case rp_seq_status_map report seq_id of None \<Rightarrow> Some SEQ_STATUS_UNKNOWN | Some _ \<Rightarrow> None)"

definition report_add_to_incoming_seq_list :: "string \<Rightarrow> report \<Rightarrow> report" where
  "report_add_to_incoming_seq_list incoming_seq_id report =
     report\<lparr>rp_incoming_seq_list := rp_incoming_seq_list report @ [incoming_seq_id]\<rparr>"

definition report_add_to_outgoing_seq_list :: "string \<Rightarrow> report \<Rightarrow> report" where
  "report_add_to_outgoing_seq_list out_seq_id report =
     report\<lparr>rp_outgoing_seq_list := rp_outgoing_seq_list report @ [out_seq_id]\<rparr>"

definition report_add_to_no_of_completed_msgs_map :: "string \<Rightarrow> int \<Rightarrow> report \<Rightarrow> report" where
  "report_add_to_no_of_completed_msgs_map i no_of_msgs report =
     report\<lparr>rp_no_of_completed_msgs_map := (rp_no_of_completed_msgs_map report)(i \<mapsto> no_of_msgs)\<rparr>"

definition report_add_to_seq_status_map :: "string \<Rightarrow> int \<Rightarrow> report \<Rightarrow> report" where
  "report_add_to_seq_status_map i seq_status report =
     report\<lparr>rp_seq_status_map := (rp_seq_status_map report)(i \<mapsto> ())\<rparr>"

definition report_get_internal_seq_id_of_out_seq :: "report \<Rightarrow> string \<Rightarrow> cstr" where
  "report_get_internal_seq_id_of_out_seq report out_seq_id = rp_outgoing_internal_seq_id_map report out_seq_id"

text \<open>To set the value null in a hash is to remove the entry.\<close>

definition report_add_to_outgoing_internal_seq_map :: "string \<Rightarrow> cstr \<Rightarrow> report \<Rightarrow> report" where
  "report_add_to_outgoing_internal_seq_map out_seq_id internal_seq_id report =
     report\<lparr>rp_outgoing_internal_seq_id_map :=
       (rp_outgoing_internal_seq_id_map report)(out_seq_id := internal_seq_id)\<rparr>"

end
