(* ===== verification/Client.thy ===== *)
theory Client
  imports Seq_Report Ack_Mgr Rm_Elements
begin

text \<open>
  \<open>src/client/client.c\<close>: the functions an application calls beside its messages: reports on its sequences,
  creating, terminating and closing a sequence, asking for acknowledgements and waiting for the end.

  An outer \<open>None\<close> is an access to a null pointer or to memory that is not what it is taken for: the
  accessors of Axis2 read the object they are given.  A failed call is \<open>Inl\<close> of the error it set.
\<close>

section \<open>The service client\<close>

text \<open>
  The options of the client that the code reads and sets.  A property is an object that holds a
  value; the code also stores plain texts in their place, and to take the value of such a
  text is to read the text as if it were the object.
\<close>

datatype client_property = Property cstr | Raw_Text string

record client_options =
  co_to :: "cstr option"
  co_seq_key :: "client_property option"
  co_rm_spec_version :: "client_property option"
  co_offered_seq_id :: "client_property option"
  co_dummy_message :: "client_property option"
  co_action :: cstr
  co_soap_version_uri :: cstr

record svc_client =
  sl_options :: "client_options option"
  sl_has_svc_ctx :: bool

definition property_get_value :: "client_property option \<Rightarrow> cstr option" where
  "property_get_value property =
     (case property of Some (Property v) \<Rightarrow> Some v | Some (Raw_Text _) \<Rightarrow> None | None \<Rightarrow> None)"

definition value_if_there :: "client_property option \<Rightarrow> cstr option" where
  "value_if_there property = (if property = None then Some None else property_get_value property)"

text \<open>
  What the client uses of Axis2: the object model, a new envelope of SOAP 1.1 or 1.2, the two namespaces and
  whether an operation client can be made.
\<close>

record 'n client_env =
  ce_om :: "'n om_api"
  ce_new_envelope :: "bool \<Rightarrow> 'n soap_envelope"
  ce_soap11_uri :: string
  ce_soap12_uri :: string
  ce_op_client_created :: bool

text \<open>What is handed to Axis2: an envelope for an operation client, or the headers for the service
  client, and the start of the listener.\<close>

datatype 'n client_call =
    Op_Client_Execute "'n soap_envelope" client_options bool
  | Svc_Client_Fire_And_Forget "'n list" client_options
  | Listener_Make_Sure_Started

section \<open>Looking at the tables\<close>

definition seq_prop_find_unique :: "seq_property_bean \<Rightarrow> seq_property_bean option proc" where
  "seq_prop_find_unique b = State (\<lambda>w. (seq_property_mgr_find_unique (env_now w) (w_seq_prop w) (Some b), tick w))"

definition create_seq_find_unique :: "create_seq_bean \<Rightarrow> create_seq_bean option proc" where
  "create_seq_find_unique b = State (\<lambda>w. (create_seq_mgr_find_unique (env_now w) (w_create_seq w) (Some b), tick w))"

definition find_internal_seq :: "cstr \<Rightarrow> seq_property_bean option proc" where
  "find_internal_seq internal_seq_id =
     seq_prop_find_unique (seq_property_bean_create\<lparr>sp_value := internal_seq_id,
       sp_name := Some SEQ_PROP_OUTGOING_INTERNAL_SEQUENCE_ID\<rparr>)"

text \<open>The marks are looked for under the id of the outgoing sequence.\<close>

definition has_mark :: "string \<Rightarrow> cstr \<Rightarrow> bool proc" where
  "has_mark name internal_seq_id = do {
     internal_seq_bean \<leftarrow> find_internal_seq internal_seq_id;
     (case internal_seq_bean of
        None \<Rightarrow> ret False
      | Some b \<Rightarrow> do {
          mark \<leftarrow> seq_prop_retrieve (sp_seq_id b) (Some name);
          ret (case mark of None \<Rightarrow> False | Some m \<Rightarrow> sp_value m = Some AXIS2_VALUE_TRUE)
        })
   }"

definition is_seq_terminated :: "cstr \<Rightarrow> bool proc" where
  "is_seq_terminated = has_mark SEQ_PROP_SEQ_TERMINATED"

definition is_seq_timedout :: "cstr \<Rightarrow> bool proc" where
  "is_seq_timedout = has_mark SEQ_PROP_SEQ_TIMED_OUT"

section \<open>Reports on outgoing sequences\<close>

definition add_completed :: "(sandesha2_error + string list option) \<Rightarrow> seq_report \<Rightarrow> seq_report" where
  "add_completed completed_msg_list report =
     (case completed_msg_list of
        Inl _ \<Rightarrow> report
      | Inr l \<Rightarrow> foldl (\<lambda>r v. seq_report_add_completed_msg (atol v) r) report (list_elems l))"

definition fill_outgoing_seq_info :: "seq_report \<Rightarrow> cstr \<Rightarrow> seq_report proc" where
  "fill_outgoing_seq_info report out_seq_id = do {
     let report = fst (seq_report_set_seq_id out_seq_id report);
     completed_msg_list \<leftarrow> get_client_completed_msgs_list out_seq_id;
     ret (add_completed completed_msg_list report)
   }"

definition fill_terminated_outgoing_seq_info :: "seq_report \<Rightarrow> cstr \<Rightarrow> (seq_report \<times> (sandesha2_error + status)) proc" where
  "fill_terminated_outgoing_seq_info report internal_seq_id = do {
     internal_seq_bean \<leftarrow> find_internal_seq internal_seq_id;
     (case internal_seq_bean of
        None \<Rightarrow> ret (report, Inl ERROR_NOT_A_VALID_TERMINATED_SEQ)
      | Some b \<Rightarrow> do {
          let report = seq_report_set_seq_status SEQ_STATUS_TERMINATED report;
          report \<leftarrow> fill_outgoing_seq_info report (sp_seq_id b);
          ret (report, Inr AXIS2_SUCCESS)
        })
   }"

definition get_outgoing_seq_report_with_internal_seq_id :: "cstr \<Rightarrow> bool \<Rightarrow> (sandesha2_error + seq_report) proc" where
  "get_outgoing_seq_report_with_internal_seq_id internal_seq_id conf_ctx =
     (if is_null internal_seq_id \<or> \<not> conf_ctx then ret (Inl AXIS2_ERROR_INVALID_NULL_PARAM)
      else do {
        let report = seq_report_set_seq_direction SEQ_DIRECTION_OUT seq_report_create;
        let report = fst (seq_report_set_internal_seq_id internal_seq_id report);
        create_seq_bean \<leftarrow> create_seq_find_unique (create_seq_bean_create\<lparr>cs_internal_seq_id := internal_seq_id\<rparr>);
        (case create_seq_bean of
           None \<Rightarrow> do {
             terminated \<leftarrow> is_seq_terminated internal_seq_id;
             (if terminated then do {
                (report, s) \<leftarrow> fill_terminated_outgoing_seq_info report internal_seq_id;
                ret (Inr report)
              }
              else do {
                timedout \<leftarrow> is_seq_timedout internal_seq_id;
                (if timedout then ret (Inr report)
                 else ret (Inr (seq_report_set_seq_status SEQ_STATUS_INITIAL report)))
              })
           }
         | Some b \<Rightarrow>
             (if is_null (cs_seq_id b)
              then ret (Inr (seq_report_set_seq_direction SEQ_DIRECTION_OUT
                (seq_report_set_seq_status SEQ_STATUS_INITIAL (fst (seq_report_set_internal_seq_id internal_seq_id report)))))
              else do {
                let report = seq_report_set_seq_status SEQ_STATUS_ESTABLISHED report;
                report \<leftarrow> fill_outgoing_seq_info report (cs_seq_id b);
                ret (Inr report)
              }))
      })"

definition get_outgoing_seq_report_with_seq_key :: "cstr \<Rightarrow> cstr \<Rightarrow> bool \<Rightarrow> (sandesha2_error + seq_report) proc" where
  "get_outgoing_seq_report_with_seq_key to seq_key conf_ctx =
     (if is_null to \<or> is_null seq_key \<or> \<not> conf_ctx then ret (Inl AXIS2_ERROR_INVALID_NULL_PARAM)
      else get_outgoing_seq_report_with_internal_seq_id (get_client_internal_sequence_id to seq_key) conf_ctx)"

text \<open>A missing address and a missing context are logged, and then used.\<close>

definition get_outgoing_seq_report_with_svc_client :: "svc_client option \<Rightarrow> (sandesha2_error + seq_report) option proc" where
  "get_outgoing_seq_report_with_svc_client svc_client =
     (case svc_client of
        None \<Rightarrow> ret (Some (Inl AXIS2_ERROR_INVALID_NULL_PARAM))
      | Some c \<Rightarrow>
          (case sl_options c of
             None \<Rightarrow> ret (Some (Inl ERROR_OPTIONS_OBJECT_NOT_SET))
           | Some options \<Rightarrow>
               (case (co_to options, property_get_value (co_seq_key options), sl_has_svc_ctx c) of
                  (Some to, Some seq_key, True) \<Rightarrow> do {
                    report \<leftarrow> get_outgoing_seq_report_with_internal_seq_id (get_client_internal_sequence_id to seq_key) True;
                    ret (Some report)
                  }
                | _ \<Rightarrow> ret None)))"

section \<open>Reports on incoming sequences\<close>

definition get_svr_seq_status :: "cstr \<Rightarrow> (sandesha2_error + int) proc" where
  "get_svr_seq_status seq_id = do {
     terminated_bean \<leftarrow> seq_prop_retrieve seq_id (Some SEQ_PROP_SEQ_TERMINATED);
     (if \<not> is_null terminated_bean then ret (Inr SEQ_STATUS_TERMINATED)
      else do {
        timedout_bean \<leftarrow> seq_prop_retrieve seq_id (Some SEQ_PROP_SEQ_TIMED_OUT);
        (if \<not> is_null timedout_bean then ret (Inr SEQ_STATUS_TIMED_OUT)
         else do {
           next_msg_bean \<leftarrow> next_msg_retrieve seq_id;
           (if \<not> is_null next_msg_bean then ret (Inr SEQ_STATUS_ESTABLISHED)
            else ret (Inl ERROR_UNRECORDED_SEQ_ID))
         })
      })
   }"

text \<open>The number that stands for an error is no state, so the state stays unknown.\<close>

definition get_incoming_seq_report :: "cstr \<Rightarrow> bool \<Rightarrow> (sandesha2_error + seq_report) proc" where
  "get_incoming_seq_report seq_id conf_ctx =
     (if is_null seq_id \<or> \<not> conf_ctx then ret (Inl AXIS2_ERROR_INVALID_NULL_PARAM)
      else do {
        completed_msg_list \<leftarrow> get_svr_completed_msgs_list seq_id;
        let report = add_completed completed_msg_list seq_report_create;
        let report = fst (seq_report_set_internal_seq_id seq_id (fst (seq_report_set_seq_id seq_id report)));
        let report = seq_report_set_seq_direction SEQ_DIRECTION_IN report;
        s \<leftarrow> get_svr_seq_status seq_id;
        ret (Inr (seq_report_set_seq_status (case s of Inl _ \<Rightarrow> - 1 | Inr n \<Rightarrow> n) report))
      })"

section \<open>The report of all sequences\<close>

definition note_seq :: "string \<Rightarrow> seq_report \<Rightarrow> report \<Rightarrow> report" where
  "note_seq seq_id r rep =
     report_add_to_seq_status_map seq_id (rt_seq_status r)
       (report_add_to_no_of_completed_msgs_map seq_id (int (length (rt_completed_msgs r))) rep)"

fun add_outgoing_seqs :: "seq_property_bean list \<Rightarrow> report \<Rightarrow> report option proc" where
  "add_outgoing_seqs [] rep = ret (Some rep)"
| "add_outgoing_seqs (bean # beans) rep =
     (case sp_seq_id bean of
        None \<Rightarrow> ret None
      | Some seq_id \<Rightarrow> do {
          let rep = report_add_to_outgoing_seq_list seq_id rep;
          let rep = report_add_to_outgoing_internal_seq_map seq_id (sp_value bean) rep;
          r \<leftarrow> get_outgoing_seq_report_with_internal_seq_id (sp_value bean) True;
          (case r of Inl _ \<Rightarrow> ret None | Inr r \<Rightarrow> add_outgoing_seqs beans (note_seq seq_id r rep))
        })"

text \<open>The report of an incoming sequence is asked for with the list of its messages in place of its id.\<close>

fun add_incoming_seqs :: "seq_property_bean list \<Rightarrow> report \<Rightarrow> report option proc" where
  "add_incoming_seqs [] rep = ret (Some rep)"
| "add_incoming_seqs (bean # beans) rep =
     (case sp_seq_id bean of
        None \<Rightarrow> ret None
      | Some seq_id \<Rightarrow> do {
          let rep = report_add_to_incoming_seq_list seq_id rep;
          r \<leftarrow> get_incoming_seq_report (sp_value bean) True;
          (case r of Inl _ \<Rightarrow> ret None | Inr r \<Rightarrow> add_incoming_seqs beans (note_seq seq_id r rep))
        })"

definition find_named :: "string \<Rightarrow> seq_property_bean list proc" where
  "find_named name = do {
     found \<leftarrow> seq_prop_find (Some (seq_property_bean_create\<lparr>sp_name := Some name\<rparr>));
     ret (list_elems found)
   }"

definition get_report :: "bool \<Rightarrow> report option proc" where
  "get_report conf_ctx =
     (if \<not> conf_ctx then ret None
      else do {
        collection \<leftarrow> find_named SEQ_PROP_OUTGOING_INTERNAL_SEQUENCE_ID;
        rep \<leftarrow> add_outgoing_seqs collection report_create;
        (case rep of
           None \<Rightarrow> ret None
         | Some rep \<Rightarrow> do {
             svr_completed_msgs_beans \<leftarrow> find_named SEQ_PROP_SERVER_COMPLETED_MESSAGES;
             add_incoming_seqs svr_completed_msgs_beans rep
           })
      })"

fun incoming_seq_reports :: "string list \<Rightarrow> (sandesha2_error + seq_report list) proc" where
  "incoming_seq_reports [] = ret (Inr [])"
| "incoming_seq_reports (seq_id # seq_ids) = do {
     r \<leftarrow> get_incoming_seq_report (Some seq_id) True;
     (case r of
        Inl _ \<Rightarrow> ret (Inl ERROR_INCOMING_SEQ_REPORT_NOT_PRESENT_FOR_GIVEN_SEQ_ID)
      | Inr r \<Rightarrow> do {
          rs \<leftarrow> incoming_seq_reports seq_ids;
          ret (case rs of Inl e \<Rightarrow> Inl e | Inr rs \<Rightarrow> Inr (r # rs))
        })
   }"

text \<open>The number of sequences is never set: it is what it was initialised with.\<close>

definition get_incoming_seq_reports :: "bool \<Rightarrow> (sandesha2_error + seq_report list) option proc" where
  "get_incoming_seq_reports conf_ctx = do {
     rep \<leftarrow> get_report conf_ctx;
     let n = 0;
     (case rep of
        None \<Rightarrow> ret None
      | Some rep \<Rightarrow> do {
          reports \<leftarrow> incoming_seq_reports (take n (rp_incoming_seq_list rep));
          ret (Some reports)
        })
   }"

section \<open>Handing a message to Axis2\<close>

definition fill_soap_envelope :: "'n client_env \<Rightarrow> client_options \<Rightarrow> 'n option \<Rightarrow> 'n soap_envelope option" where
  "fill_soap_envelope ce options payload =
     (case co_soap_version_uri options of
        None \<Rightarrow> None
      | Some soap_version_uri \<Rightarrow>
          (let envelope = ce_new_envelope ce (soap_version_uri = ce_soap11_uri ce)
           in Some (case payload of
                None \<Rightarrow> envelope
              | Some node \<Rightarrow> envelope\<lparr>se_body := om_add_child (ce_om ce) node (se_body envelope)\<rparr>)))"

text \<open>With a callback the call does not wait for the answer.\<close>

definition fire_and_forget :: "'n client_env \<Rightarrow> client_options \<Rightarrow> bool \<Rightarrow> 'n option \<Rightarrow> 'n client_call list" where
  "fire_and_forget ce options callback payload =
     (case fill_soap_envelope ce options payload of
        None \<Rightarrow> []
      | Some envelope \<Rightarrow>
          (if ce_op_client_created ce then [Op_Client_Execute envelope options (\<not> callback)] else []))"

definition send_non_blocking ::
  "'n client_env \<Rightarrow> client_options \<Rightarrow> 'n option \<Rightarrow> 'n client_call list \<times> status option" where
  "send_non_blocking ce options payload =
     (if \<not> ce_op_client_created ce then ([], Some AXIS2_FAILURE)
      else case fill_soap_envelope ce options payload of
             None \<Rightarrow> ([], Some AXIS2_FAILURE)
           | Some envelope \<Rightarrow> ([Listener_Make_Sure_Started, Op_Client_Execute envelope options False], None))"

text \<open>
  A call of the client gives the client with its options as they are after it, what was handed to
  Axis2, and a status or an error.  The variants with a key set it and put the old one back, and
  tell success whatever happened.
\<close>

type_synonym 'n client_outcome = "svc_client \<times> 'n client_call list \<times> (sandesha2_error + status)"

definition with_seq_key ::
  "client_property option \<Rightarrow> svc_client \<Rightarrow> (svc_client \<Rightarrow> 'n client_outcome option proc) \<Rightarrow> 'n client_outcome option proc" where
  "with_seq_key property c call =
     (case sl_options c of
        None \<Rightarrow> ret (Some (c, [], Inl ERROR_OPTIONS_OBJECT_NOT_SET))
      | Some options \<Rightarrow> do {
          r \<leftarrow> call (c\<lparr>sl_options := Some (options\<lparr>co_seq_key := property\<rparr>)\<rparr>);
          ret (map_option (\<lambda>(c', calls, _).
            (c'\<lparr>sl_options := map_option (\<lambda>o'. o'\<lparr>co_seq_key := co_seq_key options\<rparr>) (sl_options c')\<rparr>,
             calls, Inr AXIS2_SUCCESS)) r)
        })"

section \<open>Creating a sequence\<close>

definition AXIS2_VALUE_FALSE :: string where
  "AXIS2_VALUE_FALSE = ''false''"

text \<open>The offered id and the mark of a dummy message are stored as plain texts.\<close>

definition create_seq_with_svc_client :: "svc_client \<Rightarrow> bool \<Rightarrow> 'n client_outcome option proc" where
  "create_seq_with_svc_client c offer =
     (case sl_options c of
        None \<Rightarrow> ret (Some (c, [], Inl ERROR_OPTIONS_OBJECT_NOT_SET))
      | Some options \<Rightarrow>
          (case co_to options of
             Some (Some to) \<Rightarrow> do {
               options \<leftarrow> (if offer then do {
                   offered_seq_id \<leftarrow> uuid_gen;
                   ret (options\<lparr>co_offered_seq_id := Some (Raw_Text offered_seq_id)\<rparr>)
                 } else ret options);
               (case value_if_there (co_seq_key options) of
                  None \<Rightarrow> ret None
                | Some seq_key \<Rightarrow> do {
                    options \<leftarrow> (if is_null seq_key then do {
                        new_key \<leftarrow> uuid_gen;
                        ret (options\<lparr>co_seq_key := Some (Property (Some new_key))\<rparr>)
                      } else ret options);
                    let options = options\<lparr>co_dummy_message := Some (Raw_Text AXIS2_VALUE_TRUE)\<rparr>;
                    ret (Some (c\<lparr>sl_options := Some (options\<lparr>co_dummy_message := Some (Raw_Text AXIS2_VALUE_FALSE)\<rparr>)\<rparr>,
                      [Svc_Client_Fire_And_Forget [] options], Inr AXIS2_SUCCESS))
                  })
             }
           | _ \<Rightarrow> ret (Some (c, [], Inl ERROR_TO_EPR_NOT_SET))))"

definition create_seq_with_svc_client_and_seq_key :: "svc_client \<Rightarrow> bool \<Rightarrow> cstr \<Rightarrow> 'n client_outcome option proc" where
  "create_seq_with_svc_client_and_seq_key c offer seq_key =
     with_seq_key (Some (Property seq_key)) c (\<lambda>c. create_seq_with_svc_client c offer)"

section \<open>Terminating a sequence\<close>

definition spec_version_of :: "string \<Rightarrow> client_options \<Rightarrow> string option" where
  "spec_version_of default_version options =
     (case value_if_there (co_rm_spec_version options) of
        None \<Rightarrow> None
      | Some None \<Rightarrow> Some default_version
      | Some (Some v) \<Rightarrow> Some v)"

text \<open>The number of the last message, when it was recorded.\<close>

definition last_out_msg_number :: "cstr \<Rightarrow> cstr \<Rightarrow> last_msg_number option proc" where
  "last_out_msg_number internal_seq_id rm_ns_value = do {
     last_out_msg_no_bean \<leftarrow> seq_prop_retrieve internal_seq_id (Some SEQ_PROP_LAST_OUT_MESSAGE_NUMBER);
     ret (case last_out_msg_no_bean of
            None \<Rightarrow> None
          | Some b \<Rightarrow>
              (case (sp_value b, last_msg_number_create rm_ns_value) of
                 (Some last_msg_num_str, Inr l) \<Rightarrow> Some (l\<lparr>ln_msg_num := atol last_msg_num_str\<rparr>)
               | _ \<Rightarrow> None))
   }"

text \<open>The id of the outgoing sequence, for one that the report calls established.\<close>

definition active_seq_id :: "sandesha2_error \<Rightarrow> cstr \<Rightarrow> (sandesha2_error + string) proc" where
  "active_seq_id no_report internal_seq_id = do {
     r \<leftarrow> get_outgoing_seq_report_with_internal_seq_id internal_seq_id True;
     (case r of
        Inl _ \<Rightarrow> ret (Inl no_report)
      | Inr report \<Rightarrow>
          (if rt_seq_status report \<noteq> SEQ_STATUS_ESTABLISHED then ret (Inl ERROR_SEQ_NOT_IN_ACTIVE_STATE)
           else do {
             seq_id_bean \<leftarrow> seq_prop_retrieve internal_seq_id (Some SEQ_PROP_OUTGOING_SEQUENCE_ID);
             ret (case seq_id_bean of
                    None \<Rightarrow> Inl ERROR_SEQ_ID_BEAN_NOT_SET
                  | Some b \<Rightarrow> (case sp_value b of None \<Rightarrow> Inl ERROR_CANNOT_FIND_SEQ_ID | Some seq_id \<Rightarrow> Inr seq_id))
           }))
   }"

definition configure_terminate_seq ::
  "'n client_env \<Rightarrow> client_options \<Rightarrow> (client_options \<times> (sandesha2_error + 'n soap_envelope)) option proc" where
  "configure_terminate_seq ce options =
     (case (co_to options, value_if_there (co_seq_key options)) of
        (None, _) \<Rightarrow> ret (Some (options, Inl ERROR_TO_EPR_NOT_SET))
      | (Some to, None) \<Rightarrow> ret None
      | (Some to, Some seq_key) \<Rightarrow> do {
          let internal_seq_id = get_client_internal_sequence_id to seq_key;
          r \<leftarrow> active_seq_id ERROR_CANNOT_FIND_SEQ_REPORT_FOR_GIVEN_SEQ_ID internal_seq_id;
          (case r of
             Inl e \<Rightarrow> ret (Some (options, Inl e))
           | Inr seq_id \<Rightarrow>
               (case spec_version_of get_default_spec_version options of
                  None \<Rightarrow> ret None
                | Some rm_spec_version \<Rightarrow> do {
                    let options = options\<lparr>co_action := of_sum (get_terminate_seq_action rm_spec_version)\<rparr>;
                    let dummy_envelope = ce_new_envelope ce (co_soap_version_uri options \<noteq> Some (ce_soap12_uri ce));
                    let rm_ns_value = get_rm_ns_val (Some rm_spec_version);
                    (case terminate_seq_create rm_ns_value of
                       Inl e \<Rightarrow> ret (Some (options, Inl e))
                     | Inr t \<Rightarrow> do {
                         let t = (case identifier_create rm_ns_value of
                                    Inl _ \<Rightarrow> t
                                  | Inr i \<Rightarrow> t\<lparr>te_identifier := Some (i\<lparr>idf_str_id := Some seq_id\<rparr>)\<rparr>);
                         l \<leftarrow> last_out_msg_number internal_seq_id rm_ns_value;
                         let t = (case l of None \<Rightarrow> t | Some l \<Rightarrow> t\<lparr>te_last_msg_number := Some l\<rparr>);
                         ret (Some (options, Inr (terminate_seq_to_soap_envelope (ce_om ce) t dummy_envelope)))
                       })
                  }))
        })"

definition first_in_body :: "'n client_env \<Rightarrow> 'n soap_envelope \<Rightarrow> string \<Rightarrow> cstr \<Rightarrow> 'n option" where
  "first_in_body ce envelope local ns =
     (case ns of None \<Rightarrow> None | Some u \<Rightarrow> om_first_child (ce_om ce) (se_body envelope) local u)"

text \<open>
  The action that is put back is the one found after the message was configured; whether the
  sending left a failure in the environment is the environment's answer.
\<close>

definition terminate_seq_with_svc_client :: "'n client_env \<Rightarrow> svc_client option \<Rightarrow> bool \<Rightarrow> (svc_client option \<times> 'n client_call list \<times> (sandesha2_error + status)) option proc" where
  "terminate_seq_with_svc_client ce svc_client callback =
     (case svc_client of
        None \<Rightarrow> ret (Some (None, [], Inr AXIS2_FAILURE))
      | Some c \<Rightarrow>
          (if \<not> sl_has_svc_ctx c then ret (Some (Some c, [], Inl ERROR_SVC_CTX_NULL))
           else case sl_options c of
             None \<Rightarrow> ret (Some (Some c, [], Inl ERROR_OPTIONS_OBJECT_NOT_SET))
           | Some options \<Rightarrow>
               (case spec_version_of get_default_spec_version options of
                  None \<Rightarrow> ret None
                | Some rm_spec_version \<Rightarrow> do {
                    r \<leftarrow> configure_terminate_seq ce options;
                    (case r of
                       None \<Rightarrow> ret None
                     | Some (options, Inl e) \<Rightarrow> ret (Some (Some (c\<lparr>sl_options := Some options\<rparr>), [], Inl e))
                     | Some (options, Inr terminate_envelope) \<Rightarrow> do {
                         let payload = first_in_body ce terminate_envelope WSRM_TERMINATE_SEQ (get_rm_ns_val (Some rm_spec_version));
                         let old_action = co_action options;
                         let options = (case get_terminate_seq_action rm_spec_version of
                                          Inl _ \<Rightarrow> options | Inr action \<Rightarrow> options\<lparr>co_action := Some action\<rparr>);
                         let calls = fire_and_forget ce options callback payload;
                         sent \<leftarrow> engine_answer;
                         (if \<not> sent
                          then ret (Some (Some (c\<lparr>sl_options := Some (options\<lparr>co_action := old_action\<rparr>)\<rparr>), calls,
                                 Inl ERROR_COULD_NOT_SEND_TERMINATE_MESSAGE))
                          else ret (Some (Some (c\<lparr>sl_options := Some (if is_null old_action then options
                                 else options\<lparr>co_action := old_action\<rparr>)\<rparr>), calls, Inr AXIS2_SUCCESS)))
                       })
                  })))"

definition terminate_seq_with_svc_client_and_seq_key :: "'n client_env \<Rightarrow> svc_client \<Rightarrow> bool \<Rightarrow> cstr \<Rightarrow> 'n client_outcome option proc" where
  "terminate_seq_with_svc_client_and_seq_key ce c callback seq_key =
     with_seq_key (Some (Property seq_key)) c (\<lambda>c. do {
       r \<leftarrow> terminate_seq_with_svc_client ce (Some c) callback;
       ret (map_option (\<lambda>(c', calls, s). (case c' of None \<Rightarrow> c | Some c' \<Rightarrow> c', calls, s)) r)
     })"

section \<open>Closing a sequence\<close>

definition configure_close_seq ::
  "'n client_env \<Rightarrow> client_options \<Rightarrow> (sandesha2_error + 'n soap_envelope) option proc" where
  "configure_close_seq ce options =
     (case (co_to options, property_get_value (co_seq_key options)) of
        (None, _) \<Rightarrow> ret (Some (Inl ERROR_TO_EPR_NOT_SET))
      | (Some to, None) \<Rightarrow> ret None
      | (Some to, Some seq_key) \<Rightarrow> do {
          let internal_seq_id = get_client_internal_sequence_id to seq_key;
          r \<leftarrow> active_seq_id ERROR_CANNOT_FIND_SEQ_REPORT_FOR_GIVEN_SEQ_ID internal_seq_id;
          (case r of
             Inl e \<Rightarrow> ret (Some (Inl e))
           | Inr seq_id \<Rightarrow>
               (case spec_version_of get_default_spec_version options of
                  None \<Rightarrow> ret None
                | Some rm_spec_version \<Rightarrow>
                    (if is_seq_closing_allowed rm_spec_version \<noteq> Inr True
                     then ret (Some (Inl ERROR_RM_VERSION_DOES_NOT_ALLOW_SEQ_CLOSING))
                     else do {
                       let dummy_envelope = ce_new_envelope ce (co_soap_version_uri options \<noteq> Some (ce_soap12_uri ce));
                       let rm_ns_value = get_rm_ns_val (Some rm_spec_version);
                       (case (close_seq_create rm_ns_value, identifier_create rm_ns_value) of
                          (Inr c, Inr i) \<Rightarrow> do {
                            let c = c\<lparr>cl_identifier := Some (i\<lparr>idf_str_id := Some seq_id\<rparr>)\<rparr>;
                            l \<leftarrow> last_out_msg_number internal_seq_id rm_ns_value;
                            let c = (case l of None \<Rightarrow> c | Some l \<Rightarrow> c\<lparr>cl_last_msg_number := Some l\<rparr>);
                            ret (Some (Inr (close_seq_to_soap_envelope (ce_om ce) c dummy_envelope)))
                          }
                        | _ \<Rightarrow> ret None)
                     })))
        })"

text \<open>The envelope is used whether it was made or not.\<close>

definition close_seq_with_svc_client :: "'n client_env \<Rightarrow> svc_client \<Rightarrow> bool \<Rightarrow> 'n client_outcome option proc" where
  "close_seq_with_svc_client ce c callback =
     (if \<not> sl_has_svc_ctx c then ret (Some (c, [], Inl ERROR_SVC_CTX_NULL))
      else case sl_options c of
        None \<Rightarrow> ret (Some (c, [], Inl ERROR_OPTIONS_OBJECT_NOT_SET))
      | Some options \<Rightarrow>
          (case spec_version_of get_default_spec_version options of
             None \<Rightarrow> ret None
           | Some rm_spec_version \<Rightarrow> do {
               r \<leftarrow> configure_close_seq ce options;
               (case r of
                  Some (Inr close_envelope) \<Rightarrow> do {
                    let payload = first_in_body ce close_envelope WSRM_CLOSE_SEQ (get_rm_ns_val (Some rm_spec_version));
                    let calls = fire_and_forget ce (options\<lparr>co_action := of_sum (get_close_seq_action rm_spec_version)\<rparr>)
                                  callback payload;
                    sent \<leftarrow> engine_answer;
                    ret (Some (c, calls, if sent then Inr AXIS2_SUCCESS else Inl ERROR_COULD_NOT_SEND_THE_CLOSE_SEQ_MESSAGE))
                  }
                | _ \<Rightarrow> ret None)
             }))"

definition close_seq_with_svc_client_and_seq_key :: "'n client_env \<Rightarrow> svc_client \<Rightarrow> bool \<Rightarrow> cstr \<Rightarrow> 'n client_outcome option proc" where
  "close_seq_with_svc_client_and_seq_key ce c callback seq_key =
     with_seq_key (Some (Property seq_key)) c (\<lambda>c. close_seq_with_svc_client ce c callback)"

section \<open>Asking for acknowledgements\<close>

definition get_seq_id :: "svc_client \<Rightarrow> (sandesha2_error + cstr) option proc" where
  "get_seq_id c =
     (case sl_options c of
        None \<Rightarrow> ret (Some (Inl ERROR_OPTIONS_OBJECT_NOT_SET))
      | Some options \<Rightarrow>
          (case (co_to options, property_get_value (co_seq_key options)) of
             (None, _) \<Rightarrow> ret (Some (Inl ERROR_TO_EPR_NOT_SET))
           | (Some to, None) \<Rightarrow> ret None
           | (Some to, Some seq_key) \<Rightarrow>
               (if \<not> sl_has_svc_ctx c then ret (Some (Inl ERROR_SVC_CTX_NULL))
                else do {
                  let internal_seq_id = get_client_internal_sequence_id to seq_key;
                  r \<leftarrow> get_outgoing_seq_report_with_svc_client (Some c);
                  (case r of
                     None \<Rightarrow> ret None
                   | Some (Inl _) \<Rightarrow> ret (Some (Inl ERROR_CANNOT_FIND_SEQ_REPORT_FOR_GIVEN_DATA))
                   | Some (Inr report) \<Rightarrow>
                       (if rt_seq_status report \<noteq> SEQ_STATUS_ESTABLISHED then ret (Some (Inl ERROR_SEQ_NOT_IN_ACTIVE_STATE))
                        else do {
                          seq_id_bean \<leftarrow> seq_prop_retrieve internal_seq_id (Some SEQ_PROP_OUTGOING_SEQUENCE_ID);
                          ret (Some (case seq_id_bean of None \<Rightarrow> Inl ERROR_SEQ_ID_BEAN_NOT_SET | Some b \<Rightarrow> Inr (sp_value b)))
                        }))
                })))"

text \<open>The element is written into an envelope of its own and its block is added to the client's headers.\<close>

definition ack_request_block :: "'n client_env \<Rightarrow> client_options \<Rightarrow> string \<Rightarrow> cstr \<Rightarrow> 'n option option" where
  "ack_request_block ce options rm_spec_version out_seq_id =
     (let dummy_envelope = ce_new_envelope ce (co_soap_version_uri options = Some (ce_soap11_uri ce));
          rm_ns_value = get_rm_ns_val (Some rm_spec_version)
      in case (ack_requested_create rm_ns_value, identifier_create rm_ns_value) of
           (Inr a, Inr i) \<Rightarrow>
             (let a = a\<lparr>arq_identifier := Some (i\<lparr>idf_str_id := out_seq_id\<rparr>)\<rparr>;
                  envelope = ack_requested_to_soap_envelope (ce_om ce) a dummy_envelope
              in case (se_header envelope, rm_ns_value) of
                   (Some header, Some u) \<Rightarrow> Some (om_first_child (ce_om ce) header WSRM_ACK_REQUESTED u)
                 | _ \<Rightarrow> None)
         | _ \<Rightarrow> None)"

definition send_ack_request_with_svc_client :: "'n client_env \<Rightarrow> svc_client \<Rightarrow> 'n client_outcome option proc" where
  "send_ack_request_with_svc_client ce c =
     (case sl_options c of
        None \<Rightarrow> ret (Some (c, [], Inl ERROR_OPTIONS_OBJECT_NOT_SET))
      | Some options \<Rightarrow>
          (if \<not> sl_has_svc_ctx c then ret (Some (c, [], Inl ERROR_SVC_CTX_NULL))
           else case (co_to options, property_get_value (co_seq_key options), spec_version_of SPEC_VERSION_1_0 options) of
             (None, _, _) \<Rightarrow> ret (Some (c, [], Inl ERROR_TO_EPR_NOT_SET))
           | (Some to, Some seq_key, Some rm_spec_version) \<Rightarrow>
               (if rm_spec_version = SPEC_VERSION_1_0 then ret (Some (c, [], Inl ERROR_EMPTY_ACK_REQUEST_MESSAGE))
                else do {
                  r \<leftarrow> get_outgoing_seq_report_with_internal_seq_id (get_client_internal_sequence_id to seq_key) True;
                  (case r of
                     Inl _ \<Rightarrow> ret (Some (c, [], Inl ERROR_CANNOT_GENERATE_SEQ_REPORT_FOR_GIVEN_INTERNAL_SEQ_ID))
                   | Inr report \<Rightarrow>
                       (if rt_seq_status report \<noteq> SEQ_STATUS_ESTABLISHED
                        then ret (Some (c, [], Inl ERROR_CANNOT_SEND_ACK_REQUEST_MESSAGE_SINCE_IS_NOT_ACTIVE))
                        else do {
                          q \<leftarrow> get_seq_id c;
                          (case q of
                             None \<Rightarrow> ret None
                           | Some q \<Rightarrow>
                               (case ack_request_block ce options rm_spec_version (case q of Inl _ \<Rightarrow> None | Inr i \<Rightarrow> i) of
                                  None \<Rightarrow> ret None
                                | Some block \<Rightarrow>
                                    (let action = of_sum (get_ack_req_action rm_spec_version)
                                     in ret (Some (c,
                                          [Svc_Client_Fire_And_Forget (list_elems (map_option (\<lambda>b. [b]) block)) (options\<lparr>co_action := action\<rparr>)],
                                          Inr AXIS2_SUCCESS)))))
                        }))
                })
           | _ \<Rightarrow> ret None))"

definition send_ack_request_with_svc_client_and_seq_key :: "'n client_env \<Rightarrow> svc_client \<Rightarrow> cstr \<Rightarrow> 'n client_outcome option proc" where
  "send_ack_request_with_svc_client_and_seq_key ce c seq_key =
     with_seq_key (Some (Property seq_key)) c (send_ack_request_with_svc_client ce)"

section \<open>Waiting for the end of a sequence\<close>

text \<open>
  The loop asks for the report again and again, while the other threads go on.  The first argument
  is the number of turns it may take; \<open>None\<close>: it has not returned by then.  The limit is compared with a
  time in seconds.
\<close>

fun wait_until_completed :: "nat \<Rightarrow> svc_client option \<Rightarrow> int \<Rightarrow> int \<Rightarrow> status option option proc" where
  "wait_until_completed 0 svc_client max_waiting_time start_time = ret None"
| "wait_until_completed (Suc turns) svc_client max_waiting_time start_time = do {
     axis2_sleep 0;
     r \<leftarrow> get_outgoing_seq_report_with_svc_client svc_client;
     (case r of
        Some (Inr report) \<Rightarrow> do {
          let s = rt_seq_status report;
          let finished = (s = SEQ_STATUS_TERMINATED \<or> s = SEQ_STATUS_TIMED_OUT);
          late \<leftarrow> (if 0 \<le> max_waiting_time then do {
              time_now \<leftarrow> current_time_in_millis;
              ret (start_time + max_waiting_time < time_now)
            } else ret False);
          (if finished \<or> late then ret (Some (Some AXIS2_SUCCESS))
           else wait_until_completed turns svc_client max_waiting_time start_time)
        }
      | _ \<Rightarrow> ret (Some None))
   }"

definition wait_until_seq_completed_with_svc_client_and_max_waiting_time ::
  "nat \<Rightarrow> svc_client option \<Rightarrow> int \<Rightarrow> (sandesha2_error + status) option option proc" where
  "wait_until_seq_completed_with_svc_client_and_max_waiting_time turns svc_client max_waiting_time = do {
     start_time \<leftarrow> current_time_in_millis;
     r \<leftarrow> get_outgoing_seq_report_with_svc_client svc_client;
     (case r of
        None \<Rightarrow> ret (Some None)
      | Some (Inl _) \<Rightarrow> ret (Some (Some (Inl ERROR_CANNOT_FIND_SEQ_REPORT_FOR_GIVEN_DATA)))
      | Some (Inr _) \<Rightarrow> do {
          s \<leftarrow> wait_until_completed turns svc_client max_waiting_time start_time;
          ret (map_option (map_option Inr) s)
        })
   }"

definition wait_until_seq_completed_with_svc_client ::
  "nat \<Rightarrow> svc_client option \<Rightarrow> (sandesha2_error + status) option option proc" where
  "wait_until_seq_completed_with_svc_client turns svc_client =
     wait_until_seq_completed_with_svc_client_and_max_waiting_time turns svc_client (- 1)"

text \<open>The key that is given is not used: the property is set to null.\<close>

definition wait_until_seq_completed_with_svc_client_and_max_waiting_time_and_seq_key ::
  "nat \<Rightarrow> svc_client \<Rightarrow> int \<Rightarrow> cstr \<Rightarrow> (sandesha2_error + status) option option proc" where
  "wait_until_seq_completed_with_svc_client_and_max_waiting_time_and_seq_key turns c max_waiting_time seq_key =
     (case sl_options c of
        None \<Rightarrow> ret (Some (Some (Inl ERROR_OPTIONS_OBJECT_NOT_SET)))
      | Some options \<Rightarrow> do {
          r \<leftarrow> wait_until_seq_completed_with_svc_client_and_max_waiting_time turns
                 (Some (c\<lparr>sl_options := Some (options\<lparr>co_seq_key := None\<rparr>)\<rparr>)) max_waiting_time;
          ret (map_option (map_option (\<lambda>_. Inr AXIS2_SUCCESS)) r)
        })"

definition wait_until_seq_completed_with_svc_client_and_seq_key ::
  "nat \<Rightarrow> svc_client \<Rightarrow> cstr \<Rightarrow> (sandesha2_error + status) option option proc" where
  "wait_until_seq_completed_with_svc_client_and_seq_key turns c seq_key =
     (case sl_options c of
        None \<Rightarrow> ret (Some (Some (Inl ERROR_OPTIONS_OBJECT_NOT_SET)))
      | Some options \<Rightarrow> do {
          r \<leftarrow> wait_until_seq_completed_with_svc_client turns
                 (Some (c\<lparr>sl_options := Some (options\<lparr>co_seq_key := None\<rparr>)\<rparr>));
          ret (map_option (map_option (\<lambda>_. Inr AXIS2_SUCCESS)) r)
        })"

section \<open>Taking a stored response\<close>

definition response_retrieve :: "cstr \<Rightarrow> int \<Rightarrow> response option proc" where
  "response_retrieve seq_id msg_no = State (\<lambda>w. (retrieve_response (env_now w) (w_response w) seq_id msg_no, tick w))"

definition response_remove :: "cstr \<Rightarrow> int \<Rightarrow> bool proc" where
  "response_remove seq_id msg_no = State (\<lambda>w.
     let r = remove_response (env_now w) (w_response w) seq_id msg_no
     in (snd r, tick (w\<lparr>w_response := fst r\<rparr>)))"

text \<open>\<open>build\<close> makes an envelope of the text of a response; the result is its body.\<close>

definition get_response_envelope ::
  "(response \<Rightarrow> 'n soap_envelope option) \<Rightarrow> svc_client \<Rightarrow> int \<Rightarrow> (sandesha2_error + 'n option) option proc" where
  "get_response_envelope build c msg_no =
     (case sl_options c of
        None \<Rightarrow> ret (Some (Inl ERROR_OPTIONS_OBJECT_NOT_SET))
      | Some options \<Rightarrow>
          (case property_get_value (co_seq_key options) of
             None \<Rightarrow> ret None
           | Some client_seq_key \<Rightarrow> do {
               response \<leftarrow> response_retrieve client_seq_key msg_no;
               response_remove client_seq_key msg_no;
               ret (Some (Inr (Option.bind response (\<lambda>r. map_option se_body (build r)))))
             }))"

end
