(* ===== verification/Client_Props.thy ===== *)
theory Client_Props
  imports Client Sending Wsrm_Roundtrip
begin

text \<open>
  What the client's reports tell, and whether its waiting ends: against the states in which the
  creation, the termination and the time-out of a sequence leave the tables.
\<close>

section \<open>What a report shows\<close>

definition internal_rows :: "seq_property_table \<Rightarrow> string \<Rightarrow> seq_property_row list" where
  "internal_rows t i = filter (\<lambda>r. pr_name r = SEQ_PROP_OUTGOING_INTERNAL_SEQUENCE_ID \<and> pr_value r = i) t"

definition the_only :: "'a list \<Rightarrow> 'a option" where
  "the_only xs = (case xs of [x] \<Rightarrow> Some x | _ \<Rightarrow> None)"

lemma list_get_only: "(if list_size l = Suc 0 then list_get l 0 else None) = the_only (list_elems l)"
  by (cases l) (auto simp: the_only_def list_size_def list_get_def length_Suc_conv split: list.split)

lemma the_only_map: "the_only (map f xs) = map_option f (the_only xs)"
  by (simp add: the_only_def split: list.split)

lemma the_only_Nil [simp]: "the_only [] = None"
  by (simp add: the_only_def)

lemma internal_find_cond:
  "seq_property_find_cond (Some (seq_property_bean_create\<lparr>sp_value := Some i, sp_name := Some n\<rparr>))
     = (\<lambda>r. pr_name r = n \<and> pr_value r = i)"
  by (auto simp: fun_eq_iff seq_property_find_cond_def seq_property_bean_create_def opt_text_cond_def)

lemma run_find_internal_seq [exec_simps]:
  "ready w \<Longrightarrow> run_state (find_internal_seq (Some i)) w
     = (map_option seq_property_dec (the_only (internal_rows (w_seq_prop w) i)), tick w)"
  by (simp add: find_internal_seq_def seq_prop_find_unique_def seq_property_mgr_find_unique_def seq_property_mgr_find_def
      list_get_only bean_mgr_eqs sql_select_def db_query_collect seq_property_callback_eq Let_def internal_find_cond
      internal_rows_def the_only_map)

lemma run_create_seq_find_unique [exec_simps]:
  "ready w \<Longrightarrow> run_state (create_seq_find_unique (create_seq_bean_create\<lparr>cs_internal_seq_id := Some i\<rparr>)) w
     = (map_option create_seq_dec (the_only (create_rows_of i w)), tick w)"
  by (simp add: create_seq_find_unique_def create_seq_mgr_find_unique_def create_seq_mgr_find_def
      list_get_only bean_mgr_eqs sql_select_def db_query_collect create_seq_callback_eq Let_def create_seq_find_internal
      create_rows_of_def the_only_map)

text \<open>The numbers the other side acknowledged, as they are listed under the internal id or the sequence's own.\<close>

definition acked_list :: "world \<Rightarrow> string \<Rightarrow> cstr" where
  "acked_list w s =
     (case Option.bind (prop_value w s SEQ_PROP_OUTGOING_INTERNAL_SEQUENCE_ID)
             (\<lambda>i. prop_value w i SEQ_PROP_CLIENT_COMPLETED_MESSAGES) of
        Some v \<Rightarrow> Some v
      | None \<Rightarrow> prop_value w s SEQ_PROP_CLIENT_COMPLETED_MESSAGES)"

definition acked_shown :: "world \<Rightarrow> string \<Rightarrow> int list" where
  "acked_shown w s =
     (case acked_list w s of None \<Rightarrow> [] | v \<Rightarrow> map atol (list_elems (get_array_list_from_string v)))"

lemma add_completed_eq:
  "add_completed l r = r\<lparr>rt_completed_msgs := rt_completed_msgs r
     @ (case l of Inl _ \<Rightarrow> [] | Inr l \<Rightarrow> map atol (list_elems l))\<rparr>"
proof -
  have "foldl (\<lambda>r v. seq_report_add_completed_msg (atol v) r) r vs
      = r\<lparr>rt_completed_msgs := rt_completed_msgs r @ map atol vs\<rparr>" for vs
    by (induction vs arbitrary: r) (simp_all add: seq_report_add_completed_msg_def)
  then show ?thesis by (simp add: add_completed_def split: sum.split)
qed

lemma prop_value_ticks [simp]: "prop_value (tick w) = prop_value w" "prop_value (w\<lparr>w_tick := k\<rparr>) = prop_value w"
  by (simp_all add: prop_value_pvals)

lemma run_completed:
  assumes "ready w" "props_ok (w_seq_prop w)"
  shows "\<exists>k. run_state (get_client_completed_msgs_list (Some s)) w
     = ((case acked_list w s of None \<Rightarrow> Inl ERROR_COMPLETED_MSGS_BEAN_IS_NULL
         | Some v \<Rightarrow> Inr (get_array_list_from_string (Some v))), w\<lparr>w_tick := k\<rparr>)"
proof -
  have read: "run_state (seq_prop_retrieve (Some q) (Some n)) (w\<lparr>w_tick := k\<rparr>)
      = (map_option (mk_prop q n) (prop_value w q n), w\<lparr>w_tick := Suc k\<rparr>)" if "colon_free n" for q n k
    using run_retrieve_value[of "w\<lparr>w_tick := k\<rparr>" n q] assms that by (simp add: prop_value_pvals tick_def)
  have "\<exists>k'. run_state (get_client_completed_msgs_list (Some s)) (w\<lparr>w_tick := k\<rparr>)
     = ((case acked_list w s of None \<Rightarrow> Inl ERROR_COMPLETED_MSGS_BEAN_IS_NULL
         | Some v \<Rightarrow> Inr (get_array_list_from_string (Some v))), w\<lparr>w_tick := k'\<rparr>)" for k
  proof (cases "prop_value w s SEQ_PROP_OUTGOING_INTERNAL_SEQUENCE_ID")
    case None
    then show ?thesis
      by (cases "prop_value w s SEQ_PROP_CLIENT_COMPLETED_MESSAGES")
         (auto simp: get_client_completed_msgs_list_def read acked_list_def is_null_def)
  next
    case (Some i)
    have first: "run_state (seq_prop_retrieve (Some s) (Some SEQ_PROP_OUTGOING_INTERNAL_SEQUENCE_ID)) (w\<lparr>w_tick := k\<rparr>)
        = (Some (mk_prop s SEQ_PROP_OUTGOING_INTERNAL_SEQUENCE_ID i), w\<lparr>w_tick := Suc k\<rparr>)"
      using Some read by simp
    show ?thesis
    proof (cases "prop_value w i SEQ_PROP_CLIENT_COMPLETED_MESSAGES")
      case None
      then show ?thesis using Some
        by (cases "prop_value w s SEQ_PROP_CLIENT_COMPLETED_MESSAGES")
           (simp_all add: get_client_completed_msgs_list_def first read acked_list_def is_null_def, blast+)
    next
      case (Some v)
      with \<open>prop_value w s SEQ_PROP_OUTGOING_INTERNAL_SEQUENCE_ID = Some i\<close> show ?thesis
        by (simp add: get_client_completed_msgs_list_def first read acked_list_def is_null_def) blast
    qed
  qed
  from this[of "w_tick w"] show ?thesis by simp
qed

lemma run_fill_outgoing:
  assumes "ready w" "props_ok (w_seq_prop w)"
  shows "\<exists>k. run_state (fill_outgoing_seq_info r (Some s)) w
     = (r\<lparr>rt_seq_id := Some s, rt_completed_msgs := rt_completed_msgs r @ acked_shown w s\<rparr>, w\<lparr>w_tick := k\<rparr>)"
  using run_completed[OF assms, of s]
  by (auto simp: fill_outgoing_seq_info_def seq_report_set_seq_id_def add_completed_eq acked_shown_def split: option.split)

text \<open>The state of a sequence in a report, and the report.\<close>

definition marked :: "world \<Rightarrow> string \<Rightarrow> string \<Rightarrow> bool" where
  "marked w i n = (case the_only (internal_rows (w_seq_prop w) i) of
     None \<Rightarrow> False | Some r \<Rightarrow> prop_value w (pr_seq_id r) n = Some AXIS2_VALUE_TRUE)"

definition status_shown :: "world \<Rightarrow> string \<Rightarrow> int" where
  "status_shown w i =
     (if the_only (create_rows_of i w) \<noteq> None then SEQ_STATUS_ESTABLISHED
      else if marked w i SEQ_PROP_SEQ_TERMINATED then SEQ_STATUS_TERMINATED
      else if marked w i SEQ_PROP_SEQ_TIMED_OUT then SEQ_STATUS_UNKNOWN
      else SEQ_STATUS_INITIAL)"

definition seq_id_shown :: "world \<Rightarrow> string \<Rightarrow> cstr" where
  "seq_id_shown w i =
     (case the_only (create_rows_of i w) of
        Some r \<Rightarrow> Some (cr_seq_id r)
      | None \<Rightarrow> if marked w i SEQ_PROP_SEQ_TERMINATED then map_option pr_seq_id (the_only (internal_rows (w_seq_prop w) i)) else None)"

definition report_shown :: "world \<Rightarrow> string \<Rightarrow> seq_report" where
  "report_shown w i =
     \<lparr>rt_seq_status = status_shown w i, rt_seq_direction = SEQ_DIRECTION_OUT, rt_seq_id = seq_id_shown w i,
      rt_internal_seq_id = Some i,
      rt_completed_msgs = (case seq_id_shown w i of None \<Rightarrow> [] | Some s \<Rightarrow> acked_shown w s)\<rparr>"

lemma shown_ticks [simp]:
  "create_rows_of i (w\<lparr>w_tick := k\<rparr>) = create_rows_of i w" "marked (w\<lparr>w_tick := k\<rparr>) i n = marked w i n"
  "acked_shown (w\<lparr>w_tick := k\<rparr>) s = acked_shown w s"
  by (simp_all add: create_rows_of_def marked_def acked_shown_def acked_list_def cong: option.case_cong)

lemma status_shown_tick [simp]: "status_shown (w\<lparr>w_tick := k\<rparr>) i = status_shown w i"
  by (simp add: status_shown_def)

lemma tick_update: "tick w = w\<lparr>w_tick := Suc (w_tick w)\<rparr>"
  by (simp add: tick_def)

lemma run_has_mark:
  assumes "ready w" "props_ok (w_seq_prop w)" "colon_free n"
  shows "\<exists>k. run_state (has_mark n (Some i)) w = (marked w i n, w\<lparr>w_tick := k\<rparr>)"
proof (cases "the_only (internal_rows (w_seq_prop w) i)")
  case None
  then show ?thesis using assms(1)
    by (intro exI[of _ "Suc (w_tick w)"]) (simp add: has_mark_def exec_simps marked_def tick_def)
next
  case (Some r)
  then show ?thesis
    using assms run_retrieve_value[of "tick w" n "pr_seq_id r"]
    by (intro exI[of _ "Suc (Suc (w_tick w))"])
       (simp add: has_mark_def run_find_internal_seq marked_def seq_property_dec_mk prop_value_pvals tick_def
          split: option.split)
qed

lemma run_outgoing_report:
  assumes "ready w" "props_ok (w_seq_prop w)"
  shows "\<exists>k. run_state (get_outgoing_seq_report_with_internal_seq_id (Some i) True) w
     = (Inr (report_shown w i), w\<lparr>w_tick := k\<rparr>)"
proof (cases "the_only (create_rows_of i w)")
  case (Some r)
  have dec: "cs_seq_id (create_seq_dec r) = Some (cr_seq_id r)" by (simp add: create_seq_dec_def create_seq_fill_def)
  obtain k where "run_state (fill_outgoing_seq_info (seq_report_create\<lparr>rt_seq_status := SEQ_STATUS_ESTABLISHED,
      rt_seq_direction := SEQ_DIRECTION_OUT, rt_internal_seq_id := Some i\<rparr>) (Some (cr_seq_id r))) (tick w)
      = (seq_report_create\<lparr>rt_seq_status := SEQ_STATUS_ESTABLISHED, rt_seq_direction := SEQ_DIRECTION_OUT,
           rt_internal_seq_id := Some i, rt_seq_id := Some (cr_seq_id r), rt_completed_msgs := acked_shown w (cr_seq_id r)\<rparr>,
         w\<lparr>w_tick := k\<rparr>)"
    using run_fill_outgoing[of "tick w" "seq_report_create\<lparr>rt_seq_status := SEQ_STATUS_ESTABLISHED,
      rt_seq_direction := SEQ_DIRECTION_OUT, rt_internal_seq_id := Some i\<rparr>" "cr_seq_id r"] assms
    by (auto simp: tick_update seq_report_create_def)
  then show ?thesis using Some dec assms(1)
    by (intro exI[of _ k]) (simp add: get_outgoing_seq_report_with_internal_seq_id_def is_null_def Let_def run_create_seq_find_unique
        seq_report_set_internal_seq_id_def report_shown_def status_shown_def seq_id_shown_def seq_report_create_def)
next
  case None
  let ?r = "seq_report_create\<lparr>rt_seq_direction := SEQ_DIRECTION_OUT, rt_internal_seq_id := Some i\<rparr>"
  obtain k where k: "run_state (is_seq_terminated (Some i)) (tick w) = (marked w i SEQ_PROP_SEQ_TERMINATED, w\<lparr>w_tick := k\<rparr>)"
    using run_has_mark[of "tick w" SEQ_PROP_SEQ_TERMINATED i] assms by (auto simp: tick_update is_seq_terminated_def)
  show ?thesis
  proof (cases "marked w i SEQ_PROP_SEQ_TERMINATED")
    case True
    then obtain r where r: "the_only (internal_rows (w_seq_prop w) i) = Some r" by (auto simp: marked_def split: option.splits)
    obtain k' where "run_state (fill_outgoing_seq_info (?r\<lparr>rt_seq_status := SEQ_STATUS_TERMINATED\<rparr>) (Some (pr_seq_id r))) (w\<lparr>w_tick := Suc k\<rparr>)
        = (?r\<lparr>rt_seq_status := SEQ_STATUS_TERMINATED, rt_seq_id := Some (pr_seq_id r), rt_completed_msgs := acked_shown w (pr_seq_id r)\<rparr>,
           w\<lparr>w_tick := k'\<rparr>)"
      using run_fill_outgoing[of "w\<lparr>w_tick := Suc k\<rparr>" "?r\<lparr>rt_seq_status := SEQ_STATUS_TERMINATED\<rparr>" "pr_seq_id r"] assms
      by (auto simp: seq_report_create_def)
    then show ?thesis using None True k r assms(1)
      by (intro exI[of _ k'])
         (simp add: get_outgoing_seq_report_with_internal_seq_id_def is_null_def Let_def run_create_seq_find_unique
          seq_report_set_internal_seq_id_def fill_terminated_outgoing_seq_info_def Let_def run_find_internal_seq tick_update
          seq_property_dec_mk report_shown_def status_shown_def seq_id_shown_def seq_report_create_def)
  next
    case False
    obtain k' where "run_state (is_seq_timedout (Some i)) (w\<lparr>w_tick := k\<rparr>) = (marked w i SEQ_PROP_SEQ_TIMED_OUT, w\<lparr>w_tick := k'\<rparr>)"
      using run_has_mark[of "w\<lparr>w_tick := k\<rparr>" SEQ_PROP_SEQ_TIMED_OUT i] assms by (auto simp: is_seq_timedout_def)
    then show ?thesis using None False k assms(1)
      by (intro exI[of _ k'])
         (simp add: get_outgoing_seq_report_with_internal_seq_id_def is_null_def Let_def run_create_seq_find_unique
          seq_report_set_internal_seq_id_def report_shown_def status_shown_def seq_id_shown_def seq_report_create_def)
  qed
qed

text \<open>C22: a report on an outgoing sequence is decided by the request to create it and by the marks under its own
  id; it lists the numbers that were acknowledged, and it never says that the sequence timed out.\<close>

theorem outgoing_report_decides:
  assumes "ready w" "props_ok (w_seq_prop w)"
  shows "\<exists>r u. run_state (get_outgoing_seq_report_with_internal_seq_id (Some i) True) w = (Inr r, u)
     \<and> rt_seq_status r = (if \<exists>row. create_rows_of i w = [row] then SEQ_STATUS_ESTABLISHED
         else if marked w i SEQ_PROP_SEQ_TERMINATED then SEQ_STATUS_TERMINATED
         else if marked w i SEQ_PROP_SEQ_TIMED_OUT then SEQ_STATUS_UNKNOWN else SEQ_STATUS_INITIAL)
     \<and> rt_seq_id r = seq_id_shown w i
     \<and> rt_completed_msgs r = (case seq_id_shown w i of None \<Rightarrow> [] | Some s \<Rightarrow> acked_shown w s)
     \<and> rt_seq_status r \<noteq> SEQ_STATUS_TIMED_OUT"
proof -
  obtain k where "run_state (get_outgoing_seq_report_with_internal_seq_id (Some i) True) w = (Inr (report_shown w i), w\<lparr>w_tick := k\<rparr>)"
    using run_outgoing_report[OF assms] by blast
  moreover have "the_only (create_rows_of i w) \<noteq> None \<longleftrightarrow> (\<exists>row. create_rows_of i w = [row])"
    by (auto simp: the_only_def split: list.splits)
  ultimately show ?thesis by (simp add: report_shown_def status_shown_def)
qed

theorem outgoing_report_decides_witness:
  "\<exists>r u. run_state (get_outgoing_seq_report_with_internal_seq_id (Some ''i'') True) idle_world = (Inr r, u)
     \<and> rt_seq_status r = SEQ_STATUS_INITIAL"
proof -
  have "w_seq_prop idle_world = []" "w_create_seq idle_world = []" by (simp_all add: idle_world_def)
  then show ?thesis
    using outgoing_report_decides[of idle_world "''i''"] ready_idle
    by (auto simp: props_ok_def create_rows_of_def marked_def internal_rows_def)
qed

section \<open>What cleaning leaves of the rows that name a sequence\<close>

abbreviation INTERNAL :: string where
  "INTERNAL \<equiv> SEQ_PROP_OUTGOING_INTERNAL_SEQUENCE_ID"

lemma internal_stays: "\<not> is_property_deletable INTERNAL" "\<not> carried_over INTERNAL"
  by (simp_all add: is_property_deletable_def carried_over_def prop_names strcasecmp_eq_def to_lower_def)

lemma internal_rows_del:
  assumes "props_ok t" "colon_free n" "n \<noteq> INTERNAL"
  shows "internal_rows (prop_del (prop_id s n) t) i = internal_rows t i"
proof -
  have "pr_id r \<noteq> prop_id s n" if "r \<in> set t" "pr_name r = INTERNAL" for r
    using that assms prop_id_inject[of "pr_name r" n "pr_seq_id r" s] by (auto simp: props_ok_def)
  then show ?thesis unfolding internal_rows_def prop_del_def filter_filter by (intro filter_cong) auto
qed

lemma internal_rows_snoc:
  "internal_rows (t @ [seq_property_row_of (mk_prop s n v)]) i
     = internal_rows t i @ (if n = INTERNAL \<and> v = i then [seq_property_row_of (mk_prop s n v)] else [])"
  by (simp add: internal_rows_def seq_property_row_of_def mk_prop_def sprintf_s_def)

lemma internal_rows_clean_row:
  assumes "props_ok t" "colon_free (pr_name r)"
  shows "props_ok (clean_row rms r t) \<and> internal_rows (clean_row rms r t) i = internal_rows t i"
proof -
  have other: "pr_name r \<noteq> INTERNAL" if "carried_over (pr_name r) \<or> is_property_deletable (pr_name r)"
    using that internal_stays by metis
  have "props_ok (carry_row rms r t) \<and> internal_rows (carry_row rms r t) i = internal_rows t i"
    using assms other
    by (cases rms; cases "carried_over (pr_name r)") (simp_all add: carry_row_def internal_rows_del internal_rows_snoc)
  then show ?thesis using assms other
    by (cases "is_property_deletable (pr_name r)") (simp_all add: clean_row_def delete_row_def internal_rows_del)
qed

lemma internal_rows_fold_clean:
  "props_ok t \<Longrightarrow> \<forall>r \<in> set rs. colon_free (pr_name r) \<Longrightarrow>
   props_ok (fold (clean_row rms) rs t) \<and> internal_rows (fold (clean_row rms) rs t) i = internal_rows t i"
proof (induction rs arbitrary: t)
  case (Cons r rs)
  then show ?case using internal_rows_clean_row[OF Cons.prems(1), of r rms i] by simp
qed simp

section \<open>Waiting\<close>

text \<open>The service client that waits for a sequence, and the report it gets.\<close>

definition client_of :: "svc_client \<Rightarrow> string \<Rightarrow> bool" where
  "client_of c i \<longleftrightarrow> sl_has_svc_ctx c \<and>
     (case sl_options c of
        None \<Rightarrow> False
      | Some options \<Rightarrow>
          (case (co_to options, property_get_value (co_seq_key options)) of
             (Some to, Some key) \<Rightarrow> get_client_internal_sequence_id to key = Some i
           | _ \<Rightarrow> False))"

lemma run_report_with_client:
  assumes "ready w" "props_ok (w_seq_prop w)" "client_of c i"
  shows "\<exists>k. run_state (get_outgoing_seq_report_with_svc_client (Some c)) w = (Some (Inr (report_shown w i)), w\<lparr>w_tick := k\<rparr>)"
  using assms(3) run_outgoing_report[OF assms(1,2), of i]
  by (auto simp: client_of_def get_outgoing_seq_report_with_svc_client_def split: option.splits)

text \<open>Nothing else changes the tables.\<close>

definition alone :: "world \<Rightarrow> bool" where
  "alone w \<longleftrightarrow> w_others w = (\<lambda>k ts. ts)"

lemma alone_sleep: "alone w \<Longrightarrow> run_state (axis2_sleep n) w = ((), tick w)"
  by (rule sleep_alone) (simp add: alone_def)

lemma alone_tick [simp]: "alone (w\<lparr>w_tick := k\<rparr>) = alone w" "alone (tick w) = alone w"
  by (simp_all add: alone_def)

lemma waiting_turn:
  assumes "ready w" "props_ok (w_seq_prop w)" "client_of c i" "alone w"
  shows "\<exists>k. run_state (wait_until_completed (Suc turns) (Some c) (- 1) start) w =
     (if status_shown w i = SEQ_STATUS_TERMINATED then (Some (Some AXIS2_SUCCESS), w\<lparr>w_tick := k\<rparr>)
      else run_state (wait_until_completed turns (Some c) (- 1) start) (w\<lparr>w_tick := k\<rparr>))"
proof -
  obtain k where k: "run_state (get_outgoing_seq_report_with_svc_client (Some c)) (tick w)
      = (Some (Inr (report_shown (tick w) i)), w\<lparr>w_tick := k\<rparr>)"
    using run_report_with_client[of "tick w" c i] assms by (auto simp: tick_update)
  moreover have "rt_seq_status (report_shown (tick w) i) = status_shown w i"
    by (simp add: report_shown_def tick_update)
  moreover have "status_shown w i \<noteq> SEQ_STATUS_TIMED_OUT" by (simp add: status_shown_def)
  ultimately show ?thesis using alone_sleep[OF assms(4), of 0]
    by (intro exI[of _ k]) simp
qed

lemma waiting_goes_on:
  assumes "ready w" "props_ok (w_seq_prop w)" "client_of c i" "alone w" "status_shown w i \<noteq> SEQ_STATUS_TERMINATED"
  shows "fst (run_state (wait_until_completed turns (Some c) (- 1) start) w) = None"
  using assms
proof (induction turns arbitrary: w)
  case (Suc turns)
  then obtain k where k: "run_state (wait_until_completed (Suc turns) (Some c) (- 1) start) w =
      run_state (wait_until_completed turns (Some c) (- 1) start) (w\<lparr>w_tick := k\<rparr>)"
    using waiting_turn[OF Suc.prems(1-4), of turns start] by auto
  show ?case unfolding k using Suc.prems by (intro Suc.IH) simp_all
qed simp

lemma run_waiting:
  assumes "ready w" "props_ok (w_seq_prop w)" "client_of c i" "alone w"
  shows "\<exists>r. fst (run_state (wait_until_seq_completed_with_svc_client turns (Some c)) w) = r
     \<and> (status_shown w i \<noteq> SEQ_STATUS_TERMINATED \<longrightarrow> r = None)
     \<and> (status_shown w i = SEQ_STATUS_TERMINATED \<and> 0 < turns \<longrightarrow> r = Some (Some (Inr AXIS2_SUCCESS)))"
proof -
  obtain k where k: "run_state (get_outgoing_seq_report_with_svc_client (Some c)) (tick w)
      = (Some (Inr (report_shown (tick w) i)), w\<lparr>w_tick := k\<rparr>)"
    using run_report_with_client[of "tick w" c i] assms by (auto simp: tick_update)
  let ?go = "run_state (wait_until_completed turns (Some c) (- 1) (w_clock w (w_tick w))) (w\<lparr>w_tick := k\<rparr>)"
  have "fst (run_state (wait_until_seq_completed_with_svc_client turns (Some c)) w) = map_option (map_option Inr) (fst ?go)"
    using k by (simp add: wait_until_seq_completed_with_svc_client_def exec_simps
        wait_until_seq_completed_with_svc_client_and_max_waiting_time_def split: prod.split)
  moreover have "fst ?go = None" if "status_shown w i \<noteq> SEQ_STATUS_TERMINATED"
    using waiting_goes_on[of "w\<lparr>w_tick := k\<rparr>" c i] assms that by simp
  moreover have "fst ?go = Some (Some AXIS2_SUCCESS)" if t: "status_shown w i = SEQ_STATUS_TERMINATED" "0 < turns"
  proof -
    obtain n where n: "turns = Suc n" using t(2) by (cases turns) auto
    show ?thesis using waiting_turn[of "w\<lparr>w_tick := k\<rparr>" c i n "w_clock w (w_tick w)"] assms t unfolding n by auto
  qed
  ultimately show ?thesis by auto
qed

text \<open>An outgoing sequence whose internal id and whose own id are recorded for each other, once.\<close>

definition named_each_other :: "world \<Rightarrow> string \<Rightarrow> string \<Rightarrow> bool" where
  "named_each_other w i s \<longleftrightarrow> prop_value w i SEQ_PROP_OUTGOING_SEQUENCE_ID = Some s \<and> s \<noteq> i
     \<and> (\<exists>r. internal_rows (w_seq_prop w) i = [r] \<and> pr_seq_id r = s)"

text \<open>Cleaning leaves the row that names the sequence, and no request to create it.\<close>

lemma cleaned_for_report:
  assumes "ready w" "sender_ok (w_sender w)" "create_seq_ok (w_create_seq w)" "props_ok (w_seq_prop w)"
    "prop_value w i SEQ_PROP_OUTGOING_SEQUENCE_ID = Some s" "s \<noteq> i" "alone w"
  shows "\<exists>v. run_state (clean_sending_side_data (Some i)) w = (AXIS2_SUCCESS, v) \<and> ready v \<and> alone v
     \<and> props_ok (w_seq_prop v) \<and> create_rows_of i v = [] \<and> internal_rows (w_seq_prop v) i = internal_rows (w_seq_prop w) i
     \<and> prop_value v s SEQ_PROP_SEQ_TERMINATED
         = (case prop_value w i SEQ_PROP_SEQ_TERMINATED of None \<Rightarrow> prop_value w s SEQ_PROP_SEQ_TERMINATED | Some m \<Rightarrow> Some m)"
proof -
  have rows: "\<forall>r \<in> set (prop_rows_of i w). colon_free (pr_name r)"
    using assms(4) by (simp add: prop_rows_of_def props_ok_def)
  obtain k where k: "run_state (clean_sending_side_data (Some i)) w = (AXIS2_SUCCESS,
     w\<lparr>w_sender := filter (\<lambda>r. sr_internal_seq_id r \<noteq> i) (w_sender w),
       w_create_seq := filter (\<lambda>r. cr_internal_seq_id r \<noteq> i) (w_create_seq w),
       w_msg := filter (\<lambda>r. mr_stored_key r \<notin> freed_keys i w) (w_msg w),
       w_seq_prop := fold (clean_row (Some s)) (prop_rows_of i w) (w_seq_prop w), w_tick := k\<rparr>)"
    using run_clean_sending_side[OF assms(1-3) assms(5)[symmetric]] by blast
  have "pvals (fold (clean_row (Some s)) (prop_rows_of i w) (w_seq_prop w)) s SEQ_PROP_SEQ_TERMINATED
      = (case prop_value w i SEQ_PROP_SEQ_TERMINATED of None \<Rightarrow> prop_value w s SEQ_PROP_SEQ_TERMINATED | Some m \<Rightarrow> Some m)"
    using pvals_clean_all[OF assms(4), of SEQ_PROP_SEQ_TERMINATED "Some s" i s] assms(6)
    by (auto simp: prop_rows_of_def cleaned_props_def carried_over_def prop_value_pvals split: option.split)
  then show ?thesis
    using assms(1,7) internal_rows_fold_clean[OF assms(4) rows, of "Some s" i] unfolding k
    by (simp add: alone_def create_rows_of_def prop_value_pvals)
qed

text \<open>A sequence to \<open>to\<close> with the key \<open>key\<close>, named \<open>rms\<close> by the other side, and its client.\<close>

definition sample_seq :: string where
  "sample_seq = INTERNAL_SEQ_PREFIX @ ''::to:key''"

definition waiting_client :: svc_client where
  "waiting_client = \<lparr>sl_options = Some \<lparr>co_to = Some (Some '':to''), co_seq_key = Some (Property (Some ''key'')),
     co_rm_spec_version = Some (Property (Some SPEC_VERSION_1_1)), co_offered_seq_id = None, co_dummy_message = None,
     co_action = Some ''urn:ping'', co_soap_version_uri = Some ''soap12''\<rparr>, sl_has_svc_ctx = True\<rparr>"

definition naming :: "string \<Rightarrow> string \<Rightarrow> seq_property_table \<Rightarrow> seq_property_table" where
  "naming i s t = (t @ [seq_property_row_of (mk_prop i SEQ_PROP_OUTGOING_SEQUENCE_ID s)]) @ [seq_property_row_of (mk_prop s INTERNAL i)]"

lemma naming_facts:
  "colon_free n \<Longrightarrow> pvals (naming i s t) q n =
     (if q = s \<and> n = INTERNAL then Some i else if q = i \<and> n = SEQ_PROP_OUTGOING_SEQUENCE_ID then Some s else pvals t q n)"
  "internal_rows (naming i s t) i = internal_rows t i @ [seq_property_row_of (mk_prop s INTERNAL i)]"
  "props_ok t \<Longrightarrow> props_ok (naming i s t)"
proof -
  have differ: "SEQ_PROP_OUTGOING_SEQUENCE_ID \<noteq> INTERNAL" by (simp add: prop_names)
  show "colon_free n \<Longrightarrow> pvals (naming i s t) q n =
     (if q = s \<and> n = INTERNAL then Some i else if q = i \<and> n = SEQ_PROP_OUTGOING_SEQUENCE_ID then Some s else pvals t q n)"
    unfolding naming_def by (auto simp: pvals_simps simp del: append_assoc)
  show "internal_rows (naming i s t) i = internal_rows t i @ [seq_property_row_of (mk_prop s INTERNAL i)]"
    using differ unfolding naming_def by (simp add: internal_rows_snoc del: append_assoc)
  show "props_ok t \<Longrightarrow> props_ok (naming i s t)"
    unfolding naming_def by (simp del: append_assoc)
qed

definition named_world :: world where
  "named_world = idle_world\<lparr>w_seq_prop := naming sample_seq ''rms'' []\<rparr>"

lemma named_world_props:
  "colon_free n \<Longrightarrow> prop_value named_world q n =
     (if q = ''rms'' \<and> n = INTERNAL then Some sample_seq
      else if q = sample_seq \<and> n = SEQ_PROP_OUTGOING_SEQUENCE_ID then Some ''rms'' else None)"
  using naming_facts(1)[of n sample_seq "''rms''" "[]" q]
  by (simp add: prop_value_pvals named_world_def) (simp add: pvals_def seq_property_look_def bean_value_def)

lemma named_world_facts:
  "ready named_world" "sender_ok (w_sender named_world)" "create_seq_ok (w_create_seq named_world)"
  "props_ok (w_seq_prop named_world)" "named_each_other named_world sample_seq ''rms''"
  "client_of waiting_client sample_seq" "alone named_world"
proof -
  have differ: "SEQ_PROP_OUTGOING_SEQUENCE_ID \<noteq> INTERNAL" "''rms'' \<noteq> sample_seq"
    by (simp_all add: prop_names sample_seq_def INTERNAL_SEQ_PREFIX_def)
  have "internal_rows (w_seq_prop named_world) sample_seq = [seq_property_row_of (mk_prop ''rms'' INTERNAL sample_seq)]"
    using naming_facts(2)[of sample_seq "''rms''" "[]"] by (simp add: named_world_def internal_rows_def)
  then show "named_each_other named_world sample_seq ''rms''"
    using differ by (simp add: named_each_other_def named_world_props seq_property_row_of_def mk_prop_def sprintf_s_def)
  show "props_ok (w_seq_prop named_world)"
    using naming_facts(3)[of "[]" sample_seq "''rms''"] by (simp add: named_world_def props_ok_def)
  show "client_of waiting_client sample_seq"
    by (simp add: client_of_def waiting_client_def property_get_value_def get_client_internal_sequence_id_def sample_seq_def)
  show "ready named_world" by (simp add: named_world_def)
qed (simp_all add: named_world_def pk_ok_def alone_def idle_world_def)

text \<open>C15: when a sequence was terminated, the client that waits for it gets
  the answer in its first turn.\<close>

theorem waiting_ends_with_termination:
  assumes "ready w" "sender_ok (w_sender w)" "create_seq_ok (w_create_seq w)" "props_ok (w_seq_prop w)"
    and "named_each_other w i s" "client_of c i" "alone w" "0 < turns"
  shows "fst (run_state (wait_until_seq_completed_with_svc_client turns (Some c))
           (snd (run_state (terminate_sending_side (Some i)) w))) = Some (Some (Inr AXIS2_SUCCESS))"
proof -
  let ?v = "tick (w\<lparr>w_seq_prop := w_seq_prop w @ [seq_property_row_of (mk_prop i SEQ_PROP_SEQ_TERMINATED AXIS2_VALUE_TRUE)]\<rparr>)"
  have names: "SEQ_PROP_OUTGOING_SEQUENCE_ID \<noteq> SEQ_PROP_SEQ_TERMINATED" "SEQ_PROP_SEQ_TERMINATED \<noteq> INTERNAL"
    by (simp_all add: prop_names)
  have ins: "run_state (seq_prop_insert (seq_property_bean_create_with_data (Some i) (Some SEQ_PROP_SEQ_TERMINATED)
      (Some AXIS2_VALUE_TRUE))) w = (True, ?v)"
    using assms(1) by (simp add: exec_simps seq_property_bean_create_with_data_def mk_prop_def)
  have i: "prop_value ?v i SEQ_PROP_OUTGOING_SEQUENCE_ID = Some s" "s \<noteq> i" "internal_rows (w_seq_prop ?v) i = internal_rows (w_seq_prop w) i"
    "prop_value ?v i SEQ_PROP_SEQ_TERMINATED = Some AXIS2_VALUE_TRUE"
    using assms(5) names by (simp_all add: named_each_other_def prop_value_pvals pvals_simps internal_rows_snoc)
  obtain v where v: "run_state (clean_sending_side_data (Some i)) ?v = (AXIS2_SUCCESS, v)" "ready v" "alone v"
    "props_ok (w_seq_prop v)" "create_rows_of i v = []" "internal_rows (w_seq_prop v) i = internal_rows (w_seq_prop ?v) i"
    "prop_value v s SEQ_PROP_SEQ_TERMINATED = Some AXIS2_VALUE_TRUE"
    using cleaned_for_report[of ?v i s] assms(1-4,7) i by (auto simp: alone_def)
  have "snd (run_state (terminate_sending_side (Some i)) w) = v"
    using ins v(1) by (simp add: terminate_sending_side_def is_null_def)
  moreover have "status_shown v i = SEQ_STATUS_TERMINATED"
    using v(5-7) i(3) assms(5) by (auto simp: status_shown_def marked_def the_only_def named_each_other_def)
  ultimately show ?thesis using run_waiting[OF v(2,4) assms(6) v(3), of turns] assms(8) by simp
qed

theorem waiting_ends_with_termination_witness:
  "fst (run_state (wait_until_seq_completed_with_svc_client 1 (Some waiting_client))
     (snd (run_state (terminate_sending_side (Some sample_seq)) named_world))) = Some (Some (Inr AXIS2_SUCCESS))"
  by (rule waiting_ends_with_termination[OF named_world_facts]) simp

text \<open>C14: when a sequence was timed out, the client that waits for it without a limit never returns, however
  many turns it takes: the mark of the time-out is under the internal id, where the client does not look.\<close>

theorem waiting_ignores_time_out:
  assumes "ready w" "sender_ok (w_sender w)" "create_seq_ok (w_create_seq w)" "props_ok (w_seq_prop w)"
    and "named_each_other w i s" "client_of c i" "alone w"
    and "\<forall>q \<in> {i, s}. prop_value w q SEQ_PROP_SEQ_TERMINATED \<noteq> Some AXIS2_VALUE_TRUE"
  shows "fst (run_state (wait_until_seq_completed_with_svc_client turns (Some c))
           (snd (run_state (time_out_sending_side_seq (Some i)) w))) = None"
proof -
  have names: "SEQ_PROP_SEQ_TIMED_OUT \<noteq> SEQ_PROP_SEQ_TERMINATED" "SEQ_PROP_SEQ_TIMED_OUT \<noteq> INTERNAL"
    by (simp_all add: prop_names)
  obtain v where v: "run_state (clean_sending_side_data (Some i)) w = (AXIS2_SUCCESS, v)" "ready v" "alone v"
    "props_ok (w_seq_prop v)" "create_rows_of i v = []" "internal_rows (w_seq_prop v) i = internal_rows (w_seq_prop w) i"
    "prop_value v s SEQ_PROP_SEQ_TERMINATED \<noteq> Some AXIS2_VALUE_TRUE"
    using cleaned_for_report[of w i s] assms(1-5,7,8) by (auto simp: named_each_other_def split: option.splits)
  let ?u = "tick (v\<lparr>w_seq_prop := w_seq_prop v @ [seq_property_row_of (mk_prop i SEQ_PROP_SEQ_TIMED_OUT AXIS2_VALUE_TRUE)]\<rparr>)"
  have "snd (run_state (time_out_sending_side_seq (Some i)) w) = ?u"
    using v(1,2) by (simp add: time_out_sending_side_seq_def is_null_def exec_simps
        seq_property_bean_create_with_data_def mk_prop_def)
  moreover have u: "ready ?u" "props_ok (w_seq_prop ?u)" "alone ?u" using v(2-4) by (simp_all add: alone_def)
  moreover have "prop_value ?u s SEQ_PROP_SEQ_TERMINATED \<noteq> Some AXIS2_VALUE_TRUE"
    using v(7) names by (simp add: prop_value_pvals pvals_simps)
  then have "status_shown ?u i \<noteq> SEQ_STATUS_TERMINATED"
    using v(5,6) names assms(5)
    by (auto simp: status_shown_def marked_def the_only_def named_each_other_def internal_rows_snoc create_rows_of_def)
  ultimately show ?thesis using run_waiting[OF u(1,2) assms(6) u(3), of turns] by simp
qed


theorem waiting_ignores_time_out_witness:
  "fst (run_state (wait_until_seq_completed_with_svc_client 1000 (Some waiting_client))
     (snd (run_state (time_out_sending_side_seq (Some sample_seq)) named_world))) = None"
proof -
  have "SEQ_PROP_SEQ_TERMINATED \<noteq> INTERNAL" "SEQ_PROP_SEQ_TERMINATED \<noteq> SEQ_PROP_OUTGOING_SEQUENCE_ID"
    by (simp_all add: prop_names)
  then show ?thesis
    by (intro waiting_ignores_time_out[OF named_world_facts]) (simp add: named_world_props)
qed

section \<open>A report before the sequence is created\<close>

lemma run_create_seq_insert:
  "ready w \<Longrightarrow> run_state (create_seq_insert b) w
     = (find_row cr_create_seq_msg_id (w_create_seq w) (sprintf_s (cs_create_seq_msg_id b)) = None,
        tick (w\<lparr>w_create_seq := row_ins cr_create_seq_msg_id (create_seq_row_of b) (w_create_seq w)\<rparr>))"
  by (simp add: create_seq_insert_def create_seq_mgr_insert_def bean_mgr_eqs row_ins_write Let_def create_seq_row_of_def)

text \<open>What is stored of a request to create a sequence: a row without the id, and no property that gives it.\<close>

lemma store_create_seq_state:
  assumes "ready w" "props_ok (w_seq_prop w)" "create_rows_of i w = []"
    "find_row cr_create_seq_msg_id (w_create_seq w) (sprintf_s (om_msg_id msg)) = None"
  shows "\<exists>r v. run_state (store_create_seq m (Some i) msg) w = (r, v) \<and> ready v \<and> props_ok (w_seq_prop v)
     \<and> (\<exists>row. create_rows_of i v = [row] \<and> cr_seq_id row = null_text)
     \<and> prop_value v i SEQ_PROP_OUTGOING_SEQUENCE_ID = prop_value w i SEQ_PROP_OUTGOING_SEQUENCE_ID"
proof -
  have names: "SEQ_PROP_TO_EPR \<noteq> SEQ_PROP_OUTGOING_SEQUENCE_ID" "SEQ_PROP_OFFERED_SEQ \<noteq> SEQ_PROP_OUTGOING_SEQUENCE_ID"
    by (simp_all add: prop_names)
  have rows: "filter (\<lambda>r. cr_internal_seq_id r = i) (w_create_seq w) = []" using assms(3) by (simp add: create_rows_of_def)
  show ?thesis
    using assms(1,2,4) names rows
    by (cases "rm_to m"; cases "om_offer msg")
       (simp_all add: store_create_seq_def exec_simps run_create_seq_insert create_rows_of_def row_ins_def Let_def
          create_seq_bean_create_with_data_def create_seq_row_of_def sprintf_s_def prop_value_pvals pvals_simps
          del: append_assoc)
qed

text \<open>C23: as soon as the request to create a sequence is stored, and before anybody answered it, the
  client's report calls the sequence established and gives \<open>(null)\<close> as its id, while the calls that need the id
  fail because it is not set.\<close>

theorem report_before_creation:
  assumes "ready w" "props_ok (w_seq_prop w)" "create_rows_of i w = []"
    and "find_row cr_create_seq_msg_id (w_create_seq w) (sprintf_s (om_msg_id msg)) = None"
    and "prop_value w i SEQ_PROP_OUTGOING_SEQUENCE_ID = None"
  shows "\<exists>v r. snd (run_state (store_create_seq m (Some i) msg) w) = v
     \<and> fst (run_state (get_outgoing_seq_report_with_internal_seq_id (Some i) True) v) = Inr r
     \<and> rt_seq_status r = SEQ_STATUS_ESTABLISHED \<and> rt_seq_id r = Some ''(null)''
     \<and> fst (run_state (active_seq_id e (Some i)) v) = Inl ERROR_SEQ_ID_BEAN_NOT_SET"
proof -
  obtain q v row where v: "run_state (store_create_seq m (Some i) msg) w = (q, v)" "ready v" "props_ok (w_seq_prop v)"
    "create_rows_of i v = [row]" "cr_seq_id row = null_text" "prop_value v i SEQ_PROP_OUTGOING_SEQUENCE_ID = None"
    using store_create_seq_state[OF assms(1-4), of m] assms(5) by auto
  obtain k where k: "run_state (get_outgoing_seq_report_with_internal_seq_id (Some i) True) v = (Inr (report_shown v i), v\<lparr>w_tick := k\<rparr>)"
    using run_outgoing_report[OF v(2,3)] by blast
  have shown: "rt_seq_status (report_shown v i) = SEQ_STATUS_ESTABLISHED" "rt_seq_id (report_shown v i) = Some ''(null)''"
    using v(4,5) by (simp_all add: report_shown_def status_shown_def seq_id_shown_def the_only_def null_text_def)
  have "fst (run_state (active_seq_id e (Some i)) v) = Inl ERROR_SEQ_ID_BEAN_NOT_SET"
    using k shown(1) run_retrieve_value[of "v\<lparr>w_tick := k\<rparr>" SEQ_PROP_OUTGOING_SEQUENCE_ID i] v(2,3,6)
    by (simp add: active_seq_id_def prop_value_pvals)
  then show ?thesis using v(1) k shown by auto
qed

theorem report_before_creation_witness:
  "\<exists>r. fst (run_state (get_outgoing_seq_report_with_internal_seq_id (Some ''i'') True)
      (snd (run_state (store_create_seq sample_msg (Some ''i'') ((new_out_msg MSG_TYPE_CREATE_SEQ)\<lparr>om_msg_id := Some ''m''\<rparr>)) idle_world)))
      = Inr r \<and> rt_seq_status r = SEQ_STATUS_ESTABLISHED"
proof -
  have "create_rows_of ''i'' idle_world = []" "prop_value idle_world ''i'' SEQ_PROP_OUTGOING_SEQUENCE_ID = None"
    "props_ok (w_seq_prop idle_world)" "find_row cr_create_seq_msg_id (w_create_seq idle_world) ''m'' = None"
    by (simp_all add: create_rows_of_def idle_world_def prop_value_def seq_property_look_def props_ok_def find_row_def)
  then show ?thesis
    using report_before_creation[of idle_world "''i''" "(new_out_msg MSG_TYPE_CREATE_SEQ)\<lparr>om_msg_id := Some ''m''\<rparr>" sample_msg undefined]
      ready_idle
    by (auto simp: sprintf_s_def)
qed

section \<open>The message that the client terminates a sequence with\<close>

text \<open>A new envelope has an empty body.\<close>

definition new_bodies_empty :: "'n client_env \<Rightarrow> bool" where
  "new_bodies_empty ce \<longleftrightarrow> (\<forall>soap11. om_is_element (ce_om ce) (se_body (ce_new_envelope ce soap11))
     \<and> om_elements (ce_om ce) (se_body (ce_new_envelope ce soap11)) = [])"

context om_tree begin

lemma terminate_payload:
  assumes "both_namespaces_supported ns" "wf_terminate_seq ns t" "om_is_element om (se_body env)" "om_elements om (se_body env) = []"
  shows "\<exists>node. om_first_child om (se_body (terminate_seq_to_soap_envelope om t env)) WSRM_TERMINATE_SEQ ns = Some node
     \<and> om_is_element om node \<and> om_name om node = (WSRM_TERMINATE_SEQ, Some ns)
     \<and> fst (terminate_seq_from_om_node om \<lparr>te_identifier = None, te_last_msg_number = None, te_ns = ns\<rparr> node) = terminate_as_read t"
proof -
  obtain node where node: "\<forall>parent. terminate_seq_to_om_node om t parent = (om_add_child om node parent, Om_Success)"
    "om_is_element om node" "om_name om node = (WSRM_TERMINATE_SEQ, Some ns)"
    "fst (terminate_seq_from_om_node om \<lparr>te_identifier = None, te_last_msg_number = None, te_ns = ns\<rparr> node) = terminate_as_read t"
    using terminate_seq_reads_back[OF assms(1,2)] by (auto simp: reads_back_def)
  have "te_ns t = ns" using assms(2) by (simp add: wf_terminate_seq_def)
  moreover have "om_children om (se_body env) WSRM_TERMINATE_SEQ ns = []" using assms(4) by (simp add: children)
  ultimately have "se_body (terminate_seq_to_soap_envelope om t env) = om_add_child om node (se_body env)"
    using node(1) remove_child(3) by (simp add: terminate_seq_to_soap_envelope_def into_body_def)
  then show ?thesis using node(2-4) assms(3,4) by (simp add: first_child children add_child)
qed

end

text \<open>The steps before: the id of the sequence and the number of its last message.\<close>

lemma run_active_seq_id:
  assumes "ready w" "props_ok (w_seq_prop w)" "status_shown w i = SEQ_STATUS_ESTABLISHED"
    "prop_value w i SEQ_PROP_OUTGOING_SEQUENCE_ID = Some s"
  shows "\<exists>k. run_state (active_seq_id e (Some i)) w = (Inr s, w\<lparr>w_tick := k\<rparr>)"
proof -
  obtain k where k: "run_state (get_outgoing_seq_report_with_internal_seq_id (Some i) True) w = (Inr (report_shown w i), w\<lparr>w_tick := k\<rparr>)"
    using run_outgoing_report[OF assms(1,2)] by blast
  then show ?thesis
    using run_retrieve_value[of "w\<lparr>w_tick := k\<rparr>" SEQ_PROP_OUTGOING_SEQUENCE_ID i] assms
    by (intro exI[of _ "Suc k"]) (simp add: active_seq_id_def report_shown_def prop_value_pvals tick_def)
qed

lemma run_last_out_msg_number:
  assumes "ready w" "props_ok (w_seq_prop w)" "both_namespaces_supported ns"
  shows "run_state (last_out_msg_number (Some i) (Some ns)) w
     = (map_option (\<lambda>t. \<lparr>ln_msg_num = atol t, ln_ns = ns\<rparr>) (prop_value w i SEQ_PROP_LAST_OUT_MESSAGE_NUMBER), tick w)"
  using assms run_retrieve_value[of w SEQ_PROP_LAST_OUT_MESSAGE_NUMBER i]
  by (cases "prop_value w i SEQ_PROP_LAST_OUT_MESSAGE_NUMBER")
     (simp_all add: last_out_msg_number_def last_msg_number_create_def create_in_def prop_value_pvals)

lemma versions_supported:
  "get_rm_ns_val (Some v) = Some ns \<Longrightarrow> both_namespaces_supported ns \<and> (\<exists>action. get_terminate_seq_action v = Inr action)"
  by (auto simp: get_rm_ns_val_def both_namespaces_supported_def get_terminate_seq_action_def split: if_splits)

text \<open>The message that is made of them.\<close>

definition terminate_part :: "string \<Rightarrow> string \<Rightarrow> cstr \<Rightarrow> terminate_seq_t" where
  "terminate_part ns s l = \<lparr>te_identifier = Some \<lparr>idf_str_id = Some s, idf_ns = ns\<rparr>,
     te_last_msg_number = map_option (\<lambda>t. \<lparr>ln_msg_num = atol t, ln_ns = ns\<rparr>) l, te_ns = ns\<rparr>"

lemma run_configure_terminate:
  assumes "ready w" "props_ok (w_seq_prop w)" "client_of c i" "sl_options c = Some options"
    and "status_shown w i = SEQ_STATUS_ESTABLISHED" "prop_value w i SEQ_PROP_OUTGOING_SEQUENCE_ID = Some s"
    and "spec_version_of get_default_spec_version options = Some v" "get_rm_ns_val (Some v) = Some ns"
    and "get_terminate_seq_action v = Inr action"
  shows "\<exists>k. run_state (configure_terminate_seq ce options) w
     = (Some (options\<lparr>co_action := Some action\<rparr>, Inr (terminate_seq_to_soap_envelope (ce_om ce)
          (terminate_part ns s (prop_value w i SEQ_PROP_LAST_OUT_MESSAGE_NUMBER))
          (ce_new_envelope ce (co_soap_version_uri options \<noteq> Some (ce_soap12_uri ce))))), w\<lparr>w_tick := k\<rparr>)"
proof -
  obtain to key where c: "co_to options = Some to" "property_get_value (co_seq_key options) = Some key"
    "get_client_internal_sequence_id to key = Some i"
    using assms(3,4) by (auto simp: client_of_def split: option.splits)
  then have key: "value_if_there (co_seq_key options) = Some key"
    by (auto simp: value_if_there_def property_get_value_def split: option.splits)
  obtain k where k: "run_state (active_seq_id ERROR_CANNOT_FIND_SEQ_REPORT_FOR_GIVEN_SEQ_ID (Some i)) w = (Inr s, w\<lparr>w_tick := k\<rparr>)"
    using run_active_seq_id[OF assms(1,2,5,6)] by blast
  have ns: "both_namespaces_supported ns" using versions_supported assms(8) by blast
  have l: "run_state (last_out_msg_number (Some i) (Some ns)) (w\<lparr>w_tick := k\<rparr>)
      = (map_option (\<lambda>t. \<lparr>ln_msg_num = atol t, ln_ns = ns\<rparr>) (prop_value w i SEQ_PROP_LAST_OUT_MESSAGE_NUMBER), w\<lparr>w_tick := Suc k\<rparr>)"
    using run_last_out_msg_number[of "w\<lparr>w_tick := k\<rparr>" ns i] assms(1,2) ns by (simp add: tick_def)
  show ?thesis
    using c key k l assms(7-9) ns
    by (intro exI[of _ "Suc k"])
       (cases "prop_value w i SEQ_PROP_LAST_OUT_MESSAGE_NUMBER";
        simp add: configure_terminate_seq_def Let_def terminate_seq_create_def identifier_create_def create_in_def of_sum_def
          terminate_part_def)
qed

text \<open>C13: the client's call that terminates an established sequence hands Axis2 an envelope whose body is one
  element, in which the receiver reads the id of the sequence and the number of its last message; and it leaves the
  action of this message in the options of the client, whatever the action was before.\<close>

theorem client_terminates:
  assumes om: "om_tree (ce_om ce)" and new: "new_bodies_empty ce" "ce_op_client_created ce"
    and w: "ready w" "props_ok (w_seq_prop w)" "status_shown w i = SEQ_STATUS_ESTABLISHED"
      "prop_value w i SEQ_PROP_OUTGOING_SEQUENCE_ID = Some s" "s \<noteq> ''''"
    and l: "\<forall>t. prop_value w i SEQ_PROP_LAST_OUT_MESSAGE_NUMBER = Some t \<longrightarrow> 0 < atol t"
    and c: "client_of c i" "sl_options c = Some options" "co_soap_version_uri options \<noteq> None"
    and v: "spec_version_of get_default_spec_version options = Some v" "get_rm_ns_val (Some v) = Some ns"
  shows "\<exists>envelope node action sent u. get_terminate_seq_action v = Inr action
     \<and> run_state (terminate_seq_with_svc_client ce (Some c) callback) w
         = (Some (Some (c\<lparr>sl_options := Some (options\<lparr>co_action := Some action\<rparr>)\<rparr>),
              [Op_Client_Execute envelope (options\<lparr>co_action := Some action\<rparr>) (\<not> callback)],
              if sent then Inr AXIS2_SUCCESS else Inl ERROR_COULD_NOT_SEND_TERMINATE_MESSAGE), u)
     \<and> om_elements (ce_om ce) (se_body envelope) = [node] \<and> om_name (ce_om ce) node = (WSRM_TERMINATE_SEQ, Some ns)
     \<and> fst (terminate_seq_from_om_node (ce_om ce) \<lparr>te_identifier = None, te_last_msg_number = None, te_ns = ns\<rparr> node)
         = \<lparr>te_identifier = Some \<lparr>idf_str_id = Some s, idf_ns = ns\<rparr>,
            te_last_msg_number = Some \<lparr>ln_msg_num = (case prop_value w i SEQ_PROP_LAST_OUT_MESSAGE_NUMBER of None \<Rightarrow> 0 | Some t \<Rightarrow> atol t),
              ln_ns = ns\<rparr>, te_ns = ns\<rparr>"
proof -
  let ?l = "prop_value w i SEQ_PROP_LAST_OUT_MESSAGE_NUMBER" and ?om = "ce_om ce"
  let ?new = "ce_new_envelope ce (co_soap_version_uri options \<noteq> Some (ce_soap12_uri ce))"
  obtain action where a: "get_terminate_seq_action v = Inr action" and ns: "both_namespaces_supported ns"
    using versions_supported[OF v(2)] by blast
  obtain k where k: "run_state (configure_terminate_seq ce options) w = (Some (options\<lparr>co_action := Some action\<rparr>,
      Inr (terminate_seq_to_soap_envelope ?om (terminate_part ns s ?l) ?new)), w\<lparr>w_tick := k\<rparr>)"
    using run_configure_terminate[OF w(1,2) c(1,2) w(3,4) v a] by blast
  have "wf_terminate_seq ns (terminate_part ns s ?l)"
    using w(5) l by (cases ?l) (simp_all add: wf_terminate_seq_def terminate_part_def wf_identifier_def no_text_def wf_last_number_def)
  then obtain node where node: "om_first_child ?om (se_body (terminate_seq_to_soap_envelope ?om (terminate_part ns s ?l) ?new))
      WSRM_TERMINATE_SEQ ns = Some node" "om_is_element ?om node" "om_name ?om node = (WSRM_TERMINATE_SEQ, Some ns)"
    "fst (terminate_seq_from_om_node ?om \<lparr>te_identifier = None, te_last_msg_number = None, te_ns = ns\<rparr> node)
      = terminate_as_read (terminate_part ns s ?l)"
    using om_tree.terminate_payload[OF om ns, of "terminate_part ns s ?l" ?new] new(1) by (auto simp: new_bodies_empty_def)
  obtain uri where uri: "co_soap_version_uri options = Some uri" using c(3) by blast
  let ?empty = "ce_new_envelope ce (uri = ce_soap11_uri ce)"
  let ?sent = "?empty\<lparr>se_body := om_add_child ?om node (se_body ?empty)\<rparr>"
  have "sl_has_svc_ctx c" using c(1) by (simp add: client_of_def)
  then have "\<exists>u. run_state (terminate_seq_with_svc_client ce (Some c) callback) w
     = (Some (Some (c\<lparr>sl_options := Some (options\<lparr>co_action := Some action\<rparr>)\<rparr>),
          [Op_Client_Execute ?sent (options\<lparr>co_action := Some action\<rparr>) (\<not> callback)],
          if w_engine w k then Inr AXIS2_SUCCESS else Inl ERROR_COULD_NOT_SEND_TERMINATE_MESSAGE), u)"
    using c(2) v a k node(1) uri new(2)
    by (simp add: terminate_seq_with_svc_client_def first_in_body_def fire_and_forget_def fill_soap_envelope_def
        exec_simps is_null_simps Let_def)
  moreover have "om_elements ?om (se_body ?sent) = [node]"
    using om_tree.add_child(4)[OF om] new(1) node(2) by (simp add: new_bodies_empty_def)
  moreover have "terminate_as_read (terminate_part ns s ?l) = \<lparr>te_identifier = Some \<lparr>idf_str_id = Some s, idf_ns = ns\<rparr>,
      te_last_msg_number = Some \<lparr>ln_msg_num = (case ?l of None \<Rightarrow> 0 | Some t \<Rightarrow> atol t), ln_ns = ns\<rparr>, te_ns = ns\<rparr>"
    by (cases ?l) (simp_all add: terminate_as_read_def terminate_part_def with_number_def)
  ultimately show ?thesis using a node(3,4) by metis
qed

text \<open>XML trees as the object model, and a world with a request to create the sequence that was answered.\<close>

definition xml_client :: "xml client_env" where
  "xml_client = \<lparr>ce_om = om_of_xml, ce_new_envelope = (\<lambda>_. \<lparr>se_header = None, se_body = Element ''Body'' None None [] []\<rparr>),
     ce_soap11_uri = ''soap11'', ce_soap12_uri = ''soap12'', ce_op_client_created = True\<rparr>"

definition created_world :: world where
  "created_world = named_world\<lparr>w_create_seq := [\<lparr>cr_create_seq_msg_id = ''m'', cr_internal_seq_id = sample_seq,
     cr_seq_id = ''rms'', cr_create_seq_msg_store_key = ''k'', cr_ref_msg_store_key = ''k''\<rparr>]\<rparr>"

lemma created_world_facts:
  "ready created_world" "props_ok (w_seq_prop created_world)" "status_shown created_world sample_seq = SEQ_STATUS_ESTABLISHED"
  "prop_value created_world sample_seq SEQ_PROP_OUTGOING_SEQUENCE_ID = Some ''rms''"
  "prop_value created_world sample_seq SEQ_PROP_LAST_OUT_MESSAGE_NUMBER = None"
proof -
  have same: "prop_value created_world = prop_value named_world" by (simp add: created_world_def prop_value_pvals)
  have differ: "SEQ_PROP_LAST_OUT_MESSAGE_NUMBER \<noteq> INTERNAL" "SEQ_PROP_LAST_OUT_MESSAGE_NUMBER \<noteq> SEQ_PROP_OUTGOING_SEQUENCE_ID"
    by (simp_all add: prop_names)
  show "prop_value created_world sample_seq SEQ_PROP_LAST_OUT_MESSAGE_NUMBER = None"
    using differ by (simp add: same named_world_props)
  show "prop_value created_world sample_seq SEQ_PROP_OUTGOING_SEQUENCE_ID = Some ''rms''"
    using named_world_facts(5) by (simp add: same named_each_other_def)
  show "ready created_world" "props_ok (w_seq_prop created_world)"
    using named_world_facts(1,4) by (simp_all add: created_world_def)
  show "status_shown created_world sample_seq = SEQ_STATUS_ESTABLISHED"
    by (simp add: status_shown_def create_rows_of_def created_world_def the_only_def)
qed

theorem client_terminates_witness:
  "\<exists>envelope sent u. run_state (terminate_seq_with_svc_client xml_client (Some waiting_client) False) created_world
     = (Some (Some (waiting_client\<lparr>sl_options := Some ((the (sl_options waiting_client))
           \<lparr>co_action := Some (action_2007_02 ''TerminateSequence'')\<rparr>)\<rparr>),
          [Op_Client_Execute envelope ((the (sl_options waiting_client))\<lparr>co_action := Some (action_2007_02 ''TerminateSequence'')\<rparr>) True],
          if sent then Inr AXIS2_SUCCESS else Inl ERROR_COULD_NOT_SEND_TERMINATE_MESSAGE), u)"
proof -
  let ?options = "the (sl_options waiting_client)"
  have om: "om_tree (ce_om xml_client)" "new_bodies_empty xml_client" "ce_op_client_created xml_client"
    using xml.om_tree_axioms by (simp_all add: xml_client_def new_bodies_empty_def om_of_xml_def)
  have c: "sl_options waiting_client = Some ?options" "co_soap_version_uri ?options \<noteq> None"
    "spec_version_of get_default_spec_version ?options = Some SPEC_VERSION_1_1"
    "get_rm_ns_val (Some SPEC_VERSION_1_1) = Some SPEC_2007_02_NS_URI"
    "get_terminate_seq_action SPEC_VERSION_1_1 = Inr (action_2007_02 ''TerminateSequence'')"
    by (simp_all add: waiting_client_def spec_version_of_def value_if_there_def property_get_value_def get_rm_ns_val_def
        get_terminate_seq_action_def)
  have s: "''rms'' \<noteq> ''''"
    "\<forall>t. prop_value created_world sample_seq SEQ_PROP_LAST_OUT_MESSAGE_NUMBER = Some t \<longrightarrow> 0 < atol t"
    using created_world_facts(5) by simp_all
  obtain envelope action sent u where run: "get_terminate_seq_action SPEC_VERSION_1_1 = Inr action"
    "run_state (terminate_seq_with_svc_client xml_client (Some waiting_client) False) created_world
     = (Some (Some (waiting_client\<lparr>sl_options := Some (?options\<lparr>co_action := Some action\<rparr>)\<rparr>),
          [Op_Client_Execute envelope (?options\<lparr>co_action := Some action\<rparr>) (\<not> False)],
          if sent then Inr AXIS2_SUCCESS else Inl ERROR_COULD_NOT_SEND_TERMINATE_MESSAGE), u)"
    using client_terminates[OF om created_world_facts(1-4) s named_world_facts(6) c(1-4), of False] by blast
  have "action = action_2007_02 ''TerminateSequence''" using run(1) c(5) by simp
  then show ?thesis using run(2) unfolding not_False_eq_True by blast
qed

section \<open>The report of all sequences\<close>

text \<open>Reading the state of an incoming sequence takes steps and changes nothing.\<close>

definition passes :: "'a proc \<Rightarrow> bool" where
  "passes p \<longleftrightarrow> (\<forall>w. \<exists>x k. run_state p w = (x, w\<lparr>w_tick := k\<rparr>))"

lemma passes_from: "passes p \<Longrightarrow> \<exists>x k'. run_state p (w\<lparr>w_tick := k\<rparr>) = (x, w\<lparr>w_tick := k'\<rparr>)"
  using spec[of "\<lambda>w. \<exists>x k. run_state p w = (x, w\<lparr>w_tick := k\<rparr>)" "w\<lparr>w_tick := k\<rparr>"] by (simp add: passes_def)

lemma passes_intros [intro]:
  "passes (ret x)" "passes (seq_prop_retrieve s (Some n))" "passes (next_msg_retrieve s)"
  "passes p \<Longrightarrow> (\<And>x. passes (f x)) \<Longrightarrow> passes (State_Monad.bind p f)"
proof -
  show "passes (ret x)" unfolding passes_def
  proof
    fix w :: world
    show "\<exists>y k. run_state (ret x) w = (y, w\<lparr>w_tick := k\<rparr>)" by (intro exI[of _ x] exI[of _ "w_tick w"]) simp
  qed
  show "passes (seq_prop_retrieve s (Some n))" "passes (next_msg_retrieve s)"
    by (auto simp: passes_def seq_prop_retrieve_def next_msg_retrieve_def tick_update)
  assume p: "passes p" and f: "\<And>x. passes (f x)"
  show "passes (State_Monad.bind p f)"
    unfolding passes_def
  proof
    fix w
    obtain x k where 1: "run_state p w = (x, w\<lparr>w_tick := k\<rparr>)" using p unfolding passes_def by blast
    obtain y k' where 2: "run_state (f x) (w\<lparr>w_tick := k\<rparr>) = (y, w\<lparr>w_tick := k'\<rparr>)"
      using passes_from[OF f[of x], of k w] by blast
    show "\<exists>x k. run_state (State_Monad.bind p f) w = (x, w\<lparr>w_tick := k\<rparr>)"
      using 1 2 by (intro exI[of _ y] exI[of _ k']) simp
  qed
qed

lemma passes_If: "passes p \<Longrightarrow> passes q \<Longrightarrow> passes (if b then p else q)"
  by simp

lemma passes_status: "passes (get_svr_seq_status s)"
  unfolding get_svr_seq_status_def by (intro passes_intros passes_If)

text \<open>A report for a text that is no id: nothing was received.\<close>

lemma run_incoming_report:
  assumes "ready w" "props_ok (w_seq_prop w)" "prop_value w v SEQ_PROP_SERVER_COMPLETED_MESSAGES = None"
  shows "\<exists>r k. run_state (get_incoming_seq_report (Some v) True) w = (Inr r, w\<lparr>w_tick := k\<rparr>) \<and> rt_completed_msgs r = []"
proof -
  obtain x k where k: "run_state (get_svr_seq_status (Some v)) (tick w) = (x, w\<lparr>w_tick := k\<rparr>)"
    using passes_from[OF passes_status[of "Some v"], of _ w] unfolding tick_update by blast
  have "rt_completed_msgs (seq_report_set_seq_status n r) = rt_completed_msgs r" for n r
    by (simp add: seq_report_set_seq_status_def)
  then show ?thesis
    using k run_retrieve_value[of w SEQ_PROP_SERVER_COMPLETED_MESSAGES v] assms
    by (simp add: get_incoming_seq_report_def is_null_def get_svr_completed_msgs_list_def add_completed_eq prop_value_pvals
        seq_report_set_seq_id_def seq_report_set_internal_seq_id_def seq_report_create_def Let_def) blast
qed

lemma run_find_named:
  "ready w \<Longrightarrow> run_state (find_named n) w = (map seq_property_dec (filter (\<lambda>r. pr_name r = n) (w_seq_prop w)), tick w)"
proof -
  have "seq_property_find_cond (Some (seq_property_bean_create\<lparr>sp_name := Some n\<rparr>)) = (\<lambda>r. pr_name r = n)"
    by (simp add: fun_eq_iff seq_property_find_cond_def seq_property_bean_create_def opt_text_cond_def)
  then show "ready w \<Longrightarrow> run_state (find_named n) w = (map seq_property_dec (filter (\<lambda>r. pr_name r = n) (w_seq_prop w)), tick w)"
    by (simp add: find_named_def run_seq_prop_find Let_def)
qed

lemma run_add_outgoing:
  assumes "ready w" "props_ok (w_seq_prop w)"
  shows "\<exists>rep' k. run_state (add_outgoing_seqs (map seq_property_dec rs) rep) w = (Some rep', w\<lparr>w_tick := k\<rparr>)"
  using assms
proof (induction rs arbitrary: w rep)
  case Nil
  then show ?case by (intro exI[of _ rep] exI[of _ "w_tick w"]) simp
next
  case (Cons r rs)
  obtain k where k: "run_state (get_outgoing_seq_report_with_internal_seq_id (Some (pr_value r)) True) w
      = (Inr (report_shown w (pr_value r)), w\<lparr>w_tick := k\<rparr>)"
    using run_outgoing_report[OF Cons.prems] by blast
  have "ready (w\<lparr>w_tick := k\<rparr>)" "props_ok (w_seq_prop (w\<lparr>w_tick := k\<rparr>))" using Cons.prems by simp_all
  from Cons.IH[OF this] k show ?case by (simp add: seq_property_dec_mk Let_def)
qed

lemma run_add_incoming:
  assumes "ready w" "props_ok (w_seq_prop w)" "\<forall>r \<in> set rs. prop_value w (pr_value r) SEQ_PROP_SERVER_COMPLETED_MESSAGES = None"
  shows "\<exists>rep' k. run_state (add_incoming_seqs (map seq_property_dec rs) rep) w = (Some rep', w\<lparr>w_tick := k\<rparr>)
     \<and> rp_incoming_seq_list rep' = rp_incoming_seq_list rep @ map pr_seq_id rs
     \<and> (\<forall>s. rp_no_of_completed_msgs_map rep' s = (if s \<in> pr_seq_id ` set rs then Some 0 else rp_no_of_completed_msgs_map rep s))
     \<and> (\<forall>s. rp_seq_status_map rep' s = (if s \<in> pr_seq_id ` set rs then Some () else rp_seq_status_map rep s))"
  using assms
proof (induction rs arbitrary: w rep)
  case Nil
  then show ?case by (intro exI[of _ rep] exI[of _ "w_tick w"]) simp
next
  case (Cons r rs)
  obtain q k where k: "run_state (get_incoming_seq_report (Some (pr_value r)) True) w = (Inr q, w\<lparr>w_tick := k\<rparr>)" "rt_completed_msgs q = []"
    using run_incoming_report[of w "pr_value r"] Cons.prems by auto
  have "ready (w\<lparr>w_tick := k\<rparr>)" "props_ok (w_seq_prop (w\<lparr>w_tick := k\<rparr>))"
    "\<forall>r \<in> set rs. prop_value (w\<lparr>w_tick := k\<rparr>) (pr_value r) SEQ_PROP_SERVER_COMPLETED_MESSAGES = None" using Cons.prems by simp_all
  from Cons.IH[OF this, of "note_seq (pr_seq_id r) q (report_add_to_incoming_seq_list (pr_seq_id r) rep)"] k
  show ?case
    by (auto simp: seq_property_dec_mk Let_def note_seq_def report_add_to_incoming_seq_list_def report_add_to_seq_status_map_def
        report_add_to_no_of_completed_msgs_map_def)
qed

text \<open>C30: the report of all sequences lists a received sequence with none of its messages and without a state
  that can be read, and the list of the reports of received sequences is empty, whatever was received.\<close>

theorem received_reported_as_none:
  assumes "ready w" "props_ok (w_seq_prop w)"
    and texts: "\<forall>r \<in> set (w_seq_prop w). pr_name r = SEQ_PROP_SERVER_COMPLETED_MESSAGES
        \<longrightarrow> prop_value w (pr_value r) SEQ_PROP_SERVER_COMPLETED_MESSAGES = None"
    and row: "r \<in> set (w_seq_prop w)" "pr_name r = SEQ_PROP_SERVER_COMPLETED_MESSAGES"
  shows "(\<exists>rep. fst (run_state (get_report True) w) = Some rep \<and> pr_seq_id r \<in> set (rp_incoming_seq_list rep)
       \<and> report_get_completed_msgs_count rep (pr_seq_id r) = 0 \<and> report_get_seq_status_map rep (pr_seq_id r) = None)
     \<and> fst (run_state (get_incoming_seq_reports True) w) = Some (Inr [])"
proof -
  let ?rs = "filter (\<lambda>r. pr_name r = SEQ_PROP_SERVER_COMPLETED_MESSAGES) (w_seq_prop w)"
  obtain rep k where 1: "run_state (add_outgoing_seqs (map seq_property_dec (filter (\<lambda>r. pr_name r = INTERNAL) (w_seq_prop w)))
      report_create) (tick w) = (Some rep, w\<lparr>w_tick := k\<rparr>)"
    using run_add_outgoing[of "tick w"] assms(1,2) unfolding tick_update by fastforce
  have 2: "ready (w\<lparr>w_tick := Suc k\<rparr>)" "props_ok (w_seq_prop (w\<lparr>w_tick := Suc k\<rparr>))"
    "\<forall>r \<in> set ?rs. prop_value (w\<lparr>w_tick := Suc k\<rparr>) (pr_value r) SEQ_PROP_SERVER_COMPLETED_MESSAGES = None"
    using assms(1,2) texts by simp_all
  obtain rep' k' where rep': "run_state (add_incoming_seqs (map seq_property_dec ?rs) rep) (w\<lparr>w_tick := Suc k\<rparr>) = (Some rep', w\<lparr>w_tick := k'\<rparr>)"
    "rp_incoming_seq_list rep' = rp_incoming_seq_list rep @ map pr_seq_id ?rs"
    "\<forall>s. rp_no_of_completed_msgs_map rep' s = (if s \<in> pr_seq_id ` set ?rs then Some 0 else rp_no_of_completed_msgs_map rep s)"
    "\<forall>s. rp_seq_status_map rep' s = (if s \<in> pr_seq_id ` set ?rs then Some () else rp_seq_status_map rep s)"
    using run_add_incoming[OF 2, of rep] by auto
  have report: "run_state (get_report True) w = (Some rep', w\<lparr>w_tick := k'\<rparr>)"
    using assms(1) 1 rep'(1) run_find_named[of w] run_find_named[of "w\<lparr>w_tick := k\<rparr>"] by (simp add: get_report_def tick_def)
  moreover have "pr_seq_id r \<in> pr_seq_id ` set ?rs" using row by simp
  ultimately show ?thesis
    using rep' by (simp add: report_get_completed_msgs_count_def report_get_seq_status_map_def get_incoming_seq_reports_def)
qed

text \<open>A sequence of which two messages were received.\<close>

theorem received_reported_as_none_witness:
  "fst (run_state (get_incoming_seq_reports True)
     (idle_world\<lparr>w_seq_prop := [seq_property_row_of (mk_prop ''s'' SEQ_PROP_SERVER_COMPLETED_MESSAGES ''1,2'')]\<rparr>)) = Some (Inr [])"
proof -
  let ?r = "seq_property_row_of (mk_prop ''s'' SEQ_PROP_SERVER_COMPLETED_MESSAGES ''1,2'')"
  let ?w = "idle_world\<lparr>w_seq_prop := [?r]\<rparr>"
  have r: "pr_name ?r = SEQ_PROP_SERVER_COMPLETED_MESSAGES" "pr_value ?r = ''1,2''"
    by (simp_all add: seq_property_row_of_def mk_prop_def sprintf_s_def)
  have "prop_value ?w ''1,2'' SEQ_PROP_SERVER_COMPLETED_MESSAGES = None"
    using pvals_simps(1)[of SEQ_PROP_SERVER_COMPLETED_MESSAGES SEQ_PROP_SERVER_COMPLETED_MESSAGES "[]" "''s''" "''1,2''" "''1,2''"]
    by (simp add: prop_value_pvals) (simp add: pvals_def seq_property_look_def bean_value_def)
  moreover have "props_ok [?r]"
    using props_ok_ops(2)[of "[]" SEQ_PROP_SERVER_COMPLETED_MESSAGES "''s''" "''1,2''"] by (simp add: props_ok_def)
  ultimately show ?thesis
    using received_reported_as_none[of ?w ?r] r ready_idle by simp
qed

end
