(* ===== verification/Close_Props.thy ===== *)
theory Close_Props
  imports Client_Props
begin

text \<open>
  The end of a sequence that its client closes: the message that closes it, the response on the connection, and what
  the incoming handlers do with that response, within one call.
\<close>

section \<open>Sending TerminateSequence\<close>

lemma run_piggyback_none:
  assumes "ready w" "\<forall>x \<in> set (w_sender w). \<not> waiting_ack s x"
  shows "run_state (piggyback_acks_if_present s g) w = (g, tick w)"
proof -
  have "filter (waiting_ack s) (w_sender w) = []" using assms(2) by (simp add: filter_empty_conv)
  then show ?thesis using assms(1)
    by (simp add: piggyback_acks_if_present_def exec_simps piggyback_find_cond Let_def sender_beans_def)
qed

lemma run_store_msg_ctx_trace:
  obtains v where "run_state (store_msg_ctx k c) w = (AXIS2_SUCCESS, v)" "w_trace v = w_trace w" "w_sender v = w_sender w"
    "w_seq_prop v = w_seq_prop w"
  by (cases "get_msg_store_bean (cf_keys (w_conf w)) (w_uuids w (w_tick w)) c") (auto simp: store_msg_ctx_def)

lemma last_number_there:
  assumes "ready w"
  shows "\<exists>n. run_state (terminate_last_msg_number SPEC_VERSION_1_1 (Some i)) w = (n, tick w)"
proof -
  have "or_default False (is_term_seq_res_reqd (Some SPEC_VERSION_1_1))" by code_simp
  then show ?thesis using assms
    by (auto simp: terminate_last_msg_number_def exec_simps split: option.split)
qed

lemma run_address_terminate:
  assumes "ready w"
  shows "\<exists>g' v. run_state (address_terminate (Some i) ver g) w = (g', v) \<and> w_trace v = w_trace w \<and> ready v
     \<and> w_sender v = w_sender w \<and> w_conf v = w_conf w \<and> prop_value v i SEQ_PROP_TERMINATE_ADDED = Some AXIS2_VALUE_TRUE
     \<and> om_type g' = om_type g \<and> om_seq_id g' = om_seq_id g \<and> om_seq_ack g' = om_seq_ack g"
proof -
  let ?b = "mk_prop i SEQ_PROP_TERMINATE_ADDED AXIS2_VALUE_TRUE"
  let ?v = "tick ((tick (tick w))\<lparr>w_seq_prop := w_seq_prop w @ [seq_property_row_of ?b]\<rparr>)"
  have "prop_value ?v i SEQ_PROP_TERMINATE_ADDED = Some AXIS2_VALUE_TRUE"
    by (simp add: prop_value_pvals pvals_simps)
  moreover have "\<exists>g'. run_state (address_terminate (Some i) ver g) w = (g', ?v) \<and> om_type g' = om_type g
      \<and> om_seq_id g' = om_seq_id g \<and> om_seq_ack g' = om_seq_ack g"
    using assms by (simp add: address_terminate_def exec_simps mk_prop_def seq_property_bean_create_def Let_def)
  ultimately show ?thesis using assms by fastforce
qed

lemma run_dispatch_terminate:
  assumes "ready w"
  shows "\<exists>sent v. run_state (dispatch_terminate (Some i) g) w = (sent, v) \<and> w_trace v = w_trace w @ [Engine_Send sent]
     \<and> w_seq_prop v = w_seq_prop w \<and> om_type sent = om_type g \<and> om_seq_id sent = om_seq_id g"
  using assms by (auto simp: dispatch_terminate_def exec_simps Let_def split: option.split)

lemma run_send_terminate:
  assumes "ready w" "rm_has_svc r" "cf_property_bean (w_conf w) = Some pb" "pb_spec_version pb = Some SPEC_VERSION_1_1"
    and "\<forall>x \<in> set (w_sender w). \<not> waiting_ack (Some s) x"
  shows "\<exists>v sent. run_state (send_terminate_seq_msg r (Some s) (Some i)) w = (AXIS2_FAILURE, v)
     \<and> w_trace v = w_trace w @ [Engine_Send sent] \<and> om_type sent = MSG_TYPE_TERMINATE_SEQ \<and> om_seq_id sent = Some s
     \<and> prop_value v i SEQ_PROP_TERMINATE_ADDED = Some AXIS2_VALUE_TRUE"
proof -
  obtain n where n: "run_state (terminate_last_msg_number SPEC_VERSION_1_1 (Some i)) (tick w) = (n, tick (tick w))"
    using last_number_there[of "tick w" i] assms(1) by auto
  have v: "\<not> is_rm_1_0_anonymous_acks_to c t (Some SPEC_VERSION_1_1) a" for c t a
    by (simp add: is_rm_1_0_anonymous_acks_to_def SPEC_VERSION_1_0_def SPEC_VERSION_1_1_def)
  let ?g = "(new_out_msg MSG_TYPE_TERMINATE_SEQ)\<lparr>om_msg_id := Some (w_uuids w (w_tick w)), om_seq_id := Some s,
     om_transport_url := rm_transport_url r, om_last_msg_number := n\<rparr>"
  have created: "run_state (create_terminate_seq_msg r (Some s) (Some i)) w = (Some ?g, tick (tick w))"
    using assms(2-4) n by (simp add: create_terminate_seq_msg_def exec_simps)
  obtain g1 v1 where 1: "run_state (address_terminate (Some i) SPEC_VERSION_1_1 ?g) (tick (tick w)) = (g1, v1)"
    "w_trace v1 = w_trace w" "ready v1" "w_sender v1 = w_sender w" "w_conf v1 = w_conf w"
    "prop_value v1 i SEQ_PROP_TERMINATE_ADDED = Some AXIS2_VALUE_TRUE" "om_type g1 = MSG_TYPE_TERMINATE_SEQ" "om_seq_id g1 = Some s"
    "om_seq_ack g1 = None"
    using run_address_terminate[of "tick (tick w)" i SPEC_VERSION_1_1 ?g] assms(1) by (auto simp: new_out_msg_def)
  let ?b = "terminate_sender_bean (w_uuids v1 (w_tick v1 + 1)) (w_clock v1 (w_tick v1 + 2) + pb_terminate_delay pb) (om_msg_id g1) (Some s) (Some i)"
  obtain b v2 where 2: "run_state (sender_insert ?b) (tick (tick (tick v1))) = (b, v2)" "w_trace v2 = w_trace v1" "ready v2"
    "w_seq_prop v2 = w_seq_prop v1" "w_conf v2 = w_conf v1"
    using 1(3) by (simp add: exec_simps)
  obtain sent v3 where 3: "run_state (dispatch_terminate (Some i) g1) (tick v2) = (sent, v3)"
    "w_trace v3 = w_trace v2 @ [Engine_Send sent]" "w_seq_prop v3 = w_seq_prop v2" "om_type sent = om_type g1" "om_seq_id sent = om_seq_id g1"
    using run_dispatch_terminate[of "tick v2" i g1] 2(3) by auto
  obtain v4 where 4: "run_state (store_msg_ctx (Some (w_uuids v1 (w_tick v1 + 1))) (cf_out_ctx (w_conf v3) sent)) v3 = (AXIS2_SUCCESS, v4)"
    "w_trace v4 = w_trace v3" "w_sender v4 = w_sender v3" "w_seq_prop v4 = w_seq_prop v3"
    by (rule run_store_msg_ctx_trace)
  have "run_state (queue_terminate pb (Some s) (Some i) g1) v1 = (AXIS2_FAILURE, v4)"
    using 1(3,4,9) 2(1,3) 3(1) 4(1) assms(5)
    by (simp add: queue_terminate_def is_null_simps run_piggyback_none exec_simps Let_def)
  then have "run_state (send_terminate_seq_msg r (Some s) (Some i)) w = (AXIS2_FAILURE, v4)"
    using assms(2-4) created 1(1) v by (simp add: send_terminate_seq_msg_def is_null_simps exec_simps)
  moreover have "prop_value v4 i SEQ_PROP_TERMINATE_ADDED = Some AXIS2_VALUE_TRUE"
    using 1(6) 2(4) 3(3) 4(4) by (simp add: prop_value_def)
  ultimately show ?thesis using 1(2,7,8) 2(2) 3(2,4,5) 4(2) by auto
qed

section \<open>The response\<close>

text \<open>A CloseSequenceResponse that comes back on the connection, and nothing else with it.\<close>

definition close_response :: "string \<Rightarrow> rm_msg \<Rightarrow> bool" where
  "close_response s r \<longleftrightarrow> rm_msg_type r = MSG_TYPE_CLOSE_SEQ_RESPONSE \<and> rm_close_seq_res r = Some (Some s)
     \<and> s \<noteq> '''' \<and> rm_has_svc r \<and> rm_seq_ack r = None \<and> rm_wsa_action r \<noteq> Some LAST_MESSAGE_ACTION \<and> rm_wsa_action r \<noteq> None
     \<and> \<not> rm_fault r \<and> rm_app_processing_done r \<noteq> Some AXIS2_VALUE_TRUE \<and> rm_reinjected r \<noteq> Some AXIS2_VALUE_TRUE"

lemma run_close_response:
  assumes "close_response s r" "ready w" "cf_db_exists (w_conf w)" "cf_property_bean (w_conf w) = Some pb"
    and "pb_spec_version pb = Some SPEC_VERSION_1_1" "\<forall>x \<in> set (w_sender w). \<not> waiting_ack (Some s) x"
    and "prop_value w s SEQ_PROP_OUTGOING_INTERNAL_SEQUENCE_ID = Some i"
  shows "\<exists>v sent. run_state (receive_flow r) w = (Some AXIS2_SUCCESS, v)
     \<and> w_trace v = w_trace w @ [Engine_Send sent] \<and> om_type sent = MSG_TYPE_TERMINATE_SEQ \<and> om_seq_id sent = Some s
     \<and> prop_value v i SEQ_PROP_TERMINATE_ADDED = Some AXIS2_VALUE_TRUE"
proof -
  note r = assms(1)[unfolded close_response_def]
  have look: "run_state (get_seq_property (Some s) (Some SEQ_PROP_OUTGOING_INTERNAL_SEQUENCE_ID)) w = (Some i, tick w)"
    using assms(2,7) by (cases "seq_property_look (w_seq_prop w) (prop_id s SEQ_PROP_OUTGOING_INTERNAL_SEQUENCE_ID)")
      (simp_all add: get_seq_property_def exec_simps is_null_simps prop_value_bean bean_value_def)
  obtain v sent where v: "run_state (send_terminate_seq_msg r (Some s) (Some i)) (tick w) = (AXIS2_FAILURE, v)"
    "w_trace v = w_trace w @ [Engine_Send sent]" "om_type sent = MSG_TYPE_TERMINATE_SEQ" "om_seq_id sent = Some s"
    "prop_value v i SEQ_PROP_TERMINATE_ADDED = Some AXIS2_VALUE_TRUE"
    using run_send_terminate[of "tick w" r pb s i] assms r by auto
  have "run_state (close_res_process_in_msg r) w = (Inr AXIS2_SUCCESS, v)"
    using r look v(1) by (simp add: close_res_process_in_msg_def)
  then have "run_state (process_by_type r) w = (Some (), v)"
    using r by (simp add: process_by_type_def create_msg_processor_def msg_processor_process_in_msg_def returns_def is_null_simps)
  moreover have "run_state (drop_if_duplicate r) w = ((r, False), w)"
    using r by (simp add: drop_if_duplicate_def app_sequence_def)
  ultimately have "run_state (handle_incoming r) w = (Some (), v)"
    by (simp add: handle_incoming_def)
  then have "run_state (in_handler_invoke r) w = (Some AXIS2_SUCCESS, v)"
    using r assms(3) by (simp add: in_handler_invoke_def create_db_def)
  moreover have "run_state (global_in_handler_invoke r) w = ((r, False), w)"
    using r by (auto simp: global_in_handler_invoke_def is_null_simps)
  ultimately show ?thesis using v(2-5) by (auto simp: receive_flow_def)
qed

section \<open>Closing\<close>

text \<open>The message that closes the sequence.\<close>

lemma run_address_close:
  assumes "ready w"
  shows "\<exists>g'. run_state (address_close (Some i) ver g) w = (g', tick (tick w))
     \<and> om_type g' = om_type g \<and> om_seq_id g' = om_seq_id g"
  using assms by (simp add: address_close_def exec_simps)

lemma run_close_with_own_msg:
  assumes "close_response s r" "ready w" "cf_db_exists (w_conf w)" "cf_property_bean (w_conf w) = Some pb"
    and "pb_spec_version pb = Some SPEC_VERSION_1_1" "\<forall>x \<in> set (w_sender w). \<not> waiting_ack (Some s) x"
    and "prop_value w s SEQ_PROP_OUTGOING_INTERNAL_SEQUENCE_ID = Some i"
    and "rm_has_svc m" "w_engine w = (\<lambda>_. True)" "w_replies w = (\<lambda>_. Some r)"
  shows "\<exists>v close sent. run_state (close_with_own_msg m s (Some i) SPEC_VERSION_1_1) w = (Some (AXIS2_SUCCESS, None), v)
     \<and> w_trace v = w_trace w @ [Engine_Send close, Engine_Send sent, Set_Paused]
     \<and> om_type close = MSG_TYPE_CLOSE_SEQ \<and> om_seq_id close = Some s
     \<and> om_type sent = MSG_TYPE_TERMINATE_SEQ \<and> om_seq_id sent = Some s
     \<and> prop_value v i SEQ_PROP_TERMINATE_ADDED = Some AXIS2_VALUE_TRUE"
proof -
  obtain n where n: "run_state (terminate_last_msg_number SPEC_VERSION_1_1 (Some i)) (tick w) = (n, tick (tick w))"
    using last_number_there[of "tick w" i] assms(2) by auto
  let ?g = "(new_out_msg MSG_TYPE_CLOSE_SEQ)\<lparr>om_msg_id := Some (w_uuids w (w_tick w)), om_seq_id := Some s,
     om_transport_url := rm_transport_url m, om_last_msg_number := n\<rparr>"
  have created: "run_state (create_close_seq_msg m (Some s) (Some i)) w = (Some ?g, tick (tick w))"
    using assms(4,5,8) n by (simp add: create_close_seq_msg_def exec_simps)
  obtain close where c: "run_state (address_close (Some i) SPEC_VERSION_1_1 ?g) (tick (tick w)) = (close, tick (tick (tick (tick w))))"
    "om_type close = MSG_TYPE_CLOSE_SEQ" "om_seq_id close = Some s"
    using run_address_close[of "tick (tick w)" i SPEC_VERSION_1_1 ?g] assms(2) by (auto simp: new_out_msg_def)
  let ?w4 = "tick (tick (tick (tick w)))"
  let ?w6 = "tick (tick ((tick ?w4)\<lparr>w_trace := w_trace w @ [Engine_Send close]\<rparr>))"
  have same: "prop_value (u\<lparr>w_trace := tr\<rparr>) = prop_value u" for u tr by (simp add: fun_eq_iff prop_value_def)
  obtain v sent where v: "run_state (receive_flow (r\<lparr>rm_server_side := False\<rparr>)) ?w6 = (Some AXIS2_SUCCESS, v)"
    "w_trace v = w_trace w @ [Engine_Send close, Engine_Send sent]" "om_type sent = MSG_TYPE_TERMINATE_SEQ" "om_seq_id sent = Some s"
    "prop_value v i SEQ_PROP_TERMINATE_ADDED = Some AXIS2_VALUE_TRUE"
    using run_close_response[of s "r\<lparr>rm_server_side := False\<rparr>" ?w6 pb i] assms by (auto simp: close_response_def same)
  have "run_state terminate_mgr_process_response (tick ((tick ?w4)\<lparr>w_trace := w_trace w @ [Engine_Send close]\<rparr>))
      = (Some AXIS2_SUCCESS, tick v)"
    using v(1) assms(10) by (simp add: terminate_mgr_process_response_def engine_receive_def run_on_return done_with_def exec_simps)
  then have "run_state (close_with_own_msg m s (Some i) SPEC_VERSION_1_1) w
      = (Some (AXIS2_SUCCESS, None), (tick v)\<lparr>w_trace := w_trace v @ [Set_Paused]\<rparr>)"
    using created c(1) assms(2,6,9) by (simp add: close_with_own_msg_def run_piggyback_none run_on_return done_with_def exec_simps)
  then show ?thesis using v c(2,3) by (auto simp: same)
qed

text \<open>C37: a client that closes its sequence and takes answers on the connection sends a CloseSequence message for
  it; when a CloseSequenceResponse for the sequence comes back, the incoming handlers terminate the
  sequence within the same call: they send a TerminateSequence message for it and mark it as sent, and
  the message the client was given goes no further.\<close>

theorem closing_ends_in_termination:
  assumes "close_response s r" "ready w" "cf_db_exists (w_conf w)" "cf_property_bean (w_conf w) = Some pb"
    and "pb_spec_version pb = Some SPEC_VERSION_1_1" "\<forall>x \<in> set (w_sender w). \<not> waiting_ack (Some s) x"
    and "prop_value w s SEQ_PROP_OUTGOING_INTERNAL_SEQUENCE_ID = Some i" "prop_value w i SEQ_PROP_OUTGOING_SEQUENCE_ID = Some s"
    and "prop_value w i SEQ_PROP_REPLY_TO_EPR = None" "get_client_internal_sequence_id (addr_of (rm_to m)) (rm_client_seq_key m) = Some i"
    and "rm_has_svc m" "\<not> rm_server_side m" "w_engine w = (\<lambda>_. True)" "w_replies w = (\<lambda>_. Some r)"
  shows "\<exists>v close sent. run_state (close_process_out_msg m) w = (Some (Inr (AXIS2_SUCCESS, None)), v)
     \<and> w_trace v = w_trace w @ [Engine_Send close, Engine_Send sent, Set_Paused]
     \<and> om_type close = MSG_TYPE_CLOSE_SEQ \<and> om_seq_id close = Some s
     \<and> om_type sent = MSG_TYPE_TERMINATE_SEQ \<and> om_seq_id sent = Some s
     \<and> prop_value v i SEQ_PROP_TERMINATE_ADDED = Some AXIS2_VALUE_TRUE"
proof -
  have look: "run_state (get_seq_property (Some i) (Some SEQ_PROP_OUTGOING_SEQUENCE_ID)) w = (Some s, tick w)"
    using assms(2,8) by (cases "seq_property_look (w_seq_prop w) (prop_id i SEQ_PROP_OUTGOING_SEQUENCE_ID)")
      (simp_all add: get_seq_property_def exec_simps is_null_simps prop_value_bean bean_value_def)
  have reply: "run_state (seq_prop_retrieve (Some i) (Some SEQ_PROP_REPLY_TO_EPR)) (tick w)
      = (seq_property_look (w_seq_prop w) (prop_id i SEQ_PROP_REPLY_TO_EPR), tick (tick w))"
    "bean_value (seq_property_look (w_seq_prop w) (prop_id i SEQ_PROP_REPLY_TO_EPR)) = None"
    using assms(2,9) by (simp_all add: exec_simps prop_value_bean)
  obtain v close sent where v: "run_state (close_with_own_msg m s (Some i) SPEC_VERSION_1_1) (tick (tick w)) = (Some (AXIS2_SUCCESS, None), v)"
    "w_trace v = w_trace w @ [Engine_Send close, Engine_Send sent, Set_Paused]"
    "om_type close = MSG_TYPE_CLOSE_SEQ" "om_seq_id close = Some s" "om_type sent = MSG_TYPE_TERMINATE_SEQ" "om_seq_id sent = Some s"
    "prop_value v i SEQ_PROP_TERMINATE_ADDED = Some AXIS2_VALUE_TRUE"
    using run_close_with_own_msg[of s r "tick (tick w)" pb i m] assms by auto
  have "run_state (close_process_out_msg m) w = (Some (Inr (AXIS2_SUCCESS, None)), v)"
    using assms(4,5,10-12) look reply v(1) by (simp add: close_process_out_msg_def run_on_return done_with_def exec_simps Let_def)
  then show ?thesis using v(2-7) by blast
qed

definition closing_world :: world where
  "closing_world = named_world\<lparr>w_conf := sample_conf\<lparr>cf_property_bean :=
       Some (property_bean_create\<lparr>pb_spec_version := Some SPEC_VERSION_1_1\<rparr>)\<rparr>,
     w_replies := (\<lambda>_. Some (sample_msg\<lparr>rm_msg_type := MSG_TYPE_CLOSE_SEQ_RESPONSE, rm_close_seq_res := Some (Some ''rms'')\<rparr>))\<rparr>"

theorem closing_ends_in_termination_witness:
  "\<exists>v close sent. run_state (close_process_out_msg (sample_msg\<lparr>rm_server_side := False, rm_to := Some (Some '':to''),
        rm_client_seq_key := Some ''key''\<rparr>)) closing_world = (Some (Inr (AXIS2_SUCCESS, None)), v)
     \<and> w_trace v = [Engine_Send close, Engine_Send sent, Set_Paused] \<and> om_type sent = MSG_TYPE_TERMINATE_SEQ"
proof -
  let ?r = "sample_msg\<lparr>rm_msg_type := MSG_TYPE_CLOSE_SEQ_RESPONSE, rm_close_seq_res := Some (Some ''rms'')\<rparr>"
  let ?m = "sample_msg\<lparr>rm_server_side := False, rm_to := Some (Some '':to''), rm_client_seq_key := Some ''key''\<rparr>"
  have "close_response ''rms'' ?r"
    unfolding close_response_def sample_msg_def by (simp add: action_2005_02_def)
  moreover have w: "ready closing_world" "w_sender closing_world = []" "w_engine closing_world = (\<lambda>_. True)"
    "w_replies closing_world = (\<lambda>_. Some ?r)" "cf_db_exists (w_conf closing_world)" "w_trace closing_world = []"
    "cf_property_bean (w_conf closing_world) = Some (property_bean_create\<lparr>pb_spec_version := Some SPEC_VERSION_1_1\<rparr>)"
    using named_world_facts(1) by (simp_all add: closing_world_def named_world_def sample_conf_def ready_def)
  have same: "prop_value closing_world q n = prop_value named_world q n" for q n
    by (simp add: closing_world_def prop_value_def)
  have differ: "SEQ_PROP_OUTGOING_SEQUENCE_ID \<noteq> INTERNAL" "SEQ_PROP_REPLY_TO_EPR \<noteq> SEQ_PROP_OUTGOING_SEQUENCE_ID"
    "SEQ_PROP_REPLY_TO_EPR \<noteq> INTERNAL" "''rms'' \<noteq> sample_seq"
    by (simp_all add: prop_names sample_seq_def INTERNAL_SEQ_PREFIX_def)
  have "prop_value closing_world ''rms'' SEQ_PROP_OUTGOING_INTERNAL_SEQUENCE_ID = Some sample_seq"
    "prop_value closing_world sample_seq SEQ_PROP_OUTGOING_SEQUENCE_ID = Some ''rms''"
    "prop_value closing_world sample_seq SEQ_PROP_REPLY_TO_EPR = None"
    using differ by (simp_all add: same named_world_props)
  moreover have "get_client_internal_sequence_id (addr_of (rm_to ?m)) (rm_client_seq_key ?m) = Some sample_seq"
    "rm_has_svc ?m" "\<not> rm_server_side ?m"
    by (simp_all add: sample_msg_def get_client_internal_sequence_id_def addr_of_def sample_seq_def)
  ultimately show ?thesis
    using w closing_ends_in_termination[of "''rms''" ?r closing_world
        "property_bean_create\<lparr>pb_spec_version := Some SPEC_VERSION_1_1\<rparr>" sample_seq ?m] by auto
qed

end
