(* ===== verification/Polling_Mgr.thy ===== *)
theory Polling_Mgr
  imports App_Msg_Sender Sending Wire
begin

text \<open>
  \<open>src/polling/polling_mgr.c\<close>: a thread that asks the other side for its messages with MakeConnection, again and
  again, and \<open>sandesha2_msg_creator_create_make_connection_msg\<close>, which builds the message.  The call that
  starts the manager is commented out in \<open>create_seq_res_msg_processor.c\<close>; its functions are
  modelled as they stand.  The loop takes the number of turns it may run.
\<close>

section \<open>The message\<close>

text \<open>
  The element is in the namespace of MakeConnection, its identifier in that of the specification.
\<close>

definition make_connection_part :: "cstr \<Rightarrow> cstr \<Rightarrow> sandesha2_error + make_connection_t" where
  "make_connection_part make_conn_seq_id make_conn_anon_uri =
     (case make_connection_create (Some MAKE_CONNECTION_SPEC_2007_02_NS_URI) of
        Inl e \<Rightarrow> Inl e
      | Inr make_conn \<Rightarrow>
          (let make_conn =
             (case make_conn_seq_id of
                None \<Rightarrow> make_conn
              | Some i \<Rightarrow>
                  make_conn\<lparr>mk_identifier :=
                    (case identifier_create (get_rm_ns_val (Some SPEC_VERSION_1_1)) of
                       Inl e \<Rightarrow> None
                     | Inr identifier \<Rightarrow> Some (identifier\<lparr>idf_str_id := Some i\<rparr>))\<rparr>)
           in Inr (case make_conn_anon_uri of
                None \<Rightarrow> make_conn
              | Some u \<Rightarrow>
                  make_conn\<lparr>mk_address :=
                    (case mc_address_create (Some MAKE_CONNECTION_SPEC_2007_02_NS_URI) None of
                       Inl e \<Rightarrow> None
                     | Inr address \<Rightarrow> Some (address\<lparr>ma_epr := Some (Some u)\<rparr>))\<rparr>)))"

text \<open>The message goes where the message it is made from went; the address is taken of a null reference too.\<close>

definition create_make_connection_msg :: "rm_msg \<Rightarrow> cstr \<Rightarrow> cstr \<Rightarrow> out_msg proc" where
  "create_make_connection_msg ref_rm_msg_ctx make_conn_seq_id make_conn_anon_uri = do {
     (if rm_to ref_rm_msg_ctx = None then undefined_behaviour else ret ());
     anonymous_uri \<leftarrow> asks (\<lambda>w. WSA_ANONYMOUS_URL (cf_wsa (w_conf w)));
     message_id \<leftarrow> uuid_gen;
     ret ((new_out_msg MSG_TYPE_MAKE_CONNECTION_MSG)
       \<lparr>om_msg_id := Some message_id, om_to := rm_to ref_rm_msg_ctx, om_reply_to := Some (Some anonymous_uri),
        om_seq_id := make_conn_seq_id, om_mc_address := make_conn_anon_uri,
        om_transport_url := rm_transport_url ref_rm_msg_ctx,
        om_action := right (get_make_connection_action SPEC_VERSION_1_1),
        om_soap_action := right (get_make_connection_action SPEC_VERSION_1_1)\<rparr>)
   }"

section \<open>The manager\<close>

text \<open>What came back on the connection goes through the incoming handlers; what they made of it is not looked at.\<close>

definition process_make_connection_msg_response :: "status option proc" where
  "process_make_connection_msg_response = do {
     response \<leftarrow> connection_reply;
     (case response of
        None \<Rightarrow> done_with AXIS2_SUCCESS
      | Some r \<Rightarrow> on_return (engine_receive (r\<lparr>rm_server_side := False\<rparr>)) (\<lambda>_. done_with AXIS2_SUCCESS))
   }"

definition make_connection_sender_bean :: "int \<Rightarrow> string \<Rightarrow> cstr \<Rightarrow> cstr \<Rightarrow> cstr option \<Rightarrow> sender_bean" where
  "make_connection_sender_bean millisecs key msg_id internal_sequence_id to =
     sender_bean_create\<lparr>sb_time_to_send := millisecs, sb_msg_ctx_ref_key := Some key, sb_msg_id := msg_id,
       sb_msg_type := MSG_TYPE_MAKE_CONNECTION_MSG, sb_resend := False, sb_send := True,
       sb_internal_seq_id := internal_sequence_id, sb_to_address := addr_of to\<rparr>"

definition polling_anon_uri :: "cstr \<Rightarrow> cstr \<Rightarrow> cstr" where
  "polling_anon_uri reply_to sequence_id =
     (if is_wsrm_anon_reply_to reply_to
      then Some (WS_RM_ANONYMOUS_URL @ (case sequence_id of None \<Rightarrow> '''' | Some s \<Rightarrow> s)) else None)"

definition polling_mgr_start :: "rm_msg \<Rightarrow> cstr \<Rightarrow> cstr \<Rightarrow> cstr \<Rightarrow> status option proc" where
  "polling_mgr_start rm_msg_ctx internal_sequence_id sequence_id reply_to = do {
     msg \<leftarrow> create_make_connection_msg rm_msg_ctx sequence_id (polling_anon_uri reply_to sequence_id);
     millisecs \<leftarrow> current_time_in_millis;
     key \<leftarrow> uuid_gen;
     sender_insert (make_connection_sender_bean millisecs key (om_msg_id msg) internal_sequence_id (om_to msg));
     engine_send msg;
     ctx \<leftarrow> asks (\<lambda>w. cf_out_ctx (w_conf w) msg);
     store_msg_ctx (Some key) ctx;
     on_return process_make_connection_msg_response (\<lambda>status.
       if status \<noteq> AXIS2_SUCCESS then done_with AXIS2_FAILURE
       else do { s \<leftarrow> start_thread (Polling_Worker internal_sequence_id sequence_id); done_with s })
   }"

section \<open>Its thread\<close>

text \<open>
  Every turn sleeps, builds the stored message again and sends it.  The row of the message is read
  once, before the loop.
\<close>

fun polling_loop :: "nat \<Rightarrow> cstr \<Rightarrow> int \<Rightarrow> unit option proc" where
  "polling_loop 0 key wait_time = ret None"
| "polling_loop (Suc turns) key wait_time = do {
     axis2_sleep wait_time;
     make_conn_msg_ctx \<leftarrow> retrieve_stored_msg key;
     (case make_conn_msg_ctx of
        None \<Rightarrow> do { undefined_behaviour; ret None }
      | Some ctx \<Rightarrow> do {
          msg \<leftarrow> asks (\<lambda>w. stored_out (w_conf w) ctx);
          (if \<not> is_null (mc_transport_out ctx) then transport_sender_invoke msg else ret ());
          on_return process_make_connection_msg_response (\<lambda>status.
            if status \<noteq> AXIS2_SUCCESS then done_with () else polling_loop turns key wait_time)
        })
   }"

definition polling_find_bean :: "cstr \<Rightarrow> sender_bean" where
  "polling_find_bean internal_sequence_id =
     sender_bean_create\<lparr>sb_msg_type := MSG_TYPE_MAKE_CONNECTION_MSG, sb_internal_seq_id := internal_sequence_id,
       sb_send := True\<rparr>"

text \<open>
  The fetch of the policy is commented out, so the delay is read through a null pointer; \<open>wait_time\<close> is
  what that read gives, should it give anything.
\<close>

definition polling_worker :: "nat \<Rightarrow> int \<Rightarrow> cstr \<Rightarrow> unit option proc" where
  "polling_worker turns wait_time internal_sequence_id = do {
     undefined_behaviour;
     found \<leftarrow> sender_find_unique (Some (polling_find_bean internal_sequence_id));
     polling_loop turns (Option.bind found sb_msg_ctx_ref_key) wait_time
   }"

section \<open>The thread does not end\<close>

text \<open>Nothing that comes back ends the loop: the status it tests is always success.\<close>

lemma response_success:
  "fst (run_state process_make_connection_msg_response w) \<in> {None, Some AXIS2_SUCCESS}"
  by (auto simp: process_make_connection_msg_response_def run_on_return done_with_def split: option.split prod.split)

lemma polling_loop_never_returns: "fst (run_state (polling_loop turns key wait_time) w) = None"
proof (induction turns arbitrary: w)
  case (Suc turns)
  have "fst (run_state (on_return process_make_connection_msg_response (\<lambda>status.
            if status \<noteq> AXIS2_SUCCESS then done_with () else polling_loop turns key wait_time)) v) = None" for v
    using response_success[of v] Suc by (auto simp: run_on_return split: option.split prod.split)
  then show ?case by (auto simp: undefined_behaviour_def split: option.split prod.split)
qed simp

lemma polling_worker_never_returns: "fst (run_state (polling_worker turns wait_time i) w) = None"
  by (simp add: polling_worker_def polling_loop_never_returns split: prod.split)

text \<open>
  While the message is stored every turn sends it, without a count and without a limit; once it is removed, as the
  termination of the sequence does, the next turn works on a null pointer.
\<close>

lemma no_connection_reply:
  "\<forall>k. w_replies w k = None \<Longrightarrow> run_state process_make_connection_msg_response w = (Some AXIS2_SUCCESS, tick w)"
  by (simp add: process_make_connection_msg_response_def done_with_def exec_simps)

theorem polling_sends_in_every_turn:
  assumes "\<forall>k. w_replies w k = None" "\<forall>k ts. w_others w k ts = ts" "ready w" "msg_store_ok (w_msg w)"
    and "msg_store_look (w_msg w) key = Some b" "map_option fst (rebuild_msg_ctx (cf_axis2 (w_conf w)) b) = Some ctx"
    and "mc_transport_out ctx \<noteq> None"
  shows "\<exists>v. run_state (polling_loop turns (Some key) wait_time) w = (None, v)
     \<and> transmissions v = transmissions w + turns \<and> w_sender v = w_sender w"
  using assms
proof (induction turns arbitrary: w)
  case (Suc turns)
  obtain x where x: "rebuild_msg_ctx (cf_axis2 (w_conf w)) b = Some (ctx, x)" using Suc.prems(6) by auto
  let ?w1 = "tick (tick w)"
  let ?w2 = "tick (?w1\<lparr>w_trace := w_trace w @ [Transport_Send (stored_out (w_conf w) ctx)]\<rparr>)"
  have "run_state (axis2_sleep wait_time) w = ((), tick w)"
    using Suc.prems(2) by (intro sleep_alone) (simp add: fun_eq_iff)
  then have "run_state (polling_loop (Suc turns) (Some key) wait_time) w = run_state (polling_loop turns (Some key) wait_time) ?w2"
    using Suc.prems x by (auto simp: exec_simps is_null_simps run_transport run_on_return no_connection_reply)
  moreover have "\<exists>v. run_state (polling_loop turns (Some key) wait_time) ?w2 = (None, v)
     \<and> transmissions v = transmissions ?w2 + turns \<and> w_sender v = w_sender ?w2"
    using Suc.prems by (intro Suc.IH) simp_all
  ultimately show ?case by (auto simp: transmissions_def)
qed simp

lemma polling_reads_null:
  assumes "\<forall>k ts. w_others w k ts = ts" "ready w" "msg_store_ok (w_msg w)" "msg_store_look (w_msg w) key = None"
  shows "w_ub (snd (run_state (polling_loop (Suc turns) (Some key) wait_time) w))"
proof -
  have "run_state (axis2_sleep wait_time) w = ((), tick w)"
    using assms(1) by (intro sleep_alone) (simp add: fun_eq_iff)
  then show ?thesis using assms by (simp add: exec_simps undefined_behaviour_def)
qed

section \<open>What the other side reads\<close>

definition no_connection :: make_connection_t where
  "no_connection = \<lparr>mk_identifier = None, mk_address = None, mk_ns = MAKE_CONNECTION_SPEC_2007_02_NS_URI\<rparr>"

definition mc_address_of :: "string \<Rightarrow> mc_address" where
  "mc_address_of u = \<lparr>ma_epr = Some (Some u), ma_ns = MAKE_CONNECTION_SPEC_2007_02_NS_URI\<rparr>"

lemma connection_namespaces:
  "MAKE_CONNECTION_SPEC_2007_02_NS_URI \<noteq> SPEC_2005_02_NS_URI" "MAKE_CONNECTION_SPEC_2007_02_NS_URI \<noteq> SPEC_2007_02_NS_URI"
  "both_namespaces_supported SPEC_2007_02_NS_URI" "get_rm_ns_val (Some SPEC_VERSION_1_1) = Some SPEC_2007_02_NS_URI"
  by code_simp+

lemma make_connection_part_eq:
  "make_connection_part i u = Inr (no_connection
     \<lparr>mk_identifier := map_option (\<lambda>i. \<lparr>idf_str_id = Some i, idf_ns = SPEC_2007_02_NS_URI\<rparr>) i,
      mk_address := map_option mc_address_of u\<rparr>)"
  using connection_namespaces
  by (simp add: make_connection_part_def make_connection_create_def make_connection_supported_def create_in_def
      no_connection_def mc_address_of_def identifier_create_def mc_address_create_def Let_def split: option.split)

context om_tree begin

text \<open>The node of the element, and what its reader finds there.\<close>

definition connection_node :: "string \<Rightarrow> cstr \<Rightarrow> 'n" where
  "connection_node i u =
     (let m = om_add_child om (text_element om WSRM_IDENTIFIER SPEC_2007_02_NS_URI WSRM_PREFIX i)
                (om_create om WSRM_MAKE_CONNECTION MAKE_CONNECTION_SPEC_2007_02_NS_URI WSMC_PREFIX)
      in optional_child (map_option (text_element om WSMC_ADDRESS MAKE_CONNECTION_SPEC_2007_02_NS_URI WSMC_PREFIX) u) m)"

lemma connection_node:
  shows "om_is_element om (connection_node i u)"
    "om_name om (connection_node i u) = (WSRM_MAKE_CONNECTION, Some MAKE_CONNECTION_SPEC_2007_02_NS_URI)"
    "om_children om (connection_node i u) WSRM_IDENTIFIER MAKE_CONNECTION_SPEC_2007_02_NS_URI = []"
    "om_children om (connection_node i u) WSA_ADDRESS MAKE_CONNECTION_SPEC_2007_02_NS_URI
       = (case u of None \<Rightarrow> [] | Some a \<Rightarrow> [text_element om WSMC_ADDRESS MAKE_CONNECTION_SPEC_2007_02_NS_URI WSMC_PREFIX a])"
  unfolding connection_node_def Let_def using connection_namespaces
  by (auto simp: optional_child om_simps wsrm_names split: option.split)

lemma connection_written:
  assumes "i \<noteq> ''''" "u \<noteq> Some ''''" "make_connection_part (Some i) u = Inr part"
  shows "fst (make_connection_to_om_node om part body) = om_add_child om (connection_node i u) body" "mk_ns part = MAKE_CONNECTION_SPEC_2007_02_NS_URI"
  using assms
  by (auto simp: make_connection_part_eq no_connection_def make_connection_to_om_node_def connection_node_def Let_def
      identifier_to_om_node_def mc_address_to_om_node_def mc_address_of_def no_text_def optional_child_def split: option.split)

lemma connection_read:
  assumes "u \<noteq> Some ''''"
  shows "fst (make_connection_from_om_node om no_connection (connection_node i u))
     = no_connection\<lparr>mk_address := map_option mc_address_of u\<rparr>"
proof (cases u)
  case None
  then show ?thesis using connection_node[of i u]
    by (simp add: make_connection_from_om_node_def no_connection_def first_child Let_def)
next
  case (Some a)
  then have "om_text om (text_element om WSMC_ADDRESS MAKE_CONNECTION_SPEC_2007_02_NS_URI WSMC_PREFIX a) = Some a" "a \<noteq> []"
    using assms by simp_all
  then show ?thesis using connection_node[of i u] Some
    by (simp add: make_connection_from_om_node_def no_connection_def first_child mc_address_create_def create_in_def
        mc_address_from_om_node_def mc_address_of_def child_text_eq Let_def)
qed

end

text \<open>The namespace of the message, and the elements that are read in it.\<close>

lemma connection_action_ns:
  "SPEC_2007_02_ACTION_MAKE_CONNECTION \<notin> {action_2005_02 ''CreateSequence'', action_2005_02 ''CreateSequenceResponse'',
      action_2005_02 ''SequenceAcknowledgement'', action_2005_02 ''TerminateSequence''}"
  "SPEC_2007_02_ACTION_MAKE_CONNECTION \<notin> {action_2007_02 ''CreateSequence'', action_2007_02 ''CreateSequenceResponse'',
      action_2007_02 ''SequenceAcknowledgement'', action_2007_02 ''TerminateSequence'', action_2007_02 ''CloseSequence'',
      action_2007_02 ''TerminateSequenceResponse'', action_2007_02 ''CloseSequenceResponse''}"
  by code_simp+

definition connection_ctx :: "make_connection_t \<Rightarrow> 'n rm_msg_ctx" where
  "connection_ctx part = msg_ctx_create\<lparr>ctx_elements := rm_elements_create\<lparr>el_make_connection := Some part\<rparr>\<rparr>"

definition peer_reads :: "cstr \<Rightarrow> make_connection_t" where
  "peer_reads u = no_connection\<lparr>mk_address := map_option mc_address_of u\<rparr>"

context om_tree begin

lemma connection_envelope:
  assumes "fresh_envelope om env" "i \<noteq> ''''" "u \<noteq> Some ''''" "make_connection_part (Some i) u = Inr part"
    and "get_addr_ns_val_from_env om wsa env (Some SPEC_2007_02_ACTION_MAKE_CONNECTION) = Some addr_ns"
  defines "env' \<equiv> env\<lparr>se_body := om_add_child om (connection_node i u) (se_body env)\<rparr>"
  shows "add_soap_envelope om d (connection_ctx part) (Some env) = Some env'"
    "from_soap_envelope om wsa env' (Some SPEC_2007_02_ACTION_MAKE_CONNECTION)
       = Some (rm_elements_create\<lparr>el_make_connection := Some (peer_reads u)\<rparr>, AXIS2_SUCCESS)"
proof -
  let ?mc = "MAKE_CONNECTION_SPEC_2007_02_NS_URI"
  obtain h where h: "se_header env = Some h" "om_is_element om h" "om_is_element om (se_body env)"
    and fresh: "\<And>ns c. ns \<in> {SPEC_2005_02_NS_URI, SPEC_2007_02_NS_URI, ?mc} \<Longrightarrow> c \<in> set (om_elements om h @ om_elements om (se_body env))
       \<Longrightarrow> snd (om_name om c) \<noteq> Some ns"
    using assms(1) by (force simp: fresh_envelope_def list_all_iff split: option.splits)
  have none: "om_blocks_with_uri om h ns = []" "om_children om h l ns = []" "om_children om (se_body env) l ns = []"
    if "ns \<in> {SPEC_2005_02_NS_URI, SPEC_2007_02_NS_URI, ?mc}" for ns l
    using fresh[OF that] by (force simp: blocks children filter_empty_conv)+
  have same: "om_remove_child om WSRM_MAKE_CONNECTION ?mc (se_body env) = se_body env"
    using none(3)[of ?mc] remove_child(3) by simp
  show "add_soap_envelope om d (connection_ctx part) (Some env) = Some env'"
    using connection_written[OF assms(2-4)] same
    by (simp add: add_soap_envelope_def connection_ctx_def rm_elements_create_def write_if_def make_connection_to_soap_envelope_def
        into_body_def env'_def Let_def)
  have body: "om_children om (se_body env') l ?mc = (if l = WSRM_MAKE_CONNECTION then [connection_node i u] else [])" for l
    using h none(3)[of ?mc] connection_node(1,2)[of i u] by (simp add: env'_def)
  have new: "make_connection_create (Some ?mc) = Inr no_connection"
    using connection_namespaces by (simp add: make_connection_create_def make_connection_supported_def create_in_def no_connection_def)
  have "read_elements om ?mc addr_ns h (se_body env') = Some (rm_elements_create\<lparr>el_make_connection := Some (peer_reads u)\<rparr>)"
    using connection_read[OF assms(3), of i] none(2)[of ?mc]
    by (simp add: read_elements_def read_element_def read_msg_pending_def first_child body new wsrm_names rm_elements_create_def
        peer_reads_def)
  moreover have "get_rm_ns_val_of om env' (Some SPEC_2007_02_ACTION_MAKE_CONNECTION) = Some ?mc"
    using h none(1) connection_action_ns by (simp add: get_rm_ns_val_of_def has_blocks_def env'_def)
  moreover have "get_addr_ns_val_from_env om wsa env' (Some SPEC_2007_02_ACTION_MAKE_CONNECTION) = Some addr_ns"
    using assms(5) by (simp add: get_addr_ns_val_from_env_def env'_def)
  ultimately show "from_soap_envelope om wsa env' (Some SPEC_2007_02_ACTION_MAKE_CONNECTION)
       = Some (rm_elements_create\<lparr>el_make_connection := Some (peer_reads u)\<rparr>, AXIS2_SUCCESS)"
    using h(1) by (simp add: from_soap_envelope_def env'_def)
qed

end

text \<open>C38: the MakeConnection message that the polling manager builds for a sequence, written into an envelope
  and read by the other side: the identifier of the sequence is never read, only the address of an
  anonymous client is, and a message without that address is the one that the validation refuses.\<close>

theorem connection_message_read_back:
  assumes "om_tree om" "fresh_envelope om env" "i \<noteq> ''''" "u = polling_anon_uri reply_to (Some i)"
    and "get_addr_ns_val_from_env om wsa env (Some SPEC_2007_02_ACTION_MAKE_CONNECTION) = Some addr_ns"
  shows "\<exists>part env' k. make_connection_part (Some i) u = Inr part
     \<and> add_soap_envelope om d (connection_ctx part) (Some env) = Some env'
     \<and> from_soap_envelope om wsa env' (Some SPEC_2007_02_ACTION_MAKE_CONNECTION)
         = Some (rm_elements_create\<lparr>el_make_connection := Some k\<rparr>, AXIS2_SUCCESS)
     \<and> mk_identifier k = None \<and> map_option ma_epr (mk_address k) = map_option (\<lambda>a. Some (Some a)) u
     \<and> map_option snd (validate_msg v (ctx\<lparr>ctx_elements := rm_elements_create\<lparr>el_make_connection := Some k\<rparr>\<rparr>))
         = Some (if u = None then Inl ERROR_INVALID_MAKE_CONNECTION_MSG else Inr ())"
proof -
  have "u \<noteq> Some ''''" using assms(4) by (auto simp: polling_anon_uri_def WS_RM_ANONYMOUS_URL_def)
  moreover have "make_connection_part (Some i) u = Inr (no_connection
     \<lparr>mk_identifier := Some \<lparr>idf_str_id = Some i, idf_ns = SPEC_2007_02_NS_URI\<rparr>, mk_address := map_option mc_address_of u\<rparr>)" (is "_ = Inr ?p")
    by (simp add: make_connection_part_eq)
  moreover have "map_option snd (validate_msg v (ctx\<lparr>ctx_elements := rm_elements_create\<lparr>el_make_connection := Some (peer_reads u)\<rparr>\<rparr>))
         = Some (if u = None then Inl ERROR_INVALID_MAKE_CONNECTION_MSG else Inr ())"
    by (cases u) (simp_all add: validate_msg_def type_and_seq_id_def rm_elements_create_def peer_reads_def no_connection_def Let_def)
  ultimately show ?thesis
    using om_tree.connection_envelope(1)[OF assms(1,2,3) _ _ assms(5), of u ?p d]
      om_tree.connection_envelope(2)[OF assms(1,2,3) _ _ assms(5), of u ?p]
    by (intro exI[of _ ?p] exI[of _ "env\<lparr>se_body := om_add_child om (om_tree.connection_node om i u) (se_body env)\<rparr>"]
        exI[of _ "peer_reads u"]) (simp add: peer_reads_def no_connection_def mc_address_of_def map_option_case split: option.split)
qed

text \<open>The message for a client that is not anonymous: its reader finds nothing in it.\<close>

theorem connection_message_read_back_witness:
  "\<exists>part env' k. make_connection_part (Some ''rms'') None = Inr part
     \<and> add_soap_envelope om_of_xml sample_envelope (connection_ctx part) (Some sample_envelope) = Some env'
     \<and> from_soap_envelope om_of_xml sample_addressing env' (Some SPEC_2007_02_ACTION_MAKE_CONNECTION)
         = Some (rm_elements_create\<lparr>el_make_connection := Some k\<rparr>, AXIS2_SUCCESS)
     \<and> mk_identifier k = None \<and> map_option ma_epr (mk_address k) = map_option (\<lambda>a. Some (Some a)) None
     \<and> map_option snd (validate_msg (Some SPEC_VERSION_1_1)
           (sample_ctx\<lparr>ctx_elements := rm_elements_create\<lparr>el_make_connection := Some k\<rparr>\<rparr>))
         = Some (if None = (None :: cstr) then Inl ERROR_INVALID_MAKE_CONNECTION_MSG else Inr ())"
proof -
  have "(''rms'' :: string) \<noteq> ''''" "None = polling_anon_uri (Some ''http://client'') (Some ''rms'')"
    by (simp, code_simp)
  then show ?thesis
    using connection_message_read_back[OF xml.om_tree_axioms sample_facts(3) _ _ sample_facts(4)] by blast
qed

end
