(* ===== verification/Spec2Isabelle.thy ===== *)
theory Spec2Isabelle
  imports Storage_Mgr Invoker_Mgr Msg_Retrans_Adjuster Received_Numbers Sending Prop_Refinement Wire Property_Mgr Close_Props Polling_Mgr
begin

text \<open>
  A model of Sandesha2/C, the WS-ReliableMessaging module of Axis2/C, translated from the C
  sources under \<open>src/src\<close>.

  The program keeps the state of reliable sequences in a SQLite database.  Its handlers and
  message processors read and write that database while a message goes through the Axis2
  engine: they create sequences, number and store outgoing messages, record the numbers of
  incoming ones, acknowledge them, resend what is not acknowledged, and clean up when a
  sequence terminates or times out.

  \<^bold>\<open>Theories, in the order of the layers.\<close>
  \<^item> \<open>Prelude\<close>: C strings and numbers as the code uses them (\<open>sprintf\<close>, \<open>atol\<close>, \<open>strtok\<close>,
    \<open>strstr\<close>, the text \<open>(null)\<close> of a null pointer), status values.
  \<^item> \<open>Sandesha_Constants\<close> (\<open>include/sandesha2_constants.h\<close>), \<open>Spec_Specific_Consts\<close>
    (\<open>util/spec_specific_consts.c\<close>), \<open>Utils\<close> (\<open>util/sandesha2_utils.c\<close>).
  \<^item> \<open>Beans\<close> (\<open>storage/beans\<close>), \<open>Bean_Mgr\<close> (\<open>storage/sqlite/permanent_bean_mgr.c\<close>): the
    structures, and the execution of statements with the busy handler.  The contracts of a
    table with and without a primary key are locales there; \<open>Sender_Mgr\<close>, \<open>Next_Msg_Mgr\<close>,
    \<open>Create_Seq_Mgr\<close>, \<open>Seq_Property_Mgr\<close>, \<open>Invoker_Mgr\<close> and \<open>Msg_Store\<close> model the
    tables' managers and interpret the locales on them.
  \<^item> \<open>Storage_Mgr\<close> (\<open>storage/sqlite/permanent_storage_mgr.c\<close>): message contexts to rows and back.
  \<^item> \<open>World\<close>: the state of all components in one record, the messages as the code reads them, and
    the managers' operations as computations of the state monad.  \<open>World_Exec\<close> has the rules
    by which runs of handlers are computed.
  \<^item> \<open>Seq_Mgr\<close>, \<open>Ack_Mgr\<close>, \<open>Fault_Mgr\<close>, \<open>Terminate_Mgr\<close>, \<open>Msg_Retrans_Adjuster\<close>
    (\<open>util/*.c\<close> of these names, with parts of \<open>util/msg_creator.c\<close>).
  \<^item> \<open>Prop_Values\<close>: the values of sequence properties, and \<open>Frames\<close>: invariants of handlers
    by their structure, for any answers of the database.
  \<^item> \<open>Msg_Creator\<close> (\<open>util/msg_creator.c\<close>), and a theory for each message processor
    (\<open>msgprocessors/*.c\<close>).  \<open>App_Msg_Processor\<close> has the receiving side of the application
    messages, \<open>App_Msg_Sender\<close> the sending side with the worker threads; \<open>Close_Seq_Sender\<close> the sending
    side of \<open>close_seq_msg_processor.c\<close>, which gives the response on its connection to the incoming handlers, and \<open>Close_Props\<close> what
    becomes of a sequence that is closed.
  \<^item> \<open>In_Handler\<close>, \<open>Global_In_Handler\<close>, \<open>Out_Handler\<close> (\<open>handlers/*.c\<close>): the handlers the engine calls,
    and with them the whole way of a message.
  \<^item> \<open>Om_Tree\<close>: the interface of the XML object model AXIOM, a record of functions whose documented
    laws are the locale \<open>om_tree\<close>, interpreted on XML trees.  \<open>Wsrm_Parts\<close>, \<open>Wsrm_Elements\<close> (\<open>wsrm/*.c\<close>):
    the parts of messages, read from nodes and written into them; \<open>Rm_Elements\<close>
    (\<open>wsrm/rm_elements.c\<close>, \<open>core/sandesha2_msg_ctx.c\<close>, \<open>util/msg_init.c\<close>): whole messages and how they are
    recognised; an outer \<open>None\<close> is an access to a null pointer.  \<open>Wsrm_Roundtrip\<close> and \<open>Envelopes\<close> show, inside the
    locale, what is read of what was written; \<open>Wire\<close> has the properties, from the table of one side to the
    table of the other.
  \<^item> \<open>Property_Mgr\<close> (\<open>util/property_mgr.c\<close>): the options of a service from its policy, from the module, or by default.
  \<^item> \<open>Seq_Report\<close> (\<open>client/sequence_report.c\<close>, \<open>client/report.c\<close>) and \<open>Client\<close> (\<open>client/client.c\<close>): the functions
    the application calls for reports, for creating, terminating and closing a sequence, for asking for
    acknowledgements and for waiting; \<open>Client_Props\<close> has what the reports tell and when waiting ends, against the
    states in which the other components leave the tables.
  \<^item> \<open>Polling_Mgr\<close> (\<open>polling/polling_mgr.c\<close>): the thread that asks for messages with MakeConnection, which nothing
    starts: it does not end, and what the other side reads of its message.
  \<^item> \<open>Prop_Refinement\<close>: the property table against its specification, a map.
  \<^item> \<open>Received_Numbers\<close> (what is recorded of received messages), \<open>Keeping\<close> (what every handler
    keeps, and the steps of the whole module), \<open>Sending\<close> (the numbers and loops of the sending side).

  \<^bold>\<open>State.\<close>  A table is the list of its rows in the order of their insertion; a text column holds
  what \<open>sprintf\<close> wrote into the statement, so a null pointer is stored as \<open>(null)\<close>.  The record
  \<open>world\<close> has the seven tables; the answers of the environment, each indexed by the number of the
  step that asks (whether the database opens and is busy, the clock, unique ids, whether the engine
  sends); the configuration; the trace of effects on the Axis2 engine and the message
  context; and a flag that is set where the C code uses freed memory or a null pointer.

  \<^bold>\<open>Parameters.\<close>  Axis2, Axiom and the other libraries are not under \<open>src\<close>: their constants, the
  parser, the policy of the service and the like are fields of \<open>conf\<close>, \<open>axis2_conf\<close> and
  \<open>axis2_keys\<close>, and what a property relies on is a premise.

  \<^bold>\<open>Errors and bounds.\<close>  A null return with an error set is \<open>Inl\<close> of the error; \<open>AXIS2_FAILURE\<close>
  without one is a status.  The busy handler gives up after ten attempts (its measure is in
  \<open>Bean_Mgr\<close>); the walk of \<open>verify_seq_completion\<close> need not end and is a partial function, with
  theorems for when it does and when it does not.  The loops of the sending side that wait for the
  other side take the number of turns they may run; \<open>None\<close> is a call that has not returned by then,
  and the properties are stated for any number of turns, or for one that is enough.  \<open>long\<close> is \<open>int\<close>: the numbers the code computes are
  message numbers and seconds, and \<open>atol\<close> is exact on the range of \<open>long\<close>; an overflow of \<open>long\<close>, as
  after a message to which the client gave the largest number, is not modelled.

  \<^bold>\<open>Properties\<close> stand in the theory of the component they are about and carry their claim ids.

  \<^bold>\<open>Not modelled.\<close>  SQLite; the scheduling of threads, whose functions are modelled and whose effects on
  each other are changes of the tables while one sleeps; the dispatch through
  \<open>storage/common\<close> to the only implementation, the texts of errors (\<open>util/error.c\<close>) and the module that creates the
  handlers (\<open>core/mod_sandesha2.c\<close>); accessors that only pass a pointer on, and the functions of
  \<open>util/sandesha2_utils.c\<close> that copy objects of Axis2; functions that nothing calls:
  \<open>utils_execute_and_store\<close>, \<open>storage_mgr_store_response\<close> and \<open>core/msg_validator.c\<close>; the
  rewriting of the envelope by \<open>sandesha2_in_handler_invoke\<close> after it cleared the must-understand mark of an
  AckRequested, which no processor looks at; logging and the release of
  memory, except where a double release changes what is defined behaviour.  Statements are
  modelled for texts without quotes that fit the fixed buffers.
\<close>

end
